(* ===== verification/Prelude.thy ===== *)
theory Prelude
  imports Main "HOL-Library.Char_ord" "HOL-Library.List_Lexorder" "HOL-Library.Multiset"
begin

section \<open>Shared vocabulary of the development\<close>

text \<open>
  Error values, the log of writes a reconciler sends to the Kubernetes API, the Go library
  functions the control plane uses on strings and paths, and JSON as encoded by
  encoding/json. Strings are byte strings (\<^typ>\<open>string\<close>); the functions that Go defines on
  Unicode letters (ToLower, TrimSpace) are given on ASCII, the alphabet of every name, digest,
  ARN and reason the code compares. Instants are nanoseconds counted from Go's zero Time, so
  \<open>0\<close> is the zero Time.
\<close>

named_theorems eff_simps \<open>the effect log combinators\<close>
named_theorems gostr \<open>Go string functions\<close>

type_synonym time = int
type_synonym duration = int
type_synonym gomap = "(string \<times> string) list"

abbreviation second :: duration where "second \<equiv> 1000000000"
abbreviation minute :: duration where "minute \<equiv> 60 * second"
abbreviation hour :: duration where "hour \<equiv> 60 * minute"

subsection \<open>Errors\<close>

text \<open>
  A Go error is a text, an API status error with its reason, a network or HTTP error, or a wrapped error
  (\<open>fmt.Errorf("...: %w", err)\<close>), whose class stays visible to errors.As.
\<close>

datatype api_reason =
    NotFound | AlreadyExists | Conflict | Invalid | Forbidden | BadRequest
  | Timeout | ServerTimeout | ServiceUnavailable | TooManyRequests | Internal

datatype gerr =
    Err string
  | ApiErr api_reason string
  | NetErr string
  | HttpErr nat string
  | Wrap string gerr

primrec err_text :: "gerr \<Rightarrow> string" where
  "err_text (Err m) = m"
| "err_text (ApiErr r m) = m"
| "err_text (NetErr m) = m"
| "err_text (HttpErr c m) = m"
| "err_text (Wrap p e) = p @ '': '' @ err_text e"

primrec api_reason_of :: "gerr \<Rightarrow> api_reason option" where
  "api_reason_of (Err m) = None"
| "api_reason_of (ApiErr r m) = Some r"
| "api_reason_of (NetErr m) = None"
| "api_reason_of (HttpErr c m) = None"
| "api_reason_of (Wrap p e) = api_reason_of e"

text \<open>The HTTP status of an error from the object store (errors.As on http.ResponseError).\<close>

primrec http_status_of :: "gerr \<Rightarrow> nat option" where
  "http_status_of (Err m) = None"
| "http_status_of (ApiErr r m) = None"
| "http_status_of (NetErr m) = None"
| "http_status_of (HttpErr c m) = Some c"
| "http_status_of (Wrap p e) = http_status_of e"

definition is_not_found :: "gerr \<Rightarrow> bool" where
  "is_not_found e \<longleftrightarrow> api_reason_of e = Some NotFound"

definition is_already_exists :: "gerr \<Rightarrow> bool" where
  "is_already_exists e \<longleftrightarrow> api_reason_of e = Some AlreadyExists"

text \<open>
  A Go function that returns the first violated condition of a sequence of checks.
\<close>

fun first_error :: "(bool \<times> string) list \<Rightarrow> gerr option" where
  "first_error [] = None"
| "first_error ((bad, m) # cs) = (if bad then Some (Err m) else first_error cs)"

lemma first_error_None_iff [simp]: "first_error cs = None \<longleftrightarrow> (\<forall>c \<in> set cs. \<not> fst c)"
  by (induction cs rule: first_error.induct) auto

declare first_error.simps [simp del]

text \<open>Checks in sequence: the second runs when the first reports no error.\<close>

definition and_then :: "gerr option \<Rightarrow> gerr option \<Rightarrow> gerr option" where
  "and_then a b = (case a of Some e \<Rightarrow> Some e | None \<Rightarrow> b)"

lemma and_then_None [simp]: "and_then a b = None \<longleftrightarrow> a = None \<and> b = None"
  by (simp add: and_then_def split: option.splits)

text \<open>A check before a result: the error of the check, or the result.\<close>

definition checked :: "gerr option \<Rightarrow> gerr + 'a \<Rightarrow> gerr + 'a" where
  "checked c r = (case c of Some e \<Rightarrow> Inl e | None \<Rightarrow> r)"

lemma checked_Inr [simp]: "checked c r = Inr a \<longleftrightarrow> c = None \<and> r = Inr a"
  by (simp add: checked_def split: option.splits)

definition sum_bind :: "gerr + 'a \<Rightarrow> ('a \<Rightarrow> gerr + 'b) \<Rightarrow> gerr + 'b" where
  "sum_bind m f = (case m of Inl e \<Rightarrow> Inl e | Inr a \<Rightarrow> f a)"

lemma sum_bind_Inr [simp]: "sum_bind m f = Inr b \<longleftrightarrow> (\<exists>a. m = Inr a \<and> f a = Inr b)"
  by (simp add: sum_bind_def split: sum.splits)

lemma api_reason_simps [simp]:
  "is_not_found (ApiErr r m) = (r = NotFound)"
  "is_not_found (Err m) = False"
  "is_not_found (NetErr m) = False"
  "is_not_found (Wrap p e) = is_not_found e"
  "is_already_exists (ApiErr r m) = (r = AlreadyExists)"
  "is_already_exists (Err m) = False"
  by (simp_all add: is_not_found_def is_already_exists_def)

subsection \<open>Reconcile results and the log of writes\<close>

text \<open>
  A reconciler returns the requests it sent to the API server, in order, and its result. The
  server's answer to a request is a function given by the environment (\<open>None\<close> for success).
  \<open>perform ans w k\<close> sends \<open>w\<close> and goes on with \<open>k\<close> unless the answer is an error;
  \<open>perform_unless p ans w k\<close> also goes on when the error satisfies \<open>p\<close>.
\<close>

record ctrl_result =
  Requeue :: bool
  RequeueAfter :: duration

definition done_result :: ctrl_result where
  "done_result = \<lparr>Requeue = False, RequeueAfter = 0\<rparr>"

definition requeue_now :: ctrl_result where
  "requeue_now = \<lparr>Requeue = True, RequeueAfter = 0\<rparr>"

definition requeue_after :: "duration \<Rightarrow> ctrl_result" where
  "requeue_after d = \<lparr>Requeue = False, RequeueAfter = d\<rparr>"

type_synonym ('w, 'a) eff = "'w list \<times> (gerr + 'a)"

definition ret :: "'a \<Rightarrow> ('w, 'a) eff" where
  "ret a = ([], Inr a)"

definition fail :: "gerr \<Rightarrow> ('w, 'a) eff" where
  "fail e = ([], Inl e)"

definition perform :: "('w \<Rightarrow> gerr option) \<Rightarrow> 'w \<Rightarrow> ('w, 'a) eff \<Rightarrow> ('w, 'a) eff" where
  "perform ans w k = (case ans w of Some e \<Rightarrow> ([w], Inl e) | None \<Rightarrow> (w # fst k, snd k))"

definition perform_unless ::
  "(gerr \<Rightarrow> bool) \<Rightarrow> ('w \<Rightarrow> gerr option) \<Rightarrow> 'w \<Rightarrow> ('w, 'a) eff \<Rightarrow> ('w, 'a) eff" where
  "perform_unless p ans w k =
     (case ans w of
        Some e \<Rightarrow> if p e then (w # fst k, snd k) else ([w], Inl e)
      | None \<Rightarrow> (w # fst k, snd k))"

definition eff_bind :: "('w, 'a) eff \<Rightarrow> ('a \<Rightarrow> ('w, 'b) eff) \<Rightarrow> ('w, 'b) eff" where
  "eff_bind m f = (case snd m of
      Inl e \<Rightarrow> (fst m, Inl e)
    | Inr a \<Rightarrow> (fst m @ fst (f a), snd (f a)))"

lemma eff_basic [simp]:
  "fst (ret a) = []" "snd (ret a) = Inr a" "fst (fail e) = []" "snd (fail e) = Inl e"
  by (simp_all add: ret_def fail_def)

lemma perform_log [eff_simps]:
  "w \<in> set (fst (perform ans v k)) \<longleftrightarrow> w = v \<or> (ans v = None \<and> w \<in> set (fst k))"
  by (auto simp: perform_def split: option.splits)

lemma perform_result [eff_simps]:
  "snd (perform ans v k) = (case ans v of Some e \<Rightarrow> Inl e | None \<Rightarrow> snd k)"
  by (simp add: perform_def split: option.splits)

lemma perform_unless_log [eff_simps]:
  "w \<in> set (fst (perform_unless p ans v k)) \<longleftrightarrow>
     w = v \<or> ((case ans v of None \<Rightarrow> True | Some e \<Rightarrow> p e) \<and> w \<in> set (fst k))"
  by (auto simp: perform_unless_def split: option.splits)

lemma perform_unless_result [eff_simps]:
  "snd (perform_unless p ans v k) =
     (case ans v of None \<Rightarrow> snd k | Some e \<Rightarrow> if p e then snd k else Inl e)"
  by (simp add: perform_unless_def split: option.splits)

lemma eff_bind_log [eff_simps]:
  "w \<in> set (fst (eff_bind m f)) \<longleftrightarrow>
     w \<in> set (fst m) \<or> (\<exists>a. snd m = Inr a \<and> w \<in> set (fst (f a)))"
  by (auto simp: eff_bind_def split: sum.splits)

lemma eff_bind_result [eff_simps]:
  "snd (eff_bind m f) = (case snd m of Inl e \<Rightarrow> Inl e | Inr a \<Rightarrow> snd (f a))"
  by (simp add: eff_bind_def split: sum.splits)

subsection \<open>Computations that act on a state\<close>

text \<open>
  A sequence of calls to something outside the program: each call answers from a state and leaves the
  next one, an error ends the sequence. The state is the history of the requests sent, or the world a
  command changes.
\<close>

type_synonym ('s, 'a) stateful = "'s \<Rightarrow> (gerr + 'a) \<times> 's"

named_theorems session_simps \<open>running a session\<close>

definition s_ret :: "'a \<Rightarrow> ('s, 'a) stateful" where
  "s_ret a = (\<lambda>h. (Inr a, h))"

definition s_fail :: "gerr \<Rightarrow> ('s, 'a) stateful" where
  "s_fail e = (\<lambda>h. (Inl e, h))"

definition s_bind :: "('s, 'a) stateful \<Rightarrow> ('a \<Rightarrow> ('s, 'b) stateful) \<Rightarrow> ('s, 'b) stateful" where
  "s_bind m f = (\<lambda>h. case m h of (Inl e, h') \<Rightarrow> (Inl e, h') | (Inr a, h') \<Rightarrow> f a h')"

text \<open>Go's \<open>if err != nil\<close> with a continuation for both outcomes.\<close>

definition s_case :: "('s, 'a) stateful \<Rightarrow> (gerr \<Rightarrow> ('s, 'b) stateful) \<Rightarrow> ('a \<Rightarrow> ('s, 'b) stateful) \<Rightarrow> ('s, 'b) stateful" where
  "s_case m f g = (\<lambda>h. case m h of (Inl e, h') \<Rightarrow> f e h' | (Inr a, h') \<Rightarrow> g a h')"

text \<open>A look at the state, and a check, in a sequence.\<close>

definition s_look :: "('s \<Rightarrow> gerr + 'a) \<Rightarrow> ('s, 'a) stateful" where
  "s_look f = (\<lambda>h. (f h, h))"

definition s_check :: "gerr option \<Rightarrow> ('s, unit) stateful" where
  "s_check c = (case c of Some e \<Rightarrow> s_fail e | None \<Rightarrow> s_ret ())"

lemma s_simps [session_simps]:
  "s_ret a h = (Inr a, h)" "s_fail e h = (Inl e, h)" "s_look f h = (f h, h)"
  by (simp_all add: s_ret_def s_fail_def s_look_def)

lemma s_bind_cases:
  assumes "s_bind m f h = (res, h')"
  obtains (failed) e where "m h = (Inl e, h')" and "res = Inl e"
  | (went_on) a h1 where "m h = (Inr a, h1)" and "f a h1 = (res, h')"
  using assms by (auto simp: s_bind_def split: prod.splits sum.splits)

lemma s_case_cases:
  assumes "s_case m f g h = (res, h')"
  obtains (failed) e h1 where "m h = (Inl e, h1)" and "f e h1 = (res, h')"
  | (went_on) a h1 where "m h = (Inr a, h1)" and "g a h1 = (res, h')"
  using assms by (auto simp: s_case_def split: prod.splits sum.splits)

lemma s_bind_Inr:
  "s_bind m f h = (Inr b, h') \<longleftrightarrow> (\<exists>a h1. m h = (Inr a, h1) \<and> f a h1 = (Inr b, h'))"
  by (auto simp: s_bind_def split: prod.splits sum.splits)

lemma s_check_cases: "s_check c h = (case c of Some e \<Rightarrow> (Inl e, h) | None \<Rightarrow> (Inr (), h))"
  by (simp add: s_check_def session_simps split: option.splits)

subsection \<open>Go maps and string slices\<close>

text \<open>
  A Go map with string keys is the list of its entries in key order, each key once; reading a
  missing key gives the zero value, the empty string.
\<close>

definition glookup :: "gomap \<Rightarrow> string \<Rightarrow> string" where
  "glookup m k = (case map_of m k of None \<Rightarrow> [] | Some v \<Rightarrow> v)"

definition gset :: "gomap \<Rightarrow> string \<Rightarrow> string \<Rightarrow> gomap" where
  "gset m k v = sort_key fst ((k, v) # filter (\<lambda>e. fst e \<noteq> k) m)"

definition ghas :: "gomap \<Rightarrow> string \<Rightarrow> bool" where
  "ghas m k \<longleftrightarrow> map_of m k \<noteq> None"

lemma map_of_filter_neq: "map_of (filter (\<lambda>e. fst e \<noteq> k) m) j = (if j = k then None else map_of m j)"
  by (induction m) auto

lemma gset_distinct: "distinct (map fst m) \<Longrightarrow> distinct (map fst (gset m k v))"
proof -
  assume d: "distinct (map fst m)"
  have "distinct (map fst ((k, v) # filter (\<lambda>e. fst e \<noteq> k) m))"
    using d by (auto simp: distinct_map inj_on_def)
  moreover have "mset (map fst (gset m k v)) = mset (map fst ((k, v) # filter (\<lambda>e. fst e \<noteq> k) m))"
    unfolding gset_def mset_map mset_sort ..
  ultimately show ?thesis by (metis mset_eq_imp_distinct_iff)
qed

lemma map_of_gset:
  assumes "distinct (map fst m)"
  shows "map_of (gset m k v) = (map_of m)(k \<mapsto> v)"
proof -
  let ?l = "(k, v) # filter (\<lambda>e. fst e \<noteq> k) m"
  have dl: "distinct (map fst ?l)" using assms by (auto simp: distinct_map inj_on_def)
  have dg: "distinct (map fst (gset m k v))" by (rule gset_distinct [OF assms])
  have "set (gset m k v) = set ?l" unfolding gset_def set_sort ..
  then have "map_of (gset m k v) = map_of ?l"
    using dl dg by (metis map_of_eqI map_of_inject_set)
  then show ?thesis by (auto simp: map_of_filter_neq fun_eq_iff)
qed

definition contains_string :: "string list \<Rightarrow> string \<Rightarrow> bool" where
  "contains_string values want \<longleftrightarrow> want \<in> set values"

subsection \<open>Strings\<close>

definition has_prefix :: "string \<Rightarrow> string \<Rightarrow> bool" where
  "has_prefix s p \<longleftrightarrow> take (length p) s = p"

definition has_suffix :: "string \<Rightarrow> string \<Rightarrow> bool" where
  "has_suffix s p \<longleftrightarrow> has_prefix (rev s) (rev p)"

fun str_contains :: "string \<Rightarrow> string \<Rightarrow> bool" where
  "str_contains [] p = (p = [])"
| "str_contains (c # s) p = (has_prefix (c # s) p \<or> str_contains s p)"

lemma str_contains_iff: "str_contains s p \<longleftrightarrow> (\<exists>a b. s = a @ p @ b)"
proof (induction s)
  case (Cons c s)
  have "has_prefix (c # s) p \<longleftrightarrow> (\<exists>b. c # s = p @ b)"
    unfolding has_prefix_def by (metis append_eq_conv_conj append_take_drop_id)
  moreover have "(\<exists>a b. c # s = a @ p @ b) \<longleftrightarrow> (\<exists>b. c # s = p @ b) \<or> (\<exists>a b. s = a @ p @ b)"
    by (metis append_Cons append_Nil list.exhaust list.inject)
  ultimately show ?case using Cons.IH by simp
qed simp

lemma has_suffix_iff: "has_suffix s p \<longleftrightarrow> (\<exists>a. s = a @ p)"
  by (metis append_take_drop_id has_suffix_def has_prefix_def append_eq_conv_conj length_rev rev_append rev_rev_ident)

definition trim_prefix :: "string \<Rightarrow> string \<Rightarrow> string" where
  "trim_prefix s p = (if has_prefix s p then drop (length p) s else s)"

definition trim_right :: "(char \<Rightarrow> bool) \<Rightarrow> string \<Rightarrow> string" where
  "trim_right p s = rev (dropWhile p (rev s))"

definition trim_both :: "(char \<Rightarrow> bool) \<Rightarrow> string \<Rightarrow> string" where
  "trim_both p s = trim_right p (dropWhile p s)"

definition is_space :: "char \<Rightarrow> bool" where
  "is_space c \<longleftrightarrow> c \<in> {CHR '' '', CHR 0x09, CHR 0x0A, CHR 0x0B, CHR 0x0C, CHR 0x0D}"

definition trim_space :: "string \<Rightarrow> string" where
  "trim_space s = trim_both is_space s"

definition lower_char :: "char \<Rightarrow> char" where
  "lower_char c = (let n = (of_char c :: nat) in if 65 \<le> n \<and> n \<le> 90 then char_of (n + 32) else c)"

definition to_lower :: "string \<Rightarrow> string" where
  "to_lower s = map lower_char s"

definition equal_fold :: "string \<Rightarrow> string \<Rightarrow> bool" where
  "equal_fold s t \<longleftrightarrow> to_lower s = to_lower t"

fun split_on :: "char \<Rightarrow> string \<Rightarrow> string list" where
  "split_on c [] = [[]]"
| "split_on c (x # xs) =
     (if x = c then [] # split_on c xs
      else (case split_on c xs of [] \<Rightarrow> [[x]] | w # ws \<Rightarrow> (x # w) # ws))"

fun join_with :: "string \<Rightarrow> string list \<Rightarrow> string" where
  "join_with sep [] = []"
| "join_with sep [w] = w"
| "join_with sep (w # v # ws) = w @ sep @ join_with sep (v # ws)"

definition in_range :: "nat \<Rightarrow> nat \<Rightarrow> char \<Rightarrow> bool" where
  "in_range lo hi c \<longleftrightarrow> lo \<le> (of_char c :: nat) \<and> (of_char c :: nat) \<le> hi"

definition is_digit :: "char \<Rightarrow> bool" where
  "is_digit c \<longleftrightarrow> in_range 48 57 c"

definition is_lower_hex :: "char \<Rightarrow> bool" where
  "is_lower_hex c \<longleftrightarrow> is_digit c \<or> in_range 97 102 c"

definition is_hex :: "char \<Rightarrow> bool" where
  "is_hex c \<longleftrightarrow> is_lower_hex c \<or> in_range 65 70 c"

text \<open>\<open>%d\<close>, \<open>%q\<close> and strconv.\<close>

fun show_nat :: "nat \<Rightarrow> string" where
  "show_nat n = (if n < 10 then [char_of (48 + n)] else show_nat (n div 10) @ [char_of (48 + n mod 10)])"

declare show_nat.simps [simp del]

definition show_int :: "int \<Rightarrow> string" where
  "show_int i = (if i < 0 then ''-'' @ show_nat (nat (- i)) else show_nat (nat i))"

definition quoted :: "string \<Rightarrow> string" where
  "quoted s = [CHR 0x22] @
     concat (map (\<lambda>c. if c = CHR 0x22 \<or> c = CHR 0x5C then [CHR 0x5C, c] else [c]) s) @ [CHR 0x22]"

fun digits_value :: "nat \<Rightarrow> string \<Rightarrow> nat option" where
  "digits_value acc [] = Some acc"
| "digits_value acc (c # cs) =
     (if is_digit c then digits_value (10 * acc + (of_char c - 48)) cs else None)"

text \<open>Duration.String of package time, as in \<^verbatim>\<open>1h0m0.5s\<close>.\<close>

definition frac_digits :: "nat \<Rightarrow> nat \<Rightarrow> string" where
  "frac_digits v k =
     (let ds = show_nat (v mod 10 ^ k);
          padded = replicate (k - length ds) (CHR ''0'') @ ds;
          cut = trim_right (\<lambda>c. c = CHR ''0'') padded
      in show_nat (v div 10 ^ k) @ (if cut = [] then [] else ''.'' @ cut))"

definition show_duration :: "duration \<Rightarrow> string" where
  "show_duration d =
     (let u = nat \<bar>d\<bar>;
          body = (if u = 0 then ''0s''
            else if u < 1000 then show_nat u @ ''ns''
            else if u < 1000000 then frac_digits u 3 @ [CHR 0xC2, CHR 0xB5, CHR ''s'']
            else if u < 1000000000 then frac_digits u 6 @ ''ms''
            else (let secs = u div 1000000000; mins = secs div 60; hours = mins div 60 in
               (if mins = 0 then []
                else (if hours = 0 then [] else show_nat hours @ ''h'') @ show_nat (mins mod 60) @ ''m'')
               @ frac_digits (secs mod 60 * 1000000000 + u mod 1000000000) 9 @ ''s''))
      in if d < 0 then ''-'' @ body else body)"

text \<open>strconv.Atoi on a 64-bit platform: an optional sign, at least one digit, in range.\<close>

definition atoi :: "string \<Rightarrow> int option" where
  "atoi s =
     (let (neg, ds) = (case s of [] \<Rightarrow> (False, [])
            | c # cs \<Rightarrow> if c = CHR ''-'' then (True, cs) else if c = CHR ''+'' then (False, cs) else (False, s))
      in if ds = [] then None
         else case digits_value 0 ds of
            None \<Rightarrow> None
          | Some n \<Rightarrow> (let v = (if neg then - int n else int n)
                      in if - (2 ^ 63) \<le> v \<and> v < 2 ^ 63 then Some v else None))"

text \<open>The conversion \<open>int32(x)\<close> keeps the low 32 bits, read as two's complement.\<close>

definition to_int32 :: "int \<Rightarrow> int" where
  "to_int32 x = (x + 2 ^ 31) mod 2 ^ 32 - 2 ^ 31"

lemma to_int32_range: "- (2 ^ 31) \<le> to_int32 x \<and> to_int32 x < 2 ^ 31"
  by (simp add: to_int32_def)

lemma to_int32_id: "- (2 ^ 31) \<le> x \<Longrightarrow> x < 2 ^ 31 \<Longrightarrow> to_int32 x = x"
  by (simp add: to_int32_def)

subsection \<open>path.Clean and path.Join\<close>

fun clean_parts :: "bool \<Rightarrow> string list \<Rightarrow> string list \<Rightarrow> string list" where
  "clean_parts rooted acc [] = rev acc"
| "clean_parts rooted acc (w # ws) =
     (if w = [] \<or> w = ''.'' then clean_parts rooted acc ws
      else if w = ''..'' then
        (case acc of
           [] \<Rightarrow> clean_parts rooted (if rooted then [] else [''..'']) ws
         | a # as \<Rightarrow> if a = ''..'' then clean_parts rooted (''..'' # acc) ws
                     else clean_parts rooted as ws)
      else clean_parts rooted (w # acc) ws)"

definition is_abs_path :: "string \<Rightarrow> bool" where
  "is_abs_path s \<longleftrightarrow> has_prefix s ''/''"

definition path_clean :: "string \<Rightarrow> string" where
  "path_clean s =
     (let rooted = is_abs_path s; body = join_with ''/'' (clean_parts rooted [] (split_on (CHR ''/'') s))
      in if rooted then ''/'' @ body else if body = [] then ''.'' else body)"

definition path_join :: "string list \<Rightarrow> string" where
  "path_join ws = (let us = filter (\<lambda>w. w \<noteq> []) ws in if us = [] then [] else path_clean (join_with ''/'' us))"

subsection \<open>encoding/json\<close>

text \<open>
  A JSON value as a tree, and its text as json.Marshal writes it: no spaces, HTML-safe escapes.
  An object is the list of its fields in the order of the struct; a field with
  \<open>omitempty\<close> and the empty value is left out (\<open>None\<close> below). \<open>JRaw\<close> is a RawExtension or an
  apiextensions JSON value: its bytes, which the API server stores compact, or null when empty.
\<close>

datatype json =
    JNull
  | JBool bool
  | JInt int
  | JStr string
  | JArr "json list"
  | JObj "(string \<times> json) list"
  | JRaw string

definition hex_digit :: "nat \<Rightarrow> char" where
  "hex_digit n = (if n < 10 then char_of (48 + n) else char_of (87 + n))"

definition json_char :: "char \<Rightarrow> string" where
  "json_char c =
     (let n = (of_char c :: nat); bs = [CHR 0x5C] in
      if c = CHR 0x22 then bs @ [CHR 0x22]
      else if c = CHR 0x5C then bs @ [CHR 0x5C]
      else if n = 8 then bs @ ''b'' else if n = 12 then bs @ ''f''
      else if n = 10 then bs @ ''n'' else if n = 13 then bs @ ''r'' else if n = 9 then bs @ ''t''
      else if n < 32 \<or> c = CHR 0x3C \<or> c = CHR 0x3E \<or> c = CHR 0x26
      then bs @ ''u00'' @ [hex_digit (n div 16), hex_digit (n mod 16)]
      else [c])"

definition json_string :: "string \<Rightarrow> string" where
  "json_string s = [CHR 0x22] @ concat (map json_char s) @ [CHR 0x22]"

fun json_text :: "json \<Rightarrow> string" where
  "json_text JNull = ''null''"
| "json_text (JBool b) = (if b then ''true'' else ''false'')"
| "json_text (JInt i) = show_int i"
| "json_text (JStr s) = json_string s"
| "json_text (JArr vs) = ''['' @ join_with '','' (map json_text vs) @ '']''"
| "json_text (JObj fs) = ''{'' @ join_with '','' (map (\<lambda>(k, v). json_string k @ '':'' @ json_text v) fs) @ ''}''"
| "json_text (JRaw s) = (if s = [] then ''null'' else s)"

fun present :: "(string \<times> json option) list \<Rightarrow> (string \<times> json) list" where
  "present [] = []"
| "present ((k, None) # fs) = present fs"
| "present ((k, Some v) # fs) = (k, v) # present fs"

definition jobj :: "(string \<times> json option) list \<Rightarrow> json" where
  "jobj fs = JObj (present fs)"

definition omit_str :: "string \<Rightarrow> json option" where
  "omit_str s = (if s = [] then None else Some (JStr s))"

definition omit_int :: "int \<Rightarrow> json option" where
  "omit_int i = (if i = 0 then None else Some (JInt i))"

definition omit_bool :: "bool \<Rightarrow> json option" where
  "omit_bool b = (if b then Some (JBool True) else None)"

definition omit_map :: "gomap \<Rightarrow> json option" where
  "omit_map m = (if m = [] then None else Some (JObj (map (\<lambda>(k, v). (k, JStr v)) m)))"

text \<open>
  \<open>Digest\<close>: the SHA-256 of the JSON text in hexadecimal behind the prefix
  \<^verbatim>\<open>sha256:\<close>. The hash function is an argument of every definition that uses it.
\<close>

type_synonym hash = "string \<Rightarrow> string"

definition Digest :: "hash \<Rightarrow> json \<Rightarrow> string" where
  "Digest sha v = ''sha256:'' @ sha (json_text v)"

lemma Digest_nonempty [simp]: "Digest sha v \<noteq> []"
  by (simp add: Digest_def)

lemma present_keys: "set (map fst (present xs)) \<subseteq> set (map fst xs)"
  by (induction xs rule: present.induct) auto

lemma present_absent: "k \<notin> set (map fst xs) \<Longrightarrow> (k, v) \<notin> set (present xs)"
  using present_keys [of xs] by force

lemma present_inject:
  "map fst xs = map fst ys \<Longrightarrow> distinct (map fst xs) \<Longrightarrow> present xs = present ys \<Longrightarrow> xs = ys"
proof (induction xs arbitrary: ys)
  case Nil
  then show ?case by simp
next
  case (Cons x xs)
  obtain k v where x: "x = (k, v)" by fastforce
  from Cons.prems(1) x obtain w ys' where ys: "ys = (k, w) # ys'" by (cases ys) auto
  have sub: "map fst xs = map fst ys'" using Cons.prems(1) x ys by simp
  have nx: "\<And>u. (k, u) \<notin> set (present xs)" and ny: "\<And>u. (k, u) \<notin> set (present ys')"
    using Cons.prems(2) x sub by (auto intro!: present_absent)
  have "v = w \<and> present xs = present ys'"
  proof (cases v)
    case None
    then show ?thesis using Cons.prems(3) x ys nx by (cases w) (auto dest: sym)
  next
    case (Some a)
    have "(k, a) # present xs \<noteq> present ys'" using ny [of a] by (metis list.set_intros(1))
    then show ?thesis using Cons.prems(3) x ys Some by (cases w) auto
  qed
  then show ?case using Cons.IH [OF sub] Cons.prems(2) x ys by simp
qed

lemma jobj_field_inject:
  "map fst xs = map fst ys \<Longrightarrow> distinct (map fst xs) \<Longrightarrow> jobj xs = jobj ys \<Longrightarrow> xs = ys"
  unfolding jobj_def by (simp add: present_inject)

lemma jobj_eq_iff:
  assumes "map fst xs = map fst ys" and "distinct (map fst xs)"
  shows "jobj xs = jobj ys \<longleftrightarrow> map snd xs = map snd ys"
proof
  assume "jobj xs = jobj ys"
  then have "xs = ys" by (rule jobj_field_inject [OF assms])
  then show "map snd xs = map snd ys" by simp
next
  assume "map snd xs = map snd ys"
  with assms(1) have "xs = ys" by (metis zip_map_fst_snd)
  then show "jobj xs = jobj ys" by simp
qed

lemma omit_eq_iff [simp]:
  "omit_str s = omit_str t \<longleftrightarrow> s = t"
  "omit_int i = omit_int j \<longleftrightarrow> i = j"
  "omit_bool a = omit_bool b \<longleftrightarrow> a = b"
  by (auto simp: omit_str_def omit_int_def omit_bool_def)

lemma omit_map_eq_iff [simp]: "omit_map m = omit_map n \<longleftrightarrow> m = n"
proof -
  have "inj (map (\<lambda>(k, v). (k, JStr v)))" by (rule inj_mapI) (auto simp: inj_def)
  then have "map (\<lambda>(k, v). (k, JStr v)) m = map (\<lambda>(k, v). (k, JStr v)) n \<longleftrightarrow> m = n"
    by (rule inj_eq)
  then show ?thesis by (auto simp: omit_map_def)
qed

end
