(* ===== verification/ApiTypes.thy ===== *)
theory ApiTypes
  imports Prelude
begin

section \<open>The API types of api/v1alpha1/types.go\<close>

text \<open>
  One record per struct, with the fields of the struct in their order, each under the struct's
  prefix. A pointer is an option, a slice a list, a map the list of its entries. The types
  \<open>object_meta\<close>, \<open>owner_reference\<close>, \<open>condition\<close> and \<open>secret_key_selector\<close> hold the fields
  of the Kubernetes meta and core types that the code reads or writes; a LocalObjectReference
  is its name, and apiextensions JSON and RawExtension are their raw bytes. TypeMeta and the
  List wrappers carry no data of their own. int32 and int64 fields are integers; where a
  conversion can wrap, the definition that converts writes it out. The \<open>_json\<close> functions are
  the trees that encoding/json makes of the structs whose digest the controllers take.
\<close>

type_synonym local_ref = string

record owner_reference =
  or_Kind :: string
  or_Name :: string
  or_UID :: string
  or_Controller :: "bool option"

record object_meta =
  om_Name :: string
  om_Namespace :: string
  om_UID :: string
  om_ResourceVersion :: string
  om_Generation :: int
  om_CreationTimestamp :: time
  om_DeletionTimestamp :: "time option"
  om_Finalizers :: "string list"
  om_OwnerReferences :: "owner_reference list"
  om_Labels :: gomap
  om_Annotations :: gomap

datatype condition_status = ConditionTrue | ConditionFalse | ConditionUnknown

record condition =
  c_Type :: string
  c_Status :: condition_status
  c_ObservedGeneration :: int
  c_Reason :: string
  c_Message :: string
  c_LastTransitionTime :: time

record secret_key_selector =
  sks_Name :: string
  sks_Key :: string

definition empty_meta :: object_meta where
  "empty_meta = \<lparr>om_Name = [], om_Namespace = [], om_UID = [], om_ResourceVersion = [],
     om_Generation = 0, om_CreationTimestamp = 0, om_DeletionTimestamp = None,
     om_Finalizers = [], om_OwnerReferences = [], om_Labels = [], om_Annotations = []\<rparr>"

record target_reference =
  tr_Provider :: string
  tr_Account :: string
  tr_Region :: string
  tr_ClusterName :: string
  tr_ClusterID :: string
  tr_ClusterARN :: string
  tr_IncarnationID :: string
  tr_ConnectionProfileRef :: string
  tr_ExecutionRoleARN :: string
  tr_RuntimeRoleARN :: string

record capacity_spec =
  cap_NodeCount :: int

record valkey_intent_spec =
  vi_Enabled :: bool
  vi_Shards :: int
  vi_Replicas :: int

record platform_environment_spec =
  pes_ClassRef :: "local_ref option"
  pes_InfraStackRef :: local_ref
  pes_Target :: target_reference
  pes_Region :: string
  pes_Capacity :: capacity_spec
  pes_Valkey :: valkey_intent_spec
  pes_DesiredState :: string

record runtime_target_identity =
  rti_Provider :: string
  rti_AccountID :: string
  rti_Region :: string
  rti_ClusterARN :: string
  rti_ClusterName :: string
  rti_IncarnationID :: string

record target_connection_profile =
  tcp_Endpoint :: string
  tcp_CACertificateData :: string
  tcp_CACertificateDigest :: string
  tcp_AuthMode :: string
  tcp_NetworkRouteProfile :: string
  tcp_KubeContext :: string
  tcp_RoleARN :: string

record platform_environment_status =
  pest_ObservedGeneration :: int
  pest_Conditions :: "condition list"
  pest_InfraStackRef :: "local_ref option"
  pest_ResourceSetRef :: "local_ref option"
  pest_TargetIdentity :: "runtime_target_identity option"
  pest_TargetConnection :: "target_connection_profile option"
  pest_CleanupEvidenceRef :: string
  pest_CleanupEvidenceDigest :: string

record platform_environment =
  pe_Meta :: object_meta
  pe_Spec :: platform_environment_spec
  pe_Status :: platform_environment_status

record execution_profile =
  ep_Mode :: string
  ep_S3Endpoint :: string
  ep_STSEndpoint :: string
  ep_Region :: string
  ep_AccountID :: string
  ep_ArtifactBucket :: string
  ep_CredentialsSecretRef :: local_ref
  ep_CredentialsIdentity :: string

record source_spec =
  src_URL :: string
  src_Revision :: string
  src_Path :: string

record service_account_reference =
  sar_ServiceAccountName :: string

record backend_spec =
  be_Type :: string
  be_ConfigRef :: local_ref
  be_AuthRef :: service_account_reference
  be_LockTimeout :: duration

record executor_spec =
  ex_TerraformVersion :: string
  ex_Image :: string
  ex_WorkDir :: string
  ex_ExecutionTimeout :: duration
  ex_Parallelism :: "int option"
  ex_RuntimeOS :: string
  ex_RuntimeArchitecture :: string

record runner_profile_spec =
  rp_ServiceAccountName :: string
  rp_ManagementRoleARN :: string
  rp_Image :: string
  rp_ImageDigest :: string
  rp_TerraformVersion :: string

record runtime_object =
  ro_Group :: string
  ro_Version :: string
  ro_Resource :: string
  ro_Wave :: int
  ro_ReadinessPolicy :: string
  ro_DeletionPolicy :: string
  ro_OwnershipID :: string
  ro_Object :: string

record runtime_profile_spec =
  rtp_OperatorImage :: string
  rtp_OperatorImageDigest :: string
  rtp_OperatorManifestRef :: string
  rtp_ValkeyImage :: string
  rtp_NetworkPolicyProfile :: string
  rtp_RuntimeObjects :: "runtime_object list"

record capacity_bounds =
  cb_MinNodeCount :: int
  cb_MaxNodeCount :: int
  cb_MaxEnvironments :: int
  cb_MaxConcurrentPlans :: int
  cb_MaxConcurrentApplies :: int

record environment_class_spec =
  ecs_ExecutionProfile :: "execution_profile option"
  ecs_Inputs :: gomap
  ecs_Version :: string
  ecs_Source :: source_spec
  ecs_Backend :: backend_spec
  ecs_Executor :: executor_spec
  ecs_RunnerProfile :: runner_profile_spec
  ecs_RuntimeProfile :: runtime_profile_spec
  ecs_Target :: target_reference
  ecs_AllowedRegions :: "string list"
  ecs_CapacityBounds :: capacity_bounds
  ecs_ApprovalPolicy :: string
  ecs_DataRetentionPolicy :: string

record environment_class_status =
  ecst_ObservedGeneration :: int
  ecst_Conditions :: "condition list"
  ecst_UsageCount :: int
  ecst_SpecDigest :: string

record environment_class =
  ec_Meta :: object_meta
  ec_Spec :: environment_class_spec
  ec_Status :: environment_class_status

record secret_variable_reference =
  svr_Variable :: string
  svr_SecretKeyRef :: secret_key_selector

record variables_spec =
  vs_Values :: gomap
  vs_SecretRefs :: "local_ref list"
  vs_SecretVariables :: "secret_variable_reference list"

record infrastructure_execution_identity =
  iei_Provider :: string
  iei_Mode :: string
  iei_AccountID :: string
  iei_Region :: string
  iei_RoleARN :: string
  iei_SessionProfile :: string

record infra_stack_spec =
  iss_ExecutionProfile :: "execution_profile option"
  iss_Source :: source_spec
  iss_Backend :: backend_spec
  iss_Workspace :: string
  iss_Capacity :: capacity_spec
  iss_Variables :: variables_spec
  iss_Executor :: executor_spec
  iss_DesiredState :: string
  iss_ApprovalPolicy :: string
  iss_OwnerEnvironmentUID :: string
  iss_InfrastructureExecutionIdentity :: infrastructure_execution_identity
  iss_RuntimeTargetIdentity :: runtime_target_identity
  iss_TargetConnectionProfile :: target_connection_profile
  iss_MutationFence :: bool
  iss_RuntimeMutationAllowed :: bool
  iss_RunnerServiceAccountName :: string
  iss_RunnerManagementRoleARN :: string
  iss_RunnerServiceAccountIdentityDigest :: string
  iss_ConcurrencyGroup :: string
  iss_MaxConcurrentPlans :: int
  iss_MaxConcurrentApplies :: int

record last_converged_source_closure =
  lc_ExecutionSnapshot :: "string option"
  lc_SourceClosureRef :: string
  lc_SourceClosureDigest :: string
  lc_BackendSnapshotRef :: string
  lc_BackendSnapshotDigest :: string
  lc_TargetDiscoveryRef :: string
  lc_TargetDiscoveryDigest :: string
  lc_EffectivePlanInputDigest :: string
  lc_InfrastructureExecutionIdentityDigest :: string
  lc_ExecutionPlatformIdentityDigest :: string
  lc_RunnerServiceAccountIdentityDigest :: string
  lc_TerraformRunUID :: string
  lc_Generation :: int

record infra_stack_status =
  isst_ObservedGeneration :: int
  isst_Conditions :: "condition list"
  isst_LatestPlanRunRef :: "local_ref option"
  isst_LastAppliedRunRef :: "local_ref option"
  isst_LastAppliedSourceBundleRef :: string
  isst_LastAppliedSourceBundleDigest :: string
  isst_LastConverged :: "last_converged_source_closure option"
  isst_ConvergenceEvidenceRef :: string
  isst_ConvergenceEvidenceDigest :: string
  isst_TargetDiscoveryRef :: string
  isst_TargetDiscoveryDigest :: string
  isst_DiscoveredRuntimeTargetIdentity :: "runtime_target_identity option"
  isst_DiscoveredTargetConnectionProfile :: "target_connection_profile option"
  isst_DriftReportRef :: string
  isst_DriftReportDigest :: string
  isst_CleanupEvidenceRef :: string
  isst_CleanupEvidenceDigest :: string

record infra_stack =
  is_Meta :: object_meta
  is_Spec :: infra_stack_spec
  is_Status :: infra_stack_status

record plan_run_source_spec =
  ps_Type :: string
  ps_URL :: string
  ps_Revision :: string
  ps_Path :: string
  ps_Ref :: string
  ps_Digest :: string

record terraform_run_spec =
  rs_ExecutionProfile :: "execution_profile option"
  rs_Inputs :: gomap
  rs_StackRef :: local_ref
  rs_InfraStackGeneration :: int
  rs_Operation :: string
  rs_PlanMode :: string
  rs_Source :: plan_run_source_spec
  rs_ResolvedBackendConfigRef :: string
  rs_BackendConfigArtifactRef :: string
  rs_BackendConfigArtifactDigest :: string
  rs_VariableSecretRefs :: "local_ref list"
  rs_VariableSecretVariables :: "secret_variable_reference list"
  rs_LockTimeout :: duration
  rs_Workspace :: string
  rs_Executor :: executor_spec
  rs_ExecutionContextDigest :: string
  rs_ExecutionTargetIdentityDigest :: string
  rs_ExecutionPlatformIdentityDigest :: string
  rs_InfrastructureExecutionRoleARN :: string
  rs_RunnerManagementRoleARN :: string
  rs_PlanRunUID :: string
  rs_PlanRef :: string
  rs_PlanDigest :: string
  rs_PlanReportRef :: string
  rs_PlanReportDigest :: string
  rs_TargetDiscoveryRef :: string
  rs_TargetDiscoveryDigest :: string
  rs_ApprovalRef :: "local_ref option"
  rs_ApprovalUID :: string
  rs_EffectivePlanInputDigest :: string
  rs_SourceClosureDigest :: string
  rs_VariablesSnapshotDigest :: string
  rs_SecretVariableIdentityDigest :: string
  rs_InfrastructureExecutionIdentityDigest :: string
  rs_RuntimeTargetIdentityDigest :: string
  rs_TargetConnectionProfileDigest :: string
  rs_RunnerServiceAccountIdentityDigest :: string
  rs_TerraformLockfileDigest :: string
  rs_ExpectedTerraformVersion :: string
  rs_RunnerImageDigest :: string
  rs_MutationFence :: bool
  rs_RunnerServiceAccountName :: string
  rs_ConcurrencyGroup :: string
  rs_MaxConcurrentPlans :: int
  rs_MaxConcurrentApplies :: int

record terraform_run_status =
  rst_ObservedGeneration :: int
  rst_Conditions :: "condition list"
  rst_JobRef :: "local_ref option"
  rst_SourceBundleRef :: string
  rst_SourceBundleDigest :: string
  rst_PlanReportRef :: string
  rst_PlanReportDigest :: string
  rst_TargetDiscoveryRef :: string
  rst_TargetDiscoveryDigest :: string
  rst_TerminalResultRef :: string
  rst_TerminalResultDigest :: string
  rst_ResolvedBackendConfigRef :: string
  rst_ResolvedBackendConfigDigest :: string
  rst_TerraformLockfileDigest :: string
  rst_PlanRef :: string
  rst_PlanDigest :: string
  rst_EffectivePlanInputDigest :: string
  rst_HasChanges :: bool
  rst_PlanCreatedAt :: "time option"
  rst_PlanExpiresAt :: "time option"
  rst_ExecutionOutcome :: string
  rst_MutationClassification :: string
  rst_MutationMayHaveOccurred :: bool
  rst_ArtifactsReady :: bool
  rst_EvidenceCaptured :: bool
  rst_JobUID :: string
  rst_TerminalStartedAt :: "time option"
  rst_TerminalFinishedAt :: "time option"
  rst_ObservedStateLineage :: string
  rst_ObservedStateSerial :: int

record terraform_run =
  run_Meta :: object_meta
  run_Spec :: terraform_run_spec
  run_Status :: terraform_run_status

record resource_set_spec =
  rss_Target :: target_reference
  rss_TrustedRuntimeTargetIdentity :: "runtime_target_identity option"
  rss_TrustedTargetConnectionProfile :: "target_connection_profile option"
  rss_TargetDiscoveryRef :: string
  rss_TargetDiscoveryDigest :: string
  rss_OwnershipID :: string
  rss_MaxInventoryItems :: int
  rss_Resources :: "runtime_object list"
  rss_RuntimeMutationAllowed :: bool
  rss_MutationFence :: bool
  rss_RuntimeTargetIdentityDigest :: string

record inventory_item_status =
  iis_TargetIdentityDigest :: string
  iis_Group :: string
  iis_Version :: string
  iis_Resource :: string
  iis_Kind :: string
  iis_Namespace :: string
  iis_Name :: string
  iis_UID :: string
  iis_OwnershipID :: string
  iis_ReadinessPolicy :: string
  iis_DeletionPolicy :: string

record resource_set_status =
  rsst_ObservedGeneration :: int
  rsst_Conditions :: "condition list"
  rsst_TargetIdentityDigest :: string
  rsst_Inventory :: "inventory_item_status list"
  rsst_InventoryItems :: int
  rsst_InventoryLimitExceeded :: bool
  rsst_RuntimeCleanupSkipped :: bool
  rsst_MutationBlocked :: bool
  rsst_CleanupEvidenceRef :: string
  rsst_CleanupEvidenceDigest :: string

record resource_set =
  rset_Meta :: object_meta
  rset_Spec :: resource_set_spec
  rset_Status :: resource_set_status

record change_approval_spec =
  cas_PlanRunRef :: local_ref
  cas_PlanRunUID :: string
  cas_PlanDigest :: string
  cas_ExecutionContextDigest :: string
  cas_EffectivePlanInputDigest :: string
  cas_PlanReportRef :: string
  cas_PlanReportDigest :: string

record change_approval_status =
  cast_ObservedGeneration :: int
  cast_Conditions :: "condition list"
  cast_ApprovedAt :: "time option"

record change_approval =
  ca_Meta :: object_meta
  ca_Spec :: change_approval_spec
  ca_Status :: change_approval_status

record valkey_cluster_spec =
  vcs_Replicas :: int
  vcs_Image :: string

record valkey_cluster_status =
  vcst_ObservedGeneration :: int
  vcst_ReadyReplicas :: int
  vcst_Conditions :: "condition list"

record valkey_cluster =
  vc_Meta :: object_meta
  vc_Spec :: valkey_cluster_spec
  vc_Status :: valkey_cluster_status

subsection \<open>Constants\<close>

definition DesiredStatePresent :: string where "DesiredStatePresent = ''Present''"

definition DesiredStateDestroy :: string where "DesiredStateDestroy = ''Destroy''"

definition ApprovalPolicyManual :: string where "ApprovalPolicyManual = ''Manual''"

definition ApprovalPolicyAutomatic :: string where "ApprovalPolicyAutomatic = ''Automatic''"

subsection \<open>JSON trees\<close>

definition omit_list :: "('a \<Rightarrow> json) \<Rightarrow> 'a list \<Rightarrow> json option" where
  "omit_list f xs = (if xs = [] then None else Some (JArr (map f xs)))"

lemma omit_list_eq_iff: "inj f \<Longrightarrow> omit_list f xs = omit_list f ys \<longleftrightarrow> xs = ys"
  by (auto simp: omit_list_def inj_map_eq_map)

definition local_ref_json :: "local_ref \<Rightarrow> json" where
  "local_ref_json n = jobj [(''name'', omit_str n)]"

definition secret_key_selector_json :: "secret_key_selector \<Rightarrow> json" where
  "secret_key_selector_json s = jobj [(''name'', omit_str (sks_Name s)), (''key'', Some (JStr (sks_Key s)))]"

definition execution_profile_json :: "execution_profile \<Rightarrow> json" where
  "execution_profile_json s = jobj [
    (''mode'', Some (JStr (ep_Mode s))),
    (''s3Endpoint'', Some (JStr (ep_S3Endpoint s))),
    (''stsEndpoint'', Some (JStr (ep_STSEndpoint s))),
    (''region'', Some (JStr (ep_Region s))),
    (''accountID'', Some (JStr (ep_AccountID s))),
    (''artifactBucket'', Some (JStr (ep_ArtifactBucket s))),
    (''credentialsSecretRef'', Some (local_ref_json (ep_CredentialsSecretRef s))),
    (''credentialsIdentity'', omit_str (ep_CredentialsIdentity s))]"

definition source_spec_json :: "source_spec \<Rightarrow> json" where
  "source_spec_json s = jobj [
    (''url'', Some (JStr (src_URL s))),
    (''revision'', Some (JStr (src_Revision s))),
    (''path'', Some (JStr (src_Path s)))]"

definition service_account_reference_json :: "service_account_reference \<Rightarrow> json" where
  "service_account_reference_json s = jobj [
    (''serviceAccountName'', Some (JStr (sar_ServiceAccountName s)))]"

definition backend_spec_json :: "backend_spec \<Rightarrow> json" where
  "backend_spec_json s = jobj [
    (''type'', Some (JStr (be_Type s))),
    (''configRef'', Some (local_ref_json (be_ConfigRef s))),
    (''authRef'', Some (service_account_reference_json (be_AuthRef s))),
    (''lockTimeout'', Some (JStr (show_duration (be_LockTimeout s))))]"

definition capacity_spec_json :: "capacity_spec \<Rightarrow> json" where
  "capacity_spec_json s = jobj [
    (''nodeCount'', omit_int (cap_NodeCount s))]"

definition secret_variable_reference_json :: "secret_variable_reference \<Rightarrow> json" where
  "secret_variable_reference_json s = jobj [
    (''variable'', Some (JStr (svr_Variable s))),
    (''secretKeyRef'', Some (secret_key_selector_json (svr_SecretKeyRef s)))]"

definition variables_spec_json :: "variables_spec \<Rightarrow> json" where
  "variables_spec_json s = jobj [
    (''values'', omit_map (vs_Values s)),
    (''secretRefs'', omit_list local_ref_json (vs_SecretRefs s)),
    (''secretVariables'', omit_list secret_variable_reference_json (vs_SecretVariables s))]"

definition executor_spec_json :: "executor_spec \<Rightarrow> json" where
  "executor_spec_json s = jobj [
    (''terraformVersion'', Some (JStr (ex_TerraformVersion s))),
    (''image'', Some (JStr (ex_Image s))),
    (''workDir'', Some (JStr (ex_WorkDir s))),
    (''executionTimeout'', Some (JStr (show_duration (ex_ExecutionTimeout s)))),
    (''parallelism'', map_option JInt (ex_Parallelism s)),
    (''runtimeOS'', omit_str (ex_RuntimeOS s)),
    (''runtimeArchitecture'', omit_str (ex_RuntimeArchitecture s))]"

definition infrastructure_execution_identity_json :: "infrastructure_execution_identity \<Rightarrow> json" where
  "infrastructure_execution_identity_json s = jobj [
    (''provider'', Some (JStr (iei_Provider s))),
    (''mode'', Some (JStr (iei_Mode s))),
    (''accountID'', Some (JStr (iei_AccountID s))),
    (''region'', Some (JStr (iei_Region s))),
    (''roleARN'', omit_str (iei_RoleARN s)),
    (''sessionProfile'', omit_str (iei_SessionProfile s))]"

definition runtime_target_identity_json :: "runtime_target_identity \<Rightarrow> json" where
  "runtime_target_identity_json s = jobj [
    (''provider'', Some (JStr (rti_Provider s))),
    (''accountID'', Some (JStr (rti_AccountID s))),
    (''region'', Some (JStr (rti_Region s))),
    (''clusterARN'', omit_str (rti_ClusterARN s)),
    (''clusterName'', omit_str (rti_ClusterName s)),
    (''incarnationID'', Some (JStr (rti_IncarnationID s)))]"

definition target_connection_profile_json :: "target_connection_profile \<Rightarrow> json" where
  "target_connection_profile_json s = jobj [
    (''endpoint'', omit_str (tcp_Endpoint s)),
    (''caCertificateData'', omit_str (tcp_CACertificateData s)),
    (''caCertificateDigest'', omit_str (tcp_CACertificateDigest s)),
    (''authMode'', Some (JStr (tcp_AuthMode s))),
    (''networkRouteProfile'', omit_str (tcp_NetworkRouteProfile s)),
    (''kubeContext'', omit_str (tcp_KubeContext s)),
    (''roleARN'', omit_str (tcp_RoleARN s))]"

definition infra_stack_spec_json :: "infra_stack_spec \<Rightarrow> json" where
  "infra_stack_spec_json s = jobj [
    (''executionProfile'', map_option execution_profile_json (iss_ExecutionProfile s)),
    (''source'', Some (source_spec_json (iss_Source s))),
    (''backend'', Some (backend_spec_json (iss_Backend s))),
    (''workspace'', Some (JStr (iss_Workspace s))),
    (''capacity'', Some (capacity_spec_json (iss_Capacity s))),
    (''variables'', Some (variables_spec_json (iss_Variables s))),
    (''executor'', Some (executor_spec_json (iss_Executor s))),
    (''desiredState'', omit_str (iss_DesiredState s)),
    (''approvalPolicy'', omit_str (iss_ApprovalPolicy s)),
    (''ownerEnvironmentUID'', omit_str (iss_OwnerEnvironmentUID s)),
    (''infrastructureExecutionIdentity'', Some (infrastructure_execution_identity_json (iss_InfrastructureExecutionIdentity s))),
    (''runtimeTargetIdentity'', Some (runtime_target_identity_json (iss_RuntimeTargetIdentity s))),
    (''targetConnectionProfile'', Some (target_connection_profile_json (iss_TargetConnectionProfile s))),
    (''mutationFence'', omit_bool (iss_MutationFence s)),
    (''runtimeMutationAllowed'', omit_bool (iss_RuntimeMutationAllowed s)),
    (''runnerServiceAccountName'', omit_str (iss_RunnerServiceAccountName s)),
    (''runnerManagementRoleARN'', omit_str (iss_RunnerManagementRoleARN s)),
    (''runnerServiceAccountIdentityDigest'', omit_str (iss_RunnerServiceAccountIdentityDigest s)),
    (''concurrencyGroup'', omit_str (iss_ConcurrencyGroup s)),
    (''maxConcurrentPlans'', omit_int (iss_MaxConcurrentPlans s)),
    (''maxConcurrentApplies'', omit_int (iss_MaxConcurrentApplies s))]"

definition plan_run_source_spec_json :: "plan_run_source_spec \<Rightarrow> json" where
  "plan_run_source_spec_json s = jobj [
    (''type'', Some (JStr (ps_Type s))),
    (''url'', omit_str (ps_URL s)),
    (''revision'', omit_str (ps_Revision s)),
    (''path'', omit_str (ps_Path s)),
    (''ref'', omit_str (ps_Ref s)),
    (''digest'', omit_str (ps_Digest s))]"

definition terraform_run_spec_json :: "terraform_run_spec \<Rightarrow> json" where
  "terraform_run_spec_json s = jobj [
    (''executionProfile'', map_option execution_profile_json (rs_ExecutionProfile s)),
    (''inputs'', omit_map (rs_Inputs s)),
    (''stackRef'', Some (local_ref_json (rs_StackRef s))),
    (''infraStackGeneration'', Some (JInt (rs_InfraStackGeneration s))),
    (''operation'', Some (JStr (rs_Operation s))),
    (''planMode'', Some (JStr (rs_PlanMode s))),
    (''source'', Some (plan_run_source_spec_json (rs_Source s))),
    (''resolvedBackendConfigRef'', omit_str (rs_ResolvedBackendConfigRef s)),
    (''backendConfigArtifactRef'', omit_str (rs_BackendConfigArtifactRef s)),
    (''backendConfigArtifactDigest'', omit_str (rs_BackendConfigArtifactDigest s)),
    (''variableSecretRefs'', omit_list local_ref_json (rs_VariableSecretRefs s)),
    (''variableSecretVariables'', omit_list secret_variable_reference_json (rs_VariableSecretVariables s)),
    (''lockTimeout'', Some (JStr (show_duration (rs_LockTimeout s)))),
    (''workspace'', Some (JStr (rs_Workspace s))),
    (''executor'', Some (executor_spec_json (rs_Executor s))),
    (''executionContextDigest'', omit_str (rs_ExecutionContextDigest s)),
    (''executionTargetIdentityDigest'', omit_str (rs_ExecutionTargetIdentityDigest s)),
    (''executionPlatformIdentityDigest'', omit_str (rs_ExecutionPlatformIdentityDigest s)),
    (''infrastructureExecutionRoleARN'', omit_str (rs_InfrastructureExecutionRoleARN s)),
    (''runnerManagementRoleARN'', omit_str (rs_RunnerManagementRoleARN s)),
    (''planRunUID'', omit_str (rs_PlanRunUID s)),
    (''planRef'', omit_str (rs_PlanRef s)),
    (''planDigest'', omit_str (rs_PlanDigest s)),
    (''planReportRef'', omit_str (rs_PlanReportRef s)),
    (''planReportDigest'', omit_str (rs_PlanReportDigest s)),
    (''targetDiscoveryRef'', omit_str (rs_TargetDiscoveryRef s)),
    (''targetDiscoveryDigest'', omit_str (rs_TargetDiscoveryDigest s)),
    (''approvalRef'', map_option local_ref_json (rs_ApprovalRef s)),
    (''approvalUID'', omit_str (rs_ApprovalUID s)),
    (''effectivePlanInputDigest'', omit_str (rs_EffectivePlanInputDigest s)),
    (''sourceClosureDigest'', omit_str (rs_SourceClosureDigest s)),
    (''variablesSnapshotDigest'', omit_str (rs_VariablesSnapshotDigest s)),
    (''secretVariableIdentityDigest'', omit_str (rs_SecretVariableIdentityDigest s)),
    (''infrastructureExecutionIdentityDigest'', omit_str (rs_InfrastructureExecutionIdentityDigest s)),
    (''runtimeTargetIdentityDigest'', omit_str (rs_RuntimeTargetIdentityDigest s)),
    (''targetConnectionProfileDigest'', omit_str (rs_TargetConnectionProfileDigest s)),
    (''runnerServiceAccountIdentityDigest'', omit_str (rs_RunnerServiceAccountIdentityDigest s)),
    (''terraformLockfileDigest'', omit_str (rs_TerraformLockfileDigest s)),
    (''expectedTerraformVersion'', omit_str (rs_ExpectedTerraformVersion s)),
    (''runnerImageDigest'', omit_str (rs_RunnerImageDigest s)),
    (''mutationFence'', omit_bool (rs_MutationFence s)),
    (''runnerServiceAccountName'', omit_str (rs_RunnerServiceAccountName s)),
    (''concurrencyGroup'', omit_str (rs_ConcurrencyGroup s)),
    (''maxConcurrentPlans'', omit_int (rs_MaxConcurrentPlans s)),
    (''maxConcurrentApplies'', omit_int (rs_MaxConcurrentApplies s))]"

definition runner_profile_spec_json :: "runner_profile_spec \<Rightarrow> json" where
  "runner_profile_spec_json s = jobj [
    (''serviceAccountName'', Some (JStr (rp_ServiceAccountName s))),
    (''managementRoleARN'', omit_str (rp_ManagementRoleARN s)),
    (''image'', Some (JStr (rp_Image s))),
    (''imageDigest'', Some (JStr (rp_ImageDigest s))),
    (''terraformVersion'', Some (JStr (rp_TerraformVersion s)))]"

definition runtime_object_json :: "runtime_object \<Rightarrow> json" where
  "runtime_object_json s = jobj [
    (''group'', omit_str (ro_Group s)),
    (''version'', Some (JStr (ro_Version s))),
    (''resource'', Some (JStr (ro_Resource s))),
    (''wave'', omit_int (ro_Wave s)),
    (''readinessPolicy'', omit_str (ro_ReadinessPolicy s)),
    (''deletionPolicy'', omit_str (ro_DeletionPolicy s)),
    (''ownershipID'', omit_str (ro_OwnershipID s)),
    (''object'', Some (JRaw (ro_Object s)))]"

definition runtime_profile_spec_json :: "runtime_profile_spec \<Rightarrow> json" where
  "runtime_profile_spec_json s = jobj [
    (''operatorImage'', omit_str (rtp_OperatorImage s)),
    (''operatorImageDigest'', omit_str (rtp_OperatorImageDigest s)),
    (''operatorManifestRef'', omit_str (rtp_OperatorManifestRef s)),
    (''valkeyImage'', omit_str (rtp_ValkeyImage s)),
    (''networkPolicyProfile'', omit_str (rtp_NetworkPolicyProfile s)),
    (''runtimeObjects'', omit_list runtime_object_json (rtp_RuntimeObjects s))]"

definition target_reference_json :: "target_reference \<Rightarrow> json" where
  "target_reference_json s = jobj [
    (''provider'', Some (JStr (tr_Provider s))),
    (''account'', omit_str (tr_Account s)),
    (''region'', omit_str (tr_Region s)),
    (''clusterName'', Some (JStr (tr_ClusterName s))),
    (''clusterID'', omit_str (tr_ClusterID s)),
    (''clusterARN'', omit_str (tr_ClusterARN s)),
    (''incarnationID'', omit_str (tr_IncarnationID s)),
    (''connectionProfileRef'', omit_str (tr_ConnectionProfileRef s)),
    (''executionRoleARN'', omit_str (tr_ExecutionRoleARN s)),
    (''runtimeRoleARN'', omit_str (tr_RuntimeRoleARN s))]"

definition capacity_bounds_json :: "capacity_bounds \<Rightarrow> json" where
  "capacity_bounds_json s = jobj [
    (''minNodeCount'', omit_int (cb_MinNodeCount s)),
    (''maxNodeCount'', omit_int (cb_MaxNodeCount s)),
    (''maxEnvironments'', omit_int (cb_MaxEnvironments s)),
    (''maxConcurrentPlans'', omit_int (cb_MaxConcurrentPlans s)),
    (''maxConcurrentApplies'', omit_int (cb_MaxConcurrentApplies s))]"

definition environment_class_spec_json :: "environment_class_spec \<Rightarrow> json" where
  "environment_class_spec_json s = jobj [
    (''executionProfile'', map_option execution_profile_json (ecs_ExecutionProfile s)),
    (''inputs'', omit_map (ecs_Inputs s)),
    (''version'', Some (JStr (ecs_Version s))),
    (''source'', Some (source_spec_json (ecs_Source s))),
    (''backend'', Some (backend_spec_json (ecs_Backend s))),
    (''executor'', Some (executor_spec_json (ecs_Executor s))),
    (''runnerProfile'', Some (runner_profile_spec_json (ecs_RunnerProfile s))),
    (''runtimeProfile'', Some (runtime_profile_spec_json (ecs_RuntimeProfile s))),
    (''target'', Some (target_reference_json (ecs_Target s))),
    (''allowedRegions'', omit_list JStr (ecs_AllowedRegions s)),
    (''capacityBounds'', Some (capacity_bounds_json (ecs_CapacityBounds s))),
    (''approvalPolicy'', omit_str (ecs_ApprovalPolicy s)),
    (''dataRetentionPolicy'', omit_str (ecs_DataRetentionPolicy s))]"

definition inventory_item_status_json :: "inventory_item_status \<Rightarrow> json" where
  "inventory_item_status_json s = jobj [
    (''targetIdentityDigest'', Some (JStr (iis_TargetIdentityDigest s))),
    (''group'', Some (JStr (iis_Group s))),
    (''version'', Some (JStr (iis_Version s))),
    (''resource'', Some (JStr (iis_Resource s))),
    (''kind'', Some (JStr (iis_Kind s))),
    (''namespace'', omit_str (iis_Namespace s)),
    (''name'', Some (JStr (iis_Name s))),
    (''uid'', Some (JStr (iis_UID s))),
    (''ownershipID'', omit_str (iis_OwnershipID s)),
    (''readinessPolicy'', omit_str (iis_ReadinessPolicy s)),
    (''deletionPolicy'', omit_str (iis_DeletionPolicy s))]"

subsection \<open>Zero values\<close>

definition zero_plan_run_source_spec :: plan_run_source_spec where
  "zero_plan_run_source_spec = \<lparr>ps_Type = [],
     ps_URL = [],
     ps_Revision = [],
     ps_Path = [],
     ps_Ref = [],
     ps_Digest = []\<rparr>"

definition zero_executor_spec :: executor_spec where
  "zero_executor_spec = \<lparr>ex_TerraformVersion = [],
     ex_Image = [],
     ex_WorkDir = [],
     ex_ExecutionTimeout = 0,
     ex_Parallelism = None,
     ex_RuntimeOS = [],
     ex_RuntimeArchitecture = []\<rparr>"

definition zero_terraform_run_spec :: terraform_run_spec where
  "zero_terraform_run_spec = \<lparr>rs_ExecutionProfile = None,
     rs_Inputs = [],
     rs_StackRef = [],
     rs_InfraStackGeneration = 0,
     rs_Operation = [],
     rs_PlanMode = [],
     rs_Source = zero_plan_run_source_spec,
     rs_ResolvedBackendConfigRef = [],
     rs_BackendConfigArtifactRef = [],
     rs_BackendConfigArtifactDigest = [],
     rs_VariableSecretRefs = [],
     rs_VariableSecretVariables = [],
     rs_LockTimeout = 0,
     rs_Workspace = [],
     rs_Executor = zero_executor_spec,
     rs_ExecutionContextDigest = [],
     rs_ExecutionTargetIdentityDigest = [],
     rs_ExecutionPlatformIdentityDigest = [],
     rs_InfrastructureExecutionRoleARN = [],
     rs_RunnerManagementRoleARN = [],
     rs_PlanRunUID = [],
     rs_PlanRef = [],
     rs_PlanDigest = [],
     rs_PlanReportRef = [],
     rs_PlanReportDigest = [],
     rs_TargetDiscoveryRef = [],
     rs_TargetDiscoveryDigest = [],
     rs_ApprovalRef = None,
     rs_ApprovalUID = [],
     rs_EffectivePlanInputDigest = [],
     rs_SourceClosureDigest = [],
     rs_VariablesSnapshotDigest = [],
     rs_SecretVariableIdentityDigest = [],
     rs_InfrastructureExecutionIdentityDigest = [],
     rs_RuntimeTargetIdentityDigest = [],
     rs_TargetConnectionProfileDigest = [],
     rs_RunnerServiceAccountIdentityDigest = [],
     rs_TerraformLockfileDigest = [],
     rs_ExpectedTerraformVersion = [],
     rs_RunnerImageDigest = [],
     rs_MutationFence = False,
     rs_RunnerServiceAccountName = [],
     rs_ConcurrencyGroup = [],
     rs_MaxConcurrentPlans = 0,
     rs_MaxConcurrentApplies = 0\<rparr>"

definition zero_terraform_run_status :: terraform_run_status where
  "zero_terraform_run_status = \<lparr>rst_ObservedGeneration = 0,
     rst_Conditions = [],
     rst_JobRef = None,
     rst_SourceBundleRef = [],
     rst_SourceBundleDigest = [],
     rst_PlanReportRef = [],
     rst_PlanReportDigest = [],
     rst_TargetDiscoveryRef = [],
     rst_TargetDiscoveryDigest = [],
     rst_TerminalResultRef = [],
     rst_TerminalResultDigest = [],
     rst_ResolvedBackendConfigRef = [],
     rst_ResolvedBackendConfigDigest = [],
     rst_TerraformLockfileDigest = [],
     rst_PlanRef = [],
     rst_PlanDigest = [],
     rst_EffectivePlanInputDigest = [],
     rst_HasChanges = False,
     rst_PlanCreatedAt = None,
     rst_PlanExpiresAt = None,
     rst_ExecutionOutcome = [],
     rst_MutationClassification = [],
     rst_MutationMayHaveOccurred = False,
     rst_ArtifactsReady = False,
     rst_EvidenceCaptured = False,
     rst_JobUID = [],
     rst_TerminalStartedAt = None,
     rst_TerminalFinishedAt = None,
     rst_ObservedStateLineage = [],
     rst_ObservedStateSerial = 0\<rparr>"

definition zero_terraform_run :: terraform_run where
  "zero_terraform_run = \<lparr>run_Meta = empty_meta,
     run_Spec = zero_terraform_run_spec,
     run_Status = zero_terraform_run_status\<rparr>"

definition zero_source_spec :: source_spec where
  "zero_source_spec = \<lparr>src_URL = [],
     src_Revision = [],
     src_Path = []\<rparr>"

definition zero_service_account_reference :: service_account_reference where
  "zero_service_account_reference = \<lparr>sar_ServiceAccountName = []\<rparr>"

definition zero_backend_spec :: backend_spec where
  "zero_backend_spec = \<lparr>be_Type = [],
     be_ConfigRef = [],
     be_AuthRef = zero_service_account_reference,
     be_LockTimeout = 0\<rparr>"

definition zero_capacity_spec :: capacity_spec where
  "zero_capacity_spec = \<lparr>cap_NodeCount = 0\<rparr>"

definition zero_variables_spec :: variables_spec where
  "zero_variables_spec = \<lparr>vs_Values = [],
     vs_SecretRefs = [],
     vs_SecretVariables = []\<rparr>"

definition zero_infrastructure_execution_identity :: infrastructure_execution_identity where
  "zero_infrastructure_execution_identity = \<lparr>iei_Provider = [],
     iei_Mode = [],
     iei_AccountID = [],
     iei_Region = [],
     iei_RoleARN = [],
     iei_SessionProfile = []\<rparr>"

definition zero_runtime_target_identity :: runtime_target_identity where
  "zero_runtime_target_identity = \<lparr>rti_Provider = [],
     rti_AccountID = [],
     rti_Region = [],
     rti_ClusterARN = [],
     rti_ClusterName = [],
     rti_IncarnationID = []\<rparr>"

definition zero_target_connection_profile :: target_connection_profile where
  "zero_target_connection_profile = \<lparr>tcp_Endpoint = [],
     tcp_CACertificateData = [],
     tcp_CACertificateDigest = [],
     tcp_AuthMode = [],
     tcp_NetworkRouteProfile = [],
     tcp_KubeContext = [],
     tcp_RoleARN = []\<rparr>"

definition zero_infra_stack_spec :: infra_stack_spec where
  "zero_infra_stack_spec = \<lparr>iss_ExecutionProfile = None,
     iss_Source = zero_source_spec,
     iss_Backend = zero_backend_spec,
     iss_Workspace = [],
     iss_Capacity = zero_capacity_spec,
     iss_Variables = zero_variables_spec,
     iss_Executor = zero_executor_spec,
     iss_DesiredState = [],
     iss_ApprovalPolicy = [],
     iss_OwnerEnvironmentUID = [],
     iss_InfrastructureExecutionIdentity = zero_infrastructure_execution_identity,
     iss_RuntimeTargetIdentity = zero_runtime_target_identity,
     iss_TargetConnectionProfile = zero_target_connection_profile,
     iss_MutationFence = False,
     iss_RuntimeMutationAllowed = False,
     iss_RunnerServiceAccountName = [],
     iss_RunnerManagementRoleARN = [],
     iss_RunnerServiceAccountIdentityDigest = [],
     iss_ConcurrencyGroup = [],
     iss_MaxConcurrentPlans = 0,
     iss_MaxConcurrentApplies = 0\<rparr>"

definition zero_infra_stack_status :: infra_stack_status where
  "zero_infra_stack_status = \<lparr>isst_ObservedGeneration = 0,
     isst_Conditions = [],
     isst_LatestPlanRunRef = None,
     isst_LastAppliedRunRef = None,
     isst_LastAppliedSourceBundleRef = [],
     isst_LastAppliedSourceBundleDigest = [],
     isst_LastConverged = None,
     isst_ConvergenceEvidenceRef = [],
     isst_ConvergenceEvidenceDigest = [],
     isst_TargetDiscoveryRef = [],
     isst_TargetDiscoveryDigest = [],
     isst_DiscoveredRuntimeTargetIdentity = None,
     isst_DiscoveredTargetConnectionProfile = None,
     isst_DriftReportRef = [],
     isst_DriftReportDigest = [],
     isst_CleanupEvidenceRef = [],
     isst_CleanupEvidenceDigest = []\<rparr>"

definition zero_infra_stack :: infra_stack where
  "zero_infra_stack = \<lparr>is_Meta = empty_meta,
     is_Spec = zero_infra_stack_spec,
     is_Status = zero_infra_stack_status\<rparr>"

definition zero_target_reference :: target_reference where
  "zero_target_reference = \<lparr>tr_Provider = [],
     tr_Account = [],
     tr_Region = [],
     tr_ClusterName = [],
     tr_ClusterID = [],
     tr_ClusterARN = [],
     tr_IncarnationID = [],
     tr_ConnectionProfileRef = [],
     tr_ExecutionRoleARN = [],
     tr_RuntimeRoleARN = []\<rparr>"

definition zero_resource_set_spec :: resource_set_spec where
  "zero_resource_set_spec = \<lparr>rss_Target = zero_target_reference,
     rss_TrustedRuntimeTargetIdentity = None,
     rss_TrustedTargetConnectionProfile = None,
     rss_TargetDiscoveryRef = [],
     rss_TargetDiscoveryDigest = [],
     rss_OwnershipID = [],
     rss_MaxInventoryItems = 0,
     rss_Resources = [],
     rss_RuntimeMutationAllowed = False,
     rss_MutationFence = False,
     rss_RuntimeTargetIdentityDigest = []\<rparr>"

definition zero_resource_set_status :: resource_set_status where
  "zero_resource_set_status = \<lparr>rsst_ObservedGeneration = 0,
     rsst_Conditions = [],
     rsst_TargetIdentityDigest = [],
     rsst_Inventory = [],
     rsst_InventoryItems = 0,
     rsst_InventoryLimitExceeded = False,
     rsst_RuntimeCleanupSkipped = False,
     rsst_MutationBlocked = False,
     rsst_CleanupEvidenceRef = [],
     rsst_CleanupEvidenceDigest = []\<rparr>"

definition zero_resource_set :: resource_set where
  "zero_resource_set = \<lparr>rset_Meta = empty_meta,
     rset_Spec = zero_resource_set_spec,
     rset_Status = zero_resource_set_status\<rparr>"

definition zero_valkey_intent_spec :: valkey_intent_spec where
  "zero_valkey_intent_spec = \<lparr>vi_Enabled = False,
     vi_Shards = 0,
     vi_Replicas = 0\<rparr>"

definition zero_platform_environment_spec :: platform_environment_spec where
  "zero_platform_environment_spec = \<lparr>pes_ClassRef = None,
     pes_InfraStackRef = [],
     pes_Target = zero_target_reference,
     pes_Region = [],
     pes_Capacity = zero_capacity_spec,
     pes_Valkey = zero_valkey_intent_spec,
     pes_DesiredState = []\<rparr>"

definition zero_platform_environment_status :: platform_environment_status where
  "zero_platform_environment_status = \<lparr>pest_ObservedGeneration = 0,
     pest_Conditions = [],
     pest_InfraStackRef = None,
     pest_ResourceSetRef = None,
     pest_TargetIdentity = None,
     pest_TargetConnection = None,
     pest_CleanupEvidenceRef = [],
     pest_CleanupEvidenceDigest = []\<rparr>"

definition zero_platform_environment :: platform_environment where
  "zero_platform_environment = \<lparr>pe_Meta = empty_meta,
     pe_Spec = zero_platform_environment_spec,
     pe_Status = zero_platform_environment_status\<rparr>"

definition zero_runner_profile_spec :: runner_profile_spec where
  "zero_runner_profile_spec = \<lparr>rp_ServiceAccountName = [],
     rp_ManagementRoleARN = [],
     rp_Image = [],
     rp_ImageDigest = [],
     rp_TerraformVersion = []\<rparr>"

definition zero_runtime_profile_spec :: runtime_profile_spec where
  "zero_runtime_profile_spec = \<lparr>rtp_OperatorImage = [],
     rtp_OperatorImageDigest = [],
     rtp_OperatorManifestRef = [],
     rtp_ValkeyImage = [],
     rtp_NetworkPolicyProfile = [],
     rtp_RuntimeObjects = []\<rparr>"

definition zero_capacity_bounds :: capacity_bounds where
  "zero_capacity_bounds = \<lparr>cb_MinNodeCount = 0,
     cb_MaxNodeCount = 0,
     cb_MaxEnvironments = 0,
     cb_MaxConcurrentPlans = 0,
     cb_MaxConcurrentApplies = 0\<rparr>"

definition zero_environment_class_spec :: environment_class_spec where
  "zero_environment_class_spec = \<lparr>ecs_ExecutionProfile = None,
     ecs_Inputs = [],
     ecs_Version = [],
     ecs_Source = zero_source_spec,
     ecs_Backend = zero_backend_spec,
     ecs_Executor = zero_executor_spec,
     ecs_RunnerProfile = zero_runner_profile_spec,
     ecs_RuntimeProfile = zero_runtime_profile_spec,
     ecs_Target = zero_target_reference,
     ecs_AllowedRegions = [],
     ecs_CapacityBounds = zero_capacity_bounds,
     ecs_ApprovalPolicy = [],
     ecs_DataRetentionPolicy = []\<rparr>"

definition zero_environment_class_status :: environment_class_status where
  "zero_environment_class_status = \<lparr>ecst_ObservedGeneration = 0,
     ecst_Conditions = [],
     ecst_UsageCount = 0,
     ecst_SpecDigest = []\<rparr>"

definition zero_environment_class :: environment_class where
  "zero_environment_class = \<lparr>ec_Meta = empty_meta,
     ec_Spec = zero_environment_class_spec,
     ec_Status = zero_environment_class_status\<rparr>"

definition zero_change_approval_spec :: change_approval_spec where
  "zero_change_approval_spec = \<lparr>cas_PlanRunRef = [],
     cas_PlanRunUID = [],
     cas_PlanDigest = [],
     cas_ExecutionContextDigest = [],
     cas_EffectivePlanInputDigest = [],
     cas_PlanReportRef = [],
     cas_PlanReportDigest = []\<rparr>"

definition zero_change_approval_status :: change_approval_status where
  "zero_change_approval_status = \<lparr>cast_ObservedGeneration = 0,
     cast_Conditions = [],
     cast_ApprovedAt = None\<rparr>"

definition zero_change_approval :: change_approval where
  "zero_change_approval = \<lparr>ca_Meta = empty_meta,
     ca_Spec = zero_change_approval_spec,
     ca_Status = zero_change_approval_status\<rparr>"

end
