(* ===== verification/Url.thy ===== *)
theory Url
  imports Prelude
begin

section \<open>Parsing URLs as package net/url does\<close>

text \<open>
  The control plane checks endpoints, Git sources, artifact references and OIDC issuers with
  url.Parse of Go's standard library. This theory gives that parser on byte strings: the
  scheme, the authority with its user information and port, the escapes, the query and the
  fragment. \<open>None\<close> is a parse error. Only the parts of the result that the code reads are kept.
\<close>

record url =
  u_Scheme :: string
  u_User :: "string option"
  u_Host :: string
  u_Path :: string
  u_RawQuery :: string
  u_Fragment :: string

datatype escape_mode = EscapeHost | EscapeZone | EscapeOther

definition is_letter :: "char \<Rightarrow> bool" where
  "is_letter c \<longleftrightarrow> in_range 65 90 c \<or> in_range 97 122 c"

definition unhex :: "char \<Rightarrow> nat" where
  "unhex c = (let n = of_char c in
     if in_range 48 57 c then n - 48 else if in_range 97 102 c then n - 87 else n - 55)"

definition host_char :: "char \<Rightarrow> bool" where
  "host_char c \<longleftrightarrow> is_letter c \<or> is_digit c \<or> 128 \<le> (of_char c :: nat)
     \<or> c \<in> set (''!$&()*+,;=:[]<>-_.~'' @ [CHR 0x22, CHR 0x27])"

fun unescape :: "escape_mode \<Rightarrow> string \<Rightarrow> string option" where
  "unescape m [] = Some []"
| "unescape m (c # cs) =
     (if c = CHR ''%'' then
        (case cs of
           a # b # rest \<Rightarrow>
             (let v = 16 * unhex a + unhex b; is25 = (a = CHR ''2'' \<and> b = CHR ''5'') in
              if \<not> is_hex a \<or> \<not> is_hex b then None
              else if m = EscapeHost \<and> unhex a < 8 \<and> \<not> is25 then None
              else if m = EscapeZone \<and> \<not> is25 \<and> v \<noteq> 32 \<and> v < 128 \<and> \<not> host_char (char_of v) then None
              else map_option ((#) (char_of v)) (unescape m rest))
         | _ \<Rightarrow> None)
      else if (m = EscapeHost \<or> m = EscapeZone) \<and> \<not> host_char c then None
      else map_option ((#) c) (unescape m cs))"

definition cut_at :: "char \<Rightarrow> string \<Rightarrow> string \<times> string" where
  "cut_at c s = (takeWhile (\<lambda>x. x \<noteq> c) s, drop 1 (dropWhile (\<lambda>x. x \<noteq> c) s))"

text \<open>\<open>last_cut c s\<close> splits around the last \<open>c\<close>, if there is one.\<close>

definition last_cut :: "char \<Rightarrow> string \<Rightarrow> (string \<times> string) option" where
  "last_cut c s =
     (if c \<in> set s
      then Some (rev (drop 1 (dropWhile (\<lambda>x. x \<noteq> c) (rev s))), rev (takeWhile (\<lambda>x. x \<noteq> c) (rev s)))
      else None)"

fun get_scheme :: "string \<Rightarrow> string \<Rightarrow> (string \<times> string) option" where
  "get_scheme acc [] = Some ([], rev acc)"
| "get_scheme acc (c # cs) =
     (if is_letter c then get_scheme (c # acc) cs
      else if is_digit c \<or> c \<in> set ''+-.'' then
        (if acc = [] then Some ([], c # cs) else get_scheme (c # acc) cs)
      else if c = CHR '':'' then (if acc = [] then None else Some (rev acc, cs))
      else Some ([], rev acc @ c # cs))"

definition valid_optional_port :: "string \<Rightarrow> bool" where
  "valid_optional_port s \<longleftrightarrow> s = [] \<or> (hd s = CHR '':'' \<and> list_all is_digit (tl s))"

fun find_zone :: "string \<Rightarrow> string \<Rightarrow> (string \<times> string) option" where
  "find_zone acc [] = None"
| "find_zone acc (c # cs) =
     (if has_prefix (c # cs) ''%25'' then Some (rev acc, c # cs) else find_zone (c # acc) cs)"

definition parse_host :: "string \<Rightarrow> string option" where
  "parse_host host =
     (if has_prefix host ''['' then
        (case last_cut (CHR '']'') host of
           None \<Rightarrow> None
         | Some (front, after) \<Rightarrow>
             if \<not> valid_optional_port after then None
             else (case find_zone [] front of
                None \<Rightarrow> unescape EscapeHost host
              | Some (h1, zone) \<Rightarrow>
                  (case (unescape EscapeHost h1, unescape EscapeZone zone, unescape EscapeHost ('']'' @ after)) of
                     (Some a, Some b, Some c) \<Rightarrow> Some (a @ b @ c)
                   | _ \<Rightarrow> None)))
      else (case last_cut (CHR '':'') host of
         Some (h, port) \<Rightarrow> if valid_optional_port ('':'' @ port) then unescape EscapeHost host else None
       | None \<Rightarrow> unescape EscapeHost host))"

definition userinfo_char :: "char \<Rightarrow> bool" where
  "userinfo_char c \<longleftrightarrow> is_letter c \<or> is_digit c \<or> c \<in> set (''-._:~!$&()*+,;=%@'' @ [CHR 0x27])"

definition parse_authority :: "string \<Rightarrow> (string option \<times> string) option" where
  "parse_authority a =
     (case last_cut (CHR ''@'') a of
        None \<Rightarrow> map_option (\<lambda>h. (None, h)) (parse_host a)
      | Some (user, host) \<Rightarrow>
          (case parse_host host of
             None \<Rightarrow> None
           | Some h \<Rightarrow>
               if \<not> list_all userinfo_char user then None
               else map_option (\<lambda>u. (Some u, h)) (unescape EscapeOther user)))"

definition has_control_byte :: "string \<Rightarrow> bool" where
  "has_control_byte s \<longleftrightarrow> list_ex (\<lambda>c. (of_char c :: nat) < 32 \<or> (of_char c :: nat) = 127) s"

definition parse_no_fragment :: "string \<Rightarrow> url option" where
  "parse_no_fragment raw =
     (if has_control_byte raw then None
      else if raw = ''*'' then
        Some \<lparr>u_Scheme = [], u_User = None, u_Host = [], u_Path = ''*'', u_RawQuery = [], u_Fragment = []\<rparr>
      else case get_scheme [] raw of
        None \<Rightarrow> None
      | Some (scheme0, rest0) \<Rightarrow>
          (let scheme = to_lower scheme0; (rest, query) = cut_at (CHR ''?'') rest0;
               mk = (\<lambda>user host path. \<lparr>u_Scheme = scheme, u_User = user, u_Host = host, u_Path = path,
                       u_RawQuery = query, u_Fragment = []\<rparr>)
           in if \<not> has_prefix rest ''/'' \<and> scheme \<noteq> [] then Some (mk None [] [])
              else if \<not> has_prefix rest ''/'' \<and> CHR '':'' \<in> set (fst (cut_at (CHR ''/'') rest)) then None
              else if (scheme \<noteq> [] \<or> \<not> has_prefix rest ''///'') \<and> has_prefix rest ''//'' then
                (let a = drop 2 rest;
                     authority = takeWhile (\<lambda>x. x \<noteq> CHR ''/'') a; path = dropWhile (\<lambda>x. x \<noteq> CHR ''/'') a
                 in case parse_authority authority of
                      None \<Rightarrow> None
                    | Some (user, host) \<Rightarrow> map_option (mk user host) (unescape EscapeOther path))
              else map_option (mk None []) (unescape EscapeOther rest)))"

definition url_parse :: "string \<Rightarrow> url option" where
  "url_parse raw =
     (let (front, frag) = cut_at (CHR ''#'') raw in
      case parse_no_fragment front of
        None \<Rightarrow> None
      | Some u \<Rightarrow> if frag = [] then Some u else map_option (\<lambda>f. u\<lparr>u_Fragment := f\<rparr>) (unescape EscapeOther frag))"

text \<open>\<open>u.Hostname()\<close>: the host without its port and without the brackets of an IPv6 address.\<close>

definition url_Hostname :: "url \<Rightarrow> string" where
  "url_Hostname u =
     (let h = (case last_cut (CHR '':'') (u_Host u) of
                 Some (b, p) \<Rightarrow> if valid_optional_port ('':'' @ p) then b else u_Host u
               | None \<Rightarrow> u_Host u)
      in if has_prefix h ''['' \<and> has_suffix h '']'' then butlast (drop 1 h) else h)"

lemmas url_eval = url_parse_def parse_no_fragment_def parse_authority_def parse_host_def cut_at_def
  last_cut_def has_control_byte_def valid_optional_port_def has_prefix_def has_suffix_def
  is_letter_def is_digit_def in_range_def host_char_def to_lower_def lower_char_def url_Hostname_def

end
