(* ===== verification/TerraformJob.thy ===== *)
theory TerraformJob
  imports ApiTypes Url
begin

section \<open>Runner Jobs and their inputs: internal/cloud and internal/terraform\<close>

text \<open>
  The emulator checks of internal/cloud/emulator.go; the identity, backend and module contracts
  of internal/terraform (identity.go, backend.go, module.go); and BuildJob of job.go, which
  turns a validated request into a Kubernetes Job. What is outside the repository is an
  argument: the HCL decoder, the files of the module directory and the hash function. The Job
  is the part of batch/v1 Job that BuildJob fills in. Security contexts are the records the
  code writes, quantities the strings it passes to MustParse.
\<close>

subsection \<open>internal/cloud/emulator.go\<close>

definition emulatorAccount :: "string \<Rightarrow> bool" where
  "emulatorAccount s \<longleftrightarrow> length s = 12 \<and> list_all is_digit s"

definition ValidateEmulatorEndpoint :: "string \<Rightarrow> gerr option" where
  "ValidateEmulatorEndpoint raw =
     (case url_parse raw of
        None \<Rightarrow> Some (Err ''explicit HTTP(S) emulator endpoint without credentials is required'')
      | Some u \<Rightarrow>
          if u_Host u = [] \<or> (u_Scheme u \<noteq> ''http'' \<and> u_Scheme u \<noteq> ''https'') \<or> u_User u \<noteq> None
             \<or> u_RawQuery u \<noteq> [] \<or> u_Fragment u \<noteq> []
          then Some (Err ''explicit HTTP(S) emulator endpoint without credentials is required'')
          else (let host = to_lower (url_Hostname u) in
            if host = ''amazonaws.com'' \<or> has_suffix host ''.amazonaws.com''
               \<or> host = ''amazonaws.com.cn'' \<or> has_suffix host ''.amazonaws.com.cn''
            then Some (Err ''AWS endpoints are forbidden in emulator mode'')
            else None))"

definition ValidateExecutionProfile :: "execution_profile option \<Rightarrow> gerr option" where
  "ValidateExecutionProfile profile =
     (case profile of
        None \<Rightarrow> Some (Err ''emulator profile requires mode, 12-digit account, region, artifact bucket and credential Secret reference'')
      | Some p \<Rightarrow>
          if ep_Mode p \<noteq> ''emulator'' \<or> \<not> emulatorAccount (ep_AccountID p) \<or> ep_Region p = []
             \<or> ep_ArtifactBucket p = [] \<or> ep_CredentialsSecretRef p = []
          then Some (Err ''emulator profile requires mode, 12-digit account, region, artifact bucket and credential Secret reference'')
          else and_then (ValidateEmulatorEndpoint (ep_S3Endpoint p)) (ValidateEmulatorEndpoint (ep_STSEndpoint p)))"

definition EmulatorCredentials :: "string \<Rightarrow> string \<Rightarrow> string \<Rightarrow> gerr option" where
  "EmulatorCredentials account secret token =
     (if \<not> (emulatorAccount account \<or> account = ''test'') \<or> secret \<noteq> ''test'' \<or> token \<noteq> []
      then Some (Err ''emulator requires explicit dummy credentials and no session token'')
      else None)"

subsection \<open>identity.go\<close>

record target_identity =
  ti_Provider :: string
  ti_Mode :: string
  ti_AccountID :: string
  ti_Region :: string
  ti_EndpointProfileDigest :: string

record endpoint_profile =
  enp_Mode :: string
  enp_GatewayEndpoint :: string
  enp_ProviderEndpoints :: gomap
  enp_BackendEndpoints :: gomap
  enp_S3AddressingMode :: string
  enp_AccountID :: string
  enp_Region :: string
  enp_EKSEndpointTranslation :: string

definition EndpointModeCustom :: string where "EndpointModeCustom = ''custom-endpoint''"

definition EndpointModeAWS :: string where "EndpointModeAWS = ''aws-native''"

definition endpoint_profile_Validate :: "endpoint_profile \<Rightarrow> gerr option" where
  "endpoint_profile_Validate p =
     (if enp_Mode p = [] then Some (Err ''endpoint profile mode is required'')
      else if enp_AccountID p = [] \<or> enp_Region p = []
      then Some (Err ''endpoint profile account ID and region are required'')
      else if enp_Mode p = EndpointModeCustom then
        first_error
          [(enp_GatewayEndpoint p = [], ''custom endpoint profile gateway endpoint is required''),
           (enp_S3AddressingMode p = [], ''custom endpoint profile S3 addressing mode is required''),
           (glookup (enp_ProviderEndpoints p) ''s3'' = [] \<or> glookup (enp_BackendEndpoints p) ''s3'' = [],
            ''custom endpoint profile must route provider and backend S3'')]
      else if enp_Mode p = EndpointModeAWS then
        first_error
          [(enp_GatewayEndpoint p \<noteq> [] \<or> enp_ProviderEndpoints p \<noteq> [] \<or> enp_BackendEndpoints p \<noteq> [],
            ''AWS-native endpoint profile cannot contain custom endpoints'')]
      else Some (Err (''unsupported endpoint profile mode '' @ quoted (enp_Mode p))))"

text \<open>A Go map as a JSON value: null when it is nil (empty), else the object in key order.\<close>

definition gomap_json :: "gomap \<Rightarrow> json" where
  "gomap_json m = (if m = [] then JNull else JObj (map (\<lambda>(k, v). (k, JStr v)) m))"

definition endpoint_profile_json :: "endpoint_profile \<Rightarrow> json" where
  "endpoint_profile_json p = jobj [
     (''mode'', Some (JStr (enp_Mode p))),
     (''gatewayEndpoint'', Some (JStr (enp_GatewayEndpoint p))),
     (''providerEndpoints'', Some (gomap_json (enp_ProviderEndpoints p))),
     (''backendEndpoints'', Some (gomap_json (enp_BackendEndpoints p))),
     (''s3AddressingMode'', Some (JStr (enp_S3AddressingMode p))),
     (''accountId'', Some (JStr (enp_AccountID p))),
     (''region'', Some (JStr (enp_Region p))),
     (''eksEndpointTranslationPolicy'', omit_str (enp_EKSEndpointTranslation p))]"

definition endpoint_profile_Digest :: "hash \<Rightarrow> endpoint_profile \<Rightarrow> gerr + string" where
  "endpoint_profile_Digest sha p =
     checked (endpoint_profile_Validate p) (Inr (Digest sha (endpoint_profile_json p)))"

record platform_identity =
  pid_RuntimeOS :: string
  pid_RuntimeArch :: string
  pid_AbsoluteWorkDir :: string
  pid_TerraformVersion :: string
  pid_RunnerImageDigest :: string

record backend_snapshot =
  bsn_Type :: string
  bsn_Bucket :: string
  bsn_Key :: string
  bsn_Region :: string
  bsn_UseLockfile :: bool
  bsn_EndpointSettings :: gomap

definition credential_key :: "string \<Rightarrow> bool" where
  "credential_key k \<longleftrightarrow> (let lower = to_lower k in
     str_contains lower ''access_key'' \<or> str_contains lower ''secret_key'' \<or> str_contains lower ''session_token'')"

definition backend_snapshot_Validate :: "backend_snapshot \<Rightarrow> gerr option" where
  "backend_snapshot_Validate s =
     (if bsn_Type s \<noteq> ''s3'' then Some (Err (''unsupported backend type '' @ quoted (bsn_Type s)))
      else if bsn_Bucket s = [] \<or> bsn_Key s = [] \<or> bsn_Region s = []
      then Some (Err ''backend bucket, key, and region are required'')
      else if \<not> bsn_UseLockfile s then Some (Err ''s3 backend must enable use_lockfile'')
      else case filter (\<lambda>e. credential_key (fst e)) (bsn_EndpointSettings s) of
        (k, v) # _ \<Rightarrow> Some (Err (''backend snapshot cannot contain credential field '' @ quoted k))
      | [] \<Rightarrow> None)"

text \<open>
  The regular expression for a credential word: access\_key, secret\_key, session\_token or
  token in any case, with a word boundary on both sides.
\<close>

definition is_word_char :: "char \<Rightarrow> bool" where
  "is_word_char c \<longleftrightarrow> is_letter c \<or> is_digit c \<or> c = CHR ''_''"

definition word_at :: "string \<Rightarrow> string \<Rightarrow> bool" where
  "word_at w s \<longleftrightarrow> has_prefix (to_lower s) w \<and>
     (case drop (length w) s of [] \<Rightarrow> True | c # _ \<Rightarrow> \<not> is_word_char c)"

fun backendCredentialField :: "bool \<Rightarrow> string \<Rightarrow> bool" where
  "backendCredentialField boundary [] = False"
| "backendCredentialField boundary (c # cs) =
     (boundary \<and> list_ex (\<lambda>w. word_at w (c # cs)) [''access_key'', ''secret_key'', ''session_token'', ''token'']
      \<or> backendCredentialField (\<not> is_word_char c) cs)"

definition ValidateBackendConfigContent :: "string \<Rightarrow> gerr option" where
  "ValidateBackendConfigContent content =
     (if content = [] then Some (Err ''backend snapshot is empty'')
      else if backendCredentialField True content
      then Some (Err ''backend snapshot contains credential material'')
      else None)"

subsection \<open>backend.go\<close>

record backend_config =
  bc_Bucket :: string
  bc_Key :: string
  bc_Region :: string
  bc_UseLockfile :: bool
  bc_UsePathStyle :: bool
  bc_Endpoints :: gomap

text \<open>
  hclparse and gohcl are an argument: \<open>None\<close> for content that does not parse, and else the
  decoded body, \<open>None\<close> when an attribute is missing or has another type.
\<close>

type_synonym hcl_decoder = "string \<Rightarrow> backend_config option option"

definition ValidateBackendProfile ::
  "hcl_decoder \<Rightarrow> string \<Rightarrow> execution_profile option \<Rightarrow> gerr option" where
  "ValidateBackendProfile hcl content profile =
     and_then (ValidateBackendConfigContent content)
       (case profile of
          None \<Rightarrow> Some (Err ''backend requires an explicit emulator profile'')
        | Some p \<Rightarrow> (case hcl content of
            None \<Rightarrow> Some (Err ''invalid backend HCL'')
          | Some None \<Rightarrow> Some (Err ''backend requires explicit bucket, key, region, locking and endpoint configuration'')
          | Some (Some config) \<Rightarrow>
              if bc_Bucket config = [] \<or> bc_Key config = [] \<or> bc_Region config \<noteq> ep_Region p
                 \<or> \<not> bc_UseLockfile config \<or> \<not> bc_UsePathStyle config
                 \<or> glookup (bc_Endpoints config) ''s3'' \<noteq> ep_S3Endpoint p
                 \<or> glookup (bc_Endpoints config) ''sts'' \<noteq> ep_STSEndpoint p
              then Some (Err ''backend routing, region or locking does not match the execution profile'')
              else None))"

subsection \<open>module.go\<close>

definition immutableRevision :: "string \<Rightarrow> bool" where
  "immutableRevision s \<longleftrightarrow> 40 \<le> length s \<and> length s \<le> 64 \<and> list_all is_hex s"

definition inputName :: "string \<Rightarrow> bool" where
  "inputName s \<longleftrightarrow> s \<noteq> [] \<and> in_range 97 122 (hd s)
     \<and> list_all (\<lambda>c. in_range 97 122 c \<or> is_digit c \<or> c = CHR ''_'') (tl s)"

record module_contract =
  mc_ID :: string
  mc_TerraformVersion :: string
  mc_Inputs :: "(string \<times> bool) list"

definition credential_input :: "string \<Rightarrow> bool" where
  "credential_input k \<longleftrightarrow> (let lower = to_lower k in
     str_contains lower ''password'' \<or> str_contains lower ''secret''
     \<or> str_contains lower ''access_key'' \<or> str_contains lower ''token'')"

text \<open>The inputs are checked in key order; Go visits them in a random order.\<close>

fun check_inputs :: "(string \<times> bool) list \<Rightarrow> gomap \<Rightarrow> gerr option" where
  "check_inputs declared [] = None"
| "check_inputs declared ((k, v) # rest) =
     (if map_of declared k = None \<or> \<not> inputName k
      then Some (Err (''module input '' @ quoted k @ '' is not allowed''))
      else if credential_input k
      then Some (Err (''inline credential input '' @ quoted k @ '' is forbidden''))
      else check_inputs declared rest)"

definition ValidateModule ::
  "(string \<Rightarrow> gerr + string) \<Rightarrow> (string \<Rightarrow> gerr + module_contract) \<Rightarrow> string \<Rightarrow> string \<Rightarrow> gomap \<Rightarrow> gerr option" where
  "ValidateModule read_file decode dir version inputs =
     (case read_file (path_join [dir, ''kpcp-module.json'']) of
        Inl e \<Rightarrow> Some (Wrap ''fixed module contract'' e)
      | Inr content \<Rightarrow> (case decode content of
          Inl e \<Rightarrow> Some e
        | Inr contract \<Rightarrow>
            if mc_ID contract \<noteq> ''aws-s3-lifecycle-v1'' \<or> mc_TerraformVersion contract \<noteq> version
               \<or> version \<noteq> ''1.14.0'' \<or> mc_Inputs contract = []
            then Some (Err ''module identity, exact Terraform version and input contract are required'')
            else if (case read_file (path_join [dir, ''.terraform.lock.hcl'']) of Inl _ \<Rightarrow> True | Inr l \<Rightarrow> l = [])
            then Some (Err ''fixed module requires a provider lockfile'')
            else (case filter (\<lambda>(k, required). required \<and> glookup inputs k = []) (mc_Inputs contract) of
                (k, _) # _ \<Rightarrow> Some (Err (''required module input '' @ quoted k @ '' is missing''))
              | [] \<Rightarrow> check_inputs (mc_Inputs contract) inputs)))"

definition bind_input :: "gerr + gomap \<Rightarrow> string \<times> string \<Rightarrow> gerr + gomap" where
  "bind_input acc kv =
     (case acc of
        Inl e \<Rightarrow> Inl e
      | Inr result \<Rightarrow>
          if ghas result (fst kv) \<and> glookup result (fst kv) \<noteq> snd kv
          then Inl (Err (''input '' @ quoted (fst kv) @ '' conflicts with execution identity''))
          else Inr (gset result (fst kv) (snd kv)))"

definition authority_inputs :: "execution_profile \<Rightarrow> string \<Rightarrow> gomap" where
  "authority_inputs p role =
     [(''s3_endpoint'', ep_S3Endpoint p), (''sts_endpoint'', ep_STSEndpoint p),
      (''region'', ep_Region p), (''execution_role_arn'', role)]"

definition BindModuleInputs :: "gomap \<Rightarrow> execution_profile option \<Rightarrow> string \<Rightarrow> gerr + gomap" where
  "BindModuleInputs inputs profile role =
     (case profile of
        None \<Rightarrow> Inl (Err ''explicit emulator executionProfile is required'')
      | Some p \<Rightarrow> checked (ValidateExecutionProfile profile)
          (foldl bind_input (Inr inputs) (authority_inputs p role)))"

subsection \<open>What the checks promise\<close>

text \<open>Binding a list of authority inputs, one key at a time.\<close>

lemma bind_input_error [simp]: "foldl bind_input (Inl e) kvs = Inl e"
  by (induction kvs) (simp_all add: bind_input_def)

lemma bind_input_step:
  "bind_input (Inr m) (k, v) =
     (if map_of m k = None \<or> map_of m k = Some v then Inr (gset m k v)
      else Inl (Err (''input '' @ quoted k @ '' conflicts with execution identity'')))"
  by (auto simp: bind_input_def ghas_def glookup_def split: option.splits)

lemma bind_inputs_spec:
  "distinct (map fst m) \<Longrightarrow> distinct (map fst kvs) \<Longrightarrow> foldl bind_input (Inr m) kvs = Inr m' \<Longrightarrow>
     map_of m' = map_of m ++ map_of kvs \<and> map_of m \<subseteq>\<^sub>m map_of m' \<and> distinct (map fst m')"
proof (induction kvs arbitrary: m)
  case (Cons kv kvs)
  obtain k v where kv: "kv = (k, v)" by fastforce
  have c: "map_of m k = None \<or> map_of m k = Some v"
    using Cons.prems(3) by (auto simp: kv bind_input_step split: if_splits)
  then have f: "foldl bind_input (Inr (gset m k v)) kvs = Inr m'"
    using Cons.prems(3) by (auto simp: kv bind_input_step split: if_splits)
  have fresh: "map_of kvs k = None" using Cons.prems(2) by (simp add: kv map_of_eq_None_iff)
  have IH: "map_of m' = (map_of m)(k \<mapsto> v) ++ map_of kvs
     \<and> (map_of m)(k \<mapsto> v) \<subseteq>\<^sub>m map_of m' \<and> distinct (map fst m')"
    by (rule Cons.IH [OF gset_distinct [OF Cons.prems(1)] _ f, unfolded map_of_gset [OF Cons.prems(1)]])
       (use Cons.prems(2) in \<open>simp add: kv\<close>)
  have "map_of m \<subseteq>\<^sub>m (map_of m)(k \<mapsto> v)" using c by (auto simp: map_le_def)
  then have "map_of m \<subseteq>\<^sub>m map_of m'" using IH by (blast intro: map_le_trans)
  moreover have "(map_of m)(k \<mapsto> v) ++ map_of kvs = map_of m ++ map_of (kv # kvs)"
    using fresh by (auto simp: kv fun_eq_iff map_add_def split: option.splits)
  ultimately show ?case using IH by metis
qed (simp add: map_le_def)

lemma bind_inputs_succeeds:
  "distinct (map fst m) \<Longrightarrow> distinct (map fst kvs) \<Longrightarrow>
     \<forall>(k, v) \<in> set kvs. map_of m k = None \<or> map_of m k = Some v \<Longrightarrow>
     \<exists>m'. foldl bind_input (Inr m) kvs = Inr m'"
proof (induction kvs arbitrary: m)
  case (Cons kv kvs)
  obtain k v where kv: "kv = (k, v)" by fastforce
  have "\<forall>(j, w) \<in> set kvs. map_of (gset m k v) j = None \<or> map_of (gset m k v) j = Some w"
  proof (clarify)
    fix j w assume jw: "(j, w) \<in> set kvs" "map_of (gset m k v) j \<noteq> Some w"
    then have "j \<noteq> k" using Cons.prems(2) by (force simp: kv)
    then show "map_of (gset m k v) j = None"
      using jw Cons.prems(3) unfolding map_of_gset [OF Cons.prems(1)] by (auto simp: kv)
  qed
  then show ?case
    using Cons.IH [OF gset_distinct [OF Cons.prems(1)]] Cons.prems by (auto simp: kv bind_input_step)
qed simp

lemma authority_distinct: "distinct (map fst (authority_inputs p role))"
  by (simp add: authority_inputs_def)

lemma BindModuleInputs_Inr:
  "BindModuleInputs inputs (Some p) role = Inr values \<longleftrightarrow>
     ValidateExecutionProfile (Some p) = None \<and>
     foldl bind_input (Inr inputs) (authority_inputs p role) = Inr values"
  by (simp add: BindModuleInputs_def)

text \<open>
  The inputs a runner gets are the declared inputs together with the endpoints, region and
  role of the execution identity; no input of the user is changed, and an input that
  contradicts the execution identity is refused.
\<close>
theorem bound_inputs_are_authoritative:
  assumes "distinct (map fst inputs)"
    and "BindModuleInputs inputs (Some p) role = Inr values"
  shows "map_of inputs \<subseteq>\<^sub>m map_of values
     \<and> map_of values = map_of inputs ++ map_of (authority_inputs p role)
     \<and> ValidateExecutionProfile (Some p) = None"
  using bind_inputs_spec [OF assms(1) authority_distinct] assms(2) by (auto simp: BindModuleInputs_Inr)

definition sample_profile :: execution_profile where
  "sample_profile = \<lparr>ep_Mode = ''emulator'', ep_S3Endpoint = ''http://a:4566'', ep_STSEndpoint = ''http://a:4566'',
     ep_Region = ''r'', ep_AccountID = ''000000000000'', ep_ArtifactBucket = ''b'',
     ep_CredentialsSecretRef = ''c'', ep_CredentialsIdentity = ''i''\<rparr>"

lemma sample_profile_valid: "ValidateExecutionProfile (Some sample_profile) = None"
  by code_simp

theorem bound_inputs_are_authoritative_witness:
  "\<exists>bound. BindModuleInputs [(''name'', ''x'')] (Some sample_profile) ''role'' = Inr bound \<and>
     map_of [(''name'', ''x'')] \<subseteq>\<^sub>m map_of bound"
proof -
  let ?bound = "[(''execution_role_arn'', ''role''), (''name'', ''x''), (''region'', ''r''),
     (''s3_endpoint'', ''http://a:4566''), (''sts_endpoint'', ''http://a:4566'')]"
  have b: "BindModuleInputs [(''name'', ''x'')] (Some sample_profile) ''role'' = Inr ?bound"
    by code_simp
  have d: "distinct (map fst [(''name'', ''x'')])" by simp
  from bound_inputs_are_authoritative [OF d b] b show ?thesis by blast
qed

text \<open>The regular expression search finds exactly the delimited credential words.\<close>

definition credential_words :: "string list" where
  "credential_words = [''access_key'', ''secret_key'', ''session_token'', ''token'']"

definition word_start :: "string \<Rightarrow> bool" where
  "word_start pre \<longleftrightarrow> pre = [] \<or> \<not> is_word_char (last pre)"

definition word_end :: "string \<Rightarrow> bool" where
  "word_end post \<longleftrightarrow> post = [] \<or> \<not> is_word_char (hd post)"

definition mentions_credential :: "bool \<Rightarrow> string \<Rightarrow> bool" where
  "mentions_credential boundary s \<longleftrightarrow> (\<exists>pre w post. s = pre @ w @ post \<and> to_lower w \<in> set credential_words
     \<and> (if pre = [] then boundary else \<not> is_word_char (last pre)) \<and> word_end post)"

lemma word_at_iff:
  "word_at w s \<longleftrightarrow> (\<exists>v post. s = v @ post \<and> to_lower v = w \<and> word_end post)"
proof
  assume w: "word_at w s"
  then have "to_lower (take (length w) s) = w"
    by (simp add: word_at_def has_prefix_def to_lower_def take_map)
  moreover have "word_end (drop (length w) s)"
    using w by (auto simp: word_at_def word_end_def split: list.splits)
  ultimately show "\<exists>v post. s = v @ post \<and> to_lower v = w \<and> word_end post"
    by (metis append_take_drop_id)
next
  assume "\<exists>v post. s = v @ post \<and> to_lower v = w \<and> word_end post"
  then show "word_at w s"
    by (auto simp: word_at_def has_prefix_def to_lower_def word_end_def split: list.splits)
qed

lemma credential_words_nonempty: "to_lower w \<in> set credential_words \<Longrightarrow> w \<noteq> []"
  by (auto simp: credential_words_def to_lower_def)

lemma mentions_credential_Cons:
  "mentions_credential boundary (c # cs) \<longleftrightarrow>
     boundary \<and> (\<exists>w \<in> set credential_words. word_at w (c # cs))
     \<or> mentions_credential (\<not> is_word_char c) cs"
proof -
  have "mentions_credential boundary (c # cs) \<longleftrightarrow>
     (\<exists>w post. c # cs = w @ post \<and> to_lower w \<in> set credential_words \<and> boundary \<and> word_end post)
     \<or> (\<exists>pre w post. cs = pre @ w @ post \<and> to_lower w \<in> set credential_words
        \<and> \<not> is_word_char (last (c # pre)) \<and> word_end post)" (is "_ \<longleftrightarrow> ?now \<or> ?later")
  proof
    assume "mentions_credential boundary (c # cs)"
    then obtain pre w post where m: "c # cs = pre @ w @ post" "to_lower w \<in> set credential_words"
      "if pre = [] then boundary else \<not> is_word_char (last pre)" "word_end post"
      unfolding mentions_credential_def by blast
    show "?now \<or> ?later"
    proof (cases pre)
      case Nil
      with m show ?thesis by auto
    next
      case (Cons a p)
      with m have "?later" by (intro exI [of _ p] exI [of _ w] exI [of _ post]) simp
      then show ?thesis ..
    qed
  next
    assume "?now \<or> ?later"
    then show "mentions_credential boundary (c # cs)"
    proof
      assume ?now
      then obtain w post where "c # cs = w @ post" "to_lower w \<in> set credential_words" boundary "word_end post" by blast
      then show ?thesis unfolding mentions_credential_def
        by (intro exI [of _ "[]"] exI [of _ w] exI [of _ post]) simp
    next
      assume ?later
      then obtain pre w post where "cs = pre @ w @ post" "to_lower w \<in> set credential_words"
        "\<not> is_word_char (last (c # pre))" "word_end post" by blast
      then show ?thesis unfolding mentions_credential_def
        by (intro exI [of _ "c # pre"] exI [of _ w] exI [of _ post]) simp
    qed
  qed
  then show ?thesis by (auto simp: word_at_iff mentions_credential_def)
qed

lemma backendCredentialField_iff: "backendCredentialField b s \<longleftrightarrow> mentions_credential b s"
proof (induction s arbitrary: b)
  case Nil
  then show ?case using credential_words_nonempty by (auto simp: mentions_credential_def)
next
  case (Cons c cs)
  then show ?case
    by (simp add: mentions_credential_Cons credential_words_def list_ex_iff)
qed

text \<open>
  A backend configuration is accepted exactly when it is not empty and nowhere holds a
  credential word (access key, secret key, session token or token, in any case) standing alone.
\<close>
theorem backend_content_accepted_iff:
  "ValidateBackendConfigContent content = None \<longleftrightarrow>
     content \<noteq> [] \<and>
     \<not> (\<exists>pre w post. content = pre @ w @ post \<and> to_lower w \<in> set credential_words
          \<and> word_start pre \<and> word_end post)"
proof -
  have "mentions_credential True content \<longleftrightarrow>
     (\<exists>pre w post. content = pre @ w @ post \<and> to_lower w \<in> set credential_words
          \<and> word_start pre \<and> word_end post)"
  proof -
    have "\<And>pre. (if pre = [] then True else \<not> is_word_char (last pre)) = word_start pre"
      by (simp add: word_start_def)
    then show ?thesis unfolding mentions_credential_def by simp
  qed
  from this [symmetric] show ?thesis
    by (simp only: ValidateBackendConfigContent_def backendCredentialField_iff) simp
qed

text \<open>
  An accepted backend configuration locks its state, is routed to the endpoints of the
  execution profile, and names the profile's region.
\<close>
theorem accepted_backend_is_routed:
  assumes "ValidateBackendProfile hcl content (Some p) = None"
  shows "\<exists>config. hcl content = Some (Some config) \<and> bc_UseLockfile config
     \<and> bc_Region config = ep_Region p \<and> glookup (bc_Endpoints config) ''s3'' = ep_S3Endpoint p
     \<and> glookup (bc_Endpoints config) ''sts'' = ep_STSEndpoint p
     \<and> \<not> mentions_credential True content"
  using assms unfolding ValidateBackendProfile_def ValidateBackendConfigContent_def
  by (auto simp: backendCredentialField_iff split: option.splits if_splits)

theorem accepted_backend_is_routed_witness:
  "\<not> mentions_credential True ''bucket''"
proof -
  let ?c = "\<lparr>bc_Bucket = ''b'', bc_Key = ''k'', bc_Region = ''r'', bc_UseLockfile = True, bc_UsePathStyle = True,
     bc_Endpoints = [(''s3'', ''http://a:4566''), (''sts'', ''http://a:4566'')]\<rparr>"
  have "ValidateBackendProfile (\<lambda>_. Some (Some ?c)) ''bucket'' (Some sample_profile) = None"
    by code_simp
  from accepted_backend_is_routed [OF this] show ?thesis by blast
qed

end
