(* ===== verification/Jobs.thy ===== *)
theory Jobs
  imports TerraformJob
begin

section \<open>Building the runner Job: internal/terraform/job.go\<close>

text \<open>
  BuildJob validates a request and makes the Kubernetes Job that runs terraform-runner. The
  records hold the fields of batch/v1 and core/v1 that the code sets or that a controller
  reads back from the server. The theorems say what every accepted Job is: no retry, no root,
  no privilege escalation, and for an Apply a retained source bundle and a saved plan that the
  runner is told to check by digest.
\<close>

definition SourceGitCommit :: string where "SourceGitCommit = ''GitCommit''"

definition SourceRetainedBundle :: string where "SourceRetainedBundle = ''RetainedBundle''"

definition DefaultGitImage :: string where "DefaultGitImage = ''alpine/git:2.45.2''"

lemma source_types [simp]: "SourceGitCommit \<noteq> SourceRetainedBundle" "SourceRetainedBundle \<noteq> SourceGitCommit"
  by (simp_all add: SourceGitCommit_def SourceRetainedBundle_def)

record variable_secret_reference =
  vsr_Variable :: string
  vsr_Name :: string
  vsr_Key :: string

record job_request =
  jr_ExecutionProfile :: "execution_profile option"
  jr_Inputs :: gomap
  jr_Name :: string
  jr_Namespace :: string
  jr_RunUID :: string
  jr_RunnerImage :: string
  jr_SourceType :: string
  jr_SourceURL :: string
  jr_SourceRevision :: string
  jr_SourcePath :: string
  jr_SourceRoot :: string
  jr_SourceBundleRef :: string
  jr_SourceBundleDigest :: string
  jr_Operation :: string
  jr_Destroy :: bool
  jr_WorkingDir :: string
  jr_Workspace :: string
  jr_BackendConfigMap :: string
  jr_BackendConfigPath :: string
  jr_PlanPath :: string
  jr_LockTimeout :: duration
  jr_ExecutionTimeout :: duration
  jr_Parallelism :: "int option"
  jr_GitImage :: string
  jr_ArtifactEndpoint :: string
  jr_ArtifactRegion :: string
  jr_ArtifactBucket :: string
  jr_ArtifactKMSKeyID :: string
  jr_ArtifactPrefix :: string
  jr_InfrastructureExecutionRoleARN :: string
  jr_PlanRef :: string
  jr_PlanDigest :: string
  jr_TargetDiscoveryRef :: string
  jr_TargetDiscoveryDigest :: string
  jr_BackendConfigArtifactRef :: string
  jr_BackendConfigArtifactDigest :: string
  jr_VariableSecretRefs :: "local_ref list"
  jr_VariableSecretVariables :: "variable_secret_reference list"
  jr_ServiceAccountName :: string
  jr_ExpectedTerraformVersion :: string

subsection \<open>The Kubernetes objects\<close>

datatype env_value =
    EnvValue string
  | EnvField string
  | EnvSecret secret_key_selector

type_synonym env_var = "string \<times> env_value"

record security_context =
  sc_RunAsUser :: int
  sc_RunAsGroup :: int
  sc_RunAsNonRoot :: bool
  sc_AllowPrivilegeEscalation :: bool
  sc_DropCapabilities :: "string list"
  sc_ReadOnlyRootFilesystem :: "bool option"

record volume_mount =
  vm_Name :: string
  vm_MountPath :: string
  vm_ReadOnly :: bool

datatype volume_source = EmptyDir | ConfigMapVolume string

record container =
  con_Name :: string
  con_Image :: string
  con_Command :: "string list"
  con_Args :: "string list"
  con_VolumeMounts :: "volume_mount list"
  con_SecurityContext :: security_context
  con_Env :: "env_var list"
  con_Requests :: gomap
  con_Limits :: gomap

record pod_spec =
  pod_RestartPolicy :: string
  pod_AutomountServiceAccountToken :: bool
  pod_ServiceAccountName :: string
  pod_RunAsNonRoot :: bool
  pod_FSGroup :: int
  pod_SeccompProfile :: string
  pod_InitContainers :: "container list"
  pod_Containers :: "container list"
  pod_Volumes :: "(string \<times> volume_source) list"

record job_status =
  js_Active :: int
  js_Succeeded :: int
  js_Failed :: int
  js_CompletionTime :: "time option"

record job =
  job_Meta :: object_meta
  job_BackoffLimit :: int
  job_ActiveDeadlineSeconds :: int
  job_TemplateLabels :: gomap
  job_Pod :: pod_spec
  job_Status :: job_status

definition no_status :: job_status where
  "no_status = \<lparr>js_Active = 0, js_Succeeded = 0, js_Failed = 0, js_CompletionTime = None\<rparr>"

subsection \<open>Validation\<close>

definition secret_reference_incomplete :: "variable_secret_reference \<Rightarrow> bool" where
  "secret_reference_incomplete r \<longleftrightarrow> vsr_Variable r = [] \<or> vsr_Name r = [] \<or> vsr_Key r = []"

definition source_url_rejected :: "string \<Rightarrow> bool" where
  "source_url_rejected raw \<longleftrightarrow> (case url_parse raw of
      None \<Rightarrow> True
    | Some u \<Rightarrow> (u_Scheme u \<noteq> ''http'' \<and> u_Scheme u \<noteq> ''https'') \<or> u_Host u = []
        \<or> u_User u \<noteq> None \<or> u_RawQuery u \<noteq> [] \<or> u_Fragment u \<noteq> [])"

definition validate_source :: "job_request \<Rightarrow> gerr option" where
  "validate_source r =
     (if jr_SourceType r = SourceGitCommit then
        first_error
          [(jr_SourceURL r = [] \<or> jr_SourceRevision r = [], ''GitCommit source URL and revision are required''),
           (\<not> immutableRevision (jr_SourceRevision r), ''GitCommit source must pin a full immutable revision''),
           (source_url_rejected (jr_SourceURL r),
            ''module source requires an explicit HTTP(S) URL without inline credentials'')]
      else if jr_SourceType r = SourceRetainedBundle then
        first_error
          [(jr_SourceBundleRef r = [] \<or> jr_SourceBundleDigest r = [],
            ''RetainedBundle source ref and digest are required'')]
      else Some (Err (''source type '' @ quoted (jr_SourceType r) @ '' is not supported by the Phase 2 runner'')))"

definition job_request_validate :: "job_request \<Rightarrow> gerr option" where
  "job_request_validate r =
     and_then (first_error
       [(jr_Name r = [] \<or> jr_Namespace r = [] \<or> jr_RunUID r = [], ''job name, namespace, and run UID are required''),
        (jr_RunnerImage r = [], ''runner image is required''),
        (jr_SourceType r = SourceGitCommit \<and> jr_GitImage r = [], ''git image is required for GitCommit source'')])
     (and_then (validate_source r)
     (first_error
       [(jr_Operation r \<noteq> ''Plan'' \<and> jr_Operation r \<noteq> ''Apply'', ''operation must be Plan or Apply''),
        (jr_Operation r = ''Apply'' \<and> jr_SourceType r \<noteq> SourceRetainedBundle, ''Apply requires a RetainedBundle source''),
        (jr_Destroy r \<and> jr_SourceType r \<noteq> SourceRetainedBundle, ''Destroy requires a RetainedBundle source''),
        (jr_Operation r = ''Apply'' \<and> jr_PlanRef r = [], ''Apply requires an immutable saved plan ref''),
        (jr_WorkingDir r = [] \<or> jr_Workspace r = [] \<or> jr_PlanPath r = [],
         ''working directory, workspace, and plan path are required''),
        (jr_ExecutionTimeout r \<le> 0 \<or> jr_LockTimeout r < 0,
         ''execution timeout must be positive and lock timeout cannot be negative''),
        (jr_BackendConfigMap r \<noteq> [] \<and> jr_BackendConfigPath r = [],
         ''backend config path is required when a backend ConfigMap is mounted''),
        (jr_ArtifactBucket r \<noteq> [] \<and> jr_ArtifactRegion r = [], ''artifact region is required with artifact bucket''),
        (jr_ArtifactPrefix r \<noteq> [] \<and> jr_ArtifactBucket r = [], ''artifact bucket is required with artifact prefix''),
        (jr_SourceBundleRef r \<noteq> [] \<and> (jr_ArtifactRegion r = [] \<or> jr_ArtifactBucket r = []),
         ''artifact region and bucket are required for retained source bundle''),
        (jr_PlanRef r \<noteq> [] \<and> jr_PlanDigest r = [], ''plan digest is required with plan ref''),
        (jr_TargetDiscoveryRef r \<noteq> [] \<and> jr_TargetDiscoveryDigest r = [],
         ''target discovery digest is required with target discovery ref''),
        (jr_BackendConfigArtifactRef r \<noteq> [] \<and> jr_BackendConfigArtifactDigest r = [],
         ''backend artifact digest is required with backend artifact ref''),
        (jr_SourcePath r \<noteq> [] \<and> (is_abs_path (jr_SourcePath r) \<or> CHR 0x5C \<in> set (jr_SourcePath r)
           \<or> path_clean (jr_SourcePath r) \<noteq> jr_SourcePath r \<or> jr_SourcePath r = ''..''
           \<or> has_prefix (jr_SourcePath r) ''../''),
         ''source path must be relative''),
        (list_ex secret_reference_incomplete (jr_VariableSecretVariables r),
         ''secret variable, Secret name, and key are required'')]))"

subsection \<open>BuildJob\<close>

definition sourceRootForJob :: "job_request \<Rightarrow> string" where
  "sourceRootForJob r = (if jr_SourceRoot r \<noteq> [] then jr_SourceRoot r else ''/workspace/terraform'')"

definition workspace_mount :: volume_mount where
  "workspace_mount = \<lparr>vm_Name = ''workspace'', vm_MountPath = ''/workspace'', vm_ReadOnly = False\<rparr>"

definition tmp_mount :: volume_mount where
  "tmp_mount = \<lparr>vm_Name = ''tmp'', vm_MountPath = ''/tmp'', vm_ReadOnly = False\<rparr>"

definition git_container :: "job_request \<Rightarrow> string \<Rightarrow> string list \<Rightarrow> container" where
  "git_container r name args = \<lparr>con_Name = name, con_Image = jr_GitImage r, con_Command = [''git''],
     con_Args = args, con_VolumeMounts = [workspace_mount],
     con_SecurityContext = \<lparr>sc_RunAsUser = 1000, sc_RunAsGroup = 1000, sc_RunAsNonRoot = True,
       sc_AllowPrivilegeEscalation = False, sc_DropCapabilities = [''ALL''], sc_ReadOnlyRootFilesystem = None\<rparr>,
     con_Env = [], con_Requests = [], con_Limits = []\<rparr>"

definition init_containers :: "job_request \<Rightarrow> container list" where
  "init_containers r =
     (if jr_SourceType r = SourceGitCommit then
        [git_container r ''source-clone'' [''clone'', ''--no-checkout'', jr_SourceURL r, ''/workspace/terraform''],
         git_container r ''source-checkout''
           [''-C'', ''/workspace/terraform'', ''checkout'', ''--detach'', jr_SourceRevision r]]
      else [])"

definition runner_args :: "job_request \<Rightarrow> string list" where
  "runner_args r =
     [''--operation='' @ jr_Operation r,
      ''--run-uid='' @ jr_RunUID r,
      ''--expected-terraform-version='' @ jr_ExpectedTerraformVersion r,
      ''--working-dir='' @ jr_WorkingDir r,
      ''--workspace='' @ jr_Workspace r,
      ''--plan='' @ jr_PlanPath r,
      ''--lock-timeout='' @ show_duration (jr_LockTimeout r)]
     @ (if jr_Destroy r then [''--destroy=true''] else [])
     @ (if jr_BackendConfigMap r \<noteq> [] then [''--backend-config='' @ jr_BackendConfigPath r] else [])
     @ (case jr_Parallelism r of Some p \<Rightarrow> [''--parallelism='' @ show_int p] | None \<Rightarrow> [])
     @ (if jr_ArtifactBucket r \<noteq> [] then
          (if jr_ArtifactEndpoint r \<noteq> [] then [''--artifact-endpoint='' @ jr_ArtifactEndpoint r] else [])
          @ [''--artifact-region='' @ jr_ArtifactRegion r, ''--artifact-bucket='' @ jr_ArtifactBucket r]
          @ (if jr_ArtifactKMSKeyID r \<noteq> [] then [''--artifact-kms-key-id='' @ jr_ArtifactKMSKeyID r] else [])
          @ (if jr_ArtifactPrefix r \<noteq> [] then [''--artifact-prefix='' @ jr_ArtifactPrefix r] else [])
        else [])
     @ (if jr_SourceBundleRef r \<noteq> [] then
          [''--source-root='' @ sourceRootForJob r,
           ''--source-bundle-ref='' @ jr_SourceBundleRef r,
           ''--source-bundle-digest='' @ jr_SourceBundleDigest r]
        else if jr_SourceRoot r \<noteq> [] then [''--source-root='' @ jr_SourceRoot r] else [])
     @ (if jr_PlanRef r \<noteq> [] then [''--plan-ref='' @ jr_PlanRef r, ''--plan-digest='' @ jr_PlanDigest r] else [])
     @ (if jr_TargetDiscoveryRef r \<noteq> [] then
          [''--target-discovery-ref='' @ jr_TargetDiscoveryRef r,
           ''--target-discovery-digest='' @ jr_TargetDiscoveryDigest r] else [])
     @ (if jr_InfrastructureExecutionRoleARN r \<noteq> []
        then [''--infrastructure-execution-role-arn='' @ jr_InfrastructureExecutionRoleARN r] else [])
     @ (if jr_BackendConfigArtifactRef r \<noteq> [] then
          [''--backend-config='' @ jr_BackendConfigPath r,
           ''--backend-config-ref='' @ jr_BackendConfigArtifactRef r,
           ''--backend-config-digest='' @ jr_BackendConfigArtifactDigest r] else [])"

definition secret_env :: "variable_secret_reference \<Rightarrow> env_var" where
  "secret_env v = (''TF_VAR_'' @ vsr_Variable v,
     EnvSecret \<lparr>sks_Name = vsr_Name v, sks_Key = vsr_Key v\<rparr>)"

definition profile_env :: "job_request \<Rightarrow> gerr + env_var list" where
  "profile_env r =
     (case jr_ExecutionProfile r of
        None \<Rightarrow> Inr []
      | Some p \<Rightarrow>
          sum_bind (BindModuleInputs (jr_Inputs r) (Some p) (jr_InfrastructureExecutionRoleARN r)) (\<lambda>values.
            Inr (map (\<lambda>key. (key, EnvSecret \<lparr>sks_Name = ep_CredentialsSecretRef p, sks_Key = key\<rparr>))
                   [''AWS_ACCESS_KEY_ID'', ''AWS_SECRET_ACCESS_KEY'']
                 @ [(''AWS_EC2_METADATA_DISABLED'', EnvValue ''true''),
                    (''PCP_EXECUTION_PROFILE'', EnvValue (json_text (execution_profile_json p))),
                    (''PCP_MODULE_INPUTS'', EnvValue (json_text (gomap_json values)))])))"

definition base_env :: "env_var list" where
  "base_env = [(''HOME'', EnvValue ''/workspace''),
     (''PCP_POD_NAME'', EnvField ''metadata.name''), (''PCP_POD_NAMESPACE'', EnvField ''metadata.namespace'')]"

definition runner_container :: "job_request \<Rightarrow> env_var list \<Rightarrow> container" where
  "runner_container r env = \<lparr>con_Name = ''terraform-runner'', con_Image = jr_RunnerImage r,
     con_Command = [''terraform-runner''], con_Args = runner_args r,
     con_VolumeMounts = [workspace_mount, tmp_mount]
       @ (if jr_BackendConfigMap r \<noteq> []
          then [\<lparr>vm_Name = ''backend-config'', vm_MountPath = ''/workspace/backend'', vm_ReadOnly = True\<rparr>] else []),
     con_SecurityContext = \<lparr>sc_RunAsUser = 1000, sc_RunAsGroup = 1000, sc_RunAsNonRoot = True,
       sc_AllowPrivilegeEscalation = False, sc_DropCapabilities = [''ALL''], sc_ReadOnlyRootFilesystem = Some True\<rparr>,
     con_Env = env,
     con_Requests = [(''cpu'', ''100m''), (''memory'', ''128Mi'')],
     con_Limits = [(''cpu'', ''1''), (''memory'', ''1Gi'')]\<rparr>"

text \<open>
  The deadline is the execution timeout rounded up to seconds. Go computes it on float64; the
  two agree for every timeout below 48 days, where a nanosecond is not lost.
\<close>

definition deadline_seconds :: "duration \<Rightarrow> int" where
  "deadline_seconds d = (d + (second - 1)) div second"

definition job_labels :: "job_request \<Rightarrow> gomap" where
  "job_labels r = [(''platform.example.io/terraform-run'', jr_Name r),
     (''platform.example.io/terraform-run-uid'', jr_RunUID r)]"

definition BuildJob :: "job_request \<Rightarrow> gerr + job" where
  "BuildJob r =
     checked (job_request_validate r)
       (if list_ex secret_reference_incomplete (jr_VariableSecretVariables r)
        then Inl (Err ''secret variable, Secret name, and key are required'')
        else sum_bind (profile_env r) (\<lambda>penv. Inr
          \<lparr>job_Meta = empty_meta\<lparr>om_Name := jr_Name r, om_Namespace := jr_Namespace r, om_Labels := job_labels r\<rparr>,
           job_BackoffLimit = 0,
           job_ActiveDeadlineSeconds = deadline_seconds (jr_ExecutionTimeout r),
           job_TemplateLabels = job_labels r,
           job_Pod = \<lparr>pod_RestartPolicy = ''Never'', pod_AutomountServiceAccountToken = True,
             pod_ServiceAccountName = jr_ServiceAccountName r, pod_RunAsNonRoot = True, pod_FSGroup = 1000,
             pod_SeccompProfile = ''RuntimeDefault'',
             pod_InitContainers = init_containers r,
             pod_Containers = [runner_container r (base_env @ map secret_env (jr_VariableSecretVariables r) @ penv)],
             pod_Volumes = [(''workspace'', EmptyDir), (''tmp'', EmptyDir)]
               @ (if jr_BackendConfigMap r \<noteq> [] then [(''backend-config'', ConfigMapVolume (jr_BackendConfigMap r))] else [])\<rparr>,
           job_Status = no_status\<rparr>))"

subsection \<open>What an accepted Job is\<close>

definition confined :: "container \<Rightarrow> bool" where
  "confined c \<longleftrightarrow> (let s = con_SecurityContext c in
     sc_RunAsNonRoot s \<and> sc_RunAsUser s \<noteq> 0 \<and> \<not> sc_AllowPrivilegeEscalation s
     \<and> sc_DropCapabilities s = [''ALL''])"

lemma BuildJob_Inr:
  "BuildJob r = Inr j \<Longrightarrow> job_request_validate r = None \<and>
     (\<exists>penv. profile_env r = Inr penv \<and>
        pod_Containers (job_Pod j) = [runner_container r (base_env @ map secret_env (jr_VariableSecretVariables r) @ penv)]) \<and>
     pod_InitContainers (job_Pod j) = init_containers r \<and>
     job_BackoffLimit j = 0 \<and> pod_RestartPolicy (job_Pod j) = ''Never'' \<and>
     job_ActiveDeadlineSeconds j = deadline_seconds (jr_ExecutionTimeout r) \<and>
     job_Meta j = empty_meta\<lparr>om_Name := jr_Name r, om_Namespace := jr_Namespace r, om_Labels := job_labels r\<rparr> \<and>
     job_Status j = no_status"
  by (auto simp: BuildJob_def split: if_splits)

lemma deadline_covers: "0 < d \<Longrightarrow> 0 < deadline_seconds d \<and> d \<le> deadline_seconds d * second"
  by (simp add: deadline_seconds_def) linarith

lemma containers_confined: "\<forall>c \<in> set (init_containers r @ [runner_container r env]). confined c"
  by (auto simp: init_containers_def git_container_def runner_container_def confined_def)

lemma validate_apply:
  "job_request_validate r = None \<Longrightarrow> jr_Operation r = ''Apply'' \<Longrightarrow>
     jr_SourceType r = SourceRetainedBundle \<and> jr_PlanRef r \<noteq> [] \<and> jr_PlanDigest r \<noteq> []
     \<and> jr_SourceBundleRef r \<noteq> [] \<and> jr_SourceBundleDigest r \<noteq> []"
  by (auto simp: job_request_validate_def validate_source_def split: if_splits)

lemma validate_timeout: "job_request_validate r = None \<Longrightarrow> 0 < jr_ExecutionTimeout r"
  by (simp add: job_request_validate_def)

text \<open>
  Every Job that BuildJob makes runs once (no retry, no restart), ends at a positive
  deadline no earlier than the execution timeout, and runs only containers that are not root, cannot gain
  privileges and hold no capabilities.
\<close>
theorem jobs_run_once_and_confined:
  assumes "BuildJob r = Inr j"
  shows "job_BackoffLimit j = 0 \<and> pod_RestartPolicy (job_Pod j) = ''Never''
     \<and> 0 < job_ActiveDeadlineSeconds j \<and> jr_ExecutionTimeout r \<le> job_ActiveDeadlineSeconds j * second
     \<and> (\<forall>c \<in> set (pod_InitContainers (job_Pod j) @ pod_Containers (job_Pod j)). confined c)"
  using BuildJob_Inr [OF assms] deadline_covers [OF validate_timeout] containers_confined [of r]
  by auto

definition sample_request :: job_request where
  "sample_request = \<lparr>jr_ExecutionProfile = Some sample_profile, jr_Inputs = [(''name'', ''x'')],
     jr_Name = ''run'', jr_Namespace = ''ns'', jr_RunUID = ''uid'', jr_RunnerImage = ''img'',
     jr_SourceType = SourceRetainedBundle, jr_SourceURL = [], jr_SourceRevision = [], jr_SourcePath = [],
     jr_SourceRoot = [], jr_SourceBundleRef = ''ref'', jr_SourceBundleDigest = ''dig'',
     jr_Operation = ''Apply'', jr_Destroy = False, jr_WorkingDir = ''/w'', jr_Workspace = ''default'',
     jr_BackendConfigMap = [], jr_BackendConfigPath = [], jr_PlanPath = ''/p'', jr_LockTimeout = 5 * minute,
     jr_ExecutionTimeout = hour, jr_Parallelism = Some 3, jr_GitImage = [], jr_ArtifactEndpoint = [],
     jr_ArtifactRegion = ''r'', jr_ArtifactBucket = ''b'', jr_ArtifactKMSKeyID = [], jr_ArtifactPrefix = ''runs/uid'',
     jr_InfrastructureExecutionRoleARN = ''role'', jr_PlanRef = ''plan'', jr_PlanDigest = ''pd'',
     jr_TargetDiscoveryRef = [], jr_TargetDiscoveryDigest = [], jr_BackendConfigArtifactRef = ''be'',
     jr_BackendConfigArtifactDigest = ''bd'', jr_VariableSecretRefs = [],
     jr_VariableSecretVariables = [\<lparr>vsr_Variable = ''v'', vsr_Name = ''n'', vsr_Key = ''k''\<rparr>],
     jr_ServiceAccountName = ''sa'', jr_ExpectedTerraformVersion = ''1.14.0''\<rparr>"

lemma sample_request_accepted: "\<exists>j. BuildJob sample_request = Inr j"
proof -
  have v: "job_request_validate sample_request = None" by code_simp
  have "\<exists>values. foldl bind_input (Inr [(''name'', ''x'')]) (authority_inputs sample_profile ''role'') = Inr values"
    by (rule bind_inputs_succeeds) (simp_all add: authority_inputs_def)
  then have "\<exists>penv. profile_env sample_request = Inr penv"
    by (auto simp: profile_env_def sample_request_def BindModuleInputs_def sample_profile_valid
        checked_def sum_bind_def)
  then show ?thesis
    using v by (auto simp: BuildJob_def checked_def sum_bind_def sample_request_def secret_reference_incomplete_def)
qed

theorem jobs_run_once_and_confined_witness:
  "\<exists>j. BuildJob sample_request = Inr j \<and> job_BackoffLimit j = 0"
  using sample_request_accepted jobs_run_once_and_confined [of sample_request] by blast

text \<open>
  A Job that applies uses no Git checkout: it gets a retained source bundle and a saved plan,
  both with a digest the runner is told to verify.
\<close>
theorem apply_jobs_use_saved_artifacts:
  assumes "BuildJob r = Inr j" and "jr_Operation r = ''Apply''"
  shows "pod_InitContainers (job_Pod j) = [] \<and> jr_PlanDigest r \<noteq> [] \<and> jr_SourceBundleDigest r \<noteq> []
     \<and> (\<forall>c \<in> set (pod_Containers (job_Pod j)).
          {''--operation=Apply'', ''--plan-ref='' @ jr_PlanRef r, ''--plan-digest='' @ jr_PlanDigest r,
           ''--source-bundle-ref='' @ jr_SourceBundleRef r, ''--source-bundle-digest='' @ jr_SourceBundleDigest r}
          \<subseteq> set (con_Args c))"
  using BuildJob_Inr [OF assms(1)] validate_apply [of r] assms(2)
  by (auto simp: init_containers_def runner_container_def runner_args_def)

theorem apply_jobs_use_saved_artifacts_witness:
  "\<exists>j. BuildJob sample_request = Inr j \<and> pod_InitContainers (job_Pod j) = []"
  using sample_request_accepted apply_jobs_use_saved_artifacts [of sample_request]
  by (auto simp: sample_request_def)

end
