(* ===== verification/Artifacts.thy ===== *)
theory Artifacts
  imports TerraformJob
begin

section \<open>The immutable artifact store: internal/artifacts/s3.go\<close>

text \<open>
  The store writes each key once, with the content's digest in the object's metadata, and reads
  an object back only when its content has the digest of the reference. S3 is a service outside
  the repository: an argument of type \<open>s3_api\<close>, the three calls the code makes as functions of
  the bucket's state, with the documented behaviour of conditional writes as the hypothesis
  \<open>s3_conforms\<close>. The locale states what the store's clients rely on.
\<close>

record ref =
  ref_Key :: string
  ref_Digest :: string
  ref_Size :: int
  ref_VersionID :: string

record s3_put_input =
  put_Key :: string
  put_Body :: string
  put_ServerSideEncryption :: string
  put_SSEKMSKeyId :: string
  put_Metadata :: gomap
  put_IfNoneMatch :: string

record s3_head_output =
  head_Metadata :: gomap
  head_VersionId :: string
  head_ContentLength :: int

record 'w s3_api =
  s3_put :: "'w \<Rightarrow> s3_put_input \<Rightarrow> (gerr + string) \<times> 'w"
  s3_get :: "'w \<Rightarrow> string \<Rightarrow> string \<Rightarrow> gerr + string"
  s3_head :: "'w \<Rightarrow> string \<Rightarrow> gerr + s3_head_output"

definition artifact_digest :: "hash \<Rightarrow> string \<Rightarrow> string" where
  "artifact_digest sha content = ''sha256:'' @ sha content"

definition validateKey :: "string \<Rightarrow> gerr option" where
  "validateKey key =
     (if key = [] \<or> has_prefix key ''/'' \<or> path_clean key \<noteq> key \<or> CHR 0x5C \<in> set key
      then Some (Err (''invalid artifact key '' @ quoted key))
      else None)"

text \<open>
  NewS3StoreWithKMS checks its configuration and the credentials of its environment; the
  store it returns is the client, the bucket and the encryption key.
\<close>

record credentials_env =
  AWS_ACCESS_KEY_ID :: string
  AWS_SECRET_ACCESS_KEY :: string
  AWS_SESSION_TOKEN :: string

definition NewS3StoreWithKMS ::
  "credentials_env \<Rightarrow> string \<Rightarrow> string \<Rightarrow> string \<Rightarrow> string \<Rightarrow> gerr + (string \<times> string)" where
  "NewS3StoreWithKMS cenv endpoint region bucket kmsKeyID =
     (if region = [] \<or> bucket = [] then Inl (Err ''region and bucket are required'')
      else checked (and_then (ValidateEmulatorEndpoint endpoint)
             (EmulatorCredentials (AWS_ACCESS_KEY_ID cenv) (AWS_SECRET_ACCESS_KEY cenv) (AWS_SESSION_TOKEN cenv)))
           (Inr (bucket, kmsKeyID)))"

definition artifact_IsNotFound :: "gerr \<Rightarrow> bool" where
  "artifact_IsNotFound e \<longleftrightarrow> http_status_of e = Some 404"

definition isPreconditionFailed :: "gerr \<Rightarrow> bool" where
  "isPreconditionFailed e =
     (case http_status_of e of
        Some c \<Rightarrow> c = 412
      | None \<Rightarrow> (let message = to_lower (err_text e) in
          str_contains message ''preconditionfailed'' \<or> str_contains message ''precondition failed''))"

definition metadata_digest :: "gomap \<Rightarrow> string" where
  "metadata_digest m =
     (case filter (\<lambda>e. equal_fold (fst e) ''sha256'') m of [] \<Rightarrow> [] | (k, v) # _ \<Rightarrow> v)"

definition store_head :: "'w s3_api \<Rightarrow> 'w \<Rightarrow> string \<Rightarrow> gerr + ref" where
  "store_head api w key =
     (case s3_head api w key of
        Inl e \<Rightarrow> Inl e
      | Inr result \<Rightarrow> Inr \<lparr>ref_Key = key, ref_Digest = metadata_digest (head_Metadata result),
          ref_Size = head_ContentLength result, ref_VersionID = head_VersionId result\<rparr>)"

definition GetVerified :: "hash \<Rightarrow> 'w s3_api \<Rightarrow> 'w \<Rightarrow> ref \<Rightarrow> gerr + string" where
  "GetVerified sha api w r =
     checked (validateKey (ref_Key r))
       (case s3_get api w (ref_Key r) (ref_VersionID r) of
          Inl e \<Rightarrow> Inl e
        | Inr content \<Rightarrow>
            if artifact_digest sha content \<noteq> ref_Digest r
            then Inl (Err (''artifact digest mismatch: got '' @ artifact_digest sha content @ '', want '' @ ref_Digest r))
            else Inr content)"

definition GetVerifiedByKey :: "hash \<Rightarrow> 'w s3_api \<Rightarrow> 'w \<Rightarrow> string \<Rightarrow> gerr + ref \<times> string" where
  "GetVerifiedByKey sha api w key =
     checked (validateKey key)
       (sum_bind (store_head api w key) (\<lambda>r. sum_bind (GetVerified sha api w r) (\<lambda>content. Inr (r, content))))"

definition put_input :: "hash \<Rightarrow> string \<Rightarrow> string \<Rightarrow> string \<Rightarrow> s3_put_input" where
  "put_input sha kmsKeyID key content =
     \<lparr>put_Key = key, put_Body = content,
      put_ServerSideEncryption = (if kmsKeyID \<noteq> [] then ''aws:kms'' else ''AES256''),
      put_SSEKMSKeyId = kmsKeyID, put_Metadata = [(''sha256'', artifact_digest sha content)],
      put_IfNoneMatch = ''*''\<rparr>"

definition PutImmutable ::
  "hash \<Rightarrow> 'w s3_api \<Rightarrow> string \<Rightarrow> 'w \<Rightarrow> string \<Rightarrow> string \<Rightarrow> (gerr + ref) \<times> 'w" where
  "PutImmutable sha api kmsKeyID w key content =
     (case validateKey key of
        Some e \<Rightarrow> (Inl e, w)
      | None \<Rightarrow>
          (case s3_put api w (put_input sha kmsKeyID key content) of
             (Inr version, w') \<Rightarrow>
               (Inr \<lparr>ref_Key = key, ref_Digest = artifact_digest sha content,
                     ref_Size = int (length content), ref_VersionID = version\<rparr>, w')
           | (Inl e, w') \<Rightarrow>
               if \<not> isPreconditionFailed e then (Inl e, w')
               else (case store_head api w' key of
                   Inl he \<Rightarrow> (Inl he, w')
                 | Inr existing \<Rightarrow>
                     if ref_Digest existing = artifact_digest sha content
                     then (case GetVerified sha api w' existing of
                             Inl ge \<Rightarrow> (Inl ge, w')
                           | Inr _ \<Rightarrow> (Inr existing, w'))
                     else (Inl (Err ''artifact exists with a different digest''), w'))))"

subsection \<open>What S3 promises\<close>

text \<open>
  The documented behaviour of PutObject with \<open>If-None-Match: *\<close>: a request that succeeds
  created the object with the body and metadata it carried, under the version it returns; a
  request for a key that exists fails and changes nothing; a request that fails for another
  reason has either changed nothing or created the object. Other keys never change.
\<close>

definition created :: "'w s3_api \<Rightarrow> s3_put_input \<Rightarrow> 'w \<Rightarrow> bool" where
  "created api i w \<longleftrightarrow> (\<exists>h. s3_head api w (put_Key i) = Inr h \<and> head_Metadata h = put_Metadata i
     \<and> s3_get api w (put_Key i) (head_VersionId h) = Inr (put_Body i)
     \<and> s3_get api w (put_Key i) [] = Inr (put_Body i))"

definition unchanged_at :: "'w s3_api \<Rightarrow> string \<Rightarrow> 'w \<Rightarrow> 'w \<Rightarrow> bool" where
  "unchanged_at api k w w' \<longleftrightarrow> s3_head api w' k = s3_head api w k \<and> s3_get api w' k = s3_get api w k"

definition exists_at :: "'w s3_api \<Rightarrow> string \<Rightarrow> 'w \<Rightarrow> bool" where
  "exists_at api k w \<longleftrightarrow> (\<exists>h. s3_head api w k = Inr h)"

definition put_law :: "'w s3_api \<Rightarrow> 'w \<Rightarrow> s3_put_input \<Rightarrow> bool" where
  "put_law api w i \<longleftrightarrow> (let answer = fst (s3_put api w i); w' = snd (s3_put api w i) in
     (\<forall>k. k \<noteq> put_Key i \<longrightarrow> unchanged_at api k w w')
     \<and> (exists_at api (put_Key i) w \<longrightarrow> (\<exists>e. answer = Inl e) \<and> unchanged_at api (put_Key i) w w')
     \<and> (\<not> exists_at api (put_Key i) w \<longrightarrow> created api i w' \<or> unchanged_at api (put_Key i) w w')
     \<and> (\<forall>v. answer = Inr v \<longrightarrow> created api i w' \<and> s3_get api w' (put_Key i) v = Inr (put_Body i)))"

definition s3_conforms :: "'w s3_api \<Rightarrow> bool" where
  "s3_conforms api \<longleftrightarrow> (\<forall>w i. put_IfNoneMatch i = ''*'' \<longrightarrow> put_law api w i)
     \<and> (\<forall>w k v c. s3_get api w k v = Inr c \<longrightarrow> exists_at api k w)"

subsection \<open>The interface of the store\<close>

text \<open>
  What the runner and the controllers rely on: content read through a reference has the
  reference's digest, a successful write can be read back, and no later write changes what a
  reference reads.
\<close>

locale immutable_store =
  fixes put :: "'w \<Rightarrow> string \<Rightarrow> string \<Rightarrow> (gerr + ref) \<times> 'w"
    and get :: "'w \<Rightarrow> ref \<Rightarrow> gerr + string"
    and digest_of :: "string \<Rightarrow> string"
    and good :: "'w \<Rightarrow> bool"
  assumes get_verifies: "get w r = Inr c \<Longrightarrow> digest_of c = ref_Digest r"
    and put_good: "good w \<Longrightarrow> good (snd (put w k c))"
    and put_readable: "good w \<Longrightarrow> put w k c = (Inr r, w') \<Longrightarrow>
       ref_Key r = k \<and> ref_Digest r = digest_of c \<and> (\<exists>c'. get w' r = Inr c')"
    and put_keeps: "good w \<Longrightarrow> get w r = Inr c \<Longrightarrow> get (snd (put w k c')) r = Inr c"
begin

fun put_all :: "'w \<Rightarrow> (string \<times> string) list \<Rightarrow> 'w" where
  "put_all w [] = w"
| "put_all w ((k, c) # rest) = put_all (snd (put w k c)) rest"

lemma put_all_keeps: "good w \<Longrightarrow> get w r = Inr c \<Longrightarrow> get (put_all w later) r = Inr c"
  by (induction w later rule: put_all.induct) (simp_all add: put_keeps put_good)

lemma written_stays_readable:
  assumes "good w" and "put w k c = (Inr r, w')"
  shows "\<exists>c'. get (put_all w' later) r = Inr c' \<and> digest_of c' = digest_of c"
proof -
  obtain c' where r: "ref_Digest r = digest_of c" "get w' r = Inr c'"
    using put_readable [OF assms] by blast
  have "good w'" using put_good [OF assms(1), of k c] assms(2) by simp
  then have stays: "get (put_all w' later) r = Inr c'" using r(2) by (rule put_all_keeps)
  from stays get_verifies [OF stays] r(1) show ?thesis by auto
qed

end

subsection \<open>The store implements its interface\<close>

definition bucket_inv :: "'w s3_api \<Rightarrow> 'w \<Rightarrow> bool" where
  "bucket_inv api w \<longleftrightarrow> s3_conforms api"

lemma conforms_frame:
  "s3_conforms api \<Longrightarrow> put_IfNoneMatch i = ''*'' \<Longrightarrow> k \<noteq> put_Key i \<Longrightarrow>
     unchanged_at api k w (snd (s3_put api w i))"
  by (auto simp: s3_conforms_def put_law_def Let_def)

lemma conforms_existing:
  "s3_conforms api \<Longrightarrow> put_IfNoneMatch i = ''*'' \<Longrightarrow> exists_at api (put_Key i) w \<Longrightarrow>
     unchanged_at api (put_Key i) w (snd (s3_put api w i))"
  by (auto simp: s3_conforms_def put_law_def Let_def)

lemma conforms_get_exists: "s3_conforms api \<Longrightarrow> s3_get api w k v = Inr c \<Longrightarrow> exists_at api k w"
  unfolding s3_conforms_def by blast

lemma conforms_created:
  assumes "s3_conforms api" "put_IfNoneMatch i = ''*''" "s3_put api w i = (Inr v, w')"
  shows "s3_get api w' (put_Key i) v = Inr (put_Body i)"
proof -
  have "put_law api w i" using assms by (simp add: s3_conforms_def)
  then show ?thesis using assms(3) by (simp add: put_law_def)
qed

lemma PutImmutable_state:
  "snd (PutImmutable sha api kms w key content) =
     (if validateKey key = None then snd (s3_put api w (put_input sha kms key content)) else w)"
  by (auto simp: PutImmutable_def split: option.splits prod.splits sum.splits)

lemma put_get_stable:
  assumes "s3_conforms api" and "s3_get api w k v = Inr c"
  shows "s3_get api (snd (PutImmutable sha api kms w key content)) k v = Inr c"
proof -
  let ?i = "put_input sha kms key content"
  have i: "put_IfNoneMatch ?i = ''*''" "put_Key ?i = key" by (simp_all add: put_input_def)
  have "unchanged_at api k w (snd (s3_put api w ?i))"
    using conforms_frame [OF assms(1) i(1)] conforms_existing [OF assms(1) i(1)]
      conforms_get_exists [OF assms] i(2) by (cases "k = key") auto
  then show ?thesis using assms(2) by (auto simp: PutImmutable_state unchanged_at_def)
qed

lemma GetVerified_Inr:
  "GetVerified sha api w r = Inr c \<longleftrightarrow> validateKey (ref_Key r) = None
     \<and> s3_get api w (ref_Key r) (ref_VersionID r) = Inr c \<and> artifact_digest sha c = ref_Digest r"
  by (auto simp: GetVerified_def split: sum.splits if_splits)

lemma store_head_key: "store_head api w key = Inr r \<Longrightarrow> ref_Key r = key"
  by (auto simp: store_head_def split: sum.splits)

lemma PutImmutable_ok_cases:
  assumes "PutImmutable sha api kms w key content = (Inr r, w')"
  shows "validateKey key = None"
    and "ref_Key r = key \<and> ref_Digest r = artifact_digest sha content"
    and "(\<exists>v. s3_put api w (put_input sha kms key content) = (Inr v, w') \<and> ref_VersionID r = v)
       \<or> (\<exists>c'. GetVerified sha api w' r = Inr c')"
  using assms
  by (auto simp: PutImmutable_def store_head_key split: option.splits prod.splits sum.splits if_splits)

lemma PutImmutable_readable:
  assumes "s3_conforms api" and "PutImmutable sha api kms w key content = (Inr r, w')"
  shows "\<exists>c'. GetVerified sha api w' r = Inr c'"
proof -
  note ok = PutImmutable_ok_cases [OF assms(2)]
  from ok(3) show ?thesis
  proof (elim disjE exE conjE)
    fix v assume v: "s3_put api w (put_input sha kms key content) = (Inr v, w')" "ref_VersionID r = v"
    have "s3_get api w' key v = Inr content"
      using conforms_created [OF assms(1) _ v(1)] by (simp add: put_input_def)
    then show ?thesis using ok(1,2) v(2) by (simp add: GetVerified_Inr)
  qed blast
qed

lemma GetVerified_digest: "GetVerified sha api w r = Inr c \<Longrightarrow> artifact_digest sha c = ref_Digest r"
  by (simp add: GetVerified_Inr)

lemma GetVerified_stable:
  "s3_conforms api \<Longrightarrow> GetVerified sha api w r = Inr c \<Longrightarrow>
     GetVerified sha api (snd (PutImmutable sha api kms w key content)) r = Inr c"
  by (simp add: GetVerified_Inr put_get_stable)

interpretation artifact_store: immutable_store
  "PutImmutable sha api kms" "GetVerified sha api" "artifact_digest sha" "bucket_inv api"
  for sha :: hash and api :: "'w s3_api" and kms :: string
  by unfold_locales
     (auto simp: bucket_inv_def GetVerified_digest GetVerified_stable
       dest: PutImmutable_readable PutImmutable_ok_cases(2))

subsection \<open>Properties\<close>

text \<open>
  C32. Whenever PutImmutable reports success, the reference it returned reads back content of the
  written digest, now and after any later writes to the store.
\<close>
theorem artifacts_are_immutable:
  assumes "s3_conforms api" and "PutImmutable sha api kms w key content = (Inr r, w')"
  shows "\<exists>c. GetVerified sha api (artifact_store.put_all sha api kms w' later) r = Inr c
     \<and> artifact_digest sha c = artifact_digest sha content"
  using artifact_store.written_stays_readable [of api w sha kms key content r w' later] assms
  by (simp add: bucket_inv_def)

text \<open>A bucket that keeps one version per key, for the witnesses.\<close>

definition map_bucket :: "(string \<Rightarrow> s3_put_input option) s3_api" where
  "map_bucket = \<lparr>s3_put = (\<lambda>w i. if w (put_Key i) = None then (Inr ''1'', w(put_Key i \<mapsto> i))
        else (Inl (HttpErr 412 ''PreconditionFailed''), w)),
     s3_get = (\<lambda>w k v. case w k of None \<Rightarrow> Inl (HttpErr 404 ''NoSuchKey'') | Some i \<Rightarrow> Inr (put_Body i)),
     s3_head = (\<lambda>w k. case w k of None \<Rightarrow> Inl (HttpErr 404 ''NotFound'')
        | Some i \<Rightarrow> Inr \<lparr>head_Metadata = put_Metadata i, head_VersionId = ''1'', head_ContentLength = 0\<rparr>)\<rparr>"

lemma map_bucket_conforms: "s3_conforms map_bucket"
  by (auto simp: s3_conforms_def put_law_def Let_def map_bucket_def created_def unchanged_at_def
      exists_at_def fun_eq_iff split: option.splits)

theorem artifacts_are_immutable_witness:
  "\<exists>r w' c. PutImmutable (\<lambda>s. s) map_bucket [] Map.empty ''a'' ''x'' = (Inr r, w') \<and>
     GetVerified (\<lambda>s. s) map_bucket (artifact_store.put_all (\<lambda>s. s) map_bucket [] w' [(''a'', ''y'')]) r = Inr c"
proof -
  have k: "validateKey ''a'' = None" by code_simp
  obtain r w' where p: "PutImmutable (\<lambda>s. s) map_bucket [] Map.empty ''a'' ''x'' = (Inr r, w')"
    by (auto simp: PutImmutable_def map_bucket_def k put_input_def)
  from artifacts_are_immutable [OF map_bucket_conforms p] p show ?thesis by blast
qed

text \<open>
  A key is never rewritten: a write to a key that already holds an object with a recorded
  digest fails, unless the digests agree, and in every case leaves each object readable as before.
\<close>
theorem existing_artifacts_are_kept:
  assumes "s3_conforms api" and "s3_head api w key = Inr h"
    and "metadata_digest (head_Metadata h) \<noteq> artifact_digest sha content"
  shows "(\<exists>e. fst (PutImmutable sha api kms w key content) = Inl e)
     \<and> (\<forall>r c. GetVerified sha api w r = Inr c \<longrightarrow>
          GetVerified sha api (snd (PutImmutable sha api kms w key content)) r = Inr c)"
proof
  let ?i = "put_input sha kms key content"
  have law: "put_law api w ?i" using assms(1) by (simp add: s3_conforms_def put_input_def)
  then have "\<exists>e. fst (s3_put api w ?i) = Inl e" "s3_head api (snd (s3_put api w ?i)) key = Inr h"
    using assms(2) by (auto simp: put_law_def Let_def exists_at_def unchanged_at_def put_input_def)
  then show "\<exists>e. fst (PutImmutable sha api kms w key content) = Inl e"
    using assms(3) by (auto simp: PutImmutable_def store_head_def split: option.splits prod.splits sum.splits)
  show "\<forall>r c. GetVerified sha api w r = Inr c \<longrightarrow>
     GetVerified sha api (snd (PutImmutable sha api kms w key content)) r = Inr c"
    using GetVerified_stable [OF assms(1)] by blast
qed

theorem existing_artifacts_are_kept_witness:
  "\<exists>e. fst (PutImmutable (\<lambda>s. s) map_bucket [] [''a'' \<mapsto> put_input (\<lambda>s. s) [] ''a'' ''x''] ''a'' ''y'') = Inl e"
  using existing_artifacts_are_kept [OF map_bucket_conforms, of "[''a'' \<mapsto> put_input (\<lambda>s. s) [] ''a'' ''x'']" "''a''"
      _ "\<lambda>s. s" "''y''" "[]"]
  by (simp add: map_bucket_def put_input_def metadata_digest_def equal_fold_def artifact_digest_def
      to_lower_def lower_char_def)

end
