(* ===== verification/Target.thy ===== *)
theory Target
  imports TerraformJob
begin

section \<open>Runtime targets: internal/target\<close>

text \<open>
  The identities and connection profiles of a runtime cluster (identity.go), how one is
  materialized from a class, validated and discovered from Terraform output (discovery.go), and
  the AWS and kubeconfig adapters that verify one and resolve a client for it
  (aws\_adapters.go, eks\_resolver.go, factory.go). The structs of the package have the fields of
  the API structs, whose records are used here. The AWS services, the JSON decoder and the
  construction of a Kubernetes client are arguments.
\<close>

subsection \<open>identity.go\<close>

definition ProviderKubernetes :: string where "ProviderKubernetes = ''kubernetes''"
definition ProviderKind :: string where "ProviderKind = ''kind''"
definition ProviderAWS :: string where "ProviderAWS = ''aws''"
definition ModeLocal :: string where "ModeLocal = ''local''"
definition ModeAWSNative :: string where "ModeAWSNative = ''aws-native''"
definition AuthKubeconfigContext :: string where "AuthKubeconfigContext = ''kubeconfig-context''"
definition AuthKindContext :: string where "AuthKindContext = ''kind-context''"
definition AuthAWSEKS :: string where "AuthAWSEKS = ''aws-eks''"

lemmas target_constants = ProviderKubernetes_def ProviderKind_def ProviderAWS_def ModeLocal_def
  ModeAWSNative_def AuthKubeconfigContext_def AuthKindContext_def AuthAWSEKS_def

lemma providers_distinct [simp]:
  "ProviderKubernetes \<noteq> ProviderKind" "ProviderKind \<noteq> ProviderKubernetes"
  "ProviderKubernetes \<noteq> ProviderAWS" "ProviderAWS \<noteq> ProviderKubernetes"
  "ProviderKind \<noteq> ProviderAWS" "ProviderAWS \<noteq> ProviderKind"
  "ProviderKubernetes \<noteq> []" "ProviderKind \<noteq> []" "ProviderAWS \<noteq> []"
  by (simp_all add: target_constants)

lemma auth_modes_distinct [simp]:
  "AuthKubeconfigContext \<noteq> AuthKindContext" "AuthKindContext \<noteq> AuthKubeconfigContext"
  "AuthKubeconfigContext \<noteq> AuthAWSEKS" "AuthAWSEKS \<noteq> AuthKubeconfigContext"
  "AuthKindContext \<noteq> AuthAWSEKS" "AuthAWSEKS \<noteq> AuthKindContext"
  "AuthKubeconfigContext \<noteq> []" "AuthKindContext \<noteq> []" "AuthAWSEKS \<noteq> []"
  by (simp_all add: target_constants)

record target_expectation =
  te_Provider :: string
  te_AccountID :: string
  te_Region :: string
  te_ClusterARN :: string
  te_ClusterName :: string
  te_ClusterID :: string
  te_IncarnationID :: string
  te_ConnectionProfile :: string
  te_ExecutionRoleARN :: string
  te_RuntimeRoleARN :: string

record materialized_target =
  mt_InfrastructureExecutionIdentity :: infrastructure_execution_identity
  mt_RuntimeTargetIdentity :: runtime_target_identity
  mt_TargetConnectionProfile :: target_connection_profile

definition target_identity_json :: "runtime_target_identity \<Rightarrow> json" where
  "target_identity_json i = jobj [
     (''provider'', Some (JStr (rti_Provider i))),
     (''accountId'', Some (JStr (rti_AccountID i))),
     (''region'', Some (JStr (rti_Region i))),
     (''clusterArn'', omit_str (rti_ClusterARN i)),
     (''clusterName'', omit_str (rti_ClusterName i)),
     (''incarnationId'', Some (JStr (rti_IncarnationID i)))]"

text \<open>ARNs (aws\_adapters.go): six fields between colons.\<close>

definition splitARN :: "string \<Rightarrow> string list option" where
  "splitARN v =
     (let parts = split_on (CHR '':'') v in
      if length parts \<noteq> 6 \<or> parts ! 0 \<noteq> ''arn'' \<or> parts ! 1 = [] \<or> parts ! 2 = [] \<or> parts ! 4 = [] \<or> parts ! 5 = []
      then None else Some parts)"

definition accountFromARN :: "string \<Rightarrow> gerr + string" where
  "accountFromARN v =
     (case splitARN v of
        None \<Rightarrow> Inl (Err (''invalid AWS identity ARN '' @ quoted v))
      | Some parts \<Rightarrow> Inr (parts ! 4))"

definition roleNameFromARN :: "string \<Rightarrow> string" where
  "roleNameFromARN v =
     (case splitARN v of
        None \<Rightarrow> []
      | Some parts \<Rightarrow>
          (let rp = split_on (CHR ''/'') (parts ! 5); n = length rp in
           if n < 2 then []
           else if rp ! 0 = ''role'' then rp ! (n - 1)
           else if rp ! 0 = ''assumed-role'' then (if n < 3 then rp ! 1 else rp ! (n - 2))
           else []))"

definition clusterNameFromARN :: "string \<Rightarrow> string" where
  "clusterNameFromARN v = last (split_on (CHR ''/'') v)"

definition certificateDigest :: "hash \<Rightarrow> string \<Rightarrow> string" where
  "certificateDigest sha data = ''sha256:'' @ sha data"

definition execution_identity_Validate :: "infrastructure_execution_identity \<Rightarrow> gerr option" where
  "execution_identity_Validate i =
     (if iei_Provider i = [] \<or> iei_Mode i = [] \<or> iei_AccountID i = [] \<or> iei_Region i = []
      then Some (Err ''infrastructure execution identity requires provider, mode, account ID, and region'')
      else if iei_Provider i = ProviderKubernetes \<or> iei_Provider i = ProviderKind then
        (if iei_Mode i \<noteq> ModeLocal
         then Some (Err (''kubeconfig infrastructure identity must use mode '' @ quoted ModeLocal)) else None)
      else if iei_Provider i = ProviderAWS then
        (if iei_Mode i \<noteq> ModeAWSNative
         then Some (Err (''AWS infrastructure identity must use mode '' @ quoted ModeAWSNative))
         else if iei_RoleARN i \<noteq> [] then
           (case accountFromARN (iei_RoleARN i) of
              Inl _ \<Rightarrow> Some (Err ''AWS infrastructure execution role ARN is invalid'')
            | Inr account \<Rightarrow>
                if roleNameFromARN (iei_RoleARN i) = []
                then Some (Err ''AWS infrastructure execution role ARN is invalid'')
                else if account \<noteq> iei_AccountID i
                then Some (Err (''AWS infrastructure execution role account mismatch: got '' @ quoted account
                       @ '', want '' @ quoted (iei_AccountID i)))
                else None)
         else None)
      else Some (Err (''unsupported infrastructure identity provider '' @ quoted (iei_Provider i))))"

definition runtime_identity_Validate :: "runtime_target_identity \<Rightarrow> gerr option" where
  "runtime_identity_Validate i = first_error
     [(rti_Provider i = [] \<or> rti_AccountID i = [] \<or> rti_Region i = [] \<or> rti_IncarnationID i = [],
       ''runtime target identity requires provider, account ID, region, and incarnation ID''),
      (rti_ClusterARN i = [] \<and> rti_ClusterName i = [],
       ''runtime target identity requires cluster ARN or cluster name'')]"

definition https_endpoint :: "string \<Rightarrow> bool" where
  "https_endpoint e \<longleftrightarrow> (case url_parse e of None \<Rightarrow> False | Some u \<Rightarrow> u_Scheme u = ''https'' \<and> u_Host u \<noteq> [])"

definition connection_profile_Validate :: "target_connection_profile \<Rightarrow> gerr option" where
  "connection_profile_Validate p =
     (if tcp_AuthMode p = [] then Some (Err ''target connection profile requires auth mode'')
      else if tcp_AuthMode p = AuthKubeconfigContext \<or> tcp_AuthMode p = AuthKindContext then
        (if tcp_Endpoint p = [] \<or> tcp_KubeContext p = []
         then Some (Err ''kubeconfig target connection requires endpoint and kube context'') else None)
      else if tcp_AuthMode p = AuthAWSEKS then
        first_error
          [(tcp_Endpoint p = [] \<or> tcp_CACertificateData p = [],
            ''aws-eks target connection requires endpoint and CA certificate data''),
           (\<not> https_endpoint (tcp_Endpoint p), ''aws-eks target endpoint must be an HTTPS URL'')]
      else Some (Err (''unsupported target authentication mode '' @ quoted (tcp_AuthMode p))))"

definition ValidateBinding :: "runtime_target_identity \<Rightarrow> target_connection_profile \<Rightarrow> gerr option" where
  "ValidateBinding i p =
     and_then (runtime_identity_Validate i)
     (and_then (connection_profile_Validate p)
     (first_error
       [(tcp_AuthMode p = AuthAWSEKS \<and> rti_Provider i \<noteq> ProviderAWS,
         ''AWS EKS authentication cannot be used for provider '' @ quoted (rti_Provider i)),
        (tcp_AuthMode p = AuthKindContext \<and> rti_Provider i \<noteq> ProviderKind,
         ''kind-context authentication cannot be used for provider '' @ quoted (rti_Provider i)),
        (tcp_AuthMode p = AuthKubeconfigContext \<and> rti_Provider i \<noteq> ProviderKubernetes,
         ''kubeconfig-context authentication cannot be used for provider '' @ quoted (rti_Provider i))]))"

definition or_else :: "string \<Rightarrow> string \<Rightarrow> string" where
  "or_else s d = (if s = [] then d else s)"

definition materialize_kubeconfig :: "string \<Rightarrow> target_expectation \<Rightarrow> gerr + materialized_target" where
  "materialize_kubeconfig provider input =
     (if te_ClusterName input = [] then Inl (Err ''kubeconfig target cluster name is required'')
      else
        (let account = or_else (te_AccountID input) ''local'';
             region = or_else (te_Region input) ''local'';
             incarnation0 = or_else (te_IncarnationID input) (te_ClusterID input)
         in if incarnation0 = [] \<and> provider = ProviderKubernetes
            then Inl (Err ''explicit target incarnation UID is required'')
            else
              (let incarnation = or_else incarnation0 (te_ClusterName input);
                   endpoint = or_else (te_ConnectionProfile input) (''kubeconfig:'' @ te_ClusterName input);
                   kubeContext = trim_prefix endpoint ''kubeconfig:''
               in if provider = ProviderKubernetes \<and> (kubeContext = endpoint \<or> kubeContext = [])
                  then Inl (Err ''explicit kubeconfig connection profile is required'')
                  else
                    (let (authMode, route, context) =
                           (if provider = ProviderKind then (AuthKindContext, ''local-kind'', te_ClusterName input)
                            else (AuthKubeconfigContext, ''kubeconfig'', kubeContext));
                         m = \<lparr>mt_InfrastructureExecutionIdentity =
                                \<lparr>iei_Provider = provider, iei_Mode = ModeLocal, iei_AccountID = account,
                                 iei_Region = region, iei_RoleARN = [], iei_SessionProfile = []\<rparr>,
                              mt_RuntimeTargetIdentity =
                                \<lparr>rti_Provider = provider, rti_AccountID = account, rti_Region = region,
                                 rti_ClusterARN = te_ClusterARN input, rti_ClusterName = te_ClusterName input,
                                 rti_IncarnationID = incarnation\<rparr>,
                              mt_TargetConnectionProfile =
                                \<lparr>tcp_Endpoint = endpoint, tcp_CACertificateData = [], tcp_CACertificateDigest = [],
                                 tcp_AuthMode = authMode, tcp_NetworkRouteProfile = route,
                                 tcp_KubeContext = context, tcp_RoleARN = []\<rparr>\<rparr>
                     in checked (execution_identity_Validate (mt_InfrastructureExecutionIdentity m)) (Inr m)))))"

definition materialize_aws :: "target_expectation \<Rightarrow> gerr + materialized_target" where
  "materialize_aws input =
     (if te_AccountID input = [] \<or> te_Region input = []
      then Inl (Err ''AWS target account ID and region are required'')
      else if te_ClusterName input = [] \<and> te_ClusterARN input = []
      then Inl (Err ''AWS target cluster name or ARN is required'')
      else
        (let m = \<lparr>mt_InfrastructureExecutionIdentity =
                    \<lparr>iei_Provider = ProviderAWS, iei_Mode = ModeAWSNative, iei_AccountID = te_AccountID input,
                     iei_Region = te_Region input, iei_RoleARN = te_ExecutionRoleARN input, iei_SessionProfile = []\<rparr>,
                  mt_RuntimeTargetIdentity =
                    \<lparr>rti_Provider = ProviderAWS, rti_AccountID = te_AccountID input, rti_Region = te_Region input,
                     rti_ClusterARN = te_ClusterARN input, rti_ClusterName = te_ClusterName input,
                     rti_IncarnationID =
                       or_else (or_else (te_IncarnationID input) (te_ClusterARN input)) (te_ClusterName input)\<rparr>,
                  mt_TargetConnectionProfile =
                    \<lparr>tcp_Endpoint = te_ConnectionProfile input, tcp_CACertificateData = [], tcp_CACertificateDigest = [],
                     tcp_AuthMode = AuthAWSEKS, tcp_NetworkRouteProfile = ''aws-eks'',
                     tcp_KubeContext = [], tcp_RoleARN = te_RuntimeRoleARN input\<rparr>\<rparr>
         in checked (execution_identity_Validate (mt_InfrastructureExecutionIdentity m)) (Inr m)))"

definition MaterializeTarget :: "target_expectation \<Rightarrow> gerr + materialized_target" where
  "MaterializeTarget input =
     (let provider = to_lower (trim_space (te_Provider input)) in
      if provider = [] then Inl (Err ''target provider is required'')
      else if provider = ProviderKubernetes \<or> provider = ProviderKind then materialize_kubeconfig provider input
      else if provider = ProviderAWS then materialize_aws input
      else Inl (Err (''unsupported target provider '' @ quoted (te_Provider input))))"

subsection \<open>discovery.go\<close>

type_synonym verifier = "runtime_target_identity \<Rightarrow> target_connection_profile \<Rightarrow> gerr option"

record discovery_input =
  di_SourceClosureDigest :: string
  di_BackendSnapshotDigest :: string
  di_EffectivePlanInputDigest :: string
  di_ExpectedTarget :: runtime_target_identity
  di_ExpectedConnection :: target_connection_profile

record discovery_result =
  dr_RuntimeTargetIdentity :: runtime_target_identity
  dr_TargetConnection :: target_connection_profile
  dr_SourceClosureDigest :: string
  dr_BackendSnapshotDigest :: string
  dr_EffectivePlanInputDigest :: string

record discovery_values =
  dv_Provider :: string
  dv_AccountID :: string
  dv_Region :: string
  dv_ClusterARN :: string
  dv_ClusterName :: string
  dv_IncarnationID :: string
  dv_Endpoint :: string
  dv_CADataDigest :: string
  dv_CAData :: string
  dv_AuthMode :: string
  dv_KubeContext :: string
  dv_SourceClosureDigest :: string
  dv_BackendSnapshotDigest :: string
  dv_EffectivePlanInputDigest :: string

definition discovered_identity :: "discovery_values \<Rightarrow> runtime_target_identity \<Rightarrow> runtime_target_identity" where
  "discovered_identity v expected =
     (let provider = or_else (dv_Provider v) (rti_Provider expected);
          arn = or_else (dv_ClusterARN v) (rti_ClusterARN expected);
          inc = or_else (dv_IncarnationID v) (rti_IncarnationID expected)
      in \<lparr>rti_Provider = provider,
          rti_AccountID = or_else (dv_AccountID v) (rti_AccountID expected),
          rti_Region = (if dv_Region v \<noteq> [] \<and> provider \<noteq> ProviderKind then dv_Region v else rti_Region expected),
          rti_ClusterARN = arn,
          rti_ClusterName = or_else (dv_ClusterName v) (rti_ClusterName expected),
          rti_IncarnationID = (if provider = ProviderAWS \<and> inc = [] then arn else inc)\<rparr>)"

definition discovered_profile :: "hash \<Rightarrow> discovery_values \<Rightarrow> target_connection_profile \<Rightarrow> target_connection_profile" where
  "discovered_profile sha v expected = expected\<lparr>
     tcp_Endpoint := or_else (dv_Endpoint v) (tcp_Endpoint expected),
     tcp_CACertificateData := or_else (dv_CAData v) (tcp_CACertificateData expected),
     tcp_CACertificateDigest :=
       (if dv_CADataDigest v \<noteq> [] then dv_CADataDigest v
        else if dv_CAData v \<noteq> [] then certificateDigest sha (dv_CAData v)
        else tcp_CACertificateDigest expected),
     tcp_AuthMode := or_else (dv_AuthMode v) (tcp_AuthMode expected),
     tcp_KubeContext := or_else (dv_KubeContext v) (tcp_KubeContext expected)\<rparr>"

definition DiscoverFromTerraformOutput ::
  "hash \<Rightarrow> (string \<Rightarrow> gerr + discovery_values) \<Rightarrow> string \<Rightarrow> discovery_input \<Rightarrow> verifier option
   \<Rightarrow> gerr + discovery_result" where
  "DiscoverFromTerraformOutput sha decode output input verifier =
     (if di_SourceClosureDigest input = [] \<or> di_BackendSnapshotDigest input = [] \<or> di_EffectivePlanInputDigest input = []
      then Inl (Err ''discovery requires convergence evidence digests'')
      else case decode output of
        Inl e \<Rightarrow> Inl (Wrap ''decode target-discovery output'' e)
      | Inr v \<Rightarrow>
          if dv_SourceClosureDigest v \<noteq> di_SourceClosureDigest input
             \<or> dv_BackendSnapshotDigest v \<noteq> di_BackendSnapshotDigest input
             \<or> dv_EffectivePlanInputDigest v \<noteq> di_EffectivePlanInputDigest input
          then Inl (Err ''target discovery evidence does not match the current convergence'')
          else
            (let identity = discovered_identity v (di_ExpectedTarget input);
                 profile = discovered_profile sha v (di_ExpectedConnection input)
             in case verifier of
                  None \<Rightarrow> Inl (Err ''trusted target verifier is required'')
                | Some verify \<Rightarrow>
                    (case runtime_identity_Validate identity of
                       Some e \<Rightarrow> Inl (Wrap ''discovered target identity is invalid'' e)
                     | None \<Rightarrow> (case verify identity profile of
                         Some e \<Rightarrow> Inl (Wrap ''target discovery verification failed'' e)
                       | None \<Rightarrow> Inr \<lparr>dr_RuntimeTargetIdentity = identity, dr_TargetConnection = profile,
                           dr_SourceClosureDigest = di_SourceClosureDigest input,
                           dr_BackendSnapshotDigest = di_BackendSnapshotDigest input,
                           dr_EffectivePlanInputDigest = di_EffectivePlanInputDigest input\<rparr>))))"

definition VerifyKubeconfigTarget :: "runtime_target_identity \<Rightarrow> target_connection_profile \<Rightarrow> verifier" where
  "VerifyKubeconfigTarget expectedIdentity expectedProfile identity profile =
     (if identity \<noteq> expectedIdentity \<or> profile \<noteq> expectedProfile
      then Some (Err ''discovered kubeconfig target does not match the frozen identity and connection profile'')
      else ValidateBinding identity profile)"

end
