(* ===== verification/TargetAdapters.thy ===== *)
theory TargetAdapters
  imports Target
begin

section \<open>AWS and kubeconfig adapters: internal/target\<close>

text \<open>
  RealAWSAssumeRole and AWSEKSVerifier (aws\_adapters.go), the EKS token provider and client
  resolver (eks\_resolver.go) and the client factory (factory.go). STS, EKS, the presigner and the
  construction of a dynamic client are arguments; a missing one is \<open>None\<close>, as a nil interface
  is in the code. The locales state what a verifier and a client resolver promise to the
  controllers, and both are interpreted on every implementation the code has.
\<close>

subsection \<open>aws\_adapters.go\<close>

record assume_role_request =
  arr_RoleARN :: string
  arr_SessionName :: string
  arr_ExternalID :: string
  arr_ExpectedAccount :: string
  arr_Region :: string

record assumed_session =
  as_AccountID :: string
  as_RoleARN :: string
  as_Region :: string
  as_AccessKeyID :: string
  as_SecretAccessKey :: string
  as_SessionToken :: string
  as_TokenID :: string
  as_ExpiresAt :: time

text \<open>What STS returns, with nil pointers read as empty strings by aws.ToString.\<close>

record sts_credentials =
  stsc_AccessKeyId :: string
  stsc_SecretAccessKey :: string
  stsc_SessionToken :: string
  stsc_Expiration :: "time option"

record sts_output =
  sto_Credentials :: "sts_credentials option"
  sto_AssumedRoleARN :: "string option"

type_synonym sts_client = "assume_role_request \<Rightarrow> gerr + sts_output option"

definition complete_session :: "time \<Rightarrow> assume_role_request \<Rightarrow> string \<Rightarrow> sts_credentials \<Rightarrow> gerr + assumed_session" where
  "complete_session now request roleARN c =
     (case accountFromARN roleARN of
        Inl e \<Rightarrow> Inl e
      | Inr accountID \<Rightarrow>
          if accountID \<noteq> arr_ExpectedAccount request
          then Inl (Err (''AWS AssumeRole account mismatch: got '' @ quoted accountID @ '', want '' @ quoted (arr_ExpectedAccount request)))
          else if roleNameFromARN roleARN \<noteq> roleNameFromARN (arr_RoleARN request)
          then Inl (Err (''AWS AssumeRole role mismatch: got '' @ quoted (roleNameFromARN roleARN) @ '', want ''
                 @ quoted (roleNameFromARN (arr_RoleARN request))))
          else if stsc_AccessKeyId c = [] \<or> stsc_SecretAccessKey c = [] \<or> stsc_SessionToken c = []
          then Inl (Err ''AWS AssumeRole returned incomplete credentials'')
          else case stsc_Expiration c of
            None \<Rightarrow> Inl (Err ''AWS AssumeRole returned incomplete credentials'')
          | Some expiry \<Rightarrow>
              if \<not> expiry > now then Inl (Err ''AWS AssumeRole returned expired credentials'')
              else Inr \<lparr>as_AccountID = accountID, as_RoleARN = roleARN, as_Region = arr_Region request,
                     as_AccessKeyID = stsc_AccessKeyId c, as_SecretAccessKey = stsc_SecretAccessKey c,
                     as_SessionToken = stsc_SessionToken c, as_TokenID = stsc_AccessKeyId c, as_ExpiresAt = expiry\<rparr>)"

definition AssumeRole :: "sts_client option \<Rightarrow> time \<Rightarrow> assume_role_request \<Rightarrow> gerr + assumed_session" where
  "AssumeRole client now request =
     (case client of
        None \<Rightarrow> Inl (Err ''AWS STS client is not configured'')
      | Some sts \<Rightarrow>
          if arr_RoleARN request = [] \<or> arr_SessionName request = [] \<or> arr_ExpectedAccount request = [] \<or> arr_Region request = []
          then Inl (Err ''AWS AssumeRole requires role ARN, session name, expected account, and region'')
          else if roleNameFromARN (arr_RoleARN request) = []
          then Inl (Err ''AWS AssumeRole requires a valid IAM role ARN'')
          else case sts request of
            Inl e \<Rightarrow> Inl (Wrap ''AWS AssumeRole'' e)
          | Inr None \<Rightarrow> Inl (Err ''AWS AssumeRole returned incomplete session'')
          | Inr (Some output) \<Rightarrow>
              (case (sto_Credentials output, sto_AssumedRoleARN output) of
                 (Some c, Some roleARN) \<Rightarrow>
                   if roleNameFromARN roleARN = []
                   then Inl (Err ''AWS AssumeRole returned an invalid assumed role ARN'')
                   else complete_session now request roleARN c
               | _ \<Rightarrow> Inl (Err ''AWS AssumeRole returned incomplete session'')))"

record eks_cluster =
  eks_Name :: string
  eks_Arn :: string
  eks_Endpoint :: string
  eks_CertificateAuthority :: "string option"

text \<open>ClientFactory and DescribeCluster: region, then name, to the described cluster.\<close>

type_synonym eks_factory = "string \<Rightarrow> gerr + (string \<Rightarrow> gerr + eks_cluster option)"

definition verify_cluster :: "hash \<Rightarrow> string \<Rightarrow> eks_cluster \<Rightarrow> verifier" where
  "verify_cluster sha name cluster identity profile =
     (if eks_Name cluster \<noteq> name
      then Some (Err (''EKS cluster name mismatch: got '' @ quoted (eks_Name cluster) @ '', want '' @ quoted name))
      else if rti_ClusterARN identity \<noteq> [] \<and> eks_Arn cluster \<noteq> rti_ClusterARN identity
      then Some (Err (''EKS cluster ARN mismatch: got '' @ quoted (eks_Arn cluster) @ '', want '' @ quoted (rti_ClusterARN identity)))
      else if accountFromARN (eks_Arn cluster) \<noteq> Inr (rti_AccountID identity)
      then Some (Err (''EKS cluster account mismatch: got ''
             @ quoted (case accountFromARN (eks_Arn cluster) of Inl _ \<Rightarrow> [] | Inr a \<Rightarrow> a)
             @ '', want '' @ quoted (rti_AccountID identity)))
      else if eks_Endpoint cluster \<noteq> tcp_Endpoint profile
      then Some (Err (''EKS endpoint mismatch: got '' @ quoted (eks_Endpoint cluster) @ '', want '' @ quoted (tcp_Endpoint profile)))
      else if eks_CertificateAuthority cluster \<noteq> Some (tcp_CACertificateData profile)
      then Some (Err ''EKS certificate authority mismatch'')
      else if tcp_CACertificateDigest profile \<noteq> []
              \<and> tcp_CACertificateDigest profile \<noteq> certificateDigest sha (tcp_CACertificateData profile)
      then Some (Err ''EKS certificate authority digest mismatch'')
      else if rti_IncarnationID identity \<noteq> [] \<and> rti_IncarnationID identity \<noteq> eks_Arn cluster
      then Some (Err (''EKS cluster incarnation mismatch: got '' @ quoted (eks_Arn cluster) @ '', want '' @ quoted (rti_IncarnationID identity)))
      else None)"

definition AWSEKSVerifier_Verify :: "hash \<Rightarrow> eks_factory option \<Rightarrow> verifier" where
  "AWSEKSVerifier_Verify sha factory identity profile =
     (if rti_Provider identity \<noteq> ProviderAWS then Some (Err ''AWS EKS verifier requires AWS provider'')
      else and_then (connection_profile_Validate profile)
        (case factory of
           None \<Rightarrow> Some (Err ''AWS EKS verifier client factory is not configured'')
         | Some clients \<Rightarrow>
             (let name = or_else (rti_ClusterName identity) (clusterNameFromARN (rti_ClusterARN identity)) in
              if name = [] then Some (Err ''AWS EKS verification requires cluster name or ARN'')
              else case clients (rti_Region identity) of
                Inl e \<Rightarrow> Some (Wrap ''create AWS EKS client'' e)
              | Inr describe \<Rightarrow> (case describe name of
                  Inl e \<Rightarrow> Some (Wrap (''DescribeCluster '' @ quoted name) e)
                | Inr None \<Rightarrow> Some (Err (''DescribeCluster '' @ quoted name @ '' returned no cluster''))
                | Inr (Some cluster) \<Rightarrow> verify_cluster sha name cluster identity profile))))"

subsection \<open>Base64\<close>

definition b64_char :: "bool \<Rightarrow> nat \<Rightarrow> char" where
  "b64_char urlsafe n =
     (if n < 26 then char_of (65 + n) else if n < 52 then char_of (71 + n) else if n < 62 then char_of (n - 4)
      else if n = 62 then (if urlsafe then CHR ''-'' else CHR ''+'')
      else (if urlsafe then CHR ''_'' else CHR ''/''))"

definition b64_value :: "char \<Rightarrow> nat option" where
  "b64_value c =
     (let n = of_char c in
      if in_range 65 90 c then Some (n - 65) else if in_range 97 122 c then Some (n - 71)
      else if in_range 48 57 c then Some (n + 4) else if c = CHR ''+'' then Some 62
      else if c = CHR ''/'' then Some 63 else None)"

text \<open>RawURLEncoding: the URL alphabet, no padding.\<close>

fun b64_raw_url :: "string \<Rightarrow> string" where
  "b64_raw_url [] = []"
| "b64_raw_url [a] = (let n = of_char a * 65536 in map (b64_char True) [n div 262144, n div 4096 mod 64])"
| "b64_raw_url [a, b] = (let n = of_char a * 65536 + of_char b * 256 in
     map (b64_char True) [n div 262144, n div 4096 mod 64, n div 64 mod 64])"
| "b64_raw_url (a # b # c # rest) = (let n = of_char a * 65536 + of_char b * 256 + of_char c in
     map (b64_char True) [n div 262144, n div 4096 mod 64, n div 64 mod 64, n mod 64] @ b64_raw_url rest)"

text \<open>StdEncoding: groups of four, the last one padded; line breaks are skipped.\<close>

fun b64_groups :: "string \<Rightarrow> string option" where
  "b64_groups [] = Some []"
| "b64_groups (a # b # c # d # rest) =
     (case (b64_value a, b64_value b) of
        (Some x, Some y) \<Rightarrow>
          if c = CHR ''='' then (if d = CHR ''='' \<and> rest = [] then Some [char_of (x * 4 + y div 16)] else None)
          else (case b64_value c of
             None \<Rightarrow> None
           | Some z \<Rightarrow>
               if d = CHR ''='' then
                 (if rest = [] then Some [char_of (x * 4 + y div 16), char_of (y mod 16 * 16 + z div 4)] else None)
               else (case b64_value d of
                  None \<Rightarrow> None
                | Some w \<Rightarrow> map_option (\<lambda>t. [char_of (x * 4 + y div 16), char_of (y mod 16 * 16 + z div 4),
                      char_of (z mod 4 * 64 + w)] @ t) (b64_groups rest)))
      | _ \<Rightarrow> None)"
| "b64_groups _ = None"

definition DecodeEKSCA :: "string \<Rightarrow> string" where
  "DecodeEKSCA data =
     (case b64_groups (filter (\<lambda>c. c \<noteq> CHR 0x0A \<and> c \<noteq> CHR 0x0D) data) of Some d \<Rightarrow> d | None \<Rightarrow> data)"

subsection \<open>eks\_resolver.go\<close>

text \<open>
  An AWS config is the session its credentials come from, \<open>None\<close> for the default chain; the
  presigner, once made for that config and cluster, returns the URL of a signed request.
\<close>

record token_provider =
  tp_ConfigLoader :: "(string \<Rightarrow> gerr option) option"
  tp_AssumeRole :: "(assume_role_request \<Rightarrow> gerr + assumed_session) option"
  tp_Presigner :: "(string \<Rightarrow> assumed_session option \<Rightarrow> string \<Rightarrow> gerr + (gerr + string)) option"

definition runtime_session ::
  "token_provider \<Rightarrow> time \<Rightarrow> runtime_target_identity \<Rightarrow> target_connection_profile \<Rightarrow> gerr + assumed_session option" where
  "runtime_session p now identity profile =
     (if tcp_RoleARN profile = [] then Inr None
      else if roleNameFromARN (tcp_RoleARN profile) = [] then Inl (Err ''runtime role ARN is not an IAM role ARN'')
      else case accountFromARN (tcp_RoleARN profile) of
        Inl e \<Rightarrow> Inl (Wrap ''validate runtime role ARN'' e)
      | Inr roleAccount \<Rightarrow>
          if roleAccount \<noteq> rti_AccountID identity
          then Inl (Err (''runtime role account mismatch: got '' @ quoted roleAccount @ '', want '' @ quoted (rti_AccountID identity)))
          else (case tp_AssumeRole p of
             None \<Rightarrow> Inl (Err ''AWS runtime role is configured but AssumeRole is not configured'')
           | Some assume \<Rightarrow>
               (case assume \<lparr>arr_RoleARN = tcp_RoleARN profile, arr_SessionName = ''pcp-eks-runtime'',
                       arr_ExternalID = [], arr_ExpectedAccount = rti_AccountID identity, arr_Region = rti_Region identity\<rparr> of
                  Inl e \<Rightarrow> Inl (Wrap ''assume runtime role'' e)
                | Inr session \<Rightarrow>
                    if as_AccountID session \<noteq> rti_AccountID identity \<or> as_Region session \<noteq> rti_Region identity
                    then Inl (Err ''assumed runtime identity does not match target'')
                    else if accountFromARN (as_RoleARN session) \<noteq> Inr (rti_AccountID identity)
                    then Inl (Err ''assumed runtime role account does not match target'')
                    else if roleNameFromARN (as_RoleARN session) \<noteq> roleNameFromARN (tcp_RoleARN profile)
                    then Inl (Err ''assumed runtime role does not match configured role'')
                    else if as_AccessKeyID session = [] \<or> as_SecretAccessKey session = [] \<or> as_SessionToken session = []
                            \<or> as_ExpiresAt session = 0
                    then Inl (Err ''assumed runtime role returned incomplete credentials'')
                    else if \<not> as_ExpiresAt session > now
                    then Inl (Err ''assumed runtime role returned expired credentials'')
                    else Inr (Some session))))"

definition Token :: "token_provider \<Rightarrow> time \<Rightarrow> runtime_target_identity \<Rightarrow> target_connection_profile \<Rightarrow> gerr + string" where
  "Token p now identity profile =
     (if rti_Provider identity \<noteq> ProviderAWS \<or> rti_ClusterName identity = [] \<or> rti_Region identity = []
      then Inl (Err ''AWS EKS token requires AWS provider, cluster name, and region'')
      else case tp_ConfigLoader p of
        None \<Rightarrow> Inl (Err ''AWS EKS token AWS config loader is not configured'')
      | Some load \<Rightarrow> (case load (rti_Region identity) of
          Some e \<Rightarrow> Inl (Wrap ''load AWS runtime identity'' e)
        | None \<Rightarrow>
            sum_bind (runtime_session p now identity profile) (\<lambda>session.
              case tp_Presigner p of
                None \<Rightarrow> Inl (Err ''AWS EKS token presigner is not configured'')
              | Some presign \<Rightarrow> (case presign (rti_Region identity) session (rti_ClusterName identity) of
                  Inl e \<Rightarrow> Inl e
                | Inr (Inl e) \<Rightarrow> Inl (Wrap ''presign STS GetCallerIdentity'' e)
                | Inr (Inr url) \<Rightarrow>
                    if url = [] then Inl (Err ''presign STS GetCallerIdentity returned no URL'')
                    else Inr (''k8s-aws-v1.'' @ b64_raw_url url)))))"

record rest_config =
  rc_Host :: string
  rc_BearerToken :: string
  rc_CAData :: string

definition EKSTargetResolver_Client ::
  "(runtime_target_identity \<Rightarrow> target_connection_profile \<Rightarrow> gerr + string) option
   \<Rightarrow> (rest_config \<Rightarrow> gerr + 'c) \<Rightarrow> runtime_target_identity \<Rightarrow> target_connection_profile \<Rightarrow> gerr + 'c" where
  "EKSTargetResolver_Client tokens new_client identity profile =
     (if rti_Provider identity \<noteq> ProviderAWS \<or> tcp_AuthMode profile \<noteq> AuthAWSEKS
      then Inl (Err ''EKS resolver received a non-AWS target'')
      else checked (ValidateBinding identity profile)
        (case tokens of
           None \<Rightarrow> Inl (Err ''AWS EKS token provider is not configured'')
         | Some token \<Rightarrow>
             sum_bind (token identity profile) (\<lambda>t.
               (case new_client \<lparr>rc_Host = tcp_Endpoint profile, rc_BearerToken = t,
                       rc_CAData = DecodeEKSCA (tcp_CACertificateData profile)\<rparr> of
                  Inl e \<Rightarrow> Inl (Wrap ''create EKS dynamic client'' e)
                | Inr c \<Rightarrow> Inr c))))"

subsection \<open>factory.go\<close>

text \<open>
  The factory maps the digest of an identity to the client and profile registered for it;
  \<open>namespace\_uid c\<close> is the answer of client \<open>c\<close> to a read of namespace kube-system.
\<close>

record 'c client_factory =
  cf_clients :: "string \<Rightarrow> 'c option"
  cf_profiles :: "string \<Rightarrow> target_connection_profile option"

definition NewTargetClientFactory :: "'c client_factory" where
  "NewTargetClientFactory = \<lparr>cf_clients = Map.empty, cf_profiles = Map.empty\<rparr>"

definition Register ::
  "hash \<Rightarrow> 'c client_factory \<Rightarrow> runtime_target_identity \<Rightarrow> target_connection_profile \<Rightarrow> 'c option
   \<Rightarrow> gerr + 'c client_factory" where
  "Register sha f identity profile client =
     (case client of
        None \<Rightarrow> Inl (Err ''target client factory and client are required'')
      | Some c \<Rightarrow> checked (ValidateBinding identity profile)
          (let d = Digest sha (target_identity_json identity) in
           Inr (f\<lparr>cf_clients := (cf_clients f)(d \<mapsto> c), cf_profiles := (cf_profiles f)(d \<mapsto> profile)\<rparr>)))"

definition Factory_Client ::
  "hash \<Rightarrow> ('c \<Rightarrow> gerr + string) \<Rightarrow> 'c client_factory \<Rightarrow> runtime_target_identity \<Rightarrow> target_connection_profile
   \<Rightarrow> gerr + 'c" where
  "Factory_Client sha namespace_uid f identity profile =
     checked (ValidateBinding identity profile)
       (let d = Digest sha (target_identity_json identity) in
        case (cf_profiles f d, cf_clients f d) of
          (Some registered, Some resolved) \<Rightarrow>
            if registered \<noteq> profile
            then Inl (Err (''target connection profile mismatch for identity '' @ d))
            else if rti_Provider identity = ProviderKubernetes then
              (case namespace_uid resolved of
                 Inl e \<Rightarrow> Inl (Wrap ''verify current target incarnation'' e)
               | Inr uid \<Rightarrow>
                   if uid \<noteq> rti_IncarnationID identity then Inl (Err ''target cluster incarnation changed'')
                   else Inr resolved)
            else Inr resolved
        | _ \<Rightarrow> Inl (Err (''target identity '' @ d @ '' is not registered'')))"

type_synonym 'c resolver = "runtime_target_identity \<Rightarrow> target_connection_profile \<Rightarrow> gerr + 'c"

definition ProviderClientResolver_Client :: "'c resolver option \<Rightarrow> 'c resolver option \<Rightarrow> 'c resolver" where
  "ProviderClientResolver_Client kubeconfig aws identity profile =
     (if tcp_AuthMode profile = AuthKubeconfigContext \<or> tcp_AuthMode profile = AuthKindContext then
        (case kubeconfig of
           None \<Rightarrow> Inl (Err ''kubeconfig target resolver is not configured'')
         | Some r \<Rightarrow> r identity profile)
      else if tcp_AuthMode profile = AuthAWSEKS then
        (case aws of
           None \<Rightarrow> Inl (Err ''AWS EKS target resolver is not configured'')
         | Some r \<Rightarrow> r identity profile)
      else Inl (Err (''unsupported target auth mode '' @ quoted (tcp_AuthMode profile))))"

subsection \<open>What a verifier promises\<close>

locale target_verifier =
  fixes verify :: verifier
    and evidence :: "runtime_target_identity \<Rightarrow> target_connection_profile \<Rightarrow> bool"
  assumes verified: "verify i p = None \<Longrightarrow> connection_profile_Validate p = None \<and> evidence i p"
begin

lemma discovery_trusted:
  assumes "DiscoverFromTerraformOutput sha decode output input (Some verify) = Inr r"
  shows "evidence (dr_RuntimeTargetIdentity r) (dr_TargetConnection r)
     \<and> runtime_identity_Validate (dr_RuntimeTargetIdentity r) = None
     \<and> connection_profile_Validate (dr_TargetConnection r) = None
     \<and> dr_SourceClosureDigest r = di_SourceClosureDigest input \<and> di_SourceClosureDigest input \<noteq> []
     \<and> (\<exists>v. decode output = Inr v \<and> dv_SourceClosureDigest v = di_SourceClosureDigest input
          \<and> dv_BackendSnapshotDigest v = di_BackendSnapshotDigest input
          \<and> dv_EffectivePlanInputDigest v = di_EffectivePlanInputDigest input)"
  using assms verified
  by (auto simp: DiscoverFromTerraformOutput_def Let_def split: if_splits sum.splits option.splits)

end

lemma ValidateBinding_parts:
  "ValidateBinding i p = None \<Longrightarrow> runtime_identity_Validate i = None \<and> connection_profile_Validate p = None"
  by (simp add: ValidateBinding_def)

definition frozen_target ::
  "runtime_target_identity \<Rightarrow> target_connection_profile \<Rightarrow> runtime_target_identity \<Rightarrow> target_connection_profile \<Rightarrow> bool" where
  "frozen_target i0 p0 i p \<longleftrightarrow> i = i0 \<and> p = p0 \<and> ValidateBinding i p = None"

definition cluster_matches :: "eks_cluster \<Rightarrow> runtime_target_identity \<Rightarrow> target_connection_profile \<Rightarrow> bool" where
  "cluster_matches c i p \<longleftrightarrow>
     (rti_ClusterARN i = [] \<or> eks_Arn c = rti_ClusterARN i)
     \<and> accountFromARN (eks_Arn c) = Inr (rti_AccountID i)
     \<and> (rti_IncarnationID i = [] \<or> rti_IncarnationID i = eks_Arn c)
     \<and> eks_Endpoint c = tcp_Endpoint p \<and> eks_CertificateAuthority c = Some (tcp_CACertificateData p)"

definition described_cluster :: "eks_factory option \<Rightarrow> runtime_target_identity \<Rightarrow> target_connection_profile \<Rightarrow> bool" where
  "described_cluster factory i p \<longleftrightarrow> rti_Provider i = ProviderAWS \<and>
     (\<exists>clients describe cluster. factory = Some clients \<and> clients (rti_Region i) = Inr describe
        \<and> describe (eks_Name cluster) = Inr (Some cluster) \<and> cluster_matches cluster i p)"

lemma kubeconfig_verifies:
  "VerifyKubeconfigTarget i0 p0 i p = None \<Longrightarrow>
     connection_profile_Validate p = None \<and> frozen_target i0 p0 i p"
  using ValidateBinding_parts [of i p]
  by (simp add: VerifyKubeconfigTarget_def frozen_target_def split: if_splits)

lemma verify_cluster_None:
  "verify_cluster sha name c i p = None \<Longrightarrow> name = eks_Name c \<and> cluster_matches c i p"
  unfolding verify_cluster_def cluster_matches_def by (auto split: if_splits)

lemma eks_verifies:
  assumes "AWSEKSVerifier_Verify sha factory i p = None"
  shows "connection_profile_Validate p = None \<and> described_cluster factory i p"
proof -
  obtain clients describe name cluster where "rti_Provider i = ProviderAWS" "factory = Some clients"
    "clients (rti_Region i) = Inr describe" "describe name = Inr (Some cluster)"
    "verify_cluster sha name cluster i p = None" "connection_profile_Validate p = None"
    using assms unfolding AWSEKSVerifier_Verify_def
    by (auto simp: Let_def split: if_splits option.splits sum.splits)
  then show ?thesis using verify_cluster_None [of sha name cluster i p]
    unfolding described_cluster_def by blast
qed

interpretation kubeconfig: target_verifier "VerifyKubeconfigTarget i0 p0" "frozen_target i0 p0"
  for i0 p0 by unfold_locales (rule kubeconfig_verifies)

interpretation eks: target_verifier "AWSEKSVerifier_Verify sha factory" "described_cluster factory"
  for sha factory by unfold_locales (rule eks_verifies)

subsection \<open>What a client resolver promises\<close>

locale client_resolver =
  fixes client :: "'c resolver"
    and serves :: "runtime_target_identity \<Rightarrow> target_connection_profile \<Rightarrow> 'c \<Rightarrow> bool"
  assumes bound: "client i p = Inr c \<Longrightarrow> ValidateBinding i p = None \<and> serves i p c"
begin

lemma unbound_refused: "ValidateBinding i p \<noteq> None \<Longrightarrow> \<exists>e. client i p = Inl e"
  using bound by (cases "client i p") auto

lemma invalid_identity_refused: "rti_IncarnationID i = [] \<Longrightarrow> \<exists>e. client i p = Inl e"
  by (rule unbound_refused) (simp add: ValidateBinding_def runtime_identity_Validate_def)

end

definition registered_for ::
  "hash \<Rightarrow> ('c \<Rightarrow> gerr + string) \<Rightarrow> 'c client_factory \<Rightarrow> runtime_target_identity \<Rightarrow> target_connection_profile \<Rightarrow> 'c \<Rightarrow> bool" where
  "registered_for sha uid f i p c \<longleftrightarrow>
     cf_clients f (Digest sha (target_identity_json i)) = Some c
     \<and> cf_profiles f (Digest sha (target_identity_json i)) = Some p
     \<and> (rti_Provider i = ProviderKubernetes \<longrightarrow> uid c = Inr (rti_IncarnationID i))"

definition dialed_for ::
  "(runtime_target_identity \<Rightarrow> target_connection_profile \<Rightarrow> gerr + string) option \<Rightarrow> (rest_config \<Rightarrow> gerr + 'c)
   \<Rightarrow> runtime_target_identity \<Rightarrow> target_connection_profile \<Rightarrow> 'c \<Rightarrow> bool" where
  "dialed_for tokens new_client i p c \<longleftrightarrow> rti_Provider i = ProviderAWS \<and>
     (\<exists>token t. tokens = Some token \<and> token i p = Inr t \<and>
        new_client \<lparr>rc_Host = tcp_Endpoint p, rc_BearerToken = t, rc_CAData = DecodeEKSCA (tcp_CACertificateData p)\<rparr> = Inr c)"

lemma factory_bound:
  "Factory_Client sha uid f i p = Inr c \<Longrightarrow> ValidateBinding i p = None \<and> registered_for sha uid f i p c"
  by (auto simp: Factory_Client_def registered_for_def Let_def split: option.splits if_splits sum.splits)

lemma wrapped_error_Inr: "(case x of Inl e \<Rightarrow> Inl (f e) | Inr c \<Rightarrow> Inr c) = Inr d \<longleftrightarrow> x = Inr d"
  by (cases x) simp_all

lemma eks_client_bound:
  "EKSTargetResolver_Client tokens nc i p = Inr c \<Longrightarrow> ValidateBinding i p = None \<and> dialed_for tokens nc i p c"
  by (auto simp: EKSTargetResolver_Client_def dialed_for_def wrapped_error_Inr split: option.split_asm if_split_asm)

interpretation factory_resolver: client_resolver "Factory_Client sha uid f" "registered_for sha uid f"
  for sha uid f by unfold_locales (rule factory_bound)

interpretation eks_resolver: client_resolver "EKSTargetResolver_Client tokens nc" "dialed_for tokens nc"
  for tokens nc by unfold_locales (rule eks_client_bound)

locale provider_resolvers =
  kube: client_resolver kube_client kube_serves + aws: client_resolver aws_client aws_serves
  for kube_client :: "'c resolver" and kube_serves and aws_client :: "'c resolver" and aws_serves
begin

lemma provider_bound:
  "ProviderClientResolver_Client (Some kube_client) (Some aws_client) i p = Inr c \<Longrightarrow>
     ValidateBinding i p = None \<and> (kube_serves i p c \<or> aws_serves i p c)"
  by (auto simp: ProviderClientResolver_Client_def split: if_splits dest: kube.bound aws.bound)

end

sublocale provider_resolvers \<subseteq>
  provider: client_resolver "ProviderClientResolver_Client (Some kube_client) (Some aws_client)"
    "\<lambda>i p c. kube_serves i p c \<or> aws_serves i p c"
  by unfold_locales (rule provider_bound)

interpretation manager: provider_resolvers "Factory_Client sha uid f" "registered_for sha uid f"
  "EKSTargetResolver_Client tokens nc" "dialed_for tokens nc"
  for sha uid f tokens nc ..

subsection \<open>Properties\<close>

text \<open>
  Discovery of a kubeconfig target never moves it: the identity and profile it returns are
  the frozen ones, whatever the Terraform output says, and the output carries the digests of
  the convergence it is evidence for.
\<close>
theorem kubeconfig_discovery_is_frozen:
  assumes "DiscoverFromTerraformOutput sha decode output input (Some (VerifyKubeconfigTarget i0 p0)) = Inr r"
  shows "dr_RuntimeTargetIdentity r = i0 \<and> dr_TargetConnection r = p0 \<and> ValidateBinding i0 p0 = None
     \<and> (\<exists>v. decode output = Inr v \<and> dv_SourceClosureDigest v = di_SourceClosureDigest input
          \<and> dv_BackendSnapshotDigest v = di_BackendSnapshotDigest input
          \<and> dv_EffectivePlanInputDigest v = di_EffectivePlanInputDigest input)"
  using kubeconfig.discovery_trusted [OF assms] by (auto simp: frozen_target_def)

definition sample_identity :: runtime_target_identity where
  "sample_identity = \<lparr>rti_Provider = ProviderKubernetes, rti_AccountID = ''local'', rti_Region = ''local'',
     rti_ClusterARN = [], rti_ClusterName = ''k'', rti_IncarnationID = ''u''\<rparr>"

definition sample_connection :: target_connection_profile where
  "sample_connection = \<lparr>tcp_Endpoint = ''kubeconfig:k'', tcp_CACertificateData = [], tcp_CACertificateDigest = [],
     tcp_AuthMode = AuthKubeconfigContext, tcp_NetworkRouteProfile = [], tcp_KubeContext = ''k'', tcp_RoleARN = []\<rparr>"

definition sample_values :: discovery_values where
  "sample_values = \<lparr>dv_Provider = [], dv_AccountID = [], dv_Region = [], dv_ClusterARN = [], dv_ClusterName = [],
     dv_IncarnationID = [], dv_Endpoint = [], dv_CADataDigest = [], dv_CAData = [], dv_AuthMode = [], dv_KubeContext = [],
     dv_SourceClosureDigest = ''s'', dv_BackendSnapshotDigest = ''b'', dv_EffectivePlanInputDigest = ''e''\<rparr>"

definition sample_input :: discovery_input where
  "sample_input = \<lparr>di_SourceClosureDigest = ''s'', di_BackendSnapshotDigest = ''b'', di_EffectivePlanInputDigest = ''e'',
     di_ExpectedTarget = sample_identity, di_ExpectedConnection = sample_connection\<rparr>"

lemma sample_discovery:
  "\<exists>r. DiscoverFromTerraformOutput (\<lambda>s. s) (\<lambda>_. Inr sample_values) ''{}'' sample_input
      (Some (VerifyKubeconfigTarget sample_identity sample_connection)) = Inr r"
proof -
  have "isl (DiscoverFromTerraformOutput (\<lambda>s. s) (\<lambda>_. Inr sample_values) ''{}'' sample_input
      (Some (VerifyKubeconfigTarget sample_identity sample_connection))) = False" by code_simp
  then show ?thesis by (auto simp: isl_def split: sum.splits) (metis sum.exhaust)
qed

theorem kubeconfig_discovery_is_frozen_witness:
  "ValidateBinding sample_identity sample_connection = None"
  using sample_discovery kubeconfig_discovery_is_frozen by blast

text \<open>
  Discovery of an EKS target is believed only when EKS describes the cluster so: its account,
  endpoint, certificate authority and incarnation are those of the described cluster.
\<close>
theorem eks_discovery_matches_describe:
  assumes "DiscoverFromTerraformOutput sha decode output input (Some (AWSEKSVerifier_Verify sha factory)) = Inr r"
  shows "described_cluster factory (dr_RuntimeTargetIdentity r) (dr_TargetConnection r)
     \<and> dr_SourceClosureDigest r = di_SourceClosureDigest input"
  using eks.discovery_trusted [OF assms] by blast

definition sample_cluster :: eks_cluster where
  "sample_cluster = \<lparr>eks_Name = ''c'', eks_Arn = ''arn:aws:eks:r:1:cluster/c'', eks_Endpoint = ''https://e'',
     eks_CertificateAuthority = Some ''ca''\<rparr>"

definition sample_eks_values :: discovery_values where
  "sample_eks_values = sample_values\<lparr>dv_Provider := ProviderAWS, dv_AccountID := ''1'', dv_Region := ''r'',
     dv_ClusterName := ''c'', dv_IncarnationID := ''arn:aws:eks:r:1:cluster/c'', dv_Endpoint := ''https://e'',
     dv_CAData := ''ca'', dv_AuthMode := AuthAWSEKS\<rparr>"

theorem eks_discovery_matches_describe_witness:
  "\<exists>i p. described_cluster (Some (\<lambda>_. Inr (\<lambda>_. Inr (Some sample_cluster)))) i p"
proof -
  let ?d = "DiscoverFromTerraformOutput (\<lambda>s. s) (\<lambda>_. Inr sample_eks_values) ''{}'' sample_input
      (Some (AWSEKSVerifier_Verify (\<lambda>s. s) (Some (\<lambda>_. Inr (\<lambda>_. Inr (Some sample_cluster))))))"
  have "isl ?d = False" by code_simp
  then obtain r where "?d = Inr r" by (cases ?d) auto
  from eks_discovery_matches_describe [OF this] show ?thesis by blast
qed

text \<open>
  A client is handed out only to the pair of identity and profile it was registered for: after
  a registration a request for the same identity gets that client, with that profile only and,
  on a generic Kubernetes target, only while the cluster still has the identity's incarnation.
\<close>
theorem registered_clients_fail_closed:
  assumes "Register sha f i p (Some c) = Inr f'" and "Factory_Client sha uid f' i p' = Inr c'"
  shows "c' = c \<and> p' = p \<and> ValidateBinding i p = None
     \<and> (rti_Provider i = ProviderKubernetes \<longrightarrow> uid c = Inr (rti_IncarnationID i))"
  using factory_bound [OF assms(2)] assms(1)
  by (auto simp: Register_def registered_for_def Let_def)

theorem registered_clients_fail_closed_witness:
  "\<exists>f'. Register (\<lambda>s. s) NewTargetClientFactory sample_identity sample_connection (Some (7::nat)) = Inr f' \<and>
     Factory_Client (\<lambda>s. s) (\<lambda>_. Inr ''u'') f' sample_identity sample_connection = Inr 7"
proof -
  have b: "ValidateBinding sample_identity sample_connection = None" by code_simp
  obtain f' where r: "Register (\<lambda>s. s) NewTargetClientFactory sample_identity sample_connection (Some (7::nat)) = Inr f'"
    by (simp add: Register_def b checked_def Let_def)
  then have "Factory_Client (\<lambda>s. s) (\<lambda>_. Inr ''u'') f' sample_identity sample_connection = Inr 7"
    by (auto simp: Register_def Factory_Client_def b Let_def sample_identity_def)
  with registered_clients_fail_closed [OF r this] r show ?thesis by blast
qed

text \<open>
  The session used for an EKS token is the configured role in the target's account and
  region, complete and not expired.
\<close>
theorem runtime_session_is_the_configured_role:
  assumes "runtime_session p now identity profile = Inr (Some session)"
  shows "accountFromARN (tcp_RoleARN profile) = Inr (rti_AccountID identity)
     \<and> accountFromARN (as_RoleARN session) = Inr (rti_AccountID identity)
     \<and> roleNameFromARN (as_RoleARN session) = roleNameFromARN (tcp_RoleARN profile)
     \<and> as_Region session = rti_Region identity \<and> as_ExpiresAt session > now
     \<and> as_SessionToken session \<noteq> []"
  using assms unfolding runtime_session_def by (auto split: if_splits sum.splits option.splits)

theorem runtime_session_is_the_configured_role_witness:
  "roleNameFromARN ''arn:aws:sts::1:assumed-role/runtime/pcp-eks-runtime'' = roleNameFromARN ''arn:aws:iam::1:role/runtime''"
proof -
  let ?p = "\<lparr>tp_ConfigLoader = Some (\<lambda>_. None), tp_AssumeRole = Some (AssumeRole (Some (\<lambda>_. Inr (Some
     \<lparr>sto_Credentials = Some \<lparr>stsc_AccessKeyId = ''k'', stsc_SecretAccessKey = ''s'', stsc_SessionToken = ''t'',
        stsc_Expiration = Some 20\<rparr>,
      sto_AssumedRoleARN = Some ''arn:aws:sts::1:assumed-role/runtime/pcp-eks-runtime''\<rparr>))) 10),
     tp_Presigner = None\<rparr>"
  let ?i = "sample_identity\<lparr>rti_Provider := ProviderAWS, rti_AccountID := ''1''\<rparr>"
  let ?c = "sample_connection\<lparr>tcp_RoleARN := ''arn:aws:iam::1:role/runtime''\<rparr>"
  have s: "runtime_session ?p 10 ?i ?c = Inr (Some \<lparr>as_AccountID = ''1'',
     as_RoleARN = ''arn:aws:sts::1:assumed-role/runtime/pcp-eks-runtime'', as_Region = ''local'', as_AccessKeyID = ''k'',
     as_SecretAccessKey = ''s'', as_SessionToken = ''t'', as_TokenID = ''k'', as_ExpiresAt = 20\<rparr>)"
    by code_simp
  from runtime_session_is_the_configured_role [OF s] show ?thesis by simp
qed

definition consistent_target :: "target_expectation \<Rightarrow> materialized_target \<Rightarrow> bool" where
  "consistent_target input m \<longleftrightarrow>
     (let x = mt_InfrastructureExecutionIdentity m; i = mt_RuntimeTargetIdentity m; p = mt_TargetConnectionProfile m in
        iei_Provider x = rti_Provider i \<and> iei_AccountID x = rti_AccountID i \<and> iei_Region x = rti_Region i
        \<and> execution_identity_Validate x = None
        \<and> (if rti_Provider i = ProviderAWS
           then rti_AccountID i = te_AccountID input \<and> rti_Region i = te_Region input \<and> te_AccountID input \<noteq> []
             \<and> tcp_AuthMode p = AuthAWSEKS
           else ValidateBinding i p = None))"

lemma or_else_nonempty [simp]: "or_else s d = [] \<longleftrightarrow> s = [] \<and> d = []"
  by (simp add: or_else_def)

lemma kubeconfig_consistent:
  assumes "materialize_kubeconfig provider input = Inr m"
    and "provider = ProviderKubernetes \<or> provider = ProviderKind"
  shows "consistent_target input m \<and> rti_Provider (mt_RuntimeTargetIdentity m) = provider"
proof -
  from assms(1) have name: "te_ClusterName input \<noteq> []"
    by (auto simp: materialize_kubeconfig_def split: if_splits)
  from assms(2) show ?thesis
  proof
    assume p: "provider = ProviderKubernetes"
    with assms(1) name show ?thesis
      by (auto simp: materialize_kubeconfig_def consistent_target_def Let_def ValidateBinding_def
          runtime_identity_Validate_def connection_profile_Validate_def split: if_split_asm)
  next
    assume p: "provider = ProviderKind"
    with assms(1) name show ?thesis
      by (auto simp: materialize_kubeconfig_def consistent_target_def Let_def ValidateBinding_def
          runtime_identity_Validate_def connection_profile_Validate_def split: if_split_asm)
  qed
qed

lemma aws_consistent:
  assumes "materialize_aws input = Inr m"
  shows "consistent_target input m \<and> rti_Provider (mt_RuntimeTargetIdentity m) = ProviderAWS"
  using assms unfolding materialize_aws_def consistent_target_def
  by (auto simp: Let_def split: if_splits)

text \<open>
  Materializing a class target keeps one provider, account and region through the execution
  identity and the runtime identity. A kubeconfig target comes out as a valid binding; an AWS
  target keeps the account and region of its input and never a local default.
\<close>
theorem materialized_targets_are_consistent:
  assumes "MaterializeTarget input = Inr m"
  shows "rti_Provider (mt_RuntimeTargetIdentity m) = to_lower (trim_space (te_Provider input))
     \<and> consistent_target input m"
  using assms kubeconfig_consistent [of _ input m] aws_consistent [of input m]
  by (auto simp: MaterializeTarget_def Let_def split: if_splits)

theorem materialized_targets_are_consistent_witness:
  "\<exists>m. MaterializeTarget \<lparr>te_Provider = '' Kubernetes '', te_AccountID = [], te_Region = [], te_ClusterARN = [],
      te_ClusterName = ''k'', te_ClusterID = ''u'', te_IncarnationID = [], te_ConnectionProfile = [],
      te_ExecutionRoleARN = [], te_RuntimeRoleARN = []\<rparr> = Inr m
    \<and> ValidateBinding (mt_RuntimeTargetIdentity m) (mt_TargetConnectionProfile m) = None"
proof -
  let ?t = "\<lparr>te_Provider = '' Kubernetes '', te_AccountID = [], te_Region = [], te_ClusterARN = [],
      te_ClusterName = ''k'', te_ClusterID = ''u'', te_IncarnationID = [], te_ConnectionProfile = [],
      te_ExecutionRoleARN = [], te_RuntimeRoleARN = []\<rparr>"
  have "isl (MaterializeTarget ?t) = False" by code_simp
  then obtain m where m: "MaterializeTarget ?t = Inr m" by (cases "MaterializeTarget ?t") auto
  have "to_lower (trim_space '' Kubernetes '') = ProviderKubernetes" by code_simp
  with materialized_targets_are_consistent [OF m] m show ?thesis
    by (auto simp: consistent_target_def Let_def split: if_splits)
qed

end
