(* ===== verification/ControllerBase.thy ===== *)
theory ControllerBase
  imports Artifacts TargetAdapters
begin

section \<open>What the controllers share: internal/controller\<close>

text \<open>
  Conditions (conditions.go, stableCondition), finalizer lists, owner references, bounded names,
  the identity digests, the frozen execution profile (execution\_profile.go) and the class
  materialization of environmentclass.go. The clock is an argument \<open>now\<close>; a Secret is the part of
  it the code reads. Slices and maps compared by reflect.DeepEqual are compared as values, with
  nil and empty the same.
\<close>

subsection \<open>Conditions\<close>

definition ConditionReady :: string where "ConditionReady = ''Ready''"

definition ReasonPhase1Skeleton :: string where "ReasonPhase1Skeleton = ''Phase1Skeleton''"

definition skeletonCondition :: "time \<Rightarrow> int \<Rightarrow> condition" where
  "skeletonCondition now generation = \<lparr>c_Type = ConditionReady, c_Status = ConditionFalse,
     c_ObservedGeneration = generation, c_Reason = ReasonPhase1Skeleton,
     c_Message = ''Phase 1 control-plane skeleton is installed; lifecycle orchestration is not active yet.'',
     c_LastTransitionTime = now\<rparr>"

definition findCondition :: "condition list \<Rightarrow> string \<Rightarrow> condition option" where
  "findCondition conditions conditionType = find (\<lambda>c. c_Type c = conditionType) conditions"

definition skeletonConditionCurrent :: "condition list \<Rightarrow> int \<Rightarrow> bool" where
  "skeletonConditionCurrent conditions generation \<longleftrightarrow>
     (case findCondition conditions ConditionReady of
        None \<Rightarrow> False
      | Some c \<Rightarrow> c_Status c = ConditionFalse \<and> c_ObservedGeneration c = generation \<and> c_Reason c = ReasonPhase1Skeleton)"

definition lifecycleCondition :: "time \<Rightarrow> int \<Rightarrow> condition_status \<Rightarrow> string \<Rightarrow> string \<Rightarrow> condition" where
  "lifecycleCondition now generation status reason message =
     \<lparr>c_Type = ConditionReady, c_Status = status, c_ObservedGeneration = generation, c_Reason = reason,
      c_Message = message, c_LastTransitionTime = now\<rparr>"

definition executionCondition :: "time \<Rightarrow> int \<Rightarrow> condition_status \<Rightarrow> string \<Rightarrow> string \<Rightarrow> condition" where
  "executionCondition now generation status reason message =
     \<lparr>c_Type = ConditionReady, c_Status = status, c_ObservedGeneration = generation, c_Reason = reason,
      c_Message = message, c_LastTransitionTime = now\<rparr>"

definition stableCondition ::
  "time \<Rightarrow> condition option \<Rightarrow> int \<Rightarrow> condition_status \<Rightarrow> string \<Rightarrow> string \<Rightarrow> condition" where
  "stableCondition now previous generation status reason message =
     (case previous of
        Some p \<Rightarrow>
          if c_Status p = status \<and> c_ObservedGeneration p = generation \<and> c_Reason p = reason \<and> c_Message p = message
          then p else lifecycleCondition now generation status reason message
      | None \<Rightarrow> lifecycleCondition now generation status reason message)"

definition conditionReadyForGeneration :: "condition list \<Rightarrow> string \<Rightarrow> int \<Rightarrow> bool" where
  "conditionReadyForGeneration conditions conditionType generation \<longleftrightarrow>
     (case findCondition conditions conditionType of
        None \<Rightarrow> False
      | Some c \<Rightarrow> c_Status c = ConditionTrue \<and> c_ObservedGeneration c = generation)"

definition condition_reason :: "condition list \<Rightarrow> string" where
  "condition_reason cs = (case findCondition cs ConditionReady of None \<Rightarrow> [] | Some c \<Rightarrow> c_Reason c)"

lemma stableCondition_fields [simp]:
  "c_Status (stableCondition now p g s r m) = s"
  "c_Reason (stableCondition now p g s r m) = r"
  "c_Message (stableCondition now p g s r m) = m"
  "c_ObservedGeneration (stableCondition now p g s r m) = g"
  by (simp_all add: stableCondition_def lifecycleCondition_def split: option.splits)

lemma condition_fields [simp]:
  "c_Status (lifecycleCondition now g s r m) = s" "c_Reason (lifecycleCondition now g s r m) = r"
  "c_Message (lifecycleCondition now g s r m) = m" "c_ObservedGeneration (lifecycleCondition now g s r m) = g"
  "c_Type (lifecycleCondition now g s r m) = ConditionReady"
  by (simp_all add: lifecycleCondition_def)

lemma findCondition_type: "findCondition cs t = Some c \<Longrightarrow> c_Type c = t"
  by (auto simp: findCondition_def find_Some_iff)

lemma stableCondition_type [simp]:
  "c_Type (stableCondition now (findCondition cs ConditionReady) g s r m) = ConditionReady"
  by (auto simp: stableCondition_def dest: findCondition_type split: option.splits)

subsection \<open>Finalizers, owners, names\<close>

definition removeString :: "string list \<Rightarrow> string \<Rightarrow> string list" where
  "removeString values want = filter (\<lambda>v. v \<noteq> want) values"

definition is_controller_ref :: "string \<Rightarrow> owner_reference \<Rightarrow> bool" where
  "is_controller_ref kind o' \<longleftrightarrow> or_Controller o' = Some True \<and> or_Kind o' = kind"

definition ownedBy :: "object_meta \<Rightarrow> object_meta \<Rightarrow> string \<Rightarrow> bool" where
  "ownedBy object parent kind \<longleftrightarrow> om_UID parent \<noteq> []
     \<and> list_ex (\<lambda>o'. is_controller_ref kind o' \<and> or_UID o' = om_UID parent) (om_OwnerReferences object)"

definition hasForeignController :: "object_meta \<Rightarrow> object_meta \<Rightarrow> string \<Rightarrow> bool" where
  "hasForeignController object parent kind \<longleftrightarrow>
     list_ex (\<lambda>o'. is_controller_ref kind o' \<and> or_UID o' \<noteq> om_UID parent) (om_OwnerReferences object)"

definition boundedResourceName :: "hash \<Rightarrow> string \<Rightarrow> string" where
  "boundedResourceName sha logical0 =
     (let logical = trim_both (\<lambda>c. c = CHR ''-'') (to_lower logical0) in
      if length logical \<le> 63 then logical
      else (let suffix = ''-'' @ take 10 (sha logical);
                prefix = trim_right (\<lambda>c. c = CHR ''-'') (take (63 - length suffix) logical)
            in prefix @ suffix))"

lemma trim_right_length: "length (trim_right p s) \<le> length s"
  unfolding trim_right_def by (metis length_dropWhile_le length_rev)

lemma boundedResourceName_length: "length (boundedResourceName sha s) \<le> 63"
proof -
  let ?l = "trim_both (\<lambda>c. c = CHR ''-'') (to_lower s)" and ?n = "length (''-'' @ take 10 (sha (trim_both (\<lambda>c. c = CHR ''-'') (to_lower s))))"
  have "length (trim_right (\<lambda>c. c = CHR ''-'') (take (63 - ?n) ?l)) \<le> 63 - ?n"
    using trim_right_length [of "\<lambda>c. c = CHR ''-''" "take (63 - ?n) ?l"] by simp
  moreover have "?n \<le> 63" by simp
  ultimately show ?thesis by (auto simp: boundedResourceName_def Let_def)
qed

definition planRunName :: "hash \<Rightarrow> string \<Rightarrow> int \<Rightarrow> string" where
  "planRunName sha stackName generation = boundedResourceName sha (stackName @ ''-plan-'' @ show_int generation)"

definition destroyPlanRunName :: "hash \<Rightarrow> string \<Rightarrow> int \<Rightarrow> string" where
  "destroyPlanRunName sha stackName generation =
     boundedResourceName sha (stackName @ ''-destroy-plan-'' @ show_int generation)"

definition planAttemptName :: "hash \<Rightarrow> time \<Rightarrow> string \<Rightarrow> int \<Rightarrow> bool \<Rightarrow> string" where
  "planAttemptName sha now stackName generation destroy =
     boundedResourceName sha (stackName @ ''-'' @ (if destroy then ''destroy-plan'' else ''plan'') @ ''-''
       @ show_int generation @ ''-attempt-'' @ show_int now)"

definition applyRunName :: "hash \<Rightarrow> string \<Rightarrow> string \<Rightarrow> string" where
  "applyRunName sha planName approvalUID =
     boundedResourceName sha (planName @ ''-apply-'' @ take 10 (sha approvalUID))"

definition classStackName :: "hash \<Rightarrow> string \<Rightarrow> string" where
  "classStackName sha environmentName = boundedResourceName sha (environmentName @ ''-infra'')"

definition resourceSetName :: "hash \<Rightarrow> string \<Rightarrow> string" where
  "resourceSetName sha environmentName = boundedResourceName sha (environmentName @ ''-resources'')"

subsection \<open>Identity digests\<close>

definition digestIdentity :: "hash \<Rightarrow> json \<Rightarrow> string" where
  "digestIdentity sha v = Digest sha v"

definition strings_json :: "string list \<Rightarrow> json" where
  "strings_json ss = JArr (map JStr ss)"

definition executionContextDigest :: "hash \<Rightarrow> infra_stack_spec \<Rightarrow> string" where
  "executionContextDigest sha spec =
     digestIdentity sha (infra_stack_spec_json (spec\<lparr>iss_MutationFence := False, iss_RuntimeMutationAllowed := False\<rparr>))"

definition effectivePlanInputDigest :: "hash \<Rightarrow> infra_stack_spec \<Rightarrow> string" where
  "effectivePlanInputDigest sha spec = executionContextDigest sha spec"

definition planContextDigest :: "hash \<Rightarrow> infra_stack_spec \<Rightarrow> execution_profile option \<Rightarrow> string" where
  "planContextDigest sha spec profile =
     digestIdentity sha (strings_json [executionContextDigest sha spec,
       (case profile of None \<Rightarrow> [] | Some p \<Rightarrow> ep_CredentialsIdentity p)])"

definition runnerServiceAccountIdentityDigest :: "hash \<Rightarrow> string \<Rightarrow> string \<Rightarrow> string" where
  "runnerServiceAccountIdentityDigest sha name managementRoleARN =
     digestIdentity sha (jobj [(''serviceAccountName'', Some (JStr name)), (''managementRoleARN'', omit_str managementRoleARN)])"

subsection \<open>execution\_profile.go\<close>

record secret =
  sec_Meta :: object_meta
  sec_Data :: gomap

definition immutableImage :: "string \<Rightarrow> bool" where
  "immutableImage s \<longleftrightarrow> 72 \<le> length s \<and>
     (let t = drop (length s - 72) s in has_prefix t ''@sha256:'' \<and> list_all is_lower_hex (drop 8 t))"

definition resolveExecutionProfile ::
  "hash \<Rightarrow> (string \<Rightarrow> gerr + secret) \<Rightarrow> string \<Rightarrow> execution_profile option \<Rightarrow> gerr + execution_profile" where
  "resolveExecutionProfile sha get_secret namespace input =
     (case input of
        None \<Rightarrow> (case ValidateExecutionProfile None of Some e \<Rightarrow> Inl e | None \<Rightarrow> Inl (Err []))
      | Some p \<Rightarrow> checked (ValidateExecutionProfile input)
          (case get_secret (ep_CredentialsSecretRef p) of
             Inl e \<Rightarrow> Inl (Wrap ''read emulator credential Secret'' e)
           | Inr s \<Rightarrow>
               (let account = glookup (sec_Data s) ''AWS_ACCESS_KEY_ID'';
                    key = glookup (sec_Data s) ''AWS_SECRET_ACCESS_KEY'';
                    token = glookup (sec_Data s) ''AWS_SESSION_TOKEN''
                in checked (EmulatorCredentials account key token)
                  (let account' = (if account = ''test'' then ''000000000000'' else account) in
                   if account' \<noteq> ep_AccountID p \<or> om_UID (sec_Meta s) = [] \<or> om_ResourceVersion (sec_Meta s) = []
                   then Inl (Err ''emulator credential account/identity mismatch'')
                   else (let identity = digestIdentity sha (strings_json
                               [namespace, om_Name (sec_Meta s), om_UID (sec_Meta s), om_ResourceVersion (sec_Meta s)])
                         in if ep_CredentialsIdentity p \<noteq> [] \<and> ep_CredentialsIdentity p \<noteq> identity
                            then Inl (Err ''emulator credential Secret changed; a new Plan and approval are required'')
                            else Inr (p\<lparr>ep_CredentialsIdentity := identity\<rparr>))))))"

subsection \<open>Frozen digests do not depend on the fences\<close>

lemma executionContextDigest_fences:
  "executionContextDigest sha (spec\<lparr>iss_MutationFence := b, iss_RuntimeMutationAllowed := c\<rparr>)
     = executionContextDigest sha spec"
  by (simp add: executionContextDigest_def)

lemma planContextDigest_fences:
  "planContextDigest sha (spec\<lparr>iss_MutationFence := b\<rparr>) p = planContextDigest sha spec p"
  by (simp add: planContextDigest_def executionContextDigest_def)

lemma resolveExecutionProfile_frozen:
  "resolveExecutionProfile sha gs ns (Some p) = Inr q \<Longrightarrow>
     ValidateExecutionProfile (Some p) = None \<and> ep_CredentialsIdentity q \<noteq> []
     \<and> (ep_CredentialsIdentity p = [] \<or> ep_CredentialsIdentity q = ep_CredentialsIdentity p)
     \<and> p\<lparr>ep_CredentialsIdentity := ep_CredentialsIdentity q\<rparr> = q"
  by (auto simp: resolveExecutionProfile_def Let_def digestIdentity_def split: sum.splits if_splits)

end
