(* ===== verification/Runs.thy ===== *)
theory Runs
  imports ControllerBase Jobs
begin

section \<open>Terraform runs: how a Plan becomes an Apply or a Destroy\<close>

text \<open>
  The pure half of infrastack\_controller.go: the runs the stack controller builds, the checks
  that admit an Apply, and the closure that a convergence retains for a later Destroy. A nil
  pointer is \<open>None\<close>; a definition whose callers always pass an object takes the object.
  json.Unmarshal of a retained run spec is the argument \<open>decode\<close>.
\<close>

definition planValidity :: duration where "planValidity = hour"

definition planEvidenceReady :: "terraform_run \<Rightarrow> bool" where
  "planEvidenceReady run \<longleftrightarrow> (let s = run_Status run in
     rst_EvidenceCaptured s \<and> rst_ArtifactsReady s \<and> rst_TerminalResultRef s \<noteq> [] \<and> rst_TerminalResultDigest s \<noteq> []
     \<and> rst_PlanReportRef s \<noteq> [] \<and> rst_PlanReportDigest s \<noteq> [])"

definition runEvidenceReady :: "terraform_run \<Rightarrow> bool" where
  "runEvidenceReady run \<longleftrightarrow> planEvidenceReady run
     \<and> rst_TargetDiscoveryRef (run_Status run) \<noteq> [] \<and> rst_TargetDiscoveryDigest (run_Status run) \<noteq> []"

definition destroyEvidenceReady :: "terraform_run \<Rightarrow> bool" where
  "destroyEvidenceReady run \<longleftrightarrow> (let s = run_Status run in
     rst_EvidenceCaptured s \<and> rst_ArtifactsReady s \<and> rst_TerminalResultRef s \<noteq> [] \<and> rst_TerminalResultDigest s \<noteq> []
     \<and> rst_TargetDiscoveryRef s \<noteq> [] \<and> rst_TargetDiscoveryDigest s \<noteq> [])"

definition not_expired :: "time \<Rightarrow> time option \<Rightarrow> bool" where
  "not_expired now expires \<longleftrightarrow> (case expires of None \<Rightarrow> False | Some t \<Rightarrow> now < t)"

definition planAttemptStale :: "time \<Rightarrow> terraform_run option \<Rightarrow> bool" where
  "planAttemptStale now run =
     (case run of
        None \<Rightarrow> True
      | Some r \<Rightarrow>
          rst_ExecutionOutcome (run_Status r) \<in> {''Failed'', ''Indeterminate'', ''Rejected'', ''Expired'', ''Superseded''}
          \<or> (case rst_PlanExpiresAt (run_Status r) of None \<Rightarrow> False | Some t \<Rightarrow> \<not> now < t))"

definition retainedBundle :: "terraform_run \<Rightarrow> string \<times> string" where
  "retainedBundle applied =
     (let s = run_Status applied; src = rs_Source (run_Spec applied) in
      if rst_SourceBundleRef s \<noteq> [] \<and> rst_SourceBundleDigest s \<noteq> [] then (rst_SourceBundleRef s, rst_SourceBundleDigest s)
      else if ps_Type src = SourceRetainedBundle then (ps_Ref src, ps_Digest src)
      else ([], []))"

definition retainedBackend :: "terraform_run \<Rightarrow> string \<times> string" where
  "retainedBackend run =
     (if rst_ResolvedBackendConfigRef (run_Status run) = []
      then (rs_BackendConfigArtifactRef (run_Spec run), rs_BackendConfigArtifactDigest (run_Spec run))
      else (rst_ResolvedBackendConfigRef (run_Status run), rst_ResolvedBackendConfigDigest (run_Status run)))"

subsection \<open>The runs the controller builds\<close>

definition buildPlanRun :: "hash \<Rightarrow> infra_stack \<Rightarrow> string \<Rightarrow> terraform_run" where
  "buildPlanRun sha stack name = (let spec = is_Spec stack in
     zero_terraform_run\<lparr>run_Meta := empty_meta\<lparr>om_Name := name, om_Namespace := om_Namespace (is_Meta stack)\<rparr>,
     run_Spec := zero_terraform_run_spec\<lparr>
       rs_ExecutionProfile := iss_ExecutionProfile spec,
       rs_Inputs := vs_Values (iss_Variables spec),
       rs_StackRef := om_Name (is_Meta stack),
       rs_InfraStackGeneration := om_Generation (is_Meta stack),
       rs_Operation := ''Plan'',
       rs_PlanMode := ''Reconcile'',
       rs_Source := \<lparr>ps_Type = SourceGitCommit, ps_URL = src_URL (iss_Source spec),
         ps_Revision = src_Revision (iss_Source spec), ps_Path = src_Path (iss_Source spec), ps_Ref = [], ps_Digest = []\<rparr>,
       rs_ResolvedBackendConfigRef := be_ConfigRef (iss_Backend spec),
       rs_LockTimeout := be_LockTimeout (iss_Backend spec),
       rs_VariableSecretRefs := vs_SecretRefs (iss_Variables spec),
       rs_VariableSecretVariables := vs_SecretVariables (iss_Variables spec),
       rs_RunnerServiceAccountName := iss_RunnerServiceAccountName spec,
       rs_RunnerManagementRoleARN := iss_RunnerManagementRoleARN spec,
       rs_RunnerServiceAccountIdentityDigest := iss_RunnerServiceAccountIdentityDigest spec,
       rs_InfrastructureExecutionRoleARN := iei_RoleARN (iss_InfrastructureExecutionIdentity spec),
       rs_Workspace := iss_Workspace spec,
       rs_Executor := iss_Executor spec,
       rs_ExecutionContextDigest := executionContextDigest sha spec,
       rs_EffectivePlanInputDigest := effectivePlanInputDigest sha spec,
       rs_InfrastructureExecutionIdentityDigest :=
         digestIdentity sha (infrastructure_execution_identity_json (iss_InfrastructureExecutionIdentity spec)),
       rs_RuntimeTargetIdentityDigest := digestIdentity sha (runtime_target_identity_json (iss_RuntimeTargetIdentity spec)),
       rs_TargetConnectionProfileDigest := digestIdentity sha (target_connection_profile_json (iss_TargetConnectionProfile spec)),
       rs_RunnerImageDigest := ex_Image (iss_Executor spec),
       rs_ExpectedTerraformVersion := ex_TerraformVersion (iss_Executor spec),
       rs_MutationFence := iss_MutationFence spec,
       rs_ConcurrencyGroup := iss_ConcurrencyGroup spec,
       rs_MaxConcurrentPlans := iss_MaxConcurrentPlans spec,
       rs_MaxConcurrentApplies := iss_MaxConcurrentApplies spec\<rparr>\<rparr>)"

definition buildDestroyPlanRun :: "infra_stack \<Rightarrow> terraform_run \<Rightarrow> string \<Rightarrow> terraform_run" where
  "buildDestroyPlanRun stack applied name =
     (let (sourceRef, sourceDigest) = retainedBundle applied; (backendRef, backendDigest) = retainedBackend applied;
          a = run_Spec applied; st = run_Status applied in
     zero_terraform_run\<lparr>run_Meta := empty_meta\<lparr>om_Name := name, om_Namespace := om_Namespace (is_Meta stack)\<rparr>,
     run_Spec := zero_terraform_run_spec\<lparr>
       rs_ExecutionProfile := rs_ExecutionProfile a,
       rs_Inputs := rs_Inputs a,
       rs_StackRef := om_Name (is_Meta stack),
       rs_InfraStackGeneration := om_Generation (is_Meta stack),
       rs_Operation := ''Plan'',
       rs_PlanMode := ''Destroy'',
       rs_Source := \<lparr>ps_Type = SourceRetainedBundle, ps_URL = [], ps_Revision = [], ps_Path = ps_Path (rs_Source a),
         ps_Ref = sourceRef, ps_Digest = sourceDigest\<rparr>,
       rs_ResolvedBackendConfigRef := rs_ResolvedBackendConfigRef a,
       rs_BackendConfigArtifactRef := backendRef,
       rs_BackendConfigArtifactDigest := backendDigest,
       rs_TargetDiscoveryRef := rst_TargetDiscoveryRef st,
       rs_TargetDiscoveryDigest := rst_TargetDiscoveryDigest st,
       rs_VariableSecretRefs := rs_VariableSecretRefs a,
       rs_VariableSecretVariables := rs_VariableSecretVariables a,
       rs_RunnerServiceAccountName := rs_RunnerServiceAccountName a,
       rs_RunnerManagementRoleARN := rs_RunnerManagementRoleARN a,
       rs_RunnerServiceAccountIdentityDigest := rs_RunnerServiceAccountIdentityDigest a,
       rs_InfrastructureExecutionRoleARN := rs_InfrastructureExecutionRoleARN a,
       rs_LockTimeout := rs_LockTimeout a,
       rs_Workspace := rs_Workspace a,
       rs_Executor := rs_Executor a,
       rs_ExecutionContextDigest := rs_ExecutionContextDigest a,
       rs_ExecutionTargetIdentityDigest := rs_ExecutionTargetIdentityDigest a,
       rs_ExecutionPlatformIdentityDigest := rs_ExecutionPlatformIdentityDigest a,
       rs_EffectivePlanInputDigest := rs_EffectivePlanInputDigest a,
       rs_SourceClosureDigest := rst_SourceBundleDigest st,
       rs_VariablesSnapshotDigest := rs_VariablesSnapshotDigest a,
       rs_SecretVariableIdentityDigest := rs_SecretVariableIdentityDigest a,
       rs_InfrastructureExecutionIdentityDigest := rs_InfrastructureExecutionIdentityDigest a,
       rs_RuntimeTargetIdentityDigest := rs_RuntimeTargetIdentityDigest a,
       rs_TargetConnectionProfileDigest := rs_TargetConnectionProfileDigest a,
       rs_TerraformLockfileDigest := rs_TerraformLockfileDigest a,
       rs_ExpectedTerraformVersion := rs_ExpectedTerraformVersion a,
       rs_RunnerImageDigest := rs_RunnerImageDigest a,
       rs_MutationFence := iss_MutationFence (is_Spec stack),
       rs_ConcurrencyGroup := rs_ConcurrencyGroup a,
       rs_MaxConcurrentPlans := rs_MaxConcurrentPlans a,
       rs_MaxConcurrentApplies := rs_MaxConcurrentApplies a\<rparr>\<rparr>)"

definition apply_source :: "terraform_run \<Rightarrow> string \<times> string" where
  "apply_source plan =
     (let s = run_Status plan in
      if rst_SourceBundleRef s = [] \<or> rst_SourceBundleDigest s = [] then retainedBundle plan
      else (rst_SourceBundleRef s, rst_SourceBundleDigest s))"

definition buildApplyRun :: "infra_stack \<Rightarrow> terraform_run \<Rightarrow> change_approval \<Rightarrow> string \<Rightarrow> terraform_run" where
  "buildApplyRun stack plan approval name =
     (let (sourceRef, sourceDigest) = apply_source plan; (backendRef, backendDigest) = retainedBackend plan;
          p = run_Spec plan; st = run_Status plan in
     zero_terraform_run\<lparr>run_Meta := empty_meta\<lparr>om_Name := name, om_Namespace := om_Namespace (is_Meta stack),
       om_Labels := [(''platform.example.io/terraform-approval-uid'', om_UID (ca_Meta approval)),
         (''platform.example.io/terraform-plan'', om_Name (run_Meta plan)),
         (''platform.example.io/terraform-plan-uid'', om_UID (run_Meta plan))]\<rparr>,
     run_Spec := zero_terraform_run_spec\<lparr>
       rs_ExecutionProfile := rs_ExecutionProfile p,
       rs_Inputs := rs_Inputs p,
       rs_StackRef := om_Name (is_Meta stack),
       rs_InfraStackGeneration := om_Generation (is_Meta stack),
       rs_Operation := ''Apply'',
       rs_PlanMode := rs_PlanMode p,
       rs_Source := \<lparr>ps_Type = SourceRetainedBundle, ps_URL = [], ps_Revision = [], ps_Path = ps_Path (rs_Source p),
         ps_Ref = sourceRef, ps_Digest = sourceDigest\<rparr>,
       rs_ResolvedBackendConfigRef := rs_ResolvedBackendConfigRef p,
       rs_BackendConfigArtifactRef := backendRef,
       rs_BackendConfigArtifactDigest := backendDigest,
       rs_VariableSecretRefs := rs_VariableSecretRefs p,
       rs_VariableSecretVariables := rs_VariableSecretVariables p,
       rs_RunnerServiceAccountName := rs_RunnerServiceAccountName p,
       rs_RunnerManagementRoleARN := rs_RunnerManagementRoleARN p,
       rs_RunnerServiceAccountIdentityDigest := rs_RunnerServiceAccountIdentityDigest p,
       rs_InfrastructureExecutionRoleARN := rs_InfrastructureExecutionRoleARN p,
       rs_LockTimeout := rs_LockTimeout p,
       rs_Workspace := rs_Workspace p,
       rs_Executor := rs_Executor p,
       rs_ExecutionContextDigest := rs_ExecutionContextDigest p,
       rs_ExecutionTargetIdentityDigest := rs_ExecutionTargetIdentityDigest p,
       rs_ExecutionPlatformIdentityDigest := rs_ExecutionPlatformIdentityDigest p,
       rs_EffectivePlanInputDigest := rst_EffectivePlanInputDigest st,
       rs_SourceClosureDigest := rst_SourceBundleDigest st,
       rs_VariablesSnapshotDigest := rs_VariablesSnapshotDigest p,
       rs_SecretVariableIdentityDigest := rs_SecretVariableIdentityDigest p,
       rs_InfrastructureExecutionIdentityDigest := rs_InfrastructureExecutionIdentityDigest p,
       rs_RuntimeTargetIdentityDigest := rs_RuntimeTargetIdentityDigest p,
       rs_TargetConnectionProfileDigest := rs_TargetConnectionProfileDigest p,
       rs_TerraformLockfileDigest := rs_TerraformLockfileDigest p,
       rs_ExpectedTerraformVersion := rs_ExpectedTerraformVersion p,
       rs_RunnerImageDigest := rs_RunnerImageDigest p,
       rs_MutationFence := iss_MutationFence (is_Spec stack),
       rs_PlanRunUID := om_UID (run_Meta plan),
       rs_PlanRef := rst_PlanRef st,
       rs_PlanDigest := rst_PlanDigest st,
       rs_PlanReportRef := rst_PlanReportRef st,
       rs_PlanReportDigest := rst_PlanReportDigest st,
       rs_TargetDiscoveryRef := rs_TargetDiscoveryRef p,
       rs_TargetDiscoveryDigest := rs_TargetDiscoveryDigest p,
       rs_ApprovalRef := Some (om_Name (ca_Meta approval)),
       rs_ApprovalUID := om_UID (ca_Meta approval),
       rs_ConcurrencyGroup := rs_ConcurrencyGroup p,
       rs_MaxConcurrentPlans := rs_MaxConcurrentPlans p,
       rs_MaxConcurrentApplies := rs_MaxConcurrentApplies p\<rparr>\<rparr>)"

subsection \<open>The retained convergence closure\<close>

definition convergenceClosure ::
  "hash \<Rightarrow> infra_stack \<Rightarrow> terraform_run \<Rightarrow> terraform_run \<Rightarrow> last_converged_source_closure option" where
  "convergenceClosure sha stack sourceRun terminalRun =
     (let ts = run_Status terminalRun; spec = is_Spec stack in
      if \<not> planEvidenceReady sourceRun \<or> rst_TerminalResultRef ts = [] \<or> rst_TerminalResultDigest ts = []
         \<or> rst_TargetDiscoveryRef ts = [] \<or> rst_TargetDiscoveryDigest ts = []
      then None
      else
        (let (sourceRef, sourceDigest) = retainedBundle sourceRun; (backendRef, backendDigest) = retainedBackend sourceRun;
             effective = or_else (or_else (rst_EffectivePlanInputDigest ts)
                 (rst_EffectivePlanInputDigest (run_Status sourceRun))) (rs_EffectivePlanInputDigest (run_Spec sourceRun))
         in if sourceRef = [] \<or> sourceDigest = [] \<or> backendRef = [] \<or> backendDigest = [] \<or> effective = []
               \<or> iei_Provider (iss_InfrastructureExecutionIdentity spec) = []
               \<or> rti_Provider (iss_RuntimeTargetIdentity spec) = []
            then None
            else Some
              \<lparr>lc_ExecutionSnapshot = Some (json_text (terraform_run_spec_json (run_Spec terminalRun))),
               lc_SourceClosureRef = sourceRef,
               lc_SourceClosureDigest = sourceDigest,
               lc_BackendSnapshotRef = backendRef,
               lc_BackendSnapshotDigest = backendDigest,
               lc_TargetDiscoveryRef = rst_TargetDiscoveryRef ts,
               lc_TargetDiscoveryDigest = rst_TargetDiscoveryDigest ts,
               lc_EffectivePlanInputDigest = effective,
               lc_InfrastructureExecutionIdentityDigest =
                 digestIdentity sha (infrastructure_execution_identity_json (iss_InfrastructureExecutionIdentity spec)),
               lc_ExecutionPlatformIdentityDigest =
                 digestIdentity sha (target_connection_profile_json (iss_TargetConnectionProfile spec)),
               lc_RunnerServiceAccountIdentityDigest = rs_RunnerServiceAccountIdentityDigest (run_Spec terminalRun),
               lc_TerraformRunUID = om_UID (run_Meta terminalRun),
               lc_Generation = om_Generation (is_Meta stack)\<rparr>))"

definition closure_status :: "last_converged_source_closure \<Rightarrow> terraform_run_status" where
  "closure_status c = zero_terraform_run_status\<lparr>
     rst_SourceBundleRef := lc_SourceClosureRef c, rst_SourceBundleDigest := lc_SourceClosureDigest c,
     rst_ResolvedBackendConfigRef := lc_BackendSnapshotRef c, rst_ResolvedBackendConfigDigest := lc_BackendSnapshotDigest c,
     rst_TargetDiscoveryRef := lc_TargetDiscoveryRef c, rst_TargetDiscoveryDigest := lc_TargetDiscoveryDigest c\<rparr>"

definition retainedRunFromClosure ::
  "hash \<Rightarrow> (string \<Rightarrow> terraform_run_spec option) \<Rightarrow> infra_stack \<Rightarrow> last_converged_source_closure \<Rightarrow> terraform_run option" where
  "retainedRunFromClosure sha decode stack c =
     (let meta = empty_meta\<lparr>om_UID := lc_TerraformRunUID c\<rparr>; spec = is_Spec stack in
      case lc_ExecutionSnapshot c of
        Some raw \<Rightarrow> (case decode raw of
            None \<Rightarrow> None
          | Some snapshot \<Rightarrow> Some \<lparr>run_Meta = meta, run_Spec = snapshot, run_Status = closure_status c\<rparr>)
      | None \<Rightarrow> Some \<lparr>run_Meta = meta,
          run_Spec = zero_terraform_run_spec\<lparr>
            rs_StackRef := om_Name (is_Meta stack),
            rs_Source := \<lparr>ps_Type = SourceRetainedBundle, ps_URL = [], ps_Revision = [], ps_Path = src_Path (iss_Source spec),
              ps_Ref = lc_SourceClosureRef c, ps_Digest = lc_SourceClosureDigest c\<rparr>,
            rs_BackendConfigArtifactRef := lc_BackendSnapshotRef c,
            rs_BackendConfigArtifactDigest := lc_BackendSnapshotDigest c,
            rs_ResolvedBackendConfigRef := lc_BackendSnapshotRef c,
            rs_Workspace := iss_Workspace spec, rs_Executor := iss_Executor spec,
            rs_LockTimeout := be_LockTimeout (iss_Backend spec),
            rs_ExecutionContextDigest := executionContextDigest sha spec,
            rs_EffectivePlanInputDigest := lc_EffectivePlanInputDigest c,
            rs_InfrastructureExecutionIdentityDigest := lc_InfrastructureExecutionIdentityDigest c,
            rs_RuntimeTargetIdentityDigest := digestIdentity sha (runtime_target_identity_json (iss_RuntimeTargetIdentity spec)),
            rs_TargetConnectionProfileDigest := digestIdentity sha (target_connection_profile_json (iss_TargetConnectionProfile spec)),
            rs_RunnerServiceAccountName := iss_RunnerServiceAccountName spec,
            rs_RunnerManagementRoleARN := iss_RunnerManagementRoleARN spec,
            rs_RunnerServiceAccountIdentityDigest := iss_RunnerServiceAccountIdentityDigest spec,
            rs_InfrastructureExecutionRoleARN := iei_RoleARN (iss_InfrastructureExecutionIdentity spec),
            rs_ExpectedTerraformVersion := ex_TerraformVersion (iss_Executor spec),
            rs_RunnerImageDigest := ex_Image (iss_Executor spec)\<rparr>,
          run_Status = (closure_status c)\<lparr>rst_EffectivePlanInputDigest := lc_EffectivePlanInputDigest c\<rparr>\<rparr>)"

subsection \<open>Admission of an Apply\<close>

definition approval_matches :: "change_approval \<Rightarrow> terraform_run \<Rightarrow> bool" where
  "approval_matches approval plan \<longleftrightarrow> (let a = ca_Spec approval; s = run_Status plan in
     cas_PlanRunRef a = om_Name (run_Meta plan) \<and> cas_PlanRunUID a = om_UID (run_Meta plan)
     \<and> cas_PlanDigest a = rst_PlanDigest s
     \<and> cas_ExecutionContextDigest a = rs_ExecutionContextDigest (run_Spec plan)
     \<and> cas_EffectivePlanInputDigest a = rst_EffectivePlanInputDigest s
     \<and> cas_PlanReportRef a = rst_PlanReportRef s \<and> cas_PlanReportDigest a = rst_PlanReportDigest s)"

definition validApprovalForPlan ::
  "time \<Rightarrow> gerr + change_approval list \<Rightarrow> terraform_run \<Rightarrow> gerr + change_approval option" where
  "validApprovalForPlan now approvals plan =
     (case approvals of
        Inl e \<Rightarrow> Inl e
      | Inr items \<Rightarrow> Inr (find (\<lambda>a. approval_matches a plan \<and> not_expired now (rst_PlanExpiresAt (run_Status plan))) items))"

definition validateApplyAdmission ::
  "hash \<Rightarrow> time \<Rightarrow> infra_stack \<Rightarrow> terraform_run \<Rightarrow> change_approval \<Rightarrow> gerr option" where
  "validateApplyAdmission sha now stack plan approval =
     (let p = run_Spec plan; s = run_Status plan; a = ca_Spec approval; spec = is_Spec stack in
      first_error
        [(iss_MutationFence spec \<and> rs_PlanMode p \<noteq> ''Destroy'', ''mutation fence is set''),
         (rs_Operation p \<noteq> ''Plan'' \<or> rst_ExecutionOutcome s \<noteq> ''ChangesPresent'' \<or> \<not> planEvidenceReady plan,
          ''only a verified ChangesPresent Plan can authorize Apply''),
         (cas_PlanRunRef a \<noteq> om_Name (run_Meta plan) \<or> om_Namespace (run_Meta plan) \<noteq> om_Namespace (is_Meta stack)
            \<or> om_Namespace (ca_Meta approval) \<noteq> om_Namespace (run_Meta plan)
            \<or> rs_StackRef p \<noteq> om_Name (is_Meta stack) \<or> rs_InfraStackGeneration p \<noteq> om_Generation (is_Meta stack),
          ''Plan/approval stack, namespace or generation mismatch''),
         (rs_PlanMode p \<noteq> ''Destroy'' \<and> rs_ExecutionContextDigest p \<noteq> planContextDigest sha spec (rs_ExecutionProfile p),
          ''source, inputs, target or execution identity changed since Plan''),
         (om_UID (run_Meta plan) = [] \<or> om_UID (ca_Meta approval) = [] \<or> cas_PlanRunUID a \<noteq> om_UID (run_Meta plan),
          ''PlanRun/approval UID binding mismatch''),
         (rst_PlanDigest s = [] \<or> cas_PlanDigest a \<noteq> rst_PlanDigest s, ''plan digest binding mismatch''),
         (cas_ExecutionContextDigest a \<noteq> rs_ExecutionContextDigest p, ''execution context binding mismatch''),
         (rst_PlanReportRef s = [] \<or> rst_PlanReportDigest s = [] \<or> cas_PlanReportRef a \<noteq> rst_PlanReportRef s
            \<or> cas_PlanReportDigest a \<noteq> rst_PlanReportDigest s, ''plan report binding mismatch''),
         (\<not> not_expired now (rst_PlanExpiresAt s), ''saved PlanRun is expired or has no trusted expiry''),
         (rst_EffectivePlanInputDigest s = [] \<or> cas_EffectivePlanInputDigest a \<noteq> rst_EffectivePlanInputDigest s
            \<or> rs_RuntimeTargetIdentityDigest p = [] \<or> rs_InfrastructureExecutionIdentityDigest p = [],
          ''PlanRun execution snapshot is incomplete''),
         (rs_InfrastructureExecutionRoleARN p \<noteq> iei_RoleARN (iss_InfrastructureExecutionIdentity spec),
          ''PlanRun infrastructure execution role binding mismatch''),
         (rs_RunnerServiceAccountName p \<noteq> iss_RunnerServiceAccountName spec
            \<or> rs_RunnerManagementRoleARN p \<noteq> iss_RunnerManagementRoleARN spec
            \<or> rs_RunnerServiceAccountIdentityDigest p \<noteq> iss_RunnerServiceAccountIdentityDigest spec,
          ''PlanRun management identity binding mismatch'')])"

definition applyCondition :: "time \<Rightarrow> int \<Rightarrow> terraform_run \<Rightarrow> bool \<Rightarrow> condition" where
  "applyCondition now generation apply destroy =
     (let outcome = rst_ExecutionOutcome (run_Status apply) in
      if outcome = ''Succeeded'' then
        (if destroy then
           (if \<not> destroyEvidenceReady apply
            then lifecycleCondition now generation ConditionFalse ''DestroyEvidencePending''
              ''Terraform Destroy Apply succeeded, but durable terminal or retained target-discovery evidence is incomplete.''
            else lifecycleCondition now generation ConditionTrue ''InfrastructureRemoved''
              ''Terraform Destroy Apply completed successfully.'')
         else lifecycleCondition now generation ConditionTrue ''InfrastructureReady'' ''Terraform Apply completed successfully.'')
      else if outcome = ''Indeterminate'' then lifecycleCondition now generation ConditionUnknown ''ApplyIndeterminate''
        ''Terraform Apply ended without a trusted terminal result.''
      else if outcome = ''Failed'' \<or> outcome = ''Rejected'' then
        lifecycleCondition now generation ConditionFalse ''ApplyFailed'' ''Terraform Apply failed.''
      else lifecycleCondition now generation ConditionFalse ''Applying'' ''Terraform ApplyRun is executing.'')"

subsection \<open>What admission and retention promise\<close>

lemma buildApplyRun_fields [simp]:
  "rs_Operation (run_Spec (buildApplyRun stack plan approval n)) = ''Apply''"
  "rs_PlanMode (run_Spec (buildApplyRun stack plan approval n)) = rs_PlanMode (run_Spec plan)"
  "rs_PlanRunUID (run_Spec (buildApplyRun stack plan approval n)) = om_UID (run_Meta plan)"
  "rs_PlanRef (run_Spec (buildApplyRun stack plan approval n)) = rst_PlanRef (run_Status plan)"
  "rs_PlanDigest (run_Spec (buildApplyRun stack plan approval n)) = rst_PlanDigest (run_Status plan)"
  "rs_PlanReportRef (run_Spec (buildApplyRun stack plan approval n)) = rst_PlanReportRef (run_Status plan)"
  "rs_PlanReportDigest (run_Spec (buildApplyRun stack plan approval n)) = rst_PlanReportDigest (run_Status plan)"
  "rs_EffectivePlanInputDigest (run_Spec (buildApplyRun stack plan approval n)) = rst_EffectivePlanInputDigest (run_Status plan)"
  "rs_ExecutionContextDigest (run_Spec (buildApplyRun stack plan approval n)) = rs_ExecutionContextDigest (run_Spec plan)"
  "rs_ApprovalUID (run_Spec (buildApplyRun stack plan approval n)) = om_UID (ca_Meta approval)"
  "rs_ApprovalRef (run_Spec (buildApplyRun stack plan approval n)) = Some (om_Name (ca_Meta approval))"
  "rs_StackRef (run_Spec (buildApplyRun stack plan approval n)) = om_Name (is_Meta stack)"
  "rs_MutationFence (run_Spec (buildApplyRun stack plan approval n)) = iss_MutationFence (is_Spec stack)"
  "rs_Inputs (run_Spec (buildApplyRun stack plan approval n)) = rs_Inputs (run_Spec plan)"
  "rs_InfrastructureExecutionRoleARN (run_Spec (buildApplyRun stack plan approval n))
     = rs_InfrastructureExecutionRoleARN (run_Spec plan)"
  "ps_Type (rs_Source (run_Spec (buildApplyRun stack plan approval n))) = SourceRetainedBundle"
  "run_Status (buildApplyRun stack plan approval n) = zero_terraform_run_status"
  "om_Name (run_Meta (buildApplyRun stack plan approval n)) = n"
  "om_Namespace (run_Meta (buildApplyRun stack plan approval n)) = om_Namespace (is_Meta stack)"
  by (simp_all add: buildApplyRun_def Let_def zero_terraform_run_def split: prod.splits)

lemma buildDestroyPlanRun_fields [simp]:
  "rs_Source (run_Spec (buildDestroyPlanRun stack applied n)) =
     \<lparr>ps_Type = SourceRetainedBundle, ps_URL = [], ps_Revision = [], ps_Path = ps_Path (rs_Source (run_Spec applied)),
      ps_Ref = fst (retainedBundle applied), ps_Digest = snd (retainedBundle applied)\<rparr>"
  "rs_BackendConfigArtifactRef (run_Spec (buildDestroyPlanRun stack applied n)) = fst (retainedBackend applied)"
  "rs_BackendConfigArtifactDigest (run_Spec (buildDestroyPlanRun stack applied n)) = snd (retainedBackend applied)"
  "rs_Operation (run_Spec (buildDestroyPlanRun stack applied n)) = ''Plan''"
  "rs_PlanMode (run_Spec (buildDestroyPlanRun stack applied n)) = ''Destroy''"
  "rs_Inputs (run_Spec (buildDestroyPlanRun stack applied n)) = rs_Inputs (run_Spec applied)"
  "rs_Workspace (run_Spec (buildDestroyPlanRun stack applied n)) = rs_Workspace (run_Spec applied)"
  "rs_Executor (run_Spec (buildDestroyPlanRun stack applied n)) = rs_Executor (run_Spec applied)"
  "rs_ExecutionProfile (run_Spec (buildDestroyPlanRun stack applied n)) = rs_ExecutionProfile (run_Spec applied)"
  "rs_InfrastructureExecutionRoleARN (run_Spec (buildDestroyPlanRun stack applied n))
     = rs_InfrastructureExecutionRoleARN (run_Spec applied)"
  by (simp_all add: buildDestroyPlanRun_def Let_def zero_terraform_run_def split: prod.splits)

lemma validateApplyAdmission_None:
  "validateApplyAdmission sha now stack plan approval = None \<Longrightarrow>
     approval_matches approval plan
     \<and> not_expired now (rst_PlanExpiresAt (run_Status plan))
     \<and> rst_ExecutionOutcome (run_Status plan) = ''ChangesPresent'' \<and> planEvidenceReady plan
     \<and> (iss_MutationFence (is_Spec stack) \<longrightarrow> rs_PlanMode (run_Spec plan) = ''Destroy'')
     \<and> (rs_PlanMode (run_Spec plan) \<noteq> ''Destroy'' \<longrightarrow>
          rs_ExecutionContextDigest (run_Spec plan) = planContextDigest sha (is_Spec stack) (rs_ExecutionProfile (run_Spec plan)))
     \<and> rst_PlanDigest (run_Status plan) \<noteq> [] \<and> om_UID (run_Meta plan) \<noteq> [] \<and> om_UID (ca_Meta approval) \<noteq> []
     \<and> rs_StackRef (run_Spec plan) = om_Name (is_Meta stack)
     \<and> rs_InfraStackGeneration (run_Spec plan) = om_Generation (is_Meta stack)
     \<and> rs_InfrastructureExecutionRoleARN (run_Spec plan) = iei_RoleARN (iss_InfrastructureExecutionIdentity (is_Spec stack))"
  by (simp add: validateApplyAdmission_def approval_matches_def Let_def) blast

definition applies_what_was_approved :: "terraform_run \<Rightarrow> change_approval \<Rightarrow> bool" where
  "applies_what_was_approved apply approval \<longleftrightarrow> (let s = run_Spec apply; a = ca_Spec approval in
     rs_ApprovalUID s = om_UID (ca_Meta approval) \<and> rs_PlanRunUID s = cas_PlanRunUID a
     \<and> rs_PlanDigest s = cas_PlanDigest a \<and> rs_PlanReportRef s = cas_PlanReportRef a
     \<and> rs_PlanReportDigest s = cas_PlanReportDigest a
     \<and> rs_ExecutionContextDigest s = cas_ExecutionContextDigest a
     \<and> rs_EffectivePlanInputDigest s = cas_EffectivePlanInputDigest a)"

text \<open>
  The Apply runs the saved plan of the Plan over what the Plan used: the references the controller resolved
  for it, source and backend from the run's status where it has them and from its specification otherwise.
\<close>

definition takes_saved_plan :: "terraform_run \<Rightarrow> change_approval \<Rightarrow> terraform_run \<Rightarrow> bool" where
  "takes_saved_plan plan approval apply \<longleftrightarrow> (let s = run_Spec apply; p = run_Spec plan; st = run_Status plan; src = rs_Source s in
     rs_Operation s = ''Apply'' \<and> rs_PlanMode s = rs_PlanMode p
     \<and> rs_PlanRef s = rst_PlanRef st \<and> rs_PlanReportRef s = rst_PlanReportRef st \<and> rs_PlanReportDigest s = rst_PlanReportDigest st
     \<and> rs_ApprovalRef s = Some (om_Name (ca_Meta approval))
     \<and> om_Labels (run_Meta apply) = [(''platform.example.io/terraform-approval-uid'', om_UID (ca_Meta approval)),
         (''platform.example.io/terraform-plan'', cas_PlanRunRef (ca_Spec approval)),
         (''platform.example.io/terraform-plan-uid'', cas_PlanRunUID (ca_Spec approval))]
     \<and> ps_Type src = ''RetainedBundle'' \<and> ps_Path src = ps_Path (rs_Source p)
     \<and> (ps_Ref src, ps_Digest src) =
         (if rst_SourceBundleRef st \<noteq> [] \<and> rst_SourceBundleDigest st \<noteq> [] then (rst_SourceBundleRef st, rst_SourceBundleDigest st)
          else if ps_Type (rs_Source p) = ''RetainedBundle'' then (ps_Ref (rs_Source p), ps_Digest (rs_Source p)) else ([], []))
     \<and> rs_SourceClosureDigest s = rst_SourceBundleDigest st
     \<and> (rs_BackendConfigArtifactRef s, rs_BackendConfigArtifactDigest s) =
         (if rst_ResolvedBackendConfigRef st \<noteq> [] then (rst_ResolvedBackendConfigRef st, rst_ResolvedBackendConfigDigest st)
          else (rs_BackendConfigArtifactRef p, rs_BackendConfigArtifactDigest p)))"

text \<open>Inputs, secrets, workspace, tool and identities of two runs are the same.\<close>

definition same_execution :: "terraform_run_spec \<Rightarrow> terraform_run_spec \<Rightarrow> bool" where
  "same_execution s p \<longleftrightarrow>
     rs_Inputs s = rs_Inputs p \<and> rs_ExecutionProfile s = rs_ExecutionProfile p
     \<and> rs_VariableSecretRefs s = rs_VariableSecretRefs p \<and> rs_VariableSecretVariables s = rs_VariableSecretVariables p
     \<and> rs_VariablesSnapshotDigest s = rs_VariablesSnapshotDigest p
     \<and> rs_SecretVariableIdentityDigest s = rs_SecretVariableIdentityDigest p
     \<and> rs_Workspace s = rs_Workspace p \<and> rs_Executor s = rs_Executor p
     \<and> rs_ExpectedTerraformVersion s = rs_ExpectedTerraformVersion p \<and> rs_RunnerImageDigest s = rs_RunnerImageDigest p
     \<and> rs_TerraformLockfileDigest s = rs_TerraformLockfileDigest p
     \<and> rs_RunnerServiceAccountName s = rs_RunnerServiceAccountName p
     \<and> rs_RunnerManagementRoleARN s = rs_RunnerManagementRoleARN p
     \<and> rs_RunnerServiceAccountIdentityDigest s = rs_RunnerServiceAccountIdentityDigest p
     \<and> rs_InfrastructureExecutionIdentityDigest s = rs_InfrastructureExecutionIdentityDigest p
     \<and> rs_RuntimeTargetIdentityDigest s = rs_RuntimeTargetIdentityDigest p
     \<and> rs_TargetConnectionProfileDigest s = rs_TargetConnectionProfileDigest p"

lemma buildApplyRun_takes:
  assumes "cas_PlanRunRef (ca_Spec approval) = om_Name (run_Meta plan)" and "cas_PlanRunUID (ca_Spec approval) = om_UID (run_Meta plan)"
  shows "takes_saved_plan plan approval (buildApplyRun stack plan approval name)"
    and "same_execution (run_Spec (buildApplyRun stack plan approval name)) (run_Spec plan)"
proof -
  obtain sr sd br bd where s: "apply_source plan = (sr, sd)" and b: "retainedBackend plan = (br, bd)" by fastforce
  have sp: "(sr, sd) = (if rst_SourceBundleRef (run_Status plan) \<noteq> [] \<and> rst_SourceBundleDigest (run_Status plan) \<noteq> []
      then (rst_SourceBundleRef (run_Status plan), rst_SourceBundleDigest (run_Status plan))
      else if ps_Type (rs_Source (run_Spec plan)) = ''RetainedBundle''
      then (ps_Ref (rs_Source (run_Spec plan)), ps_Digest (rs_Source (run_Spec plan))) else ([], []))"
    using s by (auto simp: apply_source_def retainedBundle_def SourceRetainedBundle_def Let_def)
  have bp: "(br, bd) = (if rst_ResolvedBackendConfigRef (run_Status plan) \<noteq> []
      then (rst_ResolvedBackendConfigRef (run_Status plan), rst_ResolvedBackendConfigDigest (run_Status plan))
      else (rs_BackendConfigArtifactRef (run_Spec plan), rs_BackendConfigArtifactDigest (run_Spec plan)))"
    using b by (auto simp: retainedBackend_def)
  show "takes_saved_plan plan approval (buildApplyRun stack plan approval name)"
    unfolding takes_saved_plan_def Let_def sp [symmetric] bp [symmetric]
    by (simp add: buildApplyRun_def s b Let_def SourceRetainedBundle_def assms)
  show "same_execution (run_Spec (buildApplyRun stack plan approval name)) (run_Spec plan)"
    by (simp add: same_execution_def buildApplyRun_def s b Let_def)
qed

text \<open>
  C21. An admitted Apply applies exactly what was approved: its plan, report, context and input
  digests and both UIDs are those of the approval, its label and approval reference name the Plan and the approval;
  its plan, source and backend references are the ones of the Plan, with their digests, and it executes with
  the inputs, secrets, tool and identities of the Plan. The Plan still held an unexpired
  ChangesPresent result with complete evidence, the stack is not fenced (unless it is a
  Destroy), and the context the Plan was made for is still the stack's own.
\<close>
theorem admitted_apply_is_the_approved_plan:
  assumes "validateApplyAdmission sha now stack plan approval = None"
    and "apply = buildApplyRun stack plan approval name"
  shows "applies_what_was_approved apply approval
     \<and> takes_saved_plan plan approval apply \<and> same_execution (run_Spec apply) (run_Spec plan)
     \<and> rst_ExecutionOutcome (run_Status plan) = ''ChangesPresent'' \<and> planEvidenceReady plan
     \<and> not_expired now (rst_PlanExpiresAt (run_Status plan))
     \<and> (rs_PlanMode (run_Spec apply) = ''Destroy''
        \<or> \<not> iss_MutationFence (is_Spec stack)
          \<and> rs_ExecutionContextDigest (run_Spec apply)
            = planContextDigest sha (is_Spec stack) (rs_ExecutionProfile (run_Spec plan)))
     \<and> rs_InfrastructureExecutionRoleARN (run_Spec apply)
       = iei_RoleARN (iss_InfrastructureExecutionIdentity (is_Spec stack))"
proof -
  note a = validateApplyAdmission_None [OF assms(1)]
  then have m: "cas_PlanRunRef (ca_Spec approval) = om_Name (run_Meta plan)" "cas_PlanRunUID (ca_Spec approval) = om_UID (run_Meta plan)"
    by (auto simp: approval_matches_def Let_def)
  from buildApplyRun_takes [OF m] a show ?thesis
    unfolding assms(2) by (auto simp: applies_what_was_approved_def approval_matches_def Let_def)
qed

definition sample_stack :: infra_stack where
  "sample_stack = zero_infra_stack\<lparr>is_Meta := empty_meta\<lparr>om_Name := ''s'', om_Namespace := ''n'', om_UID := ''su''\<rparr>,
     is_Spec := zero_infra_stack_spec\<lparr>
       iss_InfrastructureExecutionIdentity :=
         zero_infrastructure_execution_identity\<lparr>iei_Provider := ''kubernetes''\<rparr>,
       iss_RuntimeTargetIdentity := zero_runtime_target_identity\<lparr>rti_Provider := ''kubernetes''\<rparr>\<rparr>\<rparr>"

definition sample_plan :: terraform_run where
  "sample_plan = zero_terraform_run\<lparr>run_Meta := empty_meta\<lparr>om_Name := ''p'', om_Namespace := ''n'', om_UID := ''pu''\<rparr>,
     run_Spec := zero_terraform_run_spec\<lparr>rs_Operation := ''Plan'', rs_PlanMode := ''Destroy'', rs_StackRef := ''s'',
       rs_ExecutionContextDigest := ''ctx'', rs_RuntimeTargetIdentityDigest := ''t'',
       rs_InfrastructureExecutionIdentityDigest := ''i''\<rparr>,
     run_Status := zero_terraform_run_status\<lparr>rst_ExecutionOutcome := ''ChangesPresent'', rst_EvidenceCaptured := True,
       rst_ArtifactsReady := True, rst_TerminalResultRef := ''tr'', rst_TerminalResultDigest := ''td'',
       rst_PlanReportRef := ''rr'', rst_PlanReportDigest := ''rd'', rst_PlanRef := ''pr'', rst_PlanDigest := ''pd'',
       rst_SourceBundleRef := ''sr'', rst_SourceBundleDigest := ''sd'', rst_ResolvedBackendConfigRef := ''br'',
       rst_ResolvedBackendConfigDigest := ''bd'', rst_TargetDiscoveryRef := ''dr'', rst_TargetDiscoveryDigest := ''dd'',
       rst_EffectivePlanInputDigest := ''eff'', rst_PlanExpiresAt := Some 100\<rparr>\<rparr>"

definition sample_approval :: change_approval where
  "sample_approval = zero_change_approval\<lparr>ca_Meta := empty_meta\<lparr>om_Name := ''a'', om_Namespace := ''n'', om_UID := ''au''\<rparr>,
     ca_Spec := \<lparr>cas_PlanRunRef = ''p'', cas_PlanRunUID = ''pu'', cas_PlanDigest = ''pd'', cas_ExecutionContextDigest = ''ctx'',
       cas_EffectivePlanInputDigest = ''eff'', cas_PlanReportRef = ''rr'', cas_PlanReportDigest = ''rd''\<rparr>\<rparr>"

lemma sample_admitted: "validateApplyAdmission (\<lambda>s. s) 7 sample_stack sample_plan sample_approval = None"
  by code_simp

theorem admitted_apply_is_the_approved_plan_witness:
  "applies_what_was_approved (buildApplyRun sample_stack sample_plan sample_approval ''x'') sample_approval"
  using admitted_apply_is_the_approved_plan [OF sample_admitted refl] by blast

lemma retained_from_closure:
  assumes "convergenceClosure sha stack src term = Some c"
    and "decode (json_text (terraform_run_spec_json (run_Spec term))) = Some (run_Spec term)"
  shows "\<exists>r. retainedRunFromClosure sha decode stack' c = Some r \<and> run_Spec r = run_Spec term
     \<and> om_UID (run_Meta r) = om_UID (run_Meta term)
     \<and> retainedBundle r = retainedBundle src \<and> fst (retainedBundle src) \<noteq> [] \<and> snd (retainedBundle src) \<noteq> []
     \<and> retainedBackend r = retainedBackend src \<and> snd (retainedBackend src) \<noteq> []"
  using assms
  by (auto simp: convergenceClosure_def retainedRunFromClosure_def Let_def closure_status_def
      retainedBundle_def [of "\<lparr>run_Meta = m, run_Spec = s, run_Status = t\<rparr>" for m s t]
      retainedBackend_def [of "\<lparr>run_Meta = m, run_Spec = s, run_Status = t\<rparr>" for m s t]
      split: prod.splits if_splits)

text \<open>
  C33. A Destroy replays the last convergence: from the closure a convergence recorded, the
  controller gets back the run it recorded, and the Destroy Plan it builds uses that run's
  inputs, workspace, executor, profile and role, the retained source bundle and the retained
  backend, all with their digests, whatever the stack's spec has become.
\<close>
theorem destroy_replays_convergence:
  assumes "convergenceClosure sha stack src term = Some c"
    and "decode (json_text (terraform_run_spec_json (run_Spec term))) = Some (run_Spec term)"
  shows "\<exists>r. retainedRunFromClosure sha decode stack' c = Some r \<and>
     (let d = run_Spec (buildDestroyPlanRun stack' r name); t = run_Spec term in
        rs_PlanMode d = ''Destroy'' \<and> ps_Type (rs_Source d) = SourceRetainedBundle
        \<and> (ps_Ref (rs_Source d), ps_Digest (rs_Source d)) = retainedBundle src \<and> ps_Digest (rs_Source d) \<noteq> []
        \<and> (rs_BackendConfigArtifactRef d, rs_BackendConfigArtifactDigest d) = retainedBackend src
        \<and> rs_Inputs d = rs_Inputs t \<and> rs_Workspace d = rs_Workspace t \<and> rs_Executor d = rs_Executor t
        \<and> rs_ExecutionProfile d = rs_ExecutionProfile t
        \<and> rs_InfrastructureExecutionRoleARN d = rs_InfrastructureExecutionRoleARN t)"
  using retained_from_closure [of sha stack src "term" c decode stack'] assms by (auto simp: Let_def)

theorem destroy_replays_convergence_witness:
  "\<exists>c r. convergenceClosure (\<lambda>s. s) sample_stack sample_plan sample_plan = Some c \<and>
     retainedRunFromClosure (\<lambda>s. s) (\<lambda>_. Some (run_Spec sample_plan)) zero_infra_stack c = Some r"
proof -
  have "convergenceClosure (\<lambda>s. s) sample_stack sample_plan sample_plan \<noteq> None"
    by (simp add: convergenceClosure_def sample_plan_def sample_stack_def planEvidenceReady_def retainedBundle_def
        retainedBackend_def or_else_def zero_terraform_run_def zero_terraform_run_status_def zero_infra_stack_def
        zero_infra_stack_spec_def Let_def)
  then obtain c where c: "convergenceClosure (\<lambda>s. s) sample_stack sample_plan sample_plan = Some c" by blast
  from destroy_replays_convergence [OF c, of "\<lambda>_. Some (run_Spec sample_plan)" zero_infra_stack "''d''"] c
  show ?thesis by blast
qed

end
