(* ===== verification/Gate.thy ===== *)
theory Gate
  imports Prelude
begin

section \<open>The execution gate of internal/reliability/gate.go\<close>

text \<open>
  The gate counts the Terraform executions a manager has running and admits new ones. Its
  maps from a stack or a group to a counter read 0 where a key is missing, so they are total
  functions; the map of active items is partial. The mutex makes each method one step. The
  second half states what the gate promises: counters that agree with the active items, one
  Apply per stack, no admission over capacity, and a gate that opens again when a
  reconstructed backlog drains.
\<close>

record work_item =
  wi_ID :: string
  wi_Kind :: string
  wi_Stack :: string
  wi_ConcurrencyGroup :: string
  wi_MaxConcurrentPlans :: int
  wi_MaxConcurrentApplies :: int

record gate =
  maxPlans :: int
  maxApplies :: int
  activePlans :: int
  activeApplies :: int
  activeByStack :: "string \<Rightarrow> int"
  activeByPlanGroup :: "string \<Rightarrow> int"
  activeByApplyGroup :: "string \<Rightarrow> int"
  startedIDs :: "string \<Rightarrow> bool"
  activeItems :: "string \<Rightarrow> work_item option"
  gateReady :: bool
  overCapacity :: bool
  safetyViolation :: bool

record reconstruction_result =
  rr_GateReady :: bool
  rr_OverCapacity :: bool
  rr_SafetyViolation :: bool
  rr_Active :: "work_item list"
  rr_Duration :: duration

definition KindPlan :: string where "KindPlan = ''Plan''"

definition KindApply :: string where "KindApply = ''Apply''"

lemma kinds_distinct [simp]: "KindPlan \<noteq> KindApply" "KindApply \<noteq> KindPlan"
  by (simp_all add: KindPlan_def KindApply_def)

definition NewGate :: "int \<Rightarrow> int \<Rightarrow> gate" where
  "NewGate mp ma = \<lparr>maxPlans = mp, maxApplies = ma, activePlans = 0, activeApplies = 0,
     activeByStack = (\<lambda>_. 0), activeByPlanGroup = (\<lambda>_. 0), activeByApplyGroup = (\<lambda>_. 0),
     startedIDs = (\<lambda>_. False), activeItems = Map.empty,
     gateReady = True, overCapacity = False, safetyViolation = False\<rparr>"

definition CloseAdmission :: "gate \<Rightarrow> gate" where
  "CloseAdmission g = g\<lparr>gateReady := False\<rparr>"

definition validateItem :: "work_item \<Rightarrow> gerr option" where
  "validateItem item =
     (if wi_ID item = [] then Some (Err ''work item ID is required'')
      else if wi_Kind item \<noteq> KindPlan \<and> wi_Kind item \<noteq> KindApply
      then Some (Err (''unsupported work item kind '' @ quoted (wi_Kind item)))
      else None)"

definition available :: "gate \<Rightarrow> work_item \<Rightarrow> bool" where
  "available g item =
     (if wi_Kind item = KindPlan then
        (if activePlans g \<ge> maxPlans g then False
         else wi_ConcurrencyGroup item = [] \<or> wi_MaxConcurrentPlans item \<le> 0
              \<or> activeByPlanGroup g (wi_ConcurrencyGroup item) < wi_MaxConcurrentPlans item)
      else if activeApplies g \<ge> maxApplies g \<or> activeByStack g (wi_Stack item) \<noteq> 0 then False
      else wi_ConcurrencyGroup item = [] \<or> wi_MaxConcurrentApplies item \<le> 0
           \<or> activeByApplyGroup g (wi_ConcurrencyGroup item) < wi_MaxConcurrentApplies item)"

definition bump :: "(string \<Rightarrow> int) \<Rightarrow> string \<Rightarrow> int \<Rightarrow> (string \<Rightarrow> int)" where
  "bump m k d = m(k := m k + d)"

definition reserveLocked :: "gate \<Rightarrow> work_item \<Rightarrow> gate" where
  "reserveLocked g item =
     (let g1 = g\<lparr>startedIDs := (startedIDs g)(wi_ID item := True),
                 activeItems := (activeItems g)(wi_ID item \<mapsto> item)\<rparr>;
          grp = wi_ConcurrencyGroup item
      in if wi_Kind item = KindPlan then
           (let g2 = g1\<lparr>activePlans := activePlans g1 + 1\<rparr> in
            if grp \<noteq> [] then g2\<lparr>activeByPlanGroup := bump (activeByPlanGroup g2) grp 1\<rparr> else g2)
         else
           (let g2 = g1\<lparr>activeApplies := activeApplies g1 + 1,
                        activeByStack := bump (activeByStack g1) (wi_Stack item) 1\<rparr> in
            if grp \<noteq> [] then g2\<lparr>activeByApplyGroup := bump (activeByApplyGroup g2) grp 1\<rparr> else g2))"

definition TryAcquire :: "gate \<Rightarrow> work_item \<Rightarrow> bool \<times> gate" where
  "TryAcquire g item =
     (if validateItem item \<noteq> None then (False, g)
      else case activeItems g (wi_ID item) of
        Some current \<Rightarrow> (wi_Kind current = wi_Kind item \<and> wi_Stack current = wi_Stack item, g)
      | None \<Rightarrow>
          if \<not> gateReady g \<or> overCapacity g \<or> safetyViolation g \<or> \<not> available g item then (False, g)
          else (True, reserveLocked g item))"

definition EnsureActive :: "gate \<Rightarrow> work_item \<Rightarrow> bool \<times> gate" where
  "EnsureActive g item =
     (if validateItem item \<noteq> None then (False, g)
      else case activeItems g (wi_ID item) of
        Some current \<Rightarrow> (wi_Kind current = wi_Kind item \<and> wi_Stack current = wi_Stack item, g)
      | None \<Rightarrow>
          if \<not> gateReady g \<or> overCapacity g \<or> safetyViolation g \<or> \<not> available g item then (False, g)
          else (True, reserveLocked g item))"

definition Release :: "gate \<Rightarrow> work_item \<Rightarrow> gate" where
  "Release g item =
     (case activeItems g (wi_ID item) of
        None \<Rightarrow> g
      | Some active \<Rightarrow>
          (let grp = wi_ConcurrencyGroup active;
               g1 = (if wi_Kind active = KindPlan then
                       (let g' = g\<lparr>activePlans := activePlans g - 1\<rparr> in
                        if grp \<noteq> [] then g'\<lparr>activeByPlanGroup := bump (activeByPlanGroup g') grp (- 1)\<rparr> else g')
                     else
                       (let g' = g\<lparr>activeApplies := activeApplies g - 1,
                                   activeByStack := bump (activeByStack g) (wi_Stack active) (- 1)\<rparr> in
                        if grp \<noteq> [] then g'\<lparr>activeByApplyGroup := bump (activeByApplyGroup g') grp (- 1)\<rparr> else g'));
               g2 = g1\<lparr>activeItems := (activeItems g1)(wi_ID item := None)\<rparr>
           in if activePlans g2 \<le> maxPlans g2 \<and> activeApplies g2 \<le> maxApplies g2
              then g2\<lparr>overCapacity := False\<rparr> else g2))"

definition reserveObservedLocked :: "gate \<Rightarrow> work_item \<Rightarrow> gate" where
  "reserveObservedLocked g item =
     (let g1 = g\<lparr>startedIDs := (startedIDs g)(wi_ID item := True),
                 activeItems := (activeItems g)(wi_ID item \<mapsto> item)\<rparr>;
          grp = wi_ConcurrencyGroup item
      in if wi_Kind item = KindPlan then
           (let g2 = g1\<lparr>activePlans := activePlans g1 + 1\<rparr> in
            if grp \<noteq> [] then g2\<lparr>activeByPlanGroup := bump (activeByPlanGroup g2) grp 1\<rparr> else g2)
         else
           (let g2 = g1\<lparr>activeApplies := activeApplies g1 + 1,
                        activeByStack := bump (activeByStack g1) (wi_Stack item) 1\<rparr> in
            if grp \<noteq> [] then g2\<lparr>activeByApplyGroup := bump (activeByApplyGroup g2) grp 1\<rparr> else g2))"

definition observe_item :: "work_item \<Rightarrow> gate \<Rightarrow> gate" where
  "observe_item item g =
     (if validateItem item \<noteq> None then g\<lparr>safetyViolation := True\<rparr>
      else (let g1 = (if startedIDs g (wi_ID item) then g\<lparr>safetyViolation := True\<rparr> else g);
                g2 = (if wi_Kind item = KindApply \<and> activeByStack g1 (wi_Stack item) > 0
                      then g1\<lparr>safetyViolation := True\<rparr> else g1)
            in reserveObservedLocked g2 item))"

definition reset_gate :: "gate \<Rightarrow> gate" where
  "reset_gate g = g\<lparr>gateReady := False, overCapacity := False, safetyViolation := False,
     activePlans := 0, activeApplies := 0, activeByStack := (\<lambda>_. 0),
     activeByPlanGroup := (\<lambda>_. 0), activeByApplyGroup := (\<lambda>_. 0),
     activeItems := Map.empty, startedIDs := (\<lambda>_. False)\<rparr>"

definition Reconstruct :: "duration \<Rightarrow> gate \<Rightarrow> work_item list \<Rightarrow> reconstruction_result \<times> gate" where
  "Reconstruct elapsed g items =
     (let g1 = fold observe_item items (reset_gate g);
          g2 = g1\<lparr>overCapacity := (activePlans g1 > maxPlans g1 \<or> activeApplies g1 > maxApplies g1)\<rparr>;
          g3 = g2\<lparr>gateReady := True\<rparr>
      in (\<lparr>rr_GateReady = gateReady g3, rr_OverCapacity = overCapacity g3,
           rr_SafetyViolation = safetyViolation g3, rr_Active = items, rr_Duration = elapsed\<rparr>, g3))"

definition Ready :: "gate \<Rightarrow> bool" where
  "Ready g \<longleftrightarrow> gateReady g \<and> \<not> safetyViolation g \<and> \<not> overCapacity g"

definition ReadyCheck :: "gate \<Rightarrow> gerr option" where
  "ReadyCheck g = (if \<not> Ready g then Some (Err ''execution reconstruction gate is not ready'') else None)"

subsection \<open>Counting active items\<close>

definition count_items :: "(string \<Rightarrow> work_item option) \<Rightarrow> (work_item \<Rightarrow> bool) \<Rightarrow> int" where
  "count_items m P = int (card {i. \<exists>it. m i = Some it \<and> P it})"

lemma count_items_empty [simp]: "count_items Map.empty P = 0"
  by (simp add: count_items_def)

lemma count_items_nonneg [simp]: "0 \<le> count_items m P"
  by (simp add: count_items_def)

lemma count_finite: "finite (dom m) \<Longrightarrow> finite {i. \<exists>it. m i = Some it \<and> P it}"
  by (erule rev_finite_subset) auto

lemma count_items_insert:
  assumes "finite (dom m)" and "m i = None"
  shows "count_items (m(i \<mapsto> it)) P = count_items m P + (if P it then 1 else 0)"
proof -
  have "{j. \<exists>x. (m(i \<mapsto> it)) j = Some x \<and> P x}
      = (if P it then insert i {j. \<exists>x. m j = Some x \<and> P x} else {j. \<exists>x. m j = Some x \<and> P x})"
    using assms(2) by auto
  then show ?thesis
    using assms count_finite [OF assms(1), of P] by (simp add: count_items_def)
qed

lemma count_items_remove:
  assumes "finite (dom m)" and "m i = Some it"
  shows "count_items (m(i := None)) P = count_items m P - (if P it then 1 else 0)"
proof -
  have "m(i := None, i \<mapsto> it) = m" using assms(2) by auto
  moreover have "finite (dom (m(i := None)))" using assms(1) by simp
  ultimately show ?thesis
    using count_items_insert [of "m(i := None)" i it P] by simp
qed

lemma count_items_pos:
  "finite (dom m) \<Longrightarrow> m i = Some it \<Longrightarrow> P it \<Longrightarrow> 0 < count_items m P"
  using count_finite [of m P] by (auto simp: count_items_def card_gt_0_iff)

lemma count_items_le_one:
  assumes "finite (dom m)" and "count_items m P \<le> 1"
    and "m i = Some x" "P x" "m j = Some y" "P y"
  shows "i = j"
proof (rule ccontr)
  assume ne: "i \<noteq> j"
  let ?S = "{k. \<exists>it. m k = Some it \<and> P it}"
  have "{i, j} \<subseteq> ?S" using assms by auto
  with count_finite [OF assms(1), of P] have "card {i, j} \<le> card ?S" by (rule card_mono)
  with ne assms(2) show False by (simp add: count_items_def)
qed

subsection \<open>The invariant\<close>

definition is_plan :: "work_item \<Rightarrow> bool" where
  "is_plan it \<longleftrightarrow> wi_Kind it = KindPlan"

definition items_valid :: "gate \<Rightarrow> bool" where
  "items_valid g \<longleftrightarrow> finite (dom (activeItems g)) \<and>
     (\<forall>i it. activeItems g i = Some it \<longrightarrow> wi_ID it = i \<and> validateItem it = None)"

definition counters_exact :: "gate \<Rightarrow> bool" where
  "counters_exact g \<longleftrightarrow>
     activePlans g = count_items (activeItems g) is_plan \<and>
     activeApplies g = count_items (activeItems g) (\<lambda>it. \<not> is_plan it) \<and>
     (\<forall>s. activeByStack g s = count_items (activeItems g) (\<lambda>it. \<not> is_plan it \<and> wi_Stack it = s)) \<and>
     (\<forall>c. c \<noteq> [] \<longrightarrow> activeByPlanGroup g c
        = count_items (activeItems g) (\<lambda>it. is_plan it \<and> wi_ConcurrencyGroup it = c)) \<and>
     (\<forall>c. c \<noteq> [] \<longrightarrow> activeByApplyGroup g c
        = count_items (activeItems g) (\<lambda>it. \<not> is_plan it \<and> wi_ConcurrencyGroup it = c))"

definition stacks_exclusive :: "gate \<Rightarrow> bool" where
  "stacks_exclusive g \<longleftrightarrow> (\<forall>s. activeByStack g s \<le> 1)"

definition within_capacity :: "gate \<Rightarrow> bool" where
  "within_capacity g \<longleftrightarrow> activePlans g \<le> max 0 (maxPlans g) \<and> activeApplies g \<le> max 0 (maxApplies g)"

definition gate_inv :: "gate \<Rightarrow> bool" where
  "gate_inv g \<longleftrightarrow> items_valid g
     \<and> (\<not> safetyViolation g \<longrightarrow> counters_exact g \<and> stacks_exclusive g)
     \<and> (\<not> overCapacity g \<longrightarrow> within_capacity g)"

lemma EnsureActive_eq_TryAcquire: "EnsureActive = TryAcquire"
  by (intro ext) (simp add: EnsureActive_def TryAcquire_def)

lemma reserveObserved_eq: "reserveObservedLocked = reserveLocked"
  by (intro ext) (simp add: reserveObservedLocked_def reserveLocked_def)

lemma reserveLocked_fields [simp]:
  "activeItems (reserveLocked g it) = (activeItems g)(wi_ID it \<mapsto> it)"
  "startedIDs (reserveLocked g it) = (startedIDs g)(wi_ID it := True)"
  "maxPlans (reserveLocked g it) = maxPlans g"
  "maxApplies (reserveLocked g it) = maxApplies g"
  "gateReady (reserveLocked g it) = gateReady g"
  "overCapacity (reserveLocked g it) = overCapacity g"
  "safetyViolation (reserveLocked g it) = safetyViolation g"
  "activePlans (reserveLocked g it) = activePlans g + (if is_plan it then 1 else 0)"
  "activeApplies (reserveLocked g it) = activeApplies g + (if is_plan it then 0 else 1)"
  "activeByStack (reserveLocked g it) =
     (if is_plan it then activeByStack g else bump (activeByStack g) (wi_Stack it) 1)"
  "activeByPlanGroup (reserveLocked g it) =
     (if is_plan it \<and> wi_ConcurrencyGroup it \<noteq> []
      then bump (activeByPlanGroup g) (wi_ConcurrencyGroup it) 1 else activeByPlanGroup g)"
  "activeByApplyGroup (reserveLocked g it) =
     (if \<not> is_plan it \<and> wi_ConcurrencyGroup it \<noteq> []
      then bump (activeByApplyGroup g) (wi_ConcurrencyGroup it) 1 else activeByApplyGroup g)"
  by (simp_all add: reserveLocked_def Let_def is_plan_def)

lemma reserve_items_valid:
  "items_valid g \<Longrightarrow> validateItem it = None \<Longrightarrow> items_valid (reserveLocked g it)"
  by (auto simp: items_valid_def)

lemma reserve_exact:
  assumes "items_valid g" and "counters_exact g" and "activeItems g (wi_ID it) = None"
  shows "counters_exact (reserveLocked g it)"
proof -
  have fin: "finite (dom (activeItems g))" using assms(1) by (simp add: items_valid_def)
  show ?thesis
    using assms(2) unfolding counters_exact_def
    by (simp add: count_items_insert [OF fin assms(3)] bump_def)
qed

lemma validate_kind: "validateItem it = None \<Longrightarrow> \<not> is_plan it \<Longrightarrow> wi_Kind it = KindApply"
  by (auto simp: validateItem_def is_plan_def split: if_splits)

lemma NewGate_inv: "gate_inv (NewGate mp ma)"
  by (simp add: gate_inv_def NewGate_def items_valid_def counters_exact_def stacks_exclusive_def
      within_capacity_def)

lemma TryAcquire_cases:
  "snd (TryAcquire g it) = g \<or>
   TryAcquire g it = (True, reserveLocked g it) \<and> validateItem it = None
     \<and> activeItems g (wi_ID it) = None \<and> gateReady g \<and> \<not> overCapacity g
     \<and> \<not> safetyViolation g \<and> available g it"
  unfolding TryAcquire_def by (auto split: option.splits)

lemma reserve_inv:
  assumes inv: "gate_inv g" and safe: "\<not> overCapacity g" "\<not> safetyViolation g"
    and ok: "validateItem it = None" "activeItems g (wi_ID it) = None" "available g it"
  shows "gate_inv (reserveLocked g it)"
proof -
  from inv safe have v: "items_valid g" "counters_exact g" "stacks_exclusive g" "within_capacity g"
    by (simp_all add: gate_inv_def)
  have "stacks_exclusive (reserveLocked g it)"
    using v(3) ok(3) by (auto simp: stacks_exclusive_def available_def bump_def is_plan_def split: if_splits)
  moreover have "within_capacity (reserveLocked g it)"
    using v(4) ok(3) by (auto simp: within_capacity_def available_def is_plan_def split: if_splits)
  ultimately show ?thesis
    using ok safe v by (simp add: gate_inv_def reserve_items_valid reserve_exact)
qed

lemma TryAcquire_inv: "gate_inv g \<Longrightarrow> gate_inv (snd (TryAcquire g it))"
  using TryAcquire_cases [of g it] reserve_inv [of g it] by auto

lemma Release_absent: "activeItems g (wi_ID it) = None \<Longrightarrow> Release g it = g"
  by (simp add: Release_def)

lemma Release_fields:
  assumes "activeItems g (wi_ID it) = Some a"
  shows "activeItems (Release g it) = (activeItems g)(wi_ID it := None)"
    and "maxPlans (Release g it) = maxPlans g" and "maxApplies (Release g it) = maxApplies g"
    and "gateReady (Release g it) = gateReady g" and "startedIDs (Release g it) = startedIDs g"
    and "safetyViolation (Release g it) = safetyViolation g"
    and "activePlans (Release g it) = activePlans g - (if is_plan a then 1 else 0)"
    and "activeApplies (Release g it) = activeApplies g - (if is_plan a then 0 else 1)"
    and "activeByStack (Release g it) =
      (if is_plan a then activeByStack g else bump (activeByStack g) (wi_Stack a) (- 1))"
    and "activeByPlanGroup (Release g it) =
      (if is_plan a \<and> wi_ConcurrencyGroup a \<noteq> []
       then bump (activeByPlanGroup g) (wi_ConcurrencyGroup a) (- 1) else activeByPlanGroup g)"
    and "activeByApplyGroup (Release g it) =
      (if \<not> is_plan a \<and> wi_ConcurrencyGroup a \<noteq> []
       then bump (activeByApplyGroup g) (wi_ConcurrencyGroup a) (- 1) else activeByApplyGroup g)"
    and "overCapacity (Release g it) \<longleftrightarrow> overCapacity g \<and>
      \<not> (activePlans (Release g it) \<le> maxPlans g \<and> activeApplies (Release g it) \<le> maxApplies g)"
  using assms by (simp_all add: Release_def Let_def is_plan_def)

lemma Release_exact:
  assumes "items_valid g" and "counters_exact g" and "activeItems g (wi_ID it) = Some a"
  shows "counters_exact (Release g it)"
proof -
  have fin: "finite (dom (activeItems g))" using assms(1) by (simp add: items_valid_def)
  show ?thesis
    using assms(2) unfolding counters_exact_def
    by (simp add: Release_fields [OF assms(3)] count_items_remove [OF fin assms(3)] bump_def)
qed

lemma Release_inv:
  assumes inv: "gate_inv g"
  shows "gate_inv (Release g it)"
proof (cases "activeItems g (wi_ID it)")
  case None
  with inv show ?thesis by (simp add: Release_absent)
next
  case (Some a)
  have "items_valid (Release g it)"
    using inv by (auto simp: gate_inv_def items_valid_def Release_fields [OF Some])
  moreover have "\<not> safetyViolation g \<Longrightarrow> counters_exact (Release g it) \<and> stacks_exclusive (Release g it)"
    using inv Release_exact [OF _ _ Some]
    by (auto simp: gate_inv_def stacks_exclusive_def Release_fields [OF Some] bump_def intro: order_trans)
  moreover have "\<not> overCapacity (Release g it) \<Longrightarrow> within_capacity (Release g it)"
    using inv by (auto simp: gate_inv_def within_capacity_def Release_fields [OF Some])
  ultimately show ?thesis by (simp add: gate_inv_def Release_fields [OF Some])
qed

subsection \<open>Reconstruction after a restart\<close>

definition over_capacity_exact :: "gate \<Rightarrow> bool" where
  "over_capacity_exact g \<longleftrightarrow>
     (overCapacity g \<longrightarrow> activePlans g > maxPlans g \<or> activeApplies g > maxApplies g)"

definition observed_inv :: "gate \<Rightarrow> bool" where
  "observed_inv g \<longleftrightarrow> items_valid g \<and> (\<forall>i. startedIDs g i \<longleftrightarrow> activeItems g i \<noteq> None)
     \<and> (\<not> safetyViolation g \<longrightarrow> counters_exact g \<and> stacks_exclusive g)"

lemma items_valid_flag [simp]:
  "items_valid (g\<lparr>safetyViolation := b\<rparr>) = items_valid g"
  "items_valid (g\<lparr>overCapacity := b\<rparr>) = items_valid g"
  "items_valid (g\<lparr>gateReady := b\<rparr>) = items_valid g"
  by (simp_all add: items_valid_def)

lemma counters_exact_flag [simp]:
  "counters_exact (g\<lparr>safetyViolation := b\<rparr>) = counters_exact g"
  "counters_exact (g\<lparr>overCapacity := b\<rparr>) = counters_exact g"
  "counters_exact (g\<lparr>gateReady := b\<rparr>) = counters_exact g"
  by (simp_all add: counters_exact_def)

definition observed_violation :: "work_item \<Rightarrow> gate \<Rightarrow> bool" where
  "observed_violation it g \<longleftrightarrow> safetyViolation g \<or> startedIDs g (wi_ID it)
     \<or> wi_Kind it = KindApply \<and> activeByStack g (wi_Stack it) > 0"

lemma observe_item_valid:
  "validateItem it = None \<Longrightarrow>
     observe_item it g = reserveLocked (g\<lparr>safetyViolation := observed_violation it g\<rparr>) it"
  by (cases g) (auto simp: observe_item_def observed_violation_def reserveObserved_eq Let_def)

lemma observe_item_invalid:
  "validateItem it \<noteq> None \<Longrightarrow> observe_item it g = g\<lparr>safetyViolation := True\<rparr>"
  by (simp add: observe_item_def)

lemma reserve_exclusive:
  assumes "stacks_exclusive g" and "\<not> is_plan it \<Longrightarrow> activeByStack g (wi_Stack it) \<le> 0"
  shows "stacks_exclusive (reserveLocked g it)"
  using assms by (simp add: stacks_exclusive_def bump_def)

lemma observe_item_inv:
  assumes inv: "observed_inv g"
  shows "observed_inv (observe_item it g)"
proof (cases "validateItem it = None")
  case False
  with inv show ?thesis by (simp add: observe_item_invalid observed_inv_def)
next
  case ok: True
  let ?f = "g\<lparr>safetyViolation := observed_violation it g\<rparr>"
  have v: "items_valid (reserveLocked ?f it)"
    using inv ok by (intro reserve_items_valid) (simp_all add: observed_inv_def)
  have s: "\<forall>i. startedIDs (reserveLocked ?f it) i \<longleftrightarrow> activeItems (reserveLocked ?f it) i \<noteq> None"
    using inv by (simp add: observed_inv_def)
  have e: "counters_exact (reserveLocked ?f it) \<and> stacks_exclusive (reserveLocked ?f it)"
    if n: "\<not> observed_violation it g"
  proof
    from inv n have g: "items_valid g" "counters_exact g" "stacks_exclusive g"
      and new: "activeItems g (wi_ID it) = None"
      by (auto simp: observed_inv_def observed_violation_def)
    then show "counters_exact (reserveLocked ?f it)" by (intro reserve_exact) simp_all
    have "\<not> is_plan it \<Longrightarrow> activeByStack g (wi_Stack it) \<le> 0"
      using n validate_kind [OF ok] by (simp add: observed_violation_def)
    moreover have "stacks_exclusive ?f" using g(3) by (simp add: stacks_exclusive_def)
    ultimately show "stacks_exclusive (reserveLocked ?f it)" by (intro reserve_exclusive) simp_all
  qed
  from v s e show ?thesis unfolding observed_inv_def observe_item_valid [OF ok] by simp
qed

lemma fold_observe_inv: "observed_inv g \<Longrightarrow> observed_inv (fold observe_item items g)"
  by (induction items arbitrary: g) (simp_all add: observe_item_inv)

lemma reset_gate_inv: "observed_inv (reset_gate g)"
  by (simp add: observed_inv_def reset_gate_def items_valid_def counters_exact_def stacks_exclusive_def)

lemma observe_item_keeps [simp]:
  "maxPlans (observe_item it g) = maxPlans g"
  "maxApplies (observe_item it g) = maxApplies g"
  "gateReady (observe_item it g) = gateReady g"
  by (cases "validateItem it = None"; simp add: observe_item_valid observe_item_invalid)+

lemma fold_observe_keeps [simp]:
  "maxPlans (fold observe_item items g) = maxPlans g"
  "maxApplies (fold observe_item items g) = maxApplies g"
  by (induction items arbitrary: g) simp_all

lemma fold_observe_active:
  "validateItem it = None \<Longrightarrow> it \<in> set items \<or> activeItems g (wi_ID it) \<noteq> None \<Longrightarrow>
     activeItems (fold observe_item items g) (wi_ID it) \<noteq> None"
proof (induction items arbitrary: g)
  case (Cons x items)
  have "activeItems (observe_item it g) (wi_ID it) \<noteq> None" if "x = it"
    using Cons.prems(1) by (simp add: observe_item_valid)
  moreover have "activeItems (observe_item x g) (wi_ID it) \<noteq> None"
    if "activeItems g (wi_ID it) \<noteq> None"
    using that by (cases "validateItem x = None") (simp_all add: observe_item_valid observe_item_invalid)
  ultimately show ?case using Cons.prems Cons.IH [of "observe_item x g"] by auto
qed simp

lemma Reconstruct_gate:
  "snd (Reconstruct d g items) =
     (let g1 = fold observe_item items (reset_gate g) in
      g1\<lparr>overCapacity := (activePlans g1 > maxPlans g1 \<or> activeApplies g1 > maxApplies g1),
         gateReady := True\<rparr>)"
  by (simp add: Reconstruct_def Let_def)

lemma Reconstruct_keeps [simp]:
  "maxPlans (snd (Reconstruct d g items)) = maxPlans g"
  "maxApplies (snd (Reconstruct d g items)) = maxApplies g"
  "gateReady (snd (Reconstruct d g items))"
  by (simp_all add: Reconstruct_gate Let_def reset_gate_def)

lemma Reconstruct_flags: "over_capacity_exact (snd (Reconstruct d g items))"
  by (simp add: over_capacity_exact_def Reconstruct_gate Let_def)

lemma Reconstruct_inv: "gate_inv (snd (Reconstruct d g items))"
proof -
  let ?g = "fold observe_item items (reset_gate g)"
  have "observed_inv ?g" by (intro fold_observe_inv reset_gate_inv)
  then show ?thesis
    by (auto simp: Reconstruct_gate Let_def gate_inv_def observed_inv_def stacks_exclusive_def
        within_capacity_def)
qed

lemma CloseAdmission_inv: "gate_inv g \<Longrightarrow> gate_inv (CloseAdmission g)"
  by (simp add: CloseAdmission_def gate_inv_def stacks_exclusive_def within_capacity_def)

lemma Release_flags: "over_capacity_exact g \<Longrightarrow> over_capacity_exact (Release g it)"
  by (cases "activeItems g (wi_ID it)")
     (auto simp: over_capacity_exact_def Release_absent Release_fields)

subsection \<open>The gate as a state machine\<close>

datatype gate_op =
    AcquireOp work_item | EnsureOp work_item | ReleaseOp work_item
  | CloseOp | RebuildOp duration "work_item list"

inductive gate_step :: "gate \<Rightarrow> gate_op \<Rightarrow> gate \<Rightarrow> bool" where
  acquire: "gate_step g (AcquireOp it) (snd (TryAcquire g it))"
| ensure: "gate_step g (EnsureOp it) (snd (EnsureActive g it))"
| release: "gate_step g (ReleaseOp it) (Release g it)"
| close_admission: "gate_step g CloseOp (CloseAdmission g)"
| rebuild: "gate_step g (RebuildOp d items) (snd (Reconstruct d g items))"

inductive_cases gate_stepE: "gate_step g op g'"
inductive_simps gate_step_simps:
  "gate_step g (AcquireOp it) g'" "gate_step g (EnsureOp it) g'" "gate_step g (ReleaseOp it) g'"
  "gate_step g CloseOp g'" "gate_step g (RebuildOp d items) g'"

inductive gate_reachable :: "int \<Rightarrow> int \<Rightarrow> gate \<Rightarrow> bool" for mp ma where
  new_gate: "gate_reachable mp ma (NewGate mp ma)"
| step_gate: "gate_reachable mp ma g \<Longrightarrow> gate_step g op g' \<Longrightarrow> gate_reachable mp ma g'"

lemma gate_step_inv: "gate_step g op g' \<Longrightarrow> gate_inv g \<Longrightarrow> gate_inv g'"
  by (erule gate_stepE)
     (simp_all add: TryAcquire_inv EnsureActive_eq_TryAcquire Release_inv CloseAdmission_inv Reconstruct_inv)

lemma gate_reachable_inv: "gate_reachable mp ma g \<Longrightarrow> gate_inv g"
  by (induction rule: gate_reachable.induct) (auto intro: NewGate_inv gate_step_inv)

lemma TryAcquire_keeps_limits [simp]:
  "maxPlans (snd (TryAcquire g it)) = maxPlans g" "maxApplies (snd (TryAcquire g it)) = maxApplies g"
  "safetyViolation (snd (TryAcquire g it)) = safetyViolation g"
  using TryAcquire_cases [of g it] by auto

lemma Release_keeps_limits [simp]:
  "maxPlans (Release g it) = maxPlans g" "maxApplies (Release g it) = maxApplies g"
  "safetyViolation (Release g it) = safetyViolation g"
  by (cases "activeItems g (wi_ID it)"; simp add: Release_absent Release_fields)+

lemma gate_step_limits:
  "gate_step g op g' \<Longrightarrow> maxPlans g' = maxPlans g \<and> maxApplies g' = maxApplies g"
  by (erule gate_stepE) (simp_all add: EnsureActive_eq_TryAcquire CloseAdmission_def)

lemma gate_reachable_limits:
  "gate_reachable mp ma g \<Longrightarrow> maxPlans g = mp \<and> maxApplies g = ma"
  by (induction rule: gate_reachable.induct) (auto simp: NewGate_def dest: gate_step_limits)

lemma one_apply_per_stack:
  assumes "gate_inv g" and "\<not> safetyViolation g"
    and "activeItems g i = Some x" "wi_Kind x = KindApply"
    and "activeItems g j = Some y" "wi_Kind y = KindApply" "wi_Stack x = wi_Stack y"
  shows "i = j"
proof -
  have "count_items (activeItems g) (\<lambda>it. \<not> is_plan it \<and> wi_Stack it = wi_Stack x) \<le> 1"
    and "finite (dom (activeItems g))"
    using assms by (auto simp: gate_inv_def items_valid_def counters_exact_def stacks_exclusive_def)
  then show ?thesis
    using assms count_items_le_one [of "activeItems g" _ i x j y] by (simp add: is_plan_def)
qed

subsection \<open>The interface the run controller uses\<close>

text \<open>
  The run controller acquires a slot, keeps it while its Job runs and releases it. The contract:
  an acquired slot is held, nothing but its own release gives it up, and two items that
  conflict never hold slots together.
\<close>

locale admission =
  fixes acquire :: "'g \<Rightarrow> 'i \<Rightarrow> bool \<times> 'g"
    and give_up :: "'g \<Rightarrow> 'i \<Rightarrow> 'g"
    and holds :: "'g \<Rightarrow> 'i \<Rightarrow> bool"
    and same_slot :: "'i \<Rightarrow> 'i \<Rightarrow> bool"
    and conflict :: "'i \<Rightarrow> 'i \<Rightarrow> bool"
    and inv :: "'g \<Rightarrow> bool"
  assumes inv_acquire: "inv g \<Longrightarrow> inv (snd (acquire g i))"
    and inv_give_up: "inv g \<Longrightarrow> inv (give_up g i)"
    and acquired_holds: "fst (acquire g i) \<Longrightarrow> holds (snd (acquire g i)) i"
    and acquire_keeps: "holds g j \<Longrightarrow> holds (snd (acquire g i)) j"
    and give_up_keeps: "holds g j \<Longrightarrow> \<not> same_slot i j \<Longrightarrow> holds (give_up g i) j"
    and give_up_frees: "\<not> holds (give_up g i) i"
    and exclusive: "inv g \<Longrightarrow> holds g i \<Longrightarrow> holds g j \<Longrightarrow> \<not> conflict i j"
begin

fun run_ops :: "'g \<Rightarrow> (bool \<times> 'i) list \<Rightarrow> 'g" where
  "run_ops g [] = g"
| "run_ops g ((True, i) # ops) = run_ops (snd (acquire g i)) ops"
| "run_ops g ((False, i) # ops) = run_ops (give_up g i) ops"

lemma run_ops_inv: "inv g \<Longrightarrow> inv (run_ops g ops)"
  by (induction g ops rule: run_ops.induct) (simp_all add: inv_acquire inv_give_up)

lemma run_ops_keeps:
  "holds g j \<Longrightarrow> \<forall>i. (False, i) \<in> set ops \<longrightarrow> \<not> same_slot i j \<Longrightarrow> holds (run_ops g ops) j"
  by (induction g ops rule: run_ops.induct) (simp_all add: acquire_keeps give_up_keeps)

lemma conflicting_refused:
  assumes "inv g" and "fst (acquire g j)" and "conflict i j"
    and "\<forall>k. (False, k) \<in> set ops \<longrightarrow> \<not> same_slot k j"
  shows "\<not> fst (acquire (run_ops (snd (acquire g j)) ops) i)"
proof
  let ?g = "run_ops (snd (acquire g j)) ops"
  assume "fst (acquire ?g i)"
  then have "holds (snd (acquire ?g i)) i" by (rule acquired_holds)
  moreover have "holds (snd (acquire ?g i)) j"
    by (intro acquire_keeps run_ops_keeps acquired_holds assms)
  moreover have "inv (snd (acquire ?g i))" by (intro inv_acquire run_ops_inv assms)
  ultimately show False using exclusive assms(3) by blast
qed

end

definition gate_holds :: "gate \<Rightarrow> work_item \<Rightarrow> bool" where
  "gate_holds g it \<longleftrightarrow> (case activeItems g (wi_ID it) of
      None \<Rightarrow> False | Some a \<Rightarrow> wi_Kind a = wi_Kind it \<and> wi_Stack a = wi_Stack it)"

definition same_id :: "work_item \<Rightarrow> work_item \<Rightarrow> bool" where
  "same_id a b \<longleftrightarrow> wi_ID a = wi_ID b"

definition apply_conflict :: "work_item \<Rightarrow> work_item \<Rightarrow> bool" where
  "apply_conflict a b \<longleftrightarrow> wi_ID a \<noteq> wi_ID b \<and> wi_Kind a = KindApply \<and> wi_Kind b = KindApply
     \<and> wi_Stack a = wi_Stack b"

definition safe_gate :: "gate \<Rightarrow> bool" where
  "safe_gate g \<longleftrightarrow> gate_inv g \<and> \<not> safetyViolation g"

lemma TryAcquire_holds: "fst (TryAcquire g it) \<Longrightarrow> gate_holds (snd (TryAcquire g it)) it"
  by (auto simp: TryAcquire_def gate_holds_def split: if_splits option.splits)

lemma TryAcquire_keeps: "gate_holds g j \<Longrightarrow> gate_holds (snd (TryAcquire g it)) j"
  using TryAcquire_cases [of g it] by (auto simp: gate_holds_def)

lemma Release_keeps: "gate_holds g j \<Longrightarrow> \<not> same_id i j \<Longrightarrow> gate_holds (Release g i) j"
  by (cases "activeItems g (wi_ID i)")
     (auto simp: gate_holds_def same_id_def Release_absent Release_fields)

lemma Release_frees: "\<not> gate_holds (Release g i) i"
  by (cases "activeItems g (wi_ID i)") (simp_all add: gate_holds_def Release_absent Release_fields)

lemma holds_exclusive: "safe_gate g \<Longrightarrow> gate_holds g i \<Longrightarrow> gate_holds g j \<Longrightarrow> \<not> apply_conflict i j"
  unfolding gate_holds_def apply_conflict_def safe_gate_def
  by (auto split: option.splits dest: one_apply_per_stack [of g "wi_ID i" _ "wi_ID j"])

interpretation slots: admission TryAcquire Release gate_holds same_id apply_conflict safe_gate
  by unfold_locales
     (auto simp: safe_gate_def TryAcquire_inv Release_inv TryAcquire_holds TryAcquire_keeps
       Release_keeps Release_frees holds_exclusive)

subsection \<open>Draining a reconstructed backlog\<close>

definition release_all :: "work_item list \<Rightarrow> gate \<Rightarrow> gate" where
  "release_all items g = fold (\<lambda>it g. Release g it) items g"

lemma release_all_Nil [simp]: "release_all [] g = g"
  by (simp add: release_all_def)

lemma release_all_Cons [simp]: "release_all (it # items) g = release_all items (Release g it)"
  by (simp add: release_all_def)

lemma release_all_inv:
  "gate_inv g \<Longrightarrow> over_capacity_exact g \<Longrightarrow>
     gate_inv (release_all items g) \<and> over_capacity_exact (release_all items g)"
  by (induction items arbitrary: g) (simp_all add: Release_inv Release_flags)

lemma Release_activeItems: "activeItems (Release g it) = (activeItems g)(wi_ID it := None)"
  by (cases "activeItems g (wi_ID it)") (auto simp: Release_absent Release_fields)

lemma Release_gateReady [simp]: "gateReady (Release g it) = gateReady g"
  by (cases "activeItems g (wi_ID it)") (simp_all add: Release_absent Release_fields)

lemma release_all_keeps [simp]:
  "maxPlans (release_all items g) = maxPlans g" "maxApplies (release_all items g) = maxApplies g"
  "gateReady (release_all items g) = gateReady g"
  "safetyViolation (release_all items g) = safetyViolation g"
  by (induction items arbitrary: g) simp_all

lemma release_all_dom:
  "dom (activeItems (release_all items g)) = dom (activeItems g) - wi_ID ` set items"
  by (induction items arbitrary: g) (auto simp: Release_activeItems)

lemma fold_observe_dom:
  "dom (activeItems (fold observe_item items g)) \<subseteq> dom (activeItems g) \<union> wi_ID ` set items"
proof (induction items arbitrary: g)
  case (Cons x items)
  have "dom (activeItems (observe_item x g)) \<subseteq> insert (wi_ID x) (dom (activeItems g))"
    by (cases "validateItem x = None") (simp_all add: observe_item_valid observe_item_invalid subset_insertI)
  moreover have "dom (activeItems (fold observe_item items (observe_item x g)))
      \<subseteq> dom (activeItems (observe_item x g)) \<union> wi_ID ` set items" by (rule Cons)
  moreover have "\<And>A B C D. A \<subseteq> insert (wi_ID x) C \<Longrightarrow> B \<subseteq> A \<union> D \<Longrightarrow> B \<subseteq> C \<union> insert (wi_ID x) D" by blast
  ultimately show ?case by simp
qed simp

lemma Reconstruct_dom: "dom (activeItems (snd (Reconstruct d g items))) \<subseteq> wi_ID ` set items"
  using fold_observe_dom [of items "reset_gate g"]
  by (simp add: Reconstruct_gate Let_def reset_gate_def)

lemma drained_ready:
  assumes "gate_inv g" "over_capacity_exact g" "gateReady g" "\<not> safetyViolation g"
    and "activeItems g = Map.empty" "0 \<le> maxPlans g" "0 \<le> maxApplies g"
  shows "Ready g"
  using assms by (auto simp: Ready_def over_capacity_exact_def gate_inv_def counters_exact_def)

subsection \<open>Properties\<close>

text \<open>
  In every state of the gate, whatever sequence of operations led to it, two active Applies
  of one stack are the same execution, unless a reconstruction has already reported a safety
  violation.
\<close>
theorem at_most_one_apply_per_stack:
  assumes "gate_reachable mp ma g" and "\<not> safetyViolation g"
    and "activeItems g i = Some x" "wi_Kind x = KindApply"
    and "activeItems g j = Some y" "wi_Kind y = KindApply" "wi_Stack x = wi_Stack y"
  shows "i = j"
  using one_apply_per_stack [OF gate_reachable_inv [OF assms(1)] assms(2-)] .

definition sample_apply :: work_item where
  "sample_apply = \<lparr>wi_ID = ''uid-1'', wi_Kind = KindApply, wi_Stack = ''ns/a'',
     wi_ConcurrencyGroup = ''g'', wi_MaxConcurrentPlans = 1, wi_MaxConcurrentApplies = 1\<rparr>"

lemmas sample_eval = NewGate_def TryAcquire_def validateItem_def available_def sample_apply_def
  reserveLocked_def KindPlan_def KindApply_def bump_def

theorem at_most_one_apply_per_stack_witness:
  "\<exists>g. gate_reachable 4 1 g \<and> activeItems g ''uid-1'' = Some sample_apply \<and> ''uid-1'' = ''uid-1''"
proof -
  let ?g = "snd (TryAcquire (NewGate 4 1) sample_apply)"
  have r: "gate_reachable 4 1 ?g" by (rule step_gate [OF new_gate acquire])
  have a: "activeItems ?g ''uid-1'' = Some sample_apply" by (simp add: sample_eval)
  have "\<not> safetyViolation ?g" and "wi_Kind sample_apply = KindApply" by (simp_all add: sample_eval)
  from at_most_one_apply_per_stack [OF r this(1) a this(2) a this(2) refl] r a show ?thesis by blast
qed

text \<open>
  In every reachable state the counters of the gate are the numbers of active items they
  stand for (plans, applies, per stack, per group), and while the gate is not over capacity the
  global limits hold.
\<close>
theorem counters_agree_with_items:
  assumes "gate_reachable mp ma g"
  shows "(safetyViolation g \<or> counters_exact g) \<and>
     (overCapacity g \<or> (activePlans g \<le> max 0 mp \<and> activeApplies g \<le> max 0 ma))"
  using gate_reachable_inv [OF assms] gate_reachable_limits [OF assms]
  by (auto simp: gate_inv_def within_capacity_def)

theorem counters_agree_with_items_witness:
  "counters_exact (NewGate 2 1)"
  using counters_agree_with_items [OF new_gate [of 2 1]] by (simp add: NewGate_def)

text \<open>
  A slot an execution acquired is its own until it is released: after any further
  acquisitions and releases of other items, another Apply of the same stack is still refused.
\<close>
theorem acquired_slot_excludes_others:
  assumes "gate_reachable mp ma g" and "\<not> safetyViolation g"
    and "fst (TryAcquire g it)" and "apply_conflict other it"
    and "\<forall>k. (False, k) \<in> set ops \<longrightarrow> wi_ID k \<noteq> wi_ID it"
  shows "\<not> fst (TryAcquire (slots.run_ops (snd (TryAcquire g it)) ops) other)"
  using slots.conflicting_refused [of g it other ops] assms gate_reachable_inv [OF assms(1)]
  by (simp add: safe_gate_def same_id_def)

theorem acquired_slot_excludes_others_witness:
  "\<not> fst (TryAcquire (slots.run_ops (snd (TryAcquire (NewGate 4 2) sample_apply))
      [(True, sample_apply\<lparr>wi_ID := ''uid-3'', wi_Kind := KindPlan\<rparr>),
       (False, sample_apply\<lparr>wi_ID := ''uid-3''\<rparr>)])
      (sample_apply\<lparr>wi_ID := ''uid-2''\<rparr>))"
  by (rule acquired_slot_excludes_others [OF new_gate])
     (auto simp: sample_eval apply_conflict_def)

text \<open>
  Releasing an item right after it was newly admitted gives back the gate's counters and
  active items.
\<close>
theorem release_undoes_acquire:
  assumes "fst (TryAcquire g it)" and "activeItems g (wi_ID it) = None"
    and "g' = Release (snd (TryAcquire g it)) it"
  shows "activeItems g' = activeItems g \<and> activePlans g' = activePlans g
     \<and> activeApplies g' = activeApplies g \<and> activeByStack g' = activeByStack g
     \<and> activeByPlanGroup g' = activeByPlanGroup g \<and> activeByApplyGroup g' = activeByApplyGroup g"
proof -
  have r: "snd (TryAcquire g it) = reserveLocked g it"
    using assms(1,2) by (simp add: TryAcquire_def split: if_splits)
  have a: "activeItems (reserveLocked g it) (wi_ID it) = Some it" by simp
  show ?thesis
    using assms(2) unfolding assms(3) r Release_fields [OF a] by (auto simp: bump_def fun_eq_iff)
qed

theorem release_undoes_acquire_witness:
  "activeApplies (Release (snd (TryAcquire (NewGate 4 2) sample_apply)) sample_apply) = 0"
  using release_undoes_acquire [of "NewGate 4 2" sample_apply] by (simp add: sample_eval)

text \<open>
  Reconstruction observes every valid running execution, and closes the gate to new
  admissions exactly when a limit is exceeded or a safety violation was seen.
\<close>
theorem reconstruct_observes_all:
  "(\<forall>it \<in> set items. validateItem it = None \<longrightarrow>
       activeItems (snd (Reconstruct d g items)) (wi_ID it) \<noteq> None) \<and>
   (let (r, g') = Reconstruct d g items in
      Ready g' = (\<not> rr_SafetyViolation r \<and> \<not> rr_OverCapacity r) \<and>
      rr_OverCapacity r = (activePlans g' > maxPlans g \<or> activeApplies g' > maxApplies g))"
proof -
  have "activeItems (fold observe_item items (reset_gate g)) (wi_ID it) \<noteq> None"
    if "it \<in> set items" "validateItem it = None" for it
    using that by (intro fold_observe_active) simp_all
  then show ?thesis
    by (simp add: Reconstruct_def Let_def Ready_def) (auto simp: reset_gate_def)
qed

theorem reconstruct_observes_all_witness:
  "activeItems (snd (Reconstruct 0 (NewGate 1 1) [sample_apply])) (wi_ID sample_apply) \<noteq> None"
  using reconstruct_observes_all [of "[sample_apply]" 0 "NewGate 1 1"]
  by (simp add: validateItem_def sample_apply_def)

text \<open>
  C37. After a restart over capacity a gate whose limits are not negative opens again exactly when the reconstruction saw no
  safety violation: when every reconstructed execution has been released, the gate is ready if none was
  seen, and stays closed if one was, since no release clears a violation.
\<close>
theorem backlog_drains_to_ready:
  assumes "0 \<le> maxPlans g" and "0 \<le> maxApplies g"
  shows "Ready (release_all items (snd (Reconstruct d g items))) \<longleftrightarrow> \<not> rr_SafetyViolation (fst (Reconstruct d g items))"
proof -
  let ?g = "release_all items (snd (Reconstruct d g items))"
  have v: "safetyViolation ?g \<longleftrightarrow> rr_SafetyViolation (fst (Reconstruct d g items))"
    by (simp add: Reconstruct_def Let_def)
  have inv: "gate_inv ?g" "over_capacity_exact ?g"
    using release_all_inv [OF Reconstruct_inv Reconstruct_flags] by blast+
  have "dom (activeItems ?g) = {}"
    using Reconstruct_dom [of d g items] by (auto simp: release_all_dom)
  then have "activeItems ?g = Map.empty" by simp
  then have "\<not> safetyViolation ?g \<Longrightarrow> Ready ?g" using inv assms by (intro drained_ready) simp_all
  moreover have "Ready ?g \<Longrightarrow> \<not> safetyViolation ?g" by (simp add: Ready_def)
  ultimately show ?thesis using v by blast
qed

theorem backlog_drains_to_ready_witness:
  "Ready (release_all [sample_apply, sample_apply\<lparr>wi_ID := ''uid-2'', wi_Stack := ''ns/b''\<rparr>]
     (snd (Reconstruct 0 (NewGate 1 1) [sample_apply, sample_apply\<lparr>wi_ID := ''uid-2'', wi_Stack := ''ns/b''\<rparr>])))"
  by (subst backlog_drains_to_ready)
     (simp_all add: Reconstruct_def observe_item_def reset_gate_def reserveObservedLocked_def Let_def sample_eval)

end
