(* ===== verification/RunCtl.thy ===== *)
theory RunCtl
  imports Runs Gate
begin

section \<open>The TerraformRun controller: internal/controller/terraformrun\_controller.go\<close>

text \<open>
  One reconcile of a TerraformRun. What the controller reads from outside (API objects, the
  artifact bucket, the clock, decoders) is the record \<open>run_env\<close>; what it writes is the log of the
  effect; the execution gate is passed along, \<open>None\<close> when the manager has none. After a
  successful write the object in memory is what was sent. Metrics counters are left out.
\<close>

record runner_terminal_result =
  trr_RunUID :: string
  trr_JobUID :: string
  trr_StartedAt :: time
  trr_FinishedAt :: time
  trr_Operation :: string
  trr_TerraformExitCode :: int
  trr_ExecutionOutcome :: string
  trr_ArtifactsReady :: bool
  trr_HasChanges :: bool
  trr_Error :: string
  trr_PlanRef :: string
  trr_PlanDigest :: string
  trr_SourceBundleRef :: string
  trr_SourceBundleDigest :: string
  trr_BackendConfigRef :: string
  trr_BackendConfigDigest :: string
  trr_PlanReportRef :: string
  trr_PlanReportDigest :: string
  trr_TerminalResultRef :: string
  trr_TerminalResultDigest :: string
  trr_EffectivePlanInputDigest :: string
  trr_TargetDiscoveryRef :: string
  trr_TargetDiscoveryDigest :: string
  trr_MutationClassification :: string
  trr_MutationMayHaveOccurred :: bool

datatype run_write = UpdateRunStatusW terraform_run | CreateJobW job

record run_config =
  cfg_ExecutionEnabled :: bool
  cfg_GitImage :: string
  cfg_ArtifactEndpoint :: string
  cfg_ArtifactRegion :: string
  cfg_ArtifactBucket :: string
  cfg_ArtifactKMSKeyID :: string

record 'w run_env =
  re_now :: time
  re_sha :: hash
  re_config :: run_config
  re_credentials :: credentials_env
  re_get_run :: "gerr + terraform_run"
  re_previous :: "gerr + terraform_run"
  re_get_secret :: "string \<Rightarrow> gerr + secret"
  re_get_configmap :: "string \<Rightarrow> gerr + gomap"
  re_get_job :: "string \<Rightarrow> gerr + job"
  re_get_approval :: "string \<Rightarrow> gerr + change_approval"
  re_get_plan :: "string \<Rightarrow> gerr + terraform_run"
  re_get_stack :: "string \<Rightarrow> gerr + infra_stack"
  re_s3 :: "'w s3_api"
  re_bucket :: 'w
  re_decode_terminal :: "string \<Rightarrow> gerr + runner_terminal_result"
  re_hcl :: hcl_decoder
  re_set_owner :: "object_meta \<Rightarrow> string \<Rightarrow> object_meta \<Rightarrow> gerr + object_meta"
  re_created :: "job \<Rightarrow> job"
  re_answer :: "run_write \<Rightarrow> gerr option"

type_synonym run_eff = "(run_write, ctrl_result) eff"

subsection \<open>Execution slots\<close>

definition executionWorkItem :: "terraform_run \<Rightarrow> work_item" where
  "executionWorkItem run = (let m = run_Meta run; s = run_Spec run in
     \<lparr>wi_ID = (if om_UID m = [] then om_Namespace m @ ''/'' @ om_Name m else om_UID m),
      wi_Kind = (if rs_Operation s = ''Apply'' then KindApply else KindPlan),
      wi_Stack = om_Namespace m @ ''/'' @ rs_StackRef s,
      wi_ConcurrencyGroup = rs_ConcurrencyGroup s,
      wi_MaxConcurrentPlans = rs_MaxConcurrentPlans s,
      wi_MaxConcurrentApplies = rs_MaxConcurrentApplies s\<rparr>)"

definition ensureExecutionSlot :: "gate option \<Rightarrow> terraform_run \<Rightarrow> bool \<Rightarrow> bool \<times> gate option" where
  "ensureExecutionSlot g run existingJob =
     (case g of
        None \<Rightarrow> (True, None)
      | Some gt \<Rightarrow> (let (ok, gt') = (if existingJob then EnsureActive gt (executionWorkItem run)
                                    else TryAcquire gt (executionWorkItem run))
                  in (ok, Some gt')))"

definition releaseExecutionSlot :: "gate option \<Rightarrow> terraform_run \<Rightarrow> gate option" where
  "releaseExecutionSlot g run = map_option (\<lambda>gt. Release gt (executionWorkItem run)) g"

subsection \<open>Status updates\<close>

definition updateExecutionStatus ::
  "'w run_env \<Rightarrow> terraform_run \<Rightarrow> string \<Rightarrow> condition_status \<Rightarrow> string \<Rightarrow> string \<Rightarrow> run_eff" where
  "updateExecutionStatus env run outcome status reason message =
     (case re_previous env of
        Inl e \<Rightarrow> fail e
      | Inr previous \<Rightarrow>
          (let generation = om_Generation (run_Meta run);
               condition = stableCondition (re_now env)
                 (findCondition (rst_Conditions (run_Status previous)) ConditionReady) generation status reason message;
               run' = run\<lparr>run_Status := (run_Status run)\<lparr>rst_ObservedGeneration := generation,
                 rst_ExecutionOutcome := outcome, rst_Conditions := [condition]\<rparr>\<rparr>
           in if run_Status previous = run_Status run' then ret done_result
              else perform (re_answer env) (UpdateRunStatusW run') (ret done_result)))"

definition with_requeue :: "duration \<Rightarrow> run_eff \<Rightarrow> run_eff" where
  "with_requeue d e = eff_bind e (\<lambda>r. ret (r\<lparr>RequeueAfter := d\<rparr>))"

definition applyMissingTerminalResult :: "'w run_env \<Rightarrow> terraform_run \<Rightarrow> gerr \<Rightarrow> run_eff" where
  "applyMissingTerminalResult env run captureErr =
     (let run' = run\<lparr>run_Status := (run_Status run)\<lparr>rst_EvidenceCaptured := False, rst_ArtifactsReady := False\<rparr>\<rparr> in
      if rs_Operation (run_Spec run) = ''Apply''
      then updateExecutionStatus env run' ''Indeterminate'' ConditionUnknown ''TerraformTerminalResultMissing'' (err_text captureErr)
      else updateExecutionStatus env run' ''Failed'' ConditionFalse ''TerraformTerminalResultMissing'' (err_text captureErr))"

subsection \<open>Terminal evidence\<close>

definition moduleInputsRef :: "hash \<Rightarrow> terraform_run \<Rightarrow> ref" where
  "moduleInputsRef sha run =
     \<lparr>ref_Key = path_join [''runs'', om_UID (run_Meta run), ''module-inputs.json''],
      ref_Digest = ''sha256:'' @ sha (json_text (gomap_json (rs_Inputs (run_Spec run)))),
      ref_Size = 0, ref_VersionID = []\<rparr>"

definition artifact_ref :: "string \<Rightarrow> string \<Rightarrow> ref" where
  "artifact_ref key digest = \<lparr>ref_Key = key, ref_Digest = digest, ref_Size = 0, ref_VersionID = []\<rparr>"

definition validateTerraformJobIdentity :: "terraform_run \<Rightarrow> job \<Rightarrow> gerr option" where
  "validateTerraformJobIdentity run j =
     (let uid = om_UID (run_Meta run); juid = om_UID (job_Meta j);
          owners = filter (is_controller_ref ''TerraformRun'') (om_OwnerReferences (job_Meta j)) in
      first_error
        [(rst_JobUID (run_Status run) \<noteq> [] \<and> juid \<noteq> [] \<and> rst_JobUID (run_Status run) \<noteq> juid,
          ''Job UID changed from '' @ quoted (rst_JobUID (run_Status run)) @ '' to '' @ quoted juid),
         (uid \<noteq> [] \<and> glookup (om_Labels (job_Meta j)) ''platform.example.io/terraform-run-uid'' \<noteq> uid,
          ''Job terraform-run-uid label mismatch''),
         (list_ex (\<lambda>o'. or_UID o' \<noteq> uid) owners, ''Job owner UID mismatch''),
         (uid \<noteq> [] \<and> owners = [], ''Job is not controller-owned by TerraformRun'')])"

definition terminal_outcome_error :: "runner_terminal_result \<Rightarrow> gerr option" where
  "terminal_outcome_error r =
     (let oc = trr_ExecutionOutcome r in
      if oc = ''ChangesPresent'' then
        first_error [(trr_Operation r \<noteq> ''Plan'' \<or> trr_TerraformExitCode r \<noteq> 2 \<or> \<not> trr_HasChanges r, ''inconsistent changes result'')]
      else if oc = ''NoChange'' then
        first_error [(trr_Operation r \<noteq> ''Plan'' \<or> trr_TerraformExitCode r \<noteq> 0 \<or> trr_HasChanges r, ''inconsistent NoChange result'')]
      else if oc = ''Succeeded'' then
        first_error [(trr_Operation r \<noteq> ''Apply'' \<or> trr_TerraformExitCode r \<noteq> 0, ''inconsistent Apply result'')]
      else if oc = ''Failed'' \<or> oc = ''Indeterminate'' then None
      else Some (Err ''unknown terminal outcome''))"

definition validateTerminalIdentity ::
  "terraform_run \<Rightarrow> runner_terminal_result \<Rightarrow> job option \<Rightarrow> gerr option" where
  "validateTerminalIdentity run r j =
     (let uid = om_UID (run_Meta run); spec = run_Spec run in
      and_then (first_error
        [(trr_RunUID r \<noteq> uid \<or> trr_JobUID r = [] \<or> trr_Operation r \<noteq> rs_Operation spec \<or> trr_ExecutionOutcome r = [],
          ''terminal execution identity mismatch''),
         ((case j of None \<Rightarrow> False | Some jb \<Rightarrow> trr_JobUID r \<noteq> om_UID (job_Meta jb))
          \<or> rst_JobUID (run_Status run) \<noteq> [] \<and> trr_JobUID r \<noteq> rst_JobUID (run_Status run),
          ''terminal Job UID mismatch''),
         (trr_StartedAt r = 0 \<or> trr_FinishedAt r < trr_StartedAt r, ''terminal timestamps are incomplete or inconsistent'')])
      (and_then (terminal_outcome_error r)
      (if trr_ArtifactsReady r then
         first_error
           [(rs_Operation spec = ''Plan'' \<and> trr_PlanRef r \<noteq> path_join [''runs'', uid, ''plan.binary''],
             ''terminal Plan UID/reference mismatch''),
            (rs_Operation spec = ''Apply'' \<and> (rs_PlanRef spec = [] \<or> trr_PlanRef r \<noteq> rs_PlanRef spec),
             ''terminal approved Plan reference mismatch'')]
       else None)))"

fun verify_refs :: "(ref \<Rightarrow> gerr + string) \<Rightarrow> ref list \<Rightarrow> gerr option" where
  "verify_refs get [] = None"
| "verify_refs get (r # rs) =
     (if ref_Key r = [] \<or> ref_Digest r = [] then Some (Err ''terminal artifact reference is incomplete'')
      else case get r of
        Inl e \<Rightarrow> Some (Wrap ''terminal artifact verification'' e)
      | Inr _ \<Rightarrow> verify_refs get rs)"

definition terminal_refs :: "hash \<Rightarrow> terraform_run \<Rightarrow> runner_terminal_result \<Rightarrow> ref list" where
  "terminal_refs sha run r =
     [artifact_ref (trr_PlanRef r) (trr_PlanDigest r), artifact_ref (trr_SourceBundleRef r) (trr_SourceBundleDigest r),
      artifact_ref (trr_BackendConfigRef r) (trr_BackendConfigDigest r), moduleInputsRef sha run]
     @ (if rs_Operation (run_Spec run) = ''Plan'' then [artifact_ref (trr_PlanReportRef r) (trr_PlanReportDigest r)] else [])
     @ (if trr_ExecutionOutcome r = ''NoChange'' \<or> trr_ExecutionOutcome r = ''Succeeded''
        then [artifact_ref (trr_TargetDiscoveryRef r) (trr_TargetDiscoveryDigest r)] else [])"

definition verifyTerminalEvidence ::
  "hash \<Rightarrow> (ref \<Rightarrow> gerr + string) \<Rightarrow> terraform_run \<Rightarrow> runner_terminal_result \<Rightarrow> job option \<Rightarrow> gerr option" where
  "verifyTerminalEvidence sha get run r j =
     and_then (validateTerminalIdentity run r j)
       (if \<not> trr_ArtifactsReady r then None
        else if trr_EffectivePlanInputDigest r = [] then Some (Err ''terminal input evidence is missing'')
        else if rs_Operation (run_Spec run) = ''Apply''
                \<and> (trr_PlanDigest r \<noteq> rs_PlanDigest (run_Spec run)
                   \<or> trr_SourceBundleDigest r \<noteq> ps_Digest (rs_Source (run_Spec run))
                   \<or> trr_BackendConfigDigest r \<noteq> rs_BackendConfigArtifactDigest (run_Spec run))
        then Some (Err ''terminal saved-plan closure mismatch'')
        else verify_refs get (terminal_refs sha run r))"

definition effectiveRunInputDigest :: "hash \<Rightarrow> terraform_run \<Rightarrow> runner_terminal_result \<Rightarrow> string" where
  "effectiveRunInputDigest sha run r = (let s = run_Spec run in
     Digest sha (jobj [
       (''SpecDigest'', Some (JStr (rs_EffectivePlanInputDigest s))),
       (''SourceBundleDigest'', Some (JStr (trr_SourceBundleDigest r))),
       (''BackendDigest'', Some (JStr (trr_BackendConfigDigest r))),
       (''PlanDigest'', Some (JStr (trr_PlanDigest r))),
       (''PlanReportDigest'', Some (JStr (trr_PlanReportDigest r))),
       (''TerraformVersion'', Some (JStr (rs_ExpectedTerraformVersion s))),
       (''RunnerImageDigest'', Some (JStr (rs_RunnerImageDigest s))),
       (''TargetIdentity'', Some (JStr (rs_RuntimeTargetIdentityDigest s))),
       (''PlatformIdentity'', Some (JStr (rs_ExecutionPlatformIdentityDigest s))),
       (''RunnerIdentity'', Some (JStr (rs_RunnerServiceAccountIdentityDigest s)))]))"

text \<open>The status fields that applyTerminalResult copies from the result, up to the expiry.\<close>

definition terminal_status :: "hash \<Rightarrow> terraform_run \<Rightarrow> runner_terminal_result \<Rightarrow> job option \<Rightarrow> terraform_run_status" where
  "terminal_status sha run r j =
     (let s = run_Status run; spec = run_Spec run;
          retained = (trr_SourceBundleRef r = [] \<and> rst_SourceBundleRef s = []
                      \<and> ps_Type (rs_Source spec) = SourceRetainedBundle);
          own_backend = (trr_BackendConfigRef r = [] \<and> rst_ResolvedBackendConfigRef s = [])
      in s\<lparr>rst_EvidenceCaptured := True,
           rst_ArtifactsReady := trr_ArtifactsReady r,
           rst_HasChanges := trr_HasChanges r,
           rst_TerminalResultRef := trr_TerminalResultRef r,
           rst_TerminalResultDigest := trr_TerminalResultDigest r,
           rst_MutationClassification := trr_MutationClassification r,
           rst_MutationMayHaveOccurred := trr_MutationMayHaveOccurred r,
           rst_PlanReportRef := (if trr_PlanReportRef r \<noteq> [] then trr_PlanReportRef r else rst_PlanReportRef s),
           rst_PlanReportDigest := (if trr_PlanReportRef r \<noteq> [] then trr_PlanReportDigest r else rst_PlanReportDigest s),
           rst_EffectivePlanInputDigest := (if trr_EffectivePlanInputDigest r \<noteq> [] then trr_EffectivePlanInputDigest r
             else effectiveRunInputDigest sha run r),
           rst_TargetDiscoveryRef := trr_TargetDiscoveryRef r,
           rst_TargetDiscoveryDigest := trr_TargetDiscoveryDigest r,
           rst_PlanRef := (if trr_PlanRef r \<noteq> [] then trr_PlanRef r else rst_PlanRef s),
           rst_PlanDigest := (if trr_PlanRef r \<noteq> [] then trr_PlanDigest r else rst_PlanDigest s),
           rst_SourceBundleRef := (if trr_SourceBundleRef r \<noteq> [] then trr_SourceBundleRef r
             else if retained then ps_Ref (rs_Source spec) else rst_SourceBundleRef s),
           rst_SourceBundleDigest := (if trr_SourceBundleRef r \<noteq> [] then trr_SourceBundleDigest r
             else if retained then ps_Digest (rs_Source spec) else rst_SourceBundleDigest s),
           rst_ResolvedBackendConfigRef := (if trr_BackendConfigRef r \<noteq> [] then trr_BackendConfigRef r
             else if own_backend then rs_BackendConfigArtifactRef spec else rst_ResolvedBackendConfigRef s),
           rst_ResolvedBackendConfigDigest := (if trr_BackendConfigRef r \<noteq> [] then trr_BackendConfigDigest r
             else if own_backend then rs_BackendConfigArtifactDigest spec else rst_ResolvedBackendConfigDigest s),
           rst_TerminalStartedAt := (if trr_StartedAt r \<noteq> 0 then Some (trr_StartedAt r) else rst_TerminalStartedAt s),
           rst_TerminalFinishedAt := (if trr_FinishedAt r \<noteq> 0 then Some (trr_FinishedAt r)
             else case j of
               Some jb \<Rightarrow> (case js_CompletionTime (job_Status jb) of Some t \<Rightarrow> Some t | None \<Rightarrow> rst_TerminalFinishedAt s)
             | None \<Rightarrow> rst_TerminalFinishedAt s)\<rparr>)"

definition plan_expiry_needed :: "terraform_run \<Rightarrow> runner_terminal_result \<Rightarrow> bool" where
  "plan_expiry_needed run r \<longleftrightarrow> rs_Operation (run_Spec run) = ''Plan''
     \<and> (trr_ExecutionOutcome r = ''NoChange'' \<or> trr_ExecutionOutcome r = ''ChangesPresent'')
     \<and> rst_PlanCreatedAt (run_Status run) = None"

definition terminal_outcome :: "terraform_run \<Rightarrow> runner_terminal_result \<Rightarrow> string" where
  "terminal_outcome run r =
     (if trr_ArtifactsReady r then trr_ExecutionOutcome r
      else if rs_Operation (run_Spec run) = ''Apply'' then ''Indeterminate'' else ''Failed'')"

definition terminal_condition :: "string \<Rightarrow> condition_status \<times> string" where
  "terminal_condition outcome =
     (if outcome = ''Succeeded'' \<or> outcome = ''NoChange'' \<or> outcome = ''ChangesPresent''
      then (ConditionTrue, ''TerraformSucceeded'')
      else if outcome = ''Indeterminate'' then (ConditionUnknown, ''TerraformIndeterminate'')
      else (ConditionFalse, ''TerraformJobFailed''))"

definition applyTerminalResult ::
  "'w run_env \<Rightarrow> terraform_run \<Rightarrow> runner_terminal_result \<Rightarrow> job option \<Rightarrow> run_eff" where
  "applyTerminalResult env run r j =
     (let s = terminal_status (re_sha env) run r j;
          outcome = terminal_outcome run r; (status, reason) = terminal_condition outcome;
          message = (if trr_Error r = [] then ''Terraform runner terminal result captured.'' else trr_Error r)
      in if plan_expiry_needed run r then
           (case rst_TerminalFinishedAt s of
              None \<Rightarrow> applyMissingTerminalResult env (run\<lparr>run_Status := s\<rparr>)
                (Err ''trusted terminal finishedAt is required for Plan expiry'')
            | Some finished \<Rightarrow>
                updateExecutionStatus env
                  (run\<lparr>run_Status := s\<lparr>rst_PlanCreatedAt := Some finished, rst_PlanExpiresAt := Some (finished + hour)\<rparr>\<rparr>)
                  outcome status reason message)
         else updateExecutionStatus env (run\<lparr>run_Status := s\<rparr>) outcome status reason message)"

definition with_ref :: "runner_terminal_result \<Rightarrow> ref \<Rightarrow> runner_terminal_result" where
  "with_ref r reference = r\<lparr>trr_TerminalResultRef := ref_Key reference, trr_TerminalResultDigest := ref_Digest reference\<rparr>"

definition run_store :: "'w run_env \<Rightarrow> gerr + (string \<times> string)" where
  "run_store env = (let c = re_config env in
     NewS3StoreWithKMS (re_credentials env) (cfg_ArtifactEndpoint c) (cfg_ArtifactRegion c) (cfg_ArtifactBucket c)
       (cfg_ArtifactKMSKeyID c))"

definition get_verified :: "'w run_env \<Rightarrow> ref \<Rightarrow> gerr + string" where
  "get_verified env r = GetVerified (re_sha env) (re_s3 env) (re_bucket env) r"

definition terminal_key :: "terraform_run \<Rightarrow> string" where
  "terminal_key run = path_join [''runs'', om_UID (run_Meta run), ''terminal-result.json'']"

definition captureTerminalResult ::
  "'w run_env \<Rightarrow> terraform_run \<Rightarrow> job \<Rightarrow> gerr + runner_terminal_result" where
  "captureTerminalResult env run j =
     (let c = re_config env; key = terminal_key run in
      if cfg_ArtifactRegion c = [] \<or> cfg_ArtifactBucket c = []
      then Inl (Err ''durable terminal artifact store region and bucket are not configured'')
      else sum_bind (run_store env) (\<lambda>_.
        case GetVerifiedByKey (re_sha env) (re_s3 env) (re_bucket env) key of
          Inl e \<Rightarrow> Inl (Wrap (''read durable terminal result '' @ quoted key) e)
        | Inr (reference, content) \<Rightarrow>
            if ref_Digest reference = []
            then Inl (Err (''durable terminal result '' @ quoted key @ '' has no store digest metadata''))
            else (case re_decode_terminal env content of
               Inl e \<Rightarrow> Inl (Wrap ''decode durable terminal result'' e)
             | Inr r \<Rightarrow> (case verifyTerminalEvidence (re_sha env) (get_verified env) run r (Some j) of
                 Some e \<Rightarrow> Inl e
               | None \<Rightarrow> Inr (with_ref r reference)))))"

definition job_terminal :: "job \<Rightarrow> bool" where
  "job_terminal j \<longleftrightarrow> js_Succeeded (job_Status j) > 0 \<or> js_Failed (job_Status j) > 0"

definition reconcileJobStatus :: "'w run_env \<Rightarrow> terraform_run \<Rightarrow> job \<Rightarrow> run_eff" where
  "reconcileJobStatus env run j =
     (if job_terminal j then
        (case captureTerminalResult env run j of
           Inr terminal \<Rightarrow> applyTerminalResult env run terminal (Some j)
         | Inl e \<Rightarrow> applyMissingTerminalResult env run e)
      else if js_Active (job_Status j) > 0
      then updateExecutionStatus env run ''Running'' ConditionFalse ''TerraformJobRunning'' ''Terraform Job is running.''
      else updateExecutionStatus env run ''Pending'' ConditionFalse ''TerraformJobPending'' ''Terraform Job is pending.'')"

subsection \<open>The approval behind an Apply\<close>

text \<open>The checks of validateApplyApproval on the approval, then on the Plan it names.\<close>

definition approval_binding_error :: "terraform_run \<Rightarrow> change_approval \<Rightarrow> gerr option" where
  "approval_binding_error apply approval = (let s = run_Spec apply; a = ca_Spec approval in
     first_error
       [(om_UID (ca_Meta approval) \<noteq> rs_ApprovalUID s, ''approval UID mismatch''),
        (cas_PlanDigest a \<noteq> rs_PlanDigest s \<or> cas_ExecutionContextDigest a \<noteq> rs_ExecutionContextDigest s
           \<or> cas_EffectivePlanInputDigest a \<noteq> rs_EffectivePlanInputDigest s
           \<or> cas_PlanReportRef a \<noteq> rs_PlanReportRef s \<or> cas_PlanReportDigest a \<noteq> rs_PlanReportDigest s,
         ''approval digest binding mismatch'')])"

definition plan_binding_error :: "time \<Rightarrow> terraform_run \<Rightarrow> terraform_run \<Rightarrow> gerr option" where
  "plan_binding_error now apply plan = (let s = run_Spec apply; ps = run_Spec plan; st = run_Status plan in
     first_error
       [(om_UID (run_Meta plan) \<noteq> rs_PlanRunUID s, ''PlanRun UID mismatch''),
        (rst_PlanDigest st = [] \<or> rst_PlanDigest st \<noteq> rs_PlanDigest s \<or> rst_ExecutionOutcome st \<noteq> ''ChangesPresent''
           \<or> \<not> planEvidenceReady plan, ''PlanRun digest mismatch''),
        (rst_PlanReportRef st = [] \<or> rst_PlanReportDigest st = [] \<or> rs_PlanReportRef s \<noteq> rst_PlanReportRef st
           \<or> rs_PlanReportDigest s \<noteq> rst_PlanReportDigest st, ''PlanRun report binding mismatch''),
        (rs_ExecutionContextDigest ps \<noteq> [] \<and> rs_ExecutionContextDigest ps \<noteq> rs_ExecutionContextDigest s,
         ''PlanRun execution context mismatch''),
        (\<not> not_expired now (rst_PlanExpiresAt st), ''saved PlanRun is expired or has no trusted expiry''),
        (rs_EffectivePlanInputDigest s = [] \<or> rst_EffectivePlanInputDigest st \<noteq> rs_EffectivePlanInputDigest s,
         ''effective plan input digest mismatch''),
        (rs_SourceClosureDigest s \<noteq> [] \<and> rst_SourceBundleDigest st \<noteq> [] \<and> rs_SourceClosureDigest s \<noteq> rst_SourceBundleDigest st,
         ''source closure digest mismatch''),
        (rs_RuntimeTargetIdentityDigest s \<noteq> [] \<and> rs_RuntimeTargetIdentityDigest ps \<noteq> rs_RuntimeTargetIdentityDigest s,
         ''runtime target identity digest mismatch''),
        (rs_InfrastructureExecutionIdentityDigest s \<noteq> []
           \<and> rs_InfrastructureExecutionIdentityDigest ps \<noteq> rs_InfrastructureExecutionIdentityDigest s,
         ''infrastructure execution identity digest mismatch'')])"

fun verify_approved :: "(ref \<Rightarrow> gerr + string) \<Rightarrow> ref list \<Rightarrow> gerr option" where
  "verify_approved get [] = None"
| "verify_approved get (r # rs) =
     (case get r of
        Inl e \<Rightarrow> Some (Wrap ''approved artifact is missing or invalid'' e)
      | Inr _ \<Rightarrow> verify_approved get rs)"

definition approved_refs :: "hash \<Rightarrow> terraform_run \<Rightarrow> ref list" where
  "approved_refs sha plan = (let s = run_Status plan in
     [artifact_ref (rst_PlanRef s) (rst_PlanDigest s), artifact_ref (rst_SourceBundleRef s) (rst_SourceBundleDigest s),
      artifact_ref (rst_ResolvedBackendConfigRef s) (rst_ResolvedBackendConfigDigest s),
      artifact_ref (rst_PlanReportRef s) (rst_PlanReportDigest s),
      artifact_ref (rst_TerminalResultRef s) (rst_TerminalResultDigest s), moduleInputsRef sha plan])"

definition stack_binding_error ::
  "'w run_env \<Rightarrow> terraform_run \<Rightarrow> change_approval \<Rightarrow> terraform_run \<Rightarrow> infra_stack \<Rightarrow> gerr option" where
  "stack_binding_error env apply approval plan stack =
     (if om_Name (run_Meta apply) \<noteq> applyRunName (re_sha env) (om_Name (run_Meta plan)) (om_UID (run_Meta plan))
         \<or> \<not> ownedBy (run_Meta apply) (is_Meta stack) ''InfraStack''
      then Some (Err ''Apply must be the unique Plan-owned execution intent'')
      else and_then (validateApplyAdmission (re_sha env) (re_now env) stack plan approval)
        (if run_Spec (buildApplyRun stack plan approval (om_Name (run_Meta apply))) \<noteq> run_Spec apply
         then Some (Err ''Apply execution snapshot differs from approved Plan'')
         else (case run_store env of
            Inl e \<Rightarrow> Some e
          | Inr _ \<Rightarrow> verify_approved (get_verified env) (approved_refs (re_sha env) plan))))"

definition validateApplyApproval :: "'w run_env \<Rightarrow> terraform_run \<Rightarrow> gerr option" where
  "validateApplyApproval env apply =
     (let s = run_Spec apply in
      case rs_ApprovalRef s of
        None \<Rightarrow> Some (Err ''Apply requires approvalRef, approvalUID, and planRunUID'')
      | Some name \<Rightarrow>
          if name = [] \<or> rs_ApprovalUID s = [] \<or> rs_PlanRunUID s = []
          then Some (Err ''Apply requires approvalRef, approvalUID, and planRunUID'')
          else (case re_get_approval env name of
             Inl e \<Rightarrow> Some (Wrap ''read ChangeApproval'' e)
           | Inr approval \<Rightarrow> and_then (approval_binding_error apply approval)
               (case re_get_plan env (cas_PlanRunRef (ca_Spec approval)) of
                  Inl e \<Rightarrow> Some (Wrap ''read PlanRun'' e)
                | Inr plan \<Rightarrow> and_then (plan_binding_error (re_now env) apply plan)
                    (case re_get_stack env (rs_StackRef s) of
                       Inl e \<Rightarrow> Some e
                     | Inr stack \<Rightarrow> stack_binding_error env apply approval plan stack))))"

subsection \<open>The Job of a run\<close>

definition terraformSecretVariables :: "secret_variable_reference list \<Rightarrow> variable_secret_reference list" where
  "terraformSecretVariables vs = map (\<lambda>v. \<lparr>vsr_Variable = svr_Variable v,
     vsr_Name = sks_Name (svr_SecretKeyRef v), vsr_Key = sks_Key (svr_SecretKeyRef v)\<rparr>) vs"

definition sourceRootForPlan :: "terraform_run \<Rightarrow> string" where
  "sourceRootForPlan run = (let t = ps_Type (rs_Source (run_Spec run)) in
     if t = SourceGitCommit \<or> t = SourceRetainedBundle then ''/workspace/terraform'' else [])"

definition run_job_request :: "run_config \<Rightarrow> terraform_run \<Rightarrow> job_request" where
  "run_job_request c run =
     (let s = run_Spec run; m = run_Meta run; src = rs_Source s; retained = (ps_Type src = SourceRetainedBundle);
          workDir0 = or_else (ex_WorkDir (rs_Executor s)) ''/workspace/terraform'';
          workDir = (if ps_Path src \<noteq> [] then path_join [workDir0, ps_Path src] else workDir0)
      in \<lparr>jr_ExecutionProfile = rs_ExecutionProfile s,
          jr_Inputs = rs_Inputs s,
          jr_Name = om_Name m,
          jr_Namespace = om_Namespace m,
          jr_RunUID = om_UID m,
          jr_RunnerImage = ex_Image (rs_Executor s),
          jr_SourceType = ps_Type src,
          jr_SourceURL = ps_URL src,
          jr_SourceRevision = ps_Revision src,
          jr_SourcePath = ps_Path src,
          jr_SourceRoot = sourceRootForPlan run,
          jr_SourceBundleRef = (if retained then ps_Ref src else []),
          jr_SourceBundleDigest = (if retained then ps_Digest src else []),
          jr_Operation = rs_Operation s,
          jr_Destroy = (rs_PlanMode s = ''Destroy''),
          jr_WorkingDir = workDir,
          jr_Workspace = rs_Workspace s,
          jr_BackendConfigMap = (if rs_Operation s = ''Plan'' \<and> ps_Type src = SourceGitCommit
            then rs_ResolvedBackendConfigRef s else []),
          jr_BackendConfigPath = ''/workspace/backend/backend.hcl'',
          jr_PlanPath = ''/workspace/terraform/plan.binary'',
          jr_LockTimeout = (if rs_LockTimeout s = 0 then 5 * minute else rs_LockTimeout s),
          jr_ExecutionTimeout = (if ex_ExecutionTimeout (rs_Executor s) = 0 then hour
            else ex_ExecutionTimeout (rs_Executor s)),
          jr_Parallelism = ex_Parallelism (rs_Executor s),
          jr_GitImage = or_else (cfg_GitImage c) DefaultGitImage,
          jr_ArtifactEndpoint = (case rs_ExecutionProfile s of Some p \<Rightarrow> ep_S3Endpoint p | None \<Rightarrow> cfg_ArtifactEndpoint c),
          jr_ArtifactRegion = cfg_ArtifactRegion c,
          jr_ArtifactBucket = cfg_ArtifactBucket c,
          jr_ArtifactKMSKeyID = cfg_ArtifactKMSKeyID c,
          jr_ArtifactPrefix = path_join [''runs'', om_UID m],
          jr_InfrastructureExecutionRoleARN = rs_InfrastructureExecutionRoleARN s,
          jr_PlanRef = rs_PlanRef s,
          jr_PlanDigest = rs_PlanDigest s,
          jr_TargetDiscoveryRef = rs_TargetDiscoveryRef s,
          jr_TargetDiscoveryDigest = rs_TargetDiscoveryDigest s,
          jr_BackendConfigArtifactRef = rs_BackendConfigArtifactRef s,
          jr_BackendConfigArtifactDigest = rs_BackendConfigArtifactDigest s,
          jr_VariableSecretRefs = rs_VariableSecretRefs s,
          jr_VariableSecretVariables = terraformSecretVariables (rs_VariableSecretVariables s),
          jr_ServiceAccountName = rs_RunnerServiceAccountName s,
          jr_ExpectedTerraformVersion = rs_ExpectedTerraformVersion s\<rparr>)"

definition run_buildJob :: "run_config \<Rightarrow> terraform_run \<Rightarrow> gerr + job" where
  "run_buildJob c run = BuildJob (run_job_request c run)"

subsection \<open>Reconcile\<close>

text \<open>After the Job exists: check its identity and record it.\<close>

definition record_job :: "'w run_env \<Rightarrow> terraform_run \<Rightarrow> job \<Rightarrow> run_eff" where
  "record_job env run existing =
     (case validateTerraformJobIdentity run existing of
        Some e \<Rightarrow> updateExecutionStatus env run ''Indeterminate'' ConditionUnknown ''TerraformJobIdentityMismatch'' (err_text e)
      | None \<Rightarrow>
          (let m = run_Meta run; uid = om_UID (job_Meta existing);
               run' = run\<lparr>run_Status := (run_Status run)\<lparr>rst_JobRef := Some (om_Name (job_Meta existing)),
                 rst_JobUID := (if uid \<noteq> [] then uid else rst_JobUID (run_Status run)),
                 rst_ObservedGeneration := om_Generation m,
                 rst_Conditions := [executionCondition (re_now env) (om_Generation m) ConditionFalse ''TerraformJobPending''
                   ''Terraform Job created; terminal evidence is not captured yet.'']\<rparr>\<rparr>
           in perform (re_answer env) (UpdateRunStatusW run') (ret (requeue_after second))))"

text \<open>Persist the intent, then create the Job; the slot is given up when either write fails.\<close>

definition create_job :: "'w run_env \<Rightarrow> gate option \<Rightarrow> terraform_run \<Rightarrow> job \<Rightarrow> run_eff \<times> gate option" where
  "create_job env g run j =
     (case re_set_owner env (run_Meta run) ''TerraformRun'' (job_Meta j) of
        Inl e \<Rightarrow> (fail e, releaseExecutionSlot g run)
      | Inr meta \<Rightarrow>
          (let owned = j\<lparr>job_Meta := meta\<rparr>;
               run' = run\<lparr>run_Status := (run_Status run)\<lparr>rst_JobRef := Some (om_Name (job_Meta j))\<rparr>\<rparr>;
               intent = UpdateRunStatusW run'; create = CreateJobW owned
           in case re_answer env intent of
                Some e \<Rightarrow> (([intent], Inl e), releaseExecutionSlot g run)
              | None \<Rightarrow> (case re_answer env create of
                  Some e \<Rightarrow> (([intent, create], Inl e), releaseExecutionSlot g run)
                | None \<Rightarrow> (let (log, res) = record_job env run' (re_created env owned) in
                    ((intent # create # log, res), g)))))"

definition start_job :: "'w run_env \<Rightarrow> gate option \<Rightarrow> terraform_run \<Rightarrow> run_eff \<times> gate option" where
  "start_job env g run =
     (case ensureExecutionSlot g run False of
        (False, g') \<Rightarrow> (with_requeue second (updateExecutionStatus env run ''Pending'' ConditionFalse ''ExecutionSlotUnavailable''
            ''Terraform execution is waiting for an available concurrency slot.''), g')
      | (True, g') \<Rightarrow>
          (case (if rs_Operation (run_Spec run) = ''Apply'' then validateApplyApproval env run else None) of
             Some e \<Rightarrow> (updateExecutionStatus env run ''Rejected'' ConditionFalse ''ApplyBindingRejected'' (err_text e),
                 releaseExecutionSlot g' run)
           | None \<Rightarrow>
               (case run_buildJob (re_config env) run of
                  Inl e \<Rightarrow> (updateExecutionStatus env run ''Rejected'' ConditionFalse ''TerraformJobRejected'' (err_text e),
                      releaseExecutionSlot g' run)
                | Inr j \<Rightarrow>
                    (case re_get_job env (om_Name (job_Meta j)) of
                       Inr existing \<Rightarrow> (record_job env run existing, g')
                     | Inl e \<Rightarrow> if is_not_found e then create_job env g' run j
                                else (fail e, releaseExecutionSlot g' run)))))"

definition admit_run :: "'w run_env \<Rightarrow> gate option \<Rightarrow> terraform_run \<Rightarrow> run_eff \<times> gate option" where
  "admit_run env g run =
     (let c = re_config env; spec = run_Spec run;
          reject = (\<lambda>message. updateExecutionStatus env run ''Rejected'' ConditionFalse ''ExecutionProfileRejected'' message)
      in case resolveExecutionProfile (re_sha env) (re_get_secret env) (om_Namespace (run_Meta run)) (rs_ExecutionProfile spec) of
           Inl e \<Rightarrow> (reject (err_text e), g)
         | Inr profile \<Rightarrow>
             if ep_CredentialsIdentity profile = [] \<or> \<not> immutableImage (ex_Image (rs_Executor spec))
             then (reject ''frozen emulator credentials and immutable runner image are required'', g)
             else if (case rs_ExecutionProfile spec of None \<Rightarrow> True | Some p \<Rightarrow> ep_CredentialsIdentity p = [])
                     \<or> ep_ArtifactBucket profile \<noteq> cfg_ArtifactBucket c \<or> ep_Region profile \<noteq> cfg_ArtifactRegion c
             then (reject ''execution profile/store identity is not frozen or configured'', g)
             else (case run_store env of
                Inl e \<Rightarrow> (fail e, g)
              | Inr _ \<Rightarrow>
                  (case GetVerifiedByKey (re_sha env) (re_s3 env) (re_bucket env) (terminal_key run) of
                     Inr (reference, content) \<Rightarrow>
                       (case re_decode_terminal env content of
                          Inl _ \<Rightarrow> (applyMissingTerminalResult env run (Err ''terminal execution identity mismatch''), g)
                        | Inr r \<Rightarrow> (case verifyTerminalEvidence (re_sha env) (get_verified env) run r None of
                            Some e \<Rightarrow> (applyMissingTerminalResult env run e, g)
                          | None \<Rightarrow> (applyTerminalResult env run (with_ref r reference) None, g)))
                   | Inl e \<Rightarrow>
                       if \<not> artifact_IsNotFound e then (fail (Wrap ''cannot verify existing execution evidence'' e), g)
                       else if ps_Type (rs_Source spec) = SourceGitCommit then
                         (case re_get_configmap env (rs_ResolvedBackendConfigRef spec) of
                            Inl ce \<Rightarrow> (fail ce, g)
                          | Inr data \<Rightarrow>
                              (case ValidateBackendProfile (re_hcl env) (glookup data ''backend.hcl'') (Some profile) of
                                 Some be \<Rightarrow> (updateExecutionStatus env run ''Rejected'' ConditionFalse ''BackendRejected'' (err_text be), g)
                               | None \<Rightarrow> start_job env g run))
                       else start_job env g run)))"

definition follow_job :: "'w run_env \<Rightarrow> gate option \<Rightarrow> terraform_run \<Rightarrow> string \<Rightarrow> run_eff \<times> gate option" where
  "follow_job env g run name =
     (case re_get_job env name of
        Inl e \<Rightarrow>
          if is_not_found e
          then (updateExecutionStatus env run ''Indeterminate'' ConditionUnknown ''TerraformJobMissing''
                  ''Terraform Job disappeared before terminal evidence was captured.'', g)
          else (fail e, g)
      | Inr j \<Rightarrow>
          (case validateTerraformJobIdentity run j of
             Some e \<Rightarrow> (updateExecutionStatus env run ''Indeterminate'' ConditionUnknown ''TerraformJobIdentityMismatch'' (err_text e), g)
           | None \<Rightarrow>
               (let (ok, g') = (if js_Succeeded (job_Status j) = 0 \<and> js_Failed (job_Status j) = 0
                                then ensureExecutionSlot g run True else (True, g))
                in if \<not> ok
                   then (with_requeue second (updateExecutionStatus env run ''Pending'' ConditionFalse ''ExecutionSlotUnavailable''
                       ''Active Terraform Job is waiting for a reconstructed concurrency slot.''), g')
                   else (let e = reconcileJobStatus env run j in
                     (e, if job_terminal j \<and> \<not> isl (snd e) then releaseExecutionSlot g' run else g')))))"

definition terminal_outcomes :: "string list" where
  "terminal_outcomes = [''Succeeded'', ''NoChange'', ''ChangesPresent'', ''Indeterminate'', ''Rejected'', ''Failed'',
     ''Expired'', ''Superseded'']"

definition TerraformRun_Reconcile :: "'w run_env \<Rightarrow> gate option \<Rightarrow> run_eff \<times> gate option" where
  "TerraformRun_Reconcile env g =
     (case re_get_run env of
        Inl e \<Rightarrow> (if is_not_found e then ret done_result else fail e, g)
      | Inr run \<Rightarrow>
          (let m = run_Meta run; s = run_Status run; spec = run_Spec run in
           if \<not> cfg_ExecutionEnabled (re_config env) then
             (if rst_ObservedGeneration s \<noteq> om_Generation m \<or> \<not> skeletonConditionCurrent (rst_Conditions s) (om_Generation m)
              then perform (re_answer env)
                (UpdateRunStatusW (run\<lparr>run_Status := s\<lparr>rst_ObservedGeneration := om_Generation m,
                   rst_Conditions := [skeletonCondition (re_now env) (om_Generation m)]\<rparr>\<rparr>)) (ret done_result)
              else ret done_result, g)
           else if rs_Operation spec = ''Apply'' \<and> rs_MutationFence spec \<and> rs_PlanMode spec \<noteq> ''Destroy'' then
             (updateExecutionStatus env run ''Rejected'' ConditionFalse ''MutationFence''
                ''Apply admission is closed by the durable mutation fence.'', g)
           else if rst_ExecutionOutcome s \<in> set terminal_outcomes then (ret done_result, g)
           else (case rst_JobRef s of
               None \<Rightarrow> admit_run env g run
             | Some name \<Rightarrow> follow_job env g run name)))"

end
