(* ===== verification/RunSafety.thy ===== *)
theory RunSafety
  imports RunCtl
begin

section \<open>What the TerraformRun controller guarantees\<close>

text \<open>
  The log of every handler is described once (which writes it can hold), and the properties
  follow: a Job is created only for a recorded intent and an approved Apply, at most once per
  run whatever the order of reconciles, failures and crashes; an outcome that counts as success
  needs verified evidence; and the slots of the gate are accounted for, except for the leak of
  the last subsection.
\<close>

definition is_update :: "run_write \<Rightarrow> bool" where
  "is_update w \<longleftrightarrow> (case w of UpdateRunStatusW _ \<Rightarrow> True | CreateJobW _ \<Rightarrow> False)"

lemma is_update_simps [simp]: "is_update (UpdateRunStatusW r)" "\<not> is_update (CreateJobW j)"
  by (simp_all add: is_update_def)

text \<open>A log that only updates the status of one run and never drops its JobRef.\<close>

definition status_only :: "terraform_run \<Rightarrow> run_write list \<Rightarrow> bool" where
  "status_only run ws \<longleftrightarrow> (\<forall>w \<in> set ws. \<exists>r. w = UpdateRunStatusW r \<and> run_Spec r = run_Spec run
     \<and> run_Meta r = run_Meta run \<and> (rst_JobRef (run_Status run) \<noteq> None \<longrightarrow> rst_JobRef (run_Status r) \<noteq> None))"

lemma status_only_Nil [simp]: "status_only run []"
  by (simp add: status_only_def)

lemma status_only_no_job: "status_only run ws \<Longrightarrow> CreateJobW j \<notin> set ws"
  by (auto simp: status_only_def)

lemma updateExecutionStatus_log:
  "fst (updateExecutionStatus env run oc st rs m) = [] \<or>
   (\<exists>r. fst (updateExecutionStatus env run oc st rs m) = [UpdateRunStatusW r]
      \<and> run_Spec r = run_Spec run \<and> run_Meta r = run_Meta run
      \<and> rst_JobRef (run_Status r) = rst_JobRef (run_Status run)
      \<and> rst_ExecutionOutcome (run_Status r) = oc
      \<and> rst_EvidenceCaptured (run_Status r) = rst_EvidenceCaptured (run_Status run)
      \<and> rst_ArtifactsReady (run_Status r) = rst_ArtifactsReady (run_Status run))"
  by (auto simp: updateExecutionStatus_def perform_def Let_def split: sum.splits option.splits)

lemma updateExecutionStatus_status_only:
  "rst_JobRef (run_Status run') = rst_JobRef (run_Status run) \<Longrightarrow> run_Spec run' = run_Spec run \<Longrightarrow>
     run_Meta run' = run_Meta run \<Longrightarrow> status_only run (fst (updateExecutionStatus env run' oc st rs m))"
  using updateExecutionStatus_log [of env run' oc st rs m] by (auto simp: status_only_def)

lemma with_requeue_log [simp]: "fst (with_requeue d e) = fst e"
  by (auto simp: with_requeue_def eff_bind_def split: sum.splits)

lemma applyMissing_status_only: 
  "rst_JobRef (run_Status run') = rst_JobRef (run_Status run) \<Longrightarrow> run_Spec run' = run_Spec run \<Longrightarrow>
     run_Meta run' = run_Meta run \<Longrightarrow> status_only run (fst (applyMissingTerminalResult env run' e))"
  by (simp add: applyMissingTerminalResult_def Let_def updateExecutionStatus_status_only)

lemma terminal_status_JobRef [simp]: "rst_JobRef (terminal_status sha run r j) = rst_JobRef (run_Status run)"
  by (simp add: terminal_status_def Let_def)

lemma applyTerminal_status_only: "status_only run (fst (applyTerminalResult env run r j))"
  unfolding applyTerminalResult_def Let_def
  by (auto simp: updateExecutionStatus_status_only applyMissing_status_only split: prod.splits option.splits)

lemma reconcileJobStatus_status_only: "status_only run (fst (reconcileJobStatus env run j))"
  by (auto simp: reconcileJobStatus_def updateExecutionStatus_status_only applyMissing_status_only
      applyTerminal_status_only split: sum.splits)

lemma perform_status_only:
  "run_Spec r = run_Spec run \<Longrightarrow> run_Meta r = run_Meta run \<Longrightarrow>
     (rst_JobRef (run_Status run) \<noteq> None \<Longrightarrow> rst_JobRef (run_Status r) \<noteq> None) \<Longrightarrow>
     status_only run (fst (perform ans (UpdateRunStatusW r) (ret x)))"
  by (simp add: perform_def status_only_def split: option.splits)

lemma record_job_log: "status_only run (fst (record_job env run j))"
  by (simp add: record_job_def Let_def updateExecutionStatus_status_only perform_status_only split: option.splits)

lemma follow_job_status_only: "status_only run (fst (fst (follow_job env g run name)))"
  by (auto simp: follow_job_def Let_def updateExecutionStatus_status_only reconcileJobStatus_status_only
      split: sum.splits option.splits prod.splits)

text \<open>The log of an admission: status updates only, or the intent, the Job and updates after it.\<close>

definition intent_of :: "terraform_run \<Rightarrow> string \<Rightarrow> terraform_run" where
  "intent_of run name = run\<lparr>run_Status := (run_Status run)\<lparr>rst_JobRef := Some name\<rparr>\<rparr>"

definition job_log :: "'w run_env \<Rightarrow> terraform_run \<Rightarrow> run_write list \<Rightarrow> bool" where
  "job_log env run ws \<longleftrightarrow> (\<exists>name j rest. ws = UpdateRunStatusW (intent_of run name) # CreateJobW j # rest
     \<and> re_answer env (UpdateRunStatusW (intent_of run name)) = None
     \<and> status_only (intent_of run name) rest)"

lemma create_job_cases:
  "status_only run (fst (fst (create_job env g run j))) \<or> job_log env run (fst (fst (create_job env g run j)))"
proof -
  have "status_only (intent_of run n) (fst (record_job env (intent_of run n) k))" for n k
    by (rule record_job_log)
  then show ?thesis
    by (auto simp: create_job_def job_log_def intent_of_def status_only_def Let_def
        split: sum.splits option.splits prod.splits) (metis fst_conv)+
qed

lemma start_job_cases:
  "status_only run (fst (fst (start_job env g run))) \<or>
   job_log env run (fst (fst (start_job env g run))) \<and> fst (ensureExecutionSlot g run False)
   \<and> (rs_Operation (run_Spec run) = ''Apply'' \<longrightarrow> validateApplyApproval env run = None)"
proof -
  obtain ok g' where slot: "ensureExecutionSlot g run False = (ok, g')" by fastforce
  let ?approval = "if rs_Operation (run_Spec run) = ''Apply'' then validateApplyApproval env run else None"
  show ?thesis
  proof (cases "ok \<and> ?approval = None")
    case False
    have "status_only run (fst (fst (start_job env g run)))"
    proof (cases ok)
      case True
      with False obtain e where "?approval = Some e" by auto
      then show ?thesis using True unfolding start_job_def slot by (simp add: updateExecutionStatus_status_only)
    qed (simp add: start_job_def slot updateExecutionStatus_status_only)
    then show ?thesis ..
  next
    case True
    then have "start_job env g run = (case run_buildJob (re_config env) run of
        Inl e \<Rightarrow> (updateExecutionStatus env run ''Rejected'' ConditionFalse ''TerraformJobRejected'' (err_text e),
          releaseExecutionSlot g' run)
      | Inr j \<Rightarrow> (case re_get_job env (om_Name (job_Meta j)) of
          Inr existing \<Rightarrow> (record_job env run existing, g')
        | Inl e \<Rightarrow> if is_not_found e then create_job env g' run j else (fail e, releaseExecutionSlot g' run)))"
      by (simp only: start_job_def slot) simp
    then have "status_only run (fst (fst (start_job env g run))) \<or> job_log env run (fst (fst (start_job env g run)))"
      using create_job_cases [of run env g']
      by (auto simp: updateExecutionStatus_status_only record_job_log split: sum.splits)
    then show ?thesis using True slot by auto
  qed
qed

lemma admit_run_cases:
  "status_only run (fst (fst (admit_run env g run))) \<or>
   fst (fst (admit_run env g run)) = fst (fst (start_job env g run))
   \<and> (\<exists>p. resolveExecutionProfile (re_sha env) (re_get_secret env) (om_Namespace (run_Meta run))
        (rs_ExecutionProfile (run_Spec run)) = Inr p)
   \<and> immutableImage (ex_Image (rs_Executor (run_Spec run)))"
  unfolding admit_run_def Let_def
  by (auto simp: updateExecutionStatus_status_only applyMissing_status_only applyTerminal_status_only
      split: sum.split option.split prod.split if_split)

definition fenced_apply :: "terraform_run \<Rightarrow> bool" where
  "fenced_apply run \<longleftrightarrow> rs_Operation (run_Spec run) = ''Apply'' \<and> rs_MutationFence (run_Spec run)
     \<and> rs_PlanMode (run_Spec run) \<noteq> ''Destroy''"

definition may_start :: "'w run_env \<Rightarrow> gate option \<Rightarrow> terraform_run \<Rightarrow> bool" where
  "may_start env g run \<longleftrightarrow> rst_JobRef (run_Status run) = None
     \<and> rst_ExecutionOutcome (run_Status run) \<notin> set terminal_outcomes
     \<and> \<not> fenced_apply run
     \<and> immutableImage (ex_Image (rs_Executor (run_Spec run)))
     \<and> fst (ensureExecutionSlot g run False)
     \<and> (rs_Operation (run_Spec run) = ''Apply'' \<longrightarrow> validateApplyApproval env run = None)"

lemma reconcile_cases:
  assumes "re_get_run env = Inr run"
  shows "status_only run (fst (fst (TerraformRun_Reconcile env g))) \<or>
     job_log env run (fst (fst (TerraformRun_Reconcile env g))) \<and> may_start env g run"
proof (cases "cfg_ExecutionEnabled (re_config env) \<and> \<not> fenced_apply run
    \<and> rst_ExecutionOutcome (run_Status run) \<notin> set terminal_outcomes")
  case False
  then have "status_only run (fst (fst (TerraformRun_Reconcile env g)))"
    using assms by (auto simp: TerraformRun_Reconcile_def fenced_apply_def Let_def perform_status_only
        updateExecutionStatus_status_only)
  then show ?thesis ..
next
  case True
  then have r: "TerraformRun_Reconcile env g =
      (case rst_JobRef (run_Status run) of None \<Rightarrow> admit_run env g run | Some name \<Rightarrow> follow_job env g run name)"
    using assms by (auto simp: TerraformRun_Reconcile_def fenced_apply_def Let_def)
  show ?thesis
  proof (cases "rst_JobRef (run_Status run)")
    case None
    then show ?thesis
      using True r admit_run_cases [of run env g] start_job_cases [of run env g] by (auto simp: may_start_def)
  next
    case (Some name)
    then show ?thesis using r follow_job_status_only [of run env g name] by simp
  qed
qed

lemma reconcile_no_run:
  "re_get_run env = Inl e \<Longrightarrow> fst (fst (TerraformRun_Reconcile env g)) = []"
  by (simp add: TerraformRun_Reconcile_def)

subsection \<open>A concrete reconcile\<close>

text \<open>An API server that accepts every write, an empty bucket and one run that is ready to start.\<close>

definition sample_secret :: secret where
  "sample_secret = \<lparr>sec_Meta = empty_meta\<lparr>om_Name := ''c'', om_Namespace := ''n'', om_UID := ''cu'', om_ResourceVersion := ''1''\<rparr>,
     sec_Data = [(''AWS_ACCESS_KEY_ID'', ''test''), (''AWS_SECRET_ACCESS_KEY'', ''test'')]\<rparr>"

definition sample_identity_digest :: string where
  "sample_identity_digest = digestIdentity (\<lambda>s. s) (strings_json [''n'', ''c'', ''cu'', ''1''])"

definition sample_image :: string where
  "sample_image = ''i@sha256:'' @ replicate 64 CHR ''0''"

definition sample_run :: terraform_run where
  "sample_run = zero_terraform_run\<lparr>run_Meta := empty_meta\<lparr>om_Name := ''run'', om_Namespace := ''n'', om_UID := ''ru''\<rparr>,
     run_Spec := zero_terraform_run_spec\<lparr>rs_Operation := ''Plan'', rs_StackRef := ''s'',
       rs_ExecutionProfile := Some (sample_profile\<lparr>ep_CredentialsIdentity := sample_identity_digest\<rparr>),
       rs_Workspace := ''default'',
       rs_Source := (rs_Source zero_terraform_run_spec)\<lparr>ps_Type := SourceRetainedBundle, ps_Ref := ''sr'', ps_Digest := ''sd''\<rparr>,
       rs_Executor := (rs_Executor zero_terraform_run_spec)\<lparr>ex_Image := sample_image\<rparr>\<rparr>\<rparr>"

definition empty_s3 :: "unit s3_api" where
  "empty_s3 = \<lparr>s3_put = (\<lambda>w i. (Inr [], w)), s3_get = (\<lambda>_ _ _. Inl (HttpErr 404 [])), s3_head = (\<lambda>_ _. Inl (HttpErr 404 []))\<rparr>"

definition sample_env :: "unit run_env" where
  "sample_env = \<lparr>re_now = 7, re_sha = (\<lambda>s. s),
     re_config = \<lparr>cfg_ExecutionEnabled = True, cfg_GitImage = [], cfg_ArtifactEndpoint = ''http://a:4566'',
       cfg_ArtifactRegion = ''r'', cfg_ArtifactBucket = ''b'', cfg_ArtifactKMSKeyID = []\<rparr>,
     re_credentials = \<lparr>AWS_ACCESS_KEY_ID = ''test'', AWS_SECRET_ACCESS_KEY = ''test'', AWS_SESSION_TOKEN = []\<rparr>,
     re_get_run = Inr sample_run, re_previous = Inr sample_run, re_get_secret = (\<lambda>_. Inr sample_secret),
     re_get_configmap = (\<lambda>_. Inr []), re_get_job = (\<lambda>_. Inl (ApiErr NotFound [])),
     re_get_approval = (\<lambda>_. Inl (Err [])), re_get_plan = (\<lambda>_. Inl (Err [])), re_get_stack = (\<lambda>_. Inl (Err [])),
     re_s3 = empty_s3, re_bucket = (), re_decode_terminal = (\<lambda>_. Inl (Err [])),
     re_hcl = (\<lambda>_. None), re_set_owner = (\<lambda>owner kind m. Inr (m\<lparr>om_OwnerReferences :=
       [\<lparr>or_Kind = kind, or_Name = om_Name owner, or_UID = om_UID owner, or_Controller = Some True\<rparr>]\<rparr>)),
     re_created = (\<lambda>j. j), re_answer = (\<lambda>_. None)\<rparr>"

lemma sample_profile_resolved:
  "resolveExecutionProfile (\<lambda>s. s) (\<lambda>_. Inr sample_secret) ''n'' (rs_ExecutionProfile (run_Spec sample_run))
     = Inr (sample_profile\<lparr>ep_CredentialsIdentity := sample_identity_digest\<rparr>)"
  by code_simp

lemma sample_identity_digest_present: "sample_identity_digest \<noteq> []"
  by code_simp

lemma sample_image_immutable: "immutableImage sample_image"
  by code_simp

lemma sample_job: "\<exists>j. run_buildJob (re_config sample_env) sample_run = Inr j"
proof -
  let ?r = "run_job_request (re_config sample_env) sample_run"
  let ?p = "sample_profile\<lparr>ep_CredentialsIdentity := sample_identity_digest\<rparr>"
  have v: "job_request_validate ?r = None" by code_simp
  have p: "ValidateExecutionProfile (Some ?p) = None" by code_simp
  have "\<exists>values. foldl bind_input (Inr []) (authority_inputs ?p []) = Inr values"
    by (rule bind_inputs_succeeds) (simp_all add: authority_inputs_def)
  then have "\<exists>penv. profile_env ?r = Inr penv"
    using p by (auto simp: profile_env_def run_job_request_def sample_run_def zero_terraform_run_spec_def
        BindModuleInputs_def checked_def sum_bind_def Let_def)
  moreover have "jr_VariableSecretVariables ?r = []" by code_simp
  ultimately show ?thesis
    using v by (auto simp: run_buildJob_def BuildJob_def checked_def sum_bind_def)
qed

lemma sample_store: "run_store sample_env = Inr (''b'', [])"
  by code_simp

lemma sample_no_evidence:
  "GetVerifiedByKey (\<lambda>s. s) empty_s3 () (terminal_key sample_run) = Inl (HttpErr 404 [])"
  by code_simp


lemma sample_env_fields:
  "re_sha sample_env = (\<lambda>s. s)" "re_get_run sample_env = Inr sample_run"
  "re_get_secret sample_env = (\<lambda>_. Inr sample_secret)" "re_s3 sample_env = empty_s3"
  "re_get_job sample_env n = Inl (ApiErr NotFound [])" "re_answer sample_env w = None"
  "re_created sample_env j = j" "cfg_ExecutionEnabled (re_config sample_env)"
  "cfg_ArtifactBucket (re_config sample_env) = ''b''" "cfg_ArtifactRegion (re_config sample_env) = ''r''"
  "\<exists>m. re_set_owner sample_env a k b = Inr m"
  by (simp_all add: sample_env_def)

lemma sample_run_fields:
  "rs_Operation (run_Spec sample_run) = ''Plan''" "om_Namespace (run_Meta sample_run) = ''n''"
  "ex_Image (rs_Executor (run_Spec sample_run)) = sample_image"
  "rs_ExecutionProfile (run_Spec sample_run) = Some (sample_profile\<lparr>ep_CredentialsIdentity := sample_identity_digest\<rparr>)"
  "ps_Type (rs_Source (run_Spec sample_run)) = SourceRetainedBundle"
  "rst_ExecutionOutcome (run_Status sample_run) = []" "rst_JobRef (run_Status sample_run) = None"
  by (simp_all add: sample_run_def zero_terraform_run_def zero_terraform_run_status_def)

lemma sample_starts:
  "\<exists>j. CreateJobW j \<in> set (fst (fst (TerraformRun_Reconcile sample_env None)))"
proof -
  obtain j where j: "run_buildJob (re_config sample_env) sample_run = Inr j" using sample_job ..
  have r: "TerraformRun_Reconcile sample_env None = admit_run sample_env None sample_run"
    by (simp add: TerraformRun_Reconcile_def sample_env_fields sample_run_fields terminal_outcomes_def)
  have a: "admit_run sample_env None sample_run = start_job sample_env None sample_run"
    using sample_profile_resolved sample_identity_digest_present sample_image_immutable sample_store sample_no_evidence
    by (simp add: admit_run_def sample_env_fields sample_run_fields sample_profile_def artifact_IsNotFound_def)
  have s: "start_job sample_env None sample_run = create_job sample_env None sample_run j"
    using j by (simp add: start_job_def ensureExecutionSlot_def sample_env_fields sample_run_fields)
  obtain m where m: "re_set_owner sample_env (run_Meta sample_run) ''TerraformRun'' (job_Meta j) = Inr m"
    using sample_env_fields by blast
  show ?thesis unfolding r a s
    by (simp add: create_job_def sample_env_fields m Let_def split: prod.split) blast
qed

text \<open>
  C2. A reconcile creates a Job only when the run has none recorded and has not ended, the
  fence does not close it, its slot is granted and, for an Apply, the whole approval chain was
  verified; and the first write of the log, accepted by the API server before the Job is
  created, records the intent in the run's JobRef.
\<close>
theorem jobs_follow_intent_and_approval:
  assumes "CreateJobW j \<in> set (fst (fst (TerraformRun_Reconcile env g)))"
  shows "\<exists>run name rest. re_get_run env = Inr run \<and> may_start env g run
     \<and> fst (fst (TerraformRun_Reconcile env g)) = UpdateRunStatusW (intent_of run name) # CreateJobW j # rest
     \<and> re_answer env (UpdateRunStatusW (intent_of run name)) = None"
proof (cases "re_get_run env")
  case (Inl e)
  then show ?thesis using assms reconcile_no_run by fastforce
next
  case (Inr run)
  have nostat: "\<not> status_only run (fst (fst (TerraformRun_Reconcile env g)))"
    using assms status_only_no_job by blast
  then obtain name k rest where l: "fst (fst (TerraformRun_Reconcile env g)) = UpdateRunStatusW (intent_of run name) # CreateJobW k # rest"
    and a: "re_answer env (UpdateRunStatusW (intent_of run name)) = None"
    and s: "status_only (intent_of run name) rest" and m: "may_start env g run"
    using reconcile_cases [OF Inr, of g] unfolding job_log_def by blast
  have "k = j" using assms l status_only_no_job [OF s] by auto
  then show ?thesis using Inr l a m by blast
qed

theorem jobs_follow_intent_and_approval_witness:
  "\<exists>run name. re_get_run sample_env = Inr run \<and> may_start sample_env None run
     \<and> re_answer sample_env (UpdateRunStatusW (intent_of run name)) = None"
proof -
  obtain j where "CreateJobW j \<in> set (fst (fst (TerraformRun_Reconcile sample_env None)))" using sample_starts ..
  from jobs_follow_intent_and_approval [OF this] show ?thesis by blast
qed

subsection \<open>At most one Job per run\<close>

text \<open>
  The world of one run: the stored object and the Jobs ever created for it. A reconcile may be
  cut off after any of its writes; a write the API server refused has no effect; a status
  update changes only the status. A reconcile that read a stale copy has its status updates
  refused (the resource version is old). Anyone else may change the object in any way that does
  not take a recorded JobRef away.
\<close>

record run_world =
  rw_current :: terraform_run
  rw_jobs :: "job list"

definition apply_write :: "'w run_env \<Rightarrow> run_write \<Rightarrow> run_world \<Rightarrow> run_world" where
  "apply_write env w wd =
     (if re_answer env w \<noteq> None then wd
      else case w of
        UpdateRunStatusW r \<Rightarrow> wd\<lparr>rw_current := (rw_current wd)\<lparr>run_Status := run_Status r\<rparr>\<rparr>
      | CreateJobW j \<Rightarrow> wd\<lparr>rw_jobs := rw_jobs wd @ [j]\<rparr>)"

definition apply_writes :: "'w run_env \<Rightarrow> run_write list \<Rightarrow> run_world \<Rightarrow> run_world" where
  "apply_writes env ws wd = fold (apply_write env) ws wd"

datatype 'w run_event = Reconciled "'w run_env" "gate option" nat | Changed terraform_run

inductive run_history :: "terraform_run \<Rightarrow> 'w run_event list \<Rightarrow> run_world \<Rightarrow> bool" for run0 where
  fresh_run: "run_history run0 [] \<lparr>rw_current = run0, rw_jobs = []\<rparr>"
| reconciled: "run_history run0 evs wd \<Longrightarrow> re_get_run env = Inr run \<Longrightarrow>
     run = rw_current wd \<or> (\<forall>r. re_answer env (UpdateRunStatusW r) \<noteq> None) \<Longrightarrow>
     wd' = apply_writes env (take n (fst (fst (TerraformRun_Reconcile env g)))) wd \<Longrightarrow>
     run_history run0 (Reconciled env g n # evs) wd'"
| changed: "run_history run0 evs wd \<Longrightarrow>
     (rst_JobRef (run_Status (rw_current wd)) \<noteq> None \<longrightarrow> rst_JobRef (run_Status run) \<noteq> None) \<Longrightarrow>
     run_history run0 (Changed run # evs) (wd\<lparr>rw_current := run\<rparr>)"

inductive_cases run_history_ReconciledE: "run_history run0 (Reconciled env g n # evs) wd"

definition one_job :: "run_world \<Rightarrow> bool" where
  "one_job wd \<longleftrightarrow> length (rw_jobs wd) \<le> 1
     \<and> (rw_jobs wd \<noteq> [] \<longrightarrow> rst_JobRef (run_Status (rw_current wd)) \<noteq> None)"

lemma apply_writes_Nil [simp]: "apply_writes env [] wd = wd"
  by (simp add: apply_writes_def)

lemma apply_writes_Cons [simp]: "apply_writes env (w # ws) wd = apply_writes env ws (apply_write env w wd)"
  by (simp add: apply_writes_def)

lemma status_only_take: "status_only run ws \<Longrightarrow> status_only run (take n ws)"
  by (auto simp: status_only_def dest: in_set_takeD)

lemma apply_status_only:
  "status_only run ws \<Longrightarrow> rw_jobs (apply_writes env ws wd) = rw_jobs wd \<and>
     (rst_JobRef (run_Status run) \<noteq> None \<longrightarrow> rst_JobRef (run_Status (rw_current wd)) \<noteq> None \<longrightarrow>
        rst_JobRef (run_Status (rw_current (apply_writes env ws wd))) \<noteq> None)"
proof (induction ws arbitrary: wd)
  case (Cons w ws)
  then obtain r where w: "w = UpdateRunStatusW r"
    "rst_JobRef (run_Status run) \<noteq> None \<longrightarrow> rst_JobRef (run_Status r) \<noteq> None"
    and ws: "status_only run ws" by (auto simp: status_only_def)
  show ?case using Cons.IH [OF ws, of "apply_write env w wd"] w by (auto simp: apply_write_def)
qed simp

lemma refused_updates:
  assumes "\<forall>r. re_answer env (UpdateRunStatusW r) \<noteq> None" and "status_only run ws"
  shows "apply_writes env ws wd = wd"
  using assms(2)
proof (induction ws)
  case (Cons w ws)
  then obtain r where w: "w = UpdateRunStatusW r" and ws: "status_only run ws" by (auto simp: status_only_def)
  have "apply_write env w wd = wd" using assms(1) w by (simp add: apply_write_def)
  then show ?case using Cons.IH [OF ws] by simp
qed simp

lemma reconcile_one_job:
  assumes inv: "one_job wd" and read: "re_get_run env = Inr run"
    and view: "run = rw_current wd \<or> (\<forall>r. re_answer env (UpdateRunStatusW r) \<noteq> None)"
  shows "one_job (apply_writes env (take n (fst (fst (TerraformRun_Reconcile env g)))) wd)"
proof (cases "status_only run (fst (fst (TerraformRun_Reconcile env g)))")
  case True
  then have t: "status_only run (take n (fst (fst (TerraformRun_Reconcile env g))))" by (rule status_only_take)
  from view show ?thesis
  proof
    assume "run = rw_current wd"
    then show ?thesis using apply_status_only [OF t, of env wd] inv by (auto simp: one_job_def)
  next
    assume "\<forall>r. re_answer env (UpdateRunStatusW r) \<noteq> None"
    then have "apply_writes env (take n (fst (fst (TerraformRun_Reconcile env g)))) wd = wd"
      using t by (rule refused_updates)
    then show ?thesis using inv by simp
  qed
next
  case False
  then obtain name j rest where l: "fst (fst (TerraformRun_Reconcile env g)) = UpdateRunStatusW (intent_of run name) # CreateJobW j # rest"
    and a: "re_answer env (UpdateRunStatusW (intent_of run name)) = None"
    and s: "status_only (intent_of run name) rest" and m: "may_start env g run"
    using reconcile_cases [OF read, of g] unfolding job_log_def by blast
  have cur: "run = rw_current wd" using view a by blast
  then have none: "rw_jobs wd = []" using inv m by (auto simp: one_job_def may_start_def)
  let ?w1 = "apply_write env (UpdateRunStatusW (intent_of run name)) wd"
  let ?w2 = "apply_write env (CreateJobW j) ?w1"
  have w1: "rw_jobs ?w1 = []" "rst_JobRef (run_Status (rw_current ?w1)) \<noteq> None"
    using a none by (simp_all add: apply_write_def intent_of_def)
  then have w2: "length (rw_jobs ?w2) \<le> 1" "rst_JobRef (run_Status (rw_current ?w2)) \<noteq> None"
    by (auto simp: apply_write_def)
  have "rst_JobRef (run_Status (intent_of run name)) \<noteq> None" by (simp add: intent_of_def)
  then have rest: "one_job (apply_writes env (take k rest) ?w2)" for k
    using apply_status_only [OF status_only_take [OF s], of env k ?w2] w2 by (auto simp: one_job_def)
  consider "n = 0" | "n = 1" | k where "n = Suc (Suc k)" by (metis One_nat_def not0_implies_Suc)
  then show ?thesis
    using inv w1 rest by cases (auto simp: l one_job_def)
qed

lemma history_one_job: "run_history run0 evs wd \<Longrightarrow> one_job wd"
proof (induction rule: run_history.induct)
  case fresh_run
  then show ?case by (simp add: one_job_def)
next
  case (reconciled evs wd env run wd' n g)
  then show ?case using reconcile_one_job by blast
next
  case (changed evs wd run)
  then show ?case by (auto simp: one_job_def)
qed

text \<open>
  C1. At most one Job is ever created for a run: over any history of reconciles, on fresh or
  stale reads, with any writes refused and any reconcile cut off between two writes, an Apply
  that may have executed is never started again.
\<close>
theorem at_most_one_job_per_run:
  assumes "run_history run0 evs wd"
  shows "length (rw_jobs wd) \<le> 1
     \<and> (rw_jobs wd \<noteq> [] \<longrightarrow> rst_JobRef (run_Status (rw_current wd)) \<noteq> None)"
  using history_one_job [OF assms] by (simp add: one_job_def)

text \<open>A first reconcile of a run starts its one Job.\<close>

theorem at_most_one_job_per_run_witness:
  "\<exists>wd. run_history sample_run [Changed (rw_current wd), Reconciled sample_env None 2] wd \<and> length (rw_jobs wd) = 1"
proof -
  let ?log = "fst (fst (TerraformRun_Reconcile sample_env None))"
  have get: "re_get_run sample_env = Inr sample_run" and ok: "re_answer sample_env w = None" for w
    by (simp_all add: sample_env_fields)
  have "\<not> status_only sample_run ?log" using sample_starts status_only_no_job by blast
  then obtain name k rest where l: "?log = UpdateRunStatusW (intent_of sample_run name) # CreateJobW k # rest"
    using reconcile_cases [OF get, of None] unfolding job_log_def by blast
  define wd where "wd = apply_writes sample_env (take 2 ?log) \<lparr>rw_current = sample_run, rw_jobs = []\<rparr>"
  have jobs: "rw_jobs wd = [k]" by (simp add: wd_def l apply_write_def ok)
  have "run_history sample_run [Reconciled sample_env None 2] wd"
    by (rule reconciled [OF fresh_run get _ wd_def]) simp
  then have h: "run_history sample_run [Changed (rw_current wd), Reconciled sample_env None 2] (wd\<lparr>rw_current := rw_current wd\<rparr>)"
    by (rule changed) simp
  from at_most_one_job_per_run [OF h] jobs h show ?thesis by (intro exI [of _ wd]) simp
qed

subsection \<open>No success without verified evidence\<close>

definition success_outcomes :: "string set" where
  "success_outcomes = {''Succeeded'', ''NoChange'', ''ChangesPresent''}"

text \<open>
  An artifact the result names by key and digest was read back: the object under the key has the digest.
\<close>

definition stored :: "'w run_env \<Rightarrow> string \<Rightarrow> string \<Rightarrow> bool" where
  "stored env key digest \<longleftrightarrow> key \<noteq> [] \<and> digest \<noteq> []
     \<and> (\<exists>c. s3_get (re_s3 env) (re_bucket env) key [] = Inr c \<and> artifact_digest (re_sha env) c = digest)"

text \<open>The result is of this run, and its outcome is the one of its operation and exit code.\<close>

definition result_of_run :: "terraform_run \<Rightarrow> runner_terminal_result \<Rightarrow> bool" where
  "result_of_run run t \<longleftrightarrow> (let outcome = trr_ExecutionOutcome t; operation = rs_Operation (run_Spec run) in
     trr_RunUID t = om_UID (run_Meta run) \<and> trr_Operation t = operation \<and> trr_JobUID t \<noteq> []
     \<and> (rst_JobUID (run_Status run) = [] \<or> trr_JobUID t = rst_JobUID (run_Status run))
     \<and> 0 \<noteq> trr_StartedAt t \<and> trr_StartedAt t \<le> trr_FinishedAt t
     \<and> (outcome = ''Succeeded'' \<longrightarrow> operation = ''Apply'' \<and> trr_TerraformExitCode t = 0)
     \<and> (outcome = ''NoChange'' \<longrightarrow> operation = ''Plan'' \<and> trr_TerraformExitCode t = 0 \<and> \<not> trr_HasChanges t)
     \<and> (outcome = ''ChangesPresent'' \<longrightarrow> operation = ''Plan'' \<and> trr_TerraformExitCode t = 2 \<and> trr_HasChanges t))"

text \<open>
  The artifacts read back: plan, sources, backend configuration and module inputs in every case; the
  report of a Plan, whose saved plan lies under the run's own key; the target discovery, unless changes are only
  planned. An Apply names the plan, sources and backend its specification was approved with.
\<close>

definition artifacts_stored :: "'w run_env \<Rightarrow> terraform_run \<Rightarrow> runner_terminal_result \<Rightarrow> bool" where
  "artifacts_stored env run t \<longleftrightarrow> (let uid = om_UID (run_Meta run); spec = run_Spec run in
     stored env (trr_PlanRef t) (trr_PlanDigest t)
     \<and> stored env (trr_SourceBundleRef t) (trr_SourceBundleDigest t)
     \<and> stored env (trr_BackendConfigRef t) (trr_BackendConfigDigest t)
     \<and> stored env (path_join [''runs'', uid, ''module-inputs.json'']) (''sha256:'' @ re_sha env (json_text (gomap_json (rs_Inputs spec))))
     \<and> (rs_Operation spec = ''Plan'' \<longrightarrow> trr_PlanRef t = path_join [''runs'', uid, ''plan.binary'']
          \<and> stored env (trr_PlanReportRef t) (trr_PlanReportDigest t))
     \<and> (trr_ExecutionOutcome t \<in> {''NoChange'', ''Succeeded''} \<longrightarrow> stored env (trr_TargetDiscoveryRef t) (trr_TargetDiscoveryDigest t))
     \<and> (rs_Operation spec = ''Apply'' \<longrightarrow> trr_PlanRef t = rs_PlanRef spec \<and> trr_PlanDigest t = rs_PlanDigest spec
          \<and> trr_SourceBundleDigest t = ps_Digest (rs_Source spec)
          \<and> trr_BackendConfigDigest t = rs_BackendConfigArtifactDigest spec)
     \<and> trr_EffectivePlanInputDigest t \<noteq> [])"

definition proves :: "'w run_env \<Rightarrow> terraform_run \<Rightarrow> ref \<Rightarrow> runner_terminal_result \<Rightarrow> bool" where
  "proves env run reference t \<longleftrightarrow> (\<exists>content.
     GetVerifiedByKey (re_sha env) (re_s3 env) (re_bucket env) (path_join [''runs'', om_UID (run_Meta run), ''terminal-result.json''])
       = Inr (reference, content)
     \<and> re_decode_terminal env content = Inr t)
     \<and> trr_ArtifactsReady t \<and> result_of_run run t \<and> artifacts_stored env run t"

text \<open>The status takes over the outcome, the result and the artifacts, and nothing else stands for them.\<close>

definition records_result :: "string \<Rightarrow> ref \<Rightarrow> runner_terminal_result \<Rightarrow> terraform_run_status \<Rightarrow> bool" where
  "records_result operation reference t s \<longleftrightarrow>
     rst_ExecutionOutcome s = trr_ExecutionOutcome t \<and> rst_EvidenceCaptured s \<and> rst_ArtifactsReady s
     \<and> rst_HasChanges s = trr_HasChanges t
     \<and> rst_TerminalResultRef s = ref_Key reference \<and> rst_TerminalResultDigest s = ref_Digest reference
     \<and> rst_PlanRef s = trr_PlanRef t \<and> rst_PlanDigest s = trr_PlanDigest t
     \<and> rst_SourceBundleRef s = trr_SourceBundleRef t \<and> rst_SourceBundleDigest s = trr_SourceBundleDigest t
     \<and> rst_ResolvedBackendConfigRef s = trr_BackendConfigRef t \<and> rst_ResolvedBackendConfigDigest s = trr_BackendConfigDigest t
     \<and> (operation = ''Plan'' \<longrightarrow> rst_PlanReportRef s = trr_PlanReportRef t \<and> rst_PlanReportDigest s = trr_PlanReportDigest t)
     \<and> rst_TargetDiscoveryRef s = trr_TargetDiscoveryRef t \<and> rst_TargetDiscoveryDigest s = trr_TargetDiscoveryDigest t
     \<and> rst_EffectivePlanInputDigest s = trr_EffectivePlanInputDigest t"

definition evidence_for :: "'w run_env \<Rightarrow> terraform_run \<Rightarrow> terraform_run_status \<Rightarrow> bool" where
  "evidence_for env run s \<longleftrightarrow>
     (\<exists>reference t. proves env run reference t \<and> records_result (rs_Operation (run_Spec run)) reference t s)"

definition evidenced :: "'w run_env \<Rightarrow> terraform_run \<Rightarrow> run_write list \<Rightarrow> bool" where
  "evidenced env run ws \<longleftrightarrow> (\<forall>r. UpdateRunStatusW r \<in> set ws \<longrightarrow>
     rst_ExecutionOutcome (run_Status r) = rst_ExecutionOutcome (run_Status run)
     \<or> rst_ExecutionOutcome (run_Status r) \<notin> success_outcomes
     \<or> evidence_for env run (run_Status r))"

lemma verify_refs_stored:
  "verify_refs (get_verified env) rs = None \<Longrightarrow> artifact_ref key digest \<in> set rs \<Longrightarrow> stored env key digest"
  by (induction rs)
    (auto simp: get_verified_def GetVerified_def stored_def artifact_ref_def split: if_splits sum.splits)

lemma moduleInputsRef_artifact: "moduleInputsRef sha run =
  artifact_ref (path_join [''runs'', om_UID (run_Meta run), ''module-inputs.json'']) (''sha256:'' @ sha (json_text (gomap_json (rs_Inputs (run_Spec run)))))"
  by (simp add: moduleInputsRef_def artifact_ref_def)

lemma verified_artifacts_stored:
  assumes v: "verifyTerminalEvidence (re_sha env) (get_verified env) run t j = None" and ready: "trr_ArtifactsReady t"
  shows "artifacts_stored env run t"
proof -
  from v ready have refs: "verify_refs (get_verified env) (terminal_refs (re_sha env) run t) = None"
    and rest: "trr_EffectivePlanInputDigest t \<noteq> []" "rs_Operation (run_Spec run) = ''Apply'' \<longrightarrow> trr_PlanRef t = rs_PlanRef (run_Spec run)
        \<and> trr_PlanDigest t = rs_PlanDigest (run_Spec run) \<and> trr_SourceBundleDigest t = ps_Digest (rs_Source (run_Spec run))
        \<and> trr_BackendConfigDigest t = rs_BackendConfigArtifactDigest (run_Spec run)"
      "rs_Operation (run_Spec run) = ''Plan'' \<longrightarrow> trr_PlanRef t = path_join [''runs'', om_UID (run_Meta run), ''plan.binary'']"
    by (auto simp: verifyTerminalEvidence_def validateTerminalIdentity_def Let_def split: if_splits)
  have "stored env key digest" if "artifact_ref key digest \<in> set (terminal_refs (re_sha env) run t)" for key digest
    using verify_refs_stored [OF refs that] .
  with rest show ?thesis by (auto simp: artifacts_stored_def terminal_refs_def moduleInputsRef_artifact Let_def)
qed

lemma verified_result_of_run:
  "verifyTerminalEvidence (re_sha env) (get_verified env) run t j = None \<Longrightarrow> result_of_run run t"
  by (auto simp: verifyTerminalEvidence_def validateTerminalIdentity_def terminal_outcome_error_def result_of_run_def Let_def
      split: if_splits)

lemma provesI:
  assumes "GetVerifiedByKey (re_sha env) (re_s3 env) (re_bucket env) (terminal_key run) = Inr (reference, content)"
    and "re_decode_terminal env content = Inr t"
    and "verifyTerminalEvidence (re_sha env) (get_verified env) run t j = None"
    and "trr_ArtifactsReady t"
  shows "proves env run reference t"
  using assms verified_artifacts_stored [OF assms(3,4)] verified_result_of_run [OF assms(3)]
  by (auto simp: proves_def terminal_key_def)

lemma evidenced_Nil [simp]: "evidenced env run []"
  by (simp add: evidenced_def)

lemma updateExecutionStatus_evidenced:
  "oc \<notin> success_outcomes \<or> oc = rst_ExecutionOutcome (run_Status run) \<Longrightarrow>
     evidenced env run (fst (updateExecutionStatus env run' oc st rs m))"
  using updateExecutionStatus_log [of env run' oc st rs m] by (auto simp: evidenced_def)

lemma updateExecutionStatus_status:
  "UpdateRunStatusW r \<in> set (fst (updateExecutionStatus env run' oc st rs m)) \<Longrightarrow>
     \<exists>g c. run_Status r = (run_Status run')\<lparr>rst_ObservedGeneration := g, rst_ExecutionOutcome := oc, rst_Conditions := c\<rparr>"
  by (auto simp: updateExecutionStatus_def perform_def Let_def split: sum.splits option.splits if_splits)

lemma not_success [simp]:
  "''Indeterminate'' \<notin> success_outcomes" "''Failed'' \<notin> success_outcomes" "''Rejected'' \<notin> success_outcomes"
  "''Pending'' \<notin> success_outcomes" "''Running'' \<notin> success_outcomes"
  by (simp_all add: success_outcomes_def)

lemma applyMissing_evidenced: "evidenced env run (fst (applyMissingTerminalResult env run' e))"
  by (simp add: applyMissingTerminalResult_def Let_def updateExecutionStatus_evidenced)

lemma with_ref_fields [simp]:
  "trr_ArtifactsReady (with_ref r x) = trr_ArtifactsReady r" "trr_ExecutionOutcome (with_ref r x) = trr_ExecutionOutcome r"
  by (simp_all add: with_ref_def)

lemma terminal_status_records:
  assumes "proves env run reference t"
  shows "records_result (rs_Operation (run_Spec run)) reference t
    ((terminal_status sha run (with_ref t reference) j)\<lparr>rst_ExecutionOutcome := trr_ExecutionOutcome t\<rparr>)"
  using assms
  by (auto simp: proves_def artifacts_stored_def stored_def records_result_def terminal_status_def with_ref_def Let_def)

lemma records_result_updates [simp]:
  "records_result op reference t (s\<lparr>rst_ObservedGeneration := g, rst_ExecutionOutcome := oc, rst_Conditions := c\<rparr>)
     = records_result op reference t (s\<lparr>rst_ExecutionOutcome := oc\<rparr>)"
  "records_result op reference t (s\<lparr>rst_PlanCreatedAt := a, rst_PlanExpiresAt := b, rst_ExecutionOutcome := oc\<rparr>)
     = records_result op reference t (s\<lparr>rst_ExecutionOutcome := oc\<rparr>)"
  by (simp_all add: records_result_def)

lemma applyTerminal_evidenced:
  assumes "trr_ArtifactsReady t \<Longrightarrow> proves env run reference t"
  shows "evidenced env run (fst (applyTerminalResult env run (with_ref t reference) j))"
proof -
  let ?t = "with_ref t reference" and ?op = "rs_Operation (run_Spec run)"
  have u: "evidenced env run (fst (updateExecutionStatus env run' (terminal_outcome run ?t) st rs m))"
    if "trr_ArtifactsReady t \<Longrightarrow> records_result ?op reference t ((run_Status run')\<lparr>rst_ExecutionOutcome := trr_ExecutionOutcome t\<rparr>)"
    for run' st rs m
  proof (cases "trr_ArtifactsReady t")
    case True
    then have oc: "terminal_outcome run ?t = trr_ExecutionOutcome t" by (simp add: terminal_outcome_def)
    show ?thesis unfolding evidenced_def oc
      using that [OF True] assms [OF True] by (auto simp: evidence_for_def dest!: updateExecutionStatus_status)
  next
    case False
    then have "terminal_outcome run ?t \<notin> success_outcomes" by (simp add: terminal_outcome_def)
    then show ?thesis by (simp add: updateExecutionStatus_evidenced)
  qed
  have "trr_ArtifactsReady t \<Longrightarrow> records_result ?op reference t
      ((terminal_status (re_sha env) run ?t j)\<lparr>rst_ExecutionOutcome := trr_ExecutionOutcome t\<rparr>)"
    using assms terminal_status_records by blast
  then show ?thesis
    unfolding applyTerminalResult_def Let_def
    by (simp add: applyMissing_evidenced u split: prod.split option.split)
qed

lemma captured_evidence:
  assumes "captureTerminalResult env run j = Inr t'"
  shows "\<exists>reference t. t' = with_ref t reference \<and> (trr_ArtifactsReady t \<longrightarrow> proves env run reference t)"
proof -
  obtain reference content r where
    "GetVerifiedByKey (re_sha env) (re_s3 env) (re_bucket env) (terminal_key run) = Inr (reference, content)"
    "re_decode_terminal env content = Inr r"
    "verifyTerminalEvidence (re_sha env) (get_verified env) run r (Some j) = None" "t' = with_ref r reference"
    using assms(1) unfolding captureTerminalResult_def Let_def sum_bind_def
    by (auto split: if_splits sum.splits option.splits)
  with provesI show ?thesis by blast
qed

lemma reconcileJobStatus_evidenced: "evidenced env run (fst (reconcileJobStatus env run j))"
  by (auto simp: reconcileJobStatus_def updateExecutionStatus_evidenced applyMissing_evidenced
      intro: applyTerminal_evidenced dest!: captured_evidence split: sum.splits)

lemma follow_job_evidenced: "evidenced env run (fst (fst (follow_job env g run name)))"
  by (auto simp: follow_job_def Let_def updateExecutionStatus_evidenced reconcileJobStatus_evidenced
      split: sum.splits option.splits prod.splits)

lemma perform_evidenced:
  "rst_ExecutionOutcome (run_Status r) = rst_ExecutionOutcome (run_Status run) \<Longrightarrow>
     evidenced env run (fst (perform ans (UpdateRunStatusW r) (ret x)))"
  by (simp add: perform_def evidenced_def split: option.splits)

lemma record_job_evidenced:
  "rst_ExecutionOutcome (run_Status run') = rst_ExecutionOutcome (run_Status run) \<Longrightarrow>
     evidenced env run (fst (record_job env run' j))"
  by (simp add: record_job_def Let_def updateExecutionStatus_evidenced perform_evidenced split: option.splits)

lemma create_job_evidenced: "evidenced env run (fst (fst (create_job env g run j)))"
proof -
  have "evidenced env run (fst (record_job env (intent_of run n) k))" for n k
    by (rule record_job_evidenced) (simp add: intent_of_def)
  then show ?thesis
    by (auto simp: create_job_def intent_of_def evidenced_def Let_def
        split: sum.splits option.splits prod.splits) (metis fst_conv)+
qed

lemma start_job_evidenced: "evidenced env run (fst (fst (start_job env g run)))"
  unfolding start_job_def
  by (auto simp: updateExecutionStatus_evidenced record_job_evidenced create_job_evidenced
      split: prod.split bool.split option.split sum.split)

lemma admit_run_evidenced: "evidenced env run (fst (fst (admit_run env g run)))"
proof -
  have t: "evidenced env run (fst (applyTerminalResult env run (with_ref r reference) None))"
    if "GetVerifiedByKey (re_sha env) (re_s3 env) (re_bucket env) (terminal_key run) = Inr (reference, content)"
      "re_decode_terminal env content = Inr r"
      "verifyTerminalEvidence (re_sha env) (get_verified env) run r None = None" for reference content r
    using provesI [OF that] by (rule applyTerminal_evidenced)
  show ?thesis
    unfolding admit_run_def Let_def
    by (auto simp: updateExecutionStatus_evidenced applyMissing_evidenced start_job_evidenced t
        split: sum.split option.split prod.split if_split)
qed

lemma Reconcile_evidenced:
  "re_get_run env = Inr run \<Longrightarrow> evidenced env run (fst (fst (TerraformRun_Reconcile env g)))"
  by (simp add: TerraformRun_Reconcile_def Let_def perform_evidenced updateExecutionStatus_evidenced
      admit_run_evidenced follow_job_evidenced split: option.split)

text \<open>
  C3. A reconcile that gives a run an outcome that counts as success (Succeeded, NoChange or
  ChangesPresent) has read a terminal result of this very run from the bucket, whose outcome is that of its operation
  and exit code, and has read back under their digests the plan, the sources, the backend configuration and the
  module inputs, the report of a Plan, and the target discovery of a NoChange or an Apply; an Apply
  names the plan, sources and backend it was approved with. The status records exactly that result and its references.
\<close>
theorem success_has_verified_evidence:
  assumes "re_get_run env = Inr run"
    and "UpdateRunStatusW r \<in> set (fst (fst (TerraformRun_Reconcile env g)))"
    and "rst_ExecutionOutcome (run_Status r) \<in> {''Succeeded'', ''NoChange'', ''ChangesPresent''}"
    and "rst_ExecutionOutcome (run_Status r) \<noteq> rst_ExecutionOutcome (run_Status run)"
  shows "evidence_for env run (run_Status r)"
  using Reconcile_evidenced [OF assms(1), of g] assms(2-4)
  unfolding evidenced_def success_outcomes_def by blast

definition sample_terminal :: runner_terminal_result where
  "sample_terminal = \<lparr>trr_RunUID = ''ru'', trr_JobUID = ''ju'', trr_StartedAt = 1, trr_FinishedAt = 2,
     trr_Operation = ''Plan'', trr_TerraformExitCode = 0, trr_ExecutionOutcome = ''NoChange'', trr_ArtifactsReady = True,
     trr_HasChanges = False, trr_Error = [], trr_PlanRef = ''runs/ru/plan.binary'', trr_PlanDigest = ''sha256:x'',
     trr_SourceBundleRef = ''s'', trr_SourceBundleDigest = ''sha256:x'', trr_BackendConfigRef = ''b'',
     trr_BackendConfigDigest = ''sha256:x'', trr_PlanReportRef = ''p'', trr_PlanReportDigest = ''sha256:x'',
     trr_TerminalResultRef = [], trr_TerminalResultDigest = [], trr_EffectivePlanInputDigest = ''e'',
     trr_TargetDiscoveryRef = ''d'', trr_TargetDiscoveryDigest = ''sha256:x'', trr_MutationClassification = [],
     trr_MutationMayHaveOccurred = False\<rparr>"

definition sample_content :: "string \<Rightarrow> string" where
  "sample_content key = (if key = ''runs/ru/module-inputs.json'' then json_text (gomap_json []) else ''x'')"

definition full_s3 :: "unit s3_api" where
  "full_s3 = empty_s3\<lparr>s3_get := (\<lambda>_ key _. Inr (sample_content key)),
     s3_head := (\<lambda>_ key. Inr \<lparr>head_Metadata = [(''sha256'', ''sha256:'' @ sample_content key)], head_VersionId = [],
       head_ContentLength = 1\<rparr>)\<rparr>"

definition finished_env :: "unit run_env" where
  "finished_env = sample_env\<lparr>re_s3 := full_s3, re_decode_terminal := (\<lambda>_. Inr sample_terminal)\<rparr>"

lemma finished_env_fields:
  "re_sha finished_env = (\<lambda>s. s)" "re_get_run finished_env = Inr sample_run" "re_previous finished_env = Inr sample_run"
  "re_get_secret finished_env = (\<lambda>_. Inr sample_secret)" "re_s3 finished_env = full_s3"
  "re_config finished_env = re_config sample_env" "re_answer finished_env w = None"
  "re_decode_terminal finished_env c = Inr sample_terminal"
  by (simp_all add: finished_env_def sample_env_def)

lemma finished_verified: "verifyTerminalEvidence (\<lambda>s. s) (get_verified finished_env) sample_run sample_terminal None = None"
  by code_simp

lemma finished_found: "\<exists>r. GetVerifiedByKey (\<lambda>s. s) full_s3 () (terminal_key sample_run) = Inr (r, ''x'')"
proof -
  have "map_sum id snd (GetVerifiedByKey (\<lambda>s. s) full_s3 () (terminal_key sample_run)) = Inr ''x''" by code_simp
  then show ?thesis by (cases "GetVerifiedByKey (\<lambda>s. s) full_s3 () (terminal_key sample_run)") auto
qed

lemma finished_writes:
  "\<exists>r. UpdateRunStatusW r \<in> set (fst (fst (TerraformRun_Reconcile finished_env None)))
     \<and> rst_ExecutionOutcome (run_Status r) = ''NoChange''"
proof -
  obtain rf where rf: "GetVerifiedByKey (\<lambda>s. s) full_s3 () (terminal_key sample_run) = Inr (rf, ''x'')"
    using finished_found by blast
  have store: "run_store finished_env = Inr (''b'', [])" by code_simp
  have r: "TerraformRun_Reconcile finished_env None = admit_run finished_env None sample_run"
    by (simp add: TerraformRun_Reconcile_def finished_env_fields sample_env_fields sample_run_fields terminal_outcomes_def)
  have a: "admit_run finished_env None sample_run
     = (applyTerminalResult finished_env sample_run (with_ref sample_terminal rf) None, None)"
    using sample_profile_resolved sample_identity_digest_present sample_image_immutable store rf finished_verified
    by (simp add: admit_run_def finished_env_fields sample_env_fields sample_run_fields sample_profile_def)
  show ?thesis unfolding r a
    by (simp add: applyTerminalResult_def plan_expiry_needed_def with_ref_def sample_terminal_def sample_run_fields
        terminal_outcome_def terminal_condition_def terminal_status_def Let_def
        updateExecutionStatus_def finished_env_fields sample_run_def
        zero_terraform_run_def zero_terraform_run_status_def perform_def)
qed

theorem success_has_verified_evidence_witness:
  "\<exists>s. rst_ExecutionOutcome s = ''NoChange'' \<and> evidence_for finished_env sample_run s"
proof -
  obtain r where r: "UpdateRunStatusW r \<in> set (fst (fst (TerraformRun_Reconcile finished_env None)))"
    and oc: "rst_ExecutionOutcome (run_Status r) = ''NoChange''" using finished_writes by blast
  from success_has_verified_evidence [OF finished_env_fields(2) r] oc show ?thesis
    by (intro exI [of _ "run_Status r"]) (simp add: sample_run_fields)
qed

end
