(* ===== verification/RunSlots.thy ===== *)
theory RunSlots
  imports RunSafety
begin

section \<open>Slots and restarts: the gate under the TerraformRun controller\<close>

text \<open>
  The controller's use of the execution gate: a Job is created only under a held slot, so two
  Applies of one stack never run together; a finished Job gives its slot back, a Job that
  disappeared does not. Then terraformrun\_reconstruction.go, which rebuilds the gate from the
  Jobs of the cluster when a process becomes leader.
\<close>

subsection \<open>The controller only makes gate operations\<close>

lemma gate_reachable_acquire: "gate_reachable mp ma g \<Longrightarrow> gate_reachable mp ma (snd (TryAcquire g it))"
  by (rule step_gate [OF _ acquire])

lemma gate_reachable_release: "gate_reachable mp ma g \<Longrightarrow> gate_reachable mp ma (Release g it)"
  by (rule step_gate [OF _ release])

definition gate_ok :: "int \<Rightarrow> int \<Rightarrow> gate option \<Rightarrow> bool" where
  "gate_ok mp ma g \<longleftrightarrow> (\<forall>gt. g = Some gt \<longrightarrow> gate_reachable mp ma gt)"

lemma release_slot_ok [simp]: "gate_ok mp ma g \<Longrightarrow> gate_ok mp ma (releaseExecutionSlot g run)"
  by (auto simp: gate_ok_def releaseExecutionSlot_def gate_reachable_release)

lemma ensure_slot_ok: "gate_ok mp ma g \<Longrightarrow> gate_ok mp ma (snd (ensureExecutionSlot g run b))"
  by (auto simp: gate_ok_def ensureExecutionSlot_def EnsureActive_eq_TryAcquire gate_reachable_acquire
      split: option.splits prod.splits) (metis gate_reachable_acquire snd_conv)+

lemma create_job_gate_ok: "gate_ok mp ma g \<Longrightarrow> gate_ok mp ma (snd (create_job env g run j))"
  by (simp add: create_job_def Let_def split: sum.split option.split prod.split)

lemma start_job_gate_ok:
  assumes "gate_ok mp ma g"
  shows "gate_ok mp ma (snd (start_job env g run))"
proof -
  obtain ok g' where slot: "ensureExecutionSlot g run False = (ok, g')" by fastforce
  then have "gate_ok mp ma g'" using ensure_slot_ok [OF assms, of run False] by simp
  then show ?thesis
    by (cases ok) (simp_all add: start_job_def slot create_job_gate_ok split: option.split sum.split)
qed

lemma admit_run_gate_ok: "gate_ok mp ma g \<Longrightarrow> gate_ok mp ma (snd (admit_run env g run))"
  by (simp add: admit_run_def Let_def start_job_gate_ok split: sum.split option.split prod.split)

lemma follow_job_gate_ok: "gate_ok mp ma g \<Longrightarrow> gate_ok mp ma (snd (follow_job env g run name))"
  using ensure_slot_ok [of mp ma g run True]
  by (auto simp: follow_job_def Let_def split: sum.split option.split prod.split)

text \<open>
  Whatever a reconcile of a TerraformRun does, it only makes operations the gate allows: the
  gate it leaves is again a reachable state, so all that holds of reachable gates (exclusive
  Applies, exact counters, limits) holds under the controller.
\<close>
theorem reconcile_keeps_gate_reachable:
  assumes "gate_reachable mp ma g" and "snd (TerraformRun_Reconcile env (Some g)) = Some g'"
  shows "gate_reachable mp ma g'"
proof -
  have "gate_ok mp ma (Some g)" using assms(1) by (simp add: gate_ok_def)
  then have "gate_ok mp ma (snd (TerraformRun_Reconcile env (Some g)))"
    by (simp add: TerraformRun_Reconcile_def Let_def admit_run_gate_ok follow_job_gate_ok
        split: sum.split option.split)
  then show ?thesis using assms(2) by (simp add: gate_ok_def)
qed

definition has_gate :: "gate option \<Rightarrow> bool" where
  "has_gate g \<longleftrightarrow> g \<noteq> None"

lemma release_has_gate [simp]: "has_gate (releaseExecutionSlot g run) = has_gate g"
  by (simp add: has_gate_def releaseExecutionSlot_def)

lemma ensure_has_gate [simp]: "has_gate (snd (ensureExecutionSlot g run b)) = has_gate g"
  by (auto simp: has_gate_def ensureExecutionSlot_def split: option.splits prod.splits)

lemma start_job_has_gate: "has_gate (snd (start_job env g run)) = has_gate g"
proof -
  obtain ok g' where slot: "ensureExecutionSlot g run False = (ok, g')" by fastforce
  then have "has_gate g' = has_gate g" using ensure_has_gate [of g run False] by simp
  then show ?thesis
    by (cases ok) (simp_all add: start_job_def slot create_job_def Let_def split: option.split sum.split prod.split)
qed

lemma follow_job_has_gate: "has_gate (snd (follow_job env g run name)) = has_gate g"
proof -
  obtain ok g' where slot: "ensureExecutionSlot g run True = (ok, g')" by fastforce
  then have "has_gate g' = has_gate g" using ensure_has_gate [of g run True] by simp
  then show ?thesis by (simp add: follow_job_def slot Let_def split: sum.split option.split)
qed

lemma reconcile_has_gate: "has_gate (snd (TerraformRun_Reconcile env g)) = has_gate g"
  by (simp add: TerraformRun_Reconcile_def admit_run_def Let_def start_job_has_gate follow_job_has_gate
      split: sum.split option.split prod.split)

theorem reconcile_keeps_gate_reachable_witness:
  "\<exists>g. snd (TerraformRun_Reconcile sample_env (Some (NewGate 2 1))) = Some g \<and> gate_reachable 2 1 g"
  using reconcile_has_gate [of sample_env "Some (NewGate 2 1)"]
    reconcile_keeps_gate_reachable [OF new_gate [of 2 1], of sample_env]
  by (auto simp: has_gate_def)

subsection \<open>A created Job holds its slot\<close>

lemma record_job_no_create: "CreateJobW k \<notin> set (fst (record_job env run j))"
  using status_only_no_job [OF record_job_log] .

lemma create_job_keeps_slot:
  assumes "CreateJobW k \<in> set (fst (fst (create_job env g run j)))" and "re_answer env (CreateJobW k) = None"
  shows "snd (create_job env g run j) = g"
proof -
  have "CreateJobW k \<notin> set log" if "record_job env r jb = (log, res)" for r jb log res
    using that record_job_no_create [of k env r jb] by simp
  then show ?thesis
    using assms by (auto simp: create_job_def Let_def split: sum.splits option.splits prod.splits)
qed

lemma start_job_keeps_slot:
  assumes "CreateJobW k \<in> set (fst (fst (start_job env g run)))" and "re_answer env (CreateJobW k) = None"
  shows "snd (start_job env g run) = snd (ensureExecutionSlot g run False) \<and> fst (ensureExecutionSlot g run False)"
proof -
  obtain ok g' where slot: "ensureExecutionSlot g run False = (ok, g')" by fastforce
  have u: "CreateJobW k \<notin> set (fst (updateExecutionStatus env run oc st rs m))" for oc st rs m
    using updateExecutionStatus_log [of env run oc st rs m] by auto
  show ?thesis
    using assms u create_job_keeps_slot record_job_no_create
    by (cases ok) (auto simp: start_job_def slot split: option.splits sum.splits if_splits)
qed

lemma reconcile_keeps_slot:
  assumes run: "re_get_run env = Inr run" and k: "CreateJobW k \<in> set (fst (fst (TerraformRun_Reconcile env g)))"
    and acc: "re_answer env (CreateJobW k) = None"
  shows "snd (TerraformRun_Reconcile env g) = snd (ensureExecutionSlot g run False)
     \<and> fst (ensureExecutionSlot g run False)"
proof -
  have u: "CreateJobW k \<notin> set (fst (updateExecutionStatus env r oc st rs m))" for r oc st rs m
    using updateExecutionStatus_log [of env r oc st rs m] by auto
  have m: "CreateJobW k \<notin> set (fst (applyMissingTerminalResult env r e))" for r e
    by (simp add: applyMissingTerminalResult_def Let_def u)
  have t: "CreateJobW k \<notin> set (fst (applyTerminalResult env run r j))" for r j
    using status_only_no_job [OF applyTerminal_status_only] .
  have f: "CreateJobW k \<notin> set (fst (fst (follow_job env g run name)))" for name
    using status_only_no_job [OF follow_job_status_only] .
  have a: "snd (admit_run env g run) = snd (start_job env g run) \<and> CreateJobW k \<in> set (fst (fst (start_job env g run)))"
    if "CreateJobW k \<in> set (fst (fst (admit_run env g run)))"
    using that u m t by (auto simp: admit_run_def Let_def split: sum.splits option.splits prod.splits if_splits)
  have "CreateJobW k \<in> set (fst (fst (admit_run env g run)))
     \<and> TerraformRun_Reconcile env g = admit_run env g run"
    using k run u f by (auto simp: TerraformRun_Reconcile_def perform_def Let_def split: option.splits if_splits)
  with a start_job_keeps_slot acc show ?thesis by metis
qed

text \<open>
  C8. In a gate without a safety violation, two Applies of one stack never have Jobs created for them while the first one still holds
  its slot: once a reconcile created the Job of one Apply, and until that run's own slot is
  released, a reconcile of another Apply of the same stack creates no Job, whatever slots other
  runs acquire and release in between.
\<close>
theorem no_second_apply_job_of_a_stack:
  assumes "gate_reachable mp ma g" and "\<not> safetyViolation g"
    and "re_get_run env = Inr a" and "rs_Operation (run_Spec a) = ''Apply''"
    and "CreateJobW j \<in> set (fst (fst (TerraformRun_Reconcile env (Some g))))" and "re_answer env (CreateJobW j) = None"
    and "snd (TerraformRun_Reconcile env (Some g)) = Some g'"
    and "\<forall>k. (False, k) \<in> set ops \<longrightarrow> wi_ID k \<noteq> wi_ID (executionWorkItem a)"
    and "re_get_run env' = Inr b" and "rs_Operation (run_Spec b) = ''Apply''"
    and "om_Namespace (run_Meta b) = om_Namespace (run_Meta a)" and "rs_StackRef (run_Spec b) = rs_StackRef (run_Spec a)"
    and "wi_ID (executionWorkItem b) \<noteq> wi_ID (executionWorkItem a)"
  shows "CreateJobW k \<notin> set (fst (fst (TerraformRun_Reconcile env' (Some (slots.run_ops g' ops)))))"
proof
  assume "CreateJobW k \<in> set (fst (fst (TerraformRun_Reconcile env' (Some (slots.run_ops g' ops)))))"
  then have "\<not> status_only b (fst (fst (TerraformRun_Reconcile env' (Some (slots.run_ops g' ops)))))"
    using status_only_no_job by blast
  then have "may_start env' (Some (slots.run_ops g' ops)) b" using reconcile_cases [OF assms(9)] by blast
  then have second: "fst (TryAcquire (slots.run_ops g' ops) (executionWorkItem b))"
    by (simp add: may_start_def ensureExecutionSlot_def split: prod.splits)
  have "Some g' = snd (ensureExecutionSlot (Some g) a False) \<and> fst (ensureExecutionSlot (Some g) a False)"
    using reconcile_keeps_slot [OF assms(3,5,6)] assms(7) by simp
  then have first: "fst (TryAcquire g (executionWorkItem a))" "g' = snd (TryAcquire g (executionWorkItem a))"
    by (auto simp: ensureExecutionSlot_def split: prod.splits)
  have "apply_conflict (executionWorkItem b) (executionWorkItem a)"
    using assms(4,10-13) by (simp add: apply_conflict_def executionWorkItem_def Let_def)
  moreover have "safe_gate g" using gate_reachable_inv [OF assms(1)] assms(2) by (simp add: safe_gate_def)
  ultimately show False
    using slots.conflicting_refused [of g "executionWorkItem a" "executionWorkItem b" ops] first second assms(8)
    by (simp add: same_id_def)
qed

text \<open>An approved Apply whose whole chain of evidence is in the bucket.\<close>

definition ready_plan :: terraform_run where
  "ready_plan = sample_plan\<lparr>
     run_Spec := (run_Spec sample_plan)\<lparr>
       rs_ExecutionProfile := Some (sample_profile\<lparr>ep_CredentialsIdentity := sample_identity_digest\<rparr>),
       rs_Workspace := ''default'',
       rs_Executor := (rs_Executor zero_terraform_run_spec)\<lparr>ex_Image := sample_image\<rparr>\<rparr>,
     run_Status := (run_Status sample_plan)\<lparr>rst_TerminalResultDigest := ''sha256:x'', rst_PlanReportDigest := ''sha256:x'',
       rst_PlanDigest := ''sha256:x'', rst_SourceBundleDigest := ''sha256:x'',
       rst_ResolvedBackendConfigDigest := ''sha256:x''\<rparr>\<rparr>"

definition ready_approval :: change_approval where
  "ready_approval = sample_approval\<lparr>ca_Spec := (ca_Spec sample_approval)\<lparr>cas_PlanDigest := ''sha256:x'',
     cas_PlanReportDigest := ''sha256:x''\<rparr>\<rparr>"

definition ready_apply :: "string \<Rightarrow> terraform_run" where
  "ready_apply uid = buildApplyRun sample_stack ready_plan ready_approval (applyRunName (\<lambda>s. s) ''p'' ''pu'')
     \<lparr>run_Meta := empty_meta\<lparr>om_Name := applyRunName (\<lambda>s. s) ''p'' ''pu'', om_Namespace := ''n'', om_UID := uid,
        om_OwnerReferences := [\<lparr>or_Kind = ''InfraStack'', or_Name = ''s'', or_UID = ''su'', or_Controller = Some True\<rparr>]\<rparr>\<rparr>"

definition ready_s3 :: "unit s3_api" where
  "ready_s3 = empty_s3\<lparr>s3_get := (\<lambda>_ key _. Inr
     (if key = ''runs/pu/module-inputs.json'' then json_text (gomap_json []) else ''x''))\<rparr>"

definition apply_env :: "string \<Rightarrow> unit run_env" where
  "apply_env uid = sample_env\<lparr>re_get_run := Inr (ready_apply uid), re_previous := Inr (ready_apply uid),
     re_s3 := ready_s3, re_get_approval := (\<lambda>_. Inr ready_approval), re_get_plan := (\<lambda>_. Inr ready_plan),
     re_get_stack := (\<lambda>_. Inr sample_stack)\<rparr>"

lemma apply_env_fields:
  "re_sha (apply_env u) = (\<lambda>s. s)" "re_get_run (apply_env u) = Inr (ready_apply u)"
  "re_get_secret (apply_env u) = (\<lambda>_. Inr sample_secret)" "re_s3 (apply_env u) = ready_s3"
  "re_get_job (apply_env u) n = Inl (ApiErr NotFound [])" "re_answer (apply_env u) w = None"
  "re_config (apply_env u) = re_config sample_env" "re_set_owner (apply_env u) = re_set_owner sample_env"
  by (simp_all add: apply_env_def sample_env_def)

lemma ready_apply_approved: "validateApplyApproval (apply_env ''ru'') (ready_apply ''ru'') = None"
  by code_simp

lemma ready_apply_profile:
  "resolveExecutionProfile (\<lambda>s. s) (\<lambda>_. Inr sample_secret) ''n'' (rs_ExecutionProfile (run_Spec (ready_apply u)))
     = Inr (sample_profile\<lparr>ep_CredentialsIdentity := sample_identity_digest\<rparr>)"
  by code_simp

lemma ready_apply_no_evidence:
  "GetVerifiedByKey (\<lambda>s. s) ready_s3 () (terminal_key (ready_apply ''ru'')) = Inl (HttpErr 404 [])"
  by code_simp

lemma ready_apply_job: "\<exists>j. run_buildJob (re_config sample_env) (ready_apply ''ru'') = Inr j"
proof -
  let ?r = "run_job_request (re_config sample_env) (ready_apply ''ru'')"
  let ?p = "sample_profile\<lparr>ep_CredentialsIdentity := sample_identity_digest\<rparr>"
  have v: "job_request_validate ?r = None" by code_simp
  have p: "ValidateExecutionProfile (Some ?p) = None" by code_simp
  have f: "jr_ExecutionProfile ?r = Some ?p" "jr_Inputs ?r = []" "jr_InfrastructureExecutionRoleARN ?r = []"
    "jr_VariableSecretVariables ?r = []"
    by code_simp+
  have "\<exists>values. foldl bind_input (Inr []) (authority_inputs ?p []) = Inr values"
    by (rule bind_inputs_succeeds) (simp_all add: authority_inputs_def)
  then have "\<exists>penv. profile_env ?r = Inr penv"
    using p f by (auto simp: profile_env_def BindModuleInputs_def checked_def sum_bind_def)
  then show ?thesis
    using v f by (auto simp: run_buildJob_def BuildJob_def checked_def sum_bind_def)
qed

lemma ready_apply_fields:
  "rs_Operation (run_Spec (ready_apply u)) = ''Apply''" "rs_PlanMode (run_Spec (ready_apply u)) = ''Destroy''"
  "om_Namespace (run_Meta (ready_apply u)) = ''n''"
  "ex_Image (rs_Executor (run_Spec (ready_apply u))) = sample_image"
  "rs_ExecutionProfile (run_Spec (ready_apply u)) = Some (sample_profile\<lparr>ep_CredentialsIdentity := sample_identity_digest\<rparr>)"
  "ps_Type (rs_Source (run_Spec (ready_apply u))) = SourceRetainedBundle"
  "rst_ExecutionOutcome (run_Status (ready_apply u)) = []" "rst_JobRef (run_Status (ready_apply u)) = None"
  "rs_StackRef (run_Spec (ready_apply u)) = ''s''" "om_UID (run_Meta (ready_apply u)) = u"
  "rs_ConcurrencyGroup (run_Spec (ready_apply u)) = []"
  by (simp_all add: ready_apply_def ready_plan_def sample_plan_def sample_stack_def buildApplyRun_def Let_def
      zero_terraform_run_def zero_terraform_run_status_def zero_terraform_run_spec_def
      zero_infra_stack_def split: prod.split)

lemma ready_apply_starts:
  "\<exists>j. CreateJobW j \<in> set (fst (fst (TerraformRun_Reconcile (apply_env ''ru'') (Some (NewGate 2 2)))))"
proof -
  let ?run = "ready_apply ''ru''" let ?env = "apply_env ''ru''"
  obtain j where j: "run_buildJob (re_config sample_env) ?run = Inr j" using ready_apply_job ..
  obtain g where g: "ensureExecutionSlot (Some (NewGate 2 2)) ?run False = (True, g)"
    by (simp add: ensureExecutionSlot_def executionWorkItem_def Let_def ready_apply_fields sample_eval split: prod.split)
  have store: "run_store ?env = Inr (''b'', [])" by code_simp
  have r: "TerraformRun_Reconcile ?env (Some (NewGate 2 2)) = admit_run ?env (Some (NewGate 2 2)) ?run"
    by (simp add: TerraformRun_Reconcile_def apply_env_fields sample_env_fields ready_apply_fields terminal_outcomes_def)
  have a: "admit_run ?env (Some (NewGate 2 2)) ?run = start_job ?env (Some (NewGate 2 2)) ?run"
    using ready_apply_profile [of "''ru''"] sample_identity_digest_present sample_image_immutable store ready_apply_no_evidence
    by (simp add: admit_run_def apply_env_fields sample_env_fields ready_apply_fields sample_profile_def artifact_IsNotFound_def)
  have s: "start_job ?env (Some (NewGate 2 2)) ?run = create_job ?env g ?run j"
    using j g ready_apply_approved by (simp add: start_job_def apply_env_fields ready_apply_fields)
  obtain m where m: "re_set_owner sample_env (run_Meta ?run) ''TerraformRun'' (job_Meta j) = Inr m"
    using sample_env_fields by blast
  show ?thesis unfolding r a s
    by (simp add: create_job_def apply_env_fields m Let_def split: prod.split) blast
qed

theorem no_second_apply_job_of_a_stack_witness:
  "\<exists>g. snd (TerraformRun_Reconcile (apply_env ''ru'') (Some (NewGate 2 2))) = Some g
     \<and> (\<forall>k. CreateJobW k \<notin> set (fst (fst (TerraformRun_Reconcile (apply_env ''other'')
          (Some (slots.run_ops g [(False, sample_apply)]))))))"
proof -
  obtain j where j: "CreateJobW j \<in> set (fst (fst (TerraformRun_Reconcile (apply_env ''ru'') (Some (NewGate 2 2)))))"
    using ready_apply_starts ..
  obtain g where g: "snd (TerraformRun_Reconcile (apply_env ''ru'') (Some (NewGate 2 2))) = Some g"
    using reconcile_has_gate [of "apply_env ''ru''" "Some (NewGate 2 2)"] by (auto simp: has_gate_def)
  have "CreateJobW k \<notin> set (fst (fst (TerraformRun_Reconcile (apply_env ''other'')
      (Some (slots.run_ops g [(False, sample_apply)])))))" for k
    by (rule no_second_apply_job_of_a_stack [OF new_gate _ apply_env_fields(2) _ j _ g _ apply_env_fields(2)])
       (simp_all add: NewGate_def apply_env_fields ready_apply_fields executionWorkItem_def Let_def sample_apply_def)
  with g show ?thesis by blast
qed

subsection \<open>The end of a Job\<close>

lemma release_slot_frees: "releaseExecutionSlot (Some g) run = Some g' \<Longrightarrow> activeItems g' (wi_ID (executionWorkItem run)) = None"
  by (auto simp: releaseExecutionSlot_def Release_activeItems)

text \<open>
  When the Job of a run has finished and the reconcile recorded its result without an error,
  the run's slot is free again.
\<close>
theorem finished_job_frees_its_slot:
  assumes "re_get_run env = Inr run" and "cfg_ExecutionEnabled (re_config env)" and "\<not> fenced_apply run"
    and "rst_ExecutionOutcome (run_Status run) \<notin> set terminal_outcomes"
    and "rst_JobRef (run_Status run) = Some name" and "re_get_job env name = Inr j" and "job_terminal j"
    and "0 \<le> js_Succeeded (job_Status j)" and "0 \<le> js_Failed (job_Status j)"
    and "validateTerraformJobIdentity run j = None"
    and "\<not> isl (snd (fst (TerraformRun_Reconcile env (Some g))))"
    and "snd (TerraformRun_Reconcile env (Some g)) = Some g'"
  shows "activeItems g' (wi_ID (executionWorkItem run)) = None"
proof -
  have active: "\<not> (js_Succeeded (job_Status j) = 0 \<and> js_Failed (job_Status j) = 0)"
    using assms(7) by (auto simp: job_terminal_def)
  have r: "TerraformRun_Reconcile env (Some g) = follow_job env (Some g) run name"
    using assms(1-5) by (auto simp: TerraformRun_Reconcile_def fenced_apply_def Let_def)
  have f: "follow_job env (Some g) run name =
      (let e = reconcileJobStatus env run j in (e, if \<not> isl (snd e) then releaseExecutionSlot (Some g) run else Some g))"
    unfolding follow_job_def assms(6) using assms(7,10) by (simp only: sum.case option.case if_not_P [OF active]) simp
  show ?thesis
    using assms(11,12) release_slot_frees [of g run] unfolding r f by (simp add: Let_def split: if_splits)
qed

lemma ended_run_keeps_gate:
  "re_get_run env = Inr r \<Longrightarrow> rst_ExecutionOutcome (run_Status r) = ''Indeterminate'' \<Longrightarrow>
     snd (TerraformRun_Reconcile env h) = h"
  by (simp add: TerraformRun_Reconcile_def terminal_outcomes_def Let_def)

text \<open>
  A run whose Job disappeared keeps its slot: the reconcile records the outcome
  Indeterminate and leaves the gate as it is, and every later reconcile of the ended run leaves
  it too, so a held slot stays taken until the process rebuilds the gate.
\<close>
theorem lost_job_keeps_its_slot:
  assumes "re_get_run env = Inr run" and "cfg_ExecutionEnabled (re_config env)" and "\<not> fenced_apply run"
    and "rst_ExecutionOutcome (run_Status run) \<notin> set terminal_outcomes"
    and "rst_JobRef (run_Status run) = Some name" and "re_get_job env name = Inl e" and "is_not_found e"
    and "re_previous env = Inr run"
  shows "snd (TerraformRun_Reconcile env (Some g)) = Some g
     \<and> (\<exists>r. fst (fst (TerraformRun_Reconcile env (Some g))) = [UpdateRunStatusW r]
          \<and> rst_ExecutionOutcome (run_Status r) = ''Indeterminate''
          \<and> (\<forall>env' h. re_get_run env' = Inr r \<longrightarrow> snd (TerraformRun_Reconcile env' h) = h))"
proof -
  have differs: "run_Status run \<noteq> (run_Status run)\<lparr>rst_ObservedGeneration := a, rst_ExecutionOutcome := ''Indeterminate'',
      rst_Conditions := b\<rparr>" for a b
  proof
    assume "run_Status run = (run_Status run)\<lparr>rst_ObservedGeneration := a, rst_ExecutionOutcome := ''Indeterminate'',
      rst_Conditions := b\<rparr>"
    from arg_cong [OF this, of rst_ExecutionOutcome] show False using assms(4) by (simp add: terminal_outcomes_def)
  qed
  have r: "TerraformRun_Reconcile env (Some g) = follow_job env (Some g) run name"
    using assms(1-5) by (auto simp: TerraformRun_Reconcile_def fenced_apply_def Let_def)
  have u: "\<exists>r. fst (updateExecutionStatus env run ''Indeterminate'' st rs m) = [UpdateRunStatusW r]
      \<and> rst_ExecutionOutcome (run_Status r) = ''Indeterminate''" for st rs m
    using differs assms(8) by (auto simp: updateExecutionStatus_def perform_def Let_def split: option.split)
  show ?thesis unfolding r follow_job_def using assms(6,7) u ended_run_keeps_gate by simp blast
qed

definition started_run :: terraform_run where
  "started_run = sample_run\<lparr>run_Status := (run_Status sample_run)\<lparr>rst_JobRef := Some ''run''\<rparr>\<rparr>"

lemma started_run_fields:
  "\<not> fenced_apply started_run" "rst_ExecutionOutcome (run_Status started_run) \<notin> set terminal_outcomes"
  "rst_JobRef (run_Status started_run) = Some ''run''" "om_UID (run_Meta started_run) = ''ru''"
  by (simp_all add: started_run_def fenced_apply_def terminal_outcomes_def sample_run_fields) (simp_all add: sample_run_def)

definition started_env :: "gerr + job \<Rightarrow> unit run_env" where
  "started_env j = sample_env\<lparr>re_get_run := Inr started_run, re_previous := Inr started_run, re_get_job := (\<lambda>_. j)\<rparr>"

lemma started_env_fields:
  "re_get_run (started_env j) = Inr started_run" "re_previous (started_env j) = Inr started_run"
  "re_get_job (started_env j) n = j" "cfg_ExecutionEnabled (re_config (started_env j))"
  "re_answer (started_env j) w = None"
  by (simp_all add: started_env_def sample_env_def)

theorem lost_job_keeps_its_slot_witness:
  "snd (TerraformRun_Reconcile (started_env (Inl (ApiErr NotFound []))) (Some (NewGate 2 1))) = Some (NewGate 2 1)"
  by (rule lost_job_keeps_its_slot [OF started_env_fields(1,4) started_run_fields(1-3) started_env_fields(3) _
        started_env_fields(2), THEN conjunct1]) simp

definition finished_job :: job where
  "finished_job = (case run_buildJob (re_config sample_env) sample_run of
       Inl e \<Rightarrow> undefined
     | Inr j \<Rightarrow> j\<lparr>job_Meta := (job_Meta j)\<lparr>om_UID := ''ju'', om_OwnerReferences :=
         [\<lparr>or_Kind = ''TerraformRun'', or_Name = ''run'', or_UID = ''ru'', or_Controller = Some True\<rparr>]\<rparr>,
         job_Status := (job_Status j)\<lparr>js_Failed := 1\<rparr>\<rparr>)"

lemma finished_job_fields:
  "job_terminal finished_job" "js_Failed (job_Status finished_job) = 1" "js_Succeeded (job_Status finished_job) = 0"
  "validateTerraformJobIdentity started_run finished_job = None"
proof -
  obtain j where j: "run_buildJob (re_config sample_env) sample_run = Inr j" using sample_job ..
  have "job_Meta j = empty_meta\<lparr>om_Name := ''run'', om_Namespace := ''n'',
      om_Labels := job_labels (run_job_request (re_config sample_env) sample_run)\<rparr> \<and> job_Status j = no_status"
    using BuildJob_Inr [OF j [unfolded run_buildJob_def]] by (simp add: run_job_request_def sample_run_def Let_def)
  moreover have "jr_RunUID (run_job_request (re_config sample_env) sample_run) = ''ru''"
    by (simp add: run_job_request_def sample_run_def Let_def)
  ultimately show "job_terminal finished_job" "js_Failed (job_Status finished_job) = 1"
    "js_Succeeded (job_Status finished_job) = 0" "validateTerraformJobIdentity started_run finished_job = None"
    by (simp_all add: finished_job_def j job_terminal_def no_status_def validateTerraformJobIdentity_def
        started_run_fields job_labels_def is_controller_ref_def Let_def)
       (simp_all add: started_run_def sample_run_def zero_terraform_run_def zero_terraform_run_status_def glookup_def)
qed

lemma update_accepted:
  "re_previous env = Inr p \<Longrightarrow> (\<And>w. re_answer env w = None) \<Longrightarrow> \<not> isl (snd (updateExecutionStatus env run oc st rs m))"
  by (simp add: updateExecutionStatus_def perform_def ret_def Let_def)

theorem finished_job_frees_its_slot_witness:
  "\<exists>g. snd (TerraformRun_Reconcile (started_env (Inr finished_job)) (Some (NewGate 2 1))) = Some g
     \<and> activeItems g (wi_ID (executionWorkItem started_run)) = None"
proof -
  let ?env = "started_env (Inr finished_job)"
  obtain g where g: "snd (TerraformRun_Reconcile ?env (Some (NewGate 2 1))) = Some g"
    using reconcile_has_gate [of ?env "Some (NewGate 2 1)"] by (auto simp: has_gate_def)
  have "\<not> isl (snd (reconcileJobStatus ?env started_run finished_job))"
    using update_accepted [of ?env started_run] finished_job_fields(1)
    by (auto simp: reconcileJobStatus_def applyMissingTerminalResult_def applyTerminalResult_def Let_def
        started_env_fields split: sum.split prod.split option.split)
  moreover have "TerraformRun_Reconcile ?env (Some (NewGate 2 1)) = follow_job ?env (Some (NewGate 2 1)) started_run ''run''"
    using started_run_fields by (auto simp: TerraformRun_Reconcile_def started_env_fields fenced_apply_def Let_def)
  ultimately have ok: "\<not> isl (snd (fst (TerraformRun_Reconcile ?env (Some (NewGate 2 1)))))"
    using finished_job_fields by (simp add: follow_job_def started_env_fields Let_def)
  have "activeItems g (wi_ID (executionWorkItem started_run)) = None"
    by (rule finished_job_frees_its_slot [OF started_env_fields(1,4) started_run_fields(1-3) started_env_fields(3)
          finished_job_fields(1) _ _ finished_job_fields(4) ok g]) (simp_all add: finished_job_fields)
  with g show ?thesis by blast
qed

subsection \<open>terraformrun\_reconstruction.go\<close>

text \<open>The lists are the answers of the API server; the Job list is the whole one, before the label selector.\<close>

definition run_uid_label :: string where
  "run_uid_label = ''platform.example.io/terraform-run-uid''"

definition runs_by_uid :: "terraform_run list \<Rightarrow> string \<Rightarrow> terraform_run option" where
  "runs_by_uid runs = fold (\<lambda>run m. if om_UID (run_Meta run) \<noteq> [] then m(om_UID (run_Meta run) \<mapsto> run) else m) runs Map.empty"

definition run_of_job :: "(string \<Rightarrow> terraform_run option) \<Rightarrow> job \<Rightarrow> terraform_run option" where
  "run_of_job by_uid j =
     (case by_uid (glookup (om_Labels (job_Meta j)) run_uid_label) of
        Some run \<Rightarrow> Some run
      | None \<Rightarrow> (case find (\<lambda>o'. or_Kind o' = ''TerraformRun'') (om_OwnerReferences (job_Meta j)) of
          None \<Rightarrow> None
        | Some o' \<Rightarrow> by_uid (or_UID o')))"

definition classified :: "(string \<Rightarrow> terraform_run option) \<Rightarrow> job \<Rightarrow> terraform_run option" where
  "classified by_uid j =
     (case run_of_job by_uid j of
        None \<Rightarrow> None
      | Some run \<Rightarrow> if om_Namespace (job_Meta j) \<noteq> om_Namespace (run_Meta run) \<or> om_Name (job_Meta j) \<noteq> om_Name (run_Meta run)
            \<or> validateTerraformJobIdentity run j \<noteq> None then None else Some run)"

definition unclassified_item :: "job \<Rightarrow> work_item" where
  "unclassified_item j = \<lparr>wi_ID = om_Namespace (job_Meta j) @ ''/'' @ om_Name (job_Meta j), wi_Kind = [], wi_Stack = [],
     wi_ConcurrencyGroup = [], wi_MaxConcurrentPlans = 0, wi_MaxConcurrentApplies = 0\<rparr>"

definition active_items :: "terraform_run list \<Rightarrow> job list \<Rightarrow> work_item list" where
  "active_items runs jobs =
     map (\<lambda>j. case classified (runs_by_uid runs) j of None \<Rightarrow> unclassified_item j | Some run \<Rightarrow> executionWorkItem run)
       (filter (\<lambda>j. \<not> job_terminal j) jobs)"

definition ReconstructActiveTerraformRuns ::
  "duration \<Rightarrow> gerr + terraform_run list \<Rightarrow> gerr + job list \<Rightarrow> gate option \<Rightarrow> (gerr + reconstruction_result) \<times> gate option" where
  "ReconstructActiveTerraformRuns elapsed list_runs list_jobs g =
     (case g of
        None \<Rightarrow> (Inl (Err ''reader, kube client, and execution gate are required''), None)
      | Some gt \<Rightarrow>
          (case list_runs of
             Inl e \<Rightarrow> (Inl (Wrap ''list TerraformRuns'' e), g)
           | Inr runs \<Rightarrow>
               (case list_jobs of
                  Inl e \<Rightarrow> (Inl (Wrap ''list Terraform Jobs'' e), g)
                | Inr jobs \<Rightarrow>
                    (let (r, gt') = Reconstruct elapsed gt
                       (active_items runs (filter (\<lambda>j. ghas (om_Labels (job_Meta j)) run_uid_label) jobs))
                     in (Inr r, Some gt')))))"

text \<open>Start runs it when this process becomes leader; an error ends the manager.\<close>

definition ExecutionReconstruction_Start ::
  "duration \<Rightarrow> gerr + terraform_run list \<Rightarrow> gerr + job list \<Rightarrow> gate option \<Rightarrow> gerr option \<times> gate option" where
  "ExecutionReconstruction_Start elapsed list_runs list_jobs g =
     (case ReconstructActiveTerraformRuns elapsed list_runs list_jobs g of
        (Inl e, g') \<Rightarrow> (Some e, g')
      | (Inr _, g') \<Rightarrow> (None, g'))"

lemma runs_by_uid_step:
  "(\<And>u r. m u = Some r \<Longrightarrow> u \<noteq> [] \<and> om_UID (run_Meta r) = u) \<Longrightarrow>
     fold (\<lambda>run m. if om_UID (run_Meta run) \<noteq> [] then m(om_UID (run_Meta run) \<mapsto> run) else m) runs m u = Some r \<Longrightarrow>
     u \<noteq> [] \<and> om_UID (run_Meta r) = u"
proof (induction runs arbitrary: m)
  case (Cons x runs)
  show ?case
    by (rule Cons.IH [OF _ Cons.prems(2) [simplified]]) (use Cons.prems(1) in \<open>auto split: if_splits\<close>)
qed simp

lemma runs_by_uid_UID: "runs_by_uid runs u = Some r \<Longrightarrow> u \<noteq> [] \<and> om_UID (run_Meta r) = u"
  unfolding runs_by_uid_def by (rule runs_by_uid_step [of Map.empty]) simp_all

lemma classified_valid: "classified (runs_by_uid runs) j = Some run \<Longrightarrow> validateItem (executionWorkItem run) = None"
  using runs_by_uid_UID
  by (auto simp: classified_def run_of_job_def validateItem_def executionWorkItem_def Let_def
      split: option.splits if_splits)

lemma observe_keeps_violation: "safetyViolation g \<Longrightarrow> safetyViolation (observe_item it g)"
  by (cases "validateItem it = None") (simp_all add: observe_item_valid observe_item_invalid observed_violation_def)

lemma fold_observe_keeps_violation: "safetyViolation g \<Longrightarrow> safetyViolation (fold observe_item items g)"
  by (induction items arbitrary: g) (simp_all add: observe_keeps_violation)

lemma fold_observe_invalid:
  "it \<in> set items \<Longrightarrow> validateItem it \<noteq> None \<Longrightarrow> safetyViolation (fold observe_item items g)"
  by (induction items arbitrary: g) (auto simp: observe_item_invalid fold_observe_keeps_violation)

lemma unclassified_invalid: "validateItem (unclassified_item j) \<noteq> None"
  by (simp add: validateItem_def unclassified_item_def KindPlan_def KindApply_def)

lemma Reconstruct_violation: "safetyViolation (snd (Reconstruct d g items)) = safetyViolation (fold observe_item items (reset_gate g))"
  by (simp add: Reconstruct_gate Let_def)

lemma Reconstruct_active: "activeItems (snd (Reconstruct d g items)) = activeItems (fold observe_item items (reset_gate g))"
  by (simp add: Reconstruct_gate Let_def)

lemma violation_refuses: "safetyViolation g \<Longrightarrow> activeItems g (wi_ID it) = None \<Longrightarrow> \<not> fst (TryAcquire g it)"
  by (simp add: TryAcquire_def)

text \<open>
  C34. After a restart the gate knows every running Job: one that belongs to a TerraformRun holds
  that run's slot, and one that cannot be attributed closes the gate: it is not ready, and no
  new execution gets a slot.
\<close>
theorem restart_accounts_for_running_jobs:
  assumes "ReconstructActiveTerraformRuns d (Inr runs) (Inr jobs) (Some g) = (Inr r, Some g')"
    and "j \<in> set jobs" and "ghas (om_Labels (job_Meta j)) run_uid_label" and "\<not> job_terminal j"
  shows "case classified (runs_by_uid runs) j of
      Some run \<Rightarrow> activeItems g' (wi_ID (executionWorkItem run)) \<noteq> None
    | None \<Rightarrow> \<not> Ready g' \<and> (\<forall>it. activeItems g' (wi_ID it) = None \<longrightarrow> \<not> fst (TryAcquire g' it))"
proof -
  let ?items = "active_items runs (filter (\<lambda>j. ghas (om_Labels (job_Meta j)) run_uid_label) jobs)"
  have g': "g' = snd (Reconstruct d g ?items)"
    using assms(1) by (auto simp: ReconstructActiveTerraformRuns_def split: prod.splits)
  have mem: "(case classified (runs_by_uid runs) j of None \<Rightarrow> unclassified_item j | Some run \<Rightarrow> executionWorkItem run) \<in> set ?items"
    using assms(2-4) unfolding active_items_def by (auto simp: image_iff)
  show ?thesis
  proof (cases "classified (runs_by_uid runs) j")
    case None
    then have "safetyViolation g'"
      unfolding g' Reconstruct_violation using mem fold_observe_invalid unclassified_invalid by fastforce
    then show ?thesis using None violation_refuses by (auto simp: Ready_def)
  next
    case (Some run)
    then have "activeItems g' (wi_ID (executionWorkItem run)) \<noteq> None"
      unfolding g' Reconstruct_active using mem by (intro fold_observe_active classified_valid) simp_all
    then show ?thesis using Some by simp
  qed
qed

definition running_job :: job where
  "running_job = finished_job\<lparr>job_Meta := empty_meta\<lparr>om_Name := ''run'', om_Namespace := ''n'',
       om_Labels := [(run_uid_label, ''ru'')]\<rparr>, job_Status := no_status\<rparr>"

theorem restart_accounts_for_running_jobs_witness:
  "\<not> Ready (snd (Reconstruct 0 (NewGate 2 1) (active_items [] [running_job])))"
proof -
  have l: "ghas (om_Labels (job_Meta running_job)) run_uid_label" "\<not> job_terminal running_job"
    by (simp_all add: running_job_def ghas_def job_terminal_def no_status_def)
  have e: "ReconstructActiveTerraformRuns 0 (Inr []) (Inr [running_job]) (Some (NewGate 2 1))
      = (Inr (fst (Reconstruct 0 (NewGate 2 1) (active_items [] [running_job]))),
         Some (snd (Reconstruct 0 (NewGate 2 1) (active_items [] [running_job]))))"
    using l by (simp add: ReconstructActiveTerraformRuns_def split: prod.split)
  have "classified (runs_by_uid []) running_job = None"
    by (simp add: classified_def run_of_job_def runs_by_uid_def running_job_def split: option.split)
  then show ?thesis
    using restart_accounts_for_running_jobs [OF e _ l] by simp
qed

end
