(* ===== verification/StackCtl.thy ===== *)
theory StackCtl
  imports Runs TargetAdapters Artifacts
begin

section \<open>The InfraStack controller: internal/controller/infrastack\_controller.go\<close>

text \<open>
  One reconcile of an InfraStack. The reads are the record \<open>stack_env\<close>; each List of the code has
  its own answer, because other writers may act between two of them. The writes are the log of the
  effect. Verifying a target, decoding a discovery artifact and decoding a retained run spec are
  fields of the environment. After a successful write the object in memory is what was sent.
\<close>

datatype stack_write =
    UpdateStackW infra_stack
  | UpdateStackStatusW infra_stack
  | UpdateRunW terraform_run
  | UpdatePlanStatusW terraform_run
  | CreateRunW terraform_run

record stack_config =
  scf_ArtifactEndpoint :: string
  scf_ArtifactRegion :: string
  scf_ArtifactBucket :: string
  scf_ArtifactKMSKeyID :: string

record 'w stack_env =
  se_now :: time
  se_sha :: hash
  se_config :: stack_config
  se_credentials :: credentials_env
  se_get_stack :: "gerr + infra_stack"
  se_runs_destroy :: "gerr + terraform_run list"
  se_runs_plan :: "gerr + terraform_run list"
  se_runs_apply :: "gerr + terraform_run list"
  se_approvals :: "gerr + change_approval list"
  se_get_run :: "string \<Rightarrow> gerr + terraform_run"
  se_get_secret :: "string \<Rightarrow> gerr + secret"
  se_s3 :: "'w s3_api"
  se_bucket :: 'w
  se_decode_discovery :: "string \<Rightarrow> gerr + discovery_values"
  se_decode_spec :: "string \<Rightarrow> terraform_run_spec option"
  se_verifier :: "verifier option"
  se_set_owner :: "object_meta \<Rightarrow> string \<Rightarrow> object_meta \<Rightarrow> gerr + object_meta"
  se_created :: "terraform_run \<Rightarrow> terraform_run"
  se_answer :: "stack_write \<Rightarrow> gerr option"

type_synonym 'a stack_eff = "(stack_write, 'a) eff"

definition infraStackFinalizer :: string where
  "infraStackFinalizer = ''platform.example.io/infrastack-finalizer''"

definition lifecycleRequeue :: duration where "lifecycleRequeue = second"

subsection \<open>Status\<close>

definition updateStackStatus :: "'w stack_env \<Rightarrow> infra_stack \<Rightarrow> infra_stack_status \<Rightarrow> infra_stack stack_eff" where
  "updateStackStatus env object status =
     (if is_Status object = status then ret object
      else (let object' = object\<lparr>is_Status := status\<rparr> in
        perform (se_answer env) (UpdateStackStatusW object') (ret object')))"

definition cleanup_status :: "hash \<Rightarrow> infra_stack \<Rightarrow> string \<Rightarrow> infra_stack_status \<Rightarrow> infra_stack_status" where
  "cleanup_status sha object reason status = (let m = is_Meta object in
     status\<lparr>isst_CleanupEvidenceRef := ''cleanup/infrastack/'' @ om_Name m @ ''/'' @ show_int (om_Generation m),
       isst_CleanupEvidenceDigest := digestIdentity sha (jobj [(''Name'', Some (JStr (om_Name m))),
         (''Generation'', Some (JInt (om_Generation m))), (''Condition'', Some (JStr reason))])\<rparr>)"

definition with_condition :: "'w stack_env \<Rightarrow> infra_stack \<Rightarrow> condition \<Rightarrow> infra_stack_status \<Rightarrow> infra_stack_status" where
  "with_condition env object condition status =
     status\<lparr>isst_Conditions := [stableCondition (se_now env)
       (findCondition (isst_Conditions (is_Status object)) ConditionReady)
       (om_Generation (is_Meta object)) (c_Status condition) (c_Reason condition) (c_Message condition)]\<rparr>"

definition without_finalizer :: "infra_stack \<Rightarrow> infra_stack" where
  "without_finalizer object = object\<lparr>is_Meta := (is_Meta object)\<lparr>om_Finalizers :=
     removeString (om_Finalizers (is_Meta object)) infraStackFinalizer\<rparr>\<rparr>"

definition setStackCondition ::
  "'w stack_env \<Rightarrow> infra_stack \<Rightarrow> condition \<Rightarrow> bool \<Rightarrow> ctrl_result stack_eff" where
  "setStackCondition env object condition removeFinalizer =
     (let status = with_condition env object condition
            ((is_Status object)\<lparr>isst_ObservedGeneration := om_Generation (is_Meta object)\<rparr>)
      in eff_bind (updateStackStatus env object status) (\<lambda>object1.
        if removeFinalizer \<and> c_Status condition = ConditionTrue
           \<and> contains_string (om_Finalizers (is_Meta object1)) infraStackFinalizer
        then eff_bind (updateStackStatus env object1 (cleanup_status (se_sha env) object1 (c_Reason condition) status))
          (\<lambda>object2. perform_unless is_not_found (se_answer env) (UpdateStackW (without_finalizer object2)) (ret done_result))
        else ret done_result))"

subsection \<open>The Plan of a generation\<close>

text \<open>The newest Plan run of the stack for the mode and the generation; a foreign owner is an error.\<close>

definition plan_of_stack :: "infra_stack \<Rightarrow> string \<Rightarrow> terraform_run \<Rightarrow> bool" where
  "plan_of_stack stack planMode item \<longleftrightarrow> rs_StackRef (run_Spec item) = om_Name (is_Meta stack)
     \<and> rs_Operation (run_Spec item) = ''Plan'' \<and> rs_PlanMode (run_Spec item) = planMode
     \<and> rs_InfraStackGeneration (run_Spec item) = om_Generation (is_Meta stack)"

fun newest_plan ::
  "infra_stack \<Rightarrow> string \<Rightarrow> terraform_run option \<Rightarrow> terraform_run list \<Rightarrow> gerr + terraform_run option" where
  "newest_plan stack planMode candidate [] = Inr candidate"
| "newest_plan stack planMode candidate (item # items) =
     (if \<not> plan_of_stack stack planMode item then newest_plan stack planMode candidate items
      else if hasForeignController (run_Meta item) (is_Meta stack) ''InfraStack''
      then Inl (Err (''TerraformRun '' @ quoted (om_Name (run_Meta item)) @ '' is owned by another InfraStack''))
      else newest_plan stack planMode
        (if (case candidate of None \<Rightarrow> True
             | Some c \<Rightarrow> om_CreationTimestamp (run_Meta item) > om_CreationTimestamp (run_Meta c))
         then Some item else candidate) items)"

definition superseded_plan :: "time \<Rightarrow> terraform_run \<Rightarrow> terraform_run" where
  "superseded_plan now candidate = (let g = om_Generation (run_Meta candidate) in
     candidate\<lparr>run_Status := (run_Status candidate)\<lparr>rst_ExecutionOutcome := ''Superseded'', rst_ObservedGeneration := g,
       rst_Conditions := [executionCondition now g ConditionFalse ''Superseded''
         ''A stale or failed Plan attempt was superseded by a fresh immutable attempt.'']\<rparr>\<rparr>)"

definition adopt_plan :: "'w stack_env \<Rightarrow> infra_stack \<Rightarrow> terraform_run \<Rightarrow> terraform_run stack_eff" where
  "adopt_plan env stack candidate =
     (if om_UID (is_Meta stack) \<noteq> [] \<and> \<not> ownedBy (run_Meta candidate) (is_Meta stack) ''InfraStack'' then
        (case se_set_owner env (is_Meta stack) ''InfraStack'' (run_Meta candidate) of
           Inl e \<Rightarrow> fail e
         | Inr meta \<Rightarrow> (let candidate' = candidate\<lparr>run_Meta := meta\<rparr> in
             perform (se_answer env) (UpdateRunW candidate') (ret candidate')))
      else ret candidate)"

definition plan_name :: "'w stack_env \<Rightarrow> infra_stack \<Rightarrow> bool \<Rightarrow> bool \<Rightarrow> string" where
  "plan_name env stack destroy retry = (let m = is_Meta stack in
     if retry then planAttemptName (se_sha env) (se_now env) (om_Name m) (om_Generation m) destroy
     else if destroy then destroyPlanRunName (se_sha env) (om_Name m) (om_Generation m)
     else planRunName (se_sha env) (om_Name m) (om_Generation m))"

definition freeze_plan ::
  "'w stack_env \<Rightarrow> infra_stack \<Rightarrow> bool \<Rightarrow> terraform_run \<Rightarrow> gerr + terraform_run" where
  "freeze_plan env stack destroy child =
     sum_bind (resolveExecutionProfile (se_sha env) (se_get_secret env) (om_Namespace (is_Meta stack))
         (rs_ExecutionProfile (run_Spec child))) (\<lambda>profile.
     sum_bind (BindModuleInputs (rs_Inputs (run_Spec child)) (Some profile) (rs_InfrastructureExecutionRoleARN (run_Spec child)))
         (\<lambda>inputs. Inr (child\<lparr>run_Spec := (
           let spec = (run_Spec child)\<lparr>rs_ExecutionProfile := Some profile, rs_Inputs := inputs\<rparr>;
               context = planContextDigest (se_sha env) (is_Spec stack) (Some profile)
           in if destroy then spec
              else spec\<lparr>rs_ExecutionContextDigest := context, rs_EffectivePlanInputDigest := context\<rparr>)\<rparr>)))"

definition create_plan ::
  "'w stack_env \<Rightarrow> infra_stack \<Rightarrow> bool \<Rightarrow> terraform_run option \<Rightarrow> bool \<Rightarrow> terraform_run stack_eff" where
  "create_plan env stack destroy applied retry =
     (let name = plan_name env stack destroy retry in
      case (if destroy then map_option (\<lambda>a. buildDestroyPlanRun stack a name) applied
            else Some (buildPlanRun (se_sha env) stack name)) of
        None \<Rightarrow> fail (Err ''destroy PlanRun requires the last successful convergence closure'')
      | Some child0 \<Rightarrow>
          (case freeze_plan env stack destroy child0 of
             Inl e \<Rightarrow> fail e
           | Inr child \<Rightarrow>
               (case se_set_owner env (is_Meta stack) ''InfraStack'' (run_Meta child) of
                  Inl e \<Rightarrow> fail e
                | Inr meta \<Rightarrow> (let owned = child\<lparr>run_Meta := meta\<rparr> in
                    perform (se_answer env) (CreateRunW owned) (ret (se_created env owned))))))"

definition ensurePlanRun ::
  "'w stack_env \<Rightarrow> infra_stack \<Rightarrow> bool \<Rightarrow> terraform_run option \<Rightarrow> terraform_run stack_eff" where
  "ensurePlanRun env stack destroy applied =
     (case se_runs_plan env of
        Inl e \<Rightarrow> fail e
      | Inr runs \<Rightarrow>
          (case newest_plan stack (if destroy then ''Destroy'' else ''Reconcile'') None runs of
             Inl e \<Rightarrow> fail e
           | Inr None \<Rightarrow> create_plan env stack destroy applied False
           | Inr (Some candidate) \<Rightarrow>
               if \<not> planAttemptStale (se_now env) (Some candidate) then adopt_plan env stack candidate
               else perform (se_answer env) (UpdatePlanStatusW (superseded_plan (se_now env) candidate))
                 (create_plan env stack destroy applied True)))"

subsection \<open>The Apply of a Plan\<close>

definition apply_of_plan :: "infra_stack \<Rightarrow> terraform_run \<Rightarrow> terraform_run \<Rightarrow> bool" where
  "apply_of_plan stack plan candidate \<longleftrightarrow> rs_StackRef (run_Spec candidate) = om_Name (is_Meta stack)
     \<and> rs_Operation (run_Spec candidate) = ''Apply'' \<and> rs_PlanRunUID (run_Spec candidate) = om_UID (run_Meta plan)"

definition existing_apply :: "'w stack_env \<Rightarrow> infra_stack \<Rightarrow> terraform_run \<Rightarrow> gerr \<Rightarrow> gerr + terraform_run" where
  "existing_apply env stack apply err =
     (if \<not> is_already_exists err then Inl err
      else case se_get_run env (om_Name (run_Meta apply)) of
        Inl _ \<Rightarrow> Inl err
      | Inr existing \<Rightarrow>
          if \<not> ownedBy (run_Meta existing) (is_Meta stack) ''InfraStack'' \<or> run_Spec existing \<noteq> run_Spec apply
          then Inl (Err ''existing Apply run identity does not match frozen execution'') else Inr existing)"

definition ensureApplyRun ::
  "'w stack_env \<Rightarrow> infra_stack \<Rightarrow> terraform_run \<Rightarrow> change_approval \<Rightarrow> terraform_run stack_eff" where
  "ensureApplyRun env stack plan approval =
     (case validateApplyAdmission (se_sha env) (se_now env) stack plan approval of
        Some e \<Rightarrow> fail e
      | None \<Rightarrow>
          (case se_runs_apply env of
             Inl e \<Rightarrow> fail e
           | Inr runs \<Rightarrow>
               (case find (apply_of_plan stack plan) runs of
                  Some candidate \<Rightarrow> if \<not> ownedBy (run_Meta candidate) (is_Meta stack) ''InfraStack''
                    then fail (Err ''Apply run has a foreign owner'') else ret candidate
                | None \<Rightarrow>
                    (let apply = buildApplyRun stack plan approval
                         (applyRunName (se_sha env) (om_Name (run_Meta plan)) (om_UID (run_Meta plan)))
                     in case se_set_owner env (is_Meta stack) ''InfraStack'' (run_Meta apply) of
                          Inl e \<Rightarrow> fail e
                        | Inr meta \<Rightarrow> (let owned = apply\<lparr>run_Meta := meta\<rparr> in
                            case se_answer env (CreateRunW owned) of
                              None \<Rightarrow> ([CreateRunW owned], Inr (se_created env owned))
                            | Some e \<Rightarrow> ([CreateRunW owned], existing_apply env stack owned e))))))"

subsection \<open>Target discovery\<close>

text \<open>The verifier of the code: the identity must be the stack's, the binding valid, and the provider's verifier agree.\<close>

definition stack_verifier :: "runtime_target_identity \<Rightarrow> target_connection_profile \<Rightarrow> verifier \<Rightarrow> verifier" where
  "stack_verifier expected expectedProfile verify identity profile =
     (if rti_Provider identity \<noteq> rti_Provider expected \<or> rti_AccountID identity \<noteq> rti_AccountID expected
         \<or> rti_Region identity \<noteq> rti_Region expected
         \<or> rti_ClusterName expected \<noteq> [] \<and> rti_ClusterName identity \<noteq> rti_ClusterName expected
         \<or> rti_ClusterARN expected \<noteq> [] \<and> rti_ClusterARN identity \<noteq> rti_ClusterARN expected
      then Some (Err ''discovered runtime target does not match the InfraStack identity'')
      else if tcp_AuthMode profile \<noteq> tcp_AuthMode expectedProfile
         \<or> tcp_KubeContext expectedProfile \<noteq> [] \<and> tcp_KubeContext profile \<noteq> tcp_KubeContext expectedProfile
      then Some (Err ''discovered target connection profile does not match the frozen profile'')
      else and_then (ValidateBinding identity profile) (verify identity profile))"

definition expected_identity :: "runtime_target_identity \<Rightarrow> gerr + runtime_target_identity" where
  "expected_identity i =
     (if rti_AccountID i = [] \<and> rti_Provider i = ProviderAWS then Inl (Err ''AWS target account is required before discovery'')
      else if rti_Region i = [] \<and> rti_Provider i = ProviderAWS then Inl (Err ''AWS target region is required before discovery'')
      else Inr (i\<lparr>rti_AccountID := or_else (rti_AccountID i) ''local'', rti_Region := or_else (rti_Region i) ''local''\<rparr>))"

definition verifyTargetDiscovery :: "'w stack_env \<Rightarrow> infra_stack \<Rightarrow> terraform_run \<Rightarrow> gerr + discovery_result" where
  "verifyTargetDiscovery env stack run =
     (let c = se_config env; st = run_Status run; profile = iss_TargetConnectionProfile (is_Spec stack) in
      if rst_TargetDiscoveryRef st = [] \<or> rst_TargetDiscoveryDigest st = []
      then Inl (Err ''target discovery artifact is missing'')
      else if scf_ArtifactRegion c = [] \<or> scf_ArtifactBucket c = []
      then Inl (Err ''target discovery artifact store region and bucket are not configured'')
      else sum_bind (NewS3StoreWithKMS (se_credentials env) (scf_ArtifactEndpoint c) (scf_ArtifactRegion c)
          (scf_ArtifactBucket c) (scf_ArtifactKMSKeyID c)) (\<lambda>_.
        case GetVerified (se_sha env) (se_s3 env) (se_bucket env)
            \<lparr>ref_Key = rst_TargetDiscoveryRef st, ref_Digest = rst_TargetDiscoveryDigest st, ref_Size = 0, ref_VersionID = []\<rparr> of
          Inl e \<Rightarrow> Inl (Wrap ''read target discovery artifact'' e)
        | Inr content \<Rightarrow> sum_bind (expected_identity (iss_RuntimeTargetIdentity (is_Spec stack))) (\<lambda>expected.
            case (if rti_Provider expected = ProviderKubernetes \<or> rti_Provider expected = ProviderKind
                  then Some (VerifyKubeconfigTarget expected profile) else se_verifier env) of
              None \<Rightarrow> Inl (Err (''trusted target verifier is not configured for provider '' @ quoted (rti_Provider expected)))
            | Some verify \<Rightarrow> DiscoverFromTerraformOutput (se_sha env) (se_decode_discovery env) content
                \<lparr>di_SourceClosureDigest = rst_SourceBundleDigest st, di_BackendSnapshotDigest = rst_ResolvedBackendConfigDigest st,
                 di_EffectivePlanInputDigest = rst_EffectivePlanInputDigest st, di_ExpectedTarget = expected,
                 di_ExpectedConnection = profile\<rparr>
                (Some (stack_verifier expected profile verify)))))"

definition setDiscoveredTarget :: "infra_stack_status \<Rightarrow> discovery_result \<Rightarrow> infra_stack_status" where
  "setDiscoveredTarget status d = status\<lparr>isst_DiscoveredRuntimeTargetIdentity := Some (dr_RuntimeTargetIdentity d),
     isst_DiscoveredTargetConnectionProfile := Some (dr_TargetConnection d)\<rparr>"

subsection \<open>What a Plan and its Apply mean for the stack\<close>

text \<open>Recording a convergence: the closure, the evidence and the discovered target.\<close>

definition converged_status ::
  "terraform_run \<Rightarrow> last_converged_source_closure \<Rightarrow> discovery_result \<Rightarrow> infra_stack_status \<Rightarrow> infra_stack_status" where
  "converged_status run closure d status = (let s = run_Status run in
     setDiscoveredTarget (status\<lparr>isst_LastConverged := Some closure,
       isst_ConvergenceEvidenceRef := rst_TerminalResultRef s, isst_ConvergenceEvidenceDigest := rst_TerminalResultDigest s,
       isst_TargetDiscoveryRef := rst_TargetDiscoveryRef s, isst_TargetDiscoveryDigest := rst_TargetDiscoveryDigest s\<rparr>) d)"

definition no_change_result ::
  "'w stack_env \<Rightarrow> infra_stack \<Rightarrow> terraform_run \<Rightarrow> bool \<Rightarrow> infra_stack_status \<Rightarrow> infra_stack_status \<times> condition" where
  "no_change_result env stack plan destroy status =
     (let cond = lifecycleCondition (se_now env) (om_Generation (is_Meta stack)) in
      if destroy then
        (status, if \<not> runEvidenceReady plan
           then cond ConditionFalse ''DestroyEvidencePending'' ''Terraform Destroy Plan is terminal, but durable evidence is incomplete.''
           else cond ConditionTrue ''InfrastructureRemoved'' ''Terraform Destroy plan has no changes; infrastructure is already absent.'')
      else case (verifyTargetDiscovery env stack plan, convergenceClosure (se_sha env) stack plan plan) of
        (Inl e, _) \<Rightarrow> (status, cond ConditionFalse ''TargetDiscoveryRejected'' (err_text e))
      | (Inr _, None) \<Rightarrow> (status, cond ConditionFalse ''ConvergenceEvidencePending''
            ''Terraform reported NoChange, but durable source/backend/terminal evidence is incomplete.'')
      | (Inr d, Some closure) \<Rightarrow> (converged_status plan closure d status, cond ConditionTrue ''InfrastructureReady''
            ''Terraform plan has no changes and durable convergence evidence is present.''))"

definition last_applied :: "terraform_run \<Rightarrow> infra_stack_status \<Rightarrow> infra_stack_status" where
  "last_applied apply status =
     (let s = run_Status apply; src = rs_Source (run_Spec apply);
          own = (rst_SourceBundleRef s = [] \<and> ps_Type src = SourceRetainedBundle)
      in status\<lparr>isst_LastAppliedRunRef := Some (om_Name (run_Meta apply)),
           isst_LastAppliedSourceBundleRef := (if own then ps_Ref src else rst_SourceBundleRef s),
           isst_LastAppliedSourceBundleDigest := (if own then ps_Digest src else rst_SourceBundleDigest s)\<rparr>)"

definition apply_result ::
  "'w stack_env \<Rightarrow> infra_stack \<Rightarrow> terraform_run \<Rightarrow> terraform_run \<Rightarrow> bool \<Rightarrow> infra_stack_status
   \<Rightarrow> infra_stack_status \<times> condition" where
  "apply_result env stack plan apply destroy status =
     (let g = om_Generation (is_Meta stack); cond = lifecycleCondition (se_now env) g;
          condition = applyCondition (se_now env) g apply destroy in
      if destroy \<or> rst_ExecutionOutcome (run_Status apply) \<noteq> ''Succeeded'' then (status, condition)
      else case (verifyTargetDiscovery env stack apply, convergenceClosure (se_sha env) stack plan apply) of
        (Inl e, _) \<Rightarrow> (last_applied apply status, cond ConditionFalse ''TargetDiscoveryRejected'' (err_text e))
      | (Inr _, None) \<Rightarrow> (last_applied apply status, cond ConditionFalse ''ConvergenceEvidencePending''
            ''Terraform Apply succeeded, but durable convergence evidence is incomplete.'')
      | (Inr d, Some closure) \<Rightarrow> (converged_status apply closure d (last_applied apply status), condition))"

definition approved_result ::
  "'w stack_env \<Rightarrow> infra_stack \<Rightarrow> terraform_run \<Rightarrow> change_approval \<Rightarrow> bool \<Rightarrow> infra_stack_status
   \<Rightarrow> (infra_stack_status \<times> condition) stack_eff" where
  "approved_result env stack plan approval destroy status =
     (let cond = lifecycleCondition (se_now env) (om_Generation (is_Meta stack)); s = run_Status plan in
      if rst_PlanDigest s = [] \<or> rst_SourceBundleRef s = [] \<or> rst_SourceBundleDigest s = [] \<or> \<not> planEvidenceReady plan
      then ret (status, cond ConditionFalse ''PlanArtifactsPending''
        ''A valid approval exists, but immutable plan/source artifacts are not ready.'')
      else (let (log, res) = ensureApplyRun env stack plan approval in
        (log, Inr (case res of
            Inl e \<Rightarrow> (status, cond ConditionFalse ''ApplyBlocked'' (err_text e))
          | Inr apply \<Rightarrow>
              (case validateApplyAdmission (se_sha env) (se_now env) stack plan approval of
                 Some e \<Rightarrow> (status, cond ConditionFalse ''ApplyBlocked'' (err_text e))
               | None \<Rightarrow> if iss_MutationFence (is_Spec stack) \<and> \<not> destroy
                   then (status, cond ConditionFalse ''MutationFence'' ''Apply admission is closed by the durable mutation fence.'')
                   else apply_result env stack plan apply destroy status)))))"

definition plan_result ::
  "'w stack_env \<Rightarrow> infra_stack \<Rightarrow> terraform_run \<Rightarrow> bool \<Rightarrow> infra_stack_status
   \<Rightarrow> (infra_stack_status \<times> condition) stack_eff" where
  "plan_result env stack plan destroy status =
     (let cond = lifecycleCondition (se_now env) (om_Generation (is_Meta stack));
          outcome = rst_ExecutionOutcome (run_Status plan) in
      if outcome = ''NoChange'' then ret (no_change_result env stack plan destroy status)
      else if outcome = ''ChangesPresent'' then
        (case validApprovalForPlan (se_now env) (se_approvals env) plan of
           Inl e \<Rightarrow> fail e
         | Inr None \<Rightarrow> ret (status, cond ConditionFalse ''WaitingApproval''
             ''Terraform plan contains changes and is waiting for a valid ChangeApproval.'')
         | Inr (Some approval) \<Rightarrow> approved_result env stack plan approval destroy status)
      else if outcome = ''Failed'' then ret (status, cond ConditionFalse ''PlanFailed'' ''Terraform PlanRun failed.'')
      else if outcome = ''Indeterminate'' then ret (status, cond ConditionUnknown ''PlanIndeterminate''
        ''Terraform PlanRun ended without a trusted terminal result.'')
      else if rst_JobRef (run_Status plan) \<noteq> None
      then ret (status, cond ConditionFalse ''PlanRunning'' ''Terraform PlanRun is executing.'')
      else ret (status, cond ConditionFalse ''PlanPending'' ''Terraform PlanRun is pending.''))"

definition observed_status :: "infra_stack \<Rightarrow> terraform_run \<Rightarrow> infra_stack_status" where
  "observed_status stack plan =
     (let g = om_Generation (is_Meta stack); s = is_Status stack;
          s1 = s\<lparr>isst_ObservedGeneration := g\<rparr>;
          s2 = (if isst_ObservedGeneration s \<noteq> g
                then s1\<lparr>isst_DiscoveredRuntimeTargetIdentity := None, isst_DiscoveredTargetConnectionProfile := None,
                  isst_TargetDiscoveryRef := [], isst_TargetDiscoveryDigest := []\<rparr> else s1)
      in s2\<lparr>isst_LatestPlanRunRef := Some (om_Name (run_Meta plan))\<rparr>)"

definition reconcilePlanResult ::
  "'w stack_env \<Rightarrow> infra_stack \<Rightarrow> terraform_run \<Rightarrow> bool \<Rightarrow> (infra_stack \<times> ctrl_result) stack_eff" where
  "reconcilePlanResult env stack plan destroy =
     eff_bind (plan_result env stack plan destroy (observed_status stack plan)) (\<lambda>(status, condition).
       eff_bind (updateStackStatus env stack (with_condition env stack condition status)) (\<lambda>stack'.
         ret (stack', if c_Status condition \<noteq> ConditionTrue then requeue_after lifecycleRequeue else done_result)))"

subsection \<open>Reconcile\<close>

definition reconcilePresent :: "'w stack_env \<Rightarrow> infra_stack \<Rightarrow> ctrl_result stack_eff" where
  "reconcilePresent env object =
     eff_bind (ensurePlanRun env object False None) (\<lambda>child.
       eff_bind (reconcilePlanResult env object child False) (\<lambda>(_, result). ret result))"

definition stack_apply :: "infra_stack \<Rightarrow> terraform_run \<Rightarrow> bool" where
  "stack_apply object run \<longleftrightarrow> rs_StackRef (run_Spec run) = om_Name (is_Meta object) \<and> rs_Operation (run_Spec run) = ''Apply''"

text \<open>The first Apply of the stack that holds a Destroy back, as the condition it is reported with.\<close>

fun destroy_hold :: "time \<Rightarrow> infra_stack \<Rightarrow> terraform_run list \<Rightarrow> condition option" where
  "destroy_hold now object [] = None"
| "destroy_hold now object (run # runs) =
     (let s = run_Status run; oc = rst_ExecutionOutcome s;
          cond = lifecycleCondition now (om_Generation (is_Meta object)) in
      if \<not> stack_apply object run then destroy_hold now object runs
      else if oc = ''Indeterminate'' \<or> oc = ''Failed'' \<and> rst_MutationMayHaveOccurred s
      then Some (cond ConditionUnknown ''RecoveryRequired''
        ''An active Apply is indeterminate; destroy is blocked until fresh observation and Plan.'')
      else if oc \<noteq> ''Succeeded'' \<and> oc \<noteq> ''Failed'' \<and> oc \<noteq> ''Rejected''
      then Some (cond ConditionFalse ''DeletionHeld''
        ''Destroy is waiting for the active Apply to reach a terminal classification.'')
      else if oc = ''Failed'' \<and> rst_MutationClassification s \<noteq> ''FailedPreMutation''
      then Some (cond ConditionUnknown ''RecoveryRequired''
        ''A failed Apply may have changed infrastructure; refusing blind Destroy.'')
      else destroy_hold now object runs)"

text \<open>An Apply that was rejected before it could create a Job changed nothing.\<close>

definition never_started :: "terraform_run \<Rightarrow> bool" where
  "never_started run \<longleftrightarrow> rst_ExecutionOutcome (run_Status run) = ''Rejected'' \<and> rst_JobRef (run_Status run) = None
     \<and> \<not> rst_MutationMayHaveOccurred (run_Status run)"

definition nothing_applied :: "infra_stack \<Rightarrow> bool" where
  "nothing_applied object \<longleftrightarrow>
     (case isst_LastAppliedRunRef (is_Status object) of None \<Rightarrow> True | Some n \<Rightarrow> n = [])"

definition is_removed :: "condition option \<Rightarrow> bool" where
  "is_removed c \<longleftrightarrow> (case c of None \<Rightarrow> False
     | Some x \<Rightarrow> c_Status x = ConditionTrue \<and> c_Reason x = ''InfrastructureRemoved'')"

definition destroy_unapplied :: "'w stack_env \<Rightarrow> infra_stack \<Rightarrow> terraform_run list \<Rightarrow> ctrl_result stack_eff" where
  "destroy_unapplied env object runs =
     (let cond = lifecycleCondition (se_now env) (om_Generation (is_Meta object)) in
      if \<not> nothing_applied object
      then setStackCondition env object (cond ConditionFalse ''RecoveryRequired''
        ''The last successful convergence closure is unavailable; refusing to guess a Destroy source.'') False
      else if list_ex (\<lambda>run. stack_apply object run \<and> \<not> never_started run) runs
      then setStackCondition env object (cond ConditionFalse ''RecoveryRequired''
        ''Destroy requires evidence for an Apply that may have changed infrastructure.'') False
      else if (case findCondition (isst_Conditions (is_Status object)) ConditionReady of
          None \<Rightarrow> True | Some c \<Rightarrow> c_Reason c \<noteq> ''InfrastructureRemoved'')
      then eff_bind (setStackCondition env object (cond ConditionTrue ''InfrastructureRemoved''
        ''No successful Apply exists; Terraform infrastructure was never admitted.'') True) (\<lambda>_. ret done_result)
      else ret done_result)"

definition destroy_applied :: "'w stack_env \<Rightarrow> infra_stack \<Rightarrow> terraform_run \<Rightarrow> ctrl_result stack_eff" where
  "destroy_applied env object applied =
     eff_bind (ensurePlanRun env object True (Some applied)) (\<lambda>child.
       eff_bind (reconcilePlanResult env object child True) (\<lambda>(object', result).
         if Requeue result \<or> RequeueAfter result > 0 then ret result
         else (case findCondition (isst_Conditions (is_Status object')) ConditionReady of
             None \<Rightarrow> ret (requeue_after lifecycleRequeue)
           | Some condition \<Rightarrow>
               if \<not> is_removed (Some condition) then ret (requeue_after lifecycleRequeue)
               else if om_DeletionTimestamp (is_Meta object') \<noteq> None
                  \<and> contains_string (om_Finalizers (is_Meta object')) infraStackFinalizer
               then setStackCondition env object' condition True
               else ret done_result)))"

definition destroy_pending :: "'w stack_env \<Rightarrow> infra_stack \<Rightarrow> ctrl_result stack_eff" where
  "destroy_pending env object =
     (case se_runs_destroy env of
        Inl e \<Rightarrow> fail e
      | Inr runs \<Rightarrow>
          (case destroy_hold (se_now env) object runs of
             Some condition \<Rightarrow> setStackCondition env object condition False
           | None \<Rightarrow>
               (case isst_LastConverged (is_Status object) of
                  None \<Rightarrow> destroy_unapplied env object runs
                | Some closure \<Rightarrow>
                    (case retainedRunFromClosure (se_sha env) (se_decode_spec env) object closure of
                       None \<Rightarrow> setStackCondition env object (lifecycleCondition (se_now env) (om_Generation (is_Meta object))
                         ConditionFalse ''RecoveryRequired'' ''Retained execution snapshot is invalid.'') False
                     | Some applied \<Rightarrow> destroy_applied env object applied))))"

definition reconcileDestroy :: "'w stack_env \<Rightarrow> infra_stack \<Rightarrow> ctrl_result stack_eff" where
  "reconcileDestroy env object =
     (case findCondition (isst_Conditions (is_Status object)) ConditionReady of
        Some condition \<Rightarrow> if is_removed (Some condition) then setStackCondition env object condition True
          else destroy_pending env object
      | None \<Rightarrow> destroy_pending env object)"

definition wants_destroy :: "infra_stack \<Rightarrow> bool" where
  "wants_destroy object \<longleftrightarrow> iss_DesiredState (is_Spec object) = DesiredStateDestroy
     \<or> om_DeletionTimestamp (is_Meta object) \<noteq> None"

definition InfraStack_Reconcile :: "'w stack_env \<Rightarrow> ctrl_result stack_eff" where
  "InfraStack_Reconcile env =
     (case se_get_stack env of
        Inl e \<Rightarrow> if is_not_found e then ret done_result else fail e
      | Inr object \<Rightarrow>
          (let m = is_Meta object in
           if om_DeletionTimestamp m = None \<and> \<not> contains_string (om_Finalizers m) infraStackFinalizer
           then perform (se_answer env)
             (UpdateStackW (object\<lparr>is_Meta := m\<lparr>om_Finalizers := om_Finalizers m @ [infraStackFinalizer]\<rparr>\<rparr>)) (ret requeue_now)
           else if wants_destroy object then
             (if \<not> iss_MutationFence (is_Spec object)
              then perform (se_answer env)
                (UpdateStackW (object\<lparr>is_Spec := (is_Spec object)\<lparr>iss_MutationFence := True\<rparr>\<rparr>)) (ret (requeue_after lifecycleRequeue))
              else reconcileDestroy env object)
           else if iss_MutationFence (is_Spec object)
           then setStackCondition env object (lifecycleCondition (se_now env) (om_Generation m) ConditionFalse ''MutationFence''
             ''Infrastructure mutation is closed by the durable deletion fence.'') False
           else reconcilePresent env object))"

end
