(* ===== verification/StackSafety.thy ===== *)
theory StackSafety
  imports StackCtl
begin

section \<open>What the InfraStack controller guarantees\<close>

text \<open>
  What each write of a reconcile means: an Apply run is created only from an admitted approval, a
  Destroy is planned only behind the fence and when no Apply can still be changing anything, the
  finalizer goes away only with evidence that nothing is left, and a convergence is recorded only
  with a verified target.
\<close>

subsection \<open>Which functions create runs\<close>

definition no_create :: "stack_write list \<Rightarrow> bool" where
  "no_create ws \<longleftrightarrow> (\<forall>r. CreateRunW r \<notin> set ws)"

lemma updateStackStatus_log:
  "w \<in> set (fst (updateStackStatus env object status)) \<Longrightarrow> w = UpdateStackStatusW (object\<lparr>is_Status := status\<rparr>)"
  by (auto simp: updateStackStatus_def Let_def eff_simps split: if_splits)

lemma updateStackStatus_result:
  "snd (updateStackStatus env object status) = Inr object' \<Longrightarrow> object' = object\<lparr>is_Status := status\<rparr>"
  by (auto simp: updateStackStatus_def Let_def eff_simps split: if_splits option.splits)

lemma setStackCondition_log:
  assumes "w \<in> set (fst (setStackCondition env object condition removeFinalizer))"
  shows "(\<exists>s. w = UpdateStackStatusW (object\<lparr>is_Status := s\<rparr>) \<and> isst_LastConverged s = isst_LastConverged (is_Status object))
    \<or> removeFinalizer \<and> c_Status condition = ConditionTrue \<and> (\<exists>s. w = UpdateStackW (without_finalizer (object\<lparr>is_Status := s\<rparr>)))"
  using assms unfolding setStackCondition_def Let_def
  by (auto simp: eff_simps with_condition_def cleanup_status_def Let_def
      dest!: updateStackStatus_log updateStackStatus_result split: if_splits)

lemma setStackCondition_no_create: "no_create (fst (setStackCondition env object condition f))"
  using setStackCondition_log [of _ env object condition f] by (fastforce simp: no_create_def)

lemma adopt_plan_log: "w \<in> set (fst (adopt_plan env stack c)) \<Longrightarrow> \<exists>r. w = UpdateRunW r"
  by (auto simp: adopt_plan_def Let_def eff_simps split: if_splits sum.splits)

lemma freeze_plan_keeps:
  "freeze_plan env stack destroy child = Inr r \<Longrightarrow>
     rs_Operation (run_Spec r) = rs_Operation (run_Spec child) \<and> rs_PlanMode (run_Spec r) = rs_PlanMode (run_Spec child)
     \<and> rs_Source (run_Spec r) = rs_Source (run_Spec child)"
  by (auto simp: freeze_plan_def sum_bind_def Let_def split: sum.splits)

lemma buildPlanRun_fields [simp]:
  "rs_Operation (run_Spec (buildPlanRun sha stack n)) = ''Plan''"
  "rs_PlanMode (run_Spec (buildPlanRun sha stack n)) = ''Reconcile''"
  by (simp_all add: buildPlanRun_def Let_def)

lemma create_plan_log:
  assumes "w \<in> set (fst (create_plan env stack destroy applied retry))"
  shows "\<exists>r. w = CreateRunW r \<and> rs_Operation (run_Spec r) = ''Plan''
     \<and> rs_PlanMode (run_Spec r) = (if destroy then ''Destroy'' else ''Reconcile'')
     \<and> (destroy \<longrightarrow> (\<exists>a n. applied = Some a \<and> rs_Source (run_Spec r) = rs_Source (run_Spec (buildDestroyPlanRun stack a n))))"
  using assms freeze_plan_keeps [of env stack destroy] unfolding create_plan_def Let_def
  by (auto simp: eff_simps split: option.splits sum.splits if_splits)

lemma ensurePlanRun_log:
  assumes "w \<in> set (fst (ensurePlanRun env stack destroy applied))"
  shows "(\<exists>r. w = UpdateRunW r \<or> w = UpdatePlanStatusW r)
    \<or> (\<exists>retry. w \<in> set (fst (create_plan env stack destroy applied retry)))"
  using assms unfolding ensurePlanRun_def
  by (auto simp: eff_simps dest: adopt_plan_log split: option.splits sum.splits if_splits)

lemma ensureApplyRun_log:
  assumes "w \<in> set (fst (ensureApplyRun env stack plan approval))"
  shows "validateApplyAdmission (se_sha env) (se_now env) stack plan approval = None
     \<and> (\<exists>meta n. w = CreateRunW ((buildApplyRun stack plan approval n)\<lparr>run_Meta := meta\<rparr>))"
  using assms unfolding ensureApplyRun_def Let_def
  by (auto split: option.splits sum.splits if_splits)

lemma plan_result_log:
  assumes "w \<in> set (fst (plan_result env stack plan destroy status))"
  shows "\<exists>approval. validApprovalForPlan (se_now env) (se_approvals env) plan = Inr (Some approval)
     \<and> rst_ExecutionOutcome (run_Status plan) = ''ChangesPresent''
     \<and> w \<in> set (fst (ensureApplyRun env stack plan approval))"
  using assms unfolding plan_result_def Let_def approved_result_def
  by (auto split: if_splits sum.splits option.splits prod.splits)

lemma reconcilePlanResult_log:
  assumes "w \<in> set (fst (reconcilePlanResult env stack plan destroy))"
  shows "w \<in> set (fst (plan_result env stack plan destroy (observed_status stack plan)))
    \<or> (\<exists>status condition. snd (plan_result env stack plan destroy (observed_status stack plan)) = Inr (status, condition)
         \<and> w = UpdateStackStatusW (stack\<lparr>is_Status := with_condition env stack condition status\<rparr>))"
  using assms unfolding reconcilePlanResult_def
  by (auto simp: eff_simps dest: updateStackStatus_log split: prod.splits)

lemma reconcilePlanResult_result:
  assumes "snd (reconcilePlanResult env stack plan destroy) = Inr (stack', result)"
  shows "\<exists>status condition. snd (plan_result env stack plan destroy (observed_status stack plan)) = Inr (status, condition)
     \<and> stack' = stack\<lparr>is_Status := with_condition env stack condition status\<rparr>
     \<and> result = (if c_Status condition \<noteq> ConditionTrue then requeue_after lifecycleRequeue else done_result)"
proof -
  obtain status condition where r: "snd (plan_result env stack plan destroy (observed_status stack plan)) = Inr (status, condition)"
    using assms unfolding reconcilePlanResult_def by (auto simp: eff_simps split: prod.splits sum.splits)
  then have u: "snd (updateStackStatus env stack (with_condition env stack condition status)) = Inr stack'"
    and "result = (if c_Status condition \<noteq> ConditionTrue then requeue_after lifecycleRequeue else done_result)"
    using assms unfolding reconcilePlanResult_def by (auto simp: eff_simps split: sum.splits)
  with r updateStackStatus_result [OF u] show ?thesis by blast
qed

lemma reconcilePresent_log:
  assumes "w \<in> set (fst (reconcilePresent env object))"
  shows "w \<in> set (fst (ensurePlanRun env object False None))
    \<or> (\<exists>plan. w \<in> set (fst (reconcilePlanResult env object plan False)))"
  using assms unfolding reconcilePresent_def by (auto simp: eff_simps split: prod.splits)

lemma destroy_applied_log:
  assumes "w \<in> set (fst (destroy_applied env object applied))"
  shows "w \<in> set (fst (ensurePlanRun env object True (Some applied)))
    \<or> (\<exists>plan. w \<in> set (fst (reconcilePlanResult env object plan True)))
    \<or> (\<exists>plan object' result condition. snd (ensurePlanRun env object True (Some applied)) = Inr plan
         \<and> snd (reconcilePlanResult env object plan True) = Inr (object', result)
         \<and> findCondition (isst_Conditions (is_Status object')) ConditionReady = Some condition
         \<and> is_removed (Some condition) \<and> w \<in> set (fst (setStackCondition env object' condition True)))"
  using assms unfolding destroy_applied_def
  by (auto simp: eff_simps split: prod.splits option.splits if_splits)

lemma destroy_unapplied_log:
  assumes "w \<in> set (fst (destroy_unapplied env object runs))"
  shows "(\<exists>condition. w \<in> set (fst (setStackCondition env object condition False)))
    \<or> nothing_applied object \<and> (\<forall>run \<in> set runs. stack_apply object run \<longrightarrow> never_started run)
      \<and> (\<exists>condition. w \<in> set (fst (setStackCondition env object condition True)))"
  using assms unfolding destroy_unapplied_def Let_def
  by (auto simp: eff_simps list_ex_iff split: option.splits if_splits)

definition settled :: "terraform_run \<Rightarrow> bool" where
  "settled run \<longleftrightarrow> (let s = run_Status run in
     rst_ExecutionOutcome s = ''Succeeded'' \<or> rst_ExecutionOutcome s = ''Rejected''
     \<or> rst_ExecutionOutcome s = ''Failed'' \<and> \<not> rst_MutationMayHaveOccurred s
        \<and> rst_MutationClassification s = ''FailedPreMutation'')"

lemma destroy_hold_None:
  "destroy_hold now object runs = None \<longleftrightarrow> (\<forall>run \<in> set runs. stack_apply object run \<longrightarrow> settled run)"
  by (induction runs) (auto simp: settled_def Let_def)

lemma reconcileDestroy_cases:
  assumes "w \<in> set (fst (reconcileDestroy env object))"
  shows "is_removed (findCondition (isst_Conditions (is_Status object)) ConditionReady)
      \<and> (\<exists>condition. w \<in> set (fst (setStackCondition env object condition True)))
    \<or> \<not> is_removed (findCondition (isst_Conditions (is_Status object)) ConditionReady) \<and> w \<in> set (fst (destroy_pending env object))"
  using assms unfolding reconcileDestroy_def by (auto simp: is_removed_def split: option.splits if_splits)

lemma destroy_pending_cases:
  assumes "w \<in> set (fst (destroy_pending env object))"
  shows "(\<exists>condition. w \<in> set (fst (setStackCondition env object condition False)))
    \<or> (\<exists>runs. se_runs_destroy env = Inr runs \<and> (\<forall>run \<in> set runs. stack_apply object run \<longrightarrow> settled run)
       \<and> (isst_LastConverged (is_Status object) = None \<and> w \<in> set (fst (destroy_unapplied env object runs))
          \<or> (\<exists>closure applied. isst_LastConverged (is_Status object) = Some closure
               \<and> retainedRunFromClosure (se_sha env) (se_decode_spec env) object closure = Some applied
               \<and> w \<in> set (fst (destroy_applied env object applied)))))"
proof (cases "se_runs_destroy env")
  case (Inr runs)
  show ?thesis
  proof (cases "destroy_hold (se_now env) object runs")
    case None
    then show ?thesis
      using assms Inr destroy_hold_None [of "se_now env" object runs] unfolding destroy_pending_def
      by (auto split: option.splits)
  qed (use assms Inr in \<open>auto simp: destroy_pending_def\<close>)
qed (use assms in \<open>auto simp: destroy_pending_def\<close>)

lemma Reconcile_cases:
  assumes "w \<in> set (fst (InfraStack_Reconcile env))"
  shows "\<exists>object. se_get_stack env = Inr object \<and>
    ((\<exists>m. w = UpdateStackW (object\<lparr>is_Meta := m\<rparr>) \<and> set (om_Finalizers (is_Meta object)) \<subseteq> set (om_Finalizers m))
     \<or> wants_destroy object \<and> w = UpdateStackW (object\<lparr>is_Spec := (is_Spec object)\<lparr>iss_MutationFence := True\<rparr>\<rparr>)
     \<or> wants_destroy object \<and> iss_MutationFence (is_Spec object) \<and> w \<in> set (fst (reconcileDestroy env object))
     \<or> \<not> wants_destroy object \<and> (\<exists>condition. w \<in> set (fst (setStackCondition env object condition False)))
     \<or> \<not> wants_destroy object \<and> \<not> iss_MutationFence (is_Spec object) \<and> w \<in> set (fst (reconcilePresent env object)))"
proof (cases "se_get_stack env")
  case (Inl e)
  then show ?thesis using assms by (simp add: InfraStack_Reconcile_def split: if_splits)
next
  case (Inr object)
  let ?m = "is_Meta object"
  consider (new) "om_DeletionTimestamp ?m = None" "\<not> contains_string (om_Finalizers ?m) infraStackFinalizer"
    | (fence) "\<not> (om_DeletionTimestamp ?m = None \<and> \<not> contains_string (om_Finalizers ?m) infraStackFinalizer)"
        "wants_destroy object" "\<not> iss_MutationFence (is_Spec object)"
    | (destroy) "\<not> (om_DeletionTimestamp ?m = None \<and> \<not> contains_string (om_Finalizers ?m) infraStackFinalizer)"
        "wants_destroy object" "iss_MutationFence (is_Spec object)"
    | (fenced) "\<not> (om_DeletionTimestamp ?m = None \<and> \<not> contains_string (om_Finalizers ?m) infraStackFinalizer)"
        "\<not> wants_destroy object" "iss_MutationFence (is_Spec object)"
    | (present) "\<not> (om_DeletionTimestamp ?m = None \<and> \<not> contains_string (om_Finalizers ?m) infraStackFinalizer)"
        "\<not> wants_destroy object" "\<not> iss_MutationFence (is_Spec object)"
    by (cases "wants_destroy object"; cases "iss_MutationFence (is_Spec object)") metis+
  then show ?thesis
  proof cases
    case new
    then have "w = UpdateStackW (object\<lparr>is_Meta := ?m\<lparr>om_Finalizers := om_Finalizers ?m @ [infraStackFinalizer]\<rparr>\<rparr>)"
      using assms Inr by (simp add: InfraStack_Reconcile_def eff_simps Let_def)
    moreover have "set (om_Finalizers ?m) \<subseteq> set (om_Finalizers (?m\<lparr>om_Finalizers := om_Finalizers ?m @ [infraStackFinalizer]\<rparr>))"
      by auto
    ultimately show ?thesis using Inr by blast
  next
    case fence
    then have "w = UpdateStackW (object\<lparr>is_Spec := (is_Spec object)\<lparr>iss_MutationFence := True\<rparr>\<rparr>)"
      using assms Inr by (auto simp: InfraStack_Reconcile_def eff_simps Let_def)
    then show ?thesis using Inr fence by blast
  next
    case destroy
    then have "w \<in> set (fst (reconcileDestroy env object))" using assms Inr by (auto simp: InfraStack_Reconcile_def)
    then show ?thesis using Inr destroy by blast
  next
    case fenced
    then have "\<exists>condition. w \<in> set (fst (setStackCondition env object condition False))"
      using assms Inr unfolding InfraStack_Reconcile_def Let_def by auto
    then show ?thesis using Inr fenced by blast
  next
    case present
    then have "w \<in> set (fst (reconcilePresent env object))" using assms Inr by (auto simp: InfraStack_Reconcile_def)
    then show ?thesis using Inr present by blast
  qed
qed

subsection \<open>The created runs\<close>

text \<open>Where a created run can come from.\<close>

definition creates_plan :: "'w stack_env \<Rightarrow> infra_stack \<Rightarrow> bool \<Rightarrow> terraform_run option \<Rightarrow> terraform_run \<Rightarrow> bool" where
  "creates_plan env stack destroy applied r \<longleftrightarrow>
     (\<exists>retry. CreateRunW r \<in> set (fst (create_plan env stack destroy applied retry)))"

definition creates_apply :: "'w stack_env \<Rightarrow> infra_stack \<Rightarrow> terraform_run \<Rightarrow> terraform_run \<Rightarrow> bool" where
  "creates_apply env stack plan r \<longleftrightarrow>
     (\<exists>approval meta n. validApprovalForPlan (se_now env) (se_approvals env) plan = Inr (Some approval)
        \<and> validateApplyAdmission (se_sha env) (se_now env) stack plan approval = None
        \<and> r = (buildApplyRun stack plan approval n)\<lparr>run_Meta := meta\<rparr>)"

lemma no_create_no: "no_create ws \<Longrightarrow> CreateRunW r \<notin> set ws"
  by (simp add: no_create_def)

lemma ensurePlanRun_creates:
  "CreateRunW r \<in> set (fst (ensurePlanRun env stack destroy applied)) \<Longrightarrow> creates_plan env stack destroy applied r"
  using ensurePlanRun_log [of "CreateRunW r" env stack destroy applied] by (auto simp: creates_plan_def)

lemma reconcilePlanResult_creates:
  assumes "CreateRunW r \<in> set (fst (reconcilePlanResult env stack plan destroy))"
  shows "creates_apply env stack plan r"
proof -
  have "CreateRunW r \<in> set (fst (plan_result env stack plan destroy (observed_status stack plan)))"
    using reconcilePlanResult_log [OF assms] by blast
  from plan_result_log [OF this] ensureApplyRun_log show ?thesis unfolding creates_apply_def by blast
qed

lemma destroy_applied_creates:
  assumes "CreateRunW r \<in> set (fst (destroy_applied env object applied))"
  shows "creates_plan env object True (Some applied) r \<or> (\<exists>plan. creates_apply env object plan r)"
  using destroy_applied_log [OF assms] ensurePlanRun_creates reconcilePlanResult_creates
    no_create_no [OF setStackCondition_no_create] by blast

lemma Reconcile_creates:
  assumes "CreateRunW r \<in> set (fst (InfraStack_Reconcile env))"
  shows "\<exists>object. se_get_stack env = Inr object \<and>
    (\<not> wants_destroy object \<and> \<not> iss_MutationFence (is_Spec object)
       \<and> (creates_plan env object False None r \<or> (\<exists>plan. creates_apply env object plan r))
     \<or> wants_destroy object \<and> iss_MutationFence (is_Spec object)
       \<and> (\<exists>runs closure applied. se_runs_destroy env = Inr runs \<and> (\<forall>run \<in> set runs. stack_apply object run \<longrightarrow> settled run)
            \<and> isst_LastConverged (is_Status object) = Some closure
            \<and> retainedRunFromClosure (se_sha env) (se_decode_spec env) object closure = Some applied
            \<and> (creates_plan env object True (Some applied) r \<or> (\<exists>plan. creates_apply env object plan r))))"
proof -
  have ns: "CreateRunW r \<notin> set (fst (setStackCondition env x c f))" for x c f
    using no_create_no [OF setStackCondition_no_create] .
  have nu: "CreateRunW r \<notin> set (fst (destroy_unapplied env x runs))" for x runs
    using destroy_unapplied_log [of "CreateRunW r" env x runs] ns by blast
  obtain object where o': "se_get_stack env = Inr object" and c:
    "wants_destroy object \<and> iss_MutationFence (is_Spec object) \<and> CreateRunW r \<in> set (fst (reconcileDestroy env object))
     \<or> \<not> wants_destroy object \<and> \<not> iss_MutationFence (is_Spec object) \<and> CreateRunW r \<in> set (fst (reconcilePresent env object))"
    using Reconcile_cases [OF assms] ns by auto
  from c show ?thesis
  proof
    assume d: "wants_destroy object \<and> iss_MutationFence (is_Spec object) \<and> CreateRunW r \<in> set (fst (reconcileDestroy env object))"
    then have "CreateRunW r \<in> set (fst (destroy_pending env object))"
      using reconcileDestroy_cases [of "CreateRunW r" env object] ns by blast
    then obtain runs closure applied where "se_runs_destroy env = Inr runs" "\<forall>run \<in> set runs. stack_apply object run \<longrightarrow> settled run"
      "isst_LastConverged (is_Status object) = Some closure"
      "retainedRunFromClosure (se_sha env) (se_decode_spec env) object closure = Some applied"
      "CreateRunW r \<in> set (fst (destroy_applied env object applied))"
      using destroy_pending_cases [of "CreateRunW r" env object] ns nu by blast
    moreover from this(5) have "creates_plan env object True (Some applied) r \<or> (\<exists>plan. creates_apply env object plan r)"
      by (rule destroy_applied_creates)
    ultimately show ?thesis using d o' by blast
  next
    assume p: "\<not> wants_destroy object \<and> \<not> iss_MutationFence (is_Spec object) \<and> CreateRunW r \<in> set (fst (reconcilePresent env object))"
    then have "creates_plan env object False None r \<or> (\<exists>plan. creates_apply env object plan r)"
      using reconcilePresent_log [of "CreateRunW r" env object] ensurePlanRun_creates reconcilePlanResult_creates by blast
    with p o' show ?thesis by blast
  qed
qed

lemma creates_plan_fields:
  assumes "creates_plan env stack destroy applied r"
  shows "rs_Operation (run_Spec r) = ''Plan'' \<and> rs_PlanMode (run_Spec r) = (if destroy then ''Destroy'' else ''Reconcile'')
     \<and> (destroy \<longrightarrow> (\<exists>a. applied = Some a \<and> ps_Type (rs_Source (run_Spec r)) = SourceRetainedBundle
          \<and> (ps_Ref (rs_Source (run_Spec r)), ps_Digest (rs_Source (run_Spec r))) = retainedBundle a))"
proof -
  obtain retry where "CreateRunW r \<in> set (fst (create_plan env stack destroy applied retry))"
    using assms by (auto simp: creates_plan_def)
  from create_plan_log [OF this] show ?thesis by fastforce
qed

lemma validApproval_Some:
  "validApprovalForPlan now approvals plan = Inr (Some approval) \<Longrightarrow>
     \<exists>items. approvals = Inr items \<and> approval \<in> set items \<and> approval_matches approval plan
       \<and> not_expired now (rst_PlanExpiresAt (run_Status plan))"
  by (auto simp: validApprovalForPlan_def find_Some_iff split: sum.splits)

text \<open>
  C4. An Apply run is created only for an approval the API server returned, that matches the Plan
  and authorizes it at this moment; it carries the approved digests, and while the mutation fence
  is set it can only be a Destroy.
\<close>
theorem apply_runs_need_approval:
  assumes "CreateRunW r \<in> set (fst (InfraStack_Reconcile env))" and "rs_Operation (run_Spec r) = ''Apply''"
  shows "\<exists>stack plan approval items. se_get_stack env = Inr stack \<and> se_approvals env = Inr items \<and> approval \<in> set items
     \<and> approval_matches approval plan
     \<and> validateApplyAdmission (se_sha env) (se_now env) stack plan approval = None
     \<and> applies_what_was_approved r approval
     \<and> (iss_MutationFence (is_Spec stack) \<longrightarrow> rs_PlanMode (run_Spec r) = ''Destroy'')"
proof -
  have np: "\<not> creates_plan env stack d a r" for stack d a
    using creates_plan_fields [of env stack d a r] assms(2) by auto
  obtain stack plan where s: "se_get_stack env = Inr stack" and c: "creates_apply env stack plan r"
    using Reconcile_creates [OF assms(1)] np by blast
  then obtain approval meta n where v: "validApprovalForPlan (se_now env) (se_approvals env) plan = Inr (Some approval)"
    and a: "validateApplyAdmission (se_sha env) (se_now env) stack plan approval = None"
    and r: "r = (buildApplyRun stack plan approval n)\<lparr>run_Meta := meta\<rparr>"
    unfolding creates_apply_def by blast
  have "applies_what_was_approved r approval"
    using validateApplyAdmission_None [OF a] unfolding r
    by (auto simp: applies_what_was_approved_def approval_matches_def Let_def)
  moreover have "iss_MutationFence (is_Spec stack) \<longrightarrow> rs_PlanMode (run_Spec r) = ''Destroy''"
    using validateApplyAdmission_None [OF a] r by auto
  ultimately show ?thesis using s validApproval_Some [OF v] a by blast
qed

text \<open>
  C7. While a stack is to be destroyed, a run is created only behind the mutation fence and when
  every Apply of the stack has ended in a way that can change nothing more; and a Plan created then
  is a Destroy of the source bundle retained with the last convergence.
\<close>
theorem destroy_waits_for_quiet_applies:
  assumes "CreateRunW r \<in> set (fst (InfraStack_Reconcile env))"
    and "se_get_stack env = Inr stack" and "wants_destroy stack"
  shows "iss_MutationFence (is_Spec stack)
     \<and> (\<exists>runs closure applied. se_runs_destroy env = Inr runs \<and> (\<forall>run \<in> set runs. stack_apply stack run \<longrightarrow> settled run)
          \<and> isst_LastConverged (is_Status stack) = Some closure
          \<and> retainedRunFromClosure (se_sha env) (se_decode_spec env) stack closure = Some applied
          \<and> (rs_Operation (run_Spec r) = ''Plan'' \<longrightarrow> rs_PlanMode (run_Spec r) = ''Destroy''
               \<and> (ps_Ref (rs_Source (run_Spec r)), ps_Digest (rs_Source (run_Spec r))) = retainedBundle applied))"
proof -
  obtain runs closure applied where f: "iss_MutationFence (is_Spec stack)" "se_runs_destroy env = Inr runs"
      "\<forall>run \<in> set runs. stack_apply stack run \<longrightarrow> settled run"
      "isst_LastConverged (is_Status stack) = Some closure"
      "retainedRunFromClosure (se_sha env) (se_decode_spec env) stack closure = Some applied"
    and c: "creates_plan env stack True (Some applied) r \<or> (\<exists>plan. creates_apply env stack plan r)"
    using Reconcile_creates [OF assms(1)] assms(2,3) by auto
  have "rs_Operation (run_Spec r) \<noteq> ''Plan''" if "\<exists>plan. creates_apply env stack plan r"
    using that by (auto simp: creates_apply_def)
  with c have "rs_Operation (run_Spec r) = ''Plan'' \<longrightarrow> creates_plan env stack True (Some applied) r" by blast
  with f creates_plan_fields [of env stack True "Some applied" r] show ?thesis by auto
qed

subsection \<open>When the finalizer goes away\<close>

text \<open>The Plan, or the Apply found or made for it, proves that the infrastructure is gone.\<close>

definition destroyed_by :: "'w stack_env \<Rightarrow> infra_stack \<Rightarrow> terraform_run \<Rightarrow> bool" where
  "destroyed_by env object plan \<longleftrightarrow>
     rst_ExecutionOutcome (run_Status plan) = ''NoChange'' \<and> runEvidenceReady plan
     \<or> rst_ExecutionOutcome (run_Status plan) = ''ChangesPresent'' \<and>
       (\<exists>approval apply. validateApplyAdmission (se_sha env) (se_now env) object plan approval = None
          \<and> snd (ensureApplyRun env object plan approval) = Inr apply
          \<and> rst_ExecutionOutcome (run_Status apply) = ''Succeeded'' \<and> destroyEvidenceReady apply)"

lemma applyCondition_removed:
  "is_removed (Some (applyCondition now g apply destroy)) \<Longrightarrow>
     rst_ExecutionOutcome (run_Status apply) = ''Succeeded'' \<and> (destroy \<longrightarrow> destroyEvidenceReady apply)"
  by (auto simp: is_removed_def applyCondition_def Let_def split: if_splits)

lemma approved_result_removed:
  assumes "snd (approved_result env object plan approval True status) = Inr (status', condition)"
    and "is_removed (Some condition)"
  shows "\<exists>apply. validateApplyAdmission (se_sha env) (se_now env) object plan approval = None
     \<and> snd (ensureApplyRun env object plan approval) = Inr apply
     \<and> rst_ExecutionOutcome (run_Status apply) = ''Succeeded'' \<and> destroyEvidenceReady apply"
proof (cases "snd (ensureApplyRun env object plan approval)")
  case (Inl e)
  then show ?thesis using assms
    by (auto simp: approved_result_def is_removed_def Let_def split: if_splits prod.splits)
next
  case (Inr run)
  then have "condition = applyCondition (se_now env) (om_Generation (is_Meta object)) run True
      \<and> validateApplyAdmission (se_sha env) (se_now env) object plan approval = None"
    using assms
    by (auto simp: approved_result_def apply_result_def is_removed_def Let_def split: if_splits prod.splits option.splits)
  then show ?thesis using Inr assms(2) applyCondition_removed by blast
qed

lemma plan_result_removed:
  assumes "snd (plan_result env object plan True status) = Inr (status', condition)" and "is_removed (Some condition)"
  shows "destroyed_by env object plan"
proof -
  consider (same) "rst_ExecutionOutcome (run_Status plan) = ''NoChange''"
    | (changes) "rst_ExecutionOutcome (run_Status plan) = ''ChangesPresent''"
    | (other) "rst_ExecutionOutcome (run_Status plan) \<notin> {''NoChange'', ''ChangesPresent''}" by blast
  then show ?thesis
  proof cases
    case same
    then show ?thesis using assms
      by (auto simp: plan_result_def no_change_result_def destroyed_by_def is_removed_def Let_def split: if_splits)
  next
    case changes
    then obtain approval where "snd (approved_result env object plan approval True status) = Inr (status', condition)"
      using assms by (auto simp: plan_result_def is_removed_def Let_def split: sum.splits option.splits)
    from approved_result_removed [OF this assms(2)] changes show ?thesis unfolding destroyed_by_def by blast
  next
    case other
    then show ?thesis using assms by (auto simp: plan_result_def is_removed_def Let_def split: if_splits)
  qed
qed

lemma findCondition_single: "findCondition [c] t = (if c_Type c = t then Some c else None)"
  by (simp add: findCondition_def)

lemma with_condition_found:
  "findCondition (isst_Conditions (with_condition env object condition status)) ConditionReady
     = Some (stableCondition (se_now env) (findCondition (isst_Conditions (is_Status object)) ConditionReady)
         (om_Generation (is_Meta object)) (c_Status condition) (c_Reason condition) (c_Message condition))"
  by (simp add: with_condition_def findCondition_single)

lemma removed_plan:
  assumes "snd (reconcilePlanResult env object plan True) = Inr (object', result)"
    and "findCondition (isst_Conditions (is_Status object')) ConditionReady = Some condition" "is_removed (Some condition)"
  shows "destroyed_by env object plan"
proof -
  obtain status c where r: "snd (plan_result env object plan True (observed_status object plan)) = Inr (status, c)"
    and o': "object' = object\<lparr>is_Status := with_condition env object c status\<rparr>"
    using reconcilePlanResult_result [OF assms(1)] by blast
  have "is_removed (Some c)" using assms(2,3) unfolding o' by (auto simp: with_condition_found is_removed_def)
  with plan_result_removed [OF r] show ?thesis .
qed

definition gone :: "'w stack_env \<Rightarrow> infra_stack \<Rightarrow> bool" where
  "gone env object \<longleftrightarrow>
     is_removed (findCondition (isst_Conditions (is_Status object)) ConditionReady)
     \<or> isst_LastConverged (is_Status object) = None \<and> nothing_applied object
       \<and> (\<exists>runs. se_runs_destroy env = Inr runs \<and> (\<forall>run \<in> set runs. stack_apply object run \<longrightarrow> never_started run))
     \<or> (\<exists>applied plan. snd (ensurePlanRun env object True (Some applied)) = Inr plan \<and> destroyed_by env object plan)"

lemma setStackCondition_update:
  "UpdateStackW s \<in> set (fst (setStackCondition env object condition f)) \<Longrightarrow> f"
  using setStackCondition_log [of "UpdateStackW s" env object condition f] by auto

lemma no_update_reconcilePlanResult: "UpdateStackW s \<notin> set (fst (reconcilePlanResult env object plan d))"
proof
  assume "UpdateStackW s \<in> set (fst (reconcilePlanResult env object plan d))"
  then have "UpdateStackW s \<in> set (fst (plan_result env object plan d (observed_status object plan)))"
    using reconcilePlanResult_log by blast
  from plan_result_log [OF this] show False by (auto dest: ensureApplyRun_log)
qed

lemma no_update_ensurePlanRun: "UpdateStackW s \<notin> set (fst (ensurePlanRun env object d a))"
  using ensurePlanRun_log [of "UpdateStackW s" env object d a] create_plan_log [of "UpdateStackW s" env object d a] by auto

lemma reconcileDestroy_update:
  assumes "UpdateStackW s \<in> set (fst (reconcileDestroy env object))"
  shows "gone env object"
proof (cases "is_removed (findCondition (isst_Conditions (is_Status object)) ConditionReady)")
  case False
  then have p: "UpdateStackW s \<in> set (fst (destroy_pending env object))"
    using reconcileDestroy_cases [OF assms] by blast
  have nf: "UpdateStackW s \<notin> set (fst (setStackCondition env x c False))" for x c
    using setStackCondition_update by blast
  consider (none) runs where "se_runs_destroy env = Inr runs" "isst_LastConverged (is_Status object) = None"
      "UpdateStackW s \<in> set (fst (destroy_unapplied env object runs))"
    | (some) applied where "UpdateStackW s \<in> set (fst (destroy_applied env object applied))"
    using destroy_pending_cases [OF p] nf by blast
  then show ?thesis
  proof cases
    case none
    then show ?thesis using destroy_unapplied_log [OF none(3)] nf unfolding gone_def by blast
  next
    case some
    then show ?thesis
      using destroy_applied_log [OF some] no_update_ensurePlanRun no_update_reconcilePlanResult removed_plan
      unfolding gone_def by blast
  qed
qed (simp add: gone_def)

text \<open>
  C6. The stack's finalizer is removed only from a stack that is to be destroyed, behind the fence,
  and with evidence that nothing is left: the removal is already recorded, or nothing of the stack
  was ever applied, or its Destroy plan or Apply ended with the evidence captured.
\<close>
theorem finalizer_needs_removal_evidence:
  assumes "se_get_stack env = Inr object" and "UpdateStackW s \<in> set (fst (InfraStack_Reconcile env))"
    and "infraStackFinalizer \<in> set (om_Finalizers (is_Meta object))"
    and "infraStackFinalizer \<notin> set (om_Finalizers (is_Meta s))"
  shows "wants_destroy object \<and> iss_MutationFence (is_Spec object) \<and> gone env object"
proof -
  have "UpdateStackW s \<noteq> UpdateStackW (object\<lparr>is_Spec := x\<rparr>)" for x using assms(3,4) by auto
  moreover have "UpdateStackW s \<noteq> UpdateStackW (object\<lparr>is_Meta := m\<rparr>)"
    if "set (om_Finalizers (is_Meta object)) \<subseteq> set (om_Finalizers m)" for m using assms(3,4) that by auto
  moreover have "UpdateStackW s \<notin> set (fst (setStackCondition env object c False))" for c
    using setStackCondition_update by blast
  moreover have "UpdateStackW s \<notin> set (fst (reconcilePresent env object))"
    using reconcilePresent_log [of "UpdateStackW s" env object] no_update_ensurePlanRun no_update_reconcilePlanResult by blast
  ultimately have "wants_destroy object \<and> iss_MutationFence (is_Spec object) \<and> UpdateStackW s \<in> set (fst (reconcileDestroy env object))"
    using Reconcile_cases [OF assms(2)] assms(1) by auto
  then show ?thesis using reconcileDestroy_update by blast
qed

subsection \<open>When a convergence is recorded\<close>

text \<open>What the stack's own verifier adds to the provider's: the binding and the expected identity.\<close>

definition stack_target ::
  "runtime_target_identity \<Rightarrow> target_connection_profile \<Rightarrow> verifier \<Rightarrow> runtime_target_identity
   \<Rightarrow> target_connection_profile \<Rightarrow> bool" where
  "stack_target expected profile0 verify identity profile \<longleftrightarrow>
     rti_Provider identity = rti_Provider expected \<and> rti_AccountID identity = rti_AccountID expected
     \<and> rti_Region identity = rti_Region expected \<and> tcp_AuthMode profile = tcp_AuthMode profile0
     \<and> ValidateBinding identity profile = None \<and> verify identity profile = None"

lemma stack_verifier_verifies:
  "stack_verifier e p v identity profile = None \<Longrightarrow>
     connection_profile_Validate profile = None \<and> stack_target e p v identity profile"
  using ValidateBinding_parts [of identity profile]
  by (simp add: stack_verifier_def stack_target_def split: if_splits)

interpretation stack_discovery: target_verifier "stack_verifier e p v" "stack_target e p v"
  for e p v by unfold_locales (rule stack_verifier_verifies)

definition trusted_target :: "'w stack_env \<Rightarrow> infra_stack \<Rightarrow> discovery_result \<Rightarrow> bool" where
  "trusted_target env stack d \<longleftrightarrow> (let p0 = iss_TargetConnectionProfile (is_Spec stack) in
     \<exists>e v. expected_identity (iss_RuntimeTargetIdentity (is_Spec stack)) = Inr e
       \<and> (rti_Provider e = ProviderKubernetes \<or> rti_Provider e = ProviderKind \<longrightarrow> v = VerifyKubeconfigTarget e p0)
       \<and> (rti_Provider e \<noteq> ProviderKubernetes \<and> rti_Provider e \<noteq> ProviderKind \<longrightarrow> se_verifier env = Some v)
       \<and> stack_target e p0 v (dr_RuntimeTargetIdentity d) (dr_TargetConnection d))"

lemma verifyTargetDiscovery_trusted:
  assumes "verifyTargetDiscovery env stack run = Inr d"
  shows "trusted_target env stack d"
  using assms unfolding verifyTargetDiscovery_def trusted_target_def Let_def
  by (auto dest!: stack_discovery.discovery_trusted split: if_splits sum.splits option.splits)

lemma converged_status_fields [simp]:
  "isst_LastConverged (converged_status run c d s) = Some c"
  "isst_DiscoveredRuntimeTargetIdentity (converged_status run c d s) = Some (dr_RuntimeTargetIdentity d)"
  "isst_DiscoveredTargetConnectionProfile (converged_status run c d s) = Some (dr_TargetConnection d)"
  by (simp_all add: converged_status_def setDiscoveredTarget_def Let_def)

lemma last_applied_keeps [simp]: "isst_LastConverged (last_applied run s) = isst_LastConverged s"
  by (simp add: last_applied_def Let_def)

definition converges_on :: "'w stack_env \<Rightarrow> infra_stack \<Rightarrow> infra_stack_status \<Rightarrow> bool" where
  "converges_on env stack s \<longleftrightarrow> (\<exists>plan run closure d.
     verifyTargetDiscovery env stack run = Inr d
     \<and> convergenceClosure (se_sha env) stack plan run = Some closure
     \<and> (run = plan \<and> rst_ExecutionOutcome (run_Status plan) = ''NoChange'' \<or> rst_ExecutionOutcome (run_Status run) = ''Succeeded'')
     \<and> isst_LastConverged s = Some closure
     \<and> isst_DiscoveredRuntimeTargetIdentity s = Some (dr_RuntimeTargetIdentity d)
     \<and> isst_DiscoveredTargetConnectionProfile s = Some (dr_TargetConnection d))"

lemma no_change_converges:
  assumes "no_change_result env stack plan destroy status0 = (status, c)"
    and "isst_LastConverged status \<noteq> isst_LastConverged status0"
    and "rst_ExecutionOutcome (run_Status plan) = ''NoChange''"
  shows "converges_on env stack status"
proof -
  have "\<not> destroy" using assms(1,2) by (auto simp: no_change_result_def Let_def)
  then obtain d closure where "verifyTargetDiscovery env stack plan = Inr d"
    "convergenceClosure (se_sha env) stack plan plan = Some closure" "status = converged_status plan closure d status0"
    using assms(1,2) by (auto simp: no_change_result_def Let_def split: sum.splits option.splits)
  then show ?thesis using assms(3) unfolding converges_on_def by fastforce
qed

lemma apply_result_converges:
  assumes "apply_result env stack plan run destroy status0 = (status, c)"
    and "isst_LastConverged status \<noteq> isst_LastConverged status0"
  shows "converges_on env stack status"
proof -
  have s: "\<not> destroy \<and> rst_ExecutionOutcome (run_Status run) = ''Succeeded''"
    using assms by (auto simp: apply_result_def Let_def split: if_splits)
  then obtain d closure where "verifyTargetDiscovery env stack run = Inr d"
    "convergenceClosure (se_sha env) stack plan run = Some closure"
    "status = converged_status run closure d (last_applied run status0)"
    using assms by (auto simp: apply_result_def Let_def split: sum.splits option.splits)
  then show ?thesis using s unfolding converges_on_def by fastforce
qed

lemma approved_result_converges:
  assumes "snd (approved_result env stack plan approval destroy status0) = Inr (status, c)"
    and "isst_LastConverged status \<noteq> isst_LastConverged status0"
  shows "converges_on env stack status"
proof -
  obtain run where "apply_result env stack plan run destroy status0 = (status, c)"
    using assms by (auto simp: approved_result_def Let_def split: if_splits prod.splits sum.splits option.splits)
  with apply_result_converges assms(2) show ?thesis by blast
qed

lemma plan_result_converges:
  assumes "snd (plan_result env stack plan destroy status0) = Inr (status, c)"
    and "isst_LastConverged status \<noteq> isst_LastConverged status0"
  shows "converges_on env stack status"
proof -
  consider (same) "rst_ExecutionOutcome (run_Status plan) = ''NoChange''"
      "no_change_result env stack plan destroy status0 = (status, c)"
    | (changes) approval where "snd (approved_result env stack plan approval destroy status0) = Inr (status, c)"
    using assms by (auto simp: plan_result_def Let_def split: if_splits sum.splits option.splits)
  then show ?thesis using no_change_converges approved_result_converges assms(2) by cases blast+
qed

lemma observed_status_keeps [simp]:
  "isst_LastConverged (observed_status stack plan) = isst_LastConverged (is_Status stack)"
  by (simp add: observed_status_def Let_def)

lemma with_condition_keeps [simp]:
  "isst_LastConverged (with_condition env o' c s) = isst_LastConverged s"
  "isst_DiscoveredRuntimeTargetIdentity (with_condition env o' c s) = isst_DiscoveredRuntimeTargetIdentity s"
  "isst_DiscoveredTargetConnectionProfile (with_condition env o' c s) = isst_DiscoveredTargetConnectionProfile s"
  by (simp_all add: with_condition_def)

lemma approved_result_destroy_keeps:
  "snd (approved_result env stack plan approval True s0) = Inr (s, c) \<Longrightarrow> s = s0"
  by (auto simp: approved_result_def apply_result_def Let_def split: if_splits prod.splits sum.splits option.splits)

lemma plan_result_destroy_keeps: "snd (plan_result env stack plan True s0) = Inr (s, c) \<Longrightarrow> s = s0"
  using approved_result_destroy_keeps
  by (auto simp: plan_result_def no_change_result_def Let_def split: if_splits sum.splits option.splits)

lemma reconcilePlanResult_converges:
  assumes "UpdateStackStatusW s \<in> set (fst (reconcilePlanResult env stack plan destroy))"
    and "isst_LastConverged (is_Status s) \<noteq> isst_LastConverged (is_Status stack)"
  shows "\<not> destroy \<and> converges_on env stack (is_Status s)"
proof -
  have "UpdateStackStatusW s \<notin> set (fst (plan_result env stack plan destroy (observed_status stack plan)))"
    using plan_result_log [of "UpdateStackStatusW s"] ensureApplyRun_log by blast
  then obtain status condition where r: "snd (plan_result env stack plan destroy (observed_status stack plan)) = Inr (status, condition)"
    and s: "s = stack\<lparr>is_Status := with_condition env stack condition status\<rparr>"
    using reconcilePlanResult_log [OF assms(1)] by blast
  have ne: "isst_LastConverged status \<noteq> isst_LastConverged (observed_status stack plan)" using assms(2) s by simp
  then have "\<not> destroy" using r by (cases destroy) (auto dest: plan_result_destroy_keeps)
  moreover have "converges_on env stack status" using plan_result_converges [OF r ne] .
  ultimately show ?thesis by (simp add: s converges_on_def)
qed

lemma setStackCondition_keeps:
  "UpdateStackStatusW s \<in> set (fst (setStackCondition env object condition f)) \<Longrightarrow>
     isst_LastConverged (is_Status s) = isst_LastConverged (is_Status object)"
  using setStackCondition_log [of "UpdateStackStatusW s" env object condition f] by auto

lemma destroy_applied_keeps:
  assumes "UpdateStackStatusW s \<in> set (fst (destroy_applied env object applied))"
  shows "isst_LastConverged (is_Status s) = isst_LastConverged (is_Status object)"
proof -
  have "UpdateStackStatusW s \<notin> set (fst (ensurePlanRun env object True (Some applied)))"
    using ensurePlanRun_log [of "UpdateStackStatusW s"] create_plan_log [of "UpdateStackStatusW s"] by blast
  then consider (result) plan where "UpdateStackStatusW s \<in> set (fst (reconcilePlanResult env object plan True))"
    | (final) plan object' result condition where "snd (reconcilePlanResult env object plan True) = Inr (object', result)"
        "UpdateStackStatusW s \<in> set (fst (setStackCondition env object' condition True))"
    using destroy_applied_log [OF assms] by blast
  then show ?thesis
  proof cases
    case result
    then show ?thesis using reconcilePlanResult_converges by blast
  next
    case final
    obtain status c where "snd (plan_result env object plan True (observed_status object plan)) = Inr (status, c)"
      "object' = object\<lparr>is_Status := with_condition env object c status\<rparr>"
      using reconcilePlanResult_result [OF final(1)] by blast
    then have "isst_LastConverged (is_Status object') = isst_LastConverged (is_Status object)"
      using plan_result_destroy_keeps by fastforce
    then show ?thesis using setStackCondition_keeps [OF final(2)] by simp
  qed
qed

lemma destroy_unapplied_keeps:
  "UpdateStackStatusW s \<in> set (fst (destroy_unapplied env object runs)) \<Longrightarrow>
     isst_LastConverged (is_Status s) = isst_LastConverged (is_Status object)"
  using destroy_unapplied_log [of "UpdateStackStatusW s" env object runs] setStackCondition_keeps by blast

lemma reconcileDestroy_keeps:
  assumes "UpdateStackStatusW s \<in> set (fst (reconcileDestroy env object))"
  shows "isst_LastConverged (is_Status s) = isst_LastConverged (is_Status object)"
  using reconcileDestroy_cases [OF assms] destroy_pending_cases [of "UpdateStackStatusW s" env object]
    setStackCondition_keeps destroy_unapplied_keeps destroy_applied_keeps by blast

text \<open>
  C5. A convergence is recorded on a stack only outside a destroy and an active fence, from a Plan
  without changes or a succeeded Apply whose evidence closes, and with a discovered target that
  was verified: its binding is valid, its provider, account and region are the stack's, and the
  status names exactly the verified target.
\<close>
theorem convergence_has_verified_target:
  assumes "se_get_stack env = Inr stack" and "UpdateStackStatusW s \<in> set (fst (InfraStack_Reconcile env))"
    and "isst_LastConverged (is_Status s) \<noteq> isst_LastConverged (is_Status stack)"
  shows "\<not> wants_destroy stack \<and> \<not> iss_MutationFence (is_Spec stack)
     \<and> converges_on env stack (is_Status s)
     \<and> (\<exists>d. isst_DiscoveredRuntimeTargetIdentity (is_Status s) = Some (dr_RuntimeTargetIdentity d) \<and> trusted_target env stack d)"
proof -
  have "UpdateStackStatusW s \<notin> set (fst (setStackCondition env stack c False))" for c
    using setStackCondition_keeps assms(3) by blast
  moreover have "UpdateStackStatusW s \<notin> set (fst (reconcileDestroy env stack))"
    using reconcileDestroy_keeps assms(3) by blast
  ultimately have "\<not> wants_destroy stack \<and> \<not> iss_MutationFence (is_Spec stack) \<and> UpdateStackStatusW s \<in> set (fst (reconcilePresent env stack))"
    using Reconcile_cases [OF assms(2)] assms(1) by auto
  moreover have "UpdateStackStatusW s \<notin> set (fst (ensurePlanRun env stack False None))"
    using ensurePlanRun_log [of "UpdateStackStatusW s"] create_plan_log [of "UpdateStackStatusW s"] by blast
  ultimately show ?thesis
    using reconcilePresent_log [of "UpdateStackStatusW s" env stack] reconcilePlanResult_converges [OF _ assms(3)]
      verifyTargetDiscovery_trusted
    unfolding converges_on_def by metis
qed

subsection \<open>Concrete reconciles\<close>

text \<open>
  A stack that is to be destroyed with an approved Destroy plan, one whose removal is recorded, and
  one whose Plan found no changes.
\<close>

definition sample_closure :: last_converged_source_closure where
  "sample_closure = \<lparr>lc_ExecutionSnapshot = None, lc_SourceClosureRef = ''sr'', lc_SourceClosureDigest = ''sd'',
     lc_BackendSnapshotRef = ''br'', lc_BackendSnapshotDigest = ''bd'', lc_TargetDiscoveryRef = ''dr'',
     lc_TargetDiscoveryDigest = ''dd'', lc_EffectivePlanInputDigest = ''eff'',
     lc_InfrastructureExecutionIdentityDigest = ''i'', lc_ExecutionPlatformIdentityDigest = ''p'',
     lc_RunnerServiceAccountIdentityDigest = [], lc_TerraformRunUID = ''ru'', lc_Generation = 0\<rparr>"

definition doomed_stack :: infra_stack where
  "doomed_stack = sample_stack\<lparr>
     is_Meta := (is_Meta sample_stack)\<lparr>om_Finalizers := [infraStackFinalizer]\<rparr>,
     is_Spec := (is_Spec sample_stack)\<lparr>iss_DesiredState := DesiredStateDestroy, iss_MutationFence := True\<rparr>,
     is_Status := (is_Status sample_stack)\<lparr>isst_LastConverged := Some sample_closure\<rparr>\<rparr>"

definition stack_env_of :: "infra_stack \<Rightarrow> terraform_run list \<Rightarrow> unit stack_env" where
  "stack_env_of stack plans = \<lparr>se_now = 7, se_sha = (\<lambda>s. s),
     se_config = \<lparr>scf_ArtifactEndpoint = ''http://a:4566'', scf_ArtifactRegion = ''r'', scf_ArtifactBucket = ''b'',
       scf_ArtifactKMSKeyID = []\<rparr>,
     se_credentials = \<lparr>AWS_ACCESS_KEY_ID = ''test'', AWS_SECRET_ACCESS_KEY = ''test'', AWS_SESSION_TOKEN = []\<rparr>,
     se_get_stack = Inr stack, se_runs_destroy = Inr [], se_runs_plan = Inr plans, se_runs_apply = Inr [],
     se_approvals = Inr [sample_approval], se_get_run = (\<lambda>_. Inl (Err [])), se_get_secret = (\<lambda>_. Inl (Err [])),
     se_s3 = \<lparr>s3_put = (\<lambda>w i. (Inr [], w)), s3_get = (\<lambda>_ _ _. Inr ''x''), s3_head = (\<lambda>_ _. Inl (HttpErr 404 []))\<rparr>,
     se_bucket = (),
     se_decode_discovery = (\<lambda>_. Inr sample_values),
     se_decode_spec = (\<lambda>_. None), se_verifier = None,
     se_set_owner = (\<lambda>owner kind m. Inr (m\<lparr>om_OwnerReferences :=
       [\<lparr>or_Kind = kind, or_Name = om_Name owner, or_UID = om_UID owner, or_Controller = Some True\<rparr>]\<rparr>)),
     se_created = (\<lambda>r. r), se_answer = (\<lambda>_. None)\<rparr>"

definition creates_an_apply :: "stack_write list \<Rightarrow> bool" where
  "creates_an_apply ws \<longleftrightarrow> list_ex (\<lambda>w. case w of CreateRunW r \<Rightarrow> rs_Operation (run_Spec r) = ''Apply'' | _ \<Rightarrow> False) ws"

lemma creates_an_apply_iff:
  "creates_an_apply ws \<longleftrightarrow> (\<exists>r. CreateRunW r \<in> set ws \<and> rs_Operation (run_Spec r) = ''Apply'')"
  by (induction ws) (auto simp: creates_an_apply_def split: stack_write.split)

lemma doomed_creates: "creates_an_apply (fst (InfraStack_Reconcile (stack_env_of doomed_stack [sample_plan])))"
  by code_simp

lemma doomed_wants: "wants_destroy doomed_stack" by code_simp

definition removed_stack :: infra_stack where
  "removed_stack = doomed_stack\<lparr>is_Status := (is_Status doomed_stack)\<lparr>isst_Conditions :=
     [lifecycleCondition 5 0 ConditionTrue ''InfrastructureRemoved'' []]\<rparr>\<rparr>"

definition drops_finalizer :: "stack_write list \<Rightarrow> bool" where
  "drops_finalizer ws \<longleftrightarrow> list_ex (\<lambda>w. case w of
     UpdateStackW s \<Rightarrow> \<not> List.member (om_Finalizers (is_Meta s)) infraStackFinalizer | _ \<Rightarrow> False) ws"

lemma drops_finalizer_iff:
  "drops_finalizer ws \<longleftrightarrow> (\<exists>s. UpdateStackW s \<in> set ws \<and> infraStackFinalizer \<notin> set (om_Finalizers (is_Meta s)))"
  by (induction ws) (auto simp: drops_finalizer_def split: stack_write.split)

lemma removed_drops: "drops_finalizer (fst (InfraStack_Reconcile (stack_env_of removed_stack [])))"
  by code_simp

definition stable_stack :: infra_stack where
  "stable_stack = sample_stack\<lparr>
     is_Meta := (is_Meta sample_stack)\<lparr>om_Finalizers := [infraStackFinalizer]\<rparr>,
     is_Spec := (is_Spec sample_stack)\<lparr>iss_RuntimeTargetIdentity := sample_identity,
       iss_TargetConnectionProfile := sample_connection\<rparr>\<rparr>"

definition unchanged_plan :: terraform_run where
  "unchanged_plan = sample_plan\<lparr>
     run_Meta := (run_Meta sample_plan)\<lparr>om_OwnerReferences :=
       [\<lparr>or_Kind = ''InfraStack'', or_Name = ''s'', or_UID = ''su'', or_Controller = Some True\<rparr>]\<rparr>,
     run_Spec := (run_Spec sample_plan)\<lparr>rs_PlanMode := ''Reconcile''\<rparr>,
     run_Status := (run_Status sample_plan)\<lparr>rst_ExecutionOutcome := ''NoChange'', rst_TargetDiscoveryDigest := ''sha256:x'',
       rst_SourceBundleDigest := ''s'', rst_ResolvedBackendConfigDigest := ''b'', rst_EffectivePlanInputDigest := ''e''\<rparr>\<rparr>"

lemma stable_discovery: "\<not> isl (verifyTargetDiscovery (stack_env_of stable_stack [unchanged_plan]) stable_stack unchanged_plan)"
  by code_simp

lemma stable_plan: "ensurePlanRun (stack_env_of stable_stack [unchanged_plan]) stable_stack False None = ([], Inr unchanged_plan)"
  by (simp add: ensurePlanRun_def stack_env_of_def plan_of_stack_def stable_stack_def unchanged_plan_def sample_stack_def
      sample_plan_def hasForeignController_def is_controller_ref_def planAttemptStale_def adopt_plan_def ownedBy_def
      zero_terraform_run_spec_def zero_infra_stack_def zero_terraform_run_def empty_meta_def ret_def)

lemma stable_closure: "convergenceClosure (\<lambda>s. s) stable_stack unchanged_plan unchanged_plan \<noteq> None"
  by (simp add: convergenceClosure_def unchanged_plan_def sample_plan_def stable_stack_def sample_stack_def sample_identity_def
      planEvidenceReady_def retainedBundle_def retainedBackend_def or_else_def zero_terraform_run_status_def
      zero_infrastructure_execution_identity_def ProviderKubernetes_def Let_def)

lemma stack_env_of_fields:
  "se_sha (stack_env_of st ps) = (\<lambda>s. s)" "se_get_stack (stack_env_of st ps) = Inr st" "se_answer (stack_env_of st ps) w = None"
  by (simp_all add: stack_env_of_def)

lemma stable_stack_fields:
  "om_Finalizers (is_Meta stable_stack) = [infraStackFinalizer]" "om_DeletionTimestamp (is_Meta stable_stack) = None"
  "\<not> wants_destroy stable_stack" "\<not> iss_MutationFence (is_Spec stable_stack)"
  "isst_LastConverged (is_Status stable_stack) = None"
  by (simp_all add: stable_stack_def sample_stack_def wants_destroy_def DesiredStateDestroy_def zero_infra_stack_spec_def
      zero_infra_stack_def zero_infra_stack_status_def empty_meta_def)

lemma stable_converges:
  "\<exists>s. UpdateStackStatusW s \<in> set (fst (InfraStack_Reconcile (stack_env_of stable_stack [unchanged_plan])))
     \<and> isst_LastConverged (is_Status s) \<noteq> None"
proof -
  let ?env = "stack_env_of stable_stack [unchanged_plan]"
  obtain d where d: "verifyTargetDiscovery ?env stable_stack unchanged_plan = Inr d"
    using stable_discovery by (cases "verifyTargetDiscovery ?env stable_stack unchanged_plan") auto
  obtain c where c: "convergenceClosure (\<lambda>s. s) stable_stack unchanged_plan unchanged_plan = Some c" using stable_closure by blast
  have outcome: "rst_ExecutionOutcome (run_Status unchanged_plan) = ''NoChange''" by (simp add: unchanged_plan_def)
  define status where "status = converged_status unchanged_plan c d (observed_status stable_stack unchanged_plan)"
  obtain condition where r: "plan_result ?env stable_stack unchanged_plan False (observed_status stable_stack unchanged_plan)
      = ret (status, condition)"
    using outcome d c by (simp add: plan_result_def no_change_result_def stack_env_of_fields status_def Let_def)
  have "with_condition ?env stable_stack condition status \<noteq> is_Status stable_stack"
    by (metis status_def converged_status_fields(1) option.distinct(1) stable_stack_fields(5) with_condition_keeps(1))
  moreover have "InfraStack_Reconcile ?env = reconcilePresent ?env stable_stack"
    using stable_stack_fields by (simp add: InfraStack_Reconcile_def stack_env_of_fields contains_string_def Let_def)
  ultimately have "UpdateStackStatusW (stable_stack\<lparr>is_Status := with_condition ?env stable_stack condition status\<rparr>)
      \<in> set (fst (InfraStack_Reconcile ?env))"
    by (simp add: reconcilePresent_def stable_plan reconcilePlanResult_def r updateStackStatus_def stack_env_of_fields
        eff_bind_def perform_def ret_def Let_def)
  then show ?thesis by (force simp: status_def)
qed

theorem apply_runs_need_approval_witness:
  "\<exists>r approval. CreateRunW r \<in> set (fst (InfraStack_Reconcile (stack_env_of doomed_stack [sample_plan])))
     \<and> applies_what_was_approved r approval"
proof -
  obtain r where r: "CreateRunW r \<in> set (fst (InfraStack_Reconcile (stack_env_of doomed_stack [sample_plan])))"
    "rs_Operation (run_Spec r) = ''Apply''"
    using doomed_creates unfolding creates_an_apply_iff by blast
  from apply_runs_need_approval [OF r] r(1) show ?thesis by blast
qed

theorem destroy_waits_for_quiet_applies_witness: "iss_MutationFence (is_Spec doomed_stack)"
proof -
  obtain r where r: "CreateRunW r \<in> set (fst (InfraStack_Reconcile (stack_env_of doomed_stack [sample_plan])))"
    using doomed_creates unfolding creates_an_apply_iff by blast
  have "se_get_stack (stack_env_of doomed_stack [sample_plan]) = Inr doomed_stack" by (simp add: stack_env_of_def)
  from destroy_waits_for_quiet_applies [OF r this doomed_wants] show ?thesis by blast
qed

theorem finalizer_needs_removal_evidence_witness: "gone (stack_env_of removed_stack []) removed_stack"
proof -
  obtain s where s: "UpdateStackW s \<in> set (fst (InfraStack_Reconcile (stack_env_of removed_stack [])))"
    and f: "infraStackFinalizer \<notin> set (om_Finalizers (is_Meta s))"
    using removed_drops unfolding drops_finalizer_iff by blast
  have g: "se_get_stack (stack_env_of removed_stack []) = Inr removed_stack" by (simp add: stack_env_of_def)
  have "infraStackFinalizer \<in> set (om_Finalizers (is_Meta removed_stack))"
    by (simp add: removed_stack_def doomed_stack_def)
  from finalizer_needs_removal_evidence [OF g s this f] show ?thesis by blast
qed

theorem convergence_has_verified_target_witness:
  "\<exists>d. trusted_target (stack_env_of stable_stack [unchanged_plan]) stable_stack d"
proof -
  obtain s where s: "UpdateStackStatusW s \<in> set (fst (InfraStack_Reconcile (stack_env_of stable_stack [unchanged_plan])))"
    and c: "isst_LastConverged (is_Status s) \<noteq> None"
    using stable_converges by blast
  have g: "se_get_stack (stack_env_of stable_stack [unchanged_plan]) = Inr stable_stack" by (simp add: stack_env_of_def)
  have "isst_LastConverged (is_Status stable_stack) = None"
    by (simp add: stable_stack_def sample_stack_def zero_infra_stack_def zero_infra_stack_status_def)
  with c have "isst_LastConverged (is_Status s) \<noteq> isst_LastConverged (is_Status stable_stack)" by simp
  from convergence_has_verified_target [OF g s this] show ?thesis by blast
qed

end
