(* ===== verification/EnvClass.thy ===== *)
theory EnvClass
  imports ControllerBase
begin

section \<open>Environment classes: environmentclass.go and environmentclass\_controller.go\<close>

text \<open>
  What a class and an environment mean together: the admission of an environment by its class, the
  target and the InfraStack they give, and the reconciler that pins the class spec and keeps a class
  that is in use. A Go pointer that the code compares with nil is an option.
\<close>

definition environmentClassSpecDigest :: "hash \<Rightarrow> environment_class option \<Rightarrow> string" where
  "environmentClassSpecDigest sha class =
     (case class of None \<Rightarrow> [] | Some c \<Rightarrow> Digest sha (environment_class_spec_json (ec_Spec c)))"

definition runnerServiceAccountName :: "environment_class option \<Rightarrow> string" where
  "runnerServiceAccountName class =
     (case class of None \<Rightarrow> []
      | Some c \<Rightarrow> (let name = sar_ServiceAccountName (be_AuthRef (ecs_Backend (ec_Spec c))) in
          if name \<noteq> [] then name else rp_ServiceAccountName (ecs_RunnerProfile (ec_Spec c))))"

definition classTarget :: "platform_environment \<Rightarrow> environment_class \<Rightarrow> target_reference" where
  "classTarget environment class =
     (let t0 = ecs_Target (ec_Spec class);
          region = pes_Region (pe_Spec environment);
          t1 = (if region \<noteq> [] then t0\<lparr>tr_Region := region\<rparr> else t0);
          t2 = (if tr_ClusterID t1 = [] \<and> \<not> equal_fold (tr_Provider t1) ProviderKubernetes
                then t1\<lparr>tr_ClusterID := tr_ClusterName t1\<rparr> else t1)
      in if tr_IncarnationID t2 = [] \<and> \<not> equal_fold (tr_Provider t2) ProviderKubernetes
         then t2\<lparr>tr_IncarnationID := tr_ClusterID t2\<rparr> else t2)"

definition target_expectation_of :: "target_reference \<Rightarrow> target_expectation" where
  "target_expectation_of t = \<lparr>te_Provider = tr_Provider t, te_AccountID = tr_Account t, te_Region = tr_Region t,
     te_ClusterARN = tr_ClusterARN t, te_ClusterName = tr_ClusterName t, te_ClusterID = tr_ClusterID t,
     te_IncarnationID = tr_IncarnationID t, te_ConnectionProfile = tr_ConnectionProfileRef t,
     te_ExecutionRoleARN = tr_ExecutionRoleARN t, te_RuntimeRoleARN = tr_RuntimeRoleARN t\<rparr>"

definition materializeTarget :: "target_reference \<Rightarrow> gerr + infra_stack_spec" where
  "materializeTarget t = sum_bind (MaterializeTarget (target_expectation_of t)) (\<lambda>m.
     Inr (zero_infra_stack_spec\<lparr>
       iss_InfrastructureExecutionIdentity := mt_InfrastructureExecutionIdentity m,
       iss_RuntimeTargetIdentity := mt_RuntimeTargetIdentity m,
       iss_TargetConnectionProfile := mt_TargetConnectionProfile m\<rparr>))"

text \<open>The zero spec stands for the result next to an error, which these two callers ignore.\<close>

definition materialized_or_zero :: "target_reference \<Rightarrow> infra_stack_spec" where
  "materialized_or_zero t = (case materializeTarget t of Inl _ \<Rightarrow> zero_infra_stack_spec | Inr s \<Rightarrow> s)"

definition targetRuntimeIdentity :: "target_reference \<Rightarrow> runtime_target_identity" where
  "targetRuntimeIdentity t = iss_RuntimeTargetIdentity (materialized_or_zero t)"

definition environmentTargetConnection :: "target_reference \<Rightarrow> target_connection_profile" where
  "environmentTargetConnection t = iss_TargetConnectionProfile (materialized_or_zero t)"

definition classRuntimeObjects :: "environment_class option \<Rightarrow> runtime_object list" where
  "classRuntimeObjects class =
     (case class of None \<Rightarrow> [] | Some c \<Rightarrow> rtp_RuntimeObjects (ecs_RuntimeProfile (ec_Spec c)))"

subsection \<open>Admission of an environment by its class\<close>

definition class_profile_error :: "environment_class \<Rightarrow> gerr option" where
  "class_profile_error class =
     (case ecs_ExecutionProfile (ec_Spec class) of None \<Rightarrow> None
      | Some p \<Rightarrow> and_then (ValidateExecutionProfile (Some p))
          (if ep_CredentialsIdentity p \<noteq> [] then Some (Err ''class cannot supply a resolved credential identity'') else None))"

definition requested_region :: "platform_environment \<Rightarrow> environment_class \<Rightarrow> string" where
  "requested_region environment class =
     (let region = pes_Region (pe_Spec environment) in
      if region = [] then tr_Region (ecs_Target (ec_Spec class)) else region)"

definition class_checks :: "hash \<Rightarrow> platform_environment \<Rightarrow> environment_class \<Rightarrow> (bool \<times> string) list" where
  "class_checks sha environment class =
     (let spec = ec_Spec class; espec = pe_Spec environment; name = om_Name (ec_Meta class);
          digest = ecst_SpecDigest (ec_Status class); region = requested_region environment class;
          authName = sar_ServiceAccountName (be_AuthRef (ecs_Backend spec));
          runner = rp_ServiceAccountName (ecs_RunnerProfile spec);
          nodes = cap_NodeCount (pes_Capacity espec); bounds = ecs_CapacityBounds spec
      in [(digest \<noteq> [] \<and> digest \<noteq> environmentClassSpecDigest sha (Some class),
             ''EnvironmentClass '' @ quoted name @ '' spec digest changed; create a new versioned class''),
          (pes_InfraStackRef espec \<noteq> [] \<or> tr_Provider (pes_Target espec) \<noteq> [] \<or> tr_ClusterName (pes_Target espec) \<noteq> [],
             ''Class Mode cannot set legacy infraStackRef or target''),
          (ecs_AllowedRegions spec \<noteq> [] \<and> \<not> contains_string (ecs_AllowedRegions spec) region,
             ''region '' @ quoted region @ '' is not allowed by EnvironmentClass '' @ quoted name),
          (authName \<noteq> [] \<and> runner \<noteq> [] \<and> authName \<noteq> runner,
             ''backend authRef service account '' @ quoted authName @ '' must match runnerProfile service account '' @ quoted runner),
          (runnerServiceAccountName (Some class) = [],
             ''a management ServiceAccount is required through backend.authRef or runnerProfile''),
          (cb_MinNodeCount bounds > 0 \<and> nodes < cb_MinNodeCount bounds,
             ''nodeCount '' @ show_int nodes @ '' is below EnvironmentClass minimum '' @ show_int (cb_MinNodeCount bounds)),
          (cb_MaxNodeCount bounds > 0 \<and> nodes > cb_MaxNodeCount bounds,
             ''nodeCount '' @ show_int nodes @ '' exceeds EnvironmentClass maximum '' @ show_int (cb_MaxNodeCount bounds))])"

definition validateEnvironmentClass ::
  "hash \<Rightarrow> platform_environment option \<Rightarrow> environment_class option \<Rightarrow> gerr option" where
  "validateEnvironmentClass sha environment class =
     (case (environment, class) of
        (Some e, Some c) \<Rightarrow> and_then (class_profile_error c) (and_then (first_error (class_checks sha e c))
          (case materializeTarget (classTarget e c) of
             Inl err \<Rightarrow> Some (Wrap ''target materialization rejected'' err)
           | Inr _ \<Rightarrow> None))
      | _ \<Rightarrow> Some (Err ''environment and EnvironmentClass are required''))"

subsection \<open>The InfraStack of a class\<close>

definition class_executor :: "environment_class \<Rightarrow> executor_spec" where
  "class_executor class =
     (let runner = ecs_Executor (ec_Spec class); profile = ecs_RunnerProfile (ec_Spec class);
          r1 = (if ex_Image runner = [] then runner\<lparr>ex_Image := rp_Image profile\<rparr> else runner)
      in if ex_TerraformVersion r1 = [] then r1\<lparr>ex_TerraformVersion := rp_TerraformVersion profile\<rparr> else r1)"

definition class_approval :: "environment_class \<Rightarrow> string" where
  "class_approval class =
     (if ecs_ApprovalPolicy (ec_Spec class) = [] then ApprovalPolicyManual else ecs_ApprovalPolicy (ec_Spec class))"

definition buildClassInfraStack ::
  "hash \<Rightarrow> platform_environment \<Rightarrow> environment_class \<Rightarrow> string \<Rightarrow> target_reference \<Rightarrow> gerr + infra_stack" where
  "buildClassInfraStack sha environment class name target =
     sum_bind (materializeTarget target) (\<lambda>materialized.
       let spec = ec_Spec class; em = pe_Meta environment; bounds = ecs_CapacityBounds spec;
           role = rp_ManagementRoleARN (ecs_RunnerProfile spec)
       in Inr \<lparr>is_Meta = empty_meta\<lparr>om_Name := name, om_Namespace := om_Namespace em\<rparr>,
         is_Spec = \<lparr>
           iss_ExecutionProfile = ecs_ExecutionProfile spec,
           iss_Source = ecs_Source spec,
           iss_Backend = ecs_Backend spec,
           iss_Workspace = om_Name em,
           iss_Capacity = pes_Capacity (pe_Spec environment),
           iss_Variables = zero_variables_spec\<lparr>vs_Values := ecs_Inputs spec\<rparr>,
           iss_Executor = class_executor class,
           iss_DesiredState = DesiredStatePresent,
           iss_ApprovalPolicy = class_approval class,
           iss_OwnerEnvironmentUID = om_UID em,
           iss_InfrastructureExecutionIdentity = iss_InfrastructureExecutionIdentity materialized,
           iss_RuntimeTargetIdentity = iss_RuntimeTargetIdentity materialized,
           iss_TargetConnectionProfile = iss_TargetConnectionProfile materialized,
           iss_MutationFence = False,
           iss_RuntimeMutationAllowed = False,
           iss_RunnerServiceAccountName = runnerServiceAccountName (Some class),
           iss_RunnerManagementRoleARN = role,
           iss_RunnerServiceAccountIdentityDigest =
             runnerServiceAccountIdentityDigest sha (runnerServiceAccountName (Some class)) role,
           iss_ConcurrencyGroup = ''environmentclass:'' @ om_Name (ec_Meta class),
           iss_MaxConcurrentPlans = cb_MaxConcurrentPlans bounds,
           iss_MaxConcurrentApplies = cb_MaxConcurrentApplies bounds\<rparr>,
         is_Status = zero_infra_stack_status\<rparr>)"


subsection \<open>environmentclass\_controller.go\<close>

text \<open>
  The reads of one reconcile are a record; the writes are the log of the effect. The usage counter is
  an int32.
\<close>

datatype class_write =
    UpdateClassW environment_class
  | UpdateClassStatusW environment_class

record class_env =
  ce_now :: time
  ce_sha :: hash
  ce_get_class :: "gerr + environment_class"
  ce_environments :: "gerr + platform_environment list"
  ce_answer :: "class_write \<Rightarrow> gerr option"

definition environmentClassFinalizer :: string where
  "environmentClassFinalizer = ''platform.example.io/environmentclass-finalizer''"

definition uses_class :: "string \<Rightarrow> platform_environment \<Rightarrow> bool" where
  "uses_class name environment \<longleftrightarrow> pes_ClassRef (pe_Spec environment) = Some name"

definition class_usage :: "string \<Rightarrow> platform_environment list \<Rightarrow> int" where
  "class_usage name environments = to_int32 (int (length (filter (uses_class name) environments)))"

definition updateClassStatus ::
  "class_env \<Rightarrow> environment_class \<Rightarrow> int \<Rightarrow> condition_status \<Rightarrow> string \<Rightarrow> string \<Rightarrow> (class_write, ctrl_result) eff" where
  "updateClassStatus env class usage status reason message =
     (let old = ec_Status class; g = om_Generation (ec_Meta class);
          updated = old\<lparr>ecst_ObservedGeneration := g, ecst_UsageCount := usage,
            ecst_SpecDigest := (if ecst_SpecDigest old = [] then environmentClassSpecDigest (ce_sha env) (Some class)
              else ecst_SpecDigest old),
            ecst_Conditions := [stableCondition (ce_now env) (findCondition (ecst_Conditions old) ConditionReady)
              g status reason message]\<rparr>
      in if old = updated then ret done_result
         else perform (ce_answer env) (UpdateClassStatusW (class\<lparr>ec_Status := updated\<rparr>)) (ret done_result))"

definition class_deletion :: "class_env \<Rightarrow> environment_class \<Rightarrow> int \<Rightarrow> (class_write, ctrl_result) eff" where
  "class_deletion env class usage =
     (let m = ec_Meta class in
      if usage > 0 then updateClassStatus env class usage ConditionFalse ''ClassInUse''
        ''EnvironmentClass is in use and cannot be destructively deleted''
      else if contains_string (om_Finalizers m) environmentClassFinalizer then
        perform_unless is_not_found (ce_answer env)
          (UpdateClassW (class\<lparr>ec_Meta := m\<lparr>om_Finalizers := removeString (om_Finalizers m) environmentClassFinalizer\<rparr>\<rparr>))
          (ret done_result)
      else ret done_result)"

definition EnvironmentClass_Reconcile :: "class_env \<Rightarrow> (class_write, ctrl_result) eff" where
  "EnvironmentClass_Reconcile env =
     (case ce_get_class env of
        Inl e \<Rightarrow> if is_not_found e then ret done_result else fail e
      | Inr class \<Rightarrow>
          (case ce_environments env of
             Inl e \<Rightarrow> fail e
           | Inr environments \<Rightarrow>
               (let m = ec_Meta class; usage = class_usage (om_Name m) environments;
                    pinned = ecst_SpecDigest (ec_Status class)
                in if om_DeletionTimestamp m \<noteq> None then class_deletion env class usage
                   else if pinned \<noteq> [] \<and> pinned \<noteq> environmentClassSpecDigest (ce_sha env) (Some class)
                   then updateClassStatus env class usage ConditionFalse ''ClassSpecChanged''
                     ''EnvironmentClass spec changed after admission; create a new versioned class''
                   else if \<not> contains_string (om_Finalizers m) environmentClassFinalizer
                   then perform (ce_answer env)
                     (UpdateClassW (class\<lparr>ec_Meta := m\<lparr>om_Finalizers := om_Finalizers m @ [environmentClassFinalizer]\<rparr>\<rparr>))
                     (ret requeue_now)
                   else updateClassStatus env class usage ConditionTrue ''ClassValidated''
                     ''EnvironmentClass is immutable and available for typed PlatformEnvironment use'')))"

subsection \<open>What the class decides\<close>

lemma materializeTarget_Inr:
  "materializeTarget t = Inr s \<Longrightarrow> \<exists>m. MaterializeTarget (target_expectation_of t) = Inr m
     \<and> iss_InfrastructureExecutionIdentity s = mt_InfrastructureExecutionIdentity m
     \<and> iss_RuntimeTargetIdentity s = mt_RuntimeTargetIdentity m
     \<and> iss_TargetConnectionProfile s = mt_TargetConnectionProfile m"
  by (auto simp: materializeTarget_def)

text \<open>The execution identity of a materialized target: validated, and an AWS one is the expectation's.\<close>

lemma materialized_execution_identity:
  assumes "MaterializeTarget t = Inr m"
  shows "execution_identity_Validate (mt_InfrastructureExecutionIdentity m) = None
     \<and> (let x = mt_InfrastructureExecutionIdentity m in
         if iei_Provider x = ProviderAWS
         then iei_AccountID x = te_AccountID t \<and> iei_RoleARN x = te_ExecutionRoleARN t \<and> iei_Region x = te_Region t
         else iei_RoleARN x = [])"
proof -
  have "ProviderKubernetes \<noteq> ProviderAWS" "ProviderKind \<noteq> ProviderAWS" by code_simp+
  then show ?thesis using assms
    by (auto simp: MaterializeTarget_def materialize_kubeconfig_def materialize_aws_def Let_def split: if_splits)
qed

lemma validateEnvironmentClass_None:
  "validateEnvironmentClass sha (Some e) (Some c) = None \<longleftrightarrow>
     class_profile_error c = None \<and> (\<forall>x \<in> set (class_checks sha e c). \<not> fst x)
     \<and> (\<exists>s. materializeTarget (classTarget e c) = Inr s)"
  by (auto simp: validateEnvironmentClass_def split: sum.splits)

lemma class_checks_pass:
  assumes "\<forall>x \<in> set (class_checks sha e c). \<not> fst x"
  shows "(ecst_SpecDigest (ec_Status c) = [] \<or> ecst_SpecDigest (ec_Status c) = environmentClassSpecDigest sha (Some c))
     \<and> (ecs_AllowedRegions (ec_Spec c) = [] \<or> requested_region e c \<in> set (ecs_AllowedRegions (ec_Spec c)))
     \<and> runnerServiceAccountName (Some c) \<noteq> []
     \<and> (0 < cb_MinNodeCount (ecs_CapacityBounds (ec_Spec c)) \<longrightarrow>
          cb_MinNodeCount (ecs_CapacityBounds (ec_Spec c)) \<le> cap_NodeCount (pes_Capacity (pe_Spec e)))
     \<and> (0 < cb_MaxNodeCount (ecs_CapacityBounds (ec_Spec c)) \<longrightarrow>
          cap_NodeCount (pes_Capacity (pe_Spec e)) \<le> cb_MaxNodeCount (ecs_CapacityBounds (ec_Spec c)))"
  using assms by (auto simp: class_checks_def Let_def contains_string_def)

lemma classTarget_class_fields [simp]:
  "tr_Provider (classTarget e c) = tr_Provider (ecs_Target (ec_Spec c))"
  "tr_Account (classTarget e c) = tr_Account (ecs_Target (ec_Spec c))"
  "tr_ClusterName (classTarget e c) = tr_ClusterName (ecs_Target (ec_Spec c))"
  "tr_ClusterARN (classTarget e c) = tr_ClusterARN (ecs_Target (ec_Spec c))"
  "tr_ConnectionProfileRef (classTarget e c) = tr_ConnectionProfileRef (ecs_Target (ec_Spec c))"
  "tr_ExecutionRoleARN (classTarget e c) = tr_ExecutionRoleARN (ecs_Target (ec_Spec c))"
  "tr_RuntimeRoleARN (classTarget e c) = tr_RuntimeRoleARN (ecs_Target (ec_Spec c))"
  by (simp_all add: classTarget_def Let_def)

lemma classTarget_region: "tr_Region (classTarget e c) = requested_region e c"
  by (simp add: classTarget_def requested_region_def Let_def)


subsection \<open>Writes of the class reconciler\<close>

lemma updateClassStatus_status:
  assumes "UpdateClassStatusW c \<in> set (fst (updateClassStatus env class usage status reason message))"
  shows "ec_Spec c = ec_Spec class \<and> ec_Meta c = ec_Meta class \<and> ecst_UsageCount (ec_Status c) = usage
     \<and> ecst_SpecDigest (ec_Status c) =
         (if ecst_SpecDigest (ec_Status class) = [] then environmentClassSpecDigest (ce_sha env) (Some class)
          else ecst_SpecDigest (ec_Status class))
     \<and> (\<exists>cond. ecst_Conditions (ec_Status c) = [cond] \<and> c_Status cond = status \<and> c_Type cond = ConditionReady)"
  using assms by (auto simp: updateClassStatus_def Let_def eff_simps split: if_splits)

lemma updateClassStatus_no_update:
  "UpdateClassW c \<notin> set (fst (updateClassStatus env class usage status reason message))"
  by (simp add: updateClassStatus_def Let_def eff_simps)

text \<open>A status write of a reconcile that read \<open>class\<close>: the digest, and when Ready may be True.\<close>

definition pinned_status :: "hash \<Rightarrow> environment_class \<Rightarrow> environment_class \<Rightarrow> bool" where
  "pinned_status sha class c \<longleftrightarrow> ec_Spec c = ec_Spec class \<and> ec_Meta c = ec_Meta class
     \<and> ecst_SpecDigest (ec_Status c) =
         (if ecst_SpecDigest (ec_Status class) = [] then environmentClassSpecDigest sha (Some class)
          else ecst_SpecDigest (ec_Status class))
     \<and> (conditionReadyForGeneration (ecst_Conditions (ec_Status c)) ConditionReady (om_Generation (ec_Meta class)) \<longrightarrow>
          ecst_SpecDigest (ec_Status c) = environmentClassSpecDigest sha (Some class))"

lemma Reconcile_status_pinned:
  assumes "ce_get_class env = Inr class"
    and w: "UpdateClassStatusW c \<in> set (fst (EnvironmentClass_Reconcile env))"
  shows "pinned_status (ce_sha env) class c"
proof -
  have ready: "conditionReadyForGeneration [cond] ConditionReady g \<longrightarrow> c_Status cond = ConditionTrue" for cond g
    by (simp add: conditionReadyForGeneration_def findCondition_def)
  from assms obtain usage status reason message where
    u: "UpdateClassStatusW c \<in> set (fst (updateClassStatus env class usage status reason message))"
    and t: "status = ConditionTrue \<longrightarrow> ecst_SpecDigest (ec_Status class) = []
      \<or> ecst_SpecDigest (ec_Status class) = environmentClassSpecDigest (ce_sha env) (Some class)"
    by (fastforce simp: EnvironmentClass_Reconcile_def class_deletion_def Let_def eff_simps split: sum.splits if_splits)
  from updateClassStatus_status [OF u] t ready show ?thesis by (auto simp: pinned_status_def)
qed

lemma class_usage_zero:
  assumes "length environments < 2 ^ 31" and "class_usage name environments \<le> 0" and "e \<in> set environments"
  shows "\<not> uses_class name e"
proof -
  let ?l = "filter (uses_class name) environments"
  have "length ?l < 2 ^ 31" using assms(1) length_filter_le [of "uses_class name" environments] by linarith
  then have "to_int32 (int (length ?l)) = int (length ?l)" by (intro to_int32_id) auto
  with assms(2) have "?l = []" by (simp add: class_usage_def)
  with assms(3) show ?thesis by (auto simp: filter_empty_conv)
qed

text \<open>
  A class keeps its finalizer while an environment refers to it: the finalizer is dropped only
  from a class under deletion that no listed environment names.
\<close>
theorem class_in_use_is_kept:
  assumes "ce_get_class env = Inr class" and "ce_environments env = Inr environments"
    and "length environments < 2 ^ 31"
    and w: "UpdateClassW c \<in> set (fst (EnvironmentClass_Reconcile env))"
    and "environmentClassFinalizer \<notin> set (om_Finalizers (ec_Meta c))"
  shows "om_DeletionTimestamp (ec_Meta class) \<noteq> None
     \<and> (\<forall>e \<in> set environments. pes_ClassRef (pe_Spec e) \<noteq> Some (om_Name (ec_Meta class)))"
proof -
  from assms have d: "om_DeletionTimestamp (ec_Meta class) \<noteq> None"
    and u: "class_usage (om_Name (ec_Meta class)) environments \<le> 0"
    by (auto simp: EnvironmentClass_Reconcile_def class_deletion_def Let_def eff_simps updateClassStatus_no_update
        split: if_splits)
  from class_usage_zero [OF assms(3) u] d show ?thesis by (auto simp: uses_class_def)
qed

text \<open>
  The life of a class object: clients edit the spec and the metadata but not the status, which is a
  subresource; a reconcile writes a status computed from the object it read, since a stale write is refused.
\<close>

inductive class_history :: "hash \<Rightarrow> environment_class \<Rightarrow> environment_class \<Rightarrow> bool"
  for sha :: hash and c0 :: environment_class where
  class_start: "class_history sha c0 c0"
| class_edit: "class_history sha c0 c \<Longrightarrow> class_history sha c0 (c\<lparr>ec_Spec := spec, ec_Meta := meta\<rparr>)"
| class_status: "class_history sha c0 c \<Longrightarrow> ce_sha env = sha \<Longrightarrow> ce_get_class env = Inr c \<Longrightarrow>
    UpdateClassStatusW c' \<in> set (fst (EnvironmentClass_Reconcile env)) \<Longrightarrow> class_history sha c0 c'"

lemma class_history_digest:
  assumes "class_history sha c0 c" and "ecst_SpecDigest (ec_Status c0) \<noteq> []"
  shows "ecst_SpecDigest (ec_Status c) = ecst_SpecDigest (ec_Status c0)"
  using assms
proof (induction rule: class_history.induct)
  case (class_status c env c')
  with Reconcile_status_pinned [OF class_status.hyps(3,4)] show ?case by (simp add: pinned_status_def)
qed simp_all

text \<open>
  C35. The spec of a class is pinned for its life: once its digest is recorded, whatever clients edit,
  every environment the class ever accepts is accepted against a spec with that digest.
\<close>
theorem admitted_specs_are_pinned:
  assumes "class_history sha c0 c" and "ecst_SpecDigest (ec_Status c0) \<noteq> []"
    and "validateEnvironmentClass sha (Some e) (Some c) = None"
  shows "environmentClassSpecDigest sha (Some c) = ecst_SpecDigest (ec_Status c0)"
  using class_history_digest [OF assms(1,2)] assms(2,3) class_checks_pass [of sha e c]
  by (auto simp: validateEnvironmentClass_None)

text \<open>
  The InfraStack of an accepted environment always builds, and takes its source, backend, profile,
  inputs, runner identity, account and roles from the class; the environment chooses only an allowed
  region and a capacity within the bounds.
\<close>
theorem class_stack_has_class_authority:
  assumes v: "validateEnvironmentClass sha (Some e) (Some c) = None"
  shows "\<exists>stack. buildClassInfraStack sha e c name (classTarget e c) = Inr stack
     \<and> (let s = is_Spec stack; k = ec_Spec c; x = iss_InfrastructureExecutionIdentity s in
         iss_Source s = ecs_Source k \<and> iss_Backend s = ecs_Backend k
       \<and> iss_ExecutionProfile s = ecs_ExecutionProfile k
       \<and> vs_Values (iss_Variables s) = ecs_Inputs k \<and> vs_SecretVariables (iss_Variables s) = []
       \<and> iss_RunnerServiceAccountName s = runnerServiceAccountName (Some c) \<and> iss_RunnerServiceAccountName s \<noteq> []
       \<and> iss_RunnerManagementRoleARN s = rp_ManagementRoleARN (ecs_RunnerProfile k)
       \<and> execution_identity_Validate x = None
       \<and> (iei_Provider x = ProviderAWS \<longrightarrow> iei_AccountID x = tr_Account (ecs_Target k)
            \<and> iei_RoleARN x = tr_ExecutionRoleARN (ecs_Target k) \<and> iei_Region x = requested_region e c)
       \<and> (iei_Provider x \<noteq> ProviderAWS \<longrightarrow> iei_RoleARN x = [])
       \<and> (ecs_AllowedRegions k \<noteq> [] \<longrightarrow> requested_region e c \<in> set (ecs_AllowedRegions k))
       \<and> (0 < cb_MaxNodeCount (ecs_CapacityBounds k) \<longrightarrow>
            cap_NodeCount (iss_Capacity s) \<le> cb_MaxNodeCount (ecs_CapacityBounds k))
       \<and> (0 < cb_MinNodeCount (ecs_CapacityBounds k) \<longrightarrow>
            cb_MinNodeCount (ecs_CapacityBounds k) \<le> cap_NodeCount (iss_Capacity s)))"
proof -
  from v obtain s where s: "materializeTarget (classTarget e c) = Inr s"
    and checks: "\<forall>x \<in> set (class_checks sha e c). \<not> fst x"
    by (auto simp: validateEnvironmentClass_None)
  from materializeTarget_Inr [OF s] obtain m where
    m: "MaterializeTarget (target_expectation_of (classTarget e c)) = Inr m"
    and x: "iss_InfrastructureExecutionIdentity s = mt_InfrastructureExecutionIdentity m" by blast
  note id = materialized_execution_identity [OF m]
  show ?thesis
    using s x id class_checks_pass [OF checks]
    by (auto simp: buildClassInfraStack_def Let_def target_expectation_of_def classTarget_region zero_variables_spec_def)
qed


subsection \<open>Instances\<close>

text \<open>A class with one region, between one and three nodes and a kind target, and an environment of it.\<close>

definition sample_class :: environment_class where
  "sample_class = \<lparr>ec_Meta = empty_meta\<lparr>om_Name := ''c'', om_Finalizers := [environmentClassFinalizer]\<rparr>,
     ec_Spec = \<lparr>ecs_ExecutionProfile = None, ecs_Inputs = [], ecs_Version = ''v1'', ecs_Source = zero_source_spec,
       ecs_Backend = zero_backend_spec\<lparr>be_AuthRef := \<lparr>sar_ServiceAccountName = ''runner''\<rparr>\<rparr>,
       ecs_Executor = zero_executor_spec,
       ecs_RunnerProfile = \<lparr>rp_ServiceAccountName = [], rp_ManagementRoleARN = [], rp_Image = ''i'', rp_ImageDigest = [],
         rp_TerraformVersion = ''1.9''\<rparr>,
       ecs_RuntimeProfile = \<lparr>rtp_OperatorImage = [], rtp_OperatorImageDigest = [], rtp_OperatorManifestRef = [],
         rtp_ValkeyImage = [], rtp_NetworkPolicyProfile = [], rtp_RuntimeObjects = []\<rparr>,
       ecs_Target = zero_target_reference\<lparr>tr_Provider := ''kind'', tr_ClusterName := ''k''\<rparr>,
       ecs_AllowedRegions = [''r''],
       ecs_CapacityBounds = \<lparr>cb_MinNodeCount = 1, cb_MaxNodeCount = 3, cb_MaxEnvironments = 1,
         cb_MaxConcurrentPlans = 0, cb_MaxConcurrentApplies = 0\<rparr>,
       ecs_ApprovalPolicy = [], ecs_DataRetentionPolicy = []\<rparr>,
     ec_Status = \<lparr>ecst_ObservedGeneration = 0, ecst_Conditions = [], ecst_UsageCount = 0, ecst_SpecDigest = []\<rparr>\<rparr>"

definition sample_environment :: platform_environment where
  "sample_environment = \<lparr>pe_Meta = empty_meta\<lparr>om_Name := ''e'', om_Namespace := ''n'', om_UID := ''eu''\<rparr>,
     pe_Spec = \<lparr>pes_ClassRef = Some ''c'', pes_InfraStackRef = [], pes_Target = zero_target_reference, pes_Region = ''r'',
       pes_Capacity = \<lparr>cap_NodeCount = 2\<rparr>, pes_Valkey = \<lparr>vi_Enabled = False, vi_Shards = 0, vi_Replicas = 0\<rparr>,
       pes_DesiredState = []\<rparr>,
     pe_Status = \<lparr>pest_ObservedGeneration = 0, pest_Conditions = [], pest_InfraStackRef = None, pest_ResourceSetRef = None,
       pest_TargetIdentity = None, pest_TargetConnection = None, pest_CleanupEvidenceRef = [], pest_CleanupEvidenceDigest = []\<rparr>\<rparr>"

definition pinned_class :: environment_class where
  "pinned_class = sample_class\<lparr>ec_Status := (ec_Status sample_class)\<lparr>ecst_SpecDigest :=
     environmentClassSpecDigest (\<lambda>s. s) (Some sample_class)\<rparr>\<rparr>"

definition doomed_class :: environment_class where
  "doomed_class = sample_class\<lparr>ec_Meta := (ec_Meta sample_class)\<lparr>om_DeletionTimestamp := Some 1\<rparr>\<rparr>"

definition class_env_of :: "environment_class \<Rightarrow> platform_environment list \<Rightarrow> class_env" where
  "class_env_of class environments = \<lparr>ce_now = 0, ce_sha = (\<lambda>s. s), ce_get_class = Inr class,
     ce_environments = Inr environments, ce_answer = (\<lambda>_. None)\<rparr>"

lemma pinned_class_accepts:
  "validateEnvironmentClass (\<lambda>s. s) (Some sample_environment) (Some pinned_class) = None"
  by code_simp

theorem class_in_use_is_kept_witness:
  "pes_ClassRef (pe_Spec (sample_environment\<lparr>pe_Spec := (pe_Spec sample_environment)\<lparr>pes_ClassRef := Some ''d''\<rparr>\<rparr>))
     \<noteq> Some (om_Name (ec_Meta doomed_class))"
proof -
  let ?es = "[sample_environment\<lparr>pe_Spec := (pe_Spec sample_environment)\<lparr>pes_ClassRef := Some ''d''\<rparr>\<rparr>]"
  let ?c = "doomed_class\<lparr>ec_Meta := (ec_Meta doomed_class)\<lparr>om_Finalizers := []\<rparr>\<rparr>"
  have "fst (EnvironmentClass_Reconcile (class_env_of doomed_class ?es)) = [UpdateClassW ?c]" by code_simp
  then have w: "UpdateClassW ?c \<in> set (fst (EnvironmentClass_Reconcile (class_env_of doomed_class ?es)))" by simp
  show ?thesis
    using class_in_use_is_kept [OF _ _ _ w, of doomed_class ?es] by (simp add: class_env_of_def)
qed

theorem admitted_specs_are_pinned_witness:
  "environmentClassSpecDigest (\<lambda>s. s) (Some (pinned_class\<lparr>ec_Spec := ec_Spec sample_class, ec_Meta := empty_meta\<rparr>))
     = ecst_SpecDigest (ec_Status pinned_class)"
proof (rule admitted_specs_are_pinned)
  show "class_history (\<lambda>s. s) pinned_class (pinned_class\<lparr>ec_Spec := ec_Spec sample_class, ec_Meta := empty_meta\<rparr>)"
    by (rule class_edit [OF class_start])
  show "ecst_SpecDigest (ec_Status pinned_class) \<noteq> []"
    by (simp add: pinned_class_def environmentClassSpecDigest_def)
  show "validateEnvironmentClass (\<lambda>s. s) (Some sample_environment)
      (Some (pinned_class\<lparr>ec_Spec := ec_Spec sample_class, ec_Meta := empty_meta\<rparr>)) = None" by code_simp
qed

theorem class_stack_has_class_authority_witness:
  "\<exists>stack. buildClassInfraStack (\<lambda>s. s) sample_environment pinned_class ''e-infra'' (classTarget sample_environment pinned_class)
       = Inr stack \<and> iss_RunnerServiceAccountName (is_Spec stack) \<noteq> [] \<and> cap_NodeCount (iss_Capacity (is_Spec stack)) \<le> 3"
proof -
  have "cb_MaxNodeCount (ecs_CapacityBounds (ec_Spec pinned_class)) = 3" by code_simp
  with class_stack_has_class_authority [OF pinned_class_accepts, of "''e-infra''"] show ?thesis
    by (auto simp: Let_def)
qed

end
