(* ===== verification/EnvCtl.thy ===== *)
theory EnvCtl
  imports EnvClass
begin

section \<open>The PlatformEnvironment controller: platformenvironment\_controller.go\<close>

text \<open>
  One reconcile of a PlatformEnvironment. The reads are the record \<open>environment_env\<close>: the InfraStack is
  read up to three times, and each read has its own answer, because other writers may act in between.
  The writes are the log of the effect. A Namespace is the list of its annotations, a ServiceAccount its
  metadata; a map read from the API server is nil exactly when it is empty. An Update writes the server's
  answer into the object: for the ResourceSet, whose generation the code reads afterwards, that answer is
  \<open>ee_stored_child\<close>; for every other object the object in memory is what was sent.
\<close>

record rbac_role =
  role_Meta :: object_meta
  role_Rules :: "(string list \<times> string list \<times> string list) list"

record role_binding =
  rb_Meta :: object_meta
  rb_RoleRef :: "string \<times> string \<times> string"
  rb_Subjects :: "(string \<times> string \<times> string) list"

datatype env_write =
    UpdateEnvW platform_environment
  | UpdateEnvStatusW platform_environment
  | CreateStackW infra_stack
  | PutStackW infra_stack
  | DeleteStackW infra_stack
  | CreateChildW resource_set
  | PutChildW resource_set
  | DeleteChildW resource_set
  | CreateAccountW object_meta
  | PutAccountW object_meta
  | CreateRoleW rbac_role
  | CreateBindingW role_binding

record environment_env =
  ee_now :: time
  ee_sha :: hash
  ee_get_environment :: "gerr + platform_environment"
  ee_get_class :: "string \<Rightarrow> gerr + environment_class"
  ee_get_namespace :: "gerr + gomap"
  ee_environments :: "gerr + platform_environment list"
  ee_get_account :: "string \<Rightarrow> gerr + object_meta"
  ee_get_role :: "string \<Rightarrow> gerr + rbac_role"
  ee_get_binding :: "string \<Rightarrow> gerr + role_binding"
  ee_get_class_stack :: "string \<Rightarrow> gerr + infra_stack"
  ee_get_stack :: "string \<Rightarrow> gerr + infra_stack"
  ee_get_stack_again :: "string \<Rightarrow> gerr + infra_stack"
  ee_get_child :: "string \<Rightarrow> gerr + resource_set"
  ee_runs :: "gerr + terraform_run list"
  ee_set_owner :: "object_meta \<Rightarrow> string \<Rightarrow> object_meta \<Rightarrow> gerr + object_meta"
  ee_stored_child :: "resource_set \<Rightarrow> resource_set"
  ee_answer :: "env_write \<Rightarrow> gerr option"

type_synonym 'a env_eff = "(env_write, 'a) eff"

definition platformEnvironmentFinalizer :: string where
  "platformEnvironmentFinalizer = ''platform.example.io/platformenvironment-finalizer''"

definition environmentRequeue :: duration where "environmentRequeue = second"

text \<open>
  A step that may end the reconcile: \<open>Inl r\<close> is an early return with the result \<open>r\<close>, \<open>Inr a\<close> goes on.
\<close>

definition stop :: "ctrl_result env_eff \<Rightarrow> (ctrl_result + 'a) env_eff" where
  "stop m = eff_bind m (\<lambda>r. ret (Inl r))"

definition go_on :: "(ctrl_result + 'a) env_eff \<Rightarrow> ('a \<Rightarrow> ctrl_result env_eff) \<Rightarrow> ctrl_result env_eff" where
  "go_on m k = eff_bind m (\<lambda>x. case x of Inl r \<Rightarrow> ret r | Inr a \<Rightarrow> k a)"

subsection \<open>Conditions and messages\<close>

definition with_environment_condition ::
  "environment_env \<Rightarrow> platform_environment \<Rightarrow> string \<Rightarrow> string \<Rightarrow> condition_status \<Rightarrow> platform_environment_status \<Rightarrow>
   platform_environment_status" where
  "with_environment_condition env object reason message status st =
     st\<lparr>pest_ObservedGeneration := om_Generation (pe_Meta object),
        pest_Conditions := [stableCondition (ee_now env) (findCondition (pest_Conditions (pe_Status object)) ConditionReady)
          (om_Generation (pe_Meta object)) status reason message]\<rparr>"

definition setEnvironmentCondition ::
  "environment_env \<Rightarrow> platform_environment \<Rightarrow> string \<Rightarrow> string \<Rightarrow> condition_status \<Rightarrow> ctrl_result env_eff" where
  "setEnvironmentCondition env object reason message status =
     perform (ee_answer env)
       (UpdateEnvStatusW (object\<lparr>pe_Status := with_environment_condition env object reason message status (pe_Status object)\<rparr>))
       (ret (requeue_after environmentRequeue))"

definition ready_message :: "string \<Rightarrow> int \<Rightarrow> condition list \<Rightarrow> string" where
  "ready_message kind generation conditions =
     (case findCondition conditions ConditionReady of
        Some c \<Rightarrow> kind @ '' generation '' @ show_int generation @ '' is '' @ c_Reason c @ '': '' @ c_Message c
      | None \<Rightarrow> kind @ '' has not reported a current Ready condition.'')"

definition infrastructureMessage :: "infra_stack \<Rightarrow> string" where
  "infrastructureMessage stack =
     ready_message ''InfraStack'' (om_Generation (is_Meta stack)) (isst_Conditions (is_Status stack))"

definition runtimeMessage :: "resource_set \<Rightarrow> string" where
  "runtimeMessage child =
     ready_message ''ResourceSet'' (om_Generation (rset_Meta child)) (rsst_Conditions (rset_Status child))"

definition stackConditionReason :: "infra_stack option \<Rightarrow> string" where
  "stackConditionReason stack =
     (case stack of None \<Rightarrow> [] | Some s \<Rightarrow> condition_reason (isst_Conditions (is_Status s)))"

definition validatePlatformEnvironmentSpec :: "platform_environment \<Rightarrow> gerr option" where
  "validatePlatformEnvironmentSpec object =
     (let spec = pe_Spec object;
          classMode = (case pes_ClassRef spec of None \<Rightarrow> False | Some n \<Rightarrow> n \<noteq> []);
          legacyMode = (pes_InfraStackRef spec \<noteq> [] \<and> tr_Provider (pes_Target spec) \<noteq> []
            \<and> tr_ClusterName (pes_Target spec) \<noteq> [])
      in if classMode = legacyMode
         then Some (Err ''use exactly one of Class Mode or legacy InfraStack/Target mode'') else None)"

subsection \<open>The quota of a tenant namespace\<close>

definition splitAnnotation :: "string \<Rightarrow> string list" where
  "splitAnnotation value = filter (\<lambda>t. t \<noteq> []) (map trim_space (split_on (CHR '','') value))"

definition environmentAlreadyAdmitted :: "platform_environment option \<Rightarrow> bool" where
  "environmentAlreadyAdmitted environment =
     (case environment of None \<Rightarrow> False
      | Some e \<Rightarrow>
          (case pest_InfraStackRef (pe_Status e) of Some n \<Rightarrow> n \<noteq> [] | None \<Rightarrow> False)
          \<or> (case findCondition (pest_Conditions (pe_Status e)) ConditionReady of
               None \<Rightarrow> False
             | Some c \<Rightarrow> c_Reason c \<noteq> ''QuotaRejected'' \<and> c_Reason c \<noteq> ''ClassRejected'' \<and> c_Reason c \<noteq> ''ClassNotFound''))"

definition pending_before :: "platform_environment \<Rightarrow> platform_environment \<Rightarrow> bool" where
  "pending_before environment candidate \<longleftrightarrow>
     om_CreationTimestamp (pe_Meta candidate) < om_CreationTimestamp (pe_Meta environment)
     \<or> om_CreationTimestamp (pe_Meta candidate) = om_CreationTimestamp (pe_Meta environment)
       \<and> om_Name (pe_Meta candidate) < om_Name (pe_Meta environment)"

definition other_live :: "platform_environment \<Rightarrow> platform_environment \<Rightarrow> bool" where
  "other_live environment candidate \<longleftrightarrow>
     \<not> (om_Name (pe_Meta candidate) = om_Name (pe_Meta environment)
        \<and> om_Namespace (pe_Meta candidate) = om_Namespace (pe_Meta environment))
     \<and> om_DeletionTimestamp (pe_Meta candidate) = None"

definition counts_first :: "platform_environment \<Rightarrow> platform_environment \<Rightarrow> bool" where
  "counts_first environment candidate \<longleftrightarrow> other_live environment candidate
     \<and> (environmentAlreadyAdmitted (Some candidate) \<or> pending_before environment candidate)"

definition admitted_before :: "platform_environment \<Rightarrow> platform_environment list \<Rightarrow> int" where
  "admitted_before environment items = to_int32 (int (length (filter (counts_first environment) items)))"

definition environment_limit :: "gomap \<Rightarrow> environment_class \<Rightarrow> gerr + int" where
  "environment_limit annotations class =
     (let raw = glookup annotations ''platform.example.io/max-platform-environments'' in
      if raw = [] then Inr (cb_MaxEnvironments (ecs_CapacityBounds (ec_Spec class)))
      else case atoi raw of
          None \<Rightarrow> Inl (Err ''tenant namespace max-platform-environments annotation must be a positive integer'')
        | Some parsed \<Rightarrow>
            if parsed < 1 then Inl (Err ''tenant namespace max-platform-environments annotation must be a positive integer'')
            else Inr (to_int32 parsed))"

definition validateTenantPolicy ::
  "environment_env \<Rightarrow> platform_environment \<Rightarrow> environment_class \<Rightarrow> gerr option" where
  "validateTenantPolicy env environment class =
     (case ee_get_namespace env of
        Inl e \<Rightarrow> Some (Wrap ''read tenant namespace'' e)
      | Inr annotations \<Rightarrow>
          (let allowed = splitAnnotation (glookup annotations ''platform.example.io/allowed-environment-classes'');
               ns = om_Namespace (pe_Meta environment); cname = om_Name (ec_Meta class)
           in if allowed \<noteq> [] \<and> \<not> contains_string allowed cname
              then Some (Err (''EnvironmentClass '' @ quoted cname @ '' is not allowed in tenant namespace '' @ quoted ns))
              else case environment_limit annotations class of
                  Inl e \<Rightarrow> Some e
                | Inr maxEnvironments \<Rightarrow>
                    if maxEnvironments \<le> 0 then None
                    else case ee_environments env of
                        Inl e \<Rightarrow> Some (Wrap ''list tenant environments'' e)
                      | Inr items \<Rightarrow>
                          if environmentAlreadyAdmitted (Some environment) then None
                          else if maxEnvironments \<le> admitted_before environment items
                          then Some (Err (''tenant namespace '' @ quoted ns
                            @ '' has reached maximum admitted PlatformEnvironments ('' @ show_int maxEnvironments @ '')''))
                          else None))"

subsection \<open>The runner's ServiceAccount, Role and RoleBinding\<close>

definition roleARNKey :: string where "roleARNKey = ''eks.amazonaws.com/role-arn''"

definition managedLabel :: gomap where
  "managedLabel = [(''platform.example.io/managed-by'', ''platform-control-plane'')]"

definition runnerServiceAccountAnnotations :: "environment_class option \<Rightarrow> gomap" where
  "runnerServiceAccountAnnotations class =
     (case class of None \<Rightarrow> []
      | Some c \<Rightarrow>
          if tr_Provider (ecs_Target (ec_Spec c)) \<noteq> ProviderAWS \<or> rp_ManagementRoleARN (ecs_RunnerProfile (ec_Spec c)) = []
          then [] else [(roleARNKey, rp_ManagementRoleARN (ecs_RunnerProfile (ec_Spec c)))])"

definition managed_meta :: "platform_environment \<Rightarrow> string \<Rightarrow> gomap \<Rightarrow> object_meta" where
  "managed_meta environment name annotations =
     empty_meta\<lparr>om_Name := name, om_Namespace := om_Namespace (pe_Meta environment), om_Labels := managedLabel,
       om_Annotations := annotations\<rparr>"

definition owned_by_environment :: "environment_env \<Rightarrow> platform_environment \<Rightarrow> object_meta \<Rightarrow> gerr + object_meta" where
  "owned_by_environment env environment meta = ee_set_owner env (pe_Meta environment) ''PlatformEnvironment'' meta"

text \<open>Create a missing object; one that exists by now is left alone.\<close>

definition create_owned ::
  "environment_env \<Rightarrow> platform_environment \<Rightarrow> object_meta \<Rightarrow> (object_meta \<Rightarrow> env_write) \<Rightarrow> unit env_eff" where
  "create_owned env environment meta mk =
     (case owned_by_environment env environment meta of
        Inl e \<Rightarrow> fail e
      | Inr m \<Rightarrow> perform_unless is_already_exists (ee_answer env) (mk m) (ret ()))"

definition account_role :: "object_meta \<Rightarrow> string \<Rightarrow> object_meta" where
  "account_role account desiredRole =
     account\<lparr>om_Annotations := (if desiredRole = [] then filter (\<lambda>e. fst e \<noteq> roleARNKey) (om_Annotations account)
       else gset (om_Annotations account) roleARNKey desiredRole)\<rparr>"

definition ensure_account :: "environment_env \<Rightarrow> platform_environment \<Rightarrow> string \<Rightarrow> gomap \<Rightarrow> unit env_eff" where
  "ensure_account env environment name annotations =
     (case ee_get_account env name of
        Inl e \<Rightarrow> if is_not_found e then create_owned env environment (managed_meta environment name annotations) CreateAccountW
                 else fail e
      | Inr account \<Rightarrow>
          if annotations = [] \<and> om_Annotations account = [] then ret ()
          else if glookup (om_Labels account) ''platform.example.io/managed-by'' \<noteq> ''platform-control-plane''
          then fail (Err (''runner management identity requires controller-managed ServiceAccount '' @ quoted name))
          else if glookup (om_Annotations account) roleARNKey \<noteq> glookup annotations roleARNKey
          then perform (ee_answer env) (PutAccountW (account_role account (glookup annotations roleARNKey))) (ret ())
          else ret ())"

definition runner_rules :: "(string list \<times> string list \<times> string list) list" where
  "runner_rules = [([[]], [''configmaps'', ''pods''], [''get'']), ([''batch''], [''jobs''], [''get''])]"

definition ensure_role :: "environment_env \<Rightarrow> platform_environment \<Rightarrow> string \<Rightarrow> unit env_eff" where
  "ensure_role env environment name =
     (case ee_get_role env name of
        Inl e \<Rightarrow> if is_not_found e
          then create_owned env environment (managed_meta environment name [])
            (\<lambda>m. CreateRoleW \<lparr>role_Meta = m, role_Rules = runner_rules\<rparr>)
          else fail e
      | Inr role \<Rightarrow> ret ())"

definition ensure_binding :: "environment_env \<Rightarrow> platform_environment \<Rightarrow> string \<Rightarrow> unit env_eff" where
  "ensure_binding env environment name =
     (case ee_get_binding env name of
        Inl e \<Rightarrow> if is_not_found e
          then create_owned env environment (managed_meta environment name [])
            (\<lambda>m. CreateBindingW \<lparr>rb_Meta = m, rb_RoleRef = (''rbac.authorization.k8s.io'', ''Role'', name),
               rb_Subjects = [(''ServiceAccount'', name, om_Namespace (pe_Meta environment))]\<rparr>)
          else fail e
      | Inr binding \<Rightarrow> ret ())"

definition ensureRunnerIdentity :: "environment_env \<Rightarrow> platform_environment \<Rightarrow> environment_class \<Rightarrow> unit env_eff" where
  "ensureRunnerIdentity env environment class =
     (let name = runnerServiceAccountName (Some class) in
      if name = [] then ret ()
      else eff_bind (ensure_account env environment name (runnerServiceAccountAnnotations (Some class))) (\<lambda>_.
        eff_bind (ensure_role env environment name) (\<lambda>_. ensure_binding env environment name)))"

subsection \<open>Class mode: the InfraStack of the environment\<close>

definition create_class_stack ::
  "environment_env \<Rightarrow> platform_environment \<Rightarrow> environment_class \<Rightarrow> string \<Rightarrow> target_reference \<Rightarrow>
   (ctrl_result + unit) env_eff" where
  "create_class_stack env object class name target =
     (case buildClassInfraStack (ee_sha env) object class name target of
        Inl e \<Rightarrow> stop (setEnvironmentCondition env object ''ClassRejected'' (err_text e) ConditionFalse)
      | Inr desired \<Rightarrow>
          (case owned_by_environment env object (is_Meta desired) of
             Inl e \<Rightarrow> fail e
           | Inr meta \<Rightarrow> perform (ee_answer env) (CreateStackW (desired\<lparr>is_Meta := meta\<rparr>)) (ret (Inr ()))))"

definition update_class_stack ::
  "environment_env \<Rightarrow> platform_environment \<Rightarrow> environment_class \<Rightarrow> string \<Rightarrow> target_reference \<Rightarrow> infra_stack \<Rightarrow>
   (ctrl_result + unit) env_eff" where
  "update_class_stack env object class name target classStack =
     (if hasForeignController (is_Meta classStack) (pe_Meta object) ''PlatformEnvironment''
      then stop (setEnvironmentCondition env object ''ChildOwnershipConflict''
        (''InfraStack '' @ quoted (om_Name (is_Meta classStack)) @ '' exists but is owned by another PlatformEnvironment'')
        ConditionFalse)
      else if om_UID (pe_Meta object) \<noteq> [] \<and> \<not> ownedBy (is_Meta classStack) (pe_Meta object) ''PlatformEnvironment''
      then (case owned_by_environment env object (is_Meta classStack) of
          Inl e \<Rightarrow> fail e
        | Inr meta \<Rightarrow> perform (ee_answer env) (PutStackW (classStack\<lparr>is_Meta := meta\<rparr>))
            (ret (Inl (requeue_after environmentRequeue))))
      else (case buildClassInfraStack (ee_sha env) object class name target of
          Inl e \<Rightarrow> stop (setEnvironmentCondition env object ''ClassRejected'' (err_text e) ConditionFalse)
        | Inr desired \<Rightarrow>
            if is_Spec classStack \<noteq> is_Spec desired
            then perform (ee_answer env) (PutStackW (classStack\<lparr>is_Spec := is_Spec desired\<rparr>))
              (ret (Inl (requeue_after environmentRequeue)))
            else ret (Inr ())))"

definition ensure_class_stack ::
  "environment_env \<Rightarrow> platform_environment \<Rightarrow> environment_class \<Rightarrow> string \<Rightarrow> target_reference \<Rightarrow>
   (ctrl_result + unit) env_eff" where
  "ensure_class_stack env object class name target =
     (case ee_get_class_stack env name of
        Inl e \<Rightarrow> if is_not_found e then create_class_stack env object class name target else fail e
      | Inr classStack \<Rightarrow> update_class_stack env object class name target classStack)"

text \<open>What the rest of the reconcile works on: the stack's name, the target, the runtime objects.\<close>

type_synonym environment_plan = "string \<times> target_reference \<times> runtime_object list"

definition class_mode ::
  "environment_env \<Rightarrow> platform_environment \<Rightarrow> string \<Rightarrow> (ctrl_result + environment_plan) env_eff" where
  "class_mode env object cname =
     (case ee_get_class env cname of
        Inl e \<Rightarrow> if is_not_found e
          then stop (setEnvironmentCondition env object ''ClassNotFound''
            (''EnvironmentClass '' @ quoted cname @ '' was not found'') ConditionFalse)
          else fail e
      | Inr class \<Rightarrow>
          (case validateEnvironmentClass (ee_sha env) (Some object) (Some class) of
             Some e \<Rightarrow> stop (setEnvironmentCondition env object ''ClassRejected'' (err_text e) ConditionFalse)
           | None \<Rightarrow>
               (case validateTenantPolicy env object class of
                  Some e \<Rightarrow> stop (setEnvironmentCondition env object ''QuotaRejected'' (err_text e) ConditionFalse)
                | None \<Rightarrow> eff_bind (ensureRunnerIdentity env object class) (\<lambda>_.
                    let name = classStackName (ee_sha env) (om_Name (pe_Meta object)); target = classTarget object class in
                    eff_bind (ensure_class_stack env object class name target) (\<lambda>x.
                      case x of Inl r \<Rightarrow> ret (Inl r)
                      | Inr _ \<Rightarrow> ret (Inr (name, target, classRuntimeObjects (Some class))))))))"

definition environment_plan_of ::
  "environment_env \<Rightarrow> platform_environment \<Rightarrow> (ctrl_result + environment_plan) env_eff" where
  "environment_plan_of env object =
     (case pes_ClassRef (pe_Spec object) of
        Some cname \<Rightarrow> if cname \<noteq> [] then class_mode env object cname
          else ret (Inr (pes_InfraStackRef (pe_Spec object), pes_Target (pe_Spec object), []))
      | None \<Rightarrow> ret (Inr (pes_InfraStackRef (pe_Spec object), pes_Target (pe_Spec object), [])))"

subsection \<open>The ResourceSet of the environment\<close>

definition targetRuntimeIdentityDigest :: "hash \<Rightarrow> target_reference \<Rightarrow> string" where
  "targetRuntimeIdentityDigest sha t = Digest sha (runtime_target_identity_json (targetRuntimeIdentity t))"

definition zero_resource_set_status :: resource_set_status where
  "zero_resource_set_status = \<lparr>rsst_ObservedGeneration = 0, rsst_Conditions = [], rsst_TargetIdentityDigest = [],
     rsst_Inventory = [], rsst_InventoryItems = 0, rsst_InventoryLimitExceeded = False, rsst_RuntimeCleanupSkipped = False,
     rsst_MutationBlocked = False, rsst_CleanupEvidenceRef = [], rsst_CleanupEvidenceDigest = []\<rparr>"

definition buildResourceSetForTarget ::
  "platform_environment \<Rightarrow> string \<Rightarrow> target_reference \<Rightarrow> runtime_object list \<Rightarrow> resource_set" where
  "buildResourceSetForTarget environment name target resources =
     (let m = pe_Meta environment;
          ownershipID = (if om_UID m = [] then om_Namespace m @ ''/'' @ om_Name m else om_UID m)
      in \<lparr>rset_Meta = empty_meta\<lparr>om_Name := name, om_Namespace := om_Namespace m\<rparr>,
          rset_Spec = zero_resource_set_spec\<lparr>rss_Target := target, rss_OwnershipID := ownershipID,
            rss_MaxInventoryItems := 500, rss_Resources := resources, rss_RuntimeMutationAllowed := False,
            rss_MutationFence := True\<rparr>,
          rset_Status = zero_resource_set_status\<rparr>)"

definition ensure_child ::
  "environment_env \<Rightarrow> platform_environment \<Rightarrow> target_reference \<Rightarrow> runtime_object list \<Rightarrow>
   (ctrl_result + resource_set) env_eff" where
  "ensure_child env object target objects =
     (let name = resourceSetName (ee_sha env) (om_Name (pe_Meta object)) in
      case ee_get_child env name of
        Inl e \<Rightarrow>
          if is_not_found e then
            (let child = buildResourceSetForTarget object name target objects in
             case owned_by_environment env object (rset_Meta child) of
               Inl err \<Rightarrow> fail err
             | Inr meta \<Rightarrow> perform (ee_answer env) (CreateChildW (child\<lparr>rset_Meta := meta\<rparr>))
                 (ret (Inl (requeue_after environmentRequeue))))
          else fail e
      | Inr child \<Rightarrow>
          if hasForeignController (rset_Meta child) (pe_Meta object) ''PlatformEnvironment''
          then stop (setEnvironmentCondition env object ''ChildOwnershipConflict''
            (''ResourceSet '' @ quoted (om_Name (rset_Meta child)) @ '' exists but is owned by another PlatformEnvironment'')
            ConditionFalse)
          else if om_UID (pe_Meta object) \<noteq> [] \<and> \<not> ownedBy (rset_Meta child) (pe_Meta object) ''PlatformEnvironment''
          then (case owned_by_environment env object (rset_Meta child) of
              Inl err \<Rightarrow> fail err
            | Inr meta \<Rightarrow> perform (ee_answer env) (PutChildW (child\<lparr>rset_Meta := meta\<rparr>))
                (ret (Inl (requeue_after environmentRequeue))))
          else ret (Inr child))"

text \<open>
  Reading the stack by name: an empty name reads nothing, and a stack that is not found leaves the
  variable as it was.
\<close>

definition read_stack ::
  "(string \<Rightarrow> gerr + infra_stack) \<Rightarrow> string \<Rightarrow> infra_stack \<Rightarrow> gerr + bool \<times> infra_stack" where
  "read_stack get name stack =
     (if name = [] then Inr (False, stack)
      else case get name of
          Inl e \<Rightarrow> if is_not_found e then Inr (False, stack) else Inl e
        | Inr s \<Rightarrow> Inr (True, s))"

definition infrastructure_ready :: "infra_stack \<Rightarrow> bool" where
  "infrastructure_ready stack \<longleftrightarrow>
     conditionReadyForGeneration (isst_Conditions (is_Status stack)) ConditionReady (om_Generation (is_Meta stack))
     \<and> condition_reason (isst_Conditions (is_Status stack)) = ''InfrastructureReady''"

definition discovered_target :: "infra_stack \<Rightarrow> (runtime_target_identity \<times> target_connection_profile) option" where
  "discovered_target stack =
     (case (isst_DiscoveredRuntimeTargetIdentity (is_Status stack), isst_DiscoveredTargetConnectionProfile (is_Status stack)) of
        (Some i, Some p) \<Rightarrow> Some (i, p) | _ \<Rightarrow> None)"

definition child_target_spec ::
  "hash \<Rightarrow> target_reference \<Rightarrow> runtime_object list \<Rightarrow> infra_stack \<Rightarrow> resource_set_spec \<Rightarrow> resource_set_spec" where
  "child_target_spec sha target objects stack spec =
     (let base = spec\<lparr>rss_Target := target, rss_Resources := objects\<rparr> in
      case discovered_target stack of
        None \<Rightarrow> base\<lparr>rss_RuntimeTargetIdentityDigest := targetRuntimeIdentityDigest sha target,
          rss_TrustedRuntimeTargetIdentity := None, rss_TrustedTargetConnectionProfile := None,
          rss_TargetDiscoveryRef := [], rss_TargetDiscoveryDigest := []\<rparr>
      | Some (i, p) \<Rightarrow> base\<lparr>rss_RuntimeTargetIdentityDigest := Digest sha (runtime_target_identity_json i),
          rss_TrustedRuntimeTargetIdentity := Some i, rss_TrustedTargetConnectionProfile := Some p,
          rss_TargetDiscoveryRef := isst_TargetDiscoveryRef (is_Status stack),
          rss_TargetDiscoveryDigest := isst_TargetDiscoveryDigest (is_Status stack)\<rparr>)"

definition trusted_discovery :: "resource_set_spec \<Rightarrow> bool" where
  "trusted_discovery spec \<longleftrightarrow> rss_TrustedRuntimeTargetIdentity spec \<noteq> None \<and> rss_TrustedTargetConnectionProfile spec \<noteq> None
     \<and> rss_TargetDiscoveryRef spec \<noteq> [] \<and> rss_TargetDiscoveryDigest spec \<noteq> []"

definition desired_child_spec ::
  "hash \<Rightarrow> target_reference \<Rightarrow> runtime_object list \<Rightarrow> bool \<Rightarrow> infra_stack \<Rightarrow> resource_set_spec \<Rightarrow> resource_set_spec" where
  "desired_child_spec sha target objects found stack spec =
     (let s = child_target_spec sha target objects stack spec;
          ready0 = (found \<and> infrastructure_ready stack \<and> iss_DesiredState (is_Spec stack) = DesiredStatePresent);
          ready = (ready0 \<and> \<not> (tr_Provider target = ''aws'' \<and> \<not> trusted_discovery s))
      in s\<lparr>rss_RuntimeMutationAllowed := (ready \<and> \<not> iss_MutationFence (is_Spec stack)),
           rss_MutationFence := (iss_MutationFence (is_Spec stack) \<or> \<not> ready)\<rparr>)"

definition update_child :: "environment_env \<Rightarrow> resource_set \<Rightarrow> resource_set_spec \<Rightarrow> resource_set env_eff" where
  "update_child env child spec =
     (if rset_Spec child = spec then ret child
      else (let child' = child\<lparr>rset_Spec := spec\<rparr> in
        perform (ee_answer env) (PutChildW child') (ret (ee_stored_child env child'))))"

subsection \<open>The status of the environment\<close>

definition environment_condition :: "bool \<Rightarrow> infra_stack \<Rightarrow> resource_set \<Rightarrow> condition_status \<times> string \<times> string" where
  "environment_condition found stack child =
     (if \<not> found then (ConditionFalse, ''InfraStackNotFound'', ''The referenced InfraStack has not been created yet.'')
      else if \<not> infrastructure_ready stack then (ConditionFalse, ''InfrastructureNotReady'', infrastructureMessage stack)
      else if \<not> conditionReadyForGeneration (rsst_Conditions (rset_Status child)) ConditionReady (om_Generation (rset_Meta child))
      then (ConditionFalse, ''RuntimeNotReady'', runtimeMessage child)
      else (ConditionTrue, ''EnvironmentReady'', ''Infrastructure, runtime, and required domain readiness are all current.''))"

definition environment_status ::
  "environment_env \<Rightarrow> platform_environment \<Rightarrow> string \<Rightarrow> target_reference \<Rightarrow> bool \<Rightarrow> infra_stack \<Rightarrow> resource_set \<Rightarrow>
   platform_environment_status" where
  "environment_status env object name target found stack child =
     (let (identity, connection) = (case discovered_target stack of
            None \<Rightarrow> (targetRuntimeIdentity target, environmentTargetConnection target) | Some x \<Rightarrow> x);
          (status, reason, message) = environment_condition found stack child
      in with_environment_condition env object reason message status
           ((pe_Status object)\<lparr>pest_InfraStackRef := (if name = [] then None else Some name),
              pest_TargetIdentity := Some identity, pest_TargetConnection := Some connection,
              pest_ResourceSetRef := Some (om_Name (rset_Meta child))\<rparr>))"

definition report_environment ::
  "environment_env \<Rightarrow> platform_environment \<Rightarrow> string \<Rightarrow> target_reference \<Rightarrow> bool \<Rightarrow> infra_stack \<Rightarrow> resource_set \<Rightarrow>
   ctrl_result env_eff" where
  "report_environment env object name target found stack child =
     (let status = environment_status env object name target found stack child;
          result = (if fst (environment_condition found stack child) = ConditionTrue then done_result
            else requeue_after environmentRequeue)
      in if pe_Status object = status then ret result
         else perform (ee_answer env) (UpdateEnvStatusW (object\<lparr>pe_Status := status\<rparr>)) (ret result))"

definition follow_environment ::
  "environment_env \<Rightarrow> platform_environment \<Rightarrow> environment_plan \<Rightarrow> resource_set \<Rightarrow> ctrl_result env_eff" where
  "follow_environment env object plan child =
     (case plan of (name, target, objects) \<Rightarrow>
        (case read_stack (ee_get_stack env) name zero_infra_stack of
           Inl e \<Rightarrow> fail e
         | Inr (found, stack) \<Rightarrow>
             eff_bind (update_child env child (desired_child_spec (ee_sha env) target objects found stack (rset_Spec child)))
               (\<lambda>child'.
                 case read_stack (ee_get_stack_again env) name stack of
                   Inl e \<Rightarrow> fail e
                 | Inr (found', stack') \<Rightarrow> report_environment env object name target found' stack' child')))"

definition reconcile_environment :: "environment_env \<Rightarrow> platform_environment \<Rightarrow> ctrl_result env_eff" where
  "reconcile_environment env object =
     (case validatePlatformEnvironmentSpec object of
        Some e \<Rightarrow> setEnvironmentCondition env object ''InvalidSpec'' (err_text e) ConditionFalse
      | None \<Rightarrow> go_on (environment_plan_of env object) (\<lambda>plan.
          go_on (ensure_child env object (fst (snd plan)) (snd (snd plan))) (follow_environment env object plan)))"

subsection \<open>Deletion\<close>

definition active_mutating_apply :: "infra_stack \<Rightarrow> terraform_run \<Rightarrow> bool" where
  "active_mutating_apply stack run \<longleftrightarrow> rs_StackRef (run_Spec run) = om_Name (is_Meta stack)
     \<and> rs_Operation (run_Spec run) = ''Apply''
     \<and> rst_ExecutionOutcome (run_Status run) \<in> {[], ''Pending'', ''Running''}"

definition hasActiveMutatingApply :: "environment_env \<Rightarrow> infra_stack option \<Rightarrow> bool" where
  "hasActiveMutatingApply env stack =
     (case stack of None \<Rightarrow> False
      | Some s \<Rightarrow> (case ee_runs env of Inl _ \<Rightarrow> True | Inr runs \<Rightarrow> list_ex (active_mutating_apply s) runs))"

definition deleting_stack_name :: "hash \<Rightarrow> platform_environment \<Rightarrow> string" where
  "deleting_stack_name sha object =
     (let fromStatus = (case pest_InfraStackRef (pe_Status object) of None \<Rightarrow> [] | Some n \<Rightarrow> n);
          fromSpec = (if fromStatus = [] then pes_InfraStackRef (pe_Spec object) else fromStatus)
      in if fromSpec = [] \<and> (case pes_ClassRef (pe_Spec object) of None \<Rightarrow> False | Some n \<Rightarrow> n \<noteq> [])
         then classStackName sha (om_Name (pe_Meta object)) else fromSpec)"

definition mark_deleting :: "environment_env \<Rightarrow> platform_environment \<Rightarrow> platform_environment env_eff" where
  "mark_deleting env object =
     (let status = with_environment_condition env object ''Deleting''
            ''PlatformEnvironment deletion is waiting for runtime prune and infrastructure removal.'' ConditionFalse (pe_Status object)
      in if pe_Status object = status then ret object
         else (let object' = object\<lparr>pe_Status := status\<rparr> in
           perform (ee_answer env) (UpdateEnvStatusW object') (ret object')))"

definition fence_stack ::
  "environment_env \<Rightarrow> platform_environment \<Rightarrow> (ctrl_result + infra_stack option) env_eff" where
  "fence_stack env object =
     (let name = deleting_stack_name (ee_sha env) object in
      if name = [] then ret (Inr None)
      else case ee_get_stack env name of
          Inl e \<Rightarrow> if is_not_found e then ret (Inr None) else fail e
        | Inr stack \<Rightarrow>
            if iss_OwnerEnvironmentUID (is_Spec stack) \<noteq> [] \<and> iss_OwnerEnvironmentUID (is_Spec stack) \<noteq> om_UID (pe_Meta object)
            then stop (setEnvironmentCondition env object ''ChildOwnershipConflict''
              (''InfraStack '' @ quoted (om_Name (is_Meta stack)) @ '' is owned by another PlatformEnvironment'') ConditionFalse)
            else if \<not> iss_MutationFence (is_Spec stack)
            then perform (ee_answer env) (PutStackW (stack\<lparr>is_Spec := (is_Spec stack)\<lparr>iss_MutationFence := True\<rparr>\<rparr>))
              (ret (Inl (requeue_after environmentRequeue)))
            else ret (Inr (Some stack)))"

definition delete_child ::
  "environment_env \<Rightarrow> platform_environment \<Rightarrow> infra_stack option \<Rightarrow> resource_set \<Rightarrow> ctrl_result env_eff" where
  "delete_child env object stack child =
     (if \<not> rss_MutationFence (rset_Spec child) \<or> rss_RuntimeMutationAllowed (rset_Spec child)
      then perform (ee_answer env)
        (PutChildW (child\<lparr>rset_Spec := (rset_Spec child)\<lparr>rss_MutationFence := True, rss_RuntimeMutationAllowed := False\<rparr>\<rparr>))
        (ret (requeue_after environmentRequeue))
      else if hasActiveMutatingApply env stack then ret (requeue_after environmentRequeue)
      else if stackConditionReason stack = ''RecoveryRequired''
      then setEnvironmentCondition env object ''RecoveryRequired''
        ''Destroy is blocked until the Apply mutation outcome is observed and reconciled.'' ConditionUnknown
      else if om_DeletionTimestamp (rset_Meta child) = None
      then perform_unless is_not_found (ee_answer env) (DeleteChildW child) (ret (requeue_after environmentRequeue))
      else ret (requeue_after environmentRequeue))"

definition delete_stack :: "environment_env \<Rightarrow> infra_stack \<Rightarrow> ctrl_result env_eff" where
  "delete_stack env stack =
     (if iss_DesiredState (is_Spec stack) \<noteq> DesiredStateDestroy \<and> om_DeletionTimestamp (is_Meta stack) = None
      then perform (ee_answer env) (PutStackW (stack\<lparr>is_Spec := (is_Spec stack)\<lparr>iss_DesiredState := DesiredStateDestroy\<rparr>\<rparr>))
        (ret (requeue_after environmentRequeue))
      else if (case findCondition (isst_Conditions (is_Status stack)) ConditionReady of None \<Rightarrow> True
          | Some c \<Rightarrow> c_Status c \<noteq> ConditionTrue \<or> c_Reason c \<noteq> ''InfrastructureRemoved'')
      then ret (requeue_after environmentRequeue)
      else if om_DeletionTimestamp (is_Meta stack) = None
      then perform_unless is_not_found (ee_answer env) (DeleteStackW stack) (ret (requeue_after environmentRequeue))
      else ret (requeue_after environmentRequeue))"

definition release_environment :: "environment_env \<Rightarrow> platform_environment \<Rightarrow> ctrl_result env_eff" where
  "release_environment env object =
     (let m = pe_Meta object in
      if contains_string (om_Finalizers m) platformEnvironmentFinalizer
      then perform_unless is_not_found (ee_answer env)
        (UpdateEnvW (object\<lparr>pe_Meta := m\<lparr>om_Finalizers := removeString (om_Finalizers m) platformEnvironmentFinalizer\<rparr>\<rparr>))
        (ret done_result)
      else ret done_result)"

definition reconcileDelete :: "environment_env \<Rightarrow> platform_environment \<Rightarrow> ctrl_result env_eff" where
  "reconcileDelete env object0 =
     eff_bind (mark_deleting env object0) (\<lambda>object.
       go_on (fence_stack env object) (\<lambda>stack.
         case ee_get_child env (resourceSetName (ee_sha env) (om_Name (pe_Meta object))) of
           Inr child \<Rightarrow> delete_child env object stack child
         | Inl e \<Rightarrow>
             if \<not> is_not_found e then fail e
             else (case stack of Some s \<Rightarrow> delete_stack env s | None \<Rightarrow> release_environment env object)))"

definition PlatformEnvironment_Reconcile :: "environment_env \<Rightarrow> ctrl_result env_eff" where
  "PlatformEnvironment_Reconcile env =
     (case ee_get_environment env of
        Inl e \<Rightarrow> if is_not_found e then ret done_result else fail e
      | Inr object \<Rightarrow>
          (let m = pe_Meta object in
           if om_DeletionTimestamp m \<noteq> None then reconcileDelete env object
           else if \<not> contains_string (om_Finalizers m) platformEnvironmentFinalizer
           then perform (ee_answer env)
             (UpdateEnvW (object\<lparr>pe_Meta := m\<lparr>om_Finalizers := om_Finalizers m @ [platformEnvironmentFinalizer]\<rparr>\<rparr>))
             (ret requeue_now)
           else reconcile_environment env object))"

text \<open>The environments to wake when an InfraStack changes.\<close>

definition mapInfraStack :: "gerr + platform_environment list \<Rightarrow> string \<Rightarrow> (string \<times> string) list" where
  "mapInfraStack environments name =
     (case environments of Inl _ \<Rightarrow> []
      | Inr items \<Rightarrow> map (\<lambda>e. (om_Namespace (pe_Meta e), om_Name (pe_Meta e)))
          (filter (\<lambda>e. pes_InfraStackRef (pe_Spec e) = name \<or> pest_InfraStackRef (pe_Status e) = Some name) items))"

end
