(* ===== verification/EnvSafety.thy ===== *)
theory EnvSafety
  imports EnvCtl
begin

section \<open>Safety of the PlatformEnvironment controller\<close>

text \<open>
  Which writes a reconcile can send and under what evidence: when the runtime may be changed, when the
  environment is reported ready, in which order a deletion proceeds, what an admitted stack carries, and
  that the quota of a namespace holds over all environments that are admitted from one list.
\<close>

subsection \<open>The log of a step that may end the reconcile\<close>

lemma stop_log [eff_simps]: "w \<in> set (fst (stop m)) \<longleftrightarrow> w \<in> set (fst m)"
  by (simp add: stop_def eff_simps)

lemma stop_result [simp]: "snd (stop m) \<noteq> Inr (Inr a)"
  by (auto simp: stop_def eff_simps split: sum.splits)

lemma go_on_log [eff_simps]:
  "w \<in> set (fst (go_on m k)) \<longleftrightarrow> w \<in> set (fst m) \<or> (\<exists>a. snd m = Inr (Inr a) \<and> w \<in> set (fst (k a)))"
proof -
  have "w \<in> set (fst (case x of Inl r \<Rightarrow> ret r | Inr a \<Rightarrow> k a)) \<longleftrightarrow> (\<exists>a. x = Inr a \<and> w \<in> set (fst (k a)))" for x
    by (cases x) auto
  then show ?thesis unfolding go_on_def eff_bind_log by auto
qed

lemma setEnvironmentCondition_log [eff_simps]:
  "w \<in> set (fst (setEnvironmentCondition env object reason message status)) \<longleftrightarrow>
     w = UpdateEnvStatusW (object\<lparr>pe_Status := with_environment_condition env object reason message status (pe_Status object)\<rparr>)"
  by (simp add: setEnvironmentCondition_def eff_simps)

subsection \<open>Kinds of writes\<close>

text \<open>
  Each part of the reconcile touches its own kinds of objects; the three predicates name the kinds the
  properties speak of.
\<close>

fun child_write :: "env_write \<Rightarrow> bool" where
  "child_write (CreateChildW c) = True" | "child_write (PutChildW c) = True" | "child_write (DeleteChildW c) = True"
| "child_write w = False"

fun stack_object_write :: "env_write \<Rightarrow> bool" where
  "stack_object_write (CreateStackW s) = True" | "stack_object_write (PutStackW s) = True"
| "stack_object_write (DeleteStackW s) = True" | "stack_object_write w = False"

fun environment_write :: "env_write \<Rightarrow> bool" where
  "environment_write (UpdateEnvW e) = True" | "environment_write (UpdateEnvStatusW e) = True"
| "environment_write w = False"

lemma create_owned_log:
  "w \<in> set (fst (create_owned env environment meta mk)) \<Longrightarrow> \<exists>m. w = mk m"
  by (auto simp: create_owned_def eff_simps split: sum.splits)

lemma ensureRunnerIdentity_log:
  assumes "w \<in> set (fst (ensureRunnerIdentity env environment class))"
  shows "\<not> child_write w \<and> \<not> stack_object_write w \<and> \<not> environment_write w"
  using assms
  by (auto simp: ensureRunnerIdentity_def ensure_account_def ensure_role_def ensure_binding_def Let_def eff_simps
      dest!: create_owned_log split: sum.splits if_splits)

definition refusal :: "environment_env \<Rightarrow> platform_environment \<Rightarrow> env_write \<Rightarrow> bool" where
  "refusal env object w \<longleftrightarrow> (\<exists>reason message. w = UpdateEnvStatusW (object\<lparr>pe_Status :=
     with_environment_condition env object reason message ConditionFalse (pe_Status object)\<rparr>))"

lemma case_ret_log [simp]: "fst (case x of Inl a \<Rightarrow> ret (f a) | Inr b \<Rightarrow> ret (g b)) = []"
  by (cases x) simp_all

text \<open>The writes of class mode: a refusal, or those of an accepted class within its quota.\<close>

lemma class_mode_cases:
  assumes "w \<in> set (fst (class_mode env object cname))"
  shows "refusal env object w
     \<or> (\<exists>class. ee_get_class env cname = Inr class
          \<and> validateEnvironmentClass (ee_sha env) (Some object) (Some class) = None
          \<and> validateTenantPolicy env object class = None
          \<and> (w \<in> set (fst (ensureRunnerIdentity env object class))
             \<or> w \<in> set (fst (ensure_class_stack env object class
                 (classStackName (ee_sha env) (om_Name (pe_Meta object))) (classTarget object class)))))"
proof (cases "ee_get_class env cname")
  case (Inl e)
  with assms show ?thesis by (auto simp: class_mode_def refusal_def eff_simps split: if_splits)
next
  case (Inr cls)
  from Inr assms show ?thesis
    by (auto simp: class_mode_def refusal_def Let_def eff_simps split: option.splits)
qed

lemma environment_plan_log:
  assumes "w \<in> set (fst (environment_plan_of env object))"
  shows "\<exists>cname. pes_ClassRef (pe_Spec object) = Some cname \<and> w \<in> set (fst (class_mode env object cname))"
  using assms by (auto simp: environment_plan_of_def split: option.splits if_splits)

lemma ensure_class_stack_cases:
  assumes "w \<in> set (fst (ensure_class_stack env object class name target))"
  shows "refusal env object w \<or> stack_object_write w"
  using assms
  by (auto simp: ensure_class_stack_def create_class_stack_def update_class_stack_def refusal_def eff_simps
      split: sum.splits if_splits)

lemma refusal_kinds:
  "refusal env object w \<Longrightarrow> \<not> child_write w \<and> \<not> stack_object_write w"
  by (auto simp: refusal_def)

lemma stack_write_kinds: "stack_object_write w \<Longrightarrow> \<not> child_write w \<and> \<not> environment_write w"
  by (cases w) simp_all

lemma class_mode_kinds:
  assumes "w \<in> set (fst (class_mode env object cname))"
  shows "\<not> child_write w \<and> (environment_write w \<longrightarrow> refusal env object w)"
  using class_mode_cases [OF assms] ensure_class_stack_cases ensureRunnerIdentity_log refusal_kinds stack_write_kinds
  by blast

lemma ensure_child_cases:
  assumes "w \<in> set (fst (ensure_child env object target objects))"
  shows "(\<exists>meta. w = CreateChildW ((buildResourceSetForTarget object (resourceSetName (ee_sha env) (om_Name (pe_Meta object)))
            target objects)\<lparr>rset_Meta := meta\<rparr>))
     \<or> (\<exists>child meta. ee_get_child env (resourceSetName (ee_sha env) (om_Name (pe_Meta object))) = Inr child
          \<and> w = PutChildW (child\<lparr>rset_Meta := meta\<rparr>))
     \<or> (\<exists>reason message. w = UpdateEnvStatusW (object\<lparr>pe_Status :=
          with_environment_condition env object reason message ConditionFalse (pe_Status object)\<rparr>))"
proof (cases "ee_get_child env (resourceSetName (ee_sha env) (om_Name (pe_Meta object)))")
  case (Inl e)
  with assms show ?thesis by (auto simp: ensure_child_def Let_def eff_simps split: sum.splits if_splits)
next
  case (Inr child)
  with assms show ?thesis by (auto simp: ensure_child_def Let_def eff_simps split: sum.splits if_splits)
qed

lemma ensure_child_result:
  assumes "snd (ensure_child env object target objects) = Inr (Inr child)"
  shows "ee_get_child env (resourceSetName (ee_sha env) (om_Name (pe_Meta object))) = Inr child"
proof (cases "ee_get_child env (resourceSetName (ee_sha env) (om_Name (pe_Meta object)))")
  case (Inl e)
  with assms show ?thesis
    by (auto simp: ensure_child_def Let_def eff_simps split: sum.splits if_splits option.splits)
next
  case (Inr child')
  with assms show ?thesis
    by (auto simp: ensure_child_def Let_def eff_simps split: sum.splits if_splits option.splits)
qed

lemma built_child_is_fenced [simp]:
  "\<not> rss_RuntimeMutationAllowed (rset_Spec (buildResourceSetForTarget object name target objects))"
  "rss_MutationFence (rset_Spec (buildResourceSetForTarget object name target objects))"
  by (simp_all add: buildResourceSetForTarget_def Let_def)

lemma update_child_log [eff_simps]:
  "w \<in> set (fst (update_child env child spec)) \<longleftrightarrow> rset_Spec child \<noteq> spec \<and> w = PutChildW (child\<lparr>rset_Spec := spec\<rparr>)"
  by (auto simp: update_child_def Let_def eff_simps)

lemma report_environment_log [eff_simps]:
  "w \<in> set (fst (report_environment env object name target found stack child)) \<longleftrightarrow>
     (let status = environment_status env object name target found stack child in
      pe_Status object \<noteq> status \<and> w = UpdateEnvStatusW (object\<lparr>pe_Status := status\<rparr>))"
  by (auto simp: report_environment_def Let_def eff_simps)

subsection \<open>The cases of a reconcile\<close>

lemma follow_environment_cases:
  assumes "w \<in> set (fst (follow_environment env object (name, target, objects) child))"
  obtains (put) found stack where "read_stack (ee_get_stack env) name zero_infra_stack = Inr (found, stack)"
      and "w = PutChildW (child\<lparr>rset_Spec := desired_child_spec (ee_sha env) target objects found stack (rset_Spec child)\<rparr>)"
  | (status) found stack child' found' stack' where
      "read_stack (ee_get_stack env) name zero_infra_stack = Inr (found, stack)"
      and "snd (update_child env child (desired_child_spec (ee_sha env) target objects found stack (rset_Spec child))) = Inr child'"
      and "read_stack (ee_get_stack_again env) name stack = Inr (found', stack')"
      and "w = UpdateEnvStatusW (object\<lparr>pe_Status := environment_status env object name target found' stack' child'\<rparr>)"
proof (cases "read_stack (ee_get_stack env) name zero_infra_stack")
  case (Inl e)
  with assms show ?thesis by (simp add: follow_environment_def)
next
  case (Inr r)
  obtain found stack where r: "read_stack (ee_get_stack env) name zero_infra_stack = Inr (found, stack)"
    using Inr by (cases r) simp
  let ?spec = "desired_child_spec (ee_sha env) target objects found stack (rset_Spec child)"
  from assms r consider "w \<in> set (fst (update_child env child ?spec))"
    | child' where "snd (update_child env child ?spec) = Inr child'"
        and "w \<in> set (fst (case read_stack (ee_get_stack_again env) name stack of Inl e \<Rightarrow> fail e
             | Inr (found', stack') \<Rightarrow> report_environment env object name target found' stack' child'))"
    by (auto simp: follow_environment_def eff_bind_log)
  then show ?thesis
  proof cases
    case 1
    then show ?thesis using r put by (simp add: update_child_log)
  next
    case 2
    then show ?thesis using r status
      by (cases "read_stack (ee_get_stack_again env) name stack") (auto simp: report_environment_log Let_def)
  qed
qed

lemma reconcile_environment_cases:
  assumes "w \<in> set (fst (reconcile_environment env object))"
  obtains (refused) "refusal env object w"
  | (class_mode) cname where "pes_ClassRef (pe_Spec object) = Some cname" and "w \<in> set (fst (class_mode env object cname))"
  | (child) target objects where "w \<in> set (fst (ensure_child env object target objects))"
  | (follow) name target objects child where
      "snd (environment_plan_of env object) = Inr (Inr (name, target, objects))"
      and "ee_get_child env (resourceSetName (ee_sha env) (om_Name (pe_Meta object))) = Inr child"
      and "w \<in> set (fst (follow_environment env object (name, target, objects) child))"
proof -
  from assms consider
      (r) "refusal env object w"
    | (p) "w \<in> set (fst (environment_plan_of env object))"
    | (c) plan where "snd (environment_plan_of env object) = Inr (Inr plan)"
        and "w \<in> set (fst (ensure_child env object (fst (snd plan)) (snd (snd plan))))"
    | (f) plan child where "snd (environment_plan_of env object) = Inr (Inr plan)"
        and "snd (ensure_child env object (fst (snd plan)) (snd (snd plan))) = Inr (Inr child)"
        and "w \<in> set (fst (follow_environment env object plan child))"
    by (auto simp: reconcile_environment_def eff_simps refusal_def split: option.splits)
  then show ?thesis
  proof cases
    case f
    from ensure_child_result [OF f(2)] f(1,3) show ?thesis by (cases plan) (auto intro: that(4))
  qed (use environment_plan_log that in blast)+
qed

lemma Reconcile_present_log:
  assumes "ee_get_environment env = Inr object" and "om_DeletionTimestamp (pe_Meta object) = None"
    and "w \<in> set (fst (PlatformEnvironment_Reconcile env))"
  shows "w = UpdateEnvW (object\<lparr>pe_Meta := (pe_Meta object)\<lparr>om_Finalizers :=
           om_Finalizers (pe_Meta object) @ [platformEnvironmentFinalizer]\<rparr>\<rparr>)
     \<or> w \<in> set (fst (reconcile_environment env object))"
  using assms by (auto simp: PlatformEnvironment_Reconcile_def Let_def eff_simps split: if_splits)

subsection \<open>Deletion\<close>

lemma mark_deleting_log:
  "w \<in> set (fst (mark_deleting env object)) \<Longrightarrow> refusal env object w"
  by (auto simp: mark_deleting_def Let_def refusal_def eff_simps split: if_splits)

lemma mark_deleting_result:
  "snd (mark_deleting env object) = Inr object' \<Longrightarrow> pe_Meta object' = pe_Meta object \<and> pe_Spec object' = pe_Spec object
     \<and> pest_InfraStackRef (pe_Status object') = pest_InfraStackRef (pe_Status object)"
  by (auto simp: mark_deleting_def Let_def eff_simps with_environment_condition_def split: if_splits option.splits)

lemma deleting_stack_name_cong:
  assumes "pe_Meta o1 = pe_Meta o2" and "pe_Spec o1 = pe_Spec o2"
    and "pest_InfraStackRef (pe_Status o1) = pest_InfraStackRef (pe_Status o2)"
  shows "deleting_stack_name sha o1 = deleting_stack_name sha o2"
  using assms by (simp add: deleting_stack_name_def Let_def)

text \<open>The stack of the environment as the deletion finds it: absent, or read and behind its fence.\<close>

definition stack_gone :: "environment_env \<Rightarrow> platform_environment \<Rightarrow> bool" where
  "stack_gone env object \<longleftrightarrow> (let name = deleting_stack_name (ee_sha env) object in
     name = [] \<or> (\<exists>e. ee_get_stack env name = Inl e \<and> is_not_found e))"

definition stack_fenced :: "environment_env \<Rightarrow> platform_environment \<Rightarrow> infra_stack \<Rightarrow> bool" where
  "stack_fenced env object stack \<longleftrightarrow> ee_get_stack env (deleting_stack_name (ee_sha env) object) = Inr stack
     \<and> iss_MutationFence (is_Spec stack)
     \<and> (iss_OwnerEnvironmentUID (is_Spec stack) = [] \<or> iss_OwnerEnvironmentUID (is_Spec stack) = om_UID (pe_Meta object))"

definition child_gone :: "environment_env \<Rightarrow> platform_environment \<Rightarrow> bool" where
  "child_gone env object \<longleftrightarrow>
     (\<exists>e. ee_get_child env (resourceSetName (ee_sha env) (om_Name (pe_Meta object))) = Inl e \<and> is_not_found e)"

lemma fence_stack_result:
  "snd (fence_stack env object) = Inr (Inr r) \<Longrightarrow>
     (case r of None \<Rightarrow> stack_gone env object | Some stack \<Rightarrow> stack_fenced env object stack)"
  by (auto simp: fence_stack_def stack_gone_def stack_fenced_def Let_def eff_simps
      split: if_splits sum.splits option.splits)

lemma fence_stack_log:
  "w \<in> set (fst (fence_stack env object)) \<Longrightarrow> refusal env object w
     \<or> (\<exists>stack. ee_get_stack env (deleting_stack_name (ee_sha env) object) = Inr stack
          \<and> w = PutStackW (stack\<lparr>is_Spec := (is_Spec stack)\<lparr>iss_MutationFence := True\<rparr>\<rparr>))"
  by (auto simp: fence_stack_def refusal_def Let_def eff_simps split: if_splits sum.splits)

lemma reconcileDelete_cases:
  assumes "w \<in> set (fst (reconcileDelete env object0))"
  obtains (marked) "refusal env object0 w"
  | (fencing) object where "pe_Meta object = pe_Meta object0" and "deleting_stack_name (ee_sha env) object = deleting_stack_name (ee_sha env) object0"
      and "w \<in> set (fst (fence_stack env object))"
  | (child) object stack child where "pe_Meta object = pe_Meta object0"
      and "case stack of None \<Rightarrow> stack_gone env object0 | Some s \<Rightarrow> stack_fenced env object0 s"
      and "ee_get_child env (resourceSetName (ee_sha env) (om_Name (pe_Meta object0))) = Inr child"
      and "w \<in> set (fst (delete_child env object stack child))"
  | (stack) stack where "stack_fenced env object0 stack" and "child_gone env object0"
      and "w \<in> set (fst (delete_stack env stack))"
  | (release) object where "pe_Meta object = pe_Meta object0" and "stack_gone env object0" and "child_gone env object0"
      and "w \<in> set (fst (release_environment env object))"
proof -
  from assms consider
      (m) "w \<in> set (fst (mark_deleting env object0))"
    | (f) object where "snd (mark_deleting env object0) = Inr object" and "w \<in> set (fst (fence_stack env object))"
    | (r) object stack where "snd (mark_deleting env object0) = Inr object" and "snd (fence_stack env object) = Inr (Inr stack)"
        and "w \<in> set (fst (case ee_get_child env (resourceSetName (ee_sha env) (om_Name (pe_Meta object))) of
           Inr child \<Rightarrow> delete_child env object stack child
         | Inl e \<Rightarrow>
             if \<not> is_not_found e then fail e
             else (case stack of Some s \<Rightarrow> delete_stack env s | None \<Rightarrow> release_environment env object)))"
    unfolding reconcileDelete_def eff_simps by blast
  then show ?thesis
  proof cases
    case m
    then show ?thesis using mark_deleting_log that(1) by blast
  next
    case f
    note same = mark_deleting_result [OF f(1)]
    then show ?thesis using f(2) deleting_stack_name_cong [of object object0] that(2) by blast
  next
    case r
    note same = mark_deleting_result [OF r(1)]
    then have name: "deleting_stack_name (ee_sha env) object = deleting_stack_name (ee_sha env) object0"
      by (intro deleting_stack_name_cong) simp_all
    have st: "case stack of None \<Rightarrow> stack_gone env object0 | Some s \<Rightarrow> stack_fenced env object0 s"
      using fence_stack_result [OF r(2)] same name by (simp add: stack_gone_def stack_fenced_def split: option.splits)
    show ?thesis
    proof (cases "ee_get_child env (resourceSetName (ee_sha env) (om_Name (pe_Meta object0)))")
      case (Inr child)
      then show ?thesis using r(3) same st that(3) [of object stack child] by simp
    next
      case (Inl e)
      then show ?thesis using r(3) same st that(4) that(5) [of object]
        by (cases stack) (auto simp: child_gone_def split: if_splits)
    qed
  qed
qed

subsection \<open>When the runtime may be changed\<close>

lemma read_stack_found:
  "read_stack get name s0 = Inr (True, stack) \<Longrightarrow> name \<noteq> [] \<and> get name = Inr stack"
  by (auto simp: read_stack_def split: if_splits sum.splits)

lemma desired_child_opens:
  assumes "rss_RuntimeMutationAllowed (desired_child_spec sha target objects found stack spec)"
  shows "found \<and> infrastructure_ready stack \<and> iss_DesiredState (is_Spec stack) = DesiredStatePresent
     \<and> \<not> iss_MutationFence (is_Spec stack)
     \<and> \<not> rss_MutationFence (desired_child_spec sha target objects found stack spec)
     \<and> (tr_Provider target = ''aws'' \<longrightarrow> trusted_discovery (child_target_spec sha target objects stack spec))"
  using assms by (auto simp: desired_child_spec_def Let_def)

lemma desired_child_fields [simp]:
  "rss_Target (desired_child_spec sha target objects found stack spec) = target"
  "rss_TrustedRuntimeTargetIdentity (desired_child_spec sha target objects found stack spec) = map_option fst (discovered_target stack)"
  "rss_TrustedTargetConnectionProfile (desired_child_spec sha target objects found stack spec) = map_option snd (discovered_target stack)"
  by (simp_all add: desired_child_spec_def child_target_spec_def Let_def split: option.splits prod.splits)

lemma trusted_discovery_discovered:
  "trusted_discovery (child_target_spec sha target objects stack spec) \<Longrightarrow> discovered_target stack \<noteq> None"
  by (auto simp: trusted_discovery_def child_target_spec_def Let_def split: option.splits)

lemma follow_child_write:
  assumes "w \<in> set (fst (follow_environment env object (name, target, objects) child))" and "child_write w"
  shows "\<exists>found stack. read_stack (ee_get_stack env) name zero_infra_stack = Inr (found, stack)
     \<and> w = PutChildW (child\<lparr>rset_Spec := desired_child_spec (ee_sha env) target objects found stack (rset_Spec child)\<rparr>)"
  using assms(1)
proof (cases rule: follow_environment_cases)
  case (put found stack)
  then show ?thesis by blast
qed (use assms(2) in simp)

lemma present_child_write:
  assumes "w \<in> set (fst (reconcile_environment env object))" and "child_write w"
  obtains (built) meta name target objects where
      "w = CreateChildW ((buildResourceSetForTarget object name target objects)\<lparr>rset_Meta := meta\<rparr>)"
  | (adopted) child meta where "ee_get_child env (resourceSetName (ee_sha env) (om_Name (pe_Meta object))) = Inr child"
      and "w = PutChildW (child\<lparr>rset_Meta := meta\<rparr>)"
  | (followed) name target objects child found stack where
      "read_stack (ee_get_stack env) name zero_infra_stack = Inr (found, stack)"
      and "w = PutChildW (child\<lparr>rset_Spec := desired_child_spec (ee_sha env) target objects found stack (rset_Spec child)\<rparr>)"
  using assms(1)
proof (cases rule: reconcile_environment_cases)
  case (class_mode cname)
  with assms(2) show ?thesis using class_mode_kinds by blast
next
  case (child target objects)
  with assms(2) show ?thesis using ensure_child_cases [OF child] that(1,2) by (auto simp: refusal_def)
next
  case (follow name target objects child)
  from follow_child_write [OF follow(3) assms(2)] show ?thesis using that(3) by blast
qed (use assms(2) refusal_kinds in blast)

text \<open>The evidence behind an open runtime: the stack that was read, and for AWS its discovered target.\<close>

definition opens_runtime :: "environment_env \<Rightarrow> resource_set_spec \<Rightarrow> bool" where
  "opens_runtime env spec \<longleftrightarrow>
     (\<exists>name stack. ee_get_stack env name = Inr stack \<and> infrastructure_ready stack
        \<and> iss_DesiredState (is_Spec stack) = DesiredStatePresent \<and> \<not> iss_MutationFence (is_Spec stack)
        \<and> \<not> rss_MutationFence spec
        \<and> (tr_Provider (rss_Target spec) = ''aws'' \<longrightarrow>
             (\<exists>i p. discovered_target stack = Some (i, p) \<and> rss_TrustedRuntimeTargetIdentity spec = Some i
                \<and> rss_TrustedTargetConnectionProfile spec = Some p)))"

lemma followed_opens:
  assumes "read_stack (ee_get_stack env) name zero_infra_stack = Inr (found, stack)"
    and "rss_RuntimeMutationAllowed (desired_child_spec sha target objects found stack spec)"
  shows "opens_runtime env (desired_child_spec sha target objects found stack spec)"
proof -
  let ?s = "desired_child_spec sha target objects found stack spec"
  note o = desired_child_opens [OF assms(2)]
  then have "ee_get_stack env name = Inr stack"
    using read_stack_found [of "ee_get_stack env" name zero_infra_stack stack] assms(1) by simp
  moreover have "tr_Provider (rss_Target ?s) = ''aws'' \<longrightarrow>
      (\<exists>i p. discovered_target stack = Some (i, p) \<and> rss_TrustedRuntimeTargetIdentity ?s = Some i
         \<and> rss_TrustedTargetConnectionProfile ?s = Some p)"
    using o trusted_discovery_discovered by fastforce
  ultimately show ?thesis unfolding opens_runtime_def using o by blast
qed

lemma delete_child_cases:
  assumes "w \<in> set (fst (delete_child env object stack child))"
  shows "refusal env object w \<or> w = PutChildW (child\<lparr>rset_Spec := (rset_Spec child)\<lparr>rss_MutationFence := True,
           rss_RuntimeMutationAllowed := False\<rparr>\<rparr>)
     \<or> (\<exists>m. w = UpdateEnvStatusW (object\<lparr>pe_Status :=
          with_environment_condition env object ''RecoveryRequired'' m ConditionUnknown (pe_Status object)\<rparr>))
     \<or> w = DeleteChildW child \<and> rss_MutationFence (rset_Spec child) \<and> \<not> rss_RuntimeMutationAllowed (rset_Spec child)
         \<and> \<not> hasActiveMutatingApply env stack \<and> stackConditionReason stack \<noteq> ''RecoveryRequired''"
  using assms unfolding delete_child_def by (auto simp: eff_simps split: if_splits)

lemma delete_stack_cases:
  assumes "w \<in> set (fst (delete_stack env stack))"
  shows "w = PutStackW (stack\<lparr>is_Spec := (is_Spec stack)\<lparr>iss_DesiredState := DesiredStateDestroy\<rparr>\<rparr>)
     \<or> w = DeleteStackW stack \<and> (\<exists>c. findCondition (isst_Conditions (is_Status stack)) ConditionReady = Some c
          \<and> c_Status c = ConditionTrue \<and> c_Reason c = ''InfrastructureRemoved'')"
  using assms unfolding delete_stack_def by (auto simp: eff_simps split: if_splits option.splits)

lemma release_environment_log:
  "w \<in> set (fst (release_environment env object)) \<Longrightarrow> w = UpdateEnvW (object\<lparr>pe_Meta := (pe_Meta object)\<lparr>om_Finalizers :=
     removeString (om_Finalizers (pe_Meta object)) platformEnvironmentFinalizer\<rparr>\<rparr>)"
  by (auto simp: release_environment_def Let_def eff_simps split: if_splits)

lemma deletion_closes_runtime:
  assumes "w \<in> set (fst (reconcileDelete env object))"
  shows "w \<noteq> CreateChildW c" and "w = PutChildW c \<Longrightarrow> \<not> rss_RuntimeMutationAllowed (rset_Spec c)"
  using assms
  by (cases rule: reconcileDelete_cases,
      auto dest!: fence_stack_log delete_child_cases delete_stack_cases release_environment_log simp: refusal_def)+

text \<open>
  C10. The runtime of an environment is opened for mutation only behind a stack that is Ready for its
  own generation, present and unfenced, with the target the stack discovered when the provider is AWS;
  adopting a ResourceSet keeps its spec, and creating one or deleting the environment never opens it.
\<close>
theorem runtime_opens_on_ready_stack:
  assumes obj: "ee_get_environment env = Inr object"
    and w: "w \<in> set (fst (PlatformEnvironment_Reconcile env))"
    and c: "w = CreateChildW c \<or> w = PutChildW c"
    and allowed: "rss_RuntimeMutationAllowed (rset_Spec c)"
  shows "(\<exists>child. ee_get_child env (resourceSetName (ee_sha env) (om_Name (pe_Meta object))) = Inr child
           \<and> rset_Spec c = rset_Spec child) \<or> opens_runtime env (rset_Spec c)"
proof (cases "om_DeletionTimestamp (pe_Meta object) = None")
  case True
  have cw: "child_write w" using c by auto
  from Reconcile_present_log [OF obj True w] cw have "w \<in> set (fst (reconcile_environment env object))" by auto
  from this cw show ?thesis
  proof (cases rule: present_child_write)
    case (built meta name target objects)
    with c allowed show ?thesis by auto
  next
    case (adopted child meta)
    with c show ?thesis by auto
  next
    case (followed name target objects child found stack)
    with c allowed followed_opens [OF followed(1)] show ?thesis by auto
  qed
next
  case False
  with obj w have "w \<in> set (fst (reconcileDelete env object))" by (simp add: PlatformEnvironment_Reconcile_def Let_def)
  with deletion_closes_runtime c allowed show ?thesis by blast
qed

subsection \<open>When the environment is ready\<close>

lemma with_environment_condition_ready [simp]:
  "conditionReadyForGeneration (pest_Conditions (with_environment_condition env object r m status st)) ConditionReady g \<longleftrightarrow>
     status = ConditionTrue \<and> om_Generation (pe_Meta object) = g"
  by (simp add: with_environment_condition_def conditionReadyForGeneration_def findCondition_def [of "[_]"])

lemma refusal_not_ready:
  "refusal env object w \<Longrightarrow> w = UpdateEnvStatusW o' \<Longrightarrow>
     \<not> conditionReadyForGeneration (pest_Conditions (pe_Status o')) ConditionReady g"
  by (auto simp: refusal_def)

lemma environment_status_ready:
  assumes "conditionReadyForGeneration (pest_Conditions (environment_status env object name target found stack child))
     ConditionReady g"
  shows "found \<and> infrastructure_ready stack
     \<and> conditionReadyForGeneration (rsst_Conditions (rset_Status child)) ConditionReady (om_Generation (rset_Meta child))"
  using assms
  by (auto simp: environment_status_def environment_condition_def Let_def split: option.splits if_splits)

lemma update_child_result:
  "snd (update_child env child spec) = Inr child' \<Longrightarrow>
     child' = (if rset_Spec child = spec then child else ee_stored_child env (child\<lparr>rset_Spec := spec\<rparr>))"
  by (auto simp: update_child_def Let_def eff_simps split: option.splits if_splits)

lemma deletion_reports_not_ready:
  assumes "w \<in> set (fst (reconcileDelete env object))" and "w = UpdateEnvStatusW o'"
  shows "\<not> conditionReadyForGeneration (pest_Conditions (pe_Status o')) ConditionReady g"
  using assms(1)
proof (cases rule: reconcileDelete_cases)
  case marked
  then show ?thesis using refusal_not_ready assms(2) by blast
next
  case (fencing object)
  then show ?thesis using fence_stack_log [of w] refusal_not_ready assms(2) by blast
next
  case (child object stack child)
  from delete_child_cases [OF child(4)] show ?thesis using refusal_not_ready [of env object w o' g] assms(2) by auto
next
  case (stack stack)
  then show ?thesis using delete_stack_cases assms(2) by blast
next
  case (release object)
  then show ?thesis using release_environment_log assms(2) by blast
qed

text \<open>
  An environment is reported Ready only while it is not being deleted, from a stack read at the end
  of the reconcile that is Ready for its own generation because its infrastructure is, and from a
  ResourceSet that is Ready for its own generation after the update this reconcile made to it.
\<close>
theorem environment_ready_is_current:
  assumes obj: "ee_get_environment env = Inr object"
    and w: "UpdateEnvStatusW o' \<in> set (fst (PlatformEnvironment_Reconcile env))"
    and ready: "conditionReadyForGeneration (pest_Conditions (pe_Status o')) ConditionReady g"
  shows "om_DeletionTimestamp (pe_Meta object) = None
     \<and> (\<exists>name stack. ee_get_stack_again env name = Inr stack \<and> infrastructure_ready stack)
     \<and> (\<exists>read child. ee_get_child env (resourceSetName (ee_sha env) (om_Name (pe_Meta object))) = Inr read
          \<and> (child = read \<or> (\<exists>spec. child = ee_stored_child env (read\<lparr>rset_Spec := spec\<rparr>)))
          \<and> conditionReadyForGeneration (rsst_Conditions (rset_Status child)) ConditionReady (om_Generation (rset_Meta child)))"
proof (cases "om_DeletionTimestamp (pe_Meta object) = None")
  case True
  from Reconcile_present_log [OF obj True w] have "UpdateEnvStatusW o' \<in> set (fst (reconcile_environment env object))" by auto
  then show ?thesis
  proof (cases rule: reconcile_environment_cases)
    case refused
    with refusal_not_ready ready show ?thesis by blast
  next
    case (class_mode cname)
    with class_mode_kinds [OF class_mode(2)] refusal_not_ready ready show ?thesis by auto
  next
    case (child target objects)
    from ensure_child_cases [OF child] have "refusal env object (UpdateEnvStatusW o')" by (auto simp: refusal_def)
    with refusal_not_ready ready show ?thesis by blast
  next
    case (follow name target objects child)
    from follow(3) show ?thesis
    proof (cases rule: follow_environment_cases)
      case (status found stack child' found' stack')
      from status(4) ready environment_status_ready have r: "found' \<and> infrastructure_ready stack'
        \<and> conditionReadyForGeneration (rsst_Conditions (rset_Status child')) ConditionReady (om_Generation (rset_Meta child'))"
        by force
      with status(3) read_stack_found [of "ee_get_stack_again env" name stack stack']
      have "ee_get_stack_again env name = Inr stack'" by simp
      with r True follow(2) update_child_result [OF status(2)] show ?thesis by metis
    qed simp
  qed
next
  case False
  with obj w have "UpdateEnvStatusW o' \<in> set (fst (reconcileDelete env object))"
    by (simp add: PlatformEnvironment_Reconcile_def Let_def)
  with deletion_reports_not_ready ready show ?thesis by blast
qed

subsection \<open>The order of a deletion\<close>

text \<open>A write that removes something: the ResourceSet, the stack, or the environment's finalizer.\<close>

fun removing :: "env_write \<Rightarrow> bool" where
  "removing (DeleteChildW c) = True"
| "removing (DeleteStackW s) = True"
| "removing (UpdateEnvW e) = (platformEnvironmentFinalizer \<notin> set (om_Finalizers (pe_Meta e)))"
| "removing w = False"

lemma class_stack_not_removing:
  assumes "w \<in> set (fst (ensure_class_stack env object class name target))"
  shows "\<not> removing w"
  using assms
  by (auto simp: ensure_class_stack_def create_class_stack_def update_class_stack_def eff_simps split: sum.splits if_splits)

lemma identity_not_removing:
  assumes "w \<in> set (fst (ensureRunnerIdentity env object class))"
  shows "\<not> removing w"
  using ensureRunnerIdentity_log [OF assms] by (cases w) auto

lemma refusal_not_removing: "refusal env object w \<Longrightarrow> \<not> removing w"
  by (auto simp: refusal_def)

lemma present_not_removing:
  assumes "w \<in> set (fst (reconcile_environment env object))"
  shows "\<not> removing w"
  using assms
proof (cases rule: reconcile_environment_cases)
  case (class_mode cname)
  from class_mode_cases [OF class_mode(2)] show ?thesis
    using class_stack_not_removing identity_not_removing refusal_not_removing by blast
next
  case (child target objects)
  from ensure_child_cases [OF child] show ?thesis by auto
next
  case (follow name target objects child)
  from follow(3) show ?thesis by (cases rule: follow_environment_cases) auto
qed (use refusal_not_removing in blast)

text \<open>
  C9. A deletion goes in order: the ResourceSet is deleted only when it is closed, and the stack absent
  or fenced with no Apply that may still be changing infrastructure; the stack only when the ResourceSet
  is gone and the infrastructure is reported removed; the environment's finalizer goes last, when both
  are gone. Nothing is removed while the environment is not being deleted.
\<close>
theorem deletion_is_ordered:
  assumes obj: "ee_get_environment env = Inr object"
    and w: "w \<in> set (fst (PlatformEnvironment_Reconcile env))" and r: "removing w"
  shows "om_DeletionTimestamp (pe_Meta object) \<noteq> None
     \<and> (\<forall>c. w = DeleteChildW c \<longrightarrow> rss_MutationFence (rset_Spec c) \<and> \<not> rss_RuntimeMutationAllowed (rset_Spec c)
          \<and> (stack_gone env object \<or> (\<exists>s. stack_fenced env object s \<and> \<not> hasActiveMutatingApply env (Some s)
               \<and> stackConditionReason (Some s) \<noteq> ''RecoveryRequired'')))
     \<and> (\<forall>s. w = DeleteStackW s \<longrightarrow> child_gone env object \<and> stack_fenced env object s
          \<and> stackConditionReason (Some s) = ''InfrastructureRemoved'')
     \<and> (\<forall>e. w = UpdateEnvW e \<longrightarrow> child_gone env object \<and> stack_gone env object)"
proof (cases "om_DeletionTimestamp (pe_Meta object) = None")
  case True
  from Reconcile_present_log [OF obj True w] r have "w \<in> set (fst (reconcile_environment env object))" by auto
  with present_not_removing r show ?thesis by blast
next
  case False
  with obj w have "w \<in> set (fst (reconcileDelete env object))" by (simp add: PlatformEnvironment_Reconcile_def Let_def)
  then show ?thesis
  proof (cases rule: reconcileDelete_cases)
    case marked
    with refusal_not_removing r show ?thesis by blast
  next
    case (fencing object')
    with fence_stack_log [OF fencing(3)] refusal_not_removing r show ?thesis by auto
  next
    case (child object' stack child)
    from delete_child_cases [OF child(4)] r refusal_not_removing
    have "w = DeleteChildW child \<and> rss_MutationFence (rset_Spec child) \<and> \<not> rss_RuntimeMutationAllowed (rset_Spec child)
       \<and> \<not> hasActiveMutatingApply env stack \<and> stackConditionReason stack \<noteq> ''RecoveryRequired''" by auto
    with False child(2) show ?thesis by (cases stack) auto
  next
    case (stack stack)
    from delete_stack_cases [OF stack(3)] r
    have "w = DeleteStackW stack \<and> stackConditionReason (Some stack) = ''InfrastructureRemoved''"
      by (auto simp: stackConditionReason_def condition_reason_def)
    with False stack show ?thesis by auto
  next
    case (release object')
    with release_environment_log [OF release(4)] False show ?thesis by auto
  qed
qed

subsection \<open>The quota of a namespace\<close>

text \<open>
  One List answer is a list of environments of one namespace with distinct names. Among them the
  not yet admitted ones are ranked by creation time and then name, which is a total order.
\<close>

definition live :: "platform_environment \<Rightarrow> bool" where
  "live e \<longleftrightarrow> om_DeletionTimestamp (pe_Meta e) = None"

definition one_namespace :: "platform_environment list \<Rightarrow> bool" where
  "one_namespace items \<longleftrightarrow> distinct (map (\<lambda>e. om_Name (pe_Meta e)) items)
     \<and> (\<exists>ns. \<forall>e \<in> set items. om_Namespace (pe_Meta e) = ns)"

lemma pending_before_trans: "pending_before a b \<Longrightarrow> pending_before b c \<Longrightarrow> pending_before a c"
  by (auto simp: pending_before_def)

lemma pending_before_total:
  "om_Name (pe_Meta a) \<noteq> om_Name (pe_Meta b) \<Longrightarrow> pending_before a b \<or> pending_before b a"
  by (auto simp: pending_before_def)

lemma one_namespace_distinct: "one_namespace items \<Longrightarrow> distinct items"
  by (simp add: one_namespace_def distinct_map)

lemma one_namespace_name:
  "one_namespace items \<Longrightarrow> a \<in> set items \<Longrightarrow> b \<in> set items \<Longrightarrow> om_Name (pe_Meta a) = om_Name (pe_Meta b) \<Longrightarrow> a = b"
  unfolding one_namespace_def distinct_map inj_on_def by blast

lemma other_live_in:
  assumes "one_namespace items" and "e \<in> set items" and "c \<in> set items"
  shows "other_live e c \<longleftrightarrow> c \<noteq> e \<and> live c"
  using assms one_namespace_name [OF assms(1,3,2)] by (auto simp: other_live_def live_def one_namespace_def)

lemma admitted_before_card:
  assumes "one_namespace items" and "length items < 2 ^ 31" and "e \<in> set items"
    and "\<not> environmentAlreadyAdmitted (Some e)"
  shows "admitted_before e items = int (card {c \<in> set items. live c \<and>
     (environmentAlreadyAdmitted (Some c) \<or> c \<noteq> e \<and> pending_before e c)})"
proof -
  let ?l = "filter (counts_first e) items"
  have s: "set ?l = {c \<in> set items. live c \<and> (environmentAlreadyAdmitted (Some c) \<or> c \<noteq> e \<and> pending_before e c)}"
    using other_live_in [OF assms(1,3)] assms(4) by (auto simp: counts_first_def)
  have "distinct ?l" using one_namespace_distinct [OF assms(1)] by simp
  then have "card (set ?l) = length ?l" by (rule distinct_card)
  moreover have "length ?l < 2 ^ 31" using assms(2) length_filter_le [of "counts_first e" items] by linarith
  then have "to_int32 (int (length ?l)) = int (length ?l)" by (intro to_int32_id) auto
  ultimately show ?thesis by (simp add: admitted_before_def flip: s)
qed

lemma last_pending:
  assumes "finite P" and "P \<noteq> {}" and "\<And>a b. a \<in> P \<Longrightarrow> b \<in> P \<Longrightarrow> a \<noteq> b \<Longrightarrow> om_Name (pe_Meta a) \<noteq> om_Name (pe_Meta b)"
  shows "\<exists>z \<in> P. \<forall>c \<in> P - {z}. pending_before z c"
  using assms
proof (induction rule: finite_ne_induct)
  case (insert x F)
  then obtain z where z: "z \<in> F" "\<forall>c \<in> F - {z}. pending_before z c" by blast
  have "om_Name (pe_Meta x) \<noteq> om_Name (pe_Meta z)" using insert.prems [of x z] insert.hyps z by auto
  with pending_before_total consider "pending_before z x" | "pending_before x z" by blast
  then show ?case
  proof cases
    case 1
    with z show ?thesis by (intro bexI [of _ z]) auto
  next
    case 2
    with z pending_before_trans have "\<forall>c \<in> F. pending_before x c" by (metis DiffI singletonD)
    with insert.hyps show ?thesis by (intro bexI [of _ x]) auto
  qed
qed simp

lemma policy_within_limit:
  assumes "ee_get_namespace env = Inr annotations" and "environment_limit annotations class = Inr limit" and "0 < limit"
    and "ee_environments env = Inr items"
    and "validateTenantPolicy env e class = None" and "\<not> environmentAlreadyAdmitted (Some e)"
  shows "admitted_before e items < limit"
  using assms by (auto simp: validateTenantPolicy_def Let_def split: if_splits)

text \<open>
  C36. The quota of a namespace holds for all environments decided on one list together: those already
  admitted and those the policy now accepts are at most the limit, or only those already admitted.
\<close>
theorem quota_is_respected:
  assumes ns: "ee_get_namespace env = Inr annotations" and l: "environment_limit annotations class = Inr limit" "0 < limit"
    and items: "ee_environments env = Inr items" "one_namespace items" "length items < 2 ^ 31"
  shows "int (card {e \<in> set items. live e \<and> (environmentAlreadyAdmitted (Some e) \<or> validateTenantPolicy env e class = None)})
     \<le> max limit (int (card {e \<in> set items. live e \<and> environmentAlreadyAdmitted (Some e)}))"
proof -
  let ?A = "{e \<in> set items. live e \<and> environmentAlreadyAdmitted (Some e)}"
  let ?P = "{e \<in> set items. live e \<and> \<not> environmentAlreadyAdmitted (Some e) \<and> validateTenantPolicy env e class = None}"
  let ?U = "{e \<in> set items. live e \<and> (environmentAlreadyAdmitted (Some e) \<or> validateTenantPolicy env e class = None)}"
  have u: "?U = ?A \<union> ?P" "?A \<inter> ?P = {}" "finite ?A" "finite ?P" by auto
  show ?thesis
  proof (cases "?P = {}")
    case True
    with u(1) have "?U = ?A" by blast
    then show ?thesis by simp
  next
    case False
    have "\<And>a b. a \<in> ?P \<Longrightarrow> b \<in> ?P \<Longrightarrow> a \<noteq> b \<Longrightarrow> om_Name (pe_Meta a) \<noteq> om_Name (pe_Meta b)"
      using one_namespace_name [OF items(2)] by blast
    from last_pending [OF u(4) False this] obtain z where z: "z \<in> ?P" "\<forall>c \<in> ?P - {z}. pending_before z c" by blast
    let ?B = "{c \<in> set items. live c \<and> (environmentAlreadyAdmitted (Some c) \<or> c \<noteq> z \<and> pending_before z c)}"
    have "admitted_before z items = int (card ?B)" using z by (intro admitted_before_card [OF items(2,3)]) auto
    moreover have "admitted_before z items < limit" using z by (intro policy_within_limit [OF ns l items(1)]) auto
    moreover have "?U - {z} \<subseteq> ?B" using z by auto
    then have "card (?U - {z}) \<le> card ?B" by (intro card_mono) auto
    moreover have "card ?U = Suc (card (?U - {z}))" using z by (intro card.remove) auto
    ultimately show ?thesis by linarith
  qed
qed

subsection \<open>Instances\<close>

text \<open>A legacy environment with a ready stack, its ResourceSet, and the same environment under deletion.\<close>

definition legacy_environment :: platform_environment where
  "legacy_environment = sample_environment\<lparr>
     pe_Meta := (pe_Meta sample_environment)\<lparr>om_Generation := 1, om_Finalizers := [platformEnvironmentFinalizer]\<rparr>,
     pe_Spec := (pe_Spec sample_environment)\<lparr>pes_ClassRef := None, pes_InfraStackRef := ''s'',
       pes_Target := zero_target_reference\<lparr>tr_Provider := ''kind'', tr_ClusterName := ''k''\<rparr>\<rparr>\<rparr>"

definition ready_now :: "string \<Rightarrow> condition" where
  "ready_now reason = \<lparr>c_Type = ConditionReady, c_Status = ConditionTrue, c_ObservedGeneration = 1, c_Reason = reason,
     c_Message = [], c_LastTransitionTime = 0\<rparr>"

definition stack_with :: "string \<Rightarrow> infra_stack" where
  "stack_with reason = zero_infra_stack\<lparr>is_Meta := empty_meta\<lparr>om_Name := ''s'', om_Generation := 1\<rparr>,
     is_Spec := zero_infra_stack_spec\<lparr>iss_DesiredState := DesiredStatePresent\<rparr>,
     is_Status := zero_infra_stack_status\<lparr>isst_Conditions := [ready_now reason]\<rparr>\<rparr>"

definition removed_infra :: infra_stack where
  "removed_infra = (stack_with ''InfrastructureRemoved'')\<lparr>is_Spec := zero_infra_stack_spec\<lparr>
     iss_DesiredState := DesiredStateDestroy, iss_MutationFence := True\<rparr>\<rparr>"

definition owned_child :: resource_set where
  "owned_child = (buildResourceSetForTarget legacy_environment ''e-resources'' (pes_Target (pe_Spec legacy_environment)) [])
     \<lparr>rset_Meta := empty_meta\<lparr>om_Name := ''e-resources'', om_Generation := 1, om_OwnerReferences :=
        [\<lparr>or_Kind = ''PlatformEnvironment'', or_Name = ''e'', or_UID = ''eu'', or_Controller = Some True\<rparr>]\<rparr>,
      rset_Status := zero_resource_set_status\<lparr>rsst_Conditions := [ready_now ''ResourcesReady'']\<rparr>\<rparr>"

definition environment_env_of ::
  "platform_environment \<Rightarrow> platform_environment list \<Rightarrow> gerr + infra_stack \<Rightarrow> gerr + resource_set \<Rightarrow> environment_env" where
  "environment_env_of object items stack child = \<lparr>ee_now = 5, ee_sha = (\<lambda>s. s), ee_get_environment = Inr object,
     ee_get_class = (\<lambda>_. Inr pinned_class), ee_get_namespace = Inr [], ee_environments = Inr items,
     ee_get_account = (\<lambda>_. Inl (ApiErr NotFound [])), ee_get_role = (\<lambda>_. Inl (ApiErr NotFound [])),
     ee_get_binding = (\<lambda>_. Inl (ApiErr NotFound [])), ee_get_class_stack = (\<lambda>_. stack), ee_get_stack = (\<lambda>_. stack),
     ee_get_stack_again = (\<lambda>_. stack), ee_get_child = (\<lambda>_. child), ee_runs = Inr [],
     ee_set_owner = (\<lambda>_ _ m. Inr m), ee_stored_child = (\<lambda>c. c), ee_answer = (\<lambda>_. None)\<rparr>"

definition ready_world :: environment_env where
  "ready_world = environment_env_of legacy_environment [] (Inr (stack_with ''InfrastructureReady'')) (Inr owned_child)"

lemma environment_env_of_fields [simp]:
  "ee_get_environment (environment_env_of object items stack child) = Inr object"
  "ee_get_child (environment_env_of object items stack child) name = child"
  "ee_get_stack_again (environment_env_of object items stack child) name = stack"
  "ee_get_namespace (environment_env_of object items stack child) = Inr []"
  "ee_environments (environment_env_of object items stack child) = Inr items"
  by (simp_all add: environment_env_of_def)

lemma ready_world_fields [simp]:
  "ee_sha ready_world = (\<lambda>s. s)" "ee_get_environment ready_world = Inr legacy_environment"
  "ee_get_stack ready_world name = Inr (stack_with ''InfrastructureReady'')"
  "ee_get_stack_again ready_world name = Inr (stack_with ''InfrastructureReady'')"
  "ee_get_child ready_world name = Inr owned_child" "ee_stored_child ready_world c = c" "ee_answer ready_world w = None"
  by (simp_all add: ready_world_def environment_env_of_def)

lemma ready_world_plan:
  "environment_plan_of ready_world legacy_environment = ret (Inr (''s'', pes_Target (pe_Spec legacy_environment), []))"
  by (simp add: environment_plan_of_def legacy_environment_def)

lemma ready_world_child:
  "ensure_child ready_world legacy_environment target objects = ret (Inr owned_child)"
proof -
  have "\<not> hasForeignController (rset_Meta owned_child) (pe_Meta legacy_environment) ''PlatformEnvironment''"
    "ownedBy (rset_Meta owned_child) (pe_Meta legacy_environment) ''PlatformEnvironment''" by code_simp+
  then show ?thesis by (simp add: ensure_child_def Let_def)
qed

lemma ready_world_follows:
  "fst (PlatformEnvironment_Reconcile ready_world) =
     fst (follow_environment ready_world legacy_environment (''s'', pes_Target (pe_Spec legacy_environment), []) owned_child)"
proof -
  have "om_DeletionTimestamp (pe_Meta legacy_environment) = None"
    "contains_string (om_Finalizers (pe_Meta legacy_environment)) platformEnvironmentFinalizer"
    "validatePlatformEnvironmentSpec legacy_environment = None" by code_simp+
  then show ?thesis
    by (simp add: PlatformEnvironment_Reconcile_def Let_def reconcile_environment_def ready_world_plan ready_world_child
        go_on_def eff_bind_def)
qed

lemma ready_stack_facts:
  "infrastructure_ready (stack_with ''InfrastructureReady'')"
  "iss_DesiredState (is_Spec (stack_with ''InfrastructureReady'')) = DesiredStatePresent"
  "\<not> iss_MutationFence (is_Spec (stack_with ''InfrastructureReady''))"
  "tr_Provider (pes_Target (pe_Spec legacy_environment)) \<noteq> ''aws''"
  "\<not> rss_RuntimeMutationAllowed (rset_Spec owned_child)"
  "conditionReadyForGeneration (rsst_Conditions (rset_Status owned_child)) ConditionReady (om_Generation (rset_Meta owned_child))"
  "pest_InfraStackRef (pe_Status legacy_environment) = None" "om_Generation (pe_Meta legacy_environment) = 1"
  by code_simp+

lemma ready_world_writes:
  "\<exists>c. PutChildW c \<in> set (fst (PlatformEnvironment_Reconcile ready_world)) \<and> rss_RuntimeMutationAllowed (rset_Spec c)"
  "\<exists>e. UpdateEnvStatusW e \<in> set (fst (PlatformEnvironment_Reconcile ready_world))
     \<and> conditionReadyForGeneration (pest_Conditions (pe_Status e)) ConditionReady 1"
proof -
  let ?t = "pes_Target (pe_Spec legacy_environment)" and ?s = "stack_with ''InfrastructureReady''"
  let ?spec = "desired_child_spec (\<lambda>s. s) ?t [] True ?s (rset_Spec owned_child)"
  let ?c = "owned_child\<lparr>rset_Spec := ?spec\<rparr>"
  let ?st = "environment_status ready_world legacy_environment ''s'' ?t True ?s ?c"
  have allowed: "rss_RuntimeMutationAllowed ?spec" using ready_stack_facts(1-4) by (simp add: desired_child_spec_def Let_def)
  then have differs: "rset_Spec owned_child \<noteq> ?spec" using ready_stack_facts(5) by metis
  have "pest_InfraStackRef ?st = Some ''s''"
    by (simp add: environment_status_def with_environment_condition_def Let_def split: prod.splits)
  then have changes: "pe_Status legacy_environment \<noteq> ?st" using ready_stack_facts(7) by auto
  have ready: "conditionReadyForGeneration (pest_Conditions ?st) ConditionReady 1"
    using ready_stack_facts(1,6,8)
    by (simp add: environment_status_def environment_condition_def Let_def split: prod.splits)
  have "fst (PlatformEnvironment_Reconcile ready_world) = [PutChildW ?c, UpdateEnvStatusW (legacy_environment\<lparr>pe_Status := ?st\<rparr>)]"
    using differs changes
    by (simp add: ready_world_follows follow_environment_def read_stack_def update_child_def report_environment_def
        eff_bind_def perform_def Let_def)
  with allowed ready
  show "\<exists>c. PutChildW c \<in> set (fst (PlatformEnvironment_Reconcile ready_world)) \<and> rss_RuntimeMutationAllowed (rset_Spec c)"
    "\<exists>e. UpdateEnvStatusW e \<in> set (fst (PlatformEnvironment_Reconcile ready_world))
       \<and> conditionReadyForGeneration (pest_Conditions (pe_Status e)) ConditionReady 1" by auto
qed

theorem runtime_opens_on_ready_stack_witness:
  "\<exists>c. PutChildW c \<in> set (fst (PlatformEnvironment_Reconcile ready_world)) \<and> opens_runtime ready_world (rset_Spec c)"
proof -
  obtain c where c: "PutChildW c \<in> set (fst (PlatformEnvironment_Reconcile ready_world))"
    "rss_RuntimeMutationAllowed (rset_Spec c)" using ready_world_writes(1) by blast
  have o: "ee_get_environment ready_world = Inr legacy_environment" by (simp add: ready_world_def)
  have "\<not> rss_RuntimeMutationAllowed (rset_Spec owned_child)" by code_simp
  with runtime_opens_on_ready_stack [OF o c(1) _ c(2)] c(1) c(2) show ?thesis by (auto simp: ready_world_def)
qed

theorem environment_ready_is_current_witness:
  "\<exists>stack. ee_get_stack_again ready_world ''s'' = Inr stack \<and> infrastructure_ready stack"
proof -
  obtain e where e: "UpdateEnvStatusW e \<in> set (fst (PlatformEnvironment_Reconcile ready_world))"
    "conditionReadyForGeneration (pest_Conditions (pe_Status e)) ConditionReady 1" using ready_world_writes(2) by blast
  have o: "ee_get_environment ready_world = Inr legacy_environment" by (simp add: ready_world_def)
  from environment_ready_is_current [OF o e] show ?thesis by (auto simp: ready_world_def)
qed

definition deleting_world :: environment_env where
  "deleting_world = environment_env_of
     (legacy_environment\<lparr>pe_Meta := (pe_Meta legacy_environment)\<lparr>om_DeletionTimestamp := Some 1\<rparr>\<rparr>) []
     (Inr removed_infra) (Inl (ApiErr NotFound []))"

theorem deletion_is_ordered_witness:
  "\<exists>s. DeleteStackW s \<in> set (fst (PlatformEnvironment_Reconcile deleting_world))
     \<and> stackConditionReason (Some s) = ''InfrastructureRemoved''"
proof -
  let ?o = "legacy_environment\<lparr>pe_Meta := (pe_Meta legacy_environment)\<lparr>om_DeletionTimestamp := Some 1\<rparr>\<rparr>"
  have o: "ee_get_environment deleting_world = Inr ?o" by (simp add: deleting_world_def)
  have "list_ex (\<lambda>w. w = DeleteStackW removed_infra) (fst (PlatformEnvironment_Reconcile deleting_world))" by code_simp
  then have w: "DeleteStackW removed_infra \<in> set (fst (PlatformEnvironment_Reconcile deleting_world))"
    by (auto simp: list_ex_iff)
  from deletion_is_ordered [OF o w] w show ?thesis by auto
qed

text \<open>Three environments of one namespace under the limit of one: the oldest alone is admitted.\<close>

definition tenant :: "string \<Rightarrow> time \<Rightarrow> platform_environment" where
  "tenant name t = sample_environment\<lparr>pe_Meta := (pe_Meta sample_environment)\<lparr>om_Name := name, om_CreationTimestamp := t\<rparr>\<rparr>"

theorem quota_is_respected_witness:
  "let items = [tenant ''a'' 2, tenant ''b'' 1, tenant ''d'' 2];
       env = environment_env_of (tenant ''a'' 2) items (Inl (ApiErr NotFound [])) (Inl (ApiErr NotFound []))
   in int (card {e \<in> set items. live e \<and> (environmentAlreadyAdmitted (Some e) \<or> validateTenantPolicy env e pinned_class = None)})
        \<le> max 1 (int (card {e \<in> set items. live e \<and> environmentAlreadyAdmitted (Some e)}))
      \<and> validateTenantPolicy env (tenant ''b'' 1) pinned_class = None"
proof -
  let ?i = "[tenant ''a'' 2, tenant ''b'' 1, tenant ''d'' 2]"
  let ?e = "environment_env_of (tenant ''a'' 2) ?i (Inl (ApiErr NotFound [])) (Inl (ApiErr NotFound []))"
  have l: "environment_limit [] pinned_class = Inr 1" by code_simp
  have o: "one_namespace ?i" by (simp add: one_namespace_def tenant_def)
  have "validateTenantPolicy ?e (tenant ''b'' 1) pinned_class = None" by code_simp
  with quota_is_respected [of ?e "[]" pinned_class 1 ?i] l o show ?thesis by (simp add: Let_def)
qed

end
