(* ===== verification/Runtime.thy ===== *)
theory Runtime
  imports ApiTypes
begin

section \<open>The runtime objects of an environment: internal/runtime\<close>

text \<open>
  Server-side apply of the runtime objects in waves, their inventory, their readiness and the checks
  before a prune (bootstrap.go, runtime.go, readiness.go). An unstructured object is the record of the
  fields the code reads or writes; in \<open>un_Conditions\<close> an entry that is not a map, or whose type or status
  is missing or no string, has the empty string there, which matches nothing the code asks for.

  The target cluster is an arbitrary function of the requests sent so far: \<open>target_cluster\<close> answers each
  request from the whole history, newest first, so other writers may act between any two of them.
\<close>

record unstructured =
  un_APIVersion :: string
  un_Kind :: string
  un_Namespace :: string
  un_Name :: string
  un_UID :: string
  un_ResourceVersion :: string
  un_Generation :: int
  un_DeletionTimestamp :: "time option"
  un_Labels :: gomap
  un_HasData :: bool
  un_HasStringData :: bool
  un_Phase :: "gerr + string"
  un_ObservedGeneration :: int
  un_ReadyReplicas :: int
  un_Replicas :: int
  un_CurrentRevision :: string
  un_UpdateRevision :: string
  un_Conditions :: "gerr + (string \<times> string) list option"

record gvr =
  gvr_Group :: string
  gvr_Version :: string
  gvr_Resource :: string

record bootstrap_object =
  bo_GVR :: gvr
  bo_Object :: unstructured
  bo_Wave :: int
  bo_ReadinessPolicy :: string
  bo_DeletionPolicy :: string
  bo_OwnershipID :: string

record runtime_target =
  rt_Provider :: string
  rt_Account :: string
  rt_Region :: string
  rt_ClusterName :: string
  rt_ClusterID :: string
  rt_ClusterARN :: string
  rt_IncarnationID :: string

text \<open>An InventoryItem has the fields of the API type InventoryItemStatus, in their order.\<close>

type_synonym inventory_item = inventory_item_status

definition managedByLabel :: string where "managedByLabel = ''platform.example.io/managed-by''"

definition ownershipIDLabel :: string where "ownershipIDLabel = ''platform.example.io/ownership-id''"

subsection \<open>Sessions with the target cluster\<close>

datatype target_request =
    GetR gvr string string
  | ApplyR gvr unstructured string
  | DeleteR gvr string string string string

type_synonym history = "target_request list"

record target_cluster =
  tc_get :: "history \<Rightarrow> gvr \<Rightarrow> string \<Rightarrow> string \<Rightarrow> gerr + unstructured"
  tc_apply :: "history \<Rightarrow> gvr \<Rightarrow> unstructured \<Rightarrow> string \<Rightarrow> gerr + unstructured"
  tc_delete :: "history \<Rightarrow> gvr \<Rightarrow> string \<Rightarrow> string \<Rightarrow> string \<Rightarrow> string \<Rightarrow> gerr option"

type_synonym 'a session = "(history, 'a) stateful"

definition s_get :: "target_cluster \<Rightarrow> gvr \<Rightarrow> string \<Rightarrow> string \<Rightarrow> unstructured session" where
  "s_get c r ns name = (\<lambda>h. (tc_get c h r ns name, GetR r ns name # h))"

definition s_apply :: "target_cluster \<Rightarrow> gvr \<Rightarrow> unstructured \<Rightarrow> string \<Rightarrow> unstructured session" where
  "s_apply c r object fm = (\<lambda>h. (tc_apply c h r object fm, ApplyR r object fm # h))"

definition s_delete :: "target_cluster \<Rightarrow> gvr \<Rightarrow> string \<Rightarrow> string \<Rightarrow> string \<Rightarrow> string \<Rightarrow> unit session" where
  "s_delete c r ns name uid version = (\<lambda>h.
     ((case tc_delete c h r ns name uid version of Some e \<Rightarrow> Inl e | None \<Rightarrow> Inr ()), DeleteR r ns name uid version # h))"

subsection \<open>runtime.go\<close>

definition runtime_target_json :: "runtime_target \<Rightarrow> json" where
  "runtime_target_json t = jobj [(''provider'', Some (JStr (rt_Provider t))), (''account'', omit_str (rt_Account t)),
     (''region'', omit_str (rt_Region t)), (''clusterName'', Some (JStr (rt_ClusterName t))),
     (''clusterID'', omit_str (rt_ClusterID t)), (''clusterARN'', omit_str (rt_ClusterARN t)),
     (''incarnationID'', omit_str (rt_IncarnationID t))]"

definition runtime_target_Digest :: "hash \<Rightarrow> runtime_target \<Rightarrow> string" where
  "runtime_target_Digest sha t = Digest sha (runtime_target_json t)"

text \<open>GroupVersionKind of an unstructured object: empty when the apiVersion has more than one slash.\<close>

definition gvk :: "unstructured \<Rightarrow> string \<times> string \<times> string" where
  "gvk object =
     (case split_on (CHR ''/'') (un_APIVersion object) of
        [v] \<Rightarrow> ([], v, un_Kind object)
      | [g, v] \<Rightarrow> if un_APIVersion object = ''/'' then ([], [], un_Kind object) else (g, v, un_Kind object)
      | _ \<Rightarrow> ([], [], []))"

definition ValidateRuntimeObject :: "unstructured option \<Rightarrow> gerr option" where
  "ValidateRuntimeObject object =
     (case object of
        None \<Rightarrow> Some (Err ''runtime object kind and name are required'')
      | Some u \<Rightarrow> first_error
          [(un_Name u = [] \<or> snd (snd (gvk u)) = [], ''runtime object kind and name are required''),
           (un_Kind u = ''Secret'' \<and> un_HasData u, ''inline Secret data is forbidden''),
           (un_Kind u = ''Secret'' \<and> un_HasStringData u, ''inline Secret stringData is forbidden'')])"

definition applied_labels :: "string \<Rightarrow> gomap \<Rightarrow> gomap" where
  "applied_labels fieldManager labels =
     (let l = gset labels managedByLabel ''platform-control-plane''
      in if glookup l ownershipIDLabel = [] then gset l ownershipIDLabel fieldManager else l)"

definition runtime_Apply :: "target_cluster option \<Rightarrow> gvr \<Rightarrow> unstructured \<Rightarrow> string \<Rightarrow> unstructured session" where
  "runtime_Apply client r object fieldManager =
     (case client of
        None \<Rightarrow> s_fail (Err ''target dynamic client is required'')
      | Some c \<Rightarrow>
          (case ValidateRuntimeObject (Some object) of
             Some e \<Rightarrow> s_fail e
           | None \<Rightarrow>
               if fieldManager = [] then s_fail (Err ''field manager is required'')
               else s_apply c r (object\<lparr>un_Labels := applied_labels fieldManager (un_Labels object)\<rparr>) fieldManager))"

definition InventoryFor :: "hash \<Rightarrow> unstructured option \<Rightarrow> runtime_target \<Rightarrow> gerr + inventory_item" where
  "InventoryFor sha object target =
     (case object of
        None \<Rightarrow> Inl (Err ''inventory requires object name and UID'')
      | Some u \<Rightarrow>
          if un_Name u = [] \<or> un_UID u = [] then Inl (Err ''inventory requires object name and UID'')
          else (let (g, v, k) = gvk u in
            Inr \<lparr>iis_TargetIdentityDigest = runtime_target_Digest sha target, iis_Group = g, iis_Version = v,
              iis_Resource = [], iis_Kind = k, iis_Namespace = un_Namespace u, iis_Name = un_Name u, iis_UID = un_UID u,
              iis_OwnershipID = [], iis_ReadinessPolicy = [], iis_DeletionPolicy = []\<rparr>))"

definition IsProtected :: "inventory_item \<Rightarrow> bool" where
  "IsProtected item \<longleftrightarrow> iis_DeletionPolicy item = ''Retain''
     \<or> iis_Kind item \<in> {''Namespace'', ''PersistentVolumeClaim'', ''CustomResourceDefinition''}
     \<or> equal_fold (iis_Namespace item) ''kube-system''"

definition ValidatePrune :: "hash \<Rightarrow> inventory_item \<Rightarrow> runtime_target \<Rightarrow> unstructured option \<Rightarrow> gerr option" where
  "ValidatePrune sha item target object =
     (let labels = (case object of None \<Rightarrow> [] | Some u \<Rightarrow> un_Labels u) in
      first_error
        [(iis_TargetIdentityDigest item \<noteq> runtime_target_Digest sha target, ''prune target identity mismatch''),
         ((case object of None \<Rightarrow> True | Some u \<Rightarrow> un_UID u \<noteq> iis_UID item), ''prune UID mismatch''),
         (glookup labels managedByLabel \<noteq> ''platform-control-plane'', ''prune ownership label missing''),
         (iis_OwnershipID item \<noteq> [] \<and> glookup labels ownershipIDLabel \<noteq> iis_OwnershipID item, ''prune ownership identity mismatch''),
         (IsProtected item, ''protected resource cannot be pruned'')])"

subsection \<open>readiness.go\<close>

text \<open>The ready flag, the reason and the error of Go's three results.\<close>

type_synonym readiness = "bool \<times> string \<times> gerr option"

definition conditionTrue :: "unstructured \<Rightarrow> string \<Rightarrow> readiness" where
  "conditionTrue object conditionType =
     (case un_Conditions object of
        Inl e \<Rightarrow> (False, ''invalid conditions'', Some e)
      | Inr None \<Rightarrow> (False, ''condition not reported'', None)
      | Inr (Some conditions) \<Rightarrow>
          (case find (\<lambda>c. fst c = conditionType) conditions of
             None \<Rightarrow> (False, conditionType @ '' condition not found'', None)
           | Some c \<Rightarrow> if snd c = ''True'' then (True, conditionType @ ''=True'', None)
                       else (False, conditionType @ '' is not True'', None)))"

definition ready_Namespace :: "unstructured \<Rightarrow> readiness" where
  "ready_Namespace u =
     (case un_Phase u of
        Inl e \<Rightarrow> (False, ''invalid namespace phase'', Some e)
      | Inr phase \<Rightarrow>
          if un_DeletionTimestamp u \<noteq> None then (False, ''namespace is being deleted'', None)
          else if phase \<noteq> ''Active'' then (False, ''namespace is not Active'', None)
          else (True, ''Namespace Active'', None))"

definition ready_StatefulSet :: "unstructured \<Rightarrow> readiness" where
  "ready_StatefulSet u =
     (if un_ObservedGeneration u < un_Generation u \<or> un_ReadyReplicas u < un_Replicas u
         \<or> un_CurrentRevision u = [] \<or> un_CurrentRevision u \<noteq> un_UpdateRevision u
      then (False, ''StatefulSet replicas or revision is not ready'', None)
      else (True, ''StatefulSet ready'', None))"

definition ready_ValkeyCluster :: "unstructured \<Rightarrow> readiness" where
  "ready_ValkeyCluster u =
     (if un_ObservedGeneration u < un_Generation u then (False, ''observedGeneration is behind'', None)
      else (case conditionTrue u ''Available'' of (ready, reason, err) \<Rightarrow>
        if ready \<or> err \<noteq> None then (ready, reason, err)
        else (case conditionTrue u ''Degraded'' of (degraded, reason', err') \<Rightarrow>
          if err' \<noteq> None then (False, reason', err')
          else if degraded then (False, ''ValkeyCluster is Degraded'', None)
          else (False, ''Available condition not reported'', None))))"

definition runtime_Ready :: "unstructured option \<Rightarrow> readiness" where
  "runtime_Ready object =
     (case object of
        None \<Rightarrow> (False, ''object missing'', Some (Err ''object is required''))
      | Some u \<Rightarrow>
          (let kind = un_Kind u in
           if kind = ''Namespace'' then ready_Namespace u
           else if kind = ''Service'' then
             (if un_DeletionTimestamp u \<noteq> None then (False, ''service is being deleted'', None) else (True, ''Service exists'', None))
           else if kind = ''Deployment'' then
             (if un_ObservedGeneration u < un_Generation u then (False, ''observedGeneration is behind'', None)
              else conditionTrue u ''Available'')
           else if kind = ''StatefulSet'' then ready_StatefulSet u
           else if kind = ''Job'' then conditionTrue u ''Complete''
           else if kind = ''CustomResourceDefinition'' then conditionTrue u ''Established''
           else if kind = ''ValkeyCluster'' then ready_ValkeyCluster u
           else (False, ''readiness adapter unavailable'', None)))"

subsection \<open>bootstrap.go\<close>

definition orderBootstrapObjects :: "bootstrap_object list \<Rightarrow> bootstrap_object list" where
  "orderBootstrapObjects objects = sort_key bo_Wave objects"

definition object_name :: "unstructured \<Rightarrow> string" where
  "object_name u = un_Kind u @ ''/'' @ un_Name u"

text \<open>The object as it is sent: with its ownership label.\<close>

definition labelled :: "bootstrap_object \<Rightarrow> unstructured" where
  "labelled item = (let u = bo_Object item in
     u\<lparr>un_Labels := gset (un_Labels u) ownershipIDLabel (bo_OwnershipID item)\<rparr>)"

definition inventory_entry :: "bootstrap_object \<Rightarrow> inventory_item \<Rightarrow> inventory_item" where
  "inventory_entry item entry = entry\<lparr>iis_Resource := gvr_Resource (bo_GVR item), iis_OwnershipID := bo_OwnershipID item,
     iis_ReadinessPolicy := bo_ReadinessPolicy item, iis_DeletionPolicy := bo_DeletionPolicy item\<rparr>"

text \<open>The two loops over one wave.\<close>

definition apply_item ::
  "hash \<Rightarrow> target_cluster \<Rightarrow> string \<Rightarrow> runtime_target \<Rightarrow> bootstrap_object \<Rightarrow> inventory_item session" where
  "apply_item sha client fieldManager target item =
     s_case (runtime_Apply (Some client) (bo_GVR item) (labelled item) fieldManager)
       (\<lambda>e. s_fail (Wrap (''apply '' @ object_name (bo_Object item)) e))
       (\<lambda>applied. case InventoryFor sha (Some applied) target of
          Inl e \<Rightarrow> s_fail e | Inr entry \<Rightarrow> s_ret (inventory_entry item entry))"

fun apply_items ::
  "hash \<Rightarrow> target_cluster \<Rightarrow> string \<Rightarrow> runtime_target \<Rightarrow> bootstrap_object list \<Rightarrow> inventory_item list session" where
  "apply_items sha client fieldManager target [] = s_ret []"
| "apply_items sha client fieldManager target (item # items) =
     s_bind (apply_item sha client fieldManager target item) (\<lambda>entry.
       s_bind (apply_items sha client fieldManager target items) (\<lambda>entries. s_ret (entry # entries)))"

definition check_item :: "target_cluster \<Rightarrow> bootstrap_object \<Rightarrow> unit session" where
  "check_item client item = (let u = bo_Object item in
     if bo_ReadinessPolicy item \<noteq> ''RequireReady'' then s_ret ()
     else s_case (s_get client (bo_GVR item) (un_Namespace u) (un_Name u))
       (\<lambda>e. s_fail (Wrap (''readiness read '' @ object_name u) e))
       (\<lambda>observed. case runtime_Ready (Some observed) of (ready, reason, err) \<Rightarrow>
          (case err of Some e \<Rightarrow> s_fail e
           | None \<Rightarrow> if ready then s_ret ()
                     else s_fail (Err (''wave '' @ show_int (bo_Wave item) @ '' object '' @ object_name u @ '' is not ready: '' @ reason)))))"

fun check_items :: "target_cluster \<Rightarrow> bootstrap_object list \<Rightarrow> unit session" where
  "check_items client [] = s_ret ()"
| "check_items client (item # items) = s_bind (check_item client item) (\<lambda>_. check_items client items)"

text \<open>The outer loop: the objects of the next wave, then the rest.\<close>

function apply_waves ::
  "hash \<Rightarrow> target_cluster \<Rightarrow> string \<Rightarrow> runtime_target \<Rightarrow> bootstrap_object list \<Rightarrow> inventory_item list session" where
  "apply_waves sha client fieldManager target [] = s_ret []"
| "apply_waves sha client fieldManager target (item # items) =
     (let wave = item # takeWhile (\<lambda>i. bo_Wave i = bo_Wave item) items;
          rest = dropWhile (\<lambda>i. bo_Wave i = bo_Wave item) items
      in s_bind (apply_items sha client fieldManager target wave) (\<lambda>entries.
           s_bind (check_items client wave) (\<lambda>_.
             s_bind (apply_waves sha client fieldManager target rest) (\<lambda>more. s_ret (entries @ more)))))"
  by pat_completeness auto
termination
  by (relation "measure (\<lambda>(sha, client, fm, target, items). length items)")
     (auto simp: le_imp_less_Suc length_dropWhile_le)

definition ApplyBootstrap ::
  "hash \<Rightarrow> target_cluster \<Rightarrow> bootstrap_object list \<Rightarrow> string \<Rightarrow> runtime_target \<Rightarrow> inventory_item list session" where
  "ApplyBootstrap sha client objects fieldManager target =
     (if objects = [] then s_fail (Err ''bootstrap requires at least one object'')
      else apply_waves sha client fieldManager target (orderBootstrapObjects objects))"

end
