(* ===== verification/ResourceCtl.thy ===== *)
theory ResourceCtl
  imports EnvClass Runtime
begin

section \<open>The ResourceSet controller: resourceset\_controller.go\<close>

text \<open>
  One reconcile of a ResourceSet: it validates the target binding, applies the runtime objects, prunes what
  is no longer declared, reads the readiness and records the inventory; a deletion prunes the whole
  inventory before the finalizer goes. The management cluster is the record \<open>resource_env\<close> and the log of an
  effect; the target cluster is a session. A status update keeps what was sent. Decoding the JSON of a
  runtime object is a field of the environment; its metrics are left out.
\<close>

datatype resource_write =
    UpdateResourceSetW resource_set
  | UpdateResourceSetStatusW resource_set

record resource_env =
  xe_now :: time
  xe_sha :: hash
  xe_get :: "gerr + resource_set"
  xe_resolver :: "(runtime_target_identity \<Rightarrow> target_connection_profile \<Rightarrow> gerr + target_cluster option) option"
  xe_client :: "target_cluster option"
  xe_decode :: "string \<Rightarrow> gerr + unstructured"
  xe_answer :: "resource_write \<Rightarrow> gerr option"

text \<open>A handler talks to the target cluster and then writes to the management cluster.\<close>

type_synonym resource_eff = "history \<Rightarrow> (resource_write, ctrl_result) eff \<times> history"

definition locally :: "(resource_write, ctrl_result) eff \<Rightarrow> resource_eff" where
  "locally m = (\<lambda>h. (m, h))"

definition after_session ::
  "'a session \<Rightarrow> (gerr \<Rightarrow> resource_eff) \<Rightarrow> ('a \<Rightarrow> resource_eff) \<Rightarrow> resource_eff" where
  "after_session m f g = (\<lambda>h. case m h of (Inl e, h') \<Rightarrow> f e h' | (Inr a, h') \<Rightarrow> g a h')"

definition resourceSetFinalizer :: string where
  "resourceSetFinalizer = ''platform.example.io/resourceset-finalizer''"

definition defaultMaxInventoryItems :: int where "defaultMaxInventoryItems = 500"

definition maxInventoryStatusBytes :: nat where "maxInventoryStatusBytes = 700 * 1024"

definition errCleanupPending :: gerr where "errCleanupPending = Err ''runtime cleanup is still pending''"

subsection \<open>Targets and objects\<close>

definition targetIdentity :: "target_reference \<Rightarrow> runtime_target" where
  "targetIdentity reference =
     \<lparr>rt_Provider = tr_Provider reference, rt_Account = or_else (tr_Account reference) ''local'', rt_Region = tr_Region reference,
      rt_ClusterName = tr_ClusterName reference, rt_ClusterID = tr_ClusterID reference, rt_ClusterARN = tr_ClusterARN reference,
      rt_IncarnationID = or_else (or_else (tr_IncarnationID reference) (tr_ClusterID reference)) (tr_ClusterName reference)\<rparr>"

definition resourceSetRuntimeTarget :: "resource_set \<Rightarrow> runtime_target" where
  "resourceSetRuntimeTarget object =
     (case rss_TrustedRuntimeTargetIdentity (rset_Spec object) of
        Some i \<Rightarrow> \<lparr>rt_Provider = rti_Provider i, rt_Account = rti_AccountID i, rt_Region = rti_Region i,
          rt_ClusterName = rti_ClusterName i, rt_ClusterID = rti_ClusterName i, rt_ClusterARN = rti_ClusterARN i,
          rt_IncarnationID = rti_IncarnationID i\<rparr>
      | None \<Rightarrow> targetIdentity (rss_Target (rset_Spec object)))"

definition resourceSetTargetBinding ::
  "resource_set option \<Rightarrow> gerr + runtime_target_identity \<times> target_connection_profile" where
  "resourceSetTargetBinding object =
     (case object of
        None \<Rightarrow> Inl (Err ''ResourceSet is required'')
      | Some r \<Rightarrow>
          (let spec = rset_Spec r in
           case (rss_TrustedRuntimeTargetIdentity spec, rss_TrustedTargetConnectionProfile spec) of
             (None, None) \<Rightarrow>
               if tr_Provider (rss_Target spec) = ProviderAWS
               then Inl (Err ''AWS runtime mutation requires trusted target discovery'')
               else sum_bind (materializeTarget (rss_Target spec)) (\<lambda>m.
                 Inr (iss_RuntimeTargetIdentity m, iss_TargetConnectionProfile m))
           | (Some i, Some p) \<Rightarrow>
               if rss_TargetDiscoveryRef spec = [] \<or> rss_TargetDiscoveryDigest spec = []
               then Inl (Err ''trusted target discovery is incomplete'')
               else checked (ValidateBinding i p) (Inr (i, p))
           | _ \<Rightarrow> Inl (Err ''trusted target discovery is incomplete'')))"

definition targetClient :: "resource_env \<Rightarrow> resource_set \<Rightarrow> gerr + target_cluster option" where
  "targetClient env object =
     sum_bind (resourceSetTargetBinding (Some object)) (\<lambda>(identity, profile).
       case xe_resolver env of None \<Rightarrow> Inr (xe_client env) | Some client \<Rightarrow> client identity profile)"

definition fieldManager :: "hash \<Rightarrow> resource_set \<Rightarrow> string" where
  "fieldManager sha object =
     (let ownershipID = or_else (rss_OwnershipID (rset_Spec object)) (om_UID (rset_Meta object))
      in ''pcp-runtime-'' @ take 16 (sha ownershipID))"

text \<open>One declared runtime object at its index, and the whole list up to the first error.\<close>

definition bootstrap_of ::
  "(string \<Rightarrow> gerr + unstructured) \<Rightarrow> string \<Rightarrow> nat \<Rightarrow> runtime_object \<Rightarrow> gerr + bootstrap_object" where
  "bootstrap_of decode ownershipID index spec =
     (let label = ''runtime object '' @ show_nat index;
          readinessPolicy = or_else (ro_ReadinessPolicy spec) ''ApplyOnly'';
          deletionPolicy = or_else (ro_DeletionPolicy spec) ''Prune''
      in if ro_Version spec = [] \<or> ro_Resource spec = [] \<or> ro_Object spec = []
         then Inl (Err (label @ '' requires version, resource, and object''))
         else case decode (ro_Object spec) of
             Inl e \<Rightarrow> Inl (Wrap (label @ '' is invalid JSON'') e)
           | Inr object \<Rightarrow>
               (case ValidateRuntimeObject (Some object) of
                  Some e \<Rightarrow> Inl (Wrap (label @ '' rejected'') e)
                | None \<Rightarrow>
                    if readinessPolicy \<noteq> ''RequireReady'' \<and> readinessPolicy \<noteq> ''ApplyOnly''
                    then Inl (Err (label @ '' has unsupported readinessPolicy '' @ quoted (ro_ReadinessPolicy spec)))
                    else if deletionPolicy \<noteq> ''Prune'' \<and> deletionPolicy \<noteq> ''Retain''
                    then Inl (Err (label @ '' has unsupported deletionPolicy '' @ quoted (ro_DeletionPolicy spec)))
                    else Inr \<lparr>bo_GVR = \<lparr>gvr_Group = ro_Group spec, gvr_Version = ro_Version spec, gvr_Resource = ro_Resource spec\<rparr>,
                      bo_Object = object, bo_Wave = ro_Wave spec, bo_ReadinessPolicy = readinessPolicy,
                      bo_DeletionPolicy = deletionPolicy, bo_OwnershipID = or_else (ro_OwnershipID spec) ownershipID\<rparr>))"

fun bootstrapObjects_from ::
  "(string \<Rightarrow> gerr + unstructured) \<Rightarrow> string \<Rightarrow> nat \<Rightarrow> runtime_object list \<Rightarrow> gerr + bootstrap_object list" where
  "bootstrapObjects_from decode ownershipID index [] = Inr []"
| "bootstrapObjects_from decode ownershipID index (spec # specs) =
     sum_bind (bootstrap_of decode ownershipID index spec) (\<lambda>b.
       sum_bind (bootstrapObjects_from decode ownershipID (Suc index) specs) (\<lambda>bs. Inr (b # bs)))"

definition bootstrapObjects ::
  "(string \<Rightarrow> gerr + unstructured) \<Rightarrow> runtime_object list \<Rightarrow> string \<Rightarrow> gerr + bootstrap_object list" where
  "bootstrapObjects decode resources ownershipID = bootstrapObjects_from decode ownershipID 0 resources"

text \<open>The conversions between the inventory and its status copy the fields of one and the same record.\<close>

definition inventoryStatus :: "inventory_item list \<Rightarrow> inventory_item_status list" where
  "inventoryStatus inventory = map (\<lambda>item. item) inventory"

definition inventoryFromStatus :: "inventory_item_status \<Rightarrow> inventory_item" where
  "inventoryFromStatus item = item"

definition inventoryKey :: "string \<Rightarrow> string \<Rightarrow> string \<Rightarrow> string \<Rightarrow> string \<Rightarrow> string" where
  "inventoryKey grp version resource namespace name =
     grp @ ''/'' @ version @ ''/'' @ resource @ ''/'' @ namespace @ ''/'' @ name"

definition item_key :: "inventory_item \<Rightarrow> string" where
  "item_key item = inventoryKey (iis_Group item) (iis_Version item) (iis_Resource item) (iis_Namespace item) (iis_Name item)"

definition validateInventorySize :: "inventory_item list \<Rightarrow> gerr option" where
  "validateInventorySize inventory =
     (let size = length (json_text (JArr (map inventory_item_status_json (inventoryStatus inventory)))) in
      if maxInventoryStatusBytes < size
      then Some (Err (''serialized inventory is '' @ show_nat size @ '' bytes, limit is '' @ show_nat maxInventoryStatusBytes))
      else None)"

primrec network_error :: "gerr \<Rightarrow> bool" where
  "network_error (Err m) = False"
| "network_error (ApiErr r m) = False"
| "network_error (NetErr m) = True"
| "network_error (HttpErr c m) = False"
| "network_error (Wrap p e) = network_error e"

definition isTargetUnavailable :: "gerr option \<Rightarrow> bool" where
  "isTargetUnavailable err =
     (case err of None \<Rightarrow> False
      | Some e \<Rightarrow> (let message = to_lower (err_text e) in
          api_reason_of e \<in> {Some Timeout, Some ServerTimeout, Some ServiceUnavailable, Some TooManyRequests}
          \<or> network_error e
          \<or> str_contains message ''connection refused'' \<or> str_contains message ''no route to host''
          \<or> str_contains message ''i/o timeout''))"

subsection \<open>Pruning\<close>

definition item_gvr :: "inventory_item \<Rightarrow> gvr" where
  "item_gvr item = \<lparr>gvr_Group = iis_Group item, gvr_Version = iis_Version item, gvr_Resource = iis_Resource item\<rparr>"

definition read_item :: "target_cluster \<Rightarrow> inventory_item \<Rightarrow> unstructured session" where
  "read_item c item = s_get c (item_gvr item) (iis_Namespace item) (iis_Name item)"

definition confirm_gone :: "target_cluster \<Rightarrow> inventory_item \<Rightarrow> unit session" where
  "confirm_gone c item = s_case (read_item c item)
     (\<lambda>e. if is_not_found e then s_ret () else s_fail e) (\<lambda>_. s_fail errCleanupPending)"

definition pruneItem :: "hash \<Rightarrow> inventory_item \<Rightarrow> runtime_target \<Rightarrow> target_cluster \<Rightarrow> unit session" where
  "pruneItem sha item target c =
     (if iis_Resource item = []
      then s_fail (Err (''inventory item '' @ iis_Namespace item @ ''/'' @ iis_Name item @ '' has no resource name''))
      else s_bind (read_item c item) (\<lambda>object.
        case ValidatePrune sha item target (Some object) of
          Some e \<Rightarrow> s_fail e
        | None \<Rightarrow>
            s_case (s_delete c (item_gvr item) (iis_Namespace item) (iis_Name item) (un_UID object) (un_ResourceVersion object))
              (\<lambda>e. if is_not_found e then confirm_gone c item else s_fail e)
              (\<lambda>_. confirm_gone c item)))"

fun pruneRemoved ::
  "hash \<Rightarrow> string list \<Rightarrow> inventory_item_status list \<Rightarrow> runtime_target \<Rightarrow> target_cluster \<Rightarrow> unit session" where
  "pruneRemoved sha currentKeys [] target c = s_ret ()"
| "pruneRemoved sha currentKeys (previous # rest) target c =
     (if IsProtected (inventoryFromStatus previous) \<or> item_key (inventoryFromStatus previous) \<in> set currentKeys
      then pruneRemoved sha currentKeys rest target c
      else s_bind (pruneItem sha (inventoryFromStatus previous) target c) (\<lambda>_. pruneRemoved sha currentKeys rest target c))"

fun pruneInventory ::
  "hash \<Rightarrow> inventory_item_status list \<Rightarrow> runtime_target \<Rightarrow> target_cluster \<Rightarrow> unit session" where
  "pruneInventory sha [] target c = s_ret ()"
| "pruneInventory sha (statusItem # rest) target c =
     (if IsProtected (inventoryFromStatus statusItem) then pruneInventory sha rest target c
      else s_case (pruneItem sha (inventoryFromStatus statusItem) target c)
        (\<lambda>e. if is_not_found e then pruneInventory sha rest target c else s_fail e)
        (\<lambda>_. pruneInventory sha rest target c))"

subsection \<open>Readiness\<close>

text \<open>The message, the reason and the status of Go's three results; the loop counts what is open.\<close>

type_synonym readiness_report = "string \<times> string \<times> condition_status"

definition readiness_summary :: "nat \<Rightarrow> nat \<Rightarrow> nat \<Rightarrow> readiness_report" where
  "readiness_summary size_all unknown notReady =
     (if 0 < notReady then (show_nat notReady @ '' runtime objects are not ready'', ''RuntimeNotReady'', ConditionFalse)
      else if 0 < unknown then
        (show_nat unknown @ '' runtime objects have no ready adapter or are still reporting readiness'',
         ''RuntimeReadinessUnknown'', ConditionUnknown)
      else (show_nat size_all @ '' runtime objects are ready'', ''RuntimeReady'', ConditionTrue))"

definition still_reporting :: "string \<Rightarrow> bool" where
  "still_reporting reason \<longleftrightarrow> reason = ''readiness adapter unavailable'' \<or> has_suffix reason ''condition not reported''"

fun readiness_loop ::
  "target_cluster \<Rightarrow> nat \<Rightarrow> inventory_item list \<Rightarrow> nat \<Rightarrow> nat \<Rightarrow> readiness_report session" where
  "readiness_loop c size_all [] unknown notReady = s_ret (readiness_summary size_all unknown notReady)"
| "readiness_loop c size_all (item # items) unknown notReady =
     s_case (read_item c item)
       (\<lambda>e. s_ret (''runtime readiness read failed: '' @ err_text e, ''RuntimeReadinessFailed'', ConditionFalse))
       (\<lambda>object.
         if iis_ReadinessPolicy item = ''ApplyOnly'' \<and> un_DeletionTimestamp object = None
         then readiness_loop c size_all items unknown notReady
         else case runtime_Ready (Some object) of
             (ready, reason, Some e) \<Rightarrow>
               s_ret (''runtime readiness invalid: '' @ err_text e, ''RuntimeReadinessFailed'', ConditionFalse)
           | (ready, reason, None) \<Rightarrow>
               if ready then readiness_loop c size_all items unknown notReady
               else if still_reporting reason then readiness_loop c size_all items (Suc unknown) notReady
               else readiness_loop c size_all items unknown (Suc notReady))"

definition runtimeReadiness :: "target_cluster \<Rightarrow> inventory_item list \<Rightarrow> readiness_report session" where
  "runtimeReadiness c inventory = readiness_loop c (length inventory) inventory 0 0"

subsection \<open>Status\<close>

definition with_runtime_condition ::
  "resource_env \<Rightarrow> resource_set \<Rightarrow> condition_status \<Rightarrow> string \<Rightarrow> string \<Rightarrow> resource_set_status \<Rightarrow> resource_set_status" where
  "with_runtime_condition env object conditionStatus reason message status =
     status\<lparr>rsst_Conditions := [stableCondition (xe_now env) (findCondition (rsst_Conditions (rset_Status object)) ConditionReady)
       (om_Generation (rset_Meta object)) conditionStatus reason message]\<rparr>"

definition runtime_status ::
  "resource_env \<Rightarrow> resource_set \<Rightarrow> inventory_item list option \<Rightarrow> bool \<Rightarrow> condition_status \<Rightarrow> string \<Rightarrow> string \<Rightarrow>
   resource_set_status" where
  "runtime_status env object inventory limitExceeded conditionStatus reason message =
     (let s0 = (rset_Status object)\<lparr>rsst_ObservedGeneration := om_Generation (rset_Meta object),
            rsst_TargetIdentityDigest := runtime_target_Digest (xe_sha env) (resourceSetRuntimeTarget object),
            rsst_InventoryLimitExceeded := limitExceeded, rsst_MutationBlocked := False\<rparr>;
          s1 = (case inventory of None \<Rightarrow> s0
            | Some items \<Rightarrow> s0\<lparr>rsst_Inventory := inventoryStatus items, rsst_InventoryItems := to_int32 (int (length items))\<rparr>)
      in with_runtime_condition env object conditionStatus reason message s1)"

definition setRuntimeStatus ::
  "resource_env \<Rightarrow> resource_set \<Rightarrow> inventory_item list option \<Rightarrow> bool \<Rightarrow> condition_status \<Rightarrow> string \<Rightarrow> string \<Rightarrow>
   (resource_write, ctrl_result) eff" where
  "setRuntimeStatus env object inventory limitExceeded conditionStatus reason message =
     (let status = runtime_status env object inventory limitExceeded conditionStatus reason message in
      if rset_Status object = status then ret done_result
      else perform (xe_answer env) (UpdateResourceSetStatusW (object\<lparr>rset_Status := status\<rparr>)) (ret done_result))"

definition cleanup_evidence :: "hash \<Rightarrow> resource_set \<Rightarrow> bool \<Rightarrow> string" where
  "cleanup_evidence sha object skipped =
     (let inventory = rsst_Inventory (rset_Status object) in
      Digest sha (jobj [(''Namespace'', Some (JStr (om_Namespace (rset_Meta object)))), (''Name'', Some (JStr (om_Name (rset_Meta object)))),
        (''Inventory'', Some (if inventory = [] then JNull else JArr (map inventory_item_status_json inventory))),
        (''Skipped'', Some (JBool skipped))]))"

definition finishDelete :: "resource_env \<Rightarrow> resource_set \<Rightarrow> bool \<Rightarrow> string \<Rightarrow> (resource_write, ctrl_result) eff" where
  "finishDelete env object skipped message =
     (let m = rset_Meta object;
          s0 = (rset_Status object)\<lparr>rsst_CleanupEvidenceRef := ''cleanup/'' @ om_Namespace m @ ''/'' @ om_Name m,
            rsst_CleanupEvidenceDigest := cleanup_evidence (xe_sha env) object skipped\<rparr>;
          status = (if skipped then with_runtime_condition env object ConditionFalse ''RuntimeCleanupSkipped'' message
              (s0\<lparr>rsst_RuntimeCleanupSkipped := True\<rparr>) else s0);
          recorded = object\<lparr>rset_Status := status\<rparr>
      in perform_unless is_not_found (xe_answer env) (UpdateResourceSetStatusW recorded)
           (perform_unless is_not_found (xe_answer env)
             (UpdateResourceSetW (recorded\<lparr>rset_Meta := m\<lparr>om_Finalizers := removeString (om_Finalizers m) resourceSetFinalizer\<rparr>\<rparr>))
             (ret done_result)))"

subsection \<open>The reconciler\<close>

definition blocked_status :: "resource_env \<Rightarrow> resource_set \<Rightarrow> resource_set_status" where
  "blocked_status env object = with_runtime_condition env object ConditionFalse ''RuntimeMutationBlocked''
     ''runtime mutation is gated until current infrastructure is ready and the durable mutation fence is clear''
     ((rset_Status object)\<lparr>rsst_MutationBlocked := True, rsst_ObservedGeneration := om_Generation (rset_Meta object)\<rparr>)"

definition block_runtime :: "resource_env \<Rightarrow> resource_set \<Rightarrow> (resource_write, ctrl_result) eff" where
  "block_runtime env object =
     (let status = blocked_status env object in
      if rset_Status object = status then ret (requeue_after second)
      else perform (xe_answer env) (UpdateResourceSetStatusW (object\<lparr>rset_Status := status\<rparr>)) (ret (requeue_after second)))"

text \<open>What a present ResourceSet must satisfy before its target is touched: the outcome that ends the reconcile, if any.\<close>

definition effective_limit :: "resource_set \<Rightarrow> int" where
  "effective_limit object =
     (let maxItems = rss_MaxInventoryItems (rset_Spec object) in if maxItems = 0 then defaultMaxInventoryItems else maxItems)"

definition present_gate :: "resource_env \<Rightarrow> resource_set \<Rightarrow> (resource_write, ctrl_result) eff option" where
  "present_gate env object =
     (let spec = rset_Spec object; maxItems = effective_limit object; declared = to_int32 (int (length (rss_Resources spec))) in
      if maxItems < 0
      then Some (setRuntimeStatus env object None False ConditionFalse ''InvalidInventoryLimit'' ''maxInventoryItems cannot be negative'')
      else if maxItems < declared
      then Some (setRuntimeStatus env object None True ConditionFalse ''InventoryLimitExceeded''
        (''ResourceSet declares '' @ show_nat (length (rss_Resources spec)) @ '' resources, limit is '' @ show_int maxItems))
      else if xe_resolver env = None \<and> xe_client env = None
      then Some (setRuntimeStatus env object None False ConditionUnknown ''RuntimeClientUnavailable''
        ''target Kubernetes client is not configured; runtime mutation is disabled'')
      else if \<not> rss_RuntimeMutationAllowed spec \<or> rss_MutationFence spec
      then Some (block_runtime env object)
      else None)"

definition report_runtime :: "resource_env \<Rightarrow> resource_set \<Rightarrow> inventory_item list \<Rightarrow> readiness_report \<Rightarrow> (resource_write, ctrl_result) eff" where
  "report_runtime env object inventory report =
     (case report of (message, reason, status) \<Rightarrow>
        eff_bind (setRuntimeStatus env object (Some inventory) False status reason message) (\<lambda>result.
          ret (if status \<noteq> ConditionTrue then result\<lparr>RequeueAfter := second\<rparr> else result)))"

definition refuse_runtime :: "resource_env \<Rightarrow> resource_set \<Rightarrow> string \<Rightarrow> gerr \<Rightarrow> resource_eff" where
  "refuse_runtime env object reason e =
     locally (setRuntimeStatus env object None False ConditionFalse reason (err_text e))"

definition apply_runtime :: "resource_env \<Rightarrow> resource_set \<Rightarrow> target_cluster \<Rightarrow> bootstrap_object list \<Rightarrow> resource_eff" where
  "apply_runtime env object c objects =
     (let sha = xe_sha env; target = resourceSetRuntimeTarget object; previous = rsst_Inventory (rset_Status object) in
      if objects = []
      then after_session (pruneRemoved sha [] previous target c)
        (refuse_runtime env object ''RuntimePruneRejected'')
        (\<lambda>_. locally (setRuntimeStatus env object (Some []) False ConditionTrue ''RuntimeEmpty'' ''ResourceSet has no runtime objects''))
      else after_session (ApplyBootstrap sha c objects (fieldManager sha object) target)
        (refuse_runtime env object ''RuntimeApplyFailed'')
        (\<lambda>inventory. after_session (pruneRemoved sha (map item_key inventory) previous target c)
          (refuse_runtime env object ''RuntimePruneRejected'')
          (\<lambda>_. case validateInventorySize inventory of
             Some e \<Rightarrow> refuse_runtime env object ''InventoryStatusTooLarge'' e
           | None \<Rightarrow> after_session (runtimeReadiness c inventory)
               (\<lambda>e. locally (fail e)) (\<lambda>report. locally (report_runtime env object inventory report)))))"

definition resource_reconcilePresent :: "resource_env \<Rightarrow> resource_set \<Rightarrow> resource_eff" where
  "resource_reconcilePresent env object =
     (case present_gate env object of
        Some m \<Rightarrow> locally m
      | None \<Rightarrow>
          (case targetClient env object of
             Inl e \<Rightarrow> refuse_runtime env object ''RuntimeTargetRejected'' e
           | Inr None \<Rightarrow> locally (setRuntimeStatus env object None False ConditionUnknown ''RuntimeClientUnavailable''
               ''target Kubernetes client is not configured; runtime mutation is disabled'')
           | Inr (Some c) \<Rightarrow>
               (case bootstrapObjects (xe_decode env) (rss_Resources (rset_Spec object)) (rss_OwnershipID (rset_Spec object)) of
                  Inl e \<Rightarrow> refuse_runtime env object ''RuntimeObjectRejected'' e
                | Inr objects \<Rightarrow> apply_runtime env object c objects)))"

definition cleanup_failed :: "resource_env \<Rightarrow> resource_set \<Rightarrow> gerr \<Rightarrow> (resource_write, ctrl_result) eff" where
  "cleanup_failed env object e =
     (if e = errCleanupPending then ret (requeue_after (250 * 1000000))
      else if isTargetUnavailable (Some e) then fail e
      else perform (xe_answer env)
        (UpdateResourceSetStatusW (object\<lparr>rset_Status :=
          with_runtime_condition env object ConditionFalse ''RuntimeCleanupBlocked'' (err_text e) (rset_Status object)\<rparr>))
        (ret (requeue_after second)))"

definition resource_reconcileDelete :: "resource_env \<Rightarrow> resource_set \<Rightarrow> resource_eff" where
  "resource_reconcileDelete env object =
     (if \<not> contains_string (om_Finalizers (rset_Meta object)) resourceSetFinalizer then locally (ret done_result)
      else if rsst_Inventory (rset_Status object) = []
      then locally (finishDelete env object False ''no owned runtime inventory remains'')
      else case targetClient env object of
          Inl e \<Rightarrow> locally (fail (Err (''runtime cleanup requires the registered target client: '' @ err_text e)))
        | Inr None \<Rightarrow> locally (fail (Err ''runtime cleanup requires the registered target client: <nil>''))
        | Inr (Some c) \<Rightarrow>
            after_session (pruneInventory (xe_sha env) (rsst_Inventory (rset_Status object)) (resourceSetRuntimeTarget object) c)
              (\<lambda>e. locally (cleanup_failed env object e))
              (\<lambda>_. locally (finishDelete env object False ''runtime inventory cleaned'')))"

definition ResourceSet_Reconcile :: "resource_env \<Rightarrow> resource_eff" where
  "ResourceSet_Reconcile env =
     (case xe_get env of
        Inl e \<Rightarrow> locally (if is_not_found e then ret done_result else fail e)
      | Inr object \<Rightarrow>
          (let m = rset_Meta object in
           if om_DeletionTimestamp m \<noteq> None then resource_reconcileDelete env object
           else if \<not> contains_string (om_Finalizers m) resourceSetFinalizer
           then locally (perform (xe_answer env)
             (UpdateResourceSetW (object\<lparr>rset_Meta := m\<lparr>om_Finalizers := om_Finalizers m @ [resourceSetFinalizer]\<rparr>\<rparr>))
             (ret requeue_now))
           else resource_reconcilePresent env object))"

end
