(* ===== verification/RuntimeOrder.thy ===== *)
theory RuntimeOrder
  imports Runtime
begin

section \<open>Bootstrap in waves\<close>

text \<open>
  The requests an ApplyBootstrap sends, in order: nothing of a wave is applied before every object of the
  earlier waves was applied and, where it asks for it, seen ready. A completed bootstrap has one inventory
  entry per object, in wave order, under the identity of the target.
\<close>

subsection \<open>Sessions only extend the history\<close>

lemma session_runs [session_simps]:
  "s_get c r ns name h = (tc_get c h r ns name, GetR r ns name # h)"
  "s_apply c r object fm h = (tc_apply c h r object fm, ApplyR r object fm # h)"
  by (simp_all add: s_get_def s_apply_def)

text \<open>A property of every new request, given the history it was sent in.\<close>

fun requests_ok :: "(history \<Rightarrow> target_request \<Rightarrow> bool) \<Rightarrow> history \<Rightarrow> history \<Rightarrow> bool" where
  "requests_ok P [] h0 = True"
| "requests_ok P (q # new) h0 = (P (new @ h0) q \<and> requests_ok P new h0)"

lemma requests_ok_append [simp]: "requests_ok P (new2 @ new1) h0 \<longleftrightarrow> requests_ok P new2 (new1 @ h0) \<and> requests_ok P new1 h0"
  by (induction new2) auto

lemma requests_ok_mono: "requests_ok P new h0 \<Longrightarrow> (\<And>h q. P h q \<Longrightarrow> Q h q) \<Longrightarrow> requests_ok Q new h0"
  by (induction new) auto

lemma requests_okI: "(\<And>q mid. q \<in> set new \<Longrightarrow> P (mid @ h0) q) \<Longrightarrow> requests_ok P new h0"
  by (induction new) auto

lemma requests_ok_split:
  assumes "requests_ok P new h0" and "new @ h0 = later @ q # earlier" and "length h0 \<le> length earlier"
  shows "P earlier q"
  using assms
proof (induction new arbitrary: later)
  case Nil
  then have "length h0 = Suc (length later + length earlier)" by simp
  with Nil.prems(3) show ?case by simp
next
  case (Cons p new)
  then show ?case by (cases later) auto
qed

subsection \<open>One wave\<close>

definition sent :: "string \<Rightarrow> bootstrap_object \<Rightarrow> unstructured" where
  "sent fm item = (labelled item)\<lparr>un_Labels := applied_labels fm (un_Labels (labelled item))\<rparr>"

definition apply_request :: "string \<Rightarrow> bootstrap_object \<Rightarrow> target_request" where
  "apply_request fm item = ApplyR (bo_GVR item) (sent fm item) fm"

definition read_request :: "bootstrap_object \<Rightarrow> target_request" where
  "read_request item = GetR (bo_GVR item) (un_Namespace (bo_Object item)) (un_Name (bo_Object item))"

text \<open>The inventory entry of an object that was applied.\<close>

definition recorded :: "hash \<Rightarrow> runtime_target \<Rightarrow> bootstrap_object \<Rightarrow> inventory_item \<Rightarrow> bool" where
  "recorded sha target item entry \<longleftrightarrow> iis_TargetIdentityDigest entry = runtime_target_Digest sha target
     \<and> iis_Resource entry = gvr_Resource (bo_GVR item) \<and> iis_OwnershipID entry = bo_OwnershipID item
     \<and> iis_ReadinessPolicy entry = bo_ReadinessPolicy item \<and> iis_DeletionPolicy entry = bo_DeletionPolicy item
     \<and> iis_Name entry \<noteq> [] \<and> iis_UID entry \<noteq> []"

lemma InventoryFor_recorded:
  "InventoryFor sha (Some u) target = Inr entry \<Longrightarrow> recorded sha target item (inventory_entry item entry)"
  by (auto simp: InventoryFor_def recorded_def inventory_entry_def Let_def split: if_splits prod.splits)

lemma runtime_Apply_history:
  assumes "runtime_Apply (Some c) (bo_GVR item) (labelled item) fm h = (res, h')"
  shows "h' = h \<and> isl res \<or> h' = apply_request fm item # h"
  using assms
  by (auto simp: runtime_Apply_def apply_request_def sent_def session_simps split: option.splits if_splits)

lemma apply_item_history:
  assumes "apply_item sha c fm target item h = (res, h')"
  shows "(h' = h \<and> isl res \<or> h' = apply_request fm item # h) \<and> (\<forall>entry. res = Inr entry \<longrightarrow> recorded sha target item entry)"
  using assms unfolding apply_item_def
proof (cases rule: s_case_cases)
  case (failed e h1)
  with runtime_Apply_history [OF failed(1)] show ?thesis by (auto simp: session_simps)
next
  case (went_on applied h1)
  with runtime_Apply_history [OF went_on(1)] InventoryFor_recorded show ?thesis
    by (auto simp: session_simps split: sum.splits)
qed

lemma apply_items_history:
  assumes "apply_items sha c fm target items h = (res, h')"
  shows "\<exists>new. h' = new @ h \<and> set new \<subseteq> apply_request fm ` set items
     \<and> (\<forall>entries. res = Inr entries \<longrightarrow> apply_request fm ` set items \<subseteq> set new \<and> list_all2 (recorded sha target) items entries)"
  using assms
proof (induction items arbitrary: h res h')
  case Nil
  then show ?case by (auto simp: session_simps)
next
  case (Cons item items)
  from Cons.prems have "s_bind (apply_item sha c fm target item) (\<lambda>entry.
       s_bind (apply_items sha c fm target items) (\<lambda>entries. s_ret (entry # entries))) h = (res, h')" by simp
  then show ?case
  proof (cases rule: s_bind_cases)
    case (failed e)
    from apply_item_history [OF failed(1)] failed(2) show ?thesis by (auto intro: exI [of _ "[]"] exI [of _ "[_]"])
  next
    case (went_on entry h1)
    from apply_item_history [OF went_on(1)] have h1: "h1 = apply_request fm item # h" and r: "recorded sha target item entry"
      by auto
    from went_on(2) show ?thesis
    proof (cases rule: s_bind_cases)
      case (failed e)
      from Cons.IH [OF failed(1)] obtain new where "h' = new @ h1" "set new \<subseteq> apply_request fm ` set items" by blast
      with failed(2) h1 show ?thesis by (intro exI [of _ "new @ [apply_request fm item]"]) auto
    next
      case (went_on entries h2)
      from Cons.IH [OF went_on(1)] obtain new where "h2 = new @ h1" "set new = apply_request fm ` set items"
        "list_all2 (recorded sha target) items entries" by (elim exE conjE) (simp add: that set_eq_subset)
      with went_on(2) h1 r show ?thesis
        by (intro exI [of _ "new @ [apply_request fm item]"]) (auto simp: session_simps)
    qed
  qed
qed

text \<open>An object was seen ready: some read of it in the history was answered with a ready object.\<close>

definition seen_ready :: "target_cluster \<Rightarrow> bootstrap_object \<Rightarrow> history \<Rightarrow> bool" where
  "seen_ready c item h \<longleftrightarrow> (\<exists>later earlier object. h = later @ read_request item # earlier
     \<and> tc_get c earlier (bo_GVR item) (un_Namespace (bo_Object item)) (un_Name (bo_Object item)) = Inr object
     \<and> fst (runtime_Ready (Some object)))"

lemma seen_ready_later: "seen_ready c item h \<Longrightarrow> seen_ready c item (new @ h)"
  unfolding seen_ready_def by (metis append_assoc)

lemma check_item_history:
  assumes "check_item c item h = (res, h')"
  shows "(h' = h \<or> h' = read_request item # h)
     \<and> (\<not> isl res \<and> bo_ReadinessPolicy item = ''RequireReady'' \<longrightarrow> seen_ready c item h')"
proof (cases "bo_ReadinessPolicy item = ''RequireReady''")
  case False
  with assms show ?thesis by (simp add: check_item_def Let_def session_simps)
next
  case True
  let ?u = "bo_Object item"
  show ?thesis
  proof (cases "tc_get c h (bo_GVR item) (un_Namespace ?u) (un_Name ?u)")
    case (Inl e)
    with assms True show ?thesis by (auto simp: check_item_def Let_def s_case_def session_simps read_request_def)
  next
    case (Inr object)
    obtain ready reason err where r: "runtime_Ready (Some object) = (ready, reason, err)" by (cases "runtime_Ready (Some object)")
    from assms True Inr r have res: "h' = read_request item # h \<and> (\<not> isl res \<longrightarrow> ready)"
      by (auto simp: check_item_def Let_def s_case_def session_simps read_request_def split: option.splits if_splits)
    then have "\<not> isl res \<longrightarrow> seen_ready c item h'"
      unfolding seen_ready_def using Inr r by (metis append_Nil fst_conv)
    with res show ?thesis by simp
  qed
qed

lemma check_items_history:
  assumes "check_items c items h = (res, h')"
  shows "\<exists>new. h' = new @ h \<and> set new \<subseteq> read_request ` set items
     \<and> (\<not> isl res \<longrightarrow> (\<forall>item \<in> set items. bo_ReadinessPolicy item = ''RequireReady'' \<longrightarrow> seen_ready c item h'))"
  using assms
proof (induction items arbitrary: h)
  case Nil
  then show ?case by (auto simp: session_simps)
next
  case (Cons item items)
  from Cons.prems have "s_bind (check_item c item) (\<lambda>_. check_items c items) h = (res, h')" by simp
  then show ?case
  proof (cases rule: s_bind_cases)
    case (failed e)
    from check_item_history [OF failed(1)] failed(2) show ?thesis by (auto intro: exI [of _ "[]"] exI [of _ "[_]"])
  next
    case (went_on a h1)
    from check_item_history [OF went_on(1)] obtain new1 where h1: "h1 = new1 @ h" "set new1 \<subseteq> {read_request item}"
      and s: "bo_ReadinessPolicy item = ''RequireReady'' \<longrightarrow> seen_ready c item h1"
      by (auto intro: that [of "[]"] that [of "[_]"])
    from Cons.IH [OF went_on(2)] obtain new where "h' = new @ h1" "set new \<subseteq> read_request ` set items"
      "\<not> isl res \<longrightarrow> (\<forall>item \<in> set items. bo_ReadinessPolicy item = ''RequireReady'' \<longrightarrow> seen_ready c item h')" by blast
    with h1 s seen_ready_later [of c item h1 new] show ?thesis by (intro exI [of _ "new @ new1"]) auto
  qed
qed

subsection \<open>All waves\<close>

text \<open>An object is settled in a history: it was applied and, where it asks for it, seen ready.\<close>

definition settled :: "target_cluster \<Rightarrow> string \<Rightarrow> history \<Rightarrow> bootstrap_object \<Rightarrow> bool" where
  "settled c fm h item \<longleftrightarrow> apply_request fm item \<in> set h
     \<and> (bo_ReadinessPolicy item = ''RequireReady'' \<longrightarrow> seen_ready c item h)"

lemma settled_later: "settled c fm h item \<Longrightarrow> settled c fm (new @ h) item"
  by (simp add: settled_def seen_ready_later)

text \<open>Nothing is deleted, and every apply after \<open>h0\<close> is of an object of \<open>items\<close> whose earlier waves in \<open>all\<close> are settled.\<close>

definition wave_ok ::
  "target_cluster \<Rightarrow> string \<Rightarrow> bootstrap_object set \<Rightarrow> bootstrap_object set \<Rightarrow> history \<Rightarrow> target_request \<Rightarrow> bool" where
  "wave_ok c fm all items earlier q \<longleftrightarrow> (\<forall>r ns name uid version. q \<noteq> DeleteR r ns name uid version)
     \<and> (\<forall>r u m. q = ApplyR r u m \<longrightarrow>
          (\<exists>i \<in> items. q = apply_request fm i \<and> (\<forall>j \<in> all. bo_Wave j < bo_Wave i \<longrightarrow> settled c fm earlier j)))"

definition waves_respected ::
  "target_cluster \<Rightarrow> string \<Rightarrow> bootstrap_object set \<Rightarrow> bootstrap_object set \<Rightarrow> history \<Rightarrow> history \<Rightarrow> bool" where
  "waves_respected c fm all items h0 h \<longleftrightarrow> (\<exists>new. h = new @ h0 \<and> requests_ok (wave_ok c fm all items) new h0)"

lemma read_is_no_apply [simp]: "ApplyR r u m \<noteq> read_request i" "read_request i \<noteq> ApplyR r u m"
  by (simp_all add: read_request_def)

lemma wave_respected:
  assumes "h = new @ h0" and "set new \<subseteq> apply_request fm ` W \<union> range read_request"
    and "\<And>i j. i \<in> W \<Longrightarrow> j \<in> all \<Longrightarrow> bo_Wave j < bo_Wave i \<Longrightarrow> settled c fm h0 j"
  shows "waves_respected c fm all W h0 h"
proof -
  have "requests_ok (wave_ok c fm all W) new h0"
    using assms(2) assms(3) [THEN settled_later] by (intro requests_okI) (fastforce simp: wave_ok_def apply_request_def read_request_def)
  with assms(1) show ?thesis unfolding waves_respected_def by blast
qed

lemma waves_respected_trans:
  assumes "waves_respected c fm all W h0 h1" and "waves_respected c fm all V h1 h2"
  shows "waves_respected c fm all (W \<union> V) h0 h2"
proof -
  have "wave_ok c fm all W h q \<or> wave_ok c fm all V h q \<Longrightarrow> wave_ok c fm all (W \<union> V) h q" for h q
    unfolding wave_ok_def by blast
  then have mono: "requests_ok (wave_ok c fm all W) new h \<or> requests_ok (wave_ok c fm all V) new h
      \<Longrightarrow> requests_ok (wave_ok c fm all (W \<union> V)) new h" for new h
    by (auto intro: requests_ok_mono)
  from assms obtain new1 new2 where "h1 = new1 @ h0" "requests_ok (wave_ok c fm all W) new1 h0"
    "h2 = new2 @ h1" "requests_ok (wave_ok c fm all V) new2 h1" unfolding waves_respected_def by blast
  then show ?thesis unfolding waves_respected_def using mono by (intro exI [of _ "new2 @ new1"]) simp
qed

lemma waves_respected_same: "waves_respected c fm all W h h"
  by (simp add: waves_respected_def)

lemma apply_waves_respected:
  assumes "apply_waves sha c fm target items h0 = (res, h)" and "sorted (map bo_Wave items)"
    and "set items \<subseteq> all" and "\<And>i j. i \<in> set items \<Longrightarrow> j \<in> all - set items \<Longrightarrow> bo_Wave j < bo_Wave i \<Longrightarrow> settled c fm h0 j"
  shows "waves_respected c fm all (set items) h0 h \<and> (\<exists>new. h = new @ h0)
     \<and> (\<forall>entries. res = Inr entries \<longrightarrow> list_all2 (recorded sha target) items entries)"
  using assms
proof (induction sha c fm target items arbitrary: h0 res h rule: apply_waves.induct)
  case (1 sha c fm target)
  then show ?case by (auto simp: session_simps waves_respected_same)
next
  case (2 sha c fm target item items)
  let ?wave = "item # takeWhile (\<lambda>i. bo_Wave i = bo_Wave item) items"
  let ?rest = "dropWhile (\<lambda>i. bo_Wave i = bo_Wave item) items"
  have all_items: "set (item # items) = set ?wave \<union> set ?rest"
    by (metis (no_types) append_Cons set_append takeWhile_dropWhile_id)
  have wave_eq: "bo_Wave i = bo_Wave item" if "i \<in> set ?wave" for i using that by (auto dest: set_takeWhileD)
  have wave_le: "bo_Wave item \<le> bo_Wave i" if "i \<in> set (item # items)" for i using "2.prems"(2) that by auto
  have prior: "settled c fm h0 j" if "i \<in> set ?wave" "j \<in> all" "bo_Wave j < bo_Wave i" for i j
  proof -
    have "j \<notin> set (item # items)" using that wave_eq [of i] wave_le [of j] by auto
    then show ?thesis using that "2.prems"(4) [of i j] all_items by blast
  qed
  from "2.prems"(1) have "s_bind (apply_items sha c fm target ?wave) (\<lambda>entries.
      s_bind (check_items c ?wave) (\<lambda>_. s_bind (apply_waves sha c fm target ?rest) (\<lambda>more. s_ret (entries @ more)))) h0 = (res, h)"
    by (simp add: Let_def)
  then show ?case
  proof (cases rule: s_bind_cases)
    case (failed e)
    from apply_items_history [OF failed(1)] obtain new where new: "h = new @ h0" "set new \<subseteq> apply_request fm ` set ?wave" by blast
    then have "waves_respected c fm all (set ?wave) h0 h" using prior by (intro wave_respected [of _ new]) auto
    from waves_respected_trans [OF this waves_respected_same, of "set ?rest"] new failed(2) all_items show ?thesis by auto
  next
    case (went_on entries h1)
    from apply_items_history [OF went_on(1)] obtain new1 where new1: "h1 = new1 @ h0"
      "set new1 = apply_request fm ` set ?wave" "list_all2 (recorded sha target) ?wave entries"
      by (elim exE conjE) (rule that, assumption, rule subset_antisym, assumption, blast+)
    from went_on(2) show ?thesis
    proof (cases rule: s_bind_cases)
      case (failed e)
      from check_items_history [OF failed(1)] obtain new2 where new2: "h = new2 @ h1" "set new2 \<subseteq> read_request ` set ?wave" by blast
      then have "waves_respected c fm all (set ?wave) h0 h" using prior new1
        by (intro wave_respected [of _ "new2 @ new1"]) auto
      from waves_respected_trans [OF this waves_respected_same, of "set ?rest"] new1 new2 failed(2) all_items
      show ?thesis by auto
    next
      case (went_on u h2)
      from check_items_history [OF went_on(1)] obtain new2 where new2: "h2 = new2 @ h1" "set new2 \<subseteq> read_request ` set ?wave"
        "\<forall>i \<in> set ?wave. bo_ReadinessPolicy i = ''RequireReady'' \<longrightarrow> seen_ready c i h2" by auto
      have first: "waves_respected c fm all (set ?wave) h0 h2" using prior new1 new2
        by (intro wave_respected [of _ "new2 @ new1"]) auto
      have complete: "settled c fm h2 i" if "i \<in> set ?wave" for i
        using that new1 new2 by (auto simp: settled_def)
      have extended: "h2 = (new2 @ new1) @ h0" using new1 new2 by simp
      have rest_settled: "settled c fm h2 j" if "i \<in> set ?rest" "j \<in> all - set ?rest" "bo_Wave j < bo_Wave i" for i j
      proof (cases "j \<in> set ?wave")
        case True
        then show ?thesis by (rule complete)
      next
        case False
        then have "j \<in> all - set (item # items)" using that all_items by auto
        moreover have "i \<in> set (item # items)" using that all_items by auto
        ultimately have "settled c fm h0 j" using "2.prems"(4) that(3) by blast
        then show ?thesis unfolding extended by (rule settled_later)
      qed
      have sorted_rest: "sorted (map bo_Wave ?rest)"
      proof -
        have "sorted (dropWhile (\<lambda>w. w = bo_Wave item) (map bo_Wave items))" using "2.prems"(2) by (simp add: sorted_dropWhile)
        then show ?thesis by (simp add: dropWhile_map comp_def)
      qed
      have sub: "set ?rest \<subseteq> all" using "2.prems"(3) all_items by auto
      have IH: "waves_respected c fm all (set ?rest) h2 k \<and> (\<exists>new. k = new @ h2)
          \<and> (\<forall>entries. r = Inr entries \<longrightarrow> list_all2 (recorded sha target) ?rest entries)"
        if "apply_waves sha c fm target ?rest h2 = (r, k)" for r k
        by (rule "2.IH" [OF refl refl that sorted_rest sub]) (rule rest_settled)
      from went_on(2) show ?thesis
      proof (cases rule: s_bind_cases)
        case (failed e)
        from IH [OF failed(1)] obtain new3 where w: "waves_respected c fm all (set ?rest) h2 h" "h = new3 @ h2" by blast
        from waves_respected_trans [OF first w(1)] w extended failed(2) all_items show ?thesis by auto
      next
        case (went_on more h3)
        from IH [OF went_on(1)] obtain new3 where w: "waves_respected c fm all (set ?rest) h2 h3" "h3 = new3 @ h2"
          and more: "list_all2 (recorded sha target) ?rest more" by blast
        from went_on(2) have res: "res = Inr (entries @ more)" "h = h3" by (simp_all add: session_simps)
        have "list_all2 (recorded sha target) (?wave @ ?rest) (entries @ more)"
          using new1(3) more by (rule list_all2_appendI)
        with waves_respected_trans [OF first w(1)] w extended res all_items show ?thesis by auto
      qed
    qed
  qed
qed

text \<open>A bootstrap that succeeds has applied every object since it began.\<close>

lemma apply_waves_applies:
  "apply_waves sha c fm target items h0 = (Inr entries, h) \<Longrightarrow> \<exists>new. h = new @ h0 \<and> apply_request fm ` set items \<subseteq> set new"
proof (induction sha c fm target items arbitrary: h0 entries h rule: apply_waves.induct)
  case (2 sha c fm target item items)
  let ?wave = "item # takeWhile (\<lambda>i. bo_Wave i = bo_Wave item) items"
  let ?rest = "dropWhile (\<lambda>i. bo_Wave i = bo_Wave item) items"
  have all: "set (item # items) = set ?wave \<union> set ?rest"
    by (metis (no_types) append_Cons set_append takeWhile_dropWhile_id)
  from "2.prems" obtain e1 h1 u h2 more where a: "apply_items sha c fm target ?wave h0 = (Inr e1, h1)"
    and b: "check_items c ?wave h1 = (Inr u, h2)" and r: "apply_waves sha c fm target ?rest h2 = (Inr more, h)"
    unfolding apply_waves.simps Let_def s_bind_Inr session_simps by blast
  from apply_items_history [OF a] obtain new1 where "h1 = new1 @ h0" "apply_request fm ` set ?wave \<subseteq> set new1" by blast
  moreover from check_items_history [OF b] obtain new2 where "h2 = new2 @ h1" by blast
  moreover from "2.IH" [OF refl refl r] obtain new3 where "h = new3 @ h2" "apply_request fm ` set ?rest \<subseteq> set new3" by blast
  ultimately show ?case unfolding all by (intro exI [of _ "new3 @ new2 @ new1"]) auto
qed (simp add: session_simps)

lemma ApplyBootstrap_applies:
  assumes "ApplyBootstrap sha c objects fm target h0 = (Inr inventory, h)"
  shows "\<exists>new. h = new @ h0 \<and> apply_request fm ` set objects \<subseteq> set new"
  using assms apply_waves_applies [of sha c fm target "sort_key bo_Wave objects" h0 inventory h]
  by (cases "objects = []") (simp_all add: ApplyBootstrap_def orderBootstrapObjects_def session_simps)

subsection \<open>The bootstrap as a whole\<close>

lemma ApplyBootstrap_history:
  assumes run: "ApplyBootstrap sha c objects fm target h0 = (res, h)"
  shows "waves_respected c fm (set objects) (set objects) h0 h
     \<and> (\<forall>inventory. res = Inr inventory \<longrightarrow> list_all2 (recorded sha target) (sort_key bo_Wave objects) inventory)"
proof (cases "objects = []")
  case True
  with run show ?thesis by (auto simp: ApplyBootstrap_def session_simps waves_respected_same)
next
  case False
  with run have w: "apply_waves sha c fm target (sort_key bo_Wave objects) h0 = (res, h)"
    by (simp add: ApplyBootstrap_def orderBootstrapObjects_def)
  have s: "sorted (map bo_Wave (sort_key bo_Wave objects))" by simp
  have e: "set (sort_key bo_Wave objects) = set objects" by simp
  from apply_waves_respected [OF w s, of "set objects", unfolded e] show ?thesis by simp
qed

text \<open>
  C12. An ApplyBootstrap applies the objects wave by wave: whenever it applies an object, every object of
  an earlier wave has been applied before and, if its policy is RequireReady, has since been read as ready in
  the target cluster; when it succeeds, its inventory has one entry per
  object, in wave order, with the digest of the target and the policies of the object.
\<close>
theorem bootstrap_respects_waves:
  assumes run: "ApplyBootstrap sha c objects fm target h0 = (res, h)"
  shows "(\<forall>later r u m earlier. h = later @ ApplyR r u m # earlier \<and> length h0 \<le> length earlier \<longrightarrow>
        (\<exists>i \<in> set objects. ApplyR r u m = apply_request fm i
           \<and> (\<forall>j \<in> set objects. bo_Wave j < bo_Wave i \<longrightarrow> settled c fm earlier j)))
     \<and> (\<forall>inventory. res = Inr inventory \<longrightarrow>
        list_all2 (recorded sha target) (sort_key bo_Wave objects) inventory)"
proof -
  note run' = ApplyBootstrap_history [OF run]
  then obtain new where new: "h = new @ h0" "requests_ok (wave_ok c fm (set objects) (set objects)) new h0"
    by (auto simp: waves_respected_def)
  have "\<exists>i \<in> set objects. ApplyR r u m = apply_request fm i
      \<and> (\<forall>j \<in> set objects. bo_Wave j < bo_Wave i \<longrightarrow> settled c fm earlier j)"
    if "h = later @ ApplyR r u m # earlier" "length h0 \<le> length earlier" for later r u m earlier
    using requests_ok_split [OF new(2), of later "ApplyR r u m" earlier] that new(1) by (simp add: wave_ok_def)
  with run' show ?thesis by simp
qed

definition sample_object :: "string \<Rightarrow> int \<Rightarrow> bootstrap_object" where
  "sample_object name wave = \<lparr>bo_GVR = \<lparr>gvr_Group = ''apps'', gvr_Version = ''v1'', gvr_Resource = ''services''\<rparr>,
     bo_Object = \<lparr>un_APIVersion = ''v1'', un_Kind = ''Service'', un_Namespace = ''n'', un_Name = name, un_UID = ''u'',
       un_ResourceVersion = ''1'', un_Generation = 1, un_DeletionTimestamp = None, un_Labels = [], un_HasData = False,
       un_HasStringData = False, un_Phase = Inr [], un_ObservedGeneration = 0, un_ReadyReplicas = 0, un_Replicas = 0,
       un_CurrentRevision = [], un_UpdateRevision = [], un_Conditions = Inr None\<rparr>,
     bo_Wave = wave, bo_ReadinessPolicy = ''RequireReady'', bo_DeletionPolicy = ''Prune'', bo_OwnershipID = ''o''\<rparr>"

definition accepting_cluster :: target_cluster where
  "accepting_cluster = \<lparr>tc_get = (\<lambda>h r ns name. Inr (bo_Object (sample_object name 0))), tc_apply = (\<lambda>h r u fm. Inr u),
     tc_delete = (\<lambda>h r ns name uid version. None)\<rparr>"

definition sample_runtime_target :: runtime_target where
  "sample_runtime_target = \<lparr>rt_Provider = ''kind'', rt_Account = [], rt_Region = [], rt_ClusterName = ''k'', rt_ClusterID = [],
     rt_ClusterARN = [], rt_IncarnationID = []\<rparr>"

lemma sample_apply:
  assumes "name \<noteq> []"
  shows "\<exists>entry. apply_item sha accepting_cluster ''fm'' target (sample_object name w) h
     = (Inr entry, apply_request ''fm'' (sample_object name w) # h)"
proof -
  have "snd (snd (gvk (labelled (sample_object name w)))) \<noteq> []"
    by (simp add: gvk_def labelled_def sample_object_def Let_def)
  then have "ValidateRuntimeObject (Some (labelled (sample_object name w))) = None"
    using assms by (simp add: ValidateRuntimeObject_def labelled_def sample_object_def Let_def)
  then show ?thesis using assms
    by (simp add: apply_item_def s_case_def runtime_Apply_def session_simps accepting_cluster_def apply_request_def sent_def
        InventoryFor_def labelled_def sample_object_def Let_def split: prod.splits)
qed

lemma sample_check:
  "check_item accepting_cluster (sample_object name w) h = (Inr (), read_request (sample_object name w) # h)"
  by (simp add: check_item_def s_case_def session_simps accepting_cluster_def read_request_def sample_object_def Let_def
      runtime_Ready_def)

theorem bootstrap_respects_waves_witness:
  "\<exists>earlier. snd (ApplyBootstrap (\<lambda>s. s) accepting_cluster [sample_object ''b'' 2, sample_object ''a'' 1] ''fm'' sample_runtime_target [])
       = read_request (sample_object ''b'' 2) # apply_request ''fm'' (sample_object ''b'' 2) # earlier
     \<and> settled accepting_cluster ''fm'' earlier (sample_object ''a'' 1)"
proof -
  let ?a = "sample_object ''a'' 1" and ?b = "sample_object ''b'' 2"
  let ?run = "ApplyBootstrap (\<lambda>s. s) accepting_cluster [?b, ?a] ''fm'' sample_runtime_target []"
  let ?earlier = "[read_request ?a, apply_request ''fm'' ?a]"
  have order: "orderBootstrapObjects [?b, ?a] = [?a, ?b]" by (simp add: orderBootstrapObjects_def sample_object_def)
  have waves: "bo_Wave ?b \<noteq> bo_Wave ?a" by (simp add: sample_object_def)
  obtain ea where ea: "apply_item (\<lambda>s. s) accepting_cluster ''fm'' sample_runtime_target ?a []
      = (Inr ea, [apply_request ''fm'' ?a])" using sample_apply [of "''a''" _ _ 1 "[]"] by auto
  obtain eb where eb: "apply_item (\<lambda>s. s) accepting_cluster ''fm'' sample_runtime_target ?b ?earlier
      = (Inr eb, apply_request ''fm'' ?b # ?earlier)" using sample_apply [of "''b''" _ _ 2 ?earlier] by auto
  have h: "snd ?run = read_request ?b # apply_request ''fm'' ?b # ?earlier"
    using waves by (simp add: ApplyBootstrap_def order Let_def s_bind_def session_simps sample_check ea eb)
  then have run: "?run = (fst ?run, [read_request ?b] @ ApplyR (bo_GVR ?b) (sent ''fm'' ?b) ''fm'' # ?earlier)"
    by (simp add: prod_eq_iff apply_request_def)
  have "\<exists>i \<in> set [?b, ?a]. ApplyR (bo_GVR ?b) (sent ''fm'' ?b) ''fm'' = apply_request ''fm'' i
      \<and> (\<forall>j \<in> set [?b, ?a]. bo_Wave j < bo_Wave i \<longrightarrow> settled accepting_cluster ''fm'' ?earlier j)"
    by (rule bootstrap_respects_waves [OF run, THEN conjunct1, rule_format, OF conjI [OF refl]]) simp
  then obtain i where i: "i = ?b \<or> i = ?a" "ApplyR (bo_GVR ?b) (sent ''fm'' ?b) ''fm'' = apply_request ''fm'' i"
    "bo_Wave ?a < bo_Wave i \<longrightarrow> settled accepting_cluster ''fm'' ?earlier ?a" by auto
  have "un_Name (sent ''fm'' ?b) \<noteq> un_Name (sent ''fm'' ?a)" by (simp add: sent_def labelled_def sample_object_def Let_def)
  then have "sent ''fm'' ?b \<noteq> sent ''fm'' ?a" by metis
  with i have "i = ?b" by (auto simp: apply_request_def)
  with i(3) have "settled accepting_cluster ''fm'' ?earlier ?a" by (simp add: sample_object_def)
  with h show ?thesis by blast
qed

end
