(* ===== verification/ResourceSafety.thy ===== *)
theory ResourceSafety
  imports ResourceCtl RuntimeOrder
begin

section \<open>Safety of the ResourceSet controller\<close>

text \<open>
  What the controller may send to a target cluster and when: no request without an open runtime and an
  accepted binding, no delete of anything but an owned, unprotected inventory item that was just read, no
  end of a deletion before every owned item was seen gone, and no Ready before every item was seen ready.
\<close>

subsection \<open>Pruning\<close>

text \<open>A delete follows the read of the same item, whose answer passed the ownership checks, and is bound to it.\<close>

definition delete_ok ::
  "hash \<Rightarrow> target_cluster \<Rightarrow> runtime_target \<Rightarrow> inventory_item \<Rightarrow> history \<Rightarrow> target_request \<Rightarrow> bool" where
  "delete_ok sha c target item earlier q \<longleftrightarrow> (\<forall>r ns name uid version. q = DeleteR r ns name uid version \<longrightarrow>
     r = item_gvr item \<and> ns = iis_Namespace item \<and> name = iis_Name item
     \<and> (\<exists>before_read object. earlier = GetR r ns name # before_read \<and> tc_get c before_read r ns name = Inr object
          \<and> uid = un_UID object \<and> version = un_ResourceVersion object \<and> ValidatePrune sha item target (Some object) = None))"

definition never_applies :: "target_request \<Rightarrow> bool" where
  "never_applies q \<longleftrightarrow> (\<forall>r u m. q \<noteq> ApplyR r u m)"

text \<open>An item was seen gone: some read of it in the history was answered with NotFound.\<close>

definition seen_gone :: "target_cluster \<Rightarrow> inventory_item \<Rightarrow> history \<Rightarrow> bool" where
  "seen_gone c item h \<longleftrightarrow> (\<exists>later earlier e. h = later @ GetR (item_gvr item) (iis_Namespace item) (iis_Name item) # earlier
     \<and> tc_get c earlier (item_gvr item) (iis_Namespace item) (iis_Name item) = Inl e \<and> is_not_found e)"

lemma seen_gone_later: "seen_gone c item h \<Longrightarrow> seen_gone c item (new @ h)"
  unfolding seen_gone_def by (metis append_assoc)

lemma confirm_gone_history:
  assumes "confirm_gone c item h = (res, h')"
  shows "h' = GetR (item_gvr item) (iis_Namespace item) (iis_Name item) # h
     \<and> (res = Inr () \<longrightarrow> seen_gone c item h') \<and> (\<forall>e. res = Inl e \<longrightarrow> \<not> is_not_found e)"
proof -
  let ?read = "tc_get c h (item_gvr item) (iis_Namespace item) (iis_Name item)"
  from assms have h: "h' = GetR (item_gvr item) (iis_Namespace item) (iis_Name item) # h"
    and ok: "res = Inr () \<longrightarrow> (\<exists>e. ?read = Inl e \<and> is_not_found e)" and bad: "\<forall>e. res = Inl e \<longrightarrow> \<not> is_not_found e"
    by (auto simp: confirm_gone_def s_case_def read_item_def session_simps errCleanupPending_def split: sum.splits if_splits)
  have "res = Inr () \<longrightarrow> seen_gone c item h'"
    unfolding seen_gone_def h using ok by (metis append_Nil)
  with h bad show ?thesis by blast
qed

lemma ValidatePrune_is_text: "ValidatePrune sha item target object = Some e \<Longrightarrow> \<not> is_not_found e"
proof -
  have "first_error cs = Some e \<Longrightarrow> \<not> is_not_found e" for cs
    by (induction cs rule: first_error.induct) (auto simp: first_error.simps split: if_splits)
  then show "ValidatePrune sha item target object = Some e \<Longrightarrow> \<not> is_not_found e" by (auto simp: ValidatePrune_def Let_def)
qed

lemma pruneItem_history:
  assumes "pruneItem sha item target c h = (res, h')"
  shows "\<exists>new. h' = new @ h \<and> requests_ok (delete_ok sha c target item) new h \<and> (\<forall>q \<in> set new. never_applies q)
     \<and> (res = Inr () \<longrightarrow> seen_gone c item h') \<and> (\<forall>e. res = Inl e \<and> is_not_found e \<longrightarrow> seen_gone c item h')"
proof (cases "iis_Resource item = []")
  case True
  with assms show ?thesis by (auto simp: pruneItem_def session_simps)
next
  case False
  let ?get = "GetR (item_gvr item) (iis_Namespace item) (iis_Name item)"
  have get_ok: "delete_ok sha c target item hh ?get" "never_applies ?get" for hh
    by (simp_all add: delete_ok_def never_applies_def)
  show ?thesis
  proof (cases "tc_get c h (item_gvr item) (iis_Namespace item) (iis_Name item)")
    case (Inl e)
    with assms False have r: "res = Inl e" "h' = [?get] @ h" by (simp_all add: pruneItem_def s_bind_def read_item_def session_simps)
    then have "is_not_found e \<longrightarrow> seen_gone c item h'" unfolding seen_gone_def using Inl by (metis append_Cons append_Nil)
    with r get_ok show ?thesis by (intro exI [of _ "[?get]"]) auto
  next
    case (Inr object)
    show ?thesis
    proof (cases "ValidatePrune sha item target (Some object)")
      case (Some e)
      with assms False Inr have "res = Inl e" "h' = [?get] @ h"
        by (simp_all add: pruneItem_def s_bind_def read_item_def session_simps)
      with get_ok ValidatePrune_is_text [OF Some] show ?thesis by (intro exI [of _ "[?get]"]) auto
    next
      case None
      let ?del = "DeleteR (item_gvr item) (iis_Namespace item) (iis_Name item) (un_UID object) (un_ResourceVersion object)"
      have del_ok: "delete_ok sha c target item (?get # h) ?del" "never_applies ?del"
        using Inr None by (auto simp: delete_ok_def never_applies_def)
      from assms False Inr None consider "confirm_gone c item (?del # ?get # h) = (res, h')"
        | e where "res = Inl e" "\<not> is_not_found e" "h' = ?del # ?get # h"
        by (auto simp: pruneItem_def s_bind_def s_case_def s_delete_def read_item_def session_simps split: option.splits if_splits)
      then show ?thesis
      proof cases
        case 1
        from confirm_gone_history [OF 1] get_ok del_ok show ?thesis by (intro exI [of _ "[?get, ?del, ?get]"]) auto
      next
        case 2
        with get_ok del_ok show ?thesis by (intro exI [of _ "[?del, ?get]"]) auto
      qed
    qed
  qed
qed

text \<open>What a prune may request over a whole inventory.\<close>

definition prune_ok ::
  "hash \<Rightarrow> target_cluster \<Rightarrow> runtime_target \<Rightarrow> inventory_item set \<Rightarrow> history \<Rightarrow> target_request \<Rightarrow> bool" where
  "prune_ok sha c target items earlier q \<longleftrightarrow> (\<forall>r ns name uid version. q = DeleteR r ns name uid version \<longrightarrow>
     (\<exists>item \<in> items. \<not> IsProtected item \<and> delete_ok sha c target item earlier q))"

lemma delete_ok_prune:
  "requests_ok (delete_ok sha c target item) new h \<Longrightarrow> item \<in> items \<Longrightarrow> \<not> IsProtected item \<Longrightarrow>
     requests_ok (prune_ok sha c target items) new h"
  by (erule requests_ok_mono) (auto simp: prune_ok_def)

lemma prune_ok_mono: "prune_ok sha c target A h q \<Longrightarrow> A \<subseteq> B \<Longrightarrow> prune_ok sha c target B h q"
  unfolding prune_ok_def by blast

lemma pruneRemoved_history:
  assumes "pruneRemoved sha keys items target c h = (res, h')"
  shows "\<exists>new. h' = new @ h \<and> requests_ok (prune_ok sha c target {item \<in> set items. item_key item \<notin> set keys}) new h"
  using assms
proof (induction items arbitrary: h)
  case Nil
  then show ?case by (auto simp: session_simps)
next
  case (Cons item items)
  let ?all = "{i \<in> set (item # items). item_key i \<notin> set keys}"
  have sub: "prune_ok sha c target {i \<in> set items. item_key i \<notin> set keys} hh q \<Longrightarrow> prune_ok sha c target ?all hh q" for hh q
    by (erule prune_ok_mono) auto
  show ?case
  proof (cases "IsProtected item \<or> item_key item \<in> set keys")
    case True
    with Cons.prems have "pruneRemoved sha keys items target c h = (res, h')" by (simp add: inventoryFromStatus_def)
    from Cons.IH [OF this] sub requests_ok_mono show ?thesis by blast
  next
    case False
    with Cons.prems have b: "s_bind (pruneItem sha item target c) (\<lambda>_. pruneRemoved sha keys items target c) h = (res, h')"
      by (simp add: inventoryFromStatus_def)
    have here: "requests_ok (delete_ok sha c target item) new hh \<Longrightarrow> requests_ok (prune_ok sha c target ?all) new hh" for new hh
      using False by (intro delete_ok_prune) auto
    from b show ?thesis
    proof (cases rule: s_bind_cases)
      case (failed e)
      from pruneItem_history [OF failed(1)] here show ?thesis by blast
    next
      case (went_on u h1)
      from pruneItem_history [OF went_on(1)] here obtain new1 where n1: "h1 = new1 @ h" "requests_ok (prune_ok sha c target ?all) new1 h"
        by blast
      from Cons.IH [OF went_on(2)] sub requests_ok_mono obtain new2 where
        "h' = new2 @ h1" "requests_ok (prune_ok sha c target ?all) new2 h1" by blast
      with n1 show ?thesis by (intro exI [of _ "new2 @ new1"]) auto
    qed
  qed
qed

lemma pruneInventory_history:
  assumes "pruneInventory sha items target c h = (res, h')"
  shows "\<exists>new. h' = new @ h \<and> requests_ok (prune_ok sha c target (set items)) new h
     \<and> (res = Inr () \<longrightarrow> (\<forall>item \<in> set items. \<not> IsProtected item \<longrightarrow> seen_gone c item h'))"
  using assms
proof (induction items arbitrary: h)
  case Nil
  then show ?case by (auto simp: session_simps)
next
  case (Cons item items)
  have sub: "prune_ok sha c target (set items) hh q \<Longrightarrow> prune_ok sha c target (set (item # items)) hh q" for hh q
    by (erule prune_ok_mono) auto
  show ?case
  proof (cases "IsProtected item")
    case True
    with Cons.prems have "pruneInventory sha items target c h = (res, h')" by (simp add: inventoryFromStatus_def)
    from Cons.IH [OF this] obtain new where "h' = new @ h" "requests_ok (prune_ok sha c target (set items)) new h"
      "res = Inr () \<longrightarrow> (\<forall>i \<in> set items. \<not> IsProtected i \<longrightarrow> seen_gone c i h')" by blast
    with True sub requests_ok_mono show ?thesis by (intro exI [of _ new]) auto
  next
    case False
    have step: ?thesis if p: "pruneItem sha item target c h = (r, h1)" and gone: "seen_gone c item h1"
      and k: "pruneInventory sha items target c h1 = (res, h')" for r h1
    proof -
      from pruneItem_history [OF p] obtain new1 where n1: "h1 = new1 @ h" "requests_ok (delete_ok sha c target item) new1 h" by blast
      from n1(2) have o1: "requests_ok (prune_ok sha c target (set (item # items))) new1 h"
        by (rule delete_ok_prune) (use False in auto)
      from Cons.IH [OF k] obtain new2 where n2: "h' = new2 @ h1" "requests_ok (prune_ok sha c target (set items)) new2 h1"
        "res = Inr () \<longrightarrow> (\<forall>i \<in> set items. \<not> IsProtected i \<longrightarrow> seen_gone c i h')" by blast
      have "seen_gone c item h'" unfolding n2(1) by (rule seen_gone_later [OF gone])
      with n1 n2 o1 sub requests_ok_mono show ?thesis by (intro exI [of _ "new2 @ new1"]) auto
    qed
    from False Cons.prems have "s_case (pruneItem sha item target c)
        (\<lambda>e. if is_not_found e then pruneInventory sha items target c else s_fail e)
        (\<lambda>_. pruneInventory sha items target c) h = (res, h')" by (simp add: inventoryFromStatus_def)
    then show ?thesis
    proof (cases rule: s_case_cases)
      case (failed e h1)
      show ?thesis
      proof (cases "is_not_found e")
        case True
        with failed pruneItem_history [OF failed(1)] show ?thesis by (intro step [OF failed(1)]) auto
      next
        case missed: False
        with failed have r: "res = Inl e" "h' = h1" by (simp_all add: session_simps)
        from pruneItem_history [OF failed(1)] obtain new where "h1 = new @ h" "requests_ok (delete_ok sha c target item) new h" by blast
        moreover from this(2) have "requests_ok (prune_ok sha c target (set (item # items))) new h"
          by (rule delete_ok_prune) (use False in auto)
        ultimately show ?thesis using r by auto
      qed
    next
      case (went_on u h1)
      with pruneItem_history [OF went_on(1)] show ?thesis by (intro step [OF went_on(1)]) auto
    qed
  qed
qed

subsection \<open>Readiness\<close>

text \<open>A read of an item, after the first \<open>n\<close> requests, found it ready, or there if its policy asks for no more.\<close>

definition seen_serving :: "nat \<Rightarrow> target_cluster \<Rightarrow> inventory_item \<Rightarrow> history \<Rightarrow> bool" where
  "seen_serving n c item h \<longleftrightarrow> (\<exists>later earlier object. h = later @ GetR (item_gvr item) (iis_Namespace item) (iis_Name item) # earlier
     \<and> n \<le> length earlier
     \<and> tc_get c earlier (item_gvr item) (iis_Namespace item) (iis_Name item) = Inr object
     \<and> (iis_ReadinessPolicy item = ''ApplyOnly'' \<and> un_DeletionTimestamp object = None \<or> fst (runtime_Ready (Some object))))"

lemma seen_serving_later: "seen_serving n c item h \<Longrightarrow> seen_serving n c item (new @ h)"
  unfolding seen_serving_def by (metis append_assoc)

lemma seen_serving_earlier: "seen_serving n c item h \<Longrightarrow> m \<le> n \<Longrightarrow> seen_serving m c item h"
  unfolding seen_serving_def using le_trans by blast

lemma readiness_loop_history:
  assumes "readiness_loop c n items unknown notReady h = (Inr (message, reason, status), h')"
  shows "\<exists>new. h' = new @ h \<and> (\<forall>q \<in> set new. \<exists>r ns name. q = GetR r ns name)
     \<and> (status = ConditionTrue \<longrightarrow> unknown = 0 \<and> notReady = 0 \<and> (\<forall>item \<in> set items. seen_serving (length h) c item h'))"
  using assms
proof (induction items arbitrary: unknown notReady h)
  case Nil
  then show ?case by (auto simp: session_simps readiness_summary_def split: if_splits)
next
  case (Cons item items)
  let ?q = "GetR (item_gvr item) (iis_Namespace item) (iis_Name item)"
  show ?case
  proof (cases "tc_get c h (item_gvr item) (iis_Namespace item) (iis_Name item)")
    case (Inl e)
    with Cons.prems have "status = ConditionFalse" "h' = [?q] @ h" by (simp_all add: s_case_def read_item_def session_simps)
    then show ?thesis by (intro exI [of _ "[?q]"]) auto
  next
    case (Inr object)
    obtain ready why err where r: "runtime_Ready (Some object) = (ready, why, err)" by (cases "runtime_Ready (Some object)")
    let ?serving = "iis_ReadinessPolicy item = ''ApplyOnly'' \<and> un_DeletionTimestamp object = None \<or> ready"
    have seen: "seen_serving (length h) c item (?q # h)" if ?serving
      unfolding seen_serving_def using Inr r that by (metis append_Nil fst_conv le_refl)
    have rest: ?thesis if run: "readiness_loop c n items u k (?q # h) = (Inr (message, reason, status), h')"
      and more: "status = ConditionTrue \<and> u = 0 \<and> k = 0 \<longrightarrow> unknown = 0 \<and> notReady = 0 \<and> ?serving" for u k
    proof -
      from Cons.IH [OF run] obtain new where new: "h' = new @ ?q # h" "\<forall>q \<in> set new. \<exists>r ns name. q = GetR r ns name"
        "status = ConditionTrue \<longrightarrow> u = 0 \<and> k = 0 \<and> (\<forall>item \<in> set items. seen_serving (length (?q # h)) c item h')" by blast
      have "status = ConditionTrue \<longrightarrow> seen_serving (length h) c item h'"
        using new more seen seen_serving_later by blast
      moreover have "status = ConditionTrue \<longrightarrow> (\<forall>item \<in> set items. seen_serving (length h) c item h')"
        using new(3) seen_serving_earlier [of "length (?q # h)" c _ h' "length h"] by auto
      ultimately show ?thesis using new more by (intro exI [of _ "new @ [?q]"]) auto
    qed
    show ?thesis
    proof (cases "iis_ReadinessPolicy item = ''ApplyOnly'' \<and> un_DeletionTimestamp object = None")
      case True
      with Cons.prems Inr show ?thesis by (intro rest) (auto simp: s_case_def read_item_def session_simps)
    next
      case policy: False
      show ?thesis
      proof (cases err)
        case (Some e)
        with Cons.prems Inr r policy have "status = ConditionFalse" "h' = [?q] @ h"
          by (auto simp: s_case_def read_item_def session_simps)
        then show ?thesis by (intro exI [of _ "[?q]"]) auto
      next
        case None
        with Cons.prems Inr r policy have run: "(if ready then readiness_loop c n items unknown notReady
            else if still_reporting why then readiness_loop c n items (Suc unknown) notReady
            else readiness_loop c n items unknown (Suc notReady)) (?q # h) = (Inr (message, reason, status), h')"
          by (auto simp: s_case_def read_item_def session_simps)
        then consider "ready" "readiness_loop c n items unknown notReady (?q # h) = (Inr (message, reason, status), h')"
          | "readiness_loop c n items (Suc unknown) notReady (?q # h) = (Inr (message, reason, status), h')"
          | "readiness_loop c n items unknown (Suc notReady) (?q # h) = (Inr (message, reason, status), h')"
          by (auto split: if_splits)
        then show ?thesis
        proof cases
          case 1
          show ?thesis by (rule rest [OF 1(2)]) (use 1(1) in simp)
        next
          case 2
          show ?thesis by (rule rest [OF 2]) simp
        next
          case 3
          show ?thesis by (rule rest [OF 3]) simp
        qed
      qed
    qed
  qed
qed

lemma readiness_loop_total: "\<exists>report h'. readiness_loop c n items unknown notReady h = (Inr report, h')"
proof (induction items arbitrary: unknown notReady h)
  case (Cons item items)
  show ?case
    by (cases "tc_get c h (item_gvr item) (iis_Namespace item) (iis_Name item)")
       (use Cons.IH in \<open>auto simp: s_case_def read_item_def session_simps split: prod.splits option.splits\<close>)
qed (simp add: session_simps readiness_summary_def)

subsection \<open>One reconcile\<close>

lemma locally_run [simp]: "locally m h = (m, h)"
  by (simp add: locally_def)

lemma after_session_cases:
  assumes "after_session m f g h = r"
  obtains (failed) e h1 where "m h = (Inl e, h1)" and "f e h1 = r"
  | (went_on) a h1 where "m h = (Inr a, h1)" and "g a h1 = r"
  using assms by (auto simp: after_session_def split: prod.splits sum.splits)

definition prunes_only ::
  "resource_env \<Rightarrow> target_cluster \<Rightarrow> resource_set \<Rightarrow> history \<Rightarrow> history \<Rightarrow> bool" where
  "prunes_only env c object h h' \<longleftrightarrow> (\<exists>new. h' = new @ h \<and> requests_ok (prune_ok (xe_sha env) c
     (resourceSetRuntimeTarget object) (set (rsst_Inventory (rset_Status object)))) new h)"

lemma prunes_only_same [simp]: "prunes_only env c object h h"
  by (simp add: prunes_only_def)

lemma prunes_only_trans: "prunes_only env c object h h1 \<Longrightarrow> prunes_only env c object h1 h2 \<Longrightarrow> prunes_only env c object h h2"
  unfolding prunes_only_def by (metis append_assoc requests_ok_append)

lemma pruneRemoved_prunes_only:
  assumes "pruneRemoved (xe_sha env) keys (rsst_Inventory (rset_Status object)) (resourceSetRuntimeTarget object) c h = (res, h')"
  shows "prunes_only env c object h h'"
proof -
  from pruneRemoved_history [OF assms] obtain new where n: "h' = new @ h" "requests_ok (prune_ok (xe_sha env) c
      (resourceSetRuntimeTarget object) {i \<in> set (rsst_Inventory (rset_Status object)). item_key i \<notin> set keys}) new h" by blast
  from n(2) have "requests_ok (prune_ok (xe_sha env) c (resourceSetRuntimeTarget object)
      (set (rsst_Inventory (rset_Status object)))) new h"
    by (rule requests_ok_mono) (erule prune_ok_mono, auto)
  with n(1) show ?thesis unfolding prunes_only_def by blast
qed

lemma ApplyBootstrap_prunes_only:
  assumes "ApplyBootstrap sha c objects fm target h = (res, h')"
  shows "prunes_only env c object h h'"
proof -
  from ApplyBootstrap_history [OF assms] obtain new where n: "h' = new @ h"
    "requests_ok (wave_ok c fm (set objects) (set objects)) new h" by (auto simp: waves_respected_def)
  from n(2) have "requests_ok (prune_ok (xe_sha env) c (resourceSetRuntimeTarget object)
      (set (rsst_Inventory (rset_Status object)))) new h"
    by (rule requests_ok_mono) (auto simp: wave_ok_def prune_ok_def)
  with n(1) show ?thesis unfolding prunes_only_def by blast
qed

lemma reads_prune_only:
  "\<forall>q \<in> set new. \<exists>r ns name. q = GetR r ns name \<Longrightarrow> prunes_only env c object h (new @ h)"
  unfolding prunes_only_def by (intro exI [of _ new] conjI refl requests_okI) (auto simp: prune_ok_def)

text \<open>The ways an apply ends; the last is the only one that reports readiness.\<close>

lemma apply_runtime_cases:
  assumes "apply_runtime env object c objects h = (m, h')"
  obtains (refused) reason e where "m = setRuntimeStatus env object None False ConditionFalse reason (err_text e)"
      and "prunes_only env c object h h'"
  | (empty) "objects = []" and "prunes_only env c object h h'"
      and "m = setRuntimeStatus env object (Some []) False ConditionTrue ''RuntimeEmpty'' ''ResourceSet has no runtime objects''"
  | (applied) inventory h1 h2 message reason status where "prunes_only env c object h h'"
      and "ApplyBootstrap (xe_sha env) c objects (fieldManager (xe_sha env) object) (resourceSetRuntimeTarget object) h = (Inr inventory, h1)"
      and "validateInventorySize inventory = None"
      and "\<exists>new. h2 = new @ h1" and "runtimeReadiness c inventory h2 = (Inr (message, reason, status), h')"
      and "m = report_runtime env object inventory (message, reason, status)"
proof (cases "objects = []")
  case True
  let ?p = "pruneRemoved (xe_sha env) [] (rsst_Inventory (rset_Status object)) (resourceSetRuntimeTarget object) c"
  from assms True have "after_session ?p (refuse_runtime env object ''RuntimePruneRejected'')
      (\<lambda>_. locally (setRuntimeStatus env object (Some []) False ConditionTrue ''RuntimeEmpty'' ''ResourceSet has no runtime objects''))
      h = (m, h')" by (simp add: apply_runtime_def Let_def)
  then show ?thesis
  proof (cases rule: after_session_cases)
    case (failed e h1)
    with pruneRemoved_prunes_only [OF failed(1)] show ?thesis by (intro refused) (auto simp: refuse_runtime_def)
  next
    case (went_on u h1)
    with pruneRemoved_prunes_only [OF went_on(1)] True show ?thesis by (intro empty) auto
  qed
next
  case False
  let ?boot = "ApplyBootstrap (xe_sha env) c objects (fieldManager (xe_sha env) object) (resourceSetRuntimeTarget object)"
  let ?prune = "\<lambda>inventory. pruneRemoved (xe_sha env) (map item_key inventory) (rsst_Inventory (rset_Status object)) (resourceSetRuntimeTarget object) c"
  let ?report = "\<lambda>inventory. after_session (runtimeReadiness c inventory) (\<lambda>e. locally (fail e))
      (\<lambda>report. locally (report_runtime env object inventory report))"
  from assms False have "after_session ?boot (refuse_runtime env object ''RuntimeApplyFailed'')
      (\<lambda>inventory. after_session (?prune inventory) (refuse_runtime env object ''RuntimePruneRejected'')
        (\<lambda>_. case validateInventorySize inventory of Some e \<Rightarrow> refuse_runtime env object ''InventoryStatusTooLarge'' e
           | None \<Rightarrow> ?report inventory)) h = (m, h')" by (simp add: apply_runtime_def Let_def)
  then show ?thesis
  proof (cases rule: after_session_cases)
    case (failed e h1)
    with ApplyBootstrap_prunes_only [OF failed(1)] show ?thesis by (intro refused) (auto simp: refuse_runtime_def)
  next
    case boot: (went_on inventory h1)
    note p1 = ApplyBootstrap_prunes_only [OF boot(1), of env object]
    from boot(2) show ?thesis
    proof (cases rule: after_session_cases)
      case (failed e h2)
      with prunes_only_trans [OF p1 pruneRemoved_prunes_only [OF failed(1)]] show ?thesis
        by (intro refused) (auto simp: refuse_runtime_def)
    next
      case prune: (went_on u h2)
      note p2 = prunes_only_trans [OF p1 pruneRemoved_prunes_only [OF prune(1)]]
      show ?thesis
      proof (cases "validateInventorySize inventory")
        case (Some e)
        with prune(2) p2 show ?thesis by (intro refused) (auto simp: refuse_runtime_def)
      next
        case None
        obtain message reason status h3 where r: "runtimeReadiness c inventory h2 = (Inr (message, reason, status), h3)"
          using readiness_loop_total [of c "length inventory" inventory 0 0 h2] by (auto simp: runtimeReadiness_def)
        from readiness_loop_history [OF r [unfolded runtimeReadiness_def]] obtain new where
          "h3 = new @ h2" "\<forall>q \<in> set new. \<exists>r ns name. q = GetR r ns name" by blast
        then have p3: "prunes_only env c object h h3" using p2 reads_prune_only prunes_only_trans by blast
        from prune(2) None r have "m = report_runtime env object inventory (message, reason, status)" "h' = h3"
          by (simp_all add: after_session_def)
        moreover have "\<exists>new. h2 = new @ h1" using pruneRemoved_prunes_only [OF prune(1)] unfolding prunes_only_def by blast
        ultimately show ?thesis using p3 boot(1) None r by (intro applied) auto
      qed
    qed
  qed
qed

text \<open>The runtime of a ResourceSet is open to its controller, or is being cleaned up by it.\<close>

definition runtime_open :: "resource_env \<Rightarrow> resource_set \<Rightarrow> bool" where
  "runtime_open env object \<longleftrightarrow> om_DeletionTimestamp (rset_Meta object) = None
     \<and> rss_RuntimeMutationAllowed (rset_Spec object) \<and> \<not> rss_MutationFence (rset_Spec object)
     \<and> to_int32 (int (length (rss_Resources (rset_Spec object)))) \<le> effective_limit object"

definition runtime_cleanup :: "resource_set \<Rightarrow> bool" where
  "runtime_cleanup object \<longleftrightarrow> om_DeletionTimestamp (rset_Meta object) \<noteq> None
     \<and> resourceSetFinalizer \<in> set (om_Finalizers (rset_Meta object)) \<and> rsst_Inventory (rset_Status object) \<noteq> []"

lemma present_gate_open:
  "present_gate env object = None \<Longrightarrow> om_DeletionTimestamp (rset_Meta object) = None \<Longrightarrow> runtime_open env object"
  by (auto simp: present_gate_def runtime_open_def Let_def split: if_splits)

text \<open>A reconcile either leaves the target alone, or applies to an open runtime, or cleans up.\<close>

lemma resource_reconcile_cases:
  assumes obj: "xe_get env = Inr object" and run: "ResourceSet_Reconcile env h0 = (m, h)"
  obtains (quiet) "h = h0" and "\<not> (runtime_cleanup object \<and> (\<exists>c. targetClient env object = Inr (Some c)))"
  | (applying) c objects where "runtime_open env object" and "targetClient env object = Inr (Some c)"
      and "bootstrapObjects (xe_decode env) (rss_Resources (rset_Spec object)) (rss_OwnershipID (rset_Spec object)) = Inr objects"
      and "apply_runtime env object c objects h0 = (m, h)"
  | (cleaning) c res where "runtime_cleanup object" and "targetClient env object = Inr (Some c)"
      and "pruneInventory (xe_sha env) (rsst_Inventory (rset_Status object)) (resourceSetRuntimeTarget object) c h0 = (res, h)"
      and "m = (case res of Inl e \<Rightarrow> cleanup_failed env object e | Inr u \<Rightarrow> finishDelete env object False ''runtime inventory cleaned'')"
proof (cases "om_DeletionTimestamp (rset_Meta object) = None")
  case True
  show ?thesis
  proof (cases "contains_string (om_Finalizers (rset_Meta object)) resourceSetFinalizer")
    case False
    with obj run True show ?thesis
      by (intro quiet) (auto simp: ResourceSet_Reconcile_def runtime_cleanup_def Let_def)
  next
    case fin: True
    with obj run True have p: "resource_reconcilePresent env object h0 = (m, h)"
      by (simp add: ResourceSet_Reconcile_def Let_def)
    show ?thesis
    proof (cases "\<exists>c objects. present_gate env object = None \<and> targetClient env object = Inr (Some c)
        \<and> bootstrapObjects (xe_decode env) (rss_Resources (rset_Spec object)) (rss_OwnershipID (rset_Spec object)) = Inr objects")
      case True
      then obtain c objects where t: "present_gate env object = None" "targetClient env object = Inr (Some c)"
        "bootstrapObjects (xe_decode env) (rss_Resources (rset_Spec object)) (rss_OwnershipID (rset_Spec object)) = Inr objects" by blast
      with p have "apply_runtime env object c objects h0 = (m, h)" by (simp add: resource_reconcilePresent_def)
      with applying [OF present_gate_open [OF t(1)]] t \<open>om_DeletionTimestamp (rset_Meta object) = None\<close> show ?thesis by blast
    next
      case False
      with p True show ?thesis
        by (intro quiet)
           (auto simp: resource_reconcilePresent_def refuse_runtime_def runtime_cleanup_def split: option.splits sum.splits)
    qed
  qed
next
  case False
  with obj run have d: "resource_reconcileDelete env object h0 = (m, h)" by (simp add: ResourceSet_Reconcile_def Let_def)
  show ?thesis
  proof (cases "runtime_cleanup object \<and> (\<exists>c. targetClient env object = Inr (Some c))")
    case True
    then obtain c where t: "runtime_cleanup object" "targetClient env object = Inr (Some c)" by blast
    with d have "after_session (pruneInventory (xe_sha env) (rsst_Inventory (rset_Status object)) (resourceSetRuntimeTarget object) c)
        (\<lambda>e. locally (cleanup_failed env object e)) (\<lambda>_. locally (finishDelete env object False ''runtime inventory cleaned'')) h0 = (m, h)"
      by (simp add: resource_reconcileDelete_def runtime_cleanup_def contains_string_def)
    then show ?thesis by (cases rule: after_session_cases) (use cleaning [OF t] in fastforce)+
  next
    case no: False
    with d False have "h = h0"
      by (auto simp: resource_reconcileDelete_def runtime_cleanup_def contains_string_def split: option.splits sum.splits if_splits)
    then show ?thesis using no by (rule quiet)
  qed
qed

text \<open>
  C13. A target cluster is touched only through the client of an accepted target binding, and only while
  the runtime is open (allowed, unfenced, within the inventory limit) or its owner is being deleted with
  inventory left: in every other case a reconcile sends the target no request at all.
\<close>
theorem closed_runtime_is_untouched:
  assumes obj: "xe_get env = Inr object" and run: "ResourceSet_Reconcile env h0 = (m, h)" and touched: "h \<noteq> h0"
  shows "(runtime_open env object \<or> runtime_cleanup object) \<and> (\<exists>c. targetClient env object = Inr (Some c))
     \<and> (\<exists>binding. resourceSetTargetBinding (Some object) = Inr binding)"
proof -
  have "\<exists>binding. resourceSetTargetBinding (Some object) = Inr binding" if "targetClient env object = Inr (Some c)" for c
    using that by (auto simp: targetClient_def)
  with touched show ?thesis by (cases rule: resource_reconcile_cases [OF obj run]) blast+
qed

text \<open>
  C11. The controller deletes from a target only what it owns: every delete is of an unprotected item of
  the recorded inventory, of this target, which it has just read with the same UID and its ownership
  labels, and the delete is bound to that UID and to the version it read.
\<close>
theorem prunes_only_owned_items:
  assumes obj: "xe_get env = Inr object"
    and run: "ResourceSet_Reconcile env h0 = (m, later @ DeleteR r ns name uid version # earlier)"
    and new: "length h0 \<le> length earlier"
  shows "\<exists>c item before_read u. targetClient env object = Inr (Some c)
     \<and> item \<in> set (rsst_Inventory (rset_Status object)) \<and> \<not> IsProtected item
     \<and> r = item_gvr item \<and> ns = iis_Namespace item \<and> name = iis_Name item
     \<and> earlier = GetR r ns name # before_read \<and> tc_get c before_read r ns name = Inr u
     \<and> uid = iis_UID item \<and> un_UID u = uid \<and> un_ResourceVersion u = version
     \<and> iis_TargetIdentityDigest item = runtime_target_Digest (xe_sha env) (resourceSetRuntimeTarget object)
     \<and> glookup (un_Labels u) managedByLabel = ''platform-control-plane''
     \<and> (iis_OwnershipID item \<noteq> [] \<longrightarrow> glookup (un_Labels u) ownershipIDLabel = iis_OwnershipID item)"
proof -
  let ?h = "later @ DeleteR r ns name uid version # earlier"
  have "\<exists>c. targetClient env object = Inr (Some c) \<and> prunes_only env c object h0 ?h"
    using obj run
  proof (cases rule: resource_reconcile_cases)
    case quiet
    then have "length h0 = length later + Suc (length earlier)" by (metis length_Cons length_append)
    with new show ?thesis by simp
  next
    case (applying c objects)
    from applying(4) have "prunes_only env c object h0 ?h" by (cases rule: apply_runtime_cases) auto
    with applying(2) show ?thesis by blast
  next
    case (cleaning c res)
    from pruneInventory_history [OF cleaning(3)] have "prunes_only env c object h0 ?h" unfolding prunes_only_def by blast
    with cleaning(2) show ?thesis by blast
  qed
  then obtain c new where c: "targetClient env object = Inr (Some c)" and n: "new @ h0 = ?h"
    "requests_ok (prune_ok (xe_sha env) c (resourceSetRuntimeTarget object) (set (rsst_Inventory (rset_Status object)))) new h0"
    unfolding prunes_only_def by metis
  from requests_ok_split [OF n(2,1) new] obtain item where item: "item \<in> set (rsst_Inventory (rset_Status object))"
    "\<not> IsProtected item" "delete_ok (xe_sha env) c (resourceSetRuntimeTarget object) item earlier (DeleteR r ns name uid version)"
    unfolding prune_ok_def by blast
  from item(3) obtain before_read u where d: "r = item_gvr item" "ns = iis_Namespace item" "name = iis_Name item"
    "earlier = GetR r ns name # before_read" "tc_get c before_read r ns name = Inr u" "uid = un_UID u"
    "version = un_ResourceVersion u"
    "ValidatePrune (xe_sha env) item (resourceSetRuntimeTarget object) (Some u) = None"
    unfolding delete_ok_def by blast
  from d(8) have "un_UID u = iis_UID item" "glookup (un_Labels u) managedByLabel = ''platform-control-plane''"
    "iis_TargetIdentityDigest item = runtime_target_Digest (xe_sha env) (resourceSetRuntimeTarget object)"
    "iis_OwnershipID item \<noteq> [] \<longrightarrow> glookup (un_Labels u) ownershipIDLabel = iis_OwnershipID item"
    by (auto simp: ValidatePrune_def Let_def)
  with c item(1,2) d(1-7) show ?thesis by metis
qed

subsection \<open>Writes of a reconcile\<close>

lemma setRuntimeStatus_log [eff_simps]:
  "w \<in> set (fst (setRuntimeStatus env object inventory limit status reason message)) \<longleftrightarrow>
     (let s = runtime_status env object inventory limit status reason message in
      rset_Status object \<noteq> s \<and> w = UpdateResourceSetStatusW (object\<lparr>rset_Status := s\<rparr>))"
  by (auto simp: setRuntimeStatus_def Let_def eff_simps)

lemma report_runtime_log [eff_simps]:
  "w \<in> set (fst (report_runtime env object inventory (message, reason, status))) \<longleftrightarrow>
     w \<in> set (fst (setRuntimeStatus env object (Some inventory) False status reason message))"
  by (simp add: report_runtime_def eff_simps)

lemma with_runtime_condition_ready [simp]:
  "conditionReadyForGeneration (rsst_Conditions (with_runtime_condition env object status reason message st)) ConditionReady g \<longleftrightarrow>
     status = ConditionTrue \<and> om_Generation (rset_Meta object) = g"
  by (simp add: with_runtime_condition_def conditionReadyForGeneration_def findCondition_def [of "[_]"])

lemma runtime_status_ready [simp]:
  "conditionReadyForGeneration (rsst_Conditions (runtime_status env object inventory limit status reason message)) ConditionReady g \<longleftrightarrow>
     status = ConditionTrue \<and> om_Generation (rset_Meta object) = g"
  by (simp add: runtime_status_def Let_def)

lemma runtime_status_inventory [simp]:
  "rsst_Inventory (runtime_status env object (Some items) limit status reason message) = items"
  "rsst_Inventory (runtime_status env object None limit status reason message) = rsst_Inventory (rset_Status object)"
  by (simp_all add: runtime_status_def with_runtime_condition_def inventoryStatus_def Let_def)

lemma present_gate_log:
  assumes "present_gate env object = Some m" and "w \<in> set (fst m)"
  shows "\<exists>s. w = UpdateResourceSetStatusW (object\<lparr>rset_Status := s\<rparr>)
     \<and> \<not> conditionReadyForGeneration (rsst_Conditions s) ConditionReady g"
  using assms
  by (auto simp: present_gate_def block_runtime_def blocked_status_def Let_def eff_simps split: if_splits)

lemma status_update_inject [simp]: "object\<lparr>rset_Status := s\<rparr> = object\<lparr>rset_Status := t\<rparr> \<longleftrightarrow> s = t"
  by (cases object) simp

text \<open>The writes of a present reconcile: a status that is not Ready, or the report of an apply.\<close>

lemma reconcilePresent_writes:
  assumes run: "resource_reconcilePresent env object h0 = (m, h)" and w: "w \<in> set (fst m)"
  obtains (unready) s where "w = UpdateResourceSetStatusW (object\<lparr>rset_Status := s\<rparr>)"
      and "\<And>g. \<not> conditionReadyForGeneration (rsst_Conditions s) ConditionReady g"
  | (applied) c objects where "present_gate env object = None" and "targetClient env object = Inr (Some c)"
      and "bootstrapObjects (xe_decode env) (rss_Resources (rset_Spec object)) (rss_OwnershipID (rset_Spec object)) = Inr objects"
      and "apply_runtime env object c objects h0 = (m, h)"
proof (cases "present_gate env object")
  case (Some g)
  with run have "m = g" by (simp add: resource_reconcilePresent_def)
  with Some w present_gate_log [of env object g w] obtain s where s: "w = UpdateResourceSetStatusW (object\<lparr>rset_Status := s\<rparr>)" by blast
  moreover have "\<not> conditionReadyForGeneration (rsst_Conditions s) ConditionReady k" for k
    using Some w \<open>m = g\<close> present_gate_log [of env object g w k] s by auto
  ultimately show ?thesis by (rule unready)
next
  case None
  have refused: ?thesis if "m = setRuntimeStatus env object None False status reason message" "status \<noteq> ConditionTrue"
    for status reason message
    by (rule unready) (use that w in \<open>auto simp: setRuntimeStatus_log Let_def\<close>)
  show ?thesis
  proof (cases "targetClient env object")
    case (Inl e)
    with run None show ?thesis by (intro refused) (auto simp: resource_reconcilePresent_def refuse_runtime_def)
  next
    case (Inr client)
    show ?thesis
    proof (cases client)
      case None
      with run \<open>present_gate env object = None\<close> Inr show ?thesis
        by (intro refused [of ConditionUnknown]) (auto simp: resource_reconcilePresent_def)
    next
      case (Some c)
      show ?thesis
      proof (cases "bootstrapObjects (xe_decode env) (rss_Resources (rset_Spec object)) (rss_OwnershipID (rset_Spec object))")
        case (Inl e)
        with run None Inr Some show ?thesis
          by (intro refused [of ConditionFalse]) (auto simp: resource_reconcilePresent_def refuse_runtime_def)
      next
        case (Inr objects)
        with run None \<open>targetClient env object = Inr client\<close> Some show ?thesis
          by (intro applied) (auto simp: resource_reconcilePresent_def)
      qed
    qed
  qed
qed

lemma reconcilePresent_status_only:
  assumes "resource_reconcilePresent env object h0 = (m, h)" and "w \<in> set (fst m)"
  shows "\<exists>s. w = UpdateResourceSetStatusW s"
  using assms
proof (cases rule: reconcilePresent_writes)
  case (applied c objects)
  from applied(4) show ?thesis
    by (cases rule: apply_runtime_cases) (use assms(2) in \<open>auto simp: eff_simps Let_def\<close>)
qed blast

text \<open>
  C14. A deletion ends only when nothing owned is left: the finalizer is removed only from a ResourceSet
  under deletion, and only after every unprotected item of its inventory was read as gone from its target.
\<close>
theorem finalizer_waits_for_cleanup:
  assumes obj: "xe_get env = Inr object" and run: "ResourceSet_Reconcile env h0 = (m, h)"
    and w: "UpdateResourceSetW s \<in> set (fst m)" and drop: "resourceSetFinalizer \<notin> set (om_Finalizers (rset_Meta s))"
  shows "om_DeletionTimestamp (rset_Meta object) \<noteq> None
     \<and> (\<forall>item \<in> set (rsst_Inventory (rset_Status object)). \<not> IsProtected item \<longrightarrow>
          (\<exists>c. targetClient env object = Inr (Some c) \<and> seen_gone c item h))"
proof (cases "om_DeletionTimestamp (rset_Meta object) = None")
  case True
  show ?thesis
  proof (cases "contains_string (om_Finalizers (rset_Meta object)) resourceSetFinalizer")
    case False
    with obj run True w drop show ?thesis by (auto simp: ResourceSet_Reconcile_def Let_def eff_simps)
  next
    case fin: True
    with obj run True have "resource_reconcilePresent env object h0 = (m, h)"
      by (simp add: ResourceSet_Reconcile_def Let_def)
    with reconcilePresent_status_only w show ?thesis by blast
  qed
next
  case False
  from obj run show ?thesis
  proof (cases rule: resource_reconcile_cases)
    case quiet
    from obj run False have d: "resource_reconcileDelete env object h0 = (m, h)" by (simp add: ResourceSet_Reconcile_def Let_def)
    have "rsst_Inventory (rset_Status object) = []"
      using d w quiet(2) False
      by (auto simp: resource_reconcileDelete_def runtime_cleanup_def contains_string_def split: option.splits sum.splits if_splits)
    with False show ?thesis by simp
  next
    case (applying c objects)
    with False show ?thesis by (simp add: runtime_open_def)
  next
    case (cleaning c res)
    have "\<not> isl res"
      using cleaning(4) w by (cases res) (auto simp: cleanup_failed_def eff_simps split: if_splits)
    then have "res = Inr ()" by (cases res) auto
    with pruneInventory_history [OF cleaning(3)] cleaning(2) False show ?thesis by blast
  qed
qed

text \<open>
  C15. Ready is reported only for what was observed. Where the status of a ResourceSet that is not being deleted
  is written as Ready, the runtime is open, and in this very reconcile every declared object was applied with the
  field manager of the set, the recorded inventory has one entry for each of them, and after all of them had been applied
  each entry was read as ready, or as present where its policy asks for no more.
\<close>
theorem runtime_ready_is_observed:
  assumes obj: "xe_get env = Inr object" and live: "om_DeletionTimestamp (rset_Meta object) = None"
    and run: "ResourceSet_Reconcile env h0 = (m, h)" and w: "UpdateResourceSetStatusW s \<in> set (fst m)"
    and ready: "conditionReadyForGeneration (rsst_Conditions (rset_Status s)) ConditionReady g"
  shows "runtime_open env object \<and> (\<exists>c objects reads applied. targetClient env object = Inr (Some c)
     \<and> bootstrapObjects (xe_decode env) (rss_Resources (rset_Spec object)) (rss_OwnershipID (rset_Spec object)) = Inr objects
     \<and> h = reads @ applied @ h0
     \<and> (\<forall>i \<in> set objects. apply_request (fieldManager (xe_sha env) object) i \<in> set applied)
     \<and> list_all2 (recorded (xe_sha env) (resourceSetRuntimeTarget object)) (sort_key bo_Wave objects) (rsst_Inventory (rset_Status s))
     \<and> (\<forall>item \<in> set (rsst_Inventory (rset_Status s)). seen_serving (length (applied @ h0)) c item h))"
proof -
  have "contains_string (om_Finalizers (rset_Meta object)) resourceSetFinalizer"
    using obj run live w by (cases "contains_string (om_Finalizers (rset_Meta object)) resourceSetFinalizer")
      (auto simp: ResourceSet_Reconcile_def Let_def eff_simps)
  with obj run live have "resource_reconcilePresent env object h0 = (m, h)" by (simp add: ResourceSet_Reconcile_def Let_def)
  from this w show ?thesis
  proof (cases rule: reconcilePresent_writes)
    case (unready s')
    with ready show ?thesis by auto
  next
    case (applied c objects)
    note open_now = present_gate_open [OF applied(1) live]
    note of_spec = \<open>targetClient env object = Inr (Some c)\<close>
      \<open>bootstrapObjects (xe_decode env) (rss_Resources (rset_Spec object)) (rss_OwnershipID (rset_Spec object)) = Inr objects\<close>
    from applied(4) show ?thesis
    proof (cases rule: apply_runtime_cases)
      case (refused reason e)
      with w ready show ?thesis by (auto simp: setRuntimeStatus_log Let_def)
    next
      case empty
      then obtain new where "h = new @ h0" by (auto simp: prunes_only_def)
      with empty w of_spec open_now show ?thesis
        by (intro conjI exI [of _ c] exI [of _ "[]"] exI [of _ new]) (auto simp: setRuntimeStatus_log Let_def)
    next
      case (applied inventory h1 h2 message reason status)
      from applied(6) w ready have s: "rsst_Inventory (rset_Status s) = inventory" "status = ConditionTrue"
        by (auto simp: report_runtime_log setRuntimeStatus_log Let_def)
      from ApplyBootstrap_applies [OF applied(2)] obtain new1 where new1: "h1 = new1 @ h0"
        "apply_request (fieldManager (xe_sha env) object) ` set objects \<subseteq> set new1" by blast
      from applied(4) obtain new2 where new2: "h2 = new2 @ h1" ..
      from readiness_loop_history [OF applied(5) [unfolded runtimeReadiness_def]] s(2) obtain new3 where
        new3: "h = new3 @ h2" "\<forall>item \<in> set inventory. seen_serving (length h2) c item h" by blast
      have "\<forall>item \<in> set inventory. seen_serving (length (new1 @ h0)) c item h"
        using new3(2) seen_serving_earlier [of "length h2" c _ h "length (new1 @ h0)"] by (simp add: new1(1) new2)
      moreover have "h = (new3 @ new2) @ new1 @ h0" by (simp add: new3(1) new2 new1(1))
      ultimately show ?thesis using ApplyBootstrap_history [OF applied(2)] s(1) open_now new1(2) of_spec by blast
    qed
  qed
qed

subsection \<open>A failed bootstrap\<close>

text \<open>
  An apply that fails is not inventoried: when the bootstrap of a ResourceSet without inventory fails,
  the requests it had sent stay in the history of the target but the recorded status keeps an empty
  inventory, and the deletion of that ResourceSet then sends the target nothing and drops the finalizer,
  so the objects that were applied stay behind.
\<close>
theorem failed_bootstrap_leaves_objects:
  assumes obj: "xe_get env = Inr object" and live: "om_DeletionTimestamp (rset_Meta object) = None"
    and fin: "resourceSetFinalizer \<in> set (om_Finalizers (rset_Meta object))"
    and gate: "present_gate env object = None" and client: "targetClient env object = Inr (Some c)"
    and objects: "bootstrapObjects (xe_decode env) (rss_Resources (rset_Spec object)) (rss_OwnershipID (rset_Spec object)) = Inr objects"
      "objects \<noteq> []"
    and failed: "ApplyBootstrap (xe_sha env) c objects (fieldManager (xe_sha env) object) (resourceSetRuntimeTarget object) h0 = (Inl e, h1)"
    and none: "rsst_Inventory (rset_Status object) = []"
  shows "snd (ResourceSet_Reconcile env h0) = h1
     \<and> (\<forall>s. UpdateResourceSetStatusW s \<in> set (fst (fst (ResourceSet_Reconcile env h0))) \<longrightarrow> rsst_Inventory (rset_Status s) = [])
     \<and> (\<forall>env' s. xe_get env' = Inr s \<and> rsst_Inventory (rset_Status s) = [] \<and> om_DeletionTimestamp (rset_Meta s) \<noteq> None
          \<and> resourceSetFinalizer \<in> set (om_Finalizers (rset_Meta s)) \<and> xe_answer env' = (\<lambda>_. None) \<longrightarrow>
          snd (ResourceSet_Reconcile env' h1) = h1
          \<and> (\<exists>s'. UpdateResourceSetW s' \<in> set (fst (fst (ResourceSet_Reconcile env' h1)))
               \<and> resourceSetFinalizer \<notin> set (om_Finalizers (rset_Meta s'))))"
proof -
  from obj live fin gate client objects failed
  have run: "ResourceSet_Reconcile env h0
      = (setRuntimeStatus env object None False ConditionFalse ''RuntimeApplyFailed'' (err_text e), h1)"
    by (simp add: ResourceSet_Reconcile_def resource_reconcilePresent_def apply_runtime_def after_session_def refuse_runtime_def
        contains_string_def Let_def)
  have "snd (ResourceSet_Reconcile env' h1) = h1
      \<and> (\<exists>s'. UpdateResourceSetW s' \<in> set (fst (fst (ResourceSet_Reconcile env' h1)))
           \<and> resourceSetFinalizer \<notin> set (om_Finalizers (rset_Meta s')))"
    if "xe_get env' = Inr s" "rsst_Inventory (rset_Status s) = []" "om_DeletionTimestamp (rset_Meta s) \<noteq> None"
      "resourceSetFinalizer \<in> set (om_Finalizers (rset_Meta s))" "xe_answer env' = (\<lambda>_. None)" for env' s
    using that
    by (auto simp: ResourceSet_Reconcile_def resource_reconcileDelete_def finishDelete_def contains_string_def removeString_def
        Let_def eff_simps)
  with run none show ?thesis by (auto simp: setRuntimeStatus_log Let_def)
qed

subsection \<open>Instances\<close>

text \<open>A hash for the instances, and a kind cluster that forgets an object once it is deleted.\<close>

definition blank :: hash where "blank s = []"

lemma blank_digest [simp]: "Digest blank v = ''sha256:''"
  by (simp add: Digest_def blank_def)

definition owned_item :: inventory_item where
  "owned_item = \<lparr>iis_TargetIdentityDigest = ''sha256:'', iis_Group = [], iis_Version = ''v1'', iis_Resource = ''services'',
     iis_Kind = ''Service'', iis_Namespace = ''n'', iis_Name = ''a'', iis_UID = ''u'', iis_OwnershipID = ''o'',
     iis_ReadinessPolicy = ''ApplyOnly'', iis_DeletionPolicy = ''Prune''\<rparr>"

definition served_object :: unstructured where
  "served_object = (bo_Object (sample_object ''a'' 0))\<lparr>un_Labels :=
     [(managedByLabel, ''platform-control-plane''), (ownershipIDLabel, ''o'')]\<rparr>"

definition is_delete :: "target_request \<Rightarrow> bool" where
  "is_delete q = (case q of DeleteR r ns name uid version \<Rightarrow> True | _ \<Rightarrow> False)"

definition forgetful_cluster :: target_cluster where
  "forgetful_cluster = \<lparr>tc_get = (\<lambda>h r ns name. if list_ex is_delete h then Inl (ApiErr NotFound []) else Inr served_object),
     tc_apply = (\<lambda>h r u fm. if un_Name u = ''a'' then Inr u else Inl (ApiErr Forbidden [])),
     tc_delete = (\<lambda>h r ns name uid version. None)\<rparr>"

definition deleted_set :: resource_set where
  "deleted_set = \<lparr>rset_Meta = empty_meta\<lparr>om_Name := ''r'', om_Finalizers := [resourceSetFinalizer], om_DeletionTimestamp := Some 1\<rparr>,
     rset_Spec = zero_resource_set_spec\<lparr>rss_Target := zero_target_reference\<lparr>tr_Provider := ''kind'', tr_ClusterName := ''k''\<rparr>\<rparr>,
     rset_Status = \<lparr>rsst_ObservedGeneration = 0, rsst_Conditions = [], rsst_TargetIdentityDigest = [],
       rsst_Inventory = [owned_item], rsst_InventoryItems = 1, rsst_InventoryLimitExceeded = False, rsst_RuntimeCleanupSkipped = False,
       rsst_MutationBlocked = False, rsst_CleanupEvidenceRef = [], rsst_CleanupEvidenceDigest = []\<rparr>\<rparr>"

definition live_set :: "runtime_object list \<Rightarrow> resource_set" where
  "live_set objects = deleted_set\<lparr>rset_Meta := (rset_Meta deleted_set)\<lparr>om_DeletionTimestamp := None\<rparr>,
     rset_Spec := (rset_Spec deleted_set)\<lparr>rss_RuntimeMutationAllowed := True, rss_OwnershipID := ''o'', rss_Resources := objects\<rparr>,
     rset_Status := (rset_Status deleted_set)\<lparr>rsst_Inventory := []\<rparr>\<rparr>"

definition resource_env_of :: "resource_set \<Rightarrow> resource_env" where
  "resource_env_of object = \<lparr>xe_now = 3, xe_sha = blank, xe_get = Inr object, xe_resolver = None,
     xe_client = Some forgetful_cluster, xe_decode = (\<lambda>raw. Inr (bo_Object (sample_object raw 0))), xe_answer = (\<lambda>_. None)\<rparr>"

lemma resource_env_of_fields [simp]:
  "xe_sha (resource_env_of object) = blank" "xe_get (resource_env_of object) = Inr object"
  "xe_resolver (resource_env_of object) = None" "xe_client (resource_env_of object) = Some forgetful_cluster"
  "xe_answer (resource_env_of object) = (\<lambda>_. None)"
  by (simp_all add: resource_env_of_def)

lemma kind_binding:
  assumes "rset_Spec object = (rset_Spec deleted_set)\<lparr>rss_RuntimeMutationAllowed := a, rss_OwnershipID := o', rss_Resources := rs\<rparr>"
  shows "targetClient (resource_env_of object) object = Inr (Some forgetful_cluster)"
proof -
  have "\<not> isl (materializeTarget (rss_Target (rset_Spec deleted_set)))" by code_simp
  then obtain s where s: "materializeTarget (rss_Target (rset_Spec deleted_set)) = Inr s"
    by (cases "materializeTarget (rss_Target (rset_Spec deleted_set))") auto
  have "rss_TrustedRuntimeTargetIdentity (rset_Spec deleted_set) = None"
    "rss_TrustedTargetConnectionProfile (rset_Spec deleted_set) = None"
    "tr_Provider (rss_Target (rset_Spec deleted_set)) \<noteq> ProviderAWS" by code_simp+
  with s assms show ?thesis
    by (simp add: targetClient_def resourceSetTargetBinding_def sum_bind_def Let_def)
qed

lemma deleted_set_client: "targetClient (resource_env_of deleted_set) deleted_set = Inr (Some forgetful_cluster)"
  by (rule kind_binding [where a = "rss_RuntimeMutationAllowed (rset_Spec deleted_set)" and o' = "rss_OwnershipID (rset_Spec deleted_set)"
      and rs = "rss_Resources (rset_Spec deleted_set)"]) simp

abbreviation item_read :: target_request where
  "item_read \<equiv> GetR (item_gvr owned_item) ''n'' ''a''"

lemma deleted_set_run:
  "ResourceSet_Reconcile (resource_env_of deleted_set) []
     = (finishDelete (resource_env_of deleted_set) deleted_set False ''runtime inventory cleaned'',
        [item_read, DeleteR (item_gvr owned_item) ''n'' ''a'' ''u'' ''1'', item_read])"
proof -
  have facts: "\<not> IsProtected owned_item" "iis_Namespace owned_item = ''n''" "iis_Name owned_item = ''a''" "iis_Resource owned_item \<noteq> []"
    "un_UID served_object = ''u''" "un_ResourceVersion served_object = ''1''"
    "om_DeletionTimestamp (rset_Meta deleted_set) = Some 1" "rsst_Inventory (rset_Status deleted_set) = [owned_item]"
    "contains_string (om_Finalizers (rset_Meta deleted_set)) resourceSetFinalizer" by code_simp+
  have "ValidatePrune blank owned_item target (Some served_object) = None" for target
    by (simp add: ValidatePrune_def runtime_target_Digest_def owned_item_def served_object_def sample_object_def glookup_def
        managedByLabel_def ownershipIDLabel_def IsProtected_def equal_fold_def to_lower_def lower_char_def Let_def)
  with facts show ?thesis
    by (simp add: ResourceSet_Reconcile_def resource_reconcileDelete_def deleted_set_client after_session_def pruneItem_def
        confirm_gone_def s_bind_def s_case_def s_delete_def read_item_def session_simps forgetful_cluster_def is_delete_def
        inventoryFromStatus_def Let_def)
qed

theorem closed_runtime_is_untouched_witness: "runtime_cleanup deleted_set"
proof -
  have "om_DeletionTimestamp (rset_Meta deleted_set) \<noteq> None" by code_simp
  with closed_runtime_is_untouched [OF _ deleted_set_run] show ?thesis by (simp add: runtime_open_def)
qed

theorem prunes_only_owned_items_witness:
  "owned_item \<in> set (rsst_Inventory (rset_Status deleted_set)) \<and> \<not> IsProtected owned_item \<and> iis_UID owned_item = ''u''"
proof -
  have h: "ResourceSet_Reconcile (resource_env_of deleted_set) []
     = (finishDelete (resource_env_of deleted_set) deleted_set False ''runtime inventory cleaned'',
        [item_read] @ DeleteR (item_gvr owned_item) ''n'' ''a'' ''u'' ''1'' # [item_read])" by (simp add: deleted_set_run)
  have i: "rsst_Inventory (rset_Status deleted_set) = [owned_item]" by code_simp
  from prunes_only_owned_items [OF _ h] obtain item where
    "item \<in> set (rsst_Inventory (rset_Status deleted_set))" "\<not> IsProtected item" "''u'' = iis_UID item" by auto
  with i show ?thesis by auto
qed

theorem finalizer_waits_for_cleanup_witness:
  "seen_gone forgetful_cluster owned_item (snd (ResourceSet_Reconcile (resource_env_of deleted_set) []))"
proof -
  have o: "owned_item \<in> set (rsst_Inventory (rset_Status deleted_set))" "\<not> IsProtected owned_item"
    by (simp add: deleted_set_def) code_simp
  have "\<exists>s. UpdateResourceSetW s \<in> set (fst (finishDelete (resource_env_of deleted_set) deleted_set False ''runtime inventory cleaned''))
      \<and> resourceSetFinalizer \<notin> set (om_Finalizers (rset_Meta s))"
    by (simp add: finishDelete_def eff_simps Let_def removeString_def)
  then obtain s where "UpdateResourceSetW s \<in> set (fst (finishDelete (resource_env_of deleted_set) deleted_set False ''runtime inventory cleaned''))"
    "resourceSetFinalizer \<notin> set (om_Finalizers (rset_Meta s))" by blast
  from finalizer_waits_for_cleanup [OF _ deleted_set_run this] o show ?thesis
    by (simp add: deleted_set_run deleted_set_client)
qed

lemma live_set_open:
  assumes "length objects \<le> 2"
  shows "present_gate (resource_env_of (live_set objects)) (live_set objects) = None"
    and "targetClient (resource_env_of (live_set objects)) (live_set objects) = Inr (Some forgetful_cluster)"
    and "om_DeletionTimestamp (rset_Meta (live_set objects)) = None"
    and "resourceSetFinalizer \<in> set (om_Finalizers (rset_Meta (live_set objects)))"
    and "rss_Resources (rset_Spec (live_set objects)) = objects" and "rsst_Inventory (rset_Status (live_set objects)) = []"
proof -
  have "rss_MaxInventoryItems (rset_Spec deleted_set) = 0" "\<not> rss_MutationFence (rset_Spec deleted_set)" by code_simp+
  moreover have "to_int32 (int (length objects)) \<le> 2" using assms to_int32_id [of "int (length objects)"] by simp
  ultimately show "present_gate (resource_env_of (live_set objects)) (live_set objects) = None"
    by (simp add: present_gate_def effective_limit_def defaultMaxInventoryItems_def live_set_def Let_def)
  show "targetClient (resource_env_of (live_set objects)) (live_set objects) = Inr (Some forgetful_cluster)"
    by (rule kind_binding [where a = True and o' = "''o''" and rs = objects]) (simp add: live_set_def)
qed (simp_all add: live_set_def deleted_set_def)

text \<open>Of two declared objects the first is applied and the second refused.\<close>

definition declared :: "string \<Rightarrow> runtime_object" where
  "declared name = \<lparr>ro_Group = [], ro_Version = ''v1'', ro_Resource = ''services'', ro_Wave = 0, ro_ReadinessPolicy = [],
     ro_DeletionPolicy = [], ro_OwnershipID = [], ro_Object = name\<rparr>"

definition half_refused :: "bootstrap_object list" where
  "half_refused = map (\<lambda>name. (sample_object name 0)\<lparr>bo_GVR := \<lparr>gvr_Group = [], gvr_Version = ''v1'', gvr_Resource = ''services''\<rparr>,
     bo_ReadinessPolicy := ''ApplyOnly'', bo_DeletionPolicy := ''Prune'', bo_OwnershipID := ''o''\<rparr>) [''a'', ''b'']"

lemma half_refused_apply:
  assumes "item \<in> set half_refused" and fm: "fm \<noteq> []"
  shows "\<exists>r. apply_item sha forgetful_cluster fm target item h = (r, apply_request fm item # h)
     \<and> (isl r \<longleftrightarrow> un_Name (bo_Object item) \<noteq> ''a'')"
proof -
  from assms(1) obtain name where i: "item = (sample_object name 0)\<lparr>bo_GVR := \<lparr>gvr_Group = [], gvr_Version = ''v1'',
      gvr_Resource = ''services''\<rparr>, bo_ReadinessPolicy := ''ApplyOnly'', bo_DeletionPolicy := ''Prune'', bo_OwnershipID := ''o''\<rparr>"
    and n: "name = ''a'' \<or> name = ''b''" by (auto simp: half_refused_def)
  have "snd (snd (gvk (labelled item))) \<noteq> []" by (simp add: i gvk_def labelled_def sample_object_def Let_def)
  then have "ValidateRuntimeObject (Some (labelled item)) = None"
    using n by (auto simp: i ValidateRuntimeObject_def labelled_def sample_object_def Let_def)
  then show ?thesis using n fm
    by (auto simp: i apply_item_def s_case_def runtime_Apply_def session_simps forgetful_cluster_def apply_request_def sent_def
        InventoryFor_def labelled_def sample_object_def Let_def split: prod.splits)
qed

text \<open>One declared object, applied and read back.\<close>

abbreviation one_object :: resource_set where
  "one_object \<equiv> live_set [declared ''a'']"

lemma first_applied:
  "apply_item blank forgetful_cluster ''pcp-runtime-'' target (half_refused ! 0) []
     = (Inr owned_item, [apply_request ''pcp-runtime-'' (half_refused ! 0)])"
proof -
  have i: "half_refused ! 0 = (sample_object ''a'' 0)\<lparr>bo_GVR := \<lparr>gvr_Group = [], gvr_Version = ''v1'',
      gvr_Resource = ''services''\<rparr>, bo_ReadinessPolicy := ''ApplyOnly'', bo_DeletionPolicy := ''Prune'', bo_OwnershipID := ''o''\<rparr>"
    by (simp add: half_refused_def)
  have g: "gvk u = ([], ''v1'', ''Service'')" if "un_APIVersion u = ''v1''" "un_Kind u = ''Service''" for u
    using that by (simp add: gvk_def Let_def)
  have "ValidateRuntimeObject (Some (labelled (half_refused ! 0))) = None"
    by (simp add: i ValidateRuntimeObject_def g labelled_def sample_object_def Let_def)
  then show ?thesis
    by (simp add: i apply_item_def s_case_def runtime_Apply_def session_simps forgetful_cluster_def apply_request_def sent_def
        InventoryFor_def runtime_target_Digest_def inventory_entry_def owned_item_def g labelled_def sample_object_def Let_def)
qed

lemma one_object_run:
  "ResourceSet_Reconcile (resource_env_of one_object) []
     = (report_runtime (resource_env_of one_object) one_object [owned_item]
          (show_nat 1 @ '' runtime objects are ready'', ''RuntimeReady'', ConditionTrue),
        [item_read, apply_request ''pcp-runtime-'' (half_refused ! 0)])"
proof -
  let ?env = "resource_env_of one_object"
  have one: "length [declared ''a''] \<le> 2" by simp
  note o = live_set_open [OF one]
  have b: "bootstrapObjects (xe_decode ?env) [declared ''a''] (rss_OwnershipID (rset_Spec one_object)) = Inr [half_refused ! 0]"
  proof -
    have "rss_OwnershipID (rset_Spec one_object) = ''o''" by (simp add: live_set_def)
    moreover have "bootstrapObjects (\<lambda>raw. Inr (bo_Object (sample_object raw 0))) [declared ''a''] ''o'' = Inr [half_refused ! 0]" by code_simp
    ultimately show ?thesis by (simp add: resource_env_of_def)
  qed
  have fm: "fieldManager blank one_object = ''pcp-runtime-''" by (simp add: fieldManager_def blank_def Let_def)
  have relaxed: "bo_ReadinessPolicy (half_refused ! 0) = ''ApplyOnly''" by (simp add: half_refused_def)
  have boot: "ApplyBootstrap blank forgetful_cluster [half_refused ! 0] ''pcp-runtime-'' target []
      = (Inr [owned_item], [apply_request ''pcp-runtime-'' (half_refused ! 0)])" for target
    using relaxed by (simp add: ApplyBootstrap_def orderBootstrapObjects_def s_bind_def first_applied check_item_def session_simps Let_def)
  have "length (json_text (JArr (map inventory_item_status_json (inventoryStatus [owned_item])))) \<le> 300" by code_simp
  then have size: "validateInventorySize [owned_item] = None"
    by (simp add: validateInventorySize_def maxInventoryStatusBytes_def Let_def)
  have "un_DeletionTimestamp served_object = None" by (simp add: served_object_def sample_object_def)
  moreover have "iis_ReadinessPolicy owned_item = ''ApplyOnly''" "iis_Namespace owned_item = ''n''" "iis_Name owned_item = ''a''"
    by (simp_all add: owned_item_def)
  moreover have "\<not> is_delete (apply_request fm item)" for fm item by (simp add: apply_request_def is_delete_def)
  ultimately have read: "runtimeReadiness forgetful_cluster [owned_item] [apply_request ''pcp-runtime-'' (half_refused ! 0)]
      = (Inr (show_nat 1 @ '' runtime objects are ready'', ''RuntimeReady'', ConditionTrue),
         [item_read, apply_request ''pcp-runtime-'' (half_refused ! 0)])"
    by (simp add: runtimeReadiness_def s_case_def read_item_def session_simps forgetful_cluster_def readiness_summary_def)
  show ?thesis
    using o b fm by (simp add: ResourceSet_Reconcile_def resource_reconcilePresent_def apply_runtime_def after_session_def
        boot session_simps size read contains_string_def Let_def)
qed

theorem runtime_ready_is_observed_witness:
  "apply_request ''pcp-runtime-'' (half_refused ! 0) \<in> set (snd (ResourceSet_Reconcile (resource_env_of one_object) []))
     \<and> seen_serving 1 forgetful_cluster owned_item (snd (ResourceSet_Reconcile (resource_env_of one_object) []))"
proof -
  let ?env = "resource_env_of one_object"
  let ?message = "show_nat 1 @ '' runtime objects are ready''"
  let ?s = "runtime_status ?env one_object (Some [owned_item]) False ConditionTrue ''RuntimeReady'' ?message"
  have one: "length [declared ''a''] \<le> 2" by simp
  note o = live_set_open [OF one]
  have "rsst_Conditions (rset_Status one_object) = []" by (simp add: live_set_def deleted_set_def)
  moreover have "rsst_Conditions ?s \<noteq> []" by (simp add: runtime_status_def with_runtime_condition_def Let_def)
  ultimately have "rset_Status one_object \<noteq> ?s" by metis
  then have w: "UpdateResourceSetStatusW (one_object\<lparr>rset_Status := ?s\<rparr>) \<in> set (fst (report_runtime ?env one_object [owned_item]
      (?message, ''RuntimeReady'', ConditionTrue)))" by (simp add: report_runtime_log setRuntimeStatus_log Let_def)
  from runtime_ready_is_observed [OF _ o(3) one_object_run w, where g = "om_Generation (rset_Meta one_object)"]
  obtain objects reads applied where
    split: "[item_read, apply_request ''pcp-runtime-'' (half_refused ! 0)] = reads @ applied"
    and objs: "list_all2 (recorded blank (resourceSetRuntimeTarget one_object)) (sort_key bo_Wave objects) [owned_item]"
    and sent: "\<forall>i \<in> set objects. apply_request (fieldManager blank one_object) i \<in> set applied"
    and seen: "seen_serving (length applied) forgetful_cluster owned_item [item_read, apply_request ''pcp-runtime-'' (half_refused ! 0)]"
    by (auto simp: o(2))
  from objs have "objects \<noteq> []" by auto
  with sent have "applied \<noteq> []" by (cases objects) auto
  then have "1 \<le> length applied" by (cases applied) auto
  with seen_serving_earlier [OF seen] show ?thesis by (simp add: one_object_run)
qed

lemma half_refused_run:
  assumes fm: "fm \<noteq> []"
  shows "\<exists>e. ApplyBootstrap sha forgetful_cluster half_refused fm target []
     = (Inl e, [apply_request fm (half_refused ! 1), apply_request fm (half_refused ! 0)])"
proof -
  obtain a b where l: "half_refused = [a, b]" and names: "un_Name (bo_Object a) = ''a''" "un_Name (bo_Object b) = ''b''"
    and w: "bo_Wave a = 0" "bo_Wave b = 0" by (simp add: half_refused_def sample_object_def)
  have mem: "a \<in> set half_refused" "b \<in> set half_refused" unfolding l by simp_all
  obtain ra where a: "apply_item sha forgetful_cluster fm target a [] = (ra, [apply_request fm a])" "\<not> isl ra"
    using half_refused_apply [OF mem(1) fm, of sha target "[]"] names by auto
  obtain rb where b: "apply_item sha forgetful_cluster fm target b [apply_request fm a]
      = (rb, [apply_request fm b, apply_request fm a])" "isl rb"
    using half_refused_apply [OF mem(2) fm, of sha target "[apply_request fm a]"] names by auto
  have order: "orderBootstrapObjects [a, b] = [a, b]" using w by (simp add: orderBootstrapObjects_def)
  from a b w show ?thesis
    by (cases ra; cases rb) (auto simp: l ApplyBootstrap_def order s_bind_def session_simps Let_def)
qed

theorem failed_bootstrap_leaves_objects_witness:
  "let objects = [declared ''a'', declared ''b'']; env = resource_env_of (live_set objects);
       gone = (live_set objects)\<lparr>rset_Meta := rset_Meta deleted_set\<rparr>; h = snd (ResourceSet_Reconcile env [])
   in apply_request ''pcp-runtime-'' (half_refused ! 0) \<in> set h \<and> snd (ResourceSet_Reconcile (resource_env_of gone) h) = h"
proof -
  let ?objects = "[declared ''a'', declared ''b'']"
  let ?env = "resource_env_of (live_set ?objects)"
  let ?gone = "(live_set ?objects)\<lparr>rset_Meta := rset_Meta deleted_set\<rparr>"
  have two: "length ?objects \<le> 2" by simp
  note o = live_set_open [OF two]
  have b: "bootstrapObjects (xe_decode ?env) (rss_Resources (rset_Spec (live_set ?objects))) (rss_OwnershipID (rset_Spec (live_set ?objects)))
      = Inr half_refused"
  proof -
    have "rss_OwnershipID (rset_Spec (live_set ?objects)) = ''o''" by (simp add: live_set_def)
    moreover have "bootstrapObjects (\<lambda>raw. Inr (bo_Object (sample_object raw 0))) ?objects ''o'' = Inr half_refused" by code_simp
    ultimately show ?thesis using o(5) by (simp add: resource_env_of_def)
  qed
  have ne: "half_refused \<noteq> []" by (simp add: half_refused_def)
  have fm: "fieldManager (xe_sha ?env) (live_set ?objects) = ''pcp-runtime-''" by (simp add: fieldManager_def blank_def Let_def)
  obtain e where e: "ApplyBootstrap (xe_sha ?env) forgetful_cluster half_refused (fieldManager (xe_sha ?env) (live_set ?objects))
      (resourceSetRuntimeTarget (live_set ?objects)) []
      = (Inl e, [apply_request ''pcp-runtime-'' (half_refused ! 1), apply_request ''pcp-runtime-'' (half_refused ! 0)])"
    using half_refused_run [of "''pcp-runtime-''"] fm by fastforce
  have g: "xe_get (resource_env_of ?gone) = Inr ?gone" "rsst_Inventory (rset_Status ?gone) = []"
    "om_DeletionTimestamp (rset_Meta ?gone) \<noteq> None" "resourceSetFinalizer \<in> set (om_Finalizers (rset_Meta ?gone))"
    "xe_answer (resource_env_of ?gone) = (\<lambda>_. None)"
    using o(6) by (simp_all add: deleted_set_def)
  from failed_bootstrap_leaves_objects [OF _ o(3,4,1,2) b ne e o(6)] g show ?thesis by (simp add: Let_def)
qed

end
