(* ===== verification/PlanView.thy ===== *)
theory PlanView
  imports Prelude "HOL-Library.Product_Lexorder"
begin

section \<open>The plan view: internal/planview\<close>

text \<open>
  The projection of a Terraform plan that the console shows. \<open>json.Unmarshal\<close> is the parameter
  \<open>decode\<close> of \<open>Parse\<close>: it gives the fields of the plan the code reads, with the dynamically typed
  ones (\<open>any\<close>) as a tree. A Go map is the list of its entries in key order, each key once; the
  code's results do not depend on the order in which it ranges over them. A float64 is kept as
  its JSON text, the code only copies it. \<open>sort.Slice\<close> leaves the order of nodes with one
  address open; the stable order taken here is one of its results.
\<close>

datatype go_any =
    ANull
  | ABool bool
  | AFloat string
  | AStr string
  | AList "go_any list"
  | AMap "(string \<times> go_any) list"

type_synonym attributes = "(string \<times> go_any) list"

record raw_change =
  rc_Actions :: "string list"
  rc_Before :: attributes
  rc_After :: attributes
  rc_BeforeSensitive :: go_any
  rc_AfterSensitive :: go_any

record raw_resource =
  rr_Address :: string
  rr_Type :: string
  rr_ProviderName :: string
  rr_Change :: raw_change

record module_resource =
  mr_Address :: string
  mr_Expressions :: "(string \<times> string list) list"

datatype plan_module = PlanModule (pm_Address: string) (pm_Resources: "module_resource list")
  (pm_ChildModules: "plan_module list")

record raw_plan =
  rp_FormatVersion :: string
  rp_ResourceChanges :: "raw_resource list"
  rp_RootModule :: plan_module

record plan_node =
  nd_Address :: string
  nd_Type :: string
  nd_Provider :: string
  nd_Action :: string
  nd_Before :: "attributes option"
  nd_After :: "attributes option"

record plan_edge =
  ed_From :: string
  ed_To :: string

record plan_summary =
  sm_Create :: int
  sm_Update :: int
  sm_Delete :: int
  sm_Replace :: int
  sm_NoOp :: int

record plan_document =
  pd_Version :: int
  pd_RunUID :: string
  pd_PlanDigest :: string
  pd_Nodes :: "plan_node list"
  pd_Edges :: "plan_edge list"
  pd_Summary :: plan_summary

subsection \<open>Filtering attributes\<close>

definition metadataAttributes :: "string list" where
  "metadataAttributes =
     [''name'', ''id'', ''bucket'', ''region'', ''availability_zone'', ''instance_type'', ''cidr_block'',
      ''engine'', ''engine_version'', ''replicas'', ''port'', ''tags'', ''arn'']"

definition sensitive_parts :: "string list" where
  "sensitive_parts =
     [''password'', ''secret'', ''token'', ''private'', ''credential'', ''accesskey'', ''secretkey'',
      ''certificate'', ''authorization'', ''kubeconfig'', ''userdata'']"

definition isSensitiveKey :: "string \<Rightarrow> bool" where
  "isSensitiveKey key =
     (let k = to_lower (filter (\<lambda>c. c \<noteq> CHR ''_'') (filter (\<lambda>c. c \<noteq> CHR ''-'') key))
      in list_ex (\<lambda>part. str_contains k part) sensitive_parts)"

definition markedSensitive :: "go_any \<Rightarrow> bool" where
  "markedSensitive v = (case v of ABool flag \<Rightarrow> flag | _ \<Rightarrow> False)"

definition nestedMask :: "go_any \<Rightarrow> string \<Rightarrow> go_any" where
  "nestedMask v key =
     (case v of AMap entries \<Rightarrow> (case map_of entries key of None \<Rightarrow> ANull | Some m \<Rightarrow> m) | _ \<Rightarrow> ANull)"

definition safe_tag :: "go_any \<Rightarrow> string \<times> go_any \<Rightarrow> attributes" where
  "safe_tag marks e =
     (if isSensitiveKey (fst e) \<or> markedSensitive (nestedMask marks (fst e)) then []
      else (case snd e of AStr text \<Rightarrow> if length text \<le> 128 then [e] else [] | _ \<Rightarrow> []))"

definition safe_tags :: "go_any \<Rightarrow> go_any \<Rightarrow> attributes" where
  "safe_tags marks v = (case v of AMap tags \<Rightarrow> concat (map (safe_tag marks) tags) | _ \<Rightarrow> [])"

definition safe_attribute :: "go_any \<Rightarrow> string \<times> go_any \<Rightarrow> attributes" where
  "safe_attribute sensitive e =
     (let key = fst e in
      if key \<notin> set metadataAttributes \<or> isSensitiveKey key \<or> markedSensitive sensitive
         \<or> markedSensitive (nestedMask sensitive key) then []
      else if key = ''tags'' then
        (let tags = safe_tags (nestedMask sensitive key) (snd e)
         in if tags = [] then [] else [(key, AMap tags)])
      else (case snd e of
          AStr v \<Rightarrow> if length v \<le> 160 then [e] else []
        | AFloat v \<Rightarrow> [e] | ABool v \<Rightarrow> [e] | ANull \<Rightarrow> [e]
        | AList vs \<Rightarrow> [] | AMap vs \<Rightarrow> []))"

definition safeMetadata :: "attributes \<Rightarrow> go_any \<Rightarrow> attributes option" where
  "safeMetadata values sensitive =
     (let result = concat (map (safe_attribute sensitive) values)
      in if result = [] then None else Some result)"

subsection \<open>Nodes and their summary\<close>

definition classify :: "string list \<Rightarrow> string" where
  "classify actions =
     (if actions = [''delete'', ''create''] \<or> actions = [''create'', ''delete''] then ''replace''
      else if actions = [''create''] then ''create''
      else if actions = [''update''] then ''update''
      else if actions = [''delete''] then ''delete''
      else ''no-op'')"

definition plan_node_of :: "raw_resource \<Rightarrow> plan_node" where
  "plan_node_of r =
     \<lparr>nd_Address = rr_Address r, nd_Type = rr_Type r, nd_Provider = rr_ProviderName r,
      nd_Action = classify (rc_Actions (rr_Change r)),
      nd_Before = safeMetadata (rc_Before (rr_Change r)) (rc_BeforeSensitive (rr_Change r)),
      nd_After = safeMetadata (rc_After (rr_Change r)) (rc_AfterSensitive (rr_Change r))\<rparr>"

definition count_action :: "string \<Rightarrow> plan_summary \<Rightarrow> plan_summary" where
  "count_action action s =
     (if action = ''create'' then s\<lparr>sm_Create := sm_Create s + 1\<rparr>
      else if action = ''update'' then s\<lparr>sm_Update := sm_Update s + 1\<rparr>
      else if action = ''delete'' then s\<lparr>sm_Delete := sm_Delete s + 1\<rparr>
      else if action = ''replace'' then s\<lparr>sm_Replace := sm_Replace s + 1\<rparr>
      else s\<lparr>sm_NoOp := sm_NoOp s + 1\<rparr>)"

definition add_resource :: "raw_resource \<Rightarrow> plan_document \<Rightarrow> plan_document" where
  "add_resource r d =
     (if rr_Address r = [] \<or> rr_Type r = [] then d
      else (let node = plan_node_of r in
        d\<lparr>pd_Nodes := pd_Nodes d @ [node],
          pd_Summary := count_action (nd_Action node) (pd_Summary d)\<rparr>))"

subsection \<open>Edges\<close>

definition refers_to :: "string \<Rightarrow> string \<Rightarrow> bool" where
  "refers_to reference address \<longleftrightarrow>
     reference = address \<or> has_prefix reference (address @ ''.'') \<or> has_prefix reference (address @ ''['')"

definition matchingAddress :: "string \<Rightarrow> string list \<Rightarrow> string" where
  "matchingAddress reference known =
     fold (\<lambda>address best. if refers_to reference address \<and> length address > length best
                         then address else best) known []"

type_synonym edge_map = "(string \<times> plan_edge) list"

definition put_edge :: "string \<Rightarrow> plan_edge \<Rightarrow> edge_map \<Rightarrow> edge_map" where
  "put_edge key e edges = (key, e) # filter (\<lambda>x. fst x \<noteq> key) edges"

definition add_reference :: "string list \<Rightarrow> string \<Rightarrow> string \<Rightarrow> edge_map \<Rightarrow> edge_map" where
  "add_reference known address reference edges =
     (let source = matchingAddress reference known in
      if source = [] \<or> source = address then edges
      else put_edge (source @ [CHR 0x00] @ address) \<lparr>ed_From = source, ed_To = address\<rparr> edges)"

definition add_module_resource :: "string list \<Rightarrow> module_resource \<Rightarrow> edge_map \<Rightarrow> edge_map" where
  "add_module_resource known r edges =
     (if mr_Address r \<notin> set known then edges
      else fold (\<lambda>e. fold (add_reference known (mr_Address r)) (snd e)) (mr_Expressions r) edges)"

fun collectEdges :: "plan_module \<Rightarrow> string list \<Rightarrow> edge_map \<Rightarrow> edge_map" where
  "collectEdges (PlanModule address resources children) known edges =
     fold (\<lambda>child. collectEdges child known) children
       (fold (add_module_resource known) resources edges)"

subsection \<open>The document\<close>

definition major_version :: "string \<Rightarrow> string" where
  "major_version v = takeWhile (\<lambda>c. c \<noteq> CHR ''.'') v"

definition version_error :: "raw_plan \<Rightarrow> gerr option" where
  "version_error p =
     (let major = major_version (rp_FormatVersion p) in
      if rp_FormatVersion p \<noteq> [] \<and> major \<noteq> ''1''
      then Some (Err (''unsupported Terraform plan JSON major version '' @ quoted major)) else None)"

definition empty_document :: "string \<Rightarrow> string \<Rightarrow> plan_document" where
  "empty_document runUID planDigest =
     \<lparr>pd_Version = 1, pd_RunUID = runUID, pd_PlanDigest = planDigest, pd_Nodes = [], pd_Edges = [],
      pd_Summary = \<lparr>sm_Create = 0, sm_Update = 0, sm_Delete = 0, sm_Replace = 0, sm_NoOp = 0\<rparr>\<rparr>"

definition edge_key :: "plan_edge \<Rightarrow> string \<times> string" where
  "edge_key e = (ed_From e, ed_To e)"

definition plan_document_of :: "raw_plan \<Rightarrow> string \<Rightarrow> string \<Rightarrow> plan_document" where
  "plan_document_of p runUID planDigest =
     (let d = fold add_resource (rp_ResourceChanges p) (empty_document runUID planDigest);
          nodes = sort_key nd_Address (pd_Nodes d);
          edges = collectEdges (rp_RootModule p) (map nd_Address nodes) []
      in d\<lparr>pd_Nodes := nodes, pd_Edges := sort_key edge_key (map snd edges)\<rparr>)"

definition Parse ::
  "(string \<Rightarrow> gerr + raw_plan) \<Rightarrow> string \<Rightarrow> string \<Rightarrow> string \<Rightarrow> gerr + plan_document" where
  "Parse decode data runUID planDigest =
     (case decode data of
        Inl e \<Rightarrow> Inl (Wrap ''decode Terraform plan JSON'' e)
      | Inr p \<Rightarrow> checked (version_error p) (Inr (plan_document_of p runUID planDigest)))"

subsection \<open>What the view reveals\<close>

text \<open>
  What is secret, written out apart from the filter. A name is secret when, its dashes and underscores left out
  and in lower case, it contains one of these words. A mask of Terraform has the shape of the value: true marks
  everything below it, a map the entries under its keys, a list the elements at its positions.
\<close>

definition secret_name :: "string \<Rightarrow> bool" where
  "secret_name key \<longleftrightarrow>
     (\<exists>word \<in> {''password'', ''secret'', ''token'', ''private'', ''credential'', ''accesskey'', ''secretkey'', ''certificate'',
         ''authorization'', ''kubeconfig'', ''userdata''}.
        str_contains (to_lower (filter (\<lambda>c. c \<noteq> CHR ''-'' \<and> c \<noteq> CHR ''_'') key)) word)"

definition mask_under :: "go_any \<Rightarrow> string \<Rightarrow> go_any" where
  "mask_under m key = (case m of AMap ms \<Rightarrow> (case map_of ms key of Some n \<Rightarrow> n | None \<Rightarrow> ANull) | _ \<Rightarrow> ANull)"

definition mask_at :: "go_any \<Rightarrow> nat \<Rightarrow> go_any" where
  "mask_at m i = (case m of AList ms \<Rightarrow> (if i < length ms then ms ! i else ANull) | _ \<Rightarrow> ANull)"

text \<open>
  Two values agree outside the secrets: they are equal, the mask marks them, they are maps whose entries agree
  except under a secret name, or lists whose elements agree.
\<close>

inductive agree :: "go_any \<Rightarrow> go_any \<Rightarrow> go_any \<Rightarrow> bool" where
  same: "agree m a a"
| masked: "agree (ABool True) a b"
| maps: "list_all2 (\<lambda>x y. fst x = fst y \<and> (secret_name (fst x) \<or> agree (mask_under m (fst x)) (snd x) (snd y))) xs ys
          \<Longrightarrow> agree m (AMap xs) (AMap ys)"
| lists: "length xs = length ys \<Longrightarrow> (\<And>i. i < length xs \<Longrightarrow> agree (mask_at m i) (xs ! i) (ys ! i)) \<Longrightarrow> agree m (AList xs) (AList ys)"

lemma isSensitiveKey_secret: "isSensitiveKey key = secret_name key"
  by (simp add: isSensitiveKey_def secret_name_def sensitive_parts_def Let_def conj_commute)

lemma nestedMask_under: "nestedMask m key = mask_under m key"
  by (auto simp: nestedMask_def mask_under_def split: go_any.split option.split)

lemma markedSensitive_True: "markedSensitive m \<longleftrightarrow> m = ABool True"
  by (auto simp: markedSensitive_def split: go_any.split)

lemma agreeE:
  assumes "agree m a b"
  obtains (same) "a = b" | (masked) "markedSensitive m"
  | (maps) xs ys where "a = AMap xs" "b = AMap ys"
      "list_all2 (\<lambda>x y. fst x = fst y \<and> (isSensitiveKey (fst x) \<or> agree (nestedMask m (fst x)) (snd x) (snd y))) xs ys"
  | (lists) xs ys where "a = AList xs" "b = AList ys"
  using assms by cases (auto simp: isSensitiveKey_secret nestedMask_under markedSensitive_True)

definition changes_agree :: "raw_change \<Rightarrow> raw_change \<Rightarrow> bool" where
  "changes_agree c d \<longleftrightarrow>
     rc_Actions c = rc_Actions d \<and> rc_BeforeSensitive c = rc_BeforeSensitive d
     \<and> rc_AfterSensitive c = rc_AfterSensitive d
     \<and> agree (rc_BeforeSensitive c) (AMap (rc_Before c)) (AMap (rc_Before d))
     \<and> agree (rc_AfterSensitive c) (AMap (rc_After c)) (AMap (rc_After d))"

definition resources_agree :: "raw_resource \<Rightarrow> raw_resource \<Rightarrow> bool" where
  "resources_agree r s \<longleftrightarrow>
     rr_Address r = rr_Address s \<and> rr_Type r = rr_Type s \<and> rr_ProviderName r = rr_ProviderName s
     \<and> changes_agree (rr_Change r) (rr_Change s)"

definition plans_agree :: "raw_plan \<Rightarrow> raw_plan \<Rightarrow> bool" where
  "plans_agree p q \<longleftrightarrow>
     rp_FormatVersion p = rp_FormatVersion q \<and> rp_RootModule p = rp_RootModule q
     \<and> list_all2 resources_agree (rp_ResourceChanges p) (rp_ResourceChanges q)"

lemma safe_tag_agree:
  assumes "fst x = fst y" and "isSensitiveKey (fst x) \<or> agree (nestedMask m (fst x)) (snd x) (snd y)"
  shows "safe_tag m x = safe_tag m y"
proof (cases "isSensitiveKey (fst x) \<or> markedSensitive (nestedMask m (fst x))")
  case False
  with assms(2) have "agree (nestedMask m (fst x)) (snd x) (snd y)" by blast
  then show ?thesis
  proof (cases rule: agreeE)
    case same
    then have "x = y" using assms(1) by (simp add: prod_eq_iff)
    then show ?thesis by simp
  qed (use False assms(1) in \<open>auto simp: safe_tag_def split: go_any.split\<close>)
qed (auto simp: safe_tag_def assms(1))

lemma concat_map_agree:
  "list_all2 P xs ys \<Longrightarrow> (\<And>x y. P x y \<Longrightarrow> f x = f y) \<Longrightarrow> concat (map f xs) = concat (map f ys)"
  by (induction rule: list_all2_induct) auto

lemma safe_tags_agree:
  assumes "agree m a b" and "\<not> markedSensitive m"
  shows "safe_tags m a = safe_tags m b"
  using assms(1)
proof (cases rule: agreeE)
  case (maps xs ys)
  have "concat (map (safe_tag m) xs) = concat (map (safe_tag m) ys)"
    by (rule concat_map_agree [OF maps(3)]) (blast intro: safe_tag_agree)
  then show ?thesis by (simp add: safe_tags_def maps)
qed (use assms(2) in \<open>auto simp: safe_tags_def\<close>)

lemma safe_attribute_agree:
  assumes "fst x = fst y" and "isSensitiveKey (fst x) \<or> agree (nestedMask m (fst x)) (snd x) (snd y)"
  shows "safe_attribute m x = safe_attribute m y"
proof (cases "isSensitiveKey (fst x) \<or> markedSensitive (nestedMask m (fst x))")
  case False
  with assms(2) have a: "agree (nestedMask m (fst x)) (snd x) (snd y)" by blast
  have t: "safe_tags (nestedMask m (fst x)) (snd x) = safe_tags (nestedMask m (fst x)) (snd y)"
    using a False by (auto intro: safe_tags_agree)
  from a show ?thesis
  proof (cases rule: agreeE)
    case same
    then have "x = y" using assms(1) by (simp add: prod_eq_iff)
    then show ?thesis by simp
  next
    case (maps xs ys)
    then show ?thesis using t assms(1) by (cases "fst y = ''tags''") (auto simp: safe_attribute_def Let_def)
  next
    case (lists xs ys)
    then show ?thesis using t assms(1) by (cases "fst y = ''tags''") (auto simp: safe_attribute_def Let_def)
  qed (use False in auto)
qed (auto simp: safe_attribute_def assms(1))

lemma safeMetadata_agree:
  assumes "agree m (AMap xs) (AMap ys)"
  shows "safeMetadata xs m = safeMetadata ys m"
proof -
  have "concat (map (safe_attribute m) xs) = concat (map (safe_attribute m) ys)"
    using assms
  proof (cases rule: agreeE)
    case masked
    then have "safe_attribute m = (\<lambda>e. [])" by (auto simp: safe_attribute_def)
    moreover have "concat (map (\<lambda>e. []) zs) = []" for zs :: attributes by simp
    ultimately show ?thesis by metis
  next
    case (maps us vs)
    then show ?thesis by (auto intro: concat_map_agree safe_attribute_agree)
  qed simp_all
  then show ?thesis by (simp add: safeMetadata_def)
qed

lemma add_resource_agree: "resources_agree r s \<Longrightarrow> add_resource r = add_resource s"
  using safeMetadata_agree [of "rc_BeforeSensitive (rr_Change s)" "rc_Before (rr_Change r)" "rc_Before (rr_Change s)"]
    safeMetadata_agree [of "rc_AfterSensitive (rr_Change s)" "rc_After (rr_Change r)" "rc_After (rr_Change s)"]
  by (auto simp: fun_eq_iff add_resource_def plan_node_of_def resources_agree_def changes_agree_def)

lemma fold_add_resource_agree:
  "list_all2 resources_agree rs ss \<Longrightarrow> fold add_resource rs d = fold add_resource ss d"
  by (induction arbitrary: d rule: list_all2_induct) (auto dest: add_resource_agree)

subsection \<open>What the view shows\<close>

definition valid_resources :: "raw_resource list \<Rightarrow> raw_resource list" where
  "valid_resources rs = filter (\<lambda>r. rr_Address r \<noteq> [] \<and> rr_Type r \<noteq> []) rs"

definition summary_adds :: "plan_summary \<Rightarrow> string list \<Rightarrow> plan_summary \<Rightarrow> bool" where
  "summary_adds s as t \<longleftrightarrow>
     sm_Create t = sm_Create s + int (count_list as ''create'')
     \<and> sm_Update t = sm_Update s + int (count_list as ''update'')
     \<and> sm_Delete t = sm_Delete s + int (count_list as ''delete'')
     \<and> sm_Replace t = sm_Replace s + int (count_list as ''replace'')
     \<and> sm_Create t + sm_Update t + sm_Delete t + sm_Replace t + sm_NoOp t
         = sm_Create s + sm_Update s + sm_Delete s + sm_Replace s + sm_NoOp s + int (length as)"

lemma summary_adds_step:
  "summary_adds (count_action a s) as t \<Longrightarrow> summary_adds s (a # as) t"
  by (auto simp: summary_adds_def count_action_def split: if_splits)

lemma fold_add_resource:
  "pd_Nodes (fold add_resource rs d) = pd_Nodes d @ map plan_node_of (valid_resources rs)
   \<and> summary_adds (pd_Summary d) (map (nd_Action \<circ> plan_node_of) (valid_resources rs))
       (pd_Summary (fold add_resource rs d))
   \<and> pd_Edges (fold add_resource rs d) = pd_Edges d"
proof (induction rs arbitrary: d)
  case Nil
  then show ?case by (simp add: valid_resources_def summary_adds_def)
next
  case (Cons r rs)
  show ?case using Cons [of "add_resource r d"]
    by (auto simp: add_resource_def valid_resources_def Let_def intro: summary_adds_step)
qed

subsection \<open>Which edges there are\<close>

text \<open>
  The address a reference stands for: the longest known address that is the reference or a prefix
  of it up to a dot or an index.
\<close>

definition stands_for :: "string \<Rightarrow> string list \<Rightarrow> string \<Rightarrow> bool" where
  "stands_for reference known address \<longleftrightarrow>
     address \<in> set known \<and> refers_to reference address
     \<and> (\<forall>other \<in> set known. refers_to reference other \<longrightarrow> length other \<le> length address)"

lemma refers_to_prefix: "refers_to r a \<Longrightarrow> a = take (length a) r"
  by (auto simp: refers_to_def has_prefix_def) (metis append_eq_conv_conj append_take_drop_id take_append take_take length_append)+

lemma best_step:
  "fold (\<lambda>a b. if refers_to r a \<and> length a > length b then a else b) known best = b'
   \<Longrightarrow> (b' = best \<or> (b' \<in> set known \<and> refers_to r b')) \<and> length best \<le> length b'
     \<and> (\<forall>a \<in> set known. refers_to r a \<longrightarrow> length a \<le> length b')"
proof (induction known arbitrary: best)
  case (Cons a known)
  then show ?case by (fastforce split: if_splits)
qed simp

lemma matchingAddress_some:
  assumes "[] \<notin> set known"
  shows "stands_for r known a \<longleftrightarrow> matchingAddress r known = a \<and> a \<noteq> []"
proof -
  let ?b = "matchingAddress r known"
  have b: "(?b = [] \<or> (?b \<in> set known \<and> refers_to r ?b))
     \<and> (\<forall>a \<in> set known. refers_to r a \<longrightarrow> length a \<le> length ?b)"
    using best_step [of r known "[]" ?b] by (simp add: matchingAddress_def)
  show ?thesis
  proof
    assume s: "stands_for r known a"
    then have "a \<noteq> []" "length a \<le> length ?b" using assms b by (auto simp: stands_for_def)
    moreover from this b s have "length ?b \<le> length a" "refers_to r ?b" "refers_to r a"
      by (auto simp: stands_for_def)
    ultimately show "?b = a \<and> a \<noteq> []" using refers_to_prefix [of r a] refers_to_prefix [of r ?b] by auto
  next
    assume "?b = a \<and> a \<noteq> []"
    then show "stands_for r known a" using b by (auto simp: stands_for_def)
  qed
qed

text \<open>The resources of a configuration: those of the module and of the modules below it.\<close>

fun all_resources :: "plan_module \<Rightarrow> module_resource list" where
  "all_resources (PlanModule address resources children) = resources @ concat (map all_resources children)"

definition reads :: "module_resource \<Rightarrow> string \<Rightarrow> bool" where
  "reads r reference \<longleftrightarrow> (\<exists>e \<in> set (mr_Expressions r). reference \<in> set (snd e))"

definition dependencies :: "plan_module \<Rightarrow> string list \<Rightarrow> plan_edge set" where
  "dependencies m known =
     {\<lparr>ed_From = a, ed_To = mr_Address r\<rparr> | a r reference.
        r \<in> set (all_resources m) \<and> mr_Address r \<in> set known \<and> reads r reference
        \<and> stands_for reference known a \<and> a \<noteq> mr_Address r}"

definition resource_references :: "string list \<Rightarrow> module_resource \<Rightarrow> (string \<times> string) list" where
  "resource_references known r =
     (if mr_Address r \<notin> set known then []
      else concat (map (\<lambda>e. map (Pair (mr_Address r)) (snd e)) (mr_Expressions r)))"

lemma fold_concat_map: "fold f (concat (map g xs)) s = fold (\<lambda>x. fold f (g x)) xs s"
  by (induction xs arbitrary: s) auto

lemma collectEdges_fold:
  "collectEdges m known es =
     fold (\<lambda>p. add_reference known (fst p) (snd p)) (concat (map (resource_references known) (all_resources m))) es"
proof (induction m known es rule: collectEdges.induct)
  case (1 address resources children known es)
  have r: "add_module_resource known
      = (\<lambda>r. fold (\<lambda>p. add_reference known (fst p) (snd p)) (resource_references known r))"
    by (simp add: fun_eq_iff add_module_resource_def resource_references_def fold_concat_map fold_map o_def)
  have c: "fold (\<lambda>child. collectEdges child known) children es'
      = fold (\<lambda>p. add_reference known (fst p) (snd p))
          (concat (map (resource_references known) (concat (map all_resources children)))) es'" for es'
    using 1 by (induction children arbitrary: es') (auto simp: fold_concat_map)
  show ?case by (simp add: c fold_concat_map r)
qed

definition key_of :: "plan_edge \<Rightarrow> string" where
  "key_of e = ed_From e @ [CHR 0x00] @ ed_To e"

lemma takeWhile_before: "c \<notin> set xs \<Longrightarrow> takeWhile (\<lambda>d. d \<noteq> c) (xs @ c # ys) = xs"
  by (induction xs) auto

lemma key_of_inject:
  assumes "CHR 0x00 \<notin> set (ed_From e)" and "CHR 0x00 \<notin> set (ed_From f)" and "key_of e = key_of f"
  shows "e = f"
proof -
  have "takeWhile (\<lambda>c. c \<noteq> CHR 0x00) (key_of e) = ed_From e" "takeWhile (\<lambda>c. c \<noteq> CHR 0x00) (key_of f) = ed_From f"
    using assms(1,2) by (simp_all add: key_of_def takeWhile_before)
  then show ?thesis using assms(3) by (simp add: key_of_def)
qed

definition keyed :: "edge_map \<Rightarrow> bool" where
  "keyed es \<longleftrightarrow> distinct (map fst es)
     \<and> (\<forall>x \<in> set es. fst x = key_of (snd x) \<and> CHR 0x00 \<notin> set (ed_From (snd x)))"

lemma put_edge_keyed:
  assumes "keyed es" and "CHR 0x00 \<notin> set (ed_From e)"
  shows "keyed (put_edge (key_of e) e es) \<and> snd ` set (put_edge (key_of e) e es) = insert e (snd ` set es)"
proof -
  have "\<And>x. x \<in> set es \<Longrightarrow> fst x = key_of e \<Longrightarrow> snd x = e"
    using assms by (auto simp: keyed_def intro: key_of_inject)
  then have "snd ` set (put_edge (key_of e) e es) = insert e (snd ` set es)"
    by (fastforce simp: put_edge_def)
  moreover have "distinct (map fst (filter (\<lambda>x. fst x \<noteq> key_of e) es))"
    using assms(1) by (auto simp: keyed_def intro: distinct_map_filter)
  ultimately show ?thesis using assms by (auto simp: keyed_def put_edge_def)
qed

definition referenced_edges :: "string list \<Rightarrow> (string \<times> string) set \<Rightarrow> plan_edge set" where
  "referenced_edges known ps =
     {\<lparr>ed_From = a, ed_To = t\<rparr> | a t r. (t, r) \<in> ps \<and> stands_for r known a \<and> a \<noteq> t}"

lemma referenced_edges_insert:
  "referenced_edges known (insert p ps) = referenced_edges known {p} \<union> referenced_edges known ps"
  by (auto simp: referenced_edges_def)

lemma add_reference_keyed:
  assumes "[] \<notin> set known" and "\<forall>a \<in> set known. CHR 0x00 \<notin> set a" and "keyed es"
  shows "keyed (add_reference known t r es)
    \<and> snd ` set (add_reference known t r es) = snd ` set es \<union> referenced_edges known {(t, r)}"
proof -
  let ?a = "matchingAddress r known"
  have s: "stands_for r known a \<longleftrightarrow> a = ?a \<and> ?a \<noteq> []" for a
    by (auto simp: matchingAddress_some [OF assms(1)])
  show ?thesis
  proof (cases "?a = [] \<or> ?a = t")
    case True
    then have "referenced_edges known {(t, r)} = {}" by (auto simp: referenced_edges_def s)
    then show ?thesis using True assms(3) by (simp add: add_reference_def Let_def)
  next
    case False
    then have "referenced_edges known {(t, r)} = {\<lparr>ed_From = ?a, ed_To = t\<rparr>}"
      by (auto simp: referenced_edges_def s)
    moreover have "CHR 0x00 \<notin> set ?a" using s [of ?a] False assms(2) by (auto simp: stands_for_def)
    ultimately show ?thesis
      using False put_edge_keyed [OF assms(3), of "\<lparr>ed_From = ?a, ed_To = t\<rparr>"]
      by (simp add: add_reference_def Let_def key_of_def)
  qed
qed

lemma fold_add_reference:
  assumes "[] \<notin> set known" and "\<forall>a \<in> set known. CHR 0x00 \<notin> set a" and "keyed es"
  shows "keyed (fold (\<lambda>p. add_reference known (fst p) (snd p)) ps es)
    \<and> snd ` set (fold (\<lambda>p. add_reference known (fst p) (snd p)) ps es)
        = snd ` set es \<union> referenced_edges known (set ps)"
  using assms(3)
proof (induction ps arbitrary: es)
  case Nil
  then show ?case by (simp add: referenced_edges_def)
next
  case (Cons p ps)
  have "keyed (add_reference known (fst p) (snd p) es)"
    and n: "snd ` set (add_reference known (fst p) (snd p) es) = snd ` set es \<union> referenced_edges known {p}"
    using add_reference_keyed [OF assms(1,2) Cons.prems, of "fst p" "snd p"] by simp_all
  from Cons.IH [OF this(1)] show ?case
    by (simp add: n Un_assoc referenced_edges_insert [of known p "set ps"])
qed

lemma collectEdges_dependencies:
  assumes "[] \<notin> set known" and "\<forall>a \<in> set known. CHR 0x00 \<notin> set a"
  shows "keyed (collectEdges m known []) \<and> snd ` set (collectEdges m known []) = dependencies m known"
proof -
  let ?ps = "concat (map (resource_references known) (all_resources m))"
  have k: "keyed []" by (simp add: keyed_def)
  have ps: "(t, r) \<in> set ?ps \<longleftrightarrow>
      (\<exists>x \<in> set (all_resources m). mr_Address x = t \<and> t \<in> set known \<and> reads x r)" for t r
    by (auto simp: resource_references_def reads_def split: if_splits)
  have "referenced_edges known (set ?ps) = dependencies m known"
    unfolding referenced_edges_def dependencies_def ps by (rule Collect_cong) blast
  then show ?thesis using fold_add_reference [OF assms k, of ?ps] by (simp add: collectEdges_fold)
qed

subsection \<open>The properties of the view\<close>

text \<open>
  C16. The view leaks no secret: two plans that differ only in values that Terraform marks as
  sensitive, at any depth in maps and lists, or that stand under a key whose name contains one of the words of
  \<open>secret_name\<close>, give the same document.
\<close>
theorem plan_view_leaks_no_secret:
  assumes "decode data = Inr p" and "decode data' = Inr q" and "plans_agree p q"
  shows "Parse decode data runUID planDigest = Parse decode data' runUID planDigest"
  using assms fold_add_resource_agree [of "rp_ResourceChanges p" "rp_ResourceChanges q"]
  by (simp add: Parse_def plans_agree_def plan_document_of_def version_error_def Let_def)

text \<open>
  The view is complete: its nodes are, sorted by address, the changes of the plan that have
  an address and a type, and the summary counts them by action, each once.
\<close>
theorem plan_view_counts_every_change:
  assumes "Parse decode data runUID planDigest = Inr doc" and "decode data = Inr p"
  shows "mset (pd_Nodes doc) = image_mset plan_node_of (mset (valid_resources (rp_ResourceChanges p)))
    \<and> sorted (map nd_Address (pd_Nodes doc))
    \<and> summary_adds \<lparr>sm_Create = 0, sm_Update = 0, sm_Delete = 0, sm_Replace = 0, sm_NoOp = 0\<rparr>
           (map nd_Action (pd_Nodes doc)) (pd_Summary doc)"
proof -
  let ?e = "empty_document runUID planDigest" and ?rs = "valid_resources (rp_ResourceChanges p)"
  have n: "pd_Nodes doc = sort_key nd_Address (map plan_node_of ?rs)"
    and s: "summary_adds (pd_Summary ?e) (map (nd_Action \<circ> plan_node_of) ?rs) (pd_Summary doc)"
    using assms fold_add_resource [of "rp_ResourceChanges p" ?e]
    by (auto simp: Parse_def plan_document_of_def empty_document_def Let_def)
  have m: "mset (map (nd_Action \<circ> plan_node_of) ?rs) = mset (map nd_Action (pd_Nodes doc))"
    by (simp add: n multiset.map_comp)
  have c: "count_list (map (nd_Action \<circ> plan_node_of) ?rs) x = count_list (map nd_Action (pd_Nodes doc)) x" for x
    using m by (metis count_mset)
  have l: "length (map (nd_Action \<circ> plan_node_of) ?rs) = length (map nd_Action (pd_Nodes doc))"
    using m by (metis size_mset)
  have "summary_adds \<lparr>sm_Create = 0, sm_Update = 0, sm_Delete = 0, sm_Replace = 0, sm_NoOp = 0\<rparr>
           (map nd_Action (pd_Nodes doc)) (pd_Summary doc)"
    using s unfolding summary_adds_def c l by (simp add: empty_document_def)
  then show ?thesis by (simp add: n)
qed

text \<open>
  The edges of the view are exactly the dependencies between its nodes: for every resource of
  the configuration that is a node and every reference of its expressions, the node with the
  longest address the reference extends, other than the resource itself; sorted, each edge once.
\<close>
theorem plan_view_edges_are_dependencies:
  assumes "Parse decode data runUID planDigest = Inr doc" and "decode data = Inr p"
    and "\<And>r. r \<in> set (rp_ResourceChanges p) \<Longrightarrow> CHR 0x00 \<notin> set (rr_Address r)"
  shows "set (pd_Edges doc) = dependencies (rp_RootModule p) (map nd_Address (pd_Nodes doc))
    \<and> distinct (pd_Edges doc) \<and> sorted (map edge_key (pd_Edges doc))"
proof -
  let ?k = "map nd_Address (pd_Nodes doc)" and ?e = "empty_document runUID planDigest"
  let ?m = "collectEdges (rp_RootModule p) ?k []"
  have n: "pd_Nodes doc = sort_key nd_Address (map plan_node_of (valid_resources (rp_ResourceChanges p)))"
    and d: "pd_Edges doc = sort_key edge_key (map snd ?m)"
    using assms(1,2) fold_add_resource [of "rp_ResourceChanges p" ?e]
    by (auto simp: Parse_def plan_document_of_def empty_document_def Let_def)
  have "[] \<notin> set ?k" and "\<forall>a \<in> set ?k. CHR 0x00 \<notin> set a"
    using assms(3) by (auto simp: n plan_node_of_def valid_resources_def)
  then have c: "keyed ?m" "snd ` set ?m = dependencies (rp_RootModule p) ?k"
    using collectEdges_dependencies by blast+
  have "distinct (map snd ?m)"
    using c(1) by (auto simp: keyed_def distinct_map inj_on_def)
  then show ?thesis using c(2) by (simp add: d)
qed

text \<open>
  The node a reference stands for does not depend on the order in which Go ranges over the
  set of known addresses: it is the longest address the reference extends.
\<close>
theorem matching_address_is_order_free:
  assumes "set known = set known'" and "[] \<notin> set known"
  shows "matchingAddress reference known = matchingAddress reference known'
    \<and> (matchingAddress reference known = a \<and> a \<noteq> [] \<longleftrightarrow> stands_for reference known a)"
proof -
  have "stands_for reference known = stands_for reference known'"
    using assms(1) by (simp add: fun_eq_iff stands_for_def)
  then have "matchingAddress reference known = matchingAddress reference known'"
    using matchingAddress_some assms by metis
  then show ?thesis by (simp add: matchingAddress_some [OF assms(2)])
qed

subsection \<open>Witnesses\<close>

definition sample_change :: "string \<Rightarrow> raw_change" where
  "sample_change secret =
     \<lparr>rc_Actions = [''create''], rc_Before = [],
      rc_After = [(''bucket'', AStr ''data''), (''cidr_block'', AList [AStr secret, AStr ''c'']), (''secret_key'', AStr secret),
                  (''tags'', AMap [(''api-token'', AStr secret), (''team'', AStr ''p'')])],
      rc_BeforeSensitive = ANull,
      rc_AfterSensitive = AMap [(''bucket'', ABool False), (''cidr_block'', AList [ABool True]), (''secret_key'', ABool True)]\<rparr>"

definition sample_plan :: "string \<Rightarrow> raw_plan" where
  "sample_plan secret =
     \<lparr>rp_FormatVersion = ''1.2'',
      rp_ResourceChanges =
        [\<lparr>rr_Address = ''b.data'', rr_Type = ''b'', rr_ProviderName = [], rr_Change = sample_change secret\<rparr>,
         \<lparr>rr_Address = ''a.w'', rr_Type = ''a'', rr_ProviderName = [],
          rr_Change = (sample_change secret)\<lparr>rc_Actions := [''update''], rc_After := []\<rparr>\<rparr>],
      rp_RootModule = PlanModule [] [\<lparr>mr_Address = ''a.w'', mr_Expressions = [(''bucket'', [''b.data.arn''])]\<rparr>] []\<rparr>"

definition sample_document :: plan_document where
  "sample_document = plan_document_of (sample_plan ''x'') ''u'' ''d''"

lemma sample_parse: "Parse (\<lambda>s. Inr (sample_plan s)) ''x'' ''u'' ''d'' = Inr sample_document"
  by (simp add: Parse_def sample_document_def) code_simp

theorem plan_view_leaks_no_secret_witness:
  "Parse (\<lambda>s. Inr (sample_plan s)) ''x'' ''u'' ''d'' = Parse (\<lambda>s. Inr (sample_plan s)) ''y'' ''u'' ''d''"
proof (rule plan_view_leaks_no_secret [OF refl refl])
  have k: "secret_name ''secret_key''" "secret_name ''api-token''" unfolding isSensitiveKey_secret [symmetric] by code_simp+
  have t: "agree m (AMap [(''api-token'', AStr ''x''), (''team'', AStr ''p'')]) (AMap [(''api-token'', AStr ''y''), (''team'', AStr ''p'')])" for m
    by (rule agree.maps) (simp add: k agree.same)
  have l: "agree (AList [ABool True]) (AList [AStr ''x'', AStr ''c'']) (AList [AStr ''y'', AStr ''c''])"
    by (rule agree.lists) (auto simp: mask_at_def less_Suc_eq agree.masked agree.same)
  have after: "agree (rc_AfterSensitive (sample_change ''x'')) (AMap (rc_After (sample_change ''x''))) (AMap (rc_After (sample_change ''y'')))"
    by (simp add: sample_change_def) (rule agree.maps, simp add: k t l agree.same mask_under_def)
  then have "changes_agree (sample_change ''x'') (sample_change ''y'')"
    by (simp add: changes_agree_def) (simp add: sample_change_def agree.same)
  moreover have "changes_agree ((sample_change ''x'')\<lparr>rc_Actions := as, rc_After := []\<rparr>) ((sample_change ''y'')\<lparr>rc_Actions := as, rc_After := []\<rparr>)" for as
    by (simp add: changes_agree_def sample_change_def agree.same)
  ultimately show "plans_agree (sample_plan ''x'') (sample_plan ''y'')"
    by (simp add: plans_agree_def sample_plan_def resources_agree_def)
qed

theorem plan_view_counts_every_change_witness:
  "sm_Create (pd_Summary sample_document) = 1 \<and> sm_Update (pd_Summary sample_document) = 1"
proof -
  have a: "map nd_Action (pd_Nodes sample_document) = [''update'', ''create'']" by code_simp
  show ?thesis
    using plan_view_counts_every_change [OF sample_parse refl] by (simp add: summary_adds_def a)
qed

theorem plan_view_edges_are_dependencies_witness:
  "dependencies (rp_RootModule (sample_plan ''x'')) (map nd_Address (pd_Nodes sample_document))
     = {\<lparr>ed_From = ''b.data'', ed_To = ''a.w''\<rparr>}"
proof -
  have e: "pd_Edges sample_document = [\<lparr>ed_From = ''b.data'', ed_To = ''a.w''\<rparr>]" by code_simp
  have "CHR 0x00 \<notin> set (rr_Address r)" if "r \<in> set (rp_ResourceChanges (sample_plan ''x''))" for r
    using that by (auto simp: sample_plan_def)
  from plan_view_edges_are_dependencies [OF sample_parse refl this] show ?thesis by (simp add: e)
qed

theorem matching_address_is_order_free_witness:
  "matchingAddress ''a.b.c'' [''a'', ''a.b''] = matchingAddress ''a.b.c'' [''a.b'', ''a'']"
  using matching_address_is_order_free [of "[''a'', ''a.b'']" "[''a.b'', ''a'']"] by auto

end
