(* ===== verification/SourceBundle.thy ===== *)
theory SourceBundle
  imports Artifacts
begin

section \<open>The source bundle: internal/terraform/sourcebundle.go\<close>

text \<open>
  The archive of a Terraform source tree: BuildSourceBundle walks the tree and packs what it may
  contain, RestoreSourceBundle unpacks an archive below a destination. The file system is a list of
  absolute canonical paths (component lists) with their entries, and the calls of package os and
  path/filepath the code makes act on it as on Linux: a path is resolved component by component,
  symbolic links included. Permissions and faults of the disk are left out. The compression and the
  tar format are the parameters \<open>pack\<close> and \<open>unpack\<close>; \<open>unpack\<close> gives the entries that could be read and
  the error that ended the reading, if one did.
\<close>

type_synonym fpath = "string list"

datatype fs_entry = RegularE nat string | DirE | LinkE string | SpecialE

type_synonym fsys = "(fpath \<times> fs_entry) list"

definition fs_lookup :: "fsys \<Rightarrow> fpath \<Rightarrow> fs_entry option" where
  "fs_lookup fs p = (if p = [] then Some DirE else map_of fs p)"

definition fs_put :: "fpath \<Rightarrow> fs_entry \<Rightarrow> fsys \<Rightarrow> fsys" where
  "fs_put p e fs = (p, e) # filter (\<lambda>x. fst x \<noteq> p) fs"

definition not_exist :: gerr where "not_exist = Err ''no such file or directory''"
definition not_directory :: gerr where "not_directory = Err ''not a directory''"
definition too_many_links :: gerr where "too_many_links = Err ''too many levels of symbolic links''"
definition is_directory :: gerr where "is_directory = Err ''is a directory''"
definition file_exists :: gerr where "file_exists = Err ''file exists''"

subsection \<open>Paths as text\<close>

definition path_parts :: "string \<Rightarrow> string list" where
  "path_parts s = filter (\<lambda>w. w \<noteq> [] \<and> w \<noteq> ''.'') (split_on (CHR ''/'') s)"

definition path_text :: "fpath \<Rightarrow> string" where
  "path_text p = ''/'' @ join_with ''/'' p"

definition up_to_slash :: "string \<Rightarrow> string" where
  "up_to_slash s = rev (dropWhile (\<lambda>c. c \<noteq> CHR ''/'') (rev s))"

definition path_dir :: "string \<Rightarrow> string" where
  "path_dir s = path_clean (up_to_slash s)"

definition path_base :: "string \<Rightarrow> string" where
  "path_base s =
     (if s = [] then ''.''
      else (let t = trim_right (\<lambda>c. c = CHR ''/'') s; b = rev (takeWhile (\<lambda>c. c \<noteq> CHR ''/'') (rev t))
        in if b = [] then ''/'' else b))"

text \<open>filepath.Abs, and filepath.Rel on absolute paths, where it cannot fail.\<close>

definition path_abs :: "string \<Rightarrow> string \<Rightarrow> string" where
  "path_abs cwd s = (if is_abs_path s then path_clean s else path_join [cwd, s])"

fun rel_parts :: "string list \<Rightarrow> string list \<Rightarrow> string list" where
  "rel_parts (b # bs) (t # ts) = (if b = t then rel_parts bs ts else replicate (Suc (length bs)) ''..'' @ t # ts)"
| "rel_parts bs ts = replicate (length bs) ''..'' @ ts"

definition path_rel :: "string \<Rightarrow> string \<Rightarrow> string" where
  "path_rel root candidate =
     (let r = rel_parts (path_parts (path_clean root)) (path_parts (path_clean candidate))
      in if r = [] then ''.'' else join_with ''/'' r)"

subsection \<open>The calls of the file system\<close>

text \<open>
  Resolving a path from the canonical directory \<open>acc\<close>, following at most \<open>n\<close> links; the last component
  may be missing when \<open>missing\<close> holds, as for a file that is to be created.
\<close>

function resolve :: "bool \<Rightarrow> nat \<Rightarrow> fsys \<Rightarrow> fpath \<Rightarrow> string list \<Rightarrow> gerr + fpath" where
  "resolve missing n fs acc [] = Inr acc"
| "resolve missing n fs acc (c # cs) =
     (if c = ''..'' then resolve missing n fs (butlast acc) cs
      else case fs_lookup fs (acc @ [c]) of
          None \<Rightarrow> if missing \<and> cs = [] then Inr (acc @ [c]) else Inl not_exist
        | Some DirE \<Rightarrow> resolve missing n fs (acc @ [c]) cs
        | Some (LinkE t) \<Rightarrow>
            (if n = 0 then Inl too_many_links
             else resolve missing (n - 1) fs (if is_abs_path t then [] else acc) (path_parts t @ cs))
        | Some (RegularE m content) \<Rightarrow> if cs = [] then Inr (acc @ [c]) else Inl not_directory
        | Some SpecialE \<Rightarrow> if cs = [] then Inr (acc @ [c]) else Inl not_directory)"
  by pat_completeness auto
termination by (relation "measures [\<lambda>(m, n, fs, acc, cs). n, \<lambda>(m, n, fs, acc, cs). length cs]") auto

definition kernel_links :: nat where "kernel_links = 40"
definition walk_links :: nat where "walk_links = 255"

definition entry_at :: "fsys \<Rightarrow> fpath \<Rightarrow> gerr + fs_entry" where
  "entry_at fs p = (case fs_lookup fs p of None \<Rightarrow> Inl not_exist | Some e \<Rightarrow> Inr e)"

definition os_stat :: "fsys \<Rightarrow> string list \<Rightarrow> gerr + fs_entry" where
  "os_stat fs parts = sum_bind (resolve False kernel_links fs [] parts) (entry_at fs)"

definition os_lstat :: "fsys \<Rightarrow> string list \<Rightarrow> gerr + fs_entry" where
  "os_lstat fs parts =
     (if parts = [] then Inr DirE
      else sum_bind (resolve False kernel_links fs [] (butlast parts)) (\<lambda>d. entry_at fs (d @ [last parts])))"

definition EvalSymlinks :: "fsys \<Rightarrow> string \<Rightarrow> gerr + string" where
  "EvalSymlinks fs s = sum_bind (resolve False walk_links fs [] (path_parts s)) (\<lambda>p. Inr (path_text p))"

definition os_mkdir :: "string list \<Rightarrow> (fsys, unit) stateful" where
  "os_mkdir parts = (\<lambda>fs.
     case resolve False kernel_links fs [] (butlast parts) of
       Inl e \<Rightarrow> (Inl e, fs)
     | Inr d \<Rightarrow>
         if fs_lookup fs d \<noteq> Some DirE then (Inl not_directory, fs)
         else (case fs_lookup fs (d @ [last parts]) of
             None \<Rightarrow> (Inr (), fs_put (d @ [last parts]) DirE fs)
           | Some DirE \<Rightarrow> (Inr (), fs)
           | Some e \<Rightarrow> (Inl file_exists, fs)))"

text \<open>os.MkdirAll on the components of a path, last first.\<close>

fun mkdir_up :: "string list \<Rightarrow> (fsys, unit) stateful" where
  "mkdir_up [] = s_ret ()"
| "mkdir_up (c # up) = (\<lambda>fs.
     case os_stat fs (rev (c # up)) of
       Inr DirE \<Rightarrow> (Inr (), fs)
     | Inr e \<Rightarrow> (Inl not_directory, fs)
     | Inl e \<Rightarrow> s_bind (mkdir_up up) (\<lambda>_. os_mkdir (rev (c # up))) fs)"

definition os_mkdir_all :: "string \<Rightarrow> (fsys, unit) stateful" where
  "os_mkdir_all s = mkdir_up (rev (path_parts s))"

text \<open>
  os.OpenFile with O_CREATE, O_WRONLY and O_TRUNC, a write of all content and a close; \<open>umask\<close> gives
  the mode a new file gets.
\<close>

definition os_write_file :: "(nat \<Rightarrow> nat) \<Rightarrow> string \<Rightarrow> nat \<Rightarrow> string \<Rightarrow> (fsys, unit) stateful" where
  "os_write_file umask s mode content = (\<lambda>fs.
     case resolve True kernel_links fs [] (path_parts s) of
       Inl e \<Rightarrow> (Inl e, fs)
     | Inr p \<Rightarrow>
         (case fs_lookup fs p of
            None \<Rightarrow> (Inr (), fs_put p (RegularE (umask mode) content) fs)
          | Some (RegularE m old) \<Rightarrow> (Inr (), fs_put p (RegularE m content) fs)
          | Some DirE \<Rightarrow> (Inl is_directory, fs)
          | Some e \<Rightarrow> (Inr (), fs)))"

definition os_read_file :: "fsys \<Rightarrow> string \<Rightarrow> gerr + string" where
  "os_read_file fs s =
     sum_bind (os_stat fs (path_parts s)) (\<lambda>e. case e of RegularE m content \<Rightarrow> Inr content | _ \<Rightarrow> Inl is_directory)"

subsection \<open>Which paths a bundle may hold\<close>

definition isImplicitTerraformVars :: "string \<Rightarrow> bool" where
  "isImplicitTerraformVars relative =
     (let base = to_lower (path_base relative) in
      base = ''terraform.tfvars'' \<or> has_suffix base ''.auto.tfvars'' \<or> has_suffix base ''.auto.tfvars.json'')"

definition forbidden_base :: "string \<Rightarrow> bool" where
  "forbidden_base base \<longleftrightarrow>
     list_ex (has_suffix base) [''.tfstate'', ''.tfstate.backup'', ''_override.tf'', ''_override.tf.json'', ''.binary'', ''.tfplan'',
       ''.tfvars'', ''.tfvars.json'']
     \<or> base \<in> {''backend.hcl'', ''backend-config.json'', ''credentials'', ''credentials.json''}"

definition bundlePathAllowed :: "string \<Rightarrow> bool" where
  "bundlePathAllowed relative =
     (let clean = path_clean relative in
      \<not> (clean = ''.'' \<or> has_prefix clean ''../'' \<or> has_prefix clean ''/'')
      \<and> \<not> list_ex (\<lambda>part. part = ''.terraform'' \<or> part = ''.git'') (split_on (CHR ''/'') clean)
      \<and> \<not> forbidden_base (to_lower (path_base clean)))"

subsection \<open>Roots\<close>

definition samePath :: "string \<Rightarrow> string \<Rightarrow> bool" where
  "samePath left right \<longleftrightarrow> equal_fold (path_clean left) (path_clean right)"

definition outsideRoot :: "string \<Rightarrow> string \<Rightarrow> bool" where
  "outsideRoot root candidate =
     (let relative = path_rel root candidate in
      relative = ''..'' \<or> has_prefix relative ''../'' \<or> is_abs_path relative)"

definition secureRoot :: "string \<Rightarrow> fsys \<Rightarrow> string \<Rightarrow> gerr + string" where
  "secureRoot cwd fs root =
     (if root = [] then Inl (Err ''source root is required'')
      else (let abs = path_abs cwd root in
        sum_bind (os_lstat fs (path_parts abs)) (\<lambda>info.
          if info \<noteq> DirE then Inl (Err ''source root must be a real directory'')
          else sum_bind (EvalSymlinks fs abs) (\<lambda>resolved.
            if \<not> samePath abs resolved then Inl (Err ''source root resolves through a symlink'')
            else Inr abs))))"

subsection \<open>Restoring\<close>

record tar_entry =
  te_Regular :: bool
  te_Name :: string
  te_Mode :: int
  te_Content :: string
  te_Fault :: "gerr option"

type_synonym unpacker = "string \<Rightarrow> gerr + (tar_entry list \<times> gerr option)"

definition entry_refused :: "tar_entry \<Rightarrow> gerr option" where
  "entry_refused e =
     (let relative = path_clean (te_Name e) in first_error
       [(\<not> te_Regular e \<or> \<not> bundlePathAllowed (te_Name e), ''source bundle contains unsupported entry '' @ quoted (te_Name e)),
        (relative = ''.'' \<or> has_prefix relative ''../'' \<or> is_abs_path relative,
          ''source bundle contains unsafe path '' @ quoted (te_Name e))])"

definition entry_mode :: "tar_entry \<Rightarrow> nat" where
  "entry_mode e = (let mode = nat (te_Mode e mod 512) in if mode = 0 then 420 else mode)"

definition restore_entry :: "(nat \<Rightarrow> nat) \<Rightarrow> string \<Rightarrow> tar_entry \<Rightarrow> (fsys, string) stateful" where
  "restore_entry umask destination e =
     (let relative = path_clean (te_Name e); filePath = path_join [destination, relative]; dir = path_dir filePath in
      s_bind (s_check (entry_refused e)) (\<lambda>_.
      s_bind (os_mkdir_all dir) (\<lambda>_.
      s_bind (s_look (\<lambda>fs. EvalSymlinks fs dir)) (\<lambda>parent.
      s_bind (s_check (if outsideRoot destination parent
          then Some (Err (''source bundle path escapes destination through '' @ quoted (path_dir (te_Name e)))) else None)) (\<lambda>_.
      s_bind (s_look (\<lambda>fs. case os_lstat fs (path_parts filePath) of
          Inr (LinkE t) \<Rightarrow> Inl (Err (''source bundle refuses to overwrite symlink '' @ quoted (te_Name e)))
        | _ \<Rightarrow> Inr ())) (\<lambda>_.
      s_bind (os_write_file umask filePath (entry_mode e) (te_Content e)) (\<lambda>_.
      case te_Fault e of Some err \<Rightarrow> s_fail err | None \<Rightarrow> s_ret relative)))))))"

fun restore_entries :: "(nat \<Rightarrow> nat) \<Rightarrow> string \<Rightarrow> tar_entry list \<Rightarrow> (fsys, string list) stateful" where
  "restore_entries umask destination [] = s_ret []"
| "restore_entries umask destination (e # es) =
     s_bind (restore_entry umask destination e) (\<lambda>file.
       s_bind (restore_entries umask destination es) (\<lambda>files. s_ret (file # files)))"

definition RestoreSourceBundle ::
  "unpacker \<Rightarrow> (nat \<Rightarrow> nat) \<Rightarrow> string \<Rightarrow> string \<Rightarrow> string \<Rightarrow> (fsys, string list) stateful" where
  "RestoreSourceBundle unpack umask cwd content destination =
     s_bind (s_look (\<lambda>fs. secureRoot cwd fs destination)) (\<lambda>root.
     s_bind (s_look (\<lambda>fs. unpack content)) (\<lambda>(entries, fault).
     s_bind (restore_entries umask root entries) (\<lambda>files.
     case fault of Some err \<Rightarrow> s_fail err | None \<Rightarrow> s_ret (sort files))))"

subsection \<open>Building\<close>

record source_bundle =
  sb_Content :: string
  sb_Digest :: string
  sb_Files :: "string list"

text \<open>
  The paths below a directory, relative to it, in the order filepath.WalkDir visits them: the entries
  of a directory by name, a directory before what it contains.
\<close>

definition below :: "fsys \<Rightarrow> fpath \<Rightarrow> fpath list" where
  "below fs base =
     sort (map (drop (length base)) (filter (\<lambda>p. take (length base) p = base \<and> length base < length p) (map fst fs)))"

text \<open>The function BuildSourceBundle gives to WalkDir, over the paths that are still to be visited.\<close>

function walk_sources :: "fsys \<Rightarrow> fpath \<Rightarrow> fpath list \<Rightarrow> gerr + string list" where
  "walk_sources fs base [] = Inr []"
| "walk_sources fs base (p # ps) =
     (let relative = join_with ''/'' p in
      case fs_lookup fs (base @ p) of
        None \<Rightarrow> walk_sources fs base ps
      | Some DirE \<Rightarrow>
          if \<not> bundlePathAllowed relative
          then walk_sources fs base (dropWhile (\<lambda>q. take (length p) q = p) ps)
          else walk_sources fs base ps
      | Some (LinkE t) \<Rightarrow> Inl (Err (''source closure rejects symlink '' @ quoted relative))
      | Some SpecialE \<Rightarrow> Inl (Err (''source closure rejects special file '' @ quoted relative))
      | Some (RegularE m content) \<Rightarrow>
          if isImplicitTerraformVars relative
          then Inl (Err (''implicit Terraform vars file '' @ quoted relative @ '' is not an explicit input''))
          else sum_bind (walk_sources fs base ps) (\<lambda>entries.
            Inr (if bundlePathAllowed relative then relative # entries else entries)))"
  by pat_completeness auto
termination by (relation "measure (\<lambda>(fs, base, ps). length ps)") (auto simp: le_imp_less_Suc length_dropWhile_le)

definition packed_entry :: "fsys \<Rightarrow> string \<Rightarrow> string \<Rightarrow> gerr + tar_entry" where
  "packed_entry fs root relative =
     (let fileName = path_join [root, relative] in
      sum_bind (os_stat fs (path_parts fileName)) (\<lambda>info. case info of
          RegularE mode content \<Rightarrow> Inr \<lparr>te_Regular = True, te_Name = relative, te_Mode = int (mode mod 512),
            te_Content = content, te_Fault = None\<rparr>
        | _ \<Rightarrow> Inl is_directory))"

fun packed_entries :: "fsys \<Rightarrow> string \<Rightarrow> string list \<Rightarrow> gerr + tar_entry list" where
  "packed_entries fs root [] = Inr []"
| "packed_entries fs root (r # rs) =
     sum_bind (packed_entry fs root r) (\<lambda>e. sum_bind (packed_entries fs root rs) (\<lambda>es. Inr (e # es)))"

definition BuildSourceBundle ::
  "hash \<Rightarrow> (tar_entry list \<Rightarrow> gerr + string) \<Rightarrow> string \<Rightarrow> fsys \<Rightarrow> string \<Rightarrow> gerr + source_bundle" where
  "BuildSourceBundle sha pack cwd fs root =
     sum_bind (secureRoot cwd fs root) (\<lambda>abs.
     sum_bind (resolve False kernel_links fs [] (path_parts abs)) (\<lambda>base.
     sum_bind (walk_sources fs base (below fs base)) (\<lambda>entries.
     sum_bind (packed_entries fs abs (sort entries)) (\<lambda>packed.
     sum_bind (pack packed) (\<lambda>content.
     Inr \<lparr>sb_Content = content, sb_Digest = artifact_digest sha content, sb_Files = sort entries\<rparr>)))))"

definition source_bundle_Validate :: "source_bundle \<Rightarrow> gerr option" where
  "source_bundle_Validate s =
     (if sb_Content s = [] \<or> sb_Digest s = [] then Some (Err ''source bundle content and digest are required'') else None)"

end
