(* ===== verification/SourceSafety.thy ===== *)
theory SourceSafety
  imports SourceBundle "HOL-Library.Sublist"
begin

section \<open>What restoring and building a source bundle can do\<close>

text \<open>
  Where an archive can write, whatever it holds and whatever links the destination holds.
\<close>

subsection \<open>Paths\<close>

lemma split_on_nonempty: "split_on c s \<noteq> []"
  by (induction s) (auto split: list.splits)

lemma split_on_append:
  "c \<notin> set w \<Longrightarrow> split_on c (w @ c # s) = w # split_on c s"
  by (induction w) (auto split: list.splits)

lemma split_on_word: "c \<notin> set w \<Longrightarrow> split_on c w = [w]"
  by (induction w) auto

lemma split_on_join:
  "ws \<noteq> [] \<Longrightarrow> \<forall>w \<in> set ws. c \<notin> set w \<Longrightarrow> split_on c (join_with [c] ws) = ws"
proof (induction ws)
  case (Cons w ws)
  then show ?case by (cases ws) (simp_all add: split_on_word split_on_append)
qed simp

definition name_word :: "string \<Rightarrow> bool" where
  "name_word w \<longleftrightarrow> w \<noteq> [] \<and> w \<noteq> ''.'' \<and> CHR ''/'' \<notin> set w"

definition canonical :: "fpath \<Rightarrow> bool" where
  "canonical p \<longleftrightarrow> (\<forall>w \<in> set p. name_word w \<and> w \<noteq> ''..'')"

lemma split_on_words: "w \<in> set (split_on c s) \<Longrightarrow> c \<notin> set w"
  by (induction s arbitrary: w) (auto split: list.splits if_splits)

lemma path_parts_words: "w \<in> set (path_parts s) \<Longrightarrow> name_word w"
  using split_on_words by (auto simp: path_parts_def name_word_def)

lemma clean_parts_canonical: "canonical ws \<Longrightarrow> clean_parts r acc ws = rev acc @ ws"
  by (induction ws arbitrary: acc) (auto simp: canonical_def name_word_def)

lemma path_text_split: "canonical p \<Longrightarrow> split_on (CHR ''/'') (path_text p) = [] # (if p = [] then [[]] else p)"
  using split_on_join [of p "CHR ''/''"] by (auto simp: path_text_def canonical_def name_word_def)

lemma path_text_clean: "canonical p \<Longrightarrow> path_clean (path_text p) = path_text p"
  by (auto simp: path_clean_def Let_def path_text_split clean_parts_canonical is_abs_path_def has_prefix_def)
     (auto simp: path_text_def)

lemma path_text_parts: "canonical p \<Longrightarrow> path_parts (path_text p) = p"
  by (auto simp: path_parts_def path_text_split canonical_def name_word_def filter_id_conv)

lemma rel_parts_prefix: "hd (rel_parts r p) \<noteq> ''..'' \<or> rel_parts r p = [] \<Longrightarrow> prefix r p"
proof (induction r arbitrary: p)
  case (Cons b bs)
  then show ?case by (cases p) (auto split: if_splits)
qed simp

lemma inside_root:
  assumes "\<not> outsideRoot root (path_text p)" and "canonical p"
  shows "prefix (path_parts (path_clean root)) p"
proof (rule rel_parts_prefix)
  let ?r = "rel_parts (path_parts (path_clean root)) p"
  have rel: "path_rel root (path_text p) = (if ?r = [] then ''.'' else join_with ''/'' ?r)"
    using assms(2) by (simp add: path_rel_def path_text_clean path_text_parts Let_def)
  show "hd ?r \<noteq> ''..'' \<or> ?r = []"
  proof (rule ccontr)
    assume "\<not> ?thesis"
    then obtain ws where r: "?r = ''..'' # ws" by (cases ?r) auto
    then have "path_rel root (path_text p) = ''..'' \<or> has_prefix (path_rel root (path_text p)) ''../''"
      by (cases ws) (auto simp: rel has_prefix_def)
    then show False using assms(1) by (auto simp: outsideRoot_def)
  qed
qed

subsection \<open>Resolution\<close>

lemma canonical_butlast: "canonical p \<Longrightarrow> canonical (butlast p)"
  by (auto simp: canonical_def dest: in_set_butlastD)

lemma resolve_canonical:
  "resolve m n fs acc cs = Inr p \<Longrightarrow> canonical acc \<Longrightarrow> (\<And>w. w \<in> set cs \<Longrightarrow> name_word w) \<Longrightarrow> canonical p"
proof (induction m n fs acc cs rule: resolve.induct)
  case (2 missing n fs acc c cs)
  have a: "canonical (acc @ [c])" if "c \<noteq> ''..''" using 2(5,6) that by (auto simp: canonical_def)
  have cs: "\<And>w. w \<in> set cs \<Longrightarrow> name_word w" using 2(6) by simp
  show ?case
  proof (cases "c = ''..''")
    case True
    then show ?thesis using 2(1) 2(4) canonical_butlast [OF 2(5)] cs by simp
  next
    case False
    show ?thesis
    proof (cases "fs_lookup fs (acc @ [c])")
      case None
      then show ?thesis using 2(4) False a by (simp split: if_splits)
    next
      case (Some e)
      show ?thesis
      proof (cases e)
        case (LinkE t)
        have "canonical (if is_abs_path t then [] else acc)" using 2(5) by (simp add: canonical_def)
        moreover have "\<And>w. w \<in> set (path_parts t @ cs) \<Longrightarrow> name_word w" using cs path_parts_words by auto
        ultimately show ?thesis using 2(3) [OF False Some LinkE] 2(4) False Some LinkE by (simp split: if_splits)
      next
        case DirE
        then show ?thesis using 2(2) [OF False Some DirE _ a [OF False]] 2(4) False Some cs by simp
      qed (use 2(4) False Some a in \<open>auto split: if_splits\<close>)
    qed
  qed
qed simp

text \<open>A path that resolves does so with more links allowed, to the same place.\<close>

lemma resolve_mono: "resolve m n fs acc cs = Inr p \<Longrightarrow> n \<le> n' \<Longrightarrow> resolve m n' fs acc cs = Inr p"
proof (induction m n fs acc cs arbitrary: n' rule: resolve.induct)
  case (2 missing n fs acc c cs)
  show ?case
  proof (cases "c = ''..''")
    case True
    then show ?thesis using 2 by simp
  next
    case False
    show ?thesis
    proof (cases "fs_lookup fs (acc @ [c])")
      case None
      then show ?thesis using 2(4) False by simp
    next
      case (Some e)
      show ?thesis
      proof (cases e)
        case (LinkE t)
        with 2(4) False Some have "0 < n" by (simp split: if_splits)
        then show ?thesis using 2(3) [OF False Some LinkE] 2(4,5) False Some LinkE by simp
      next
        case DirE
        then show ?thesis using 2(2) [OF False Some DirE] 2(4,5) False Some by simp
      qed (use 2(4) False Some in auto)
    qed
  qed
qed simp

text \<open>A path resolves through the directory it ends in.\<close>

lemma resolve_snoc:
  assumes "resolve True n fs acc (cs @ [b]) = Inr q"
  obtains d k where "resolve False n fs acc cs = Inr d" and "k \<le> n" and "resolve True k fs d [b] = Inr q"
  using assms
proof (induction False n fs acc cs arbitrary: thesis rule: resolve.induct)
  case (1 n fs acc)
  show ?case by (rule 1(1) [of acc n]) (use 1(2) in \<open>simp_all del: resolve.simps(2)\<close>)
next
  case (2 n fs acc c cs)
  show ?case
  proof (cases "c = ''..''")
    case True
    with 2(5) have r: "resolve True n fs (butlast acc) (cs @ [b]) = Inr q" by simp
    from 2(1) [OF True _ r] obtain d k where
      "resolve False n fs (butlast acc) cs = Inr d" "k \<le> n" "resolve True k fs d [b] = Inr q" by blast
    then show ?thesis using 2(4) [of d k] True by (simp del: resolve.simps(2) add: resolve.simps(2) [of False])
  next
    case False
    show ?thesis
    proof (cases "fs_lookup fs (acc @ [c])")
      case None
      then show ?thesis using 2(5) False by simp
    next
      case (Some e)
      show ?thesis
      proof (cases e)
        case (LinkE t)
        let ?acc = "if is_abs_path t then [] else acc"
        from 2(5) False Some LinkE have n: "n \<noteq> 0"
          and r: "resolve True (n - 1) fs ?acc ((path_parts t @ cs) @ [b]) = Inr q" by (simp_all split: if_splits)
        from 2(3) [OF False Some LinkE n _ r] obtain d k where
          "resolve False (n - 1) fs ?acc (path_parts t @ cs) = Inr d" "k \<le> n - 1" "resolve True k fs d [b] = Inr q"
          by blast
        then show ?thesis using 2(4) [of d k] False Some LinkE n by (simp del: resolve.simps(2) add: resolve.simps(2) [of False])
      next
        case DirE
        from 2(5) False Some DirE have r: "resolve True n fs (acc @ [c]) (cs @ [b]) = Inr q" by simp
        from 2(2) [OF False Some DirE _ r] obtain d k where
          "resolve False n fs (acc @ [c]) cs = Inr d" "k \<le> n" "resolve True k fs d [b] = Inr q" by blast
        then show ?thesis using 2(4) [of d k] False Some DirE by (simp del: resolve.simps(2) add: resolve.simps(2) [of False])
      qed (use 2(5) False Some in auto)
    qed
  qed
qed

lemma resolve_last:
  assumes "resolve True n fs d [b] = Inr q" and "b \<noteq> ''..''" and "\<And>t. fs_lookup fs (d @ [b]) \<noteq> Some (LinkE t)"
  shows "q = d @ [b]"
  using assms by (auto split: option.splits fs_entry.splits if_splits)

subsection \<open>What a restore may change\<close>

text \<open>
  Between two states of the file system: a missing path may have become a directory, and a path
  below the root that was missing or a regular file may have become a regular file.
\<close>

definition becomes :: "fpath \<Rightarrow> fpath \<Rightarrow> fs_entry option \<Rightarrow> fs_entry option \<Rightarrow> bool" where
  "becomes root p e e' \<longleftrightarrow>
     e' = e \<or> (e = None \<and> e' = Some DirE)
     \<or> (prefix root p \<and> (e = None \<or> (\<exists>m c. e = Some (RegularE m c))) \<and> (\<exists>m c. e' = Some (RegularE m c)))"

definition confined :: "fpath \<Rightarrow> fsys \<Rightarrow> fsys \<Rightarrow> bool" where
  "confined root fs fs' \<longleftrightarrow> (\<forall>p. becomes root p (fs_lookup fs p) (fs_lookup fs' p))"

lemma confined_refl [simp]: "confined root fs fs"
  by (simp add: confined_def becomes_def)

lemma confined_trans: "confined root fs fs1 \<Longrightarrow> confined root fs1 fs2 \<Longrightarrow> confined root fs fs2"
  unfolding confined_def becomes_def by (metis fs_entry.distinct(1) option.distinct(1) option.inject)

lemma map_of_filter_other: "p \<noteq> q \<Longrightarrow> map_of (filter (\<lambda>x. fst x \<noteq> p) fs) q = map_of fs q"
  by (simp add: map_of_filter_neq)

lemma fs_lookup_put: "fs_lookup (fs_put p e fs) q = (if q = p \<and> p \<noteq> [] then Some e else fs_lookup fs q)"
  by (simp add: fs_lookup_def fs_put_def map_of_filter_other)

lemma confined_new_directory: "fs_lookup fs p = None \<Longrightarrow> confined root fs (fs_put p DirE fs)"
  by (auto simp: confined_def becomes_def fs_lookup_put)

lemma confined_file:
  "prefix root p \<Longrightarrow> fs_lookup fs p = None \<or> (\<exists>m c. fs_lookup fs p = Some (RegularE m c))
   \<Longrightarrow> confined root fs (fs_put p (RegularE m c) fs)"
  by (auto simp: confined_def becomes_def fs_lookup_put)

lemma os_mkdir_confined: "os_mkdir parts fs = (r, fs') \<Longrightarrow> confined root fs fs'"
  by (auto simp: os_mkdir_def confined_new_directory split: sum.splits if_splits option.splits fs_entry.splits)

lemma mkdir_up_confined: "mkdir_up ps fs = (r, fs') \<Longrightarrow> confined root fs fs'"
proof (induction ps arbitrary: r fs')
  case (Cons c up)
  show ?case
  proof (cases "os_stat fs (rev (c # up))")
    case (Inl e)
    with Cons.prems have "s_bind (mkdir_up up) (\<lambda>_. os_mkdir (rev (c # up))) fs = (r, fs')" by simp
    then show ?thesis
      by (cases rule: s_bind_cases) (use Cons.IH os_mkdir_confined confined_trans in blast)+
  next
    case (Inr e)
    then show ?thesis using Cons.prems by (cases e) auto
  qed
qed (simp add: session_simps)

lemma EvalSymlinks_canonical: "resolve m n fs [] (path_parts s) = Inr p \<Longrightarrow> canonical p"
  by (erule resolve_canonical) (auto simp: canonical_def dest: path_parts_words)

lemma os_write_file_confined:
  assumes "os_write_file umask s mode content fs = (r, fs')" and "path_parts s = cs @ [b]" and "b \<noteq> ''..''"
    and "EvalSymlinks fs dir = Inr (path_text d')" and "path_parts dir = cs" and "canonical d'"
    and "\<And>t. os_lstat fs (cs @ [b]) \<noteq> Inr (LinkE t)" and "prefix root d'"
  shows "confined root fs fs'"
proof (cases "resolve True kernel_links fs [] (path_parts s)")
  case (Inl e)
  then show ?thesis using assms(1) by (simp add: os_write_file_def)
next
  case (Inr q)
  from Inr assms(2) obtain d k where d: "resolve False kernel_links fs [] cs = Inr d" and q: "resolve True k fs d [b] = Inr q"
    by (metis resolve_snoc)
  have "kernel_links \<le> walk_links" by (simp add: kernel_links_def walk_links_def)
  with d have w: "resolve False walk_links fs [] cs = Inr d" by (rule resolve_mono)
  then have "path_text d = path_text d'" using assms(4,5) by (simp add: EvalSymlinks_def sum_bind_def)
  moreover have "canonical d" by (rule EvalSymlinks_canonical [of False walk_links fs dir]) (use w assms(5) in simp)
  ultimately have dd: "d = d'" using assms(6) path_text_parts by metis
  have "fs_lookup fs (d @ [b]) \<noteq> Some (LinkE t)" for t
    using assms(7) [of t] d by (auto simp: os_lstat_def entry_at_def sum_bind_def)
  with q assms(3) have qq: "q = d' @ [b]" using resolve_last dd by blast
  have pre: "prefix root q" using assms(8) by (simp add: qq)
  show ?thesis using assms(1) Inr pre
    by (auto simp: os_write_file_def intro: confined_file split: option.splits fs_entry.splits)
qed


lemma split_on_last: "split_on c (s @ [c]) = split_on c s @ [[]]"
  by (induction s) (auto split: list.splits simp: split_on_nonempty)

lemma clean_parts_last: "clean_parts r acc (ws @ [[]]) = clean_parts r acc ws"
  by (induction r acc ws rule: clean_parts.induct) (auto split: list.splits)

lemma clean_parts_rooted:
  "canonical acc \<Longrightarrow> (\<And>w. w \<in> set ws \<Longrightarrow> CHR ''/'' \<notin> set w) \<Longrightarrow> canonical (clean_parts True acc ws)"
proof (induction ws arbitrary: acc)
  case Nil
  then show ?case by (simp add: canonical_def)
next
  case (Cons w ws)
  have w: "CHR ''/'' \<notin> set w" and ws: "\<And>v. v \<in> set ws \<Longrightarrow> CHR ''/'' \<notin> set v" using Cons.prems(2) by simp_all
  have t: "canonical (tl acc)" using Cons.prems(1) by (cases acc) (simp_all add: canonical_def)
  have no: "hd acc \<noteq> ''..''" if "acc \<noteq> []" using Cons.prems(1) that by (cases acc) (simp_all add: canonical_def)
  consider "w = [] \<or> w = ''.''" | "w = ''..''" | "w \<noteq> [] \<and> w \<noteq> ''.'' \<and> w \<noteq> ''..''" by blast
  then show ?case
  proof cases
    case 1
    then show ?thesis using Cons.IH [OF Cons.prems(1) ws] by auto
  next
    case 2
    then show ?thesis using Cons.IH [OF Cons.prems(1) ws] Cons.IH [OF t ws] no by (cases acc) simp_all
  next
    case 3
    then have "canonical (w # acc)" using Cons.prems(1) w by (simp add: canonical_def name_word_def)
    then show ?thesis using 3 Cons.IH [OF _ ws] by simp
  qed
qed

lemma clean_absolute:
  assumes "is_abs_path s"
  obtains p where "path_clean s = path_text p" and "canonical p"
proof
  let ?p = "clean_parts True [] (split_on (CHR ''/'') s)"
  show "path_clean s = path_text ?p" using assms by (simp add: path_clean_def path_text_def)
  show "canonical ?p" by (rule clean_parts_rooted) (auto simp: canonical_def dest: split_on_words)
qed

lemma join_snoc: "ws \<noteq> [] \<Longrightarrow> join_with sep (ws @ [b]) = join_with sep ws @ sep @ b"
  by (induction sep ws rule: join_with.induct) auto

lemma path_dir_text:
  assumes "canonical (cs @ [b])"
  shows "path_dir (path_text (cs @ [b])) = path_text cs"
proof -
  have b: "CHR ''/'' \<notin> set b" and c: "canonical cs" using assms by (auto simp: canonical_def name_word_def)
  have t: "path_text (cs @ [b]) = (if cs = [] then ''/'' else path_text cs @ ''/'') @ b"
    by (simp add: path_text_def join_snoc)
  have "dropWhile (\<lambda>x. x \<noteq> CHR ''/'') (rev b @ CHR ''/'' # ys) = CHR ''/'' # ys" for ys
    using b by (subst dropWhile_append2) auto
  then have u: "up_to_slash (path_text (cs @ [b])) = (if cs = [] then ''/'' else path_text cs @ ''/'')"
    by (simp add: up_to_slash_def t)
  show ?thesis
  proof (cases "cs = []")
    case True
    then show ?thesis unfolding path_dir_def u
      by (simp add: path_text_def path_clean_def is_abs_path_def has_prefix_def Let_def)
  next
    case False
    then show ?thesis using c unfolding path_dir_def u
      by (simp add: path_clean_def split_on_last path_text_split clean_parts_canonical clean_parts_last
          is_abs_path_def has_prefix_def Let_def) (simp add: path_text_def)
  qed
qed

subsection \<open>A restore\<close>

lemma restore_entry_confined:
  assumes "restore_entry umask destination e fs = (r, fs')" and "is_abs_path destination"
  shows "confined (path_parts (path_clean destination)) fs fs'"
proof -
  let ?root = "path_parts (path_clean destination)"
  let ?file = "path_join [destination, path_clean (te_Name e)]"
  let ?dir = "path_dir ?file"
  have "destination \<noteq> []" using assms(2) by (auto simp: is_abs_path_def has_prefix_def)
  moreover have "path_clean (te_Name e) \<noteq> []" by (simp add: path_clean_def Let_def)
  ultimately have j: "?file = path_clean (destination @ ''/'' @ path_clean (te_Name e))"
    by (simp add: path_join_def)
  have "is_abs_path (destination @ ''/'' @ path_clean (te_Name e))"
    using assms(2) by (cases destination) (auto simp: is_abs_path_def has_prefix_def)
  then obtain fp where fp: "?file = path_text fp" "canonical fp" unfolding j by (rule clean_absolute)
  have parts: "path_parts ?file = fp" by (simp add: fp path_text_parts)
  show ?thesis
  proof (cases "entry_refused e")
    case (Some err)
    then have "fs' = fs" using assms(1) by (simp add: restore_entry_def Let_def s_bind_def s_check_cases)
    then show ?thesis by simp
  next
    case None
    let ?check = "\<lambda>parent. s_check (if outsideRoot destination parent
          then Some (Err (''source bundle path escapes destination through '' @ quoted (path_dir (te_Name e)))) else None)"
    let ?put = "s_bind (os_write_file umask ?file (entry_mode e) (te_Content e)) (\<lambda>_.
      case te_Fault e of Some err \<Rightarrow> s_fail err | None \<Rightarrow> s_ret (path_clean (te_Name e)))"
    let ?lstat = "s_look (\<lambda>fs. case os_lstat fs (path_parts ?file) of
          Inr (LinkE t) \<Rightarrow> Inl (Err (''source bundle refuses to overwrite symlink '' @ quoted (te_Name e)))
        | _ \<Rightarrow> Inr ())"
    from assms(1) None have "s_bind (os_mkdir_all ?dir) (\<lambda>_. s_bind (s_look (\<lambda>fs. EvalSymlinks fs ?dir))
        (\<lambda>parent. s_bind (?check parent) (\<lambda>_. s_bind ?lstat (\<lambda>_. ?put)))) fs = (r, fs')"
      by (simp add: restore_entry_def Let_def s_bind_def s_check_cases)
    then show ?thesis
    proof (cases rule: s_bind_cases)
      case (failed err)
      then show ?thesis by (simp add: os_mkdir_all_def mkdir_up_confined)
    next
      case (went_on u fs1)
      have c1: "confined ?root fs fs1" using went_on(1) by (simp add: os_mkdir_all_def mkdir_up_confined)
      from went_on(2) have "confined ?root fs1 fs'"
      proof (cases rule: s_bind_cases)
        case (failed err)
        then show ?thesis by (simp add: session_simps)
      next
        case (went_on parent fs2)
        from went_on(1) have parent: "EvalSymlinks fs1 ?dir = Inr parent" and fs2: "fs2 = fs1"
          by (auto simp: session_simps)
        from parent obtain d where d: "resolve False walk_links fs1 [] (path_parts ?dir) = Inr d" "parent = path_text d"
          by (auto simp: EvalSymlinks_def)
        have cd: "canonical d" using d(1) by (rule EvalSymlinks_canonical)
        from went_on(2) show ?thesis
        proof (cases "outsideRoot destination parent")
          case True
          with went_on(2) have "fs' = fs1" by (simp add: s_bind_def s_check_cases fs2)
          then show ?thesis by simp
        next
          case False
          then have pre: "prefix ?root d" using inside_root cd d(2) by blast
          from went_on(2) False have "s_bind ?lstat (\<lambda>_. ?put) fs1 = (r, fs')"
            by (simp add: s_bind_def s_check_cases fs2)
          then show ?thesis
          proof (cases rule: s_bind_cases)
            case (failed err)
            then show ?thesis by (simp add: session_simps)
          next
            case (went_on v fs3)
            then have fs3: "fs3 = fs1" and nolink: "\<And>t. os_lstat fs1 (path_parts ?file) \<noteq> Inr (LinkE t)"
              by (auto simp: session_simps)
            obtain w fs4 where w: "os_write_file umask ?file (entry_mode e) (te_Content e) fs1 = (w, fs4)" by fastforce
            have "fs' = fs4" using went_on(2) w
              by (auto simp: fs3 s_bind_def session_simps split: sum.splits option.splits)
            moreover have "confined ?root fs1 fs4"
            proof (cases fp rule: rev_cases)
              case Nil
              then have "fs4 = fs1" using w by (simp add: os_write_file_def parts fs_lookup_def)
              then show ?thesis by simp
            next
              case (snoc cs b)
              have "b \<noteq> ''..''" using fp(2) by (auto simp: snoc canonical_def)
              moreover have "path_parts ?dir = cs" using fp path_dir_text path_text_parts
                by (simp add: snoc) (simp add: canonical_def path_text_parts)
              ultimately show ?thesis
                using os_write_file_confined [OF w _ _ _ _ cd _ pre, of cs b ?dir] parent d(2) nolink
                by (simp add: parts snoc)
            qed
            ultimately show ?thesis by simp
          qed
        qed
      qed
      with c1 show ?thesis by (rule confined_trans)
    qed
  qed
qed

lemma restore_entries_confined:
  "restore_entries umask destination es fs = (r, fs') \<Longrightarrow> is_abs_path destination
   \<Longrightarrow> confined (path_parts (path_clean destination)) fs fs'"
proof (induction es arbitrary: fs r)
  case (Cons e es)
  from Cons.prems(1) have "s_bind (restore_entry umask destination e) (\<lambda>f1.
       s_bind (restore_entries umask destination es) (\<lambda>files. s_ret (f1 # files))) fs = (r, fs')" by simp
  then show ?case
  proof (cases rule: s_bind_cases)
    case (failed err)
    then show ?thesis using restore_entry_confined Cons.prems(2) by blast
  next
    case (went_on f1 fs1)
    have c: "confined (path_parts (path_clean destination)) fs fs1"
      using went_on(1) restore_entry_confined Cons.prems(2) by blast
    obtain r1 where "restore_entries umask destination es fs1 = (r1, fs')"
      using went_on(2) by (auto simp: s_bind_def session_simps split: prod.splits sum.splits)
    then show ?thesis using Cons.IH Cons.prems(2) c confined_trans by blast
  qed
qed (simp add: session_simps)

text \<open>
  C19. A restore stays inside its destination, whatever the archive holds and whatever links lie on
  the way: it writes only regular files, only below the destination, and only where there was
  nothing or a regular file; elsewhere it creates at most directories that were missing; and a
  destination that is not a real directory is left alone.
\<close>
theorem restore_stays_inside:
  assumes "RestoreSourceBundle unpack umask cwd content destination fs = (r, fs')" and "is_abs_path cwd"
  shows "(\<forall>p. becomes (path_parts (path_abs cwd destination)) p (fs_lookup fs p) (fs_lookup fs' p))
     \<and> (\<forall>e. secureRoot cwd fs destination = Inl e \<longrightarrow> fs' = fs \<and> r = Inl e)"
proof -
  from assms(1) have run: "s_bind (s_look (\<lambda>fs. secureRoot cwd fs destination)) (\<lambda>root.
     s_bind (s_look (\<lambda>fs. unpack content)) (\<lambda>(entries, fault).
     s_bind (restore_entries umask root entries) (\<lambda>files.
     case fault of Some err \<Rightarrow> s_fail err | None \<Rightarrow> s_ret (sort files)))) fs = (r, fs')"
    by (simp add: RestoreSourceBundle_def)
  show ?thesis
  proof (cases "secureRoot cwd fs destination")
    case (Inl e)
    then have "fs' = fs" "r = Inl e" using run by (simp_all add: s_bind_def session_simps)
    then show ?thesis using Inl by (simp add: becomes_def)
  next
    case (Inr root)
    then have root: "root = path_abs cwd destination" and "destination \<noteq> []"
      by (auto simp: secureRoot_def Let_def split: if_splits)
    then have "is_abs_path (if is_abs_path destination then destination else cwd @ ''/'' @ destination)"
      and "root = path_clean (if is_abs_path destination then destination else cwd @ ''/'' @ destination)"
      using assms(2) by (cases cwd; auto simp: path_abs_def path_join_def is_abs_path_def has_prefix_def)+
    then obtain p where p: "root = path_text p" "canonical p" by (metis clean_absolute)
    then have abs: "is_abs_path root" and "path_clean root = root"
      by (simp_all add: path_text_clean) (simp add: path_text_def is_abs_path_def has_prefix_def)
    show ?thesis
    proof (cases "unpack content")
      case (Inl e)
      then have "fs' = fs" using run Inr by (simp add: s_bind_def session_simps)
      then show ?thesis using Inr by (simp add: becomes_def)
    next
      case unpacked: (Inr u)
      obtain entries fault where u: "u = (entries, fault)" by fastforce
      obtain w fs1 where w: "restore_entries umask root entries fs = (w, fs1)" by fastforce
      then have "fs' = fs1" using run Inr unpacked
        by (auto simp: u s_bind_def session_simps split: sum.splits option.splits)
      then show ?thesis
        using restore_entries_confined [OF w abs] Inr root \<open>path_clean root = root\<close> by (simp add: confined_def)
    qed
  qed
qed

text \<open>
  The directories for an entry are created before the check that they lie inside, so an archive
  that leads through a link of the destination is refused but leaves a directory outside.
\<close>

definition linked_fs :: fsys where
  "linked_fs = [([''d''], DirE), ([''d'', ''l''], LinkE ''/out''), ([''out''], DirE)]"

definition escaping_entry :: tar_entry where
  "escaping_entry = \<lparr>te_Regular = True, te_Name = ''l/n/f.tf'', te_Mode = 420, te_Content = ''x'', te_Fault = None\<rparr>"

theorem refused_entry_creates_a_directory_outside:
  "let (r, fs') = RestoreSourceBundle (\<lambda>c. Inr ([escaping_entry], None)) (\<lambda>m. m) ''/'' [] ''/d'' linked_fs in
     (\<exists>e. r = Inl e) \<and> fs_lookup linked_fs [''out'', ''n''] = None \<and> fs_lookup fs' [''out'', ''n''] = Some DirE"
proof -
  let ?run = "RestoreSourceBundle (\<lambda>c. Inr ([escaping_entry], None)) (\<lambda>m. m) ''/'' [] ''/d'' linked_fs"
  have "isl (fst ?run)" "fs_lookup (snd ?run) [''out'', ''n''] = Some DirE" "fs_lookup linked_fs [''out'', ''n''] = None"
    by code_simp+
  then show ?thesis by (cases "fst ?run") (auto simp: case_prod_beta Let_def)
qed

theorem restore_stays_inside_witness:
  "becomes [''d''] [''out'', ''n''] None (fs_lookup (snd (RestoreSourceBundle (\<lambda>c. Inr ([escaping_entry], None)) (\<lambda>m. m) ''/'' [] ''/d''
     linked_fs)) [''out'', ''n''])"
proof -
  have d: "path_parts (path_abs ''/'' ''/d'') = [''d'']" and n: "fs_lookup linked_fs [''out'', ''n''] = None" and a: "is_abs_path ''/''"
    by code_simp+
  let ?run = "RestoreSourceBundle (\<lambda>c. Inr ([escaping_entry], None)) (\<lambda>m. m) ''/'' [] ''/d'' linked_fs"
  have "?run = (fst ?run, snd ?run)" by (rule prod.collapse [symmetric])
  from restore_stays_inside [OF this a, unfolded d]
  have "\<forall>p. becomes [''d''] p (fs_lookup linked_fs p) (fs_lookup (snd ?run) p)" by (rule conjunct1)
  from spec [OF this, of "[''out'', ''n'']"] show ?thesis unfolding n .
qed

end
