(* ===== verification/SourceRound.thy ===== *)
theory SourceRound
  imports SourceSafety
begin

section \<open>What a bundle holds, and that restoring it gives it back\<close>

text \<open>
  What BuildSourceBundle puts into a bundle, stated over the paths below the root instead of over
  the walk; and the round trip with RestoreSourceBundle.
\<close>

subsection \<open>What a bundle holds\<close>

lemma lex_between:
  assumes "p \<le> q" and "q \<le> p @ z"
  shows "prefix p (q :: 'a::linorder list)"
  using assms
proof (induction p arbitrary: q)
  case (Cons a p)
  then obtain b q' where q: "q = b # q'" by (cases q) auto
  then have "b = a" using Cons.prems by (auto simp: Cons_le_Cons)
  then show ?case using Cons by (auto simp: q Cons_le_Cons)
qed simp

lemma dropWhile_prefix:
  assumes "sorted (p # ps)"
  shows "dropWhile (\<lambda>q. take (length p) q = p) ps = filter (\<lambda>q. \<not> prefix p q) (ps :: 'a::linorder list list)"
  using assms
proof (induction ps)
  case (Cons q ps)
  have pre: "take (length p) q = p \<longleftrightarrow> prefix p q"
    by (metis append_eq_conv_conj prefix_def append_take_drop_id)
  show ?case
  proof (cases "prefix p q")
    case True
    then show ?thesis using Cons pre by simp
  next
    case False
    have "\<not> prefix p r" if r: "r \<in> set ps" for r
    proof
      assume "prefix p r"
      then obtain z where "r = p @ z" by (auto simp: prefix_def)
      moreover have "p \<le> q" "q \<le> r" using Cons.prems r by auto
      ultimately show False using lex_between [of p q z] False by simp
    qed
    then show ?thesis using False pre by (simp add: filter_id_conv)
  qed
qed simp

lemma strict_prefix_less: "strict_prefix q (p :: 'a::linorder list) \<Longrightarrow> q < p"
proof -
  assume "strict_prefix q p"
  then obtain z where p: "p = q @ z" "q \<noteq> p" by (auto simp: strict_prefix_def prefix_def)
  have "q \<le> q @ z" by (induction q) auto
  with p show ?thesis by (simp add: le_less)
qed

text \<open>
  A path is reached by the walk when every directory above it may be in the bundle; it is bundled
  when it is also a regular file that may.
\<close>

definition reached :: "fsys \<Rightarrow> fpath \<Rightarrow> fpath set \<Rightarrow> fpath \<Rightarrow> bool" where
  "reached fs base within p \<longleftrightarrow>
     (\<forall>q \<in> within. strict_prefix q p \<and> fs_lookup fs (base @ q) = Some DirE \<longrightarrow> bundlePathAllowed (join_with ''/'' q))"

definition regular :: "fsys \<Rightarrow> fpath \<Rightarrow> bool" where
  "regular fs p \<longleftrightarrow> (\<exists>m c. fs_lookup fs p = Some (RegularE m c))"

definition acceptable :: "fsys \<Rightarrow> fpath \<Rightarrow> fpath \<Rightarrow> bool" where
  "acceptable fs base p \<longleftrightarrow> fs_lookup fs (base @ p) \<in> {None, Some DirE}
     \<or> (regular fs (base @ p) \<and> \<not> isImplicitTerraformVars (join_with ''/'' p))"

definition bundled :: "fsys \<Rightarrow> fpath \<Rightarrow> fpath set \<Rightarrow> fpath set" where
  "bundled fs base within = {p \<in> within. reached fs base within p \<and> regular fs (base @ p) \<and> bundlePathAllowed (join_with ''/'' p)}"

lemma reached_head:
  assumes "sorted (p # ps)"
  shows "reached fs base (set (p # ps)) p"
  using assms strict_prefix_less by (auto simp: reached_def dest: leD)

lemma reached_allowed:
  assumes "fs_lookup fs (base @ p) \<noteq> Some DirE \<or> bundlePathAllowed (join_with ''/'' p)"
  shows "reached fs base (insert p within) = reached fs base within"
  using assms by (auto simp: reached_def fun_eq_iff)

lemma reached_skipped:
  assumes "fs_lookup fs (base @ p) = Some DirE" and "\<not> bundlePathAllowed (join_with ''/'' p)" and "p \<notin> within"
  shows "{r \<in> within. reached fs base (insert p within) r}
       = {r \<in> {q \<in> within. \<not> prefix p q}. reached fs base {q \<in> within. \<not> prefix p q} r}"
  using assms by (auto simp: reached_def strict_prefix_def)

lemma walk_sources_spec:
  assumes "walk_sources fs base ps = Inr entries" and "sorted ps" and "distinct ps"
  shows "set entries = join_with ''/'' ` bundled fs base (set ps)
    \<and> (\<forall>p \<in> set ps. reached fs base (set ps) p \<longrightarrow> acceptable fs base p)"
  using assms
proof (induction fs base ps arbitrary: entries rule: walk_sources.induct)
  case (1 fs base)
  then show ?case by (simp add: bundled_def)
next
  case (2 fs base p ps)
  let ?rel = "join_with ''/'' p"
  have head: "reached fs base (insert p (set ps)) p" using reached_head [OF 2(6)] by simp
  have np: "p \<notin> set ps" and s: "sorted ps" and d: "distinct ps" using 2(6,7) by simp_all
  show ?case
  proof (cases "fs_lookup fs (base @ p)")
    case None
    then have "walk_sources fs base ps = Inr entries" using 2(5) by (simp add: Let_def)
    then show ?thesis using 2(1) [OF refl None _ s d] reached_allowed [of fs base p "set ps"] None head
      by (auto simp: bundled_def regular_def acceptable_def)
  next
    case (Some e)
    show ?thesis
    proof (cases e)
      case (RegularE m c)
      then have imp: "\<not> isImplicitTerraformVars ?rel" using 2(5) Some by (auto simp: Let_def)
      then obtain more where more: "walk_sources fs base ps = Inr more"
        and entries: "entries = (if bundlePathAllowed ?rel then ?rel # more else more)"
        using 2(5) Some RegularE by (auto simp: Let_def)
      have reg: "regular fs (base @ p)" using Some RegularE by (simp add: regular_def)
      from 2(2) [OF refl Some RegularE imp more s d] reached_allowed [of fs base p "set ps"] Some RegularE head imp reg
      show ?thesis by (auto simp: bundled_def acceptable_def entries)
    next
      case DirE
      show ?thesis
      proof (cases "bundlePathAllowed ?rel")
        case True
        then have "walk_sources fs base ps = Inr entries" using 2(5) Some DirE by (simp add: Let_def)
        with 2(4) [OF refl Some DirE _ _ s d] reached_allowed [of fs base p "set ps"] Some DirE head True
        show ?thesis by (auto simp: bundled_def regular_def acceptable_def)
      next
        case False
        let ?qs = "filter (\<lambda>q. \<not> prefix p q) ps"
        have drop: "dropWhile (\<lambda>q. take (length p) q = p) ps = ?qs" using dropWhile_prefix 2(6) by blast
        then have "walk_sources fs base ?qs = Inr entries" using 2(5) Some DirE False by (simp add: Let_def)
        moreover have "sorted ?qs" "distinct ?qs" using s d by (simp_all add: sorted_wrt_filter)
        ultimately have IH: "set entries = join_with ''/'' ` bundled fs base (set ?qs)
            \<and> (\<forall>q \<in> set ?qs. reached fs base (set ?qs) q \<longrightarrow> acceptable fs base q)"
          using 2(3) [OF refl Some DirE False] by (simp add: drop)
        have skip: "{r \<in> set ps. reached fs base (insert p (set ps)) r} = {r \<in> set ?qs. reached fs base (set ?qs) r}"
          using reached_skipped [of fs base p "set ps"] Some DirE False np by simp
        have "r \<in> bundled fs base (insert p (set ps)) \<longleftrightarrow> r \<in> bundled fs base (set ?qs)" for r
        proof (cases "r = p")
          case True
          then show ?thesis using Some DirE by (simp add: bundled_def regular_def)
        next
          case False
          have "r \<in> {r \<in> set ps. reached fs base (insert p (set ps)) r} \<longleftrightarrow> r \<in> {r \<in> set ?qs. reached fs base (set ?qs) r}"
            unfolding skip ..
          then show ?thesis using False by (simp add: bundled_def) blast
        qed
        then have "bundled fs base (insert p (set ps)) = bundled fs base (set ?qs)" by blast
        moreover have "acceptable fs base r" if r: "r \<in> set (p # ps)" "reached fs base (set (p # ps)) r" for r
        proof (cases "r = p")
          case True
          then show ?thesis using Some DirE by (simp add: acceptable_def)
        next
          case False
          then have "r \<in> {r \<in> set ps. reached fs base (insert p (set ps)) r}" using r by simp
          then have "r \<in> {r \<in> set ?qs. reached fs base (set ?qs) r}" unfolding skip .
          then show ?thesis using IH by blast
        qed
        ultimately show ?thesis using IH by simp
      qed
    qed (use 2(5) Some in \<open>auto simp: Let_def\<close>)
  qed
qed

lemma absolute_root:
  assumes "is_abs_path cwd" and "root \<noteq> []"
  obtains a where "path_abs cwd root = path_text a" and "canonical a"
proof -
  have "is_abs_path (if is_abs_path root then root else cwd @ ''/'' @ root)"
    and "path_abs cwd root = path_clean (if is_abs_path root then root else cwd @ ''/'' @ root)"
    using assms by (cases cwd; auto simp: path_abs_def path_join_def is_abs_path_def has_prefix_def)+
  then show ?thesis using that by (metis clean_absolute)
qed

subsection \<open>The bundle\<close>

text \<open>A file system whose paths are listed once, each in its canonical form.\<close>

definition proper_fs :: "fsys \<Rightarrow> bool" where
  "proper_fs fs \<longleftrightarrow> distinct (map fst fs) \<and> (\<forall>p \<in> fst ` set fs. canonical p)"

definition content_at :: "fsys \<Rightarrow> fpath \<Rightarrow> string" where
  "content_at fs p = (case fs_lookup fs p of Some (RegularE m c) \<Rightarrow> c | _ \<Rightarrow> [])"

definition mode_at :: "fsys \<Rightarrow> fpath \<Rightarrow> nat" where
  "mode_at fs p = (case fs_lookup fs p of Some (RegularE m c) \<Rightarrow> m | _ \<Rightarrow> 0)"

text \<open>The files below a root that belong to its bundle.\<close>

definition sources :: "fsys \<Rightarrow> fpath \<Rightarrow> fpath set" where
  "sources fs base = bundled fs base (set (below fs base))"

definition source_entry :: "fsys \<Rightarrow> fpath \<Rightarrow> string \<Rightarrow> tar_entry" where
  "source_entry fs base r =
     \<lparr>te_Regular = True, te_Name = r, te_Mode = int (mode_at fs (base @ path_parts r) mod 512),
      te_Content = content_at fs (base @ path_parts r), te_Fault = None\<rparr>"

lemma below_member: "p \<in> set (below fs base) \<longleftrightarrow> p \<noteq> [] \<and> base @ p \<in> fst ` set fs"
proof -
  have "{q \<in> fst ` set fs. take (length base) q = base \<and> length base < length q} = {q \<in> fst ` set fs. \<exists>p. q = base @ p \<and> p \<noteq> []}"
  proof (rule Collect_cong, rule conj_cong [OF refl], rule iffI)
    fix q
    assume q: "take (length base) q = base \<and> length base < length q"
    then have "q = base @ drop (length base) q" by (metis append_take_drop_id)
    moreover have "drop (length base) q \<noteq> []" using q by simp
    ultimately show "\<exists>p. q = base @ p \<and> p \<noteq> []" by blast
  qed auto
  then have "set (below fs base) = drop (length base) ` {q \<in> fst ` set fs. \<exists>p. q = base @ p \<and> p \<noteq> []}"
    by (simp add: below_def)
  then show ?thesis by (auto simp del: fst_conv simp: image_iff) (metis append_eq_conv_conj)+
qed

lemma below_distinct: "proper_fs fs \<Longrightarrow> distinct (below fs base)"
  unfolding below_def proper_fs_def distinct_sort
  by (auto simp: distinct_map intro!: inj_onI) (metis append_take_drop_id)

lemma below_canonical: "proper_fs fs \<Longrightarrow> p \<in> set (below fs base) \<Longrightarrow> canonical p"
  by (fastforce simp: below_member proper_fs_def canonical_def)

lemma lookup_below: "fs_lookup fs (base @ p) = Some e \<Longrightarrow> p \<noteq> [] \<Longrightarrow> p \<in> set (below fs base)"
  by (force simp: below_member fs_lookup_def dest: map_of_SomeD)

lemma join_parts: "canonical p \<Longrightarrow> p \<noteq> [] \<Longrightarrow> path_parts (join_with ''/'' p) = p"
  using split_on_join [of p "CHR ''/''"] by (auto simp: path_parts_def canonical_def name_word_def filter_id_conv)

lemma split_on_two: "split_on c (s @ c # t) = split_on c s @ split_on c t"
  by (induction s) (auto split: list.splits simp: split_on_nonempty)

lemma join_absolute: "CHR ''/'' # s = ''/'' @ s"
  by simp

lemma path_join_text:
  assumes "canonical a" and "canonical p" and "p \<noteq> []"
  shows "path_join [path_text a, join_with ''/'' p] = path_text (a @ p)"
proof -
  have w: "\<forall>w \<in> set p. CHR ''/'' \<notin> set w" using assms(2) by (auto simp: canonical_def name_word_def)
  have "join_with ''/'' p \<noteq> []" using assms(2,3) by (cases p rule: list.exhaust; cases "tl p") (auto simp: canonical_def name_word_def)
  moreover have "path_text a \<noteq> []" by (simp add: path_text_def)
  ultimately have j: "path_join [path_text a, join_with ''/'' p] = path_clean (path_text a @ CHR ''/'' # join_with ''/'' p)"
    by (simp add: path_join_def)
  have s: "split_on (CHR ''/'') (path_text a @ CHR ''/'' # join_with ''/'' p) = [] # (if a = [] then [[]] else a) @ p"
    using split_on_join [OF assms(3) w] by (simp add: split_on_two path_text_split [OF assms(1)])
  have "canonical (a @ p)" using assms by (auto simp: canonical_def)
  moreover have "is_abs_path (path_text a @ CHR ''/'' # join_with ''/'' p)"
    by (simp add: path_text_def is_abs_path_def has_prefix_def)
  ultimately show ?thesis unfolding j path_clean_def s
    by (cases "a = []") (simp_all add: path_text_def clean_parts_canonical assms(2))
qed

lemma join_inj: "inj_on (join_with ''/'') {p. canonical p \<and> p \<noteq> []}"
  by (rule inj_on_inverseI [where g = path_parts]) (auto simp: join_parts)

subsection \<open>What is packed\<close>

lemma resolve_rest:
  "resolve False n fs acc (cs @ ds) = Inr q \<Longrightarrow> resolve False n fs acc cs = Inr d \<Longrightarrow> \<exists>k. resolve False k fs d ds = Inr q"
proof (induction False n fs acc cs rule: resolve.induct)
  case (1 n fs acc)
  then show ?case by auto
next
  case (2 n fs acc c cs)
  show ?case
  proof (cases "c = ''..''")
    case True
    then show ?thesis using 2(1) [OF True] 2(4,5) by simp
  next
    case False
    show ?thesis
    proof (cases "fs_lookup fs (acc @ [c])")
      case None
      then show ?thesis using 2(4) False by simp
    next
      case (Some e)
      show ?thesis
      proof (cases e)
        case (LinkE t)
        then have "n \<noteq> 0" using 2(4) False Some by (auto split: if_splits)
        then show ?thesis using 2(3) [OF False Some LinkE] 2(4,5) False Some LinkE by simp
      next
        case DirE
        then show ?thesis using 2(2) [OF False Some DirE] 2(4,5) False Some by simp
      qed (use 2(4,5) False Some in \<open>auto split: if_splits\<close>)
    qed
  qed
qed

text \<open>A path without links on it resolves to itself, through directories.\<close>

lemma resolve_linkless:
  assumes "resolve False k fs d p = Inr q" and "''..'' \<notin> set p"
    and "\<And>w t. w \<noteq> [] \<Longrightarrow> prefix w p \<Longrightarrow> fs_lookup fs (d @ w) \<noteq> Some (LinkE t)"
  shows "q = d @ p \<and> (\<forall>w. w \<noteq> [] \<and> strict_prefix w p \<longrightarrow> fs_lookup fs (d @ w) = Some DirE)"
  using assms
proof (induction p arbitrary: d)
  case (Cons c p)
  have c: "c \<noteq> ''..''" using Cons.prems(2) by auto
  have nl: "\<And>t. fs_lookup fs (d @ [c]) \<noteq> Some (LinkE t)" using Cons.prems(3) [of "[c]"] by simp
  show ?case
  proof (cases "fs_lookup fs (d @ [c]) = Some DirE")
    case True
    then have r: "resolve False k fs (d @ [c]) p = Inr q" using Cons.prems(1) c by simp
    have "q = (d @ [c]) @ p \<and> (\<forall>w. w \<noteq> [] \<and> strict_prefix w p \<longrightarrow> fs_lookup fs ((d @ [c]) @ w) = Some DirE)"
    proof (rule Cons.IH [OF r])
      show "''..'' \<notin> set p" using Cons.prems(2) by simp
      show "fs_lookup fs ((d @ [c]) @ w) \<noteq> Some (LinkE t)" if "w \<noteq> []" "prefix w p" for w t
        using Cons.prems(3) [of "c # w" t] that by simp
    qed
    moreover have "fs_lookup fs (d @ w) = Some DirE" if "w \<noteq> []" "strict_prefix w (c # p)" for w
    proof (cases w)
      case (Cons x v)
      with that have "x = c" "strict_prefix v p" by auto
      then show ?thesis using calculation True Cons by (cases "v = []") auto
    qed (use that in simp)
    ultimately show ?thesis by simp
  next
    case False
    then have "p = []" "q = d @ [c]" using Cons.prems(1) c nl by (auto split: option.splits fs_entry.splits if_splits)
    then show ?thesis by (auto simp: strict_prefix_def prefix_Cons)
  qed
qed (simp add: strict_prefix_def)

lemma distinct_subseq: "subseq xs ys \<Longrightarrow> distinct ys \<Longrightarrow> distinct xs"
  by (auto simp: subseq_conv_nths)

lemma walk_sources_subseq: "walk_sources fs base ps = Inr entries \<Longrightarrow> subseq entries (map (join_with ''/'') ps)"
proof (induction fs base ps arbitrary: entries rule: walk_sources.induct)
  case (2 fs base p ps)
  have drop: "subseq (map (join_with ''/'') (dropWhile P ps)) (map (join_with ''/'') ps)" for P
    by (intro subseq_map) (metis subseq_order.refl suffix_dropWhile suffix_imp_subseq)
  show ?case
  proof (cases "fs_lookup fs (base @ p)")
    case (Some e)
    show ?thesis
    proof (cases "e = DirE \<and> \<not> bundlePathAllowed (join_with ''/'' p)")
      case True
      then have "subseq entries (map (join_with ''/'') (dropWhile (\<lambda>q. take (length p) q = p) ps))"
        using 2 Some by (simp add: Let_def)
      then show ?thesis using subseq_order.trans [OF _ drop] by (simp add: list_emb_Cons)
    next
      case False
      then show ?thesis using 2 Some by (cases e) (auto simp: Let_def split: if_splits)
    qed
  qed (use 2 in \<open>auto simp: Let_def\<close>)
qed simp

lemma source_facts:
  assumes "p \<in> sources fs base" and "proper_fs fs"
  shows "canonical p" and "p \<noteq> []" and "bundlePathAllowed (join_with ''/'' p)" and "p \<in> set (below fs base)"
    and "\<exists>m c. fs_lookup fs (base @ p) = Some (RegularE m c)"
  using assms below_canonical [OF assms(2), of p base]
  by (auto simp: sources_def bundled_def below_member regular_def)

lemma source_path:
  assumes "walk_sources fs base (below fs base) = Inr entries" and "p \<in> sources fs base" and "proper_fs fs"
    and "resolve False k fs base p = Inr q"
  shows "q = base @ p \<and> (\<forall>w. w \<noteq> [] \<and> strict_prefix w p \<longrightarrow> fs_lookup fs (base @ w) = Some DirE)"
proof (rule resolve_linkless [OF assms(4)])
  show "''..'' \<notin> set p" using source_facts(1) [OF assms(2,3)] by (auto simp: canonical_def)
  fix w t
  assume w: "w \<noteq> []" "prefix w p"
  show "fs_lookup fs (base @ w) \<noteq> Some (LinkE t)"
  proof
    assume link: "fs_lookup fs (base @ w) = Some (LinkE t)"
    then have "w \<in> set (below fs base)" using w(1) lookup_below by blast
    moreover have "reached fs base (set (below fs base)) w"
      using assms(2) w(2) by (auto simp: sources_def bundled_def reached_def dest: prefix_order.less_le_trans)
    moreover have "sorted (below fs base)" by (simp add: below_def)
    ultimately have "acceptable fs base w" using walk_sources_spec [OF assms(1)] below_distinct [OF assms(3)] by blast
    then show False using link by (simp add: acceptable_def regular_def)
  qed
qed

lemma packed_entries_each:
  "packed_entries fs root rs = Inr es \<Longrightarrow> list_all2 (\<lambda>r e. packed_entry fs root r = Inr e) rs es"
  by (induction rs arbitrary: es) auto

lemma packed_source:
  assumes "packed_entry fs (path_text a) (join_with ''/'' p) = Inr e" and "canonical a" and "proper_fs fs"
    and "resolve False kernel_links fs [] a = Inr base" and "p \<in> sources fs base"
    and "walk_sources fs base (below fs base) = Inr entries"
  shows "e = source_entry fs base (join_with ''/'' p)
    \<and> (\<forall>w. w \<noteq> [] \<and> strict_prefix w p \<longrightarrow> fs_lookup fs (base @ w) = Some DirE)"
proof -
  note p = source_facts [OF assms(5,3)]
  have "canonical (a @ p)" using assms(2) p(1) by (auto simp: canonical_def)
  then have "path_parts (path_join [path_text a, join_with ''/'' p]) = a @ p"
    by (simp add: path_join_text [OF assms(2) p(1,2)] path_text_parts)
  with assms(1) obtain info where stat: "os_stat fs (a @ p) = Inr info"
    and info: "(case info of RegularE mode content \<Rightarrow> Inr \<lparr>te_Regular = True, te_Name = join_with ''/'' p,
        te_Mode = int (mode mod 512), te_Content = content, te_Fault = None\<rparr> | _ \<Rightarrow> Inl is_directory) = Inr e"
    by (auto simp: packed_entry_def Let_def)
  from stat obtain q where q: "resolve False kernel_links fs [] (a @ p) = Inr q" "fs_lookup fs q = Some info"
    by (auto simp: os_stat_def entry_at_def split: option.splits)
  from resolve_rest [OF q(1) assms(4)] obtain k where "resolve False k fs base p = Inr q" ..
  from source_path [OF assms(6,5,3) this] q(2) info show ?thesis
    by (cases info) (simp_all add: source_entry_def content_at_def mode_at_def join_parts [OF p(1,2)])
qed

text \<open>What a successful build did.\<close>

lemma build_steps:
  assumes "BuildSourceBundle sha pack cwd fs root = Inr b" and "proper_fs fs" and "is_abs_path cwd"
  obtains a base where "secureRoot cwd fs root = Inr (path_text a)" and "canonical a"
    and "resolve False kernel_links fs [] a = Inr base"
    and "pack (map (source_entry fs base) (sb_Files b)) = Inr (sb_Content b)"
    and "sb_Digest b = artifact_digest sha (sb_Content b)"
    and "sorted (sb_Files b)" and "distinct (sb_Files b)" and "set (sb_Files b) = join_with ''/'' ` sources fs base"
    and "\<forall>p \<in> set (below fs base). reached fs base (set (below fs base)) p \<longrightarrow> acceptable fs base p"
    and "\<forall>p \<in> sources fs base. \<forall>w. w \<noteq> [] \<and> strict_prefix w p \<longrightarrow> fs_lookup fs (base @ w) = Some DirE"
proof -
  from assms(1) obtain abs base entries packed where root: "secureRoot cwd fs root = Inr abs"
    and base: "resolve False kernel_links fs [] (path_parts abs) = Inr base"
    and walk: "walk_sources fs base (below fs base) = Inr entries"
    and packed: "packed_entries fs abs (sort entries) = Inr packed" and pack: "pack packed = Inr (sb_Content b)"
    and b: "sb_Digest b = artifact_digest sha (sb_Content b)" "sb_Files b = sort entries"
    by (auto simp: BuildSourceBundle_def)
  from root have "abs = path_abs cwd root" "root \<noteq> []" by (auto simp: secureRoot_def Let_def split: if_splits)
  with assms(3) obtain a where a: "abs = path_text a" "canonical a" by (metis absolute_root)
  have base': "resolve False kernel_links fs [] a = Inr base" using base by (simp add: a path_text_parts)
  have "sorted (below fs base)" by (simp add: below_def)
  from walk_sources_spec [OF walk this below_distinct [OF assms(2)]]
  have set: "set entries = join_with ''/'' ` sources fs base"
    and ok: "\<forall>p \<in> set (below fs base). reached fs base (set (below fs base)) p \<longrightarrow> acceptable fs base p"
    by (simp_all add: sources_def)
  have inj: "inj_on (join_with ''/'') (set (below fs base))"
    by (rule inj_on_subset [OF join_inj]) (use below_canonical [OF assms(2)] below_member in blast)
  have dist: "distinct entries"
    by (rule distinct_subseq [OF walk_sources_subseq [OF walk]]) (simp add: distinct_map inj below_distinct [OF assms(2)])
  have each: "packed_entry fs (path_text a) (join_with ''/'' p) = Inr (source_entry fs base (join_with ''/'' p))
      \<and> (\<forall>w. w \<noteq> [] \<and> strict_prefix w p \<longrightarrow> fs_lookup fs (base @ w) = Some DirE)" if p: "p \<in> sources fs base" for p
  proof -
    have "join_with ''/'' p \<in> set (sort entries)" using p by (simp add: set)
    then obtain i where "i < length (sort entries)" "sort entries ! i = join_with ''/'' p" by (auto simp only: in_set_conv_nth)
    then obtain e where "packed_entry fs (path_text a) (join_with ''/'' p) = Inr e"
      using list_all2_nthD [OF packed_entries_each [OF packed]] a by metis
    then show ?thesis using packed_source [OF _ a(2) assms(2) base' p walk] by simp
  qed
  have "packed = map (source_entry fs base) (sort entries)"
  proof -
    note all = packed_entries_each [OF packed]
    have len: "length packed = length (sort entries)" using list_all2_lengthD [OF all] by simp
    have "packed ! i = source_entry fs base (sort entries ! i)" if i: "i < length (sort entries)" for i
    proof -
      have "sort entries ! i \<in> set entries" using nth_mem [OF i] by simp
      then obtain p where p: "sort entries ! i = join_with ''/'' p" "p \<in> sources fs base" unfolding set by blast
      then show ?thesis using list_all2_nthD [OF all i] each [OF p(2)] by (simp add: a)
    qed
    then show ?thesis using len by (simp add: list_eq_iff_nth_eq)
  qed
  show ?thesis
    by (rule that [of a base]) (use root a base' pack b set ok dist each \<open>packed = _\<close> in simp_all)
qed

text \<open>
  C38. A bundle holds exactly the sources: the listed files are, sorted and once each, the regular
  files below the root that may be in a bundle and lie under directories that may; what is packed
  for each is its content, under its path relative to the root; the digest is that of the packed
  bytes; and nothing the walk reaches is a link, a special file or an implicit variables file.
\<close>
theorem bundle_holds_exactly_the_sources:
  assumes "BuildSourceBundle sha pack cwd fs root = Inr b" and "proper_fs fs" and "is_abs_path cwd"
  shows "\<exists>a base. secureRoot cwd fs root = Inr (path_text a) \<and> resolve False kernel_links fs [] a = Inr base
     \<and> sorted (sb_Files b) \<and> distinct (sb_Files b) \<and> set (sb_Files b) = join_with ''/'' ` sources fs base
     \<and> pack (map (source_entry fs base) (sb_Files b)) = Inr (sb_Content b)
     \<and> sb_Digest b = artifact_digest sha (sb_Content b)
     \<and> (\<forall>p \<in> set (below fs base). reached fs base (set (below fs base)) p \<longrightarrow> acceptable fs base p)"
  using build_steps [OF assms] by metis

subsection \<open>Restoring what was packed\<close>

text \<open>A directory reached without links.\<close>

definition plain :: "fsys \<Rightarrow> fpath \<Rightarrow> bool" where
  "plain fs p \<longleftrightarrow> canonical p \<and> (\<forall>w. prefix w p \<longrightarrow> fs_lookup fs w = Some DirE)"

lemma resolve_through:
  "canonical cs \<Longrightarrow> (\<And>w. w \<noteq> [] \<Longrightarrow> prefix w cs \<Longrightarrow> fs_lookup fs (acc @ w) = Some DirE)
   \<Longrightarrow> resolve m n fs acc (cs @ ds) = resolve m n fs (acc @ cs) ds"
proof (induction cs arbitrary: acc)
  case (Cons c cs)
  have "fs_lookup fs (acc @ [c]) = Some DirE" using Cons.prems(2) [of "[c]"] by simp
  moreover have "resolve m n fs (acc @ [c]) (cs @ ds) = resolve m n fs ((acc @ [c]) @ cs) ds"
  proof (rule Cons.IH)
    show "canonical cs" using Cons.prems(1) by (simp add: canonical_def)
    show "fs_lookup fs ((acc @ [c]) @ w) = Some DirE" if "w \<noteq> []" "prefix w cs" for w
      using Cons.prems(2) [of "c # w"] that by simp
  qed
  moreover have "c \<noteq> ''..''" using Cons.prems(1) by (simp add: canonical_def)
  ultimately show ?case by simp
qed simp

lemma resolve_plain: "plain fs p \<Longrightarrow> resolve m n fs [] (p @ ds) = resolve m n fs p ds"
  using resolve_through [of p fs "[]" m n ds] by (simp add: plain_def)

lemma resolve_plain_all: "plain fs p \<Longrightarrow> resolve m n fs [] p = Inr p"
  using resolve_plain [of fs p m n "[]"] by simp

lemma plain_directory: "plain fs p \<Longrightarrow> fs_lookup fs p = Some DirE"
  by (simp add: plain_def)

lemma mkdir_up_plain:
  "canonical (rev ps) \<Longrightarrow> (\<And>w. prefix w (rev ps) \<Longrightarrow> fs_lookup fs w \<in> {None, Some DirE})
   \<Longrightarrow> (\<And>w v. prefix w v \<Longrightarrow> prefix v (rev ps) \<Longrightarrow> fs_lookup fs v = Some DirE \<Longrightarrow> fs_lookup fs w = Some DirE)
   \<Longrightarrow> \<exists>fs'. mkdir_up ps fs = (Inr (), fs')
        \<and> (\<forall>w. fs_lookup fs' w = (if prefix w (rev ps) then Some DirE else fs_lookup fs w))"
proof (induction ps)
  case Nil
  then show ?case by (simp add: session_simps fs_lookup_def)
next
  case (Cons c up)
  let ?p = "rev up @ [c]"
  have canon: "canonical (rev up)" "c \<noteq> ''..''" "canonical ?p" using Cons.prems(1) by (simp_all add: canonical_def)
  show ?case
  proof (cases "fs_lookup fs ?p = Some DirE")
    case True
    then have d: "\<forall>w. prefix w ?p \<longrightarrow> fs_lookup fs w = Some DirE" using Cons.prems(3) [of _ ?p] by simp
    then have "plain fs ?p" using canon(3) by (simp add: plain_def)
    then have "os_stat fs ?p = Inr DirE" by (simp add: os_stat_def entry_at_def resolve_plain_all True)
    then show ?thesis using d by auto
  next
    case False
    then have none: "fs_lookup fs ?p = None" using Cons.prems(2) [of ?p] by simp
    have "os_stat fs ?p = Inr e \<Longrightarrow> False" for e
    proof -
      assume "os_stat fs ?p = Inr e"
      then obtain q where q: "resolve False kernel_links fs [] ?p = Inr q" "entry_at fs q = Inr e" by (auto simp: os_stat_def)
      have "''..'' \<notin> set ?p" using canon(3) by (auto simp: canonical_def)
      moreover have "fs_lookup fs ([] @ w) \<noteq> Some (LinkE t)" if "prefix w ?p" for w t
        using Cons.prems(2) [of w] that by auto
      ultimately have "q = [] @ ?p" using resolve_linkless [OF q(1)] by blast
      then show False using q(2) none by (simp add: entry_at_def)
    qed
    then obtain e where stat: "os_stat fs ?p = Inl e" by (cases "os_stat fs ?p") auto
    obtain fs1 where fs1: "mkdir_up up fs = (Inr (), fs1)"
      and l1: "\<forall>w. fs_lookup fs1 w = (if prefix w (rev up) then Some DirE else fs_lookup fs w)"
    proof -
      have up: "prefix w ?p" if "prefix w (rev up)" for w using that by (rule prefix_prefix)
      have "\<exists>fs'. mkdir_up up fs = (Inr (), fs')
        \<and> (\<forall>w. fs_lookup fs' w = (if prefix w (rev up) then Some DirE else fs_lookup fs w))"
      proof (rule Cons.IH [OF canon(1)])
        show "fs_lookup fs w \<in> {None, Some DirE}" if "prefix w (rev up)" for w
          using Cons.prems(2) [of w] up [OF that] by simp
        show "fs_lookup fs w = Some DirE" if "prefix w v" "prefix v (rev up)" "fs_lookup fs v = Some DirE" for w v
          using Cons.prems(3) [of w v] up [OF that(2)] that(1,3) by simp
      qed
      then show ?thesis using that by blast
    qed
    have "plain fs1 (rev up)" using l1 canon(1) by (simp add: plain_def)
    moreover have "fs_lookup fs1 ?p = None" using l1 none by (simp add: prefix_def)
    ultimately have "os_mkdir ?p fs1 = (Inr (), fs_put ?p DirE fs1)"
      by (simp add: os_mkdir_def resolve_plain_all plain_directory)
    then have "mkdir_up (c # up) fs = (Inr (), fs_put ?p DirE fs1)" using stat fs1 by (simp add: s_bind_def)
    then show ?thesis using l1 by (auto simp: fs_lookup_put)
  qed
qed

lemma has_prefix_dest: "has_prefix s ''../'' \<Longrightarrow> \<exists>t. s = ''..'' @ CHR ''/'' # t"
  by (cases s rule: list.exhaust; cases "tl s"; cases "tl (tl s)") (auto simp: has_prefix_def)

lemma join_inner:
  assumes "canonical x" and "x \<noteq> []"
  shows "path_clean (join_with ''/'' x) = join_with ''/'' x" and "join_with ''/'' x \<noteq> ''..''"
    and "\<not> has_prefix (join_with ''/'' x) ''../''" and "\<not> is_abs_path (join_with ''/'' x)"
proof -
  let ?s = "join_with ''/'' x"
  have w: "\<forall>w \<in> set x. CHR ''/'' \<notin> set w" using assms(1) by (auto simp: canonical_def name_word_def)
  have s: "split_on (CHR ''/'') ?s = x" using split_on_join [OF assms(2) w] by simp
  have x: "hd x \<noteq> ''..''" "hd x \<noteq> []" using assms by (cases x; simp add: canonical_def name_word_def)+
  show nabs: "\<not> is_abs_path ?s"
    using s x(2) by (cases ?s) (auto simp: is_abs_path_def has_prefix_def)
  show "?s \<noteq> ''..''" using s x(1) by auto
  show "\<not> has_prefix ?s ''../''"
  proof
    assume "has_prefix ?s ''../''"
    then obtain t where "?s = ''..'' @ CHR ''/'' # t" by (metis has_prefix_dest)
    then have "split_on (CHR ''/'') ?s = ''..'' # split_on (CHR ''/'') t" using split_on_append by simp
    then show False using s x(1) by simp
  qed
  have "?s \<noteq> []" using s assms(2) x by (cases x) auto
  then show "path_clean ?s = ?s" using nabs by (simp add: path_clean_def s clean_parts_canonical assms(1))
qed

lemma rel_parts_below: "rel_parts d (d @ x) = x"
  by (induction d) (cases x; simp)+

lemma inside_below:
  assumes "canonical (d @ x)"
  shows "\<not> outsideRoot (path_text d) (path_text (d @ x))"
proof -
  have d: "canonical d" "canonical x" using assms by (auto simp: canonical_def)
  have "path_rel (path_text d) (path_text (d @ x)) = (if x = [] then ''.'' else join_with ''/'' x)"
    by (simp add: path_rel_def path_text_clean path_text_parts d assms rel_parts_below)
  then show ?thesis using join_inner [OF d(2)]
    by (cases "x = []") (simp_all add: outsideRoot_def is_abs_path_def has_prefix_def)
qed

text \<open>
  Below \<open>d\<close> there are exactly the files \<open>F\<close>, each as \<open>kept\<close> says, with the directories above them;
  elsewhere nothing has changed since \<open>fs0\<close>.
\<close>

definition restored :: "fsys \<Rightarrow> fpath \<Rightarrow> (fpath \<Rightarrow> fs_entry) \<Rightarrow> fpath set \<Rightarrow> fsys \<Rightarrow> bool" where
  "restored fs0 d kept F fs \<longleftrightarrow>
     (\<forall>q. fs_lookup fs (d @ q) = (if q \<in> F then Some (kept q)
        else if q = [] \<or> (\<exists>p \<in> F. strict_prefix q p) then Some DirE else None))
     \<and> (\<forall>p. \<not> prefix d p \<longrightarrow> fs_lookup fs p = fs_lookup fs0 p)"

definition apart :: "fpath set \<Rightarrow> bool" where
  "apart F \<longleftrightarrow> [] \<notin> F \<and> (\<forall>p \<in> F. canonical p \<and> (\<forall>q \<in> F. \<not> strict_prefix p q))"

lemma restored_prefix:
  assumes "restored fs0 d kept F fs" and "plain fs0 d" and "apart (insert p F)" and "strict_prefix q p"
    and "prefix w (d @ q)"
  shows "fs_lookup fs w = (if prefix w d \<or> (\<exists>r \<in> F. \<exists>v. w = d @ v \<and> strict_prefix v r) then Some DirE else None)"
proof (cases "prefix d w")
  case True
  then obtain v where w: "w = d @ v" by (auto simp: prefix_def)
  then have "strict_prefix v p" using assms(4,5) by (auto dest: prefix_order.le_less_trans)
  then have "v \<notin> F" using assms(3) by (auto simp: apart_def)
  then have "fs_lookup fs w = (if v = [] \<or> (\<exists>p \<in> F. strict_prefix v p) then Some DirE else None)"
    using assms(1) by (simp add: restored_def w)
  then show ?thesis by (simp add: w)
next
  case False
  then have "prefix w d" using assms(5) by (meson prefix_order.eq_iff prefix_same_cases prefixI)
  then show ?thesis using False assms(1,2) by (simp add: restored_def plain_def)
qed

text \<open>The directories for a file of a restore can be made.\<close>

lemma restored_parents:
  assumes "restored fs0 d kept F fs" and "plain fs0 d" and "apart (insert p F)" and "strict_prefix x p"
  shows "\<exists>fs'. os_mkdir_all (path_text (d @ x)) fs = (Inr (), fs')
    \<and> (\<forall>w. fs_lookup fs' w = (if prefix w (d @ x) then Some DirE else fs_lookup fs w))"
proof -
  note look = restored_prefix [OF assms]
  have canon: "canonical (d @ x)"
    using assms(2-4) set_mono_prefix [OF prefix_order.less_imp_le [OF assms(4)]]
    by (auto simp: plain_def apart_def canonical_def)
  have "\<exists>fs'. mkdir_up (rev (d @ x)) fs = (Inr (), fs')
      \<and> (\<forall>w. fs_lookup fs' w = (if prefix w (rev (rev (d @ x))) then Some DirE else fs_lookup fs w))"
  proof (rule mkdir_up_plain)
    show "fs_lookup fs w \<in> {None, Some DirE}" if "prefix w (rev (rev (d @ x)))" for w
      using look [of w] that by simp
    show "fs_lookup fs w = Some DirE" if "prefix w v" "prefix v (rev (rev (d @ x)))" "fs_lookup fs v = Some DirE" for w v
    proof -
      have "prefix w (d @ x)" using that(1,2) by (metis prefix_order.trans rev_rev_ident)
      moreover have "prefix v d \<or> (\<exists>r \<in> F. \<exists>u. v = d @ u \<and> strict_prefix u r)"
        using look [of v] that(2,3) by (auto split: if_splits)
      then have "prefix w d \<or> (\<exists>r \<in> F. \<exists>u. w = d @ u \<and> strict_prefix u r)"
        using that(1) by (fastforce simp: prefix_append dest: prefix_order.trans prefix_order.le_less_trans)
      ultimately show ?thesis using look [of w] by simp
    qed
  qed (use canon in simp)
  then show ?thesis by (simp add: os_mkdir_all_def path_text_parts canon)
qed

lemma restore_source:
  assumes "restored fs0 d kept F fs" and "plain fs0 d" and "apart (insert p F)" and "p \<notin> F"
    and "bundlePathAllowed (join_with ''/'' p)" and "te_Regular e" and "te_Name e = join_with ''/'' p" and "te_Fault e = None"
    and "kept p = RegularE (umask (entry_mode e)) (te_Content e)"
  shows "\<exists>fs'. restore_entry umask (path_text d) e fs = (Inr (join_with ''/'' p), fs') \<and> restored fs0 d kept (insert p F) fs'"
proof -
  obtain x b where p: "p = x @ [b]" using assms(3) by (cases p rule: rev_cases) (auto simp: apart_def)
  have canon: "canonical p" "canonical x" "canonical (d @ p)" "canonical (d @ x)" "canonical d" "b \<noteq> ''..''" "p \<noteq> []"
    using assms(2,3) by (auto simp: apart_def plain_def canonical_def p)
  note inner = join_inner [OF canon(1,7)]
  have refused: "entry_refused e = None"
    using assms(5,6) inner by (simp add: entry_refused_def assms(7) Let_def bundlePathAllowed_def is_abs_path_def)
  have path: "path_join [path_text d, join_with ''/'' p] = path_text ((d @ x) @ [b])"
    using path_join_text [OF canon(5,1,7)] by (simp add: p)
  have dir: "path_dir (path_text ((d @ x) @ [b])) = path_text (d @ x)"
    by (rule path_dir_text) (use canon(3) in \<open>simp add: p\<close>)
  have sp: "strict_prefix x p" by (simp add: p strict_prefix_def)
  obtain fs1 where fs1: "os_mkdir_all (path_text (d @ x)) fs = (Inr (), fs1)"
    and l1: "\<And>w. fs_lookup fs1 w = (if prefix w (d @ x) then Some DirE else fs_lookup fs w)"
    using restored_parents [OF assms(1,2,3) sp] by blast
  have plain1: "plain fs1 (d @ x)" using canon(4) l1 by (simp add: plain_def)
  have parent: "EvalSymlinks fs1 (path_text (d @ x)) = Inr (path_text (d @ x))"
    by (simp add: EvalSymlinks_def path_text_parts canon(4) resolve_plain_all plain1)
  have "\<not> (\<exists>r \<in> F. strict_prefix p r)" using assms(3) by (auto simp: apart_def)
  then have "fs_lookup fs (d @ p) = None" using assms(1,4) canon(7) by (simp add: restored_def)
  moreover have "\<not> prefix (d @ p) (d @ x)" by (simp add: p)
  ultimately have none: "fs_lookup fs1 ((d @ x) @ [b]) = None" using l1 [of "d @ p"] by (simp add: p)
  have parts: "path_parts (path_text ((d @ x) @ [b])) = (d @ x) @ [b]" using path_text_parts [OF canon(3)] by (simp add: p)
  have lstat: "os_lstat fs1 ((d @ x) @ [b]) = Inl not_exist"
    unfolding os_lstat_def butlast_snoc last_snoc resolve_plain_all [OF plain1] using none by (simp add: sum_bind_def entry_at_def)
  have "resolve True kernel_links fs1 [] ((d @ x) @ [b]) = Inr ((d @ x) @ [b])"
    unfolding resolve_plain [OF plain1] using none canon(6) by simp
  then have written: "os_write_file umask (path_text ((d @ x) @ [b])) m c fs1
      = (Inr (), fs_put ((d @ x) @ [b]) (RegularE (umask m) c) fs1)" for m c
    unfolding os_write_file_def parts using none by simp
  let ?fs2 = "fs_put ((d @ x) @ [b]) (kept p) fs1"
  have "restore_entry umask (path_text d) e fs = (Inr (join_with ''/'' p), ?fs2)"
    unfolding restore_entry_def assms(7) Let_def inner(1) path dir s_bind_def
    by (simp del: append_assoc add: refused s_check_def session_simps fs1 parent inside_below [OF canon(4)] parts lstat written assms(8,9))
  moreover have "restored fs0 d kept (insert p F) ?fs2"
    unfolding restored_def
  proof (intro conjI allI impI)
    fix q
    show "fs_lookup ?fs2 (d @ q) = (if q \<in> insert p F then Some (kept q)
        else if q = [] \<or> (\<exists>p \<in> insert p F. strict_prefix q p) then Some DirE else None)"
    proof (cases "prefix q x")
      case True
      then have "strict_prefix q p" by (auto simp: p strict_prefix_def prefix_def)
      moreover from this have "q \<notin> insert p F" using assms(3) by (auto simp: apart_def)
      ultimately show ?thesis using True by (auto simp: fs_lookup_put l1 p)
    next
      case False
      then have "\<not> strict_prefix q p" by (auto simp: p strict_prefix_def)
      then show ?thesis using False assms(1) by (auto simp: fs_lookup_put l1 p restored_def)
    qed
  next
    fix w
    assume "\<not> prefix d w"
    then show "fs_lookup ?fs2 w = fs_lookup fs0 w"
      using assms(1,2) by (auto simp: fs_lookup_put l1 restored_def prefix_append plain_def)
  qed
  ultimately show ?thesis by blast
qed

lemma apart_subset: "apart F \<Longrightarrow> G \<subseteq> F \<Longrightarrow> apart G"
  unfolding apart_def by blast

lemma restore_sources:
  assumes "restored fs0 d kept F fs" and "plain fs0 d" and "apart (set ps \<union> F)" and "distinct ps" and "set ps \<inter> F = {}"
    and "\<And>p. p \<in> set ps \<Longrightarrow> bundlePathAllowed (join_with ''/'' p) \<and> te_Regular (entry p) \<and> te_Name (entry p) = join_with ''/'' p
        \<and> te_Fault (entry p) = None \<and> kept p = RegularE (umask (entry_mode (entry p))) (te_Content (entry p))"
  shows "\<exists>fs'. restore_entries umask (path_text d) (map entry ps) fs = (Inr (map (join_with ''/'') ps), fs')
    \<and> restored fs0 d kept (set ps \<union> F) fs'"
  using assms
proof (induction ps arbitrary: F fs)
  case (Cons p ps)
  have p: "bundlePathAllowed (join_with ''/'' p)" "te_Regular (entry p)" "te_Name (entry p) = join_with ''/'' p"
    "te_Fault (entry p) = None" "kept p = RegularE (umask (entry_mode (entry p))) (te_Content (entry p))"
    using Cons.prems(6) [of p] by simp_all
  have "apart (insert p F)" by (rule apart_subset [OF Cons.prems(3)]) auto
  moreover have "p \<notin> F" using Cons.prems(5) by auto
  ultimately obtain fs1 where fs1: "restore_entry umask (path_text d) (entry p) fs = (Inr (join_with ''/'' p), fs1)"
    and r1: "restored fs0 d kept (insert p F) fs1"
    using restore_source [where e = "entry p", OF Cons.prems(1,2)] p by blast
  have "\<exists>fs'. restore_entries umask (path_text d) (map entry ps) fs1 = (Inr (map (join_with ''/'') ps), fs')
      \<and> restored fs0 d kept (set ps \<union> insert p F) fs'"
    by (rule Cons.IH [OF r1 Cons.prems(2)]) (use Cons.prems in auto)
  then show ?case using fs1 by (auto simp: s_bind_def session_simps)
qed (simp add: session_simps)

lemma secure_plain:
  assumes "plain fs d"
  shows "secureRoot cwd fs (path_text d) = Inr (path_text d)"
proof -
  have d: "canonical d" using assms by (simp add: plain_def)
  have abs: "path_abs cwd (path_text d) = path_text d"
    by (simp add: path_abs_def path_text_clean d) (simp add: path_text_def is_abs_path_def has_prefix_def)
  have "os_lstat fs d = Inr DirE"
  proof (cases d rule: rev_cases)
    case (snoc x b)
    have "plain fs x" using assms d by (auto simp: plain_def snoc canonical_def)
    then show ?thesis using plain_directory [OF assms] by (simp add: os_lstat_def resolve_plain_all snoc sum_bind_def entry_at_def)
  qed (simp add: os_lstat_def)
  moreover have "EvalSymlinks fs (path_text d) = Inr (path_text d)"
    by (simp add: EvalSymlinks_def path_text_parts d resolve_plain_all assms)
  moreover have "path_text d \<noteq> []" by (simp add: path_text_def)
  ultimately show ?thesis
    by (simp add: secureRoot_def abs Let_def path_text_parts d samePath_def equal_fold_def)
qed

lemma sources_apart:
  assumes "proper_fs fs" and "\<forall>p \<in> sources fs base. \<forall>w. w \<noteq> [] \<and> strict_prefix w p \<longrightarrow> fs_lookup fs (base @ w) = Some DirE"
  shows "apart (sources fs base)"
  unfolding apart_def
proof (intro conjI ballI notI)
  show "[] \<in> sources fs base \<Longrightarrow> False" using source_facts(2) [OF _ assms(1)] by blast
  fix p
  assume p: "p \<in> sources fs base"
  show "canonical p" using source_facts(1) [OF p assms(1)] .
  fix q
  assume "q \<in> sources fs base" "strict_prefix p q"
  then have "fs_lookup fs (base @ p) = Some DirE" using assms(2) source_facts(2) [OF p assms(1)] by blast
  then show False using source_facts(5) [OF p assms(1)] by simp
qed

text \<open>The file a source becomes.\<close>

definition restored_source :: "(nat \<Rightarrow> nat) \<Rightarrow> fsys \<Rightarrow> fpath \<Rightarrow> fpath \<Rightarrow> fs_entry" where
  "restored_source umask fs base p =
     (let mode = mode_at fs (base @ p) mod 512
      in RegularE (umask (if mode = 0 then 420 else mode)) (content_at fs (base @ p)))"

text \<open>
  C20. The round trip: restoring a built bundle into an empty directory reached without links gives
  exactly the sources back, each with its content and its permissions, reports the files the bundle
  lists, and touches nothing else; this for any archive format from which the packed entries can
  be read again.
\<close>
theorem restore_undoes_build:
  assumes "BuildSourceBundle sha pack cwd fs root = Inr b" and "proper_fs fs" and "is_abs_path cwd"
    and "\<And>es content. pack es = Inr content \<Longrightarrow> unpack content = Inr (es, None)"
    and "plain fs0 d" and "\<And>q. q \<noteq> [] \<Longrightarrow> fs_lookup fs0 (d @ q) = None"
  shows "\<exists>a base fs'. secureRoot cwd fs root = Inr (path_text a) \<and> resolve False kernel_links fs [] a = Inr base
     \<and> RestoreSourceBundle unpack umask cwd' (sb_Content b) (path_text d) fs0 = (Inr (sb_Files b), fs')
     \<and> restored fs0 d (restored_source umask fs base) (sources fs base) fs'"
proof -
  obtain a base where root: "secureRoot cwd fs root = Inr (path_text a)" "resolve False kernel_links fs [] a = Inr base"
    and pack: "pack (map (source_entry fs base) (sb_Files b)) = Inr (sb_Content b)"
    and sorted: "sorted (sb_Files b)" and dist: "distinct (sb_Files b)"
    and set: "set (sb_Files b) = join_with ''/'' ` sources fs base"
    and dirs: "\<forall>p \<in> sources fs base. \<forall>w. w \<noteq> [] \<and> strict_prefix w p \<longrightarrow> fs_lookup fs (base @ w) = Some DirE"
    using build_steps [OF assms(1-3)] by metis
  note facts = source_facts [OF _ assms(2)]
  let ?ps = "map path_parts (sb_Files b)" and ?entry = "\<lambda>p. source_entry fs base (join_with ''/'' p)"
  have parts: "path_parts (join_with ''/'' p) = p" if "p \<in> sources fs base" for p using join_parts facts(1,2) that by blast
  have name: "join_with ''/'' (path_parts r) = r" if "r \<in> set (sb_Files b)" for r
    using that parts unfolding set by auto
  then have joined: "map (join_with ''/'') ?ps = sb_Files b" by (simp add: map_idI)
  have ps: "set ?ps = sources fs base"
    by (simp only: set_map set image_image) (use parts in simp)
  have "distinct ?ps" using dist joined by (metis distinct_map)
  have r0: "restored fs0 d (restored_source umask fs base) {} fs0"
    using assms(6) plain_directory [OF assms(5)] by (simp add: restored_def)
  have "\<exists>fs'. restore_entries umask (path_text d) (map ?entry ?ps) fs0 = (Inr (map (join_with ''/'') ?ps), fs')
      \<and> restored fs0 d (restored_source umask fs base) (set ?ps \<union> {}) fs'"
  proof (rule restore_sources [OF r0 assms(5)])
    show "apart (set ?ps \<union> {})" using sources_apart [OF assms(2) dirs] by (simp add: ps [simplified])
    fix p
    assume "p \<in> set ?ps"
    then have p: "p \<in> sources fs base" unfolding ps .
    show "bundlePathAllowed (join_with ''/'' p) \<and> te_Regular (?entry p) \<and> te_Name (?entry p) = join_with ''/'' p
        \<and> te_Fault (?entry p) = None
        \<and> restored_source umask fs base p = RegularE (umask (entry_mode (?entry p))) (te_Content (?entry p))"
      using facts(3) [OF p] parts [OF p]
      by (simp add: source_entry_def restored_source_def entry_mode_def Let_def flip: zmod_int)
  qed (use \<open>distinct ?ps\<close> in simp_all)
  then obtain fs' where fs': "restore_entries umask (path_text d) (map ?entry ?ps) fs0 = (Inr (sb_Files b), fs')"
    and r: "restored fs0 d (restored_source umask fs base) (sources fs base) fs'"
    unfolding joined ps by auto
  have entries: "map ?entry ?ps = map (source_entry fs base) (sb_Files b)"
    using name by simp
  have "RestoreSourceBundle unpack umask cwd' (sb_Content b) (path_text d) fs0 = (Inr (sb_Files b), fs')"
    using fs' sorted unfolding entries
    by (simp add: RestoreSourceBundle_def s_bind_def session_simps secure_plain [OF assms(5)] assms(4) [OF pack] sort_key_id_if_sorted)
  then show ?thesis using root r by blast
qed

subsection \<open>A bundle of a small tree\<close>

definition small_tree :: fsys where
  "small_tree = [([''s''], DirE), ([''s'', ''a.tf''], RegularE 420 ''x''), ([''s'', ''m''], DirE),
     ([''s'', ''m'', ''b.tf''], RegularE 384 ''y''), ([''s'', ''.git''], DirE), ([''s'', ''.git'', ''HEAD''], RegularE 420 ''z''),
     ([''d''], DirE)]"

text \<open>
  An archive format for the example: each text as its characters behind a one, then a two; each file
  as its name, its mode in unary and its content.
\<close>

fun put_text :: "string \<Rightarrow> string" where
  "put_text [] = [CHR 0x02]"
| "put_text (c # s) = CHR 0x01 # c # put_text s"

fun take_text :: "string \<Rightarrow> string \<times> string" where
  "take_text (a # s) =
     (if a = CHR 0x01 then (case s of [] \<Rightarrow> ([], []) | c # t \<Rightarrow> (let (w, u) = take_text t in (c # w, u))) else ([], s))"
| "take_text [] = ([], [])"

lemma take_put [simp]: "take_text (put_text w @ s) = (w, s)"
  by (induction w) simp_all

definition put_entry :: "tar_entry \<Rightarrow> string" where
  "put_entry e = put_text (te_Name e) @ put_text (replicate (nat (te_Mode e)) CHR ''m'') @ put_text (te_Content e)"

fun take_entries :: "nat \<Rightarrow> string \<Rightarrow> tar_entry list" where
  "take_entries 0 s = []"
| "take_entries (Suc n) s =
     (if s = [] then []
      else (let (name, s1) = take_text s; (mode, s2) = take_text s1; (content, s3) = take_text s2 in
        \<lparr>te_Regular = True, te_Name = name, te_Mode = int (length mode), te_Content = content, te_Fault = None\<rparr> # take_entries n s3))"

definition plain_entry :: "tar_entry \<Rightarrow> bool" where
  "plain_entry e \<longleftrightarrow> te_Regular e \<and> 0 \<le> te_Mode e \<and> te_Fault e = None"

definition example_pack :: "tar_entry list \<Rightarrow> gerr + string" where
  "example_pack es = (if list_all plain_entry es then Inr (concat (map put_entry es)) else Inl not_exist)"

definition example_unpack :: unpacker where
  "example_unpack content = Inr (take_entries (length content) content, None)"

lemma put_entry_longer: "put_entry e \<noteq> []" "Suc 0 \<le> length (put_entry e)"
  by (cases "te_Name e"; simp add: put_entry_def)+

lemma take_entries_put: "list_all plain_entry es \<Longrightarrow> length es \<le> n \<Longrightarrow> take_entries n (concat (map put_entry es)) = es"
proof (induction es arbitrary: n)
  case (Cons e es)
  then obtain k where n: "n = Suc k" by (cases n) auto
  have "put_entry e @ concat (map put_entry es) \<noteq> []" using put_entry_longer by simp
  then show ?case using Cons by (simp add: n put_entry_def plain_entry_def)
next
  case Nil
  then show ?case by (cases n) simp_all
qed

lemma example_unpack_pack: "example_pack es = Inr content \<Longrightarrow> example_unpack content = Inr (es, None)"
proof -
  have "length es \<le> length (concat (map put_entry es))"
    using put_entry_longer(2) by (induction es) (auto simp: add_le_mono [of "Suc 0", simplified])
  then show "example_pack es = Inr content \<Longrightarrow> example_unpack content = Inr (es, None)"
    by (auto simp: example_pack_def example_unpack_def take_entries_put split: if_splits)
qed

lemma small_tree_proper: "proper_fs small_tree" "is_abs_path ''/''"
  by (simp_all add: proper_fs_def small_tree_def canonical_def name_word_def is_abs_path_def has_prefix_def)

definition small_bundle :: source_bundle where
  "small_bundle = (case BuildSourceBundle (\<lambda>s. ''h'') example_pack ''/'' small_tree ''/s'' of Inr b \<Rightarrow> b | Inl e \<Rightarrow> \<lparr>sb_Content = [], sb_Digest = [], sb_Files = []\<rparr>)"

lemma small_bundle_built: "BuildSourceBundle (\<lambda>s. ''h'') example_pack ''/'' small_tree ''/s'' = Inr small_bundle"
  by code_simp

lemma small_bundle_files: "sb_Files small_bundle = [''a.tf'', ''m/b.tf'']"
  by code_simp

theorem bundle_holds_exactly_the_sources_witness:
  "sb_Files small_bundle = [''a.tf'', ''m/b.tf''] \<and> sorted (sb_Files small_bundle)"
  using bundle_holds_exactly_the_sources [OF small_bundle_built small_tree_proper] small_bundle_files by blast

lemma small_target: "plain small_tree [''d'']" "q \<noteq> [] \<Longrightarrow> fs_lookup small_tree ([''d''] @ q) = None"
  by (auto simp: plain_def canonical_def name_word_def fs_lookup_def small_tree_def prefix_Cons)

theorem restore_undoes_build_witness:
  "fst (RestoreSourceBundle example_unpack (\<lambda>m. m) ''/'' (sb_Content small_bundle) (path_text [''d'']) small_tree)
   = Inr [''a.tf'', ''m/b.tf'']"
proof -
  obtain fs' where "RestoreSourceBundle example_unpack (\<lambda>m. m) ''/'' (sb_Content small_bundle) (path_text [''d'']) small_tree
      = (Inr (sb_Files small_bundle), fs')"
    using restore_undoes_build [where unpack = example_unpack and umask = "\<lambda>m. m" and cwd' = "''/''",
        OF small_bundle_built small_tree_proper _ small_target] example_unpack_pack by blast
  then show ?thesis by (simp add: small_bundle_files)
qed

end
