(* ===== verification/Executor.thy ===== *)
theory Executor
  imports Prelude
begin

section \<open>Running Terraform: internal/terraform/executor.go\<close>

text \<open>
  The executor drives the Terraform binary through the interface CommandRunner: a command acts on
  a state (the files, the remote state, whatever the binary can change) and answers with its exit
  code and output. OSCommandRunner is the runner over a process of the operating system, which is a
  parameter. Plan and Apply return their result beside the error, as the Go functions do.
\<close>

record command_result =
  cmd_ExitCode :: int
  cmd_Stdout :: string
  cmd_Stderr :: string

text \<open>A command: the working directory and the arguments.\<close>

type_synonym command = "string \<times> string list"
type_synonym 's command_runner = "command \<Rightarrow> ('s, command_result) stateful"

datatype process_end = Finished | ExitError int | RunError gerr

record process_outcome =
  po_End :: process_end
  po_Stdout :: string
  po_Stderr :: string

definition OSCommandRunner_Run ::
  "(string \<Rightarrow> command \<Rightarrow> 's \<Rightarrow> process_outcome \<times> 's) \<Rightarrow> ('s \<Rightarrow> gerr option) \<Rightarrow> string \<Rightarrow> 's command_runner" where
  "OSCommandRunner_Run process ctx_err binary c = (\<lambda>s.
     let (p, s') = process binary c s in
      ((case po_End p of
          Finished \<Rightarrow> Inr \<lparr>cmd_ExitCode = 0, cmd_Stdout = po_Stdout p, cmd_Stderr = po_Stderr p\<rparr>
        | ExitError code \<Rightarrow> (case ctx_err s' of
              Some e \<Rightarrow> Inl e
            | None \<Rightarrow> Inr \<lparr>cmd_ExitCode = code, cmd_Stdout = po_Stdout p, cmd_Stderr = po_Stderr p\<rparr>)
        | RunError e \<Rightarrow> (case ctx_err s' of Some e' \<Rightarrow> Inl e' | None \<Rightarrow> Inl e)), s'))"

record tf_request =
  rq_InputsPath :: string
  rq_WorkingDir :: string
  rq_Workspace :: string
  rq_BackendConfigPath :: string
  rq_PlanPath :: string
  rq_Destroy :: bool
  rq_LockTimeout :: duration
  rq_Parallelism :: "int option"
  rq_InfrastructureExecutionRoleARN :: string

definition PlanNoChange :: string where "PlanNoChange = ''NoChange''"
definition PlanChanges :: string where "PlanChanges = ''ChangesPresent''"
definition PlanFailed :: string where "PlanFailed = ''Failed''"

record tf_plan_result =
  pr_Outcome :: string
  pr_ExitCode :: int
  pr_Stdout :: string
  pr_Stderr :: string
  pr_PlanPath :: string
  pr_HasChanges :: bool

record tf_apply_result =
  ar_Succeeded :: bool
  ar_ExitCode :: int
  ar_Stdout :: string
  ar_Stderr :: string

definition zero_plan_result :: tf_plan_result where
  "zero_plan_result = \<lparr>pr_Outcome = [], pr_ExitCode = 0, pr_Stdout = [], pr_Stderr = [], pr_PlanPath = [], pr_HasChanges = False\<rparr>"

definition zero_apply_result :: tf_apply_result where
  "zero_apply_result = \<lparr>ar_Succeeded = False, ar_ExitCode = 0, ar_Stdout = [], ar_Stderr = []\<rparr>"

subsection \<open>Checks and arguments\<close>

definition request_validate :: "bool \<Rightarrow> tf_request \<Rightarrow> gerr option" where
  "request_validate plan r = first_error
     [(rq_WorkingDir r = [], ''working directory is required''),
      (rq_Workspace r = [], ''workspace is required''),
      (plan \<and> rq_PlanPath r = [], ''plan path is required for plan''),
      (\<not> plan \<and> rq_PlanPath r = [], ''saved plan path is required for apply''),
      (rq_LockTimeout r < 0, ''lock timeout cannot be negative''),
      ((case rq_Parallelism r of None \<Rightarrow> False | Some n \<Rightarrow> n < 1), ''terraform parallelism must be positive'')]"

definition prepareExecutionIdentity :: "string \<Rightarrow> gerr option" where
  "prepareExecutionIdentity roleARN =
     (if roleARN \<noteq> [] \<and> (\<not> has_prefix roleARN ''arn:''
          \<or> list_ex (\<lambda>c. c \<in> {CHR 0x22, CHR 0x0D, CHR 0x0A}) roleARN \<or> \<not> str_contains roleARN '':role/'')
      then Some (Err ''infrastructure execution role ARN is invalid'') else None)"

definition appendLockTimeout :: "string list \<Rightarrow> duration \<Rightarrow> string list" where
  "appendLockTimeout args timeout =
     (if timeout \<le> 0 then args else args @ [''-lock-timeout'', show_duration timeout])"

definition appendParallelism :: "string list \<Rightarrow> int option \<Rightarrow> string list" where
  "appendParallelism args parallelism =
     (case parallelism of None \<Rightarrow> args | Some n \<Rightarrow> args @ [''-parallelism'', show_int n])"

definition init_args :: "tf_request \<Rightarrow> bool \<Rightarrow> string list" where
  "init_args r readonlyLockfile =
     appendLockTimeout ([''init'', ''-input=false'', ''-no-color'']
         @ (if readonlyLockfile then [''-lockfile'', ''readonly''] else [])) (rq_LockTimeout r)
       @ (if rq_BackendConfigPath r \<noteq> [] then [''-backend-config'', rq_BackendConfigPath r] else [])"

definition plan_args :: "tf_request \<Rightarrow> string list" where
  "plan_args r =
     appendParallelism (appendLockTimeout
       ([''plan'', ''-input=false'', ''-no-color'', ''-detailed-exitcode'', ''-out'', rq_PlanPath r]
          @ (if rq_Destroy r then [''-destroy''] else [])
          @ (if rq_InputsPath r \<noteq> [] then [''-var-file'', rq_InputsPath r] else [])) (rq_LockTimeout r)) (rq_Parallelism r)"

definition apply_args :: "tf_request \<Rightarrow> string list" where
  "apply_args r =
     appendParallelism (appendLockTimeout [''apply'', ''-input=false'', ''-no-color''] (rq_LockTimeout r)) (rq_Parallelism r)
       @ [rq_PlanPath r]"

subsection \<open>Commands\<close>

definition executor_run :: "'s command_runner option \<Rightarrow> string \<Rightarrow> string list \<Rightarrow> ('s, command_result) stateful" where
  "executor_run runner workingDir args =
     (case runner of
        None \<Rightarrow> s_fail (Err ''terraform command runner is required'')
      | Some run \<Rightarrow> run (workingDir, args))"

definition exit_error :: "string \<Rightarrow> int \<Rightarrow> string \<Rightarrow> gerr" where
  "exit_error what code detail = Err (what @ '' failed with exit code '' @ show_int code @ '': '' @ detail)"

definition executor_init :: "'s command_runner option \<Rightarrow> tf_request \<Rightarrow> bool \<Rightarrow> ('s, unit) stateful" where
  "executor_init runner r readonlyLockfile =
     s_bind (executor_run runner (rq_WorkingDir r) (init_args r readonlyLockfile)) (\<lambda>result.
       if cmd_ExitCode result \<noteq> 0 then s_fail (exit_error ''terraform init'' (cmd_ExitCode result) (cmd_Stderr result))
       else s_ret ())"

definition selectWorkspace :: "'s command_runner option \<Rightarrow> tf_request \<Rightarrow> bool \<Rightarrow> ('s, unit) stateful" where
  "selectWorkspace runner r allowCreate =
     s_bind (executor_run runner (rq_WorkingDir r) [''workspace'', ''select'', rq_Workspace r]) (\<lambda>result.
       if cmd_ExitCode result = 0 then s_ret ()
       else if \<not> allowCreate
       then s_fail (exit_error ''terraform workspace select'' (cmd_ExitCode result) (cmd_Stderr result))
       else s_bind (executor_run runner (rq_WorkingDir r) [''workspace'', ''new'', rq_Workspace r]) (\<lambda>new.
         if cmd_ExitCode new \<noteq> 0
         then s_fail (exit_error ''terraform workspace new'' (cmd_ExitCode new) (cmd_Stderr new))
         else s_ret ()))"

definition VerifyTerraformVersion ::
  "(string \<Rightarrow> gerr + string) \<Rightarrow> 's command_runner option \<Rightarrow> string \<Rightarrow> string \<Rightarrow> ('s, unit) stateful" where
  "VerifyTerraformVersion decode runner expected workingDir =
     (if expected = [] then s_ret ()
      else s_bind (executor_run runner workingDir [''version'', ''-json'']) (\<lambda>result.
        if cmd_ExitCode result \<noteq> 0
        then s_fail (exit_error ''terraform version verification'' (cmd_ExitCode result) (trim_space (cmd_Stderr result)))
        else (case decode (cmd_Stdout result) of
            Inl e \<Rightarrow> s_fail (Wrap ''parse terraform version -json'' e)
          | Inr version \<Rightarrow>
              (let actual = trim_prefix (trim_space version) ''v''; want = trim_prefix (trim_space expected) ''v'' in
               if actual = [] \<or> actual \<noteq> want
               then s_fail (Err (''terraform version mismatch: got '' @ quoted actual @ '', want '' @ quoted want))
               else s_ret ()))))"

text \<open>What Plan and Apply do before their own command.\<close>

definition prepare_workspace :: "'s command_runner option \<Rightarrow> bool \<Rightarrow> tf_request \<Rightarrow> ('s, unit) stateful" where
  "prepare_workspace runner plan r =
     (case and_then (request_validate plan r) (prepareExecutionIdentity (rq_InfrastructureExecutionRoleARN r)) of
        Some e \<Rightarrow> s_fail e
      | None \<Rightarrow> s_bind (executor_init runner r True) (\<lambda>_. selectWorkspace runner r True))"

definition plan_result_of :: "tf_request \<Rightarrow> command_result \<Rightarrow> tf_plan_result \<times> gerr option" where
  "plan_result_of r result =
     (let code = cmd_ExitCode result;
          base = \<lparr>pr_Outcome = PlanFailed, pr_ExitCode = code, pr_Stdout = cmd_Stdout result, pr_Stderr = cmd_Stderr result,
                  pr_PlanPath = rq_PlanPath r, pr_HasChanges = False\<rparr>
      in if code = 0 then (base\<lparr>pr_Outcome := PlanNoChange\<rparr>, None)
         else if code = 2 then (base\<lparr>pr_Outcome := PlanChanges, pr_HasChanges := True\<rparr>, None)
         else (base, Some (Err (''terraform plan failed with exit code '' @ show_int code))))"

definition executor_Plan ::
  "'s command_runner option \<Rightarrow> tf_request \<Rightarrow> 's \<Rightarrow> (tf_plan_result \<times> gerr option) \<times> 's" where
  "executor_Plan runner r h =
     (case s_bind (prepare_workspace runner True r) (\<lambda>_. executor_run runner (rq_WorkingDir r) (plan_args r)) h of
        (Inl e, h') \<Rightarrow> ((zero_plan_result, Some e), h')
      | (Inr result, h') \<Rightarrow> (plan_result_of r result, h'))"

definition apply_detail :: "command_result \<Rightarrow> string" where
  "apply_detail result =
     (let detail = trim_space (cmd_Stderr result) in if detail = [] then trim_space (cmd_Stdout result) else detail)"

definition apply_result_of :: "command_result \<Rightarrow> tf_apply_result \<times> gerr option" where
  "apply_result_of result =
     (let code = cmd_ExitCode result; detail = apply_detail result;
          base = \<lparr>ar_Succeeded = False, ar_ExitCode = code, ar_Stdout = cmd_Stdout result, ar_Stderr = cmd_Stderr result\<rparr>
      in if code \<noteq> 0
         then (base, Some (Err (''terraform apply failed with exit code '' @ show_int code
            @ (if detail = [] then [] else '': '' @ detail))))
         else (base\<lparr>ar_Succeeded := True\<rparr>, None))"

definition executor_Apply ::
  "'s command_runner option \<Rightarrow> tf_request \<Rightarrow> 's \<Rightarrow> (tf_apply_result \<times> gerr option) \<times> 's" where
  "executor_Apply runner r h =
     (case s_bind (prepare_workspace runner False r) (\<lambda>_. executor_run runner (rq_WorkingDir r) (apply_args r)) h of
        (Inl e, h') \<Rightarrow> ((zero_apply_result, Some e), h')
      | (Inr result, h') \<Rightarrow> (apply_result_of result, h'))"

subsection \<open>What an execution runs\<close>

text \<open>
  A runner that keeps the commands it was given with their answers, newest first.
\<close>

type_synonym trace = "(command \<times> (gerr + command_result)) list"

definition logged :: "'s command_runner \<Rightarrow> (trace \<times> 's) command_runner" where
  "logged run c = (\<lambda>(log, s). let (a, s') = run c s in (a, ((c, a) # log, s')))"

definition exited_zero :: "gerr + command_result \<Rightarrow> bool" where
  "exited_zero a \<longleftrightarrow> (case a of Inl e \<Rightarrow> False | Inr result \<Rightarrow> cmd_ExitCode result = 0)"

definition init_command :: "tf_request \<Rightarrow> command" where
  "init_command r = (rq_WorkingDir r, init_args r True)"

definition select_command :: "tf_request \<Rightarrow> command" where
  "select_command r = (rq_WorkingDir r, [''workspace'', ''select'', rq_Workspace r])"

definition new_command :: "tf_request \<Rightarrow> command" where
  "new_command r = (rq_WorkingDir r, [''workspace'', ''new'', rq_Workspace r])"

definition prepared :: "tf_request \<Rightarrow> trace \<Rightarrow> bool" where
  "prepared r log \<longleftrightarrow> (\<exists>a b. exited_zero a \<and> exited_zero b \<and>
     (log = [(select_command r, b), (init_command r, a)]
      \<or> (\<exists>x. \<not> exited_zero x \<and> log = [(new_command r, b), (select_command r, x), (init_command r, a)])))"

lemma prepare_workspace_trace:
  assumes "prepare_workspace (Some (logged run)) plan r ([], s) = (res, (log, s'))"
  shows "fst ` set log \<subseteq> {init_command r, select_command r, new_command r}
    \<and> (\<forall>u. res = Inr u \<longrightarrow> prepared r log \<and> request_validate plan r = None
         \<and> prepareExecutionIdentity (rq_InfrastructureExecutionRoleARN r) = None)"
  using assms
  by (auto simp: prepare_workspace_def executor_init_def selectWorkspace_def executor_run_def logged_def s_bind_def
      session_simps prepared_def exited_zero_def init_command_def select_command_def new_command_def Let_def
      split: option.splits prod.splits sum.splits if_splits)

definition applies :: "command \<Rightarrow> bool" where
  "applies c \<longleftrightarrow> snd c \<noteq> [] \<and> hd (snd c) = ''apply''"

definition plans :: "command \<Rightarrow> bool" where
  "plans c \<longleftrightarrow> snd c \<noteq> [] \<and> hd (snd c) = ''plan''"

definition acts :: "command \<Rightarrow> bool" where
  "acts c \<longleftrightarrow> applies c \<or> plans c"

lemma preparation_acts_not:
  assumes "c \<in> {init_command r, select_command r, new_command r}"
  shows "\<not> acts c"
  using assms
  by (auto simp: acts_def applies_def plans_def init_command_def select_command_def new_command_def init_args_def appendLockTimeout_def
      split: if_splits)

lemma plan_plans: "\<not> applies (dir, plan_args r)" "plans (dir, plan_args r)"
  by (simp_all add: applies_def plans_def plan_args_def appendLockTimeout_def appendParallelism_def split: option.splits)

text \<open>What one command of a Plan or an Apply adds to a preparation that went through.\<close>

lemma execution_trace:
  assumes "s_bind (prepare_workspace (Some (logged run)) plan r) (\<lambda>_. executor_run (Some (logged run)) dir args) ([], s)
      = (res, (log, s'))"
  obtains (stopped) e where "res = Inl e" and "fst ` set log \<subseteq> {init_command r, select_command r, new_command r}"
  | (ran) prep where "log = ((dir, args), res) # prep" and "prepared r prep"
      and "fst ` set prep \<subseteq> {init_command r, select_command r, new_command r}"
      and "request_validate plan r = None" and "prepareExecutionIdentity (rq_InfrastructureExecutionRoleARN r) = None"
  using assms
proof (cases rule: s_bind_cases)
  case (failed e)
  then show ?thesis using prepare_workspace_trace [of run plan r s "Inl e" log s'] that(1) by simp
next
  case (went_on u h1)
  obtain prep s1 where h1: "h1 = (prep, s1)" by fastforce
  from went_on(1) prepare_workspace_trace [of run plan r s "Inr u" prep s1]
  have p: "prepared r prep" "fst ` set prep \<subseteq> {init_command r, select_command r, new_command r}"
    "request_validate plan r = None" "prepareExecutionIdentity (rq_InfrastructureExecutionRoleARN r) = None"
    by (auto simp: h1)
  have "log = ((dir, args), res) # prep"
    using went_on(2) by (auto simp: h1 executor_run_def logged_def split: prod.splits)
  with p that(2) show ?thesis by blast
qed

text \<open>What an Apply did, and what its result says of it.\<close>

lemma apply_trace:
  assumes "executor_Apply (Some (logged run)) r ([], s) = ((result, err), (log, s'))"
  obtains (stopped) "\<forall>c \<in> fst ` set log. \<not> acts c" and "\<not> ar_Succeeded result" and "err \<noteq> None"
  | (ran) a prep where "log = ((rq_WorkingDir r, apply_args r), a) # prep" and "prepared r prep"
      and "\<forall>c \<in> fst ` set prep. \<not> acts c" and "request_validate False r = None"
      and "ar_Succeeded result \<longleftrightarrow> exited_zero a" and "ar_Succeeded result \<longleftrightarrow> err = None"
proof -
  obtain res where res: "s_bind (prepare_workspace (Some (logged run)) False r)
      (\<lambda>_. executor_run (Some (logged run)) (rq_WorkingDir r) (apply_args r)) ([], s) = (res, (log, s'))"
    and out: "(result, err) = (case res of Inl e \<Rightarrow> (zero_apply_result, Some e) | Inr a \<Rightarrow> apply_result_of a)"
    using assms by (auto simp: executor_Apply_def split: prod.splits sum.splits)
  have s: "ar_Succeeded result \<longleftrightarrow> exited_zero res" "ar_Succeeded result \<longleftrightarrow> err = None"
    using out by (auto simp: exited_zero_def apply_result_of_def zero_apply_result_def Let_def split: sum.splits if_splits)
  from res show ?thesis
  proof (cases rule: execution_trace)
    case (stopped e)
    have "\<not> acts c" if "c \<in> fst ` set log" for c
      using preparation_acts_not subsetD [OF stopped(2) that] by blast
    then show ?thesis using s stopped(1) that(1) by (simp add: exited_zero_def)
  next
    case (ran prep)
    have "\<not> acts d" if "d \<in> fst ` set prep" for d
      using preparation_acts_not subsetD [OF ran(3) that] by blast
    then show ?thesis using ran s that(2) by blast
  qed
qed

lemma plan_trace:
  assumes "executor_Plan (Some (logged run)) r ([], s) = ((result, err), (log, s'))"
  obtains (failed) e where "result = zero_plan_result" and "err = Some e" and "\<forall>c \<in> fst ` set log. \<not> acts c"
  | (lost) e prep where "result = zero_plan_result" and "err = Some e" and "log = ((rq_WorkingDir r, plan_args r), Inl e) # prep"
      and "\<forall>c \<in> fst ` set prep. \<not> acts c"
  | (ran) a prep where "(result, err) = plan_result_of r a" and "log = ((rq_WorkingDir r, plan_args r), Inr a) # prep"
      and "prepared r prep" and "\<forall>c \<in> fst ` set prep. \<not> acts c"
proof -
  obtain res where res: "s_bind (prepare_workspace (Some (logged run)) True r)
      (\<lambda>_. executor_run (Some (logged run)) (rq_WorkingDir r) (plan_args r)) ([], s) = (res, (log, s'))"
    and out: "(result, err) = (case res of Inl e \<Rightarrow> (zero_plan_result, Some e) | Inr a \<Rightarrow> plan_result_of r a)"
    using assms by (auto simp: executor_Plan_def split: prod.splits sum.splits)
  from res show ?thesis
  proof (cases rule: execution_trace)
    case (stopped e)
    have "\<not> acts c" if "c \<in> fst ` set log" for c
      using preparation_acts_not subsetD [OF stopped(2) that] by blast
    then show ?thesis using out stopped(1) that(1) by simp
  next
    case (ran prep)
    have n: "\<not> acts d" if "d \<in> fst ` set prep" for d
      using preparation_acts_not subsetD [OF ran(3) that] by blast
    show ?thesis
    proof (cases res)
      case (Inl e)
      then show ?thesis using out n ran(1) that(2) by simp
    next
      case (Inr a)
      then show ?thesis using out n ran(1,2) that(3) by simp
    qed
  qed
qed

text \<open>
  An Apply changes infrastructure only from the saved plan: it runs at most one apply command,
  the last of its commands, with the plan file of the request and nothing planned again, and only
  after a valid request, an init and a workspace selection that exited with zero; it succeeds exactly
  when that command exits with zero, and reports an error otherwise.
\<close>
theorem apply_runs_the_saved_plan:
  assumes "executor_Apply (Some (logged run)) r ([], s) = ((result, err), (log, s'))"
  shows "(\<forall>c \<in> fst ` set log. applies c \<longrightarrow> (\<exists>a prep. log = (c, a) # prep \<and> c = (rq_WorkingDir r, apply_args r)
             \<and> last (apply_args r) = rq_PlanPath r \<and> prepared r prep \<and> (\<forall>d \<in> fst ` set prep. \<not> applies d)
             \<and> request_validate False r = None))
     \<and> (ar_Succeeded result \<longleftrightarrow> (\<exists>a prep. log = ((rq_WorkingDir r, apply_args r), a) # prep \<and> exited_zero a))
     \<and> (ar_Succeeded result \<longleftrightarrow> err = None)"
  using assms
proof (cases rule: apply_trace)
  case stopped
  have "applies (rq_WorkingDir r, apply_args r)"
    by (simp add: applies_def apply_args_def appendLockTimeout_def appendParallelism_def split: option.splits)
  then have "log \<noteq> ((rq_WorkingDir r, apply_args r), x) # prep" for x prep using stopped(1) by (auto simp: acts_def)
  then show ?thesis using stopped by (simp add: acts_def)
next
  case (ran a prep)
  moreover have "last (apply_args r) = rq_PlanPath r" by (simp add: apply_args_def)
  ultimately show ?thesis by (auto simp: acts_def)
qed

text \<open>
  A Plan changes nothing and is classified by its exit code alone: none of its commands applies,
  it reports no change exactly for 0, changes exactly for 2 and an error otherwise, and it plans a
  destruction exactly when the request asks for one.
\<close>
theorem plan_outcome_is_the_exit_code:
  assumes "executor_Plan (Some (logged run)) r ([], s) = ((result, err), (log, s'))"
  shows "(\<forall>c \<in> fst ` set log. \<not> applies c)
     \<and> (pr_Outcome result = PlanNoChange \<longleftrightarrow> err = None \<and> pr_ExitCode result = 0)
     \<and> (pr_Outcome result = PlanChanges \<longleftrightarrow> err = None \<and> pr_ExitCode result = 2)
     \<and> (pr_HasChanges result \<longleftrightarrow> pr_Outcome result = PlanChanges)
     \<and> (err = None \<longrightarrow> pr_ExitCode result \<in> {0, 2} \<and> pr_PlanPath result = rq_PlanPath r
          \<and> (\<exists>a prep. log = ((rq_WorkingDir r, plan_args r), Inr a) # prep \<and> prepared r prep
               \<and> cmd_ExitCode a = pr_ExitCode result))"
  using assms
proof (cases rule: plan_trace)
  case (failed e)
  then show ?thesis by (simp add: zero_plan_result_def PlanNoChange_def PlanChanges_def acts_def)
next
  case (lost e prep)
  then show ?thesis using plan_plans by (simp add: zero_plan_result_def PlanNoChange_def PlanChanges_def acts_def)
next
  case (ran a prep)
  then show ?thesis using plan_plans(1)
    by (auto simp: acts_def plan_result_of_def PlanNoChange_def PlanChanges_def PlanFailed_def Let_def split: if_splits)
qed

subsection \<open>The version check\<close>

text \<open>
  A run goes on only with the Terraform version of its class: the check passes exactly when no
  version is asked for, or when the binary, asked for its version, exits with zero and names the same
  version, a leading v aside; it asks nothing else of the binary.
\<close>
theorem version_check_is_exact:
  assumes "VerifyTerraformVersion decode (Some (logged run)) expected dir ([], s) = (res, (log, s'))"
  shows "(res = Inr () \<longleftrightarrow> expected = [] \<or>
       (\<exists>result v. log = [((dir, [''version'', ''-json'']), Inr result)] \<and> cmd_ExitCode result = 0
          \<and> decode (cmd_Stdout result) = Inr v \<and> trim_prefix (trim_space v) ''v'' \<noteq> []
          \<and> trim_prefix (trim_space v) ''v'' = trim_prefix (trim_space expected) ''v''))
     \<and> fst ` set log \<subseteq> {(dir, [''version'', ''-json''])}"
  using assms
  by (auto simp: VerifyTerraformVersion_def executor_run_def logged_def s_bind_def session_simps Let_def
      split: prod.splits sum.splits if_splits)

subsection \<open>Witnesses\<close>

definition sample_tf_request :: tf_request where
  "sample_tf_request = \<lparr>rq_InputsPath = ''i'', rq_WorkingDir = ''w'', rq_Workspace = ''e'', rq_BackendConfigPath = ''b'',
     rq_PlanPath = ''plan.binary'', rq_Destroy = False, rq_LockTimeout = 0, rq_Parallelism = None,
     rq_InfrastructureExecutionRoleARN = []\<rparr>"

text \<open>A binary that exits with 2 for a plan that has changes and with 0 otherwise.\<close>

definition sample_terraform :: "unit command_runner" where
  "sample_terraform c = (\<lambda>s. (Inr \<lparr>cmd_ExitCode = (if hd (snd c) = ''plan'' then 2 else 0),
     cmd_Stdout = ''v1.9.8'', cmd_Stderr = []\<rparr>, s))"

theorem apply_runs_the_saved_plan_witness:
  "prepared sample_tf_request (tl (fst (snd (executor_Apply (Some (logged sample_terraform)) sample_tf_request ([], ())))))"
proof -
  let ?run = "executor_Apply (Some (logged sample_terraform)) sample_tf_request ([], ())"
  obtain result err log u where r: "?run = ((result, err), (log, u))" by (metis prod.collapse)
  have e: "list_ex applies (map fst (fst (snd ?run)))" by code_simp
  then obtain c where "c \<in> fst ` set log" "applies c" unfolding r list_ex_iff set_map fst_conv snd_conv by blast
  with apply_runs_the_saved_plan [OF r] show ?thesis by (auto simp: r)
qed

theorem plan_outcome_is_the_exit_code_witness:
  "pr_HasChanges (fst (fst (executor_Plan (Some (logged sample_terraform)) sample_tf_request ([], ()))))"
proof -
  let ?run = "executor_Plan (Some (logged sample_terraform)) sample_tf_request ([], ())"
  obtain result err log u where r: "?run = ((result, err), (log, u))" by (metis prod.collapse)
  have "snd (fst ?run) = None" "pr_ExitCode (fst (fst ?run)) = 2" by code_simp+
  with plan_outcome_is_the_exit_code [OF r] show ?thesis by (simp add: r)
qed

theorem version_check_is_exact_witness:
  "fst (VerifyTerraformVersion (\<lambda>s. Inr s) (Some (logged sample_terraform)) ''1.9.8'' ''w'' ([], ())) = Inr ()"
proof -
  let ?run = "VerifyTerraformVersion (\<lambda>s. Inr s) (Some (logged sample_terraform)) ''1.9.8'' ''w'' ([], ())"
  obtain res log u where r: "?run = (res, (log, u))" by (metis prod.collapse)
  have l: "fst (snd ?run) = [((''w'', [''version'', ''-json'']), Inr \<lparr>cmd_ExitCode = 0, cmd_Stdout = ''v1.9.8'', cmd_Stderr = []\<rparr>)]"
    by code_simp
  have t: "trim_prefix (trim_space ''v1.9.8'') ''v'' = ''1.9.8''" "trim_prefix (trim_space ''1.9.8'') ''v'' = ''1.9.8''"
    by code_simp+
  from version_check_is_exact [OF r] l t show ?thesis by (simp add: r)
qed

end
