(* ===== verification/Runner.thy ===== *)
theory Runner
  imports RunCtl PlanView Executor SourceBundle "HOL-Library.Word"
begin

section \<open>The runner: cmd/terraform-runner/main.go\<close>

text \<open>
  The command inside a runner Job. Its world is the files of the Pod, the artifact bucket, whatever
  Terraform changes outside (\<open>'x\<close>) and the results it has printed; a machine is a world with the log
  of the commands run so far. What it reads from outside is \<open>runner_env\<close>: environment variables, the
  clock, the Pod the API server returns, the decoders of JSON and HCL and the process that a command
  starts. The context of the program is never cancelled before it ends.
\<close>

record terminal_result =
  tr_RunUID :: string
  tr_JobUID :: string
  tr_StartedAt :: time
  tr_FinishedAt :: time
  tr_Operation :: string
  tr_TerraformExitCode :: int
  tr_ExecutionOutcome :: string
  tr_MutationClassification :: string
  tr_MutationMayHaveOccurred :: bool
  tr_ArtifactsReady :: bool
  tr_HasChanges :: bool
  tr_Error :: string
  tr_PlanRef :: string
  tr_PlanDigest :: string
  tr_SourceBundleRef :: string
  tr_SourceBundleDigest :: string
  tr_BackendConfigRef :: string
  tr_BackendConfigDigest :: string
  tr_PlanReportRef :: string
  tr_PlanReportDigest :: string
  tr_TerminalResultRef :: string
  tr_EffectivePlanInputDigest :: string
  tr_TargetDiscoveryRef :: string
  tr_TargetDiscoveryDigest :: string

definition zero_terminal :: terminal_result where
  "zero_terminal = \<lparr>tr_RunUID = [], tr_JobUID = [], tr_StartedAt = 0, tr_FinishedAt = 0, tr_Operation = [],
     tr_TerraformExitCode = 0, tr_ExecutionOutcome = [], tr_MutationClassification = [], tr_MutationMayHaveOccurred = False,
     tr_ArtifactsReady = False, tr_HasChanges = False, tr_Error = [], tr_PlanRef = [], tr_PlanDigest = [],
     tr_SourceBundleRef = [], tr_SourceBundleDigest = [], tr_BackendConfigRef = [], tr_BackendConfigDigest = [],
     tr_PlanReportRef = [], tr_PlanReportDigest = [], tr_TerminalResultRef = [], tr_EffectivePlanInputDigest = [],
     tr_TargetDiscoveryRef = [], tr_TargetDiscoveryDigest = []\<rparr>"

definition terminal_json :: "(time \<Rightarrow> string) \<Rightarrow> terminal_result \<Rightarrow> json" where
  "terminal_json time_text r = jobj [
     (''terraformRunUID'', Some (JStr (tr_RunUID r))),
     (''jobUID'', omit_str (tr_JobUID r)),
     (''startedAt'', Some (JStr (time_text (tr_StartedAt r)))),
     (''finishedAt'', Some (JStr (time_text (tr_FinishedAt r)))),
     (''operation'', Some (JStr (tr_Operation r))),
     (''terraformExitCode'', Some (JInt (tr_TerraformExitCode r))),
     (''executionOutcome'', Some (JStr (tr_ExecutionOutcome r))),
     (''mutationClassification'', omit_str (tr_MutationClassification r)),
     (''mutationMayHaveOccurred'', Some (JBool (tr_MutationMayHaveOccurred r))),
     (''artifactsReady'', Some (JBool (tr_ArtifactsReady r))),
     (''hasChanges'', Some (JBool (tr_HasChanges r))),
     (''error'', omit_str (tr_Error r)),
     (''planRef'', omit_str (tr_PlanRef r)), (''planDigest'', omit_str (tr_PlanDigest r)),
     (''sourceBundleRef'', omit_str (tr_SourceBundleRef r)), (''sourceBundleDigest'', omit_str (tr_SourceBundleDigest r)),
     (''backendConfigRef'', omit_str (tr_BackendConfigRef r)), (''backendConfigDigest'', omit_str (tr_BackendConfigDigest r)),
     (''planReportRef'', omit_str (tr_PlanReportRef r)), (''planReportDigest'', omit_str (tr_PlanReportDigest r)),
     (''terminalResultRef'', omit_str (tr_TerminalResultRef r)),
     (''effectivePlanInputDigest'', omit_str (tr_EffectivePlanInputDigest r)),
     (''targetDiscoveryRef'', omit_str (tr_TargetDiscoveryRef r)),
     (''targetDiscoveryDigest'', omit_str (tr_TargetDiscoveryDigest r))]"

text \<open>The command line; \<open>fl_Parallelism\<close> is a Go int, 64 bits wide.\<close>

record runner_flags =
  fl_Operation :: string
  fl_WorkingDir :: string
  fl_Workspace :: string
  fl_BackendConfig :: string
  fl_PlanPath :: string
  fl_TerraformBinary :: string
  fl_LockTimeout :: duration
  fl_Parallelism :: int
  fl_Destroy :: bool
  fl_ArtifactEndpoint :: string
  fl_ArtifactRegion :: string
  fl_ArtifactBucket :: string
  fl_ArtifactKMSKeyID :: string
  fl_InfrastructureExecutionRoleARN :: string
  fl_ArtifactPrefix :: string
  fl_SourceRoot :: string
  fl_SourceBundleRef :: string
  fl_SourceBundleDigest :: string
  fl_PlanRef :: string
  fl_PlanDigest :: string
  fl_BackendConfigRef :: string
  fl_BackendConfigDigest :: string
  fl_TargetDiscoveryRef :: string
  fl_TargetDiscoveryDigest :: string
  fl_RunUID :: string
  fl_ExpectedVersion :: string

definition default_flags :: runner_flags where
  "default_flags = \<lparr>fl_Operation = [], fl_WorkingDir = ''/workspace/terraform'', fl_Workspace = ''default'',
     fl_BackendConfig = [], fl_PlanPath = ''plan.binary'', fl_TerraformBinary = ''terraform'', fl_LockTimeout = 0,
     fl_Parallelism = 0, fl_Destroy = False, fl_ArtifactEndpoint = [], fl_ArtifactRegion = ''us-east-1'',
     fl_ArtifactBucket = [], fl_ArtifactKMSKeyID = [], fl_InfrastructureExecutionRoleARN = [], fl_ArtifactPrefix = [],
     fl_SourceRoot = [], fl_SourceBundleRef = [], fl_SourceBundleDigest = [], fl_PlanRef = [], fl_PlanDigest = [],
     fl_BackendConfigRef = [], fl_BackendConfigDigest = [], fl_TargetDiscoveryRef = [], fl_TargetDiscoveryDigest = [],
     fl_RunUID = [], fl_ExpectedVersion = []\<rparr>"

definition int32_of :: "int \<Rightarrow> int" where
  "int32_of n = sint (word_of_int n :: 32 word)"

definition flag_request :: "runner_flags \<Rightarrow> tf_request" where
  "flag_request f = \<lparr>rq_InputsPath = [], rq_WorkingDir = fl_WorkingDir f, rq_Workspace = fl_Workspace f,
     rq_BackendConfigPath = fl_BackendConfig f, rq_PlanPath = fl_PlanPath f, rq_Destroy = fl_Destroy f,
     rq_LockTimeout = fl_LockTimeout f,
     rq_Parallelism = (if 0 < fl_Parallelism f then Some (int32_of (fl_Parallelism f)) else None),
     rq_InfrastructureExecutionRoleARN = fl_InfrastructureExecutionRoleARN f\<rparr>"

subsection \<open>The machine\<close>

record ('w, 'x) world =
  wd_Files :: fsys
  wd_Remote :: 'x
  wd_Bucket :: 'w
  wd_Emitted :: "terminal_result list"

type_synonym ('w, 'x) machine = "trace \<times> ('w, 'x) world"

record ('w, 'x) runner_env =
  ru_sha :: hash
  ru_s3 :: "'w s3_api"
  ru_getenv :: "string \<Rightarrow> string"
  ru_cwd :: string
  ru_umask :: "nat \<Rightarrow> nat"
  ru_started :: time
  ru_finished :: time
  ru_generated :: time
  ru_time_text :: "time \<Rightarrow> string"
  ru_cluster_config :: "gerr option"
  ru_clientset :: "gerr option"
  ru_get_pod :: "string \<Rightarrow> string \<Rightarrow> gerr + owner_reference list"
  ru_process :: "string \<Rightarrow> command \<Rightarrow> fsys \<times> 'x \<Rightarrow> process_outcome \<times> (fsys \<times> 'x)"
  ru_pack :: "tar_entry list \<Rightarrow> gerr + string"
  ru_unpack :: unpacker
  ru_hcl :: hcl_decoder
  ru_decode_inputs :: "string \<Rightarrow> gerr + gomap"
  ru_decode_profile :: "string \<Rightarrow> gerr + execution_profile"
  ru_decode_contract :: "string \<Rightarrow> gerr + module_contract"
  ru_decode_version :: "string \<Rightarrow> gerr + string"
  ru_decode_object :: "string \<Rightarrow> gerr + gomap"
  ru_decode_value :: "string \<Rightarrow> gerr + string"
  ru_decode_actions :: "string \<Rightarrow> gerr + string list list"
  ru_decode_plan :: "string \<Rightarrow> gerr + raw_plan"

text \<open>Acting on the files, on the bucket, and running a command.\<close>

definition in_files :: "(fsys, 'a) stateful \<Rightarrow> (('w, 'x) machine, 'a) stateful" where
  "in_files m = (\<lambda>(log, w). let (r, files) = m (wd_Files w) in (r, (log, w\<lparr>wd_Files := files\<rparr>)))"

definition run_process :: "('w, 'x) runner_env \<Rightarrow> string \<Rightarrow> ('w, 'x) world command_runner" where
  "run_process env binary c = (\<lambda>w.
     let (r, (files, x)) = OSCommandRunner_Run (ru_process env) (\<lambda>s. None) binary c (wd_Files w, wd_Remote w)
     in (r, w\<lparr>wd_Files := files, wd_Remote := x\<rparr>))"

definition tool :: "('w, 'x) runner_env \<Rightarrow> string \<Rightarrow> ('w, 'x) machine command_runner" where
  "tool env binary = logged (run_process env binary)"

type_synonym store_handle = "string \<times> string"

definition put_artifact ::
  "('w, 'x) runner_env \<Rightarrow> store_handle \<Rightarrow> string \<Rightarrow> string \<Rightarrow> (('w, 'x) machine, ref) stateful" where
  "put_artifact env st key content = (\<lambda>(log, w).
     let (r, bucket) = PutImmutable (ru_sha env) (ru_s3 env) (snd st) (wd_Bucket w) key content
     in (r, (log, w\<lparr>wd_Bucket := bucket\<rparr>)))"

definition get_artifact ::
  "('w, 'x) runner_env \<Rightarrow> string \<Rightarrow> string \<Rightarrow> (('w, 'x) machine, string) stateful" where
  "get_artifact env key digest =
     s_look (\<lambda>(log, w). GetVerified (ru_sha env) (ru_s3 env) (wd_Bucket w) (artifact_ref key digest))"

definition s_wrap :: "string \<Rightarrow> ('s, 'a) stateful \<Rightarrow> ('s, 'a) stateful" where
  "s_wrap message m = s_case m (\<lambda>e. s_fail (Wrap message e)) s_ret"

text \<open>A path as the operating system takes it: relative to the directory of the process.\<close>

definition at_path :: "('w, 'x) runner_env \<Rightarrow> string \<Rightarrow> string" where
  "at_path env s = (if is_abs_path s then s else ru_cwd env @ ''/'' @ s)"

definition read_path :: "('w, 'x) runner_env \<Rightarrow> fsys \<Rightarrow> string \<Rightarrow> gerr + string" where
  "read_path env fs s = (if s = [] then Inl not_exist else os_read_file fs (at_path env s))"

definition stat_path :: "('w, 'x) runner_env \<Rightarrow> fsys \<Rightarrow> string \<Rightarrow> gerr + fs_entry" where
  "stat_path env fs s = (if s = [] then Inl not_exist else os_stat fs (path_parts (at_path env s)))"

definition look_file :: "('w, 'x) runner_env \<Rightarrow> string \<Rightarrow> (('w, 'x) machine, string) stateful" where
  "look_file env s = s_look (\<lambda>(log, w). read_path env (wd_Files w) s)"

subsection \<open>Identity and artifacts\<close>

definition job_owner :: "owner_reference \<Rightarrow> bool" where
  "job_owner o' \<longleftrightarrow> or_Controller o' = Some True \<and> or_Kind o' = ''Job'' \<and> or_UID o' \<noteq> []"

definition resolveJobUID :: "('w, 'x) runner_env \<Rightarrow> gerr + string" where
  "resolveJobUID env =
     (case ru_cluster_config env of
        Some e \<Rightarrow> Inl (Wrap ''load in-cluster config for Job identity'' e)
      | None \<Rightarrow> (case ru_clientset env of
          Some e \<Rightarrow> Inl (Wrap ''create Kubernetes client for Job identity'' e)
        | None \<Rightarrow>
            (let podName = ru_getenv env ''PCP_POD_NAME''; namespace = ru_getenv env ''PCP_POD_NAMESPACE'' in
             if podName = [] \<or> namespace = [] then Inl (Err ''pod name and namespace are required for Job identity'')
             else (case ru_get_pod env namespace podName of
                 Inl e \<Rightarrow> Inl (Wrap ''read runner Pod for Job identity'' e)
               | Inr owners \<Rightarrow> (case filter job_owner owners of
                   o' # _ \<Rightarrow> Inr (or_UID o')
                 | [] \<Rightarrow> Inl (Err ''runner Pod has no controller-owned Job identity''))))))"

definition runner_credentials :: "('w, 'x) runner_env \<Rightarrow> credentials_env" where
  "runner_credentials env = \<lparr>AWS_ACCESS_KEY_ID = ru_getenv env ''AWS_ACCESS_KEY_ID'',
     AWS_SECRET_ACCESS_KEY = ru_getenv env ''AWS_SECRET_ACCESS_KEY'', AWS_SESSION_TOKEN = ru_getenv env ''AWS_SESSION_TOKEN''\<rparr>"

definition buildArtifactStore ::
  "('w, 'x) runner_env \<Rightarrow> string \<Rightarrow> string \<Rightarrow> string \<Rightarrow> string \<Rightarrow> gerr + store_handle" where
  "buildArtifactStore env endpoint region bucket kmsKeyID =
     checked (first_error
        [(endpoint = [] \<or> bucket = [], ''explicit emulator artifact store is required''),
         (region = [] \<or> bucket = [], ''artifact region and bucket are required'')])
       (NewS3StoreWithKMS (runner_credentials env) endpoint region bucket kmsKeyID)"

definition artifactKey :: "string \<Rightarrow> string \<Rightarrow> string" where
  "artifactKey pre name = path_join [pre, name]"

definition effectiveInputDigest ::
  "('w, 'x) runner_env \<Rightarrow> tf_request \<Rightarrow> string \<Rightarrow> string \<Rightarrow> string \<Rightarrow> string \<Rightarrow> string" where
  "effectiveInputDigest env r expectedVersion sourceBundleDigest backendDigest planDigest =
     Digest (ru_sha env) (jobj [
       (''SourceBundleDigest'', Some (JStr sourceBundleDigest)), (''BackendDigest'', Some (JStr backendDigest)),
       (''PlanDigest'', Some (JStr planDigest)), (''TerraformVersion'', Some (JStr expectedVersion)),
       (''WorkingDir'', Some (JStr (rq_WorkingDir r))), (''Workspace'', Some (JStr (rq_Workspace r))),
       (''Destroy'', Some (JBool (rq_Destroy r))), (''Inputs'', Some (JStr (ru_getenv env ''PCP_MODULE_INPUTS'')))])"

text \<open>json.Marshal of bytes: their base64 text.\<close>

definition base64_chars :: string where
  "base64_chars = ''ABCDEFGHIJKLMNOPQRSTUVWXYZabcdefghijklmnopqrstuvwxyz0123456789+/''"

definition base64_char :: "nat \<Rightarrow> char" where
  "base64_char n = base64_chars ! (n mod 64)"

fun base64 :: "string \<Rightarrow> string" where
  "base64 [] = []"
| "base64 [a] = (let n = 65536 * of_char a in [base64_char (n div 262144), base64_char (n div 4096), CHR ''='', CHR ''=''])"
| "base64 [a, b] = (let n = 65536 * of_char a + 256 * of_char b in
     [base64_char (n div 262144), base64_char (n div 4096), base64_char (n div 64), CHR ''=''])"
| "base64 (a # b # c # s) = (let n = 65536 * of_char a + 256 * of_char b + of_char c in
     [base64_char (n div 262144), base64_char (n div 4096), base64_char (n div 64), base64_char n] @ base64 s)"

definition bytes_digest :: "hash \<Rightarrow> string \<Rightarrow> string" where
  "bytes_digest sha content = Digest sha (JStr (base64 content))"

definition writeImmutableFile :: "('w, 'x) runner_env \<Rightarrow> string \<Rightarrow> string \<Rightarrow> (fsys, unit) stateful" where
  "writeImmutableFile env filePath content = (\<lambda>fs.
     case read_path env fs filePath of
       Inr existing \<Rightarrow>
         (if bytes_digest (ru_sha env) existing \<noteq> bytes_digest (ru_sha env) content
          then s_fail (Err (''refusing to overwrite existing file '' @ quoted filePath)) fs else s_ret () fs)
     | Inl e \<Rightarrow>
         if e \<noteq> not_exist then s_fail e fs
         else s_bind (os_mkdir_all (at_path env (path_dir filePath))) (\<lambda>_.
           if filePath = [] then s_fail not_exist else os_write_file (ru_umask env) (at_path env filePath) 384 content) fs)"

definition prepareArtifacts ::
  "('w, 'x) runner_env \<Rightarrow> store_handle option \<Rightarrow> tf_request \<Rightarrow> runner_flags \<Rightarrow> (('w, 'x) machine, unit) stateful" where
  "prepareArtifacts env store r f =
     s_bind (s_check (first_error
       [((fl_SourceBundleRef f \<noteq> [] \<or> fl_PlanRef f \<noteq> [] \<or> fl_BackendConfigRef f \<noteq> []) \<and> store = None,
         ''artifact store is required to restore immutable artifacts'')])) (\<lambda>_.
     s_bind (if fl_SourceBundleRef f = [] then s_ret () else
       s_bind (s_check (first_error [(fl_SourceRoot f = [] \<or> fl_SourceBundleDigest f = [],
         ''source root and source bundle digest are required'')])) (\<lambda>_.
       s_bind (s_wrap ''create source root'' (in_files (os_mkdir_all (at_path env (fl_SourceRoot f))))) (\<lambda>_.
       s_bind (s_wrap ''download source bundle'' (get_artifact env (fl_SourceBundleRef f) (fl_SourceBundleDigest f))) (\<lambda>content.
       s_wrap ''restore source bundle'' (s_bind (in_files
         (RestoreSourceBundle (ru_unpack env) (ru_umask env) (ru_cwd env) content (fl_SourceRoot f))) (\<lambda>_. s_ret ())))))) (\<lambda>_.
     s_bind (if fl_PlanRef f = [] then s_ret () else
       s_bind (s_check (first_error [(fl_PlanDigest f = [], ''plan digest is required'')])) (\<lambda>_.
       s_bind (s_wrap ''download saved plan'' (get_artifact env (fl_PlanRef f) (fl_PlanDigest f))) (\<lambda>content.
       s_wrap ''restore saved plan'' (in_files (writeImmutableFile env (rq_PlanPath r) content))))) (\<lambda>_.
     if fl_BackendConfigRef f = [] then s_ret () else
       s_bind (s_check (first_error [(rq_BackendConfigPath r = [] \<or> fl_BackendConfigDigest f = [],
         ''backend config path and digest are required'')])) (\<lambda>_.
       s_bind (s_wrap ''download backend snapshot'' (get_artifact env (fl_BackendConfigRef f) (fl_BackendConfigDigest f))) (\<lambda>content.
       s_wrap ''restore backend snapshot'' (in_files (writeImmutableFile env (rq_BackendConfigPath r) content)))))))"

subsection \<open>The inputs and the profile\<close>

text \<open>What the program checks and writes before it runs Terraform; the answer is the request with its inputs file.\<close>

definition runner_account :: "('w, 'x) runner_env \<Rightarrow> string" where
  "runner_account env =
     (let account = ru_getenv env ''AWS_ACCESS_KEY_ID'' in if account = ''test'' then ''000000000000'' else account)"

definition temp_dir :: "('w, 'x) runner_env \<Rightarrow> string" where
  "temp_dir env = (let dir = ru_getenv env ''TMPDIR'' in if dir = [] then ''/tmp'' else dir)"

definition profile_error :: "('w, 'x) runner_env \<Rightarrow> runner_flags \<Rightarrow> execution_profile \<Rightarrow> gerr option" where
  "profile_error env f profile =
     and_then (ValidateExecutionProfile (Some profile)) (first_error
       [(runner_account env \<noteq> ep_AccountID profile, ''runner credential account differs from frozen profile''),
        (ep_S3Endpoint profile \<noteq> fl_ArtifactEndpoint f \<or> ep_ArtifactBucket profile \<noteq> fl_ArtifactBucket f
           \<or> ep_Region profile \<noteq> fl_ArtifactRegion f, ''artifact configuration differs from frozen execution profile'')])"

definition bound_inputs :: "('w, 'x) runner_env \<Rightarrow> runner_flags \<Rightarrow> gerr + execution_profile \<times> gomap" where
  "bound_inputs env f =
     sum_bind (ru_decode_inputs env (ru_getenv env ''PCP_MODULE_INPUTS'')) (\<lambda>inputs.
     sum_bind (ru_decode_profile env (ru_getenv env ''PCP_EXECUTION_PROFILE'')) (\<lambda>profile.
     checked (profile_error env f profile)
       (sum_bind (BindModuleInputs inputs (Some profile) (fl_InfrastructureExecutionRoleARN f)) (\<lambda>bound. Inr (profile, bound)))))"

definition write_inputs :: "('w, 'x) runner_env \<Rightarrow> string \<Rightarrow> string \<Rightarrow> (fsys, unit) stateful" where
  "write_inputs env filePath content = os_write_file (ru_umask env) (at_path env filePath) 384 content"

definition module_inputs :: "gomap \<Rightarrow> string" where
  "module_inputs inputs = json_text (gomap_json inputs)"

definition prepare_inputs ::
  "('w, 'x) runner_env \<Rightarrow> store_handle \<Rightarrow> runner_flags \<Rightarrow> tf_request \<Rightarrow> (('w, 'x) machine, tf_request) stateful" where
  "prepare_inputs env st f r =
     s_bind (s_look (\<lambda>m. bound_inputs env f)) (\<lambda>(profile, inputs).
     s_bind (s_look (\<lambda>(log, w). case ValidateModule (read_path env (wd_Files w)) (ru_decode_contract env)
         (rq_WorkingDir r) (fl_ExpectedVersion f) inputs of Some e \<Rightarrow> Inl e | None \<Rightarrow> Inr ())) (\<lambda>_.
     s_bind (look_file env (rq_BackendConfigPath r)) (\<lambda>content.
     s_bind (s_check (ValidateBackendProfile (ru_hcl env) content (Some profile))) (\<lambda>_.
     let path = path_join [temp_dir env, ''kpcp-inputs.tfvars.json''] in
     s_bind (in_files (write_inputs env path (module_inputs inputs))) (\<lambda>_.
     s_bind (put_artifact env st (artifactKey (fl_ArtifactPrefix f) ''module-inputs.json'') (module_inputs inputs)) (\<lambda>_.
     s_ret (r\<lparr>rq_InputsPath := path\<rparr>)))))))"

subsection \<open>The plan report\<close>

record plan_report =
  rep_PlanDigest :: string
  rep_Outcome :: string
  rep_HasChanges :: bool
  rep_ResourceActions :: "(string \<times> int) list"
  rep_GeneratedAt :: time

definition plan_report_json :: "(time \<Rightarrow> string) \<Rightarrow> plan_report \<Rightarrow> json" where
  "plan_report_json time_text p = jobj [
     (''planDigest'', Some (JStr (rep_PlanDigest p))), (''outcome'', Some (JStr (rep_Outcome p))),
     (''hasChanges'', Some (JBool (rep_HasChanges p))),
     (''resourceActions'', if rep_ResourceActions p = [] then None
        else Some (JObj (map (\<lambda>(k, n). (k, JInt n)) (rep_ResourceActions p)))),
     (''generatedAt'', Some (JStr (time_text (rep_GeneratedAt p))))]"

definition count_once :: "string \<Rightarrow> (string \<times> int) list \<Rightarrow> (string \<times> int) list" where
  "count_once action counts =
     sort_key fst ((action, (case map_of counts action of None \<Rightarrow> 0 | Some n \<Rightarrow> n) + 1) # filter (\<lambda>e. fst e \<noteq> action) counts)"

text \<open>The JSON of a plan view.\<close>

fun any_json :: "go_any \<Rightarrow> json" where
  "any_json ANull = JNull"
| "any_json (ABool b) = JBool b"
| "any_json (AFloat s) = JRaw s"
| "any_json (AStr s) = JStr s"
| "any_json (AList vs) = JArr (map any_json vs)"
| "any_json (AMap es) = JObj (map (\<lambda>(k, v). (k, any_json v)) es)"

definition attributes_json :: "attributes option \<Rightarrow> json option" where
  "attributes_json a = (case a of None \<Rightarrow> None | Some es \<Rightarrow> if es = [] then None else Some (any_json (AMap es)))"

definition plan_node_json :: "plan_node \<Rightarrow> json" where
  "plan_node_json n = jobj [
     (''address'', Some (JStr (nd_Address n))), (''type'', Some (JStr (nd_Type n))),
     (''provider'', omit_str (nd_Provider n)), (''action'', Some (JStr (nd_Action n))),
     (''before'', attributes_json (nd_Before n)), (''after'', attributes_json (nd_After n))]"

definition plan_edge_json :: "plan_edge \<Rightarrow> json" where
  "plan_edge_json e = jobj [(''from'', Some (JStr (ed_From e))), (''to'', Some (JStr (ed_To e)))]"

definition plan_summary_json :: "plan_summary \<Rightarrow> json" where
  "plan_summary_json s = jobj [
     (''create'', Some (JInt (sm_Create s))), (''update'', Some (JInt (sm_Update s))), (''delete'', Some (JInt (sm_Delete s))),
     (''replace'', Some (JInt (sm_Replace s))), (''noOp'', Some (JInt (sm_NoOp s)))]"

definition plan_document_json :: "plan_document \<Rightarrow> json" where
  "plan_document_json d = jobj [
     (''version'', Some (JInt (pd_Version d))), (''terraformRunUID'', Some (JStr (pd_RunUID d))),
     (''planDigest'', Some (JStr (pd_PlanDigest d))), (''nodes'', Some (JArr (map plan_node_json (pd_Nodes d)))),
     (''edges'', Some (JArr (map plan_edge_json (pd_Edges d)))), (''summary'', Some (plan_summary_json (pd_Summary d)))]"

definition buildPlanReport ::
  "('w, 'x) runner_env \<Rightarrow> tf_request \<Rightarrow> tf_plan_result \<Rightarrow> string \<Rightarrow> string \<Rightarrow> (('w, 'x) machine, plan_report \<times> string) stateful" where
  "buildPlanReport env r result planDigest runUID =
     s_bind (s_wrap ''terraform show plan report'' (tool env ''terraform'' (rq_WorkingDir r, [''show'', ''-json'', rq_PlanPath r]))) (\<lambda>command.
     if cmd_ExitCode command \<noteq> 0 then s_fail (Err (''terraform show plan report failed: '' @ cmd_Stderr command))
     else (case ru_decode_actions env (cmd_Stdout command) of
         Inl e \<Rightarrow> s_fail (Wrap ''parse terraform show plan report'' e)
       | Inr changes \<Rightarrow> s_ret
           (\<lparr>rep_PlanDigest = planDigest, rep_Outcome = pr_Outcome result, rep_HasChanges = pr_HasChanges result,
             rep_ResourceActions = fold count_once (concat changes) [], rep_GeneratedAt = ru_generated env\<rparr>,
            (case Parse (ru_decode_plan env) (cmd_Stdout command) runUID planDigest of
               Inl _ \<Rightarrow> [] | Inr view \<Rightarrow> json_text (plan_document_json view)))))"

subsection \<open>Target discovery\<close>

definition allowed_discovery :: "string list" where
  "allowed_discovery = [''provider'', ''accountId'', ''region'', ''clusterArn'', ''clusterName'', ''incarnationId'',
     ''endpoint'', ''caCertificateData'', ''caCertificateDigest'', ''authMode'', ''kubeContext'', ''sourceClosureDigest'',
     ''backendSnapshotDigest'', ''effectivePlanInputDigest'']"

definition raw_object :: "gomap \<Rightarrow> string" where
  "raw_object m = json_text (JObj (map (\<lambda>(k, v). (k, JRaw v)) m))"

text \<open>
  The values of a JSON object are raw texts. Go ranges over a map in any order; the order here is
  the one in which the decoder lists the entries.
\<close>

definition keep_allowed :: "string \<times> string \<Rightarrow> gomap \<Rightarrow> gomap" where
  "keep_allowed e result = (if fst e \<in> set allowed_discovery then gset result (fst e) (snd e) else result)"

definition take_output ::
  "(string \<Rightarrow> gerr + gomap) \<Rightarrow> (string \<Rightarrow> gerr + string) \<Rightarrow> string \<times> string \<Rightarrow> gomap \<Rightarrow> gomap" where
  "take_output decode_object decode_value e result =
     (if fst e \<in> set allowed_discovery then gset result (fst e) (snd e)
      else (case decode_value (snd e) of
          Inl _ \<Rightarrow> result
        | Inr raw \<Rightarrow> if raw = [] then result
            else (case decode_object raw of Inl _ \<Rightarrow> result | Inr nested \<Rightarrow> fold keep_allowed nested result)))"

definition sanitizeTargetDiscovery ::
  "(string \<Rightarrow> gerr + gomap) \<Rightarrow> (string \<Rightarrow> gerr + string) \<Rightarrow> string \<Rightarrow> gerr + string" where
  "sanitizeTargetDiscovery decode_object decode_value content =
     (case decode_object content of
        Inl e \<Rightarrow> Inl (Wrap ''decode terraform target discovery output'' e)
      | Inr entries \<Rightarrow>
          (let result = fold (take_output decode_object decode_value) entries [] in
           if result = [] then Inl (Err ''terraform output does not contain an allowlisted target discovery object'')
           else Inr (raw_object result)))"

record discovery_evidence =
  de_SourceClosureDigest :: string
  de_BackendSnapshotDigest :: string
  de_EffectivePlanInputDigest :: string

definition evidence_entries :: "discovery_evidence \<Rightarrow> gomap" where
  "evidence_entries d = [(''sourceClosureDigest'', de_SourceClosureDigest d),
     (''backendSnapshotDigest'', de_BackendSnapshotDigest d), (''effectivePlanInputDigest'', de_EffectivePlanInputDigest d)]"

fun add_evidence :: "gomap \<Rightarrow> gomap \<Rightarrow> gerr + gomap" where
  "add_evidence [] discovered = Inr discovered"
| "add_evidence ((key, v) # rest) discovered =
     (if v = [] then Inl (Err (''target discovery evidence '' @ key @ '' is required''))
      else add_evidence rest (gset discovered key (json_string v)))"

definition uploadTargetDiscovery ::
  "('w, 'x) runner_env \<Rightarrow> store_handle option \<Rightarrow> string \<Rightarrow> tf_request \<Rightarrow> discovery_evidence \<Rightarrow> (('w, 'x) machine, unit) stateful" where
  "uploadTargetDiscovery env store pre r evidence =
     (case store of
        None \<Rightarrow> s_fail (Err ''target discovery requires artifact store'')
      | Some st \<Rightarrow>
          s_bind (s_wrap ''terraform output discovery'' (tool env ''terraform'' (rq_WorkingDir r, [''output'', ''-json'']))) (\<lambda>command.
          if cmd_ExitCode command \<noteq> 0 then s_fail (Err (''terraform output discovery failed: '' @ cmd_Stderr command))
          else s_bind (s_look (\<lambda>m. sanitizeTargetDiscovery (ru_decode_object env) (ru_decode_value env) (cmd_Stdout command))) (\<lambda>sanitized.
          s_bind (s_wrap ''decode sanitized target discovery'' (s_look (\<lambda>m. ru_decode_object env sanitized))) (\<lambda>discovered.
          s_bind (s_look (\<lambda>m. add_evidence (evidence_entries evidence) discovered)) (\<lambda>complete.
          s_wrap ''upload target discovery''
            (s_bind (put_artifact env st (artifactKey pre ''target-discovery.json'') (raw_object complete)) (\<lambda>_. s_ret ())))))))"

definition retainTargetDiscovery ::
  "('w, 'x) runner_env \<Rightarrow> string \<Rightarrow> string \<Rightarrow> (('w, 'x) machine, unit) stateful" where
  "retainTargetDiscovery env ref digest =
     s_bind (s_check (first_error [(ref = [] \<or> digest = [], ''retained target discovery ref and digest are required'')])) (\<lambda>_.
     s_wrap ''verify retained target discovery'' (s_bind (get_artifact env ref digest) (\<lambda>_. s_ret ())))"

subsection \<open>The artifacts of a Plan\<close>

text \<open>The terminal result is filled in beside the machine, also when a later step fails.\<close>

type_synonym ('w, 'x, 'a) reporting = "(terminal_result \<times> ('w, 'x) machine, 'a) stateful"

definition on_machine :: "(('w, 'x) machine, 'a) stateful \<Rightarrow> ('w, 'x, 'a) reporting" where
  "on_machine m = (\<lambda>(t, h). let (r, h') = m h in (r, (t, h')))"

definition fill :: "(terminal_result \<Rightarrow> terminal_result) \<Rightarrow> ('w, 'x, unit) reporting" where
  "fill f = (\<lambda>(t, h). (Inr (), (f t, h)))"

definition upload_plan_file ::
  "('w, 'x) runner_env \<Rightarrow> store_handle \<Rightarrow> string \<Rightarrow> tf_plan_result \<Rightarrow> ('w, 'x, ref) reporting" where
  "upload_plan_file env st pre result =
     s_bind (on_machine (s_wrap ''plan artifact is unavailable'' (s_look (\<lambda>(log, w). stat_path env (wd_Files w) (pr_PlanPath result))))) (\<lambda>_.
     s_bind (on_machine (s_wrap ''read plan artifact'' (look_file env (pr_PlanPath result)))) (\<lambda>planContent.
     s_bind (on_machine (s_wrap ''upload plan artifact'' (put_artifact env st (artifactKey pre ''plan.binary'') planContent))) (\<lambda>planRef.
     s_bind (fill (\<lambda>t. t\<lparr>tr_PlanRef := ref_Key planRef, tr_PlanDigest := ref_Digest planRef\<rparr>)) (\<lambda>_. s_ret planRef))))"

definition upload_report ::
  "('w, 'x) runner_env \<Rightarrow> store_handle \<Rightarrow> string \<Rightarrow> tf_request \<Rightarrow> tf_plan_result \<Rightarrow> string \<Rightarrow> ('w, 'x, unit) reporting" where
  "upload_report env st pre r result planDigest =
     s_bind (on_machine (buildPlanReport env r result planDigest (path_base pre))) (\<lambda>(report, visualization).
     s_bind (on_machine (s_wrap ''upload plan report'' (put_artifact env st (artifactKey pre ''plan-report.json'')
         (json_text (plan_report_json (ru_time_text env) report))))) (\<lambda>reportRef.
     s_bind (fill (\<lambda>t. t\<lparr>tr_PlanReportRef := ref_Key reportRef, tr_PlanReportDigest := ref_Digest reportRef\<rparr>)) (\<lambda>_.
     if visualization = [] then s_ret ()
     else on_machine (s_case (put_artifact env st (artifactKey pre ''plan-visualization.json'') visualization)
         (\<lambda>e. s_ret ()) (\<lambda>_. s_ret ())))))"

definition upload_backend ::
  "('w, 'x) runner_env \<Rightarrow> store_handle \<Rightarrow> string \<Rightarrow> tf_request \<Rightarrow> ('w, 'x, unit) reporting" where
  "upload_backend env st pre r =
     (if rq_BackendConfigPath r = [] then s_ret ()
      else s_bind (on_machine (s_wrap ''read backend snapshot'' (look_file env (rq_BackendConfigPath r)))) (\<lambda>content.
        s_bind (on_machine (s_wrap ''validate backend snapshot'' (s_check (ValidateBackendConfigContent content)))) (\<lambda>_.
        s_bind (on_machine (s_wrap ''upload backend snapshot'' (put_artifact env st (artifactKey pre ''backend-config.hcl'') content))) (\<lambda>ref.
        fill (\<lambda>t. t\<lparr>tr_BackendConfigRef := ref_Key ref, tr_BackendConfigDigest := ref_Digest ref\<rparr>)))))"

definition upload_sources ::
  "('w, 'x) runner_env \<Rightarrow> store_handle \<Rightarrow> string \<Rightarrow> string \<Rightarrow> ('w, 'x, unit) reporting" where
  "upload_sources env st pre sourceRoot =
     (if sourceRoot = [] then s_ret ()
      else s_bind (on_machine (s_wrap ''build source bundle''
          (s_look (\<lambda>(log, w). BuildSourceBundle (ru_sha env) (ru_pack env) (ru_cwd env) (wd_Files w) sourceRoot)))) (\<lambda>bundle.
        s_bind (on_machine (s_wrap ''upload source bundle''
          (put_artifact env st (artifactKey pre ''source-bundle.tar.zst'') (sb_Content bundle)))) (\<lambda>ref.
        fill (\<lambda>t. t\<lparr>tr_SourceBundleRef := ref_Key ref, tr_SourceBundleDigest := ref_Digest ref\<rparr>))))"

definition uploadPlanArtifacts ::
  "('w, 'x) runner_env \<Rightarrow> store_handle \<Rightarrow> string \<Rightarrow> tf_request \<Rightarrow> string \<Rightarrow> tf_plan_result \<Rightarrow> ('w, 'x, unit) reporting" where
  "uploadPlanArtifacts env st pre r sourceRoot result =
     s_bind (upload_plan_file env st pre result) (\<lambda>planRef.
     s_bind (upload_report env st pre r result (ref_Digest planRef)) (\<lambda>_.
     s_bind (upload_backend env st pre r) (\<lambda>_. upload_sources env st pre sourceRoot)))"

subsection \<open>The program\<close>

definition persistTerminalResult ::
  "('w, 'x) runner_env \<Rightarrow> store_handle option \<Rightarrow> string \<Rightarrow> terminal_result
     \<Rightarrow> ('w, 'x) machine \<Rightarrow> (terminal_result \<times> gerr option) \<times> ('w, 'x) machine" where
  "persistTerminalResult env store pre t h =
     (case store of
        None \<Rightarrow> ((t, None), h)
      | Some st \<Rightarrow>
          (let t' = t\<lparr>tr_TerminalResultRef := artifactKey pre ''terminal-result.json''\<rparr>;
               (r, h') = put_artifact env st (tr_TerminalResultRef t') (json_text (terminal_json (ru_time_text env) t')) h
           in ((t', (case r of Inl e \<Rightarrow> Some e | Inr _ \<Rightarrow> None)), h')))"

definition emit :: "terminal_result \<Rightarrow> ('w, 'x) machine \<Rightarrow> ('w, 'x) machine" where
  "emit t = (\<lambda>(log, w). (log, w\<lparr>wd_Emitted := wd_Emitted w @ [t]\<rparr>))"

definition errorText :: "gerr option \<Rightarrow> string" where
  "errorText err = (case err of None \<Rightarrow> [] | Some e \<Rightarrow> err_text e)"

text \<open>The result of a run that fails before Terraform may change anything, and its end.\<close>

definition failed_before :: "('w, 'x) runner_env \<Rightarrow> runner_flags \<Rightarrow> string \<Rightarrow> gerr \<Rightarrow> terminal_result" where
  "failed_before env f jobUID e = zero_terminal
     \<lparr>tr_RunUID := fl_RunUID f, tr_JobUID := jobUID, tr_Operation := fl_Operation f, tr_StartedAt := ru_started env,
      tr_FinishedAt := ru_finished env, tr_ExecutionOutcome := ''Failed'', tr_MutationClassification := ''FailedPreMutation'',
      tr_Error := err_text e\<rparr>"

definition refuse_run ::
  "('w, 'x) runner_env \<Rightarrow> store_handle \<Rightarrow> runner_flags \<Rightarrow> string \<Rightarrow> gerr \<Rightarrow> ('w, 'x) machine \<Rightarrow> int \<times> ('w, 'x) machine" where
  "refuse_run env st f jobUID e h =
     (let ((t, _), h') = persistTerminalResult env (Some st) (fl_ArtifactPrefix f) (failed_before env f jobUID e) h
      in (2, emit t h'))"

text \<open>Persisting and printing a result; a failure to persist makes its artifacts unready.\<close>

definition finish_run ::
  "('w, 'x) runner_env \<Rightarrow> store_handle \<Rightarrow> runner_flags \<Rightarrow> terminal_result \<Rightarrow> ('w, 'x) machine \<Rightarrow> terminal_result \<times> ('w, 'x) machine" where
  "finish_run env st f t h =
     (let ((t1, err), h1) = persistTerminalResult env (Some st) (fl_ArtifactPrefix f) t h;
          t2 = (case err of None \<Rightarrow> t1 | Some e \<Rightarrow> t1\<lparr>tr_ArtifactsReady := False, tr_Error := err_text e\<rparr>)
      in (t2, emit t2 h1))"

definition discovery_digest :: "('w, 'x) runner_env \<Rightarrow> string \<Rightarrow> ('w, 'x) machine \<Rightarrow> string" where
  "discovery_digest env key = (\<lambda>(log, w).
     case GetVerifiedByKey (ru_sha env) (ru_s3 env) (wd_Bucket w) key of Inr (ref, _) \<Rightarrow> ref_Digest ref | Inl _ \<Rightarrow> [])"

definition record_discovery ::
  "('w, 'x) runner_env \<Rightarrow> store_handle \<Rightarrow> string \<Rightarrow> tf_request \<Rightarrow> discovery_evidence
     \<Rightarrow> terminal_result \<times> ('w, 'x) machine \<Rightarrow> terminal_result \<times> ('w, 'x) machine" where
  "record_discovery env st pre r evidence = (\<lambda>(t, h).
     case uploadTargetDiscovery env (Some st) pre r evidence h of
       (Inl e, h') \<Rightarrow> (t\<lparr>tr_ArtifactsReady := False, tr_Error := err_text e\<rparr>, h')
     | (Inr _, h') \<Rightarrow>
         (let key = artifactKey pre ''target-discovery.json'' in
          (t\<lparr>tr_TargetDiscoveryRef := key, tr_TargetDiscoveryDigest := discovery_digest env key h'\<rparr>, h')))"

definition evidence_of :: "string \<Rightarrow> string \<Rightarrow> string \<Rightarrow> discovery_evidence" where
  "evidence_of source backend digest =
     \<lparr>de_SourceClosureDigest = source, de_BackendSnapshotDigest = backend, de_EffectivePlanInputDigest = digest\<rparr>"

definition plan_terminal :: "('w, 'x) runner_env \<Rightarrow> runner_flags \<Rightarrow> string \<Rightarrow> tf_plan_result \<Rightarrow> gerr option \<Rightarrow> terminal_result" where
  "plan_terminal env f jobUID result err = zero_terminal
     \<lparr>tr_RunUID := fl_RunUID f, tr_JobUID := jobUID, tr_StartedAt := ru_started env, tr_FinishedAt := ru_finished env,
      tr_Operation := fl_Operation f, tr_TerraformExitCode := pr_ExitCode result, tr_ExecutionOutcome := pr_Outcome result,
      tr_HasChanges := pr_HasChanges result, tr_ArtifactsReady := (pr_ExitCode result = 0 \<or> pr_ExitCode result = 2),
      tr_Error := errorText err, tr_MutationClassification := ''NoMutation''\<rparr>"

definition plan_digest_of :: "('w, 'x) runner_env \<Rightarrow> runner_flags \<Rightarrow> tf_request \<Rightarrow> terminal_result \<Rightarrow> string" where
  "plan_digest_of env f r t =
     effectiveInputDigest env r (fl_ExpectedVersion f) (tr_SourceBundleDigest t) (tr_BackendConfigDigest t) (tr_PlanDigest t)"

definition plan_evidence ::
  "('w, 'x) runner_env \<Rightarrow> store_handle \<Rightarrow> runner_flags \<Rightarrow> tf_request \<Rightarrow> tf_plan_result
     \<Rightarrow> terminal_result \<times> ('w, 'x) machine \<Rightarrow> terminal_result \<times> ('w, 'x) machine" where
  "plan_evidence env st f r result th =
     (let (up, (t1, h1)) = uploadPlanArtifacts env st (fl_ArtifactPrefix f) r (fl_SourceRoot f) result th;
          t2 = (case up of Inl e \<Rightarrow> t1\<lparr>tr_ArtifactsReady := False, tr_Error := err_text e\<rparr> | Inr _ \<Rightarrow> t1)
      in if pr_Outcome result = PlanNoChange \<and> tr_ArtifactsReady t2
         then (let digest = plan_digest_of env f r t2 in
           record_discovery env st (fl_ArtifactPrefix f) r
             (evidence_of (tr_SourceBundleDigest t2) (tr_BackendConfigDigest t2) digest)
             (t2\<lparr>tr_EffectivePlanInputDigest := digest\<rparr>, h1))
         else (t2, h1))"

definition run_plan ::
  "('w, 'x) runner_env \<Rightarrow> store_handle \<Rightarrow> runner_flags \<Rightarrow> string \<Rightarrow> tf_request \<Rightarrow> ('w, 'x) machine \<Rightarrow> int \<times> ('w, 'x) machine" where
  "run_plan env st f jobUID r h =
     (let ((result, err), h1) = executor_Plan (Some (tool env (fl_TerraformBinary f))) r h;
          t0 = plan_terminal env f jobUID result err;
          (t1, h2) = (if err = None then plan_evidence env st f r result (t0, h1) else (t0, h1));
          t2 = t1\<lparr>tr_EffectivePlanInputDigest := plan_digest_of env f r t1\<rparr>;
          missing = (pr_PlanPath result \<noteq> [] \<and> isl (stat_path env (wd_Files (snd h2)) (pr_PlanPath result)));
          (t3, h3) = finish_run env st f (if missing then t2\<lparr>tr_ArtifactsReady := False\<rparr> else t2) h2
      in (if err \<noteq> None \<or> \<not> tr_ArtifactsReady t3 then 1 else 0, h3))"

text \<open>
  The context of the program has no deadline, so errors.Is(err, context.DeadlineExceeded) holds of
  no error of the executor and the outcome Indeterminate is never chosen here.
\<close>

definition apply_terminal :: "('w, 'x) runner_env \<Rightarrow> runner_flags \<Rightarrow> string \<Rightarrow> tf_apply_result \<Rightarrow> gerr option \<Rightarrow> terminal_result" where
  "apply_terminal env f jobUID result err = zero_terminal
     \<lparr>tr_RunUID := fl_RunUID f, tr_JobUID := jobUID, tr_StartedAt := ru_started env, tr_FinishedAt := ru_finished env,
      tr_Operation := fl_Operation f, tr_TerraformExitCode := ar_ExitCode result,
      tr_ExecutionOutcome := (if err = None then ''Succeeded'' else ''Failed''),
      tr_ArtifactsReady := ar_Succeeded result, tr_Error := errorText err,
      tr_MutationMayHaveOccurred := (err \<noteq> None),
      tr_MutationClassification := (if err = None then ''SucceededPostMutation'' else ''FailedPostMutationPossible''),
      tr_PlanRef := fl_PlanRef f, tr_PlanDigest := fl_PlanDigest f,
      tr_SourceBundleRef := fl_SourceBundleRef f, tr_SourceBundleDigest := fl_SourceBundleDigest f,
      tr_BackendConfigRef := fl_BackendConfigRef f, tr_BackendConfigDigest := fl_BackendConfigDigest f\<rparr>"

definition apply_digest_of :: "('w, 'x) runner_env \<Rightarrow> runner_flags \<Rightarrow> tf_request \<Rightarrow> string" where
  "apply_digest_of env f r =
     effectiveInputDigest env r (fl_ExpectedVersion f) (fl_SourceBundleDigest f) (fl_BackendConfigDigest f) (fl_PlanDigest f)"

definition apply_discovery ::
  "('w, 'x) runner_env \<Rightarrow> store_handle \<Rightarrow> runner_flags \<Rightarrow> tf_request
     \<Rightarrow> terminal_result \<times> ('w, 'x) machine \<Rightarrow> terminal_result \<times> ('w, 'x) machine" where
  "apply_discovery env st f r = (\<lambda>(t, h).
     if rq_Destroy r \<and> fl_TargetDiscoveryRef f \<noteq> []
     then (case retainTargetDiscovery env (fl_TargetDiscoveryRef f) (fl_TargetDiscoveryDigest f) h of
         (Inl e, h') \<Rightarrow> (t\<lparr>tr_ArtifactsReady := False, tr_Error := err_text e\<rparr>, h')
       | (Inr _, h') \<Rightarrow> (t\<lparr>tr_TargetDiscoveryRef := fl_TargetDiscoveryRef f, tr_TargetDiscoveryDigest := fl_TargetDiscoveryDigest f\<rparr>, h'))
     else record_discovery env st (fl_ArtifactPrefix f) r
       (evidence_of (fl_SourceBundleDigest f) (fl_BackendConfigDigest f) (apply_digest_of env f r)) (t, h))"

definition run_apply ::
  "('w, 'x) runner_env \<Rightarrow> store_handle \<Rightarrow> runner_flags \<Rightarrow> string \<Rightarrow> tf_request \<Rightarrow> ('w, 'x) machine \<Rightarrow> int \<times> ('w, 'x) machine" where
  "run_apply env st f jobUID r h =
     (let ((result, err), h1) = executor_Apply (Some (tool env (fl_TerraformBinary f))) r h;
          t0 = apply_terminal env f jobUID result err;
          (t1, h2) = (if ar_Succeeded result then apply_discovery env st f r (t0, h1) else (t0, h1));
          (t2, h3) = finish_run env st f (t1\<lparr>tr_EffectivePlanInputDigest := apply_digest_of env f r\<rparr>) h2
      in (if err \<noteq> None \<or> \<not> tr_ArtifactsReady t2 then 1 else 0, h3))"

definition run_operation ::
  "('w, 'x) runner_env \<Rightarrow> store_handle \<Rightarrow> runner_flags \<Rightarrow> string \<Rightarrow> tf_request \<Rightarrow> ('w, 'x) machine \<Rightarrow> int \<times> ('w, 'x) machine" where
  "run_operation env st f jobUID r h =
     (if fl_Operation f = ''Plan'' then run_plan env st f jobUID r h
      else if fl_Operation f = ''Apply'' then run_apply env st f jobUID r h
      else (2, emit (zero_terminal\<lparr>tr_Operation := fl_Operation f, tr_ExecutionOutcome := ''Failed''\<rparr>) h))"

definition verified_request ::
  "('w, 'x) runner_env \<Rightarrow> store_handle \<Rightarrow> runner_flags \<Rightarrow> (('w, 'x) machine, tf_request) stateful" where
  "verified_request env st f = (let r = flag_request f in
     s_bind (prepareArtifacts env (Some st) r f) (\<lambda>_.
     s_bind (prepare_inputs env st f r) (\<lambda>r'.
     s_bind (VerifyTerraformVersion (ru_decode_version env) (Some (tool env (fl_TerraformBinary f))) (fl_ExpectedVersion f)
         (rq_WorkingDir r)) (\<lambda>_. s_ret r'))))"

text \<open>The exit code of the program, and the machine it leaves.\<close>

definition runner_main :: "('w, 'x) runner_env \<Rightarrow> runner_flags \<Rightarrow> ('w, 'x) machine \<Rightarrow> int \<times> ('w, 'x) machine" where
  "runner_main env f h =
     (case resolveJobUID env of
        Inl e \<Rightarrow> (2, emit (failed_before env f [] e) h)
      | Inr jobUID \<Rightarrow>
          (case buildArtifactStore env (fl_ArtifactEndpoint f) (fl_ArtifactRegion f) (fl_ArtifactBucket f) (fl_ArtifactKMSKeyID f) of
             Inl e \<Rightarrow> (2, emit (failed_before env f jobUID e) h)
           | Inr st \<Rightarrow>
               (case verified_request env st f h of
                  (Inl e, h') \<Rightarrow> refuse_run env st f jobUID e h'
                | (Inr r, h') \<Rightarrow> run_operation env st f jobUID r h')))"

end
