(* ===== verification/RunnerSafety.thy ===== *)
theory RunnerSafety
  imports Runner SourceSafety
begin

section \<open>What the runner may run, and what it reports\<close>

text \<open>
  Which steps of the runner leave Terraform's apply alone, what its log says of the one that does
  not, and what the result it prints and persists tells of both.
\<close>

subsection \<open>Steps that keep a relation\<close>

text \<open>
  A step keeps a relation when it holds between the states before and after it; for a reflexive and
  transitive one, so does every sequence of such steps.
\<close>

named_theorems step_intros \<open>steps that keep a relation\<close>

definition going :: "('s \<Rightarrow> 's \<Rightarrow> bool) \<Rightarrow> bool" where
  "going R \<longleftrightarrow> (\<forall>h. R h h) \<and> (\<forall>h h1 h2. R h h1 \<and> R h1 h2 \<longrightarrow> R h h2)"

definition steps :: "('s \<Rightarrow> 's \<Rightarrow> bool) \<Rightarrow> ('s, 'a) stateful \<Rightarrow> bool" where
  "steps R m \<longleftrightarrow> going R \<and> (\<forall>h. R h (snd (m h)))"

lemma stepsD: "steps R m \<Longrightarrow> m h = (r, h') \<Longrightarrow> R h h'"
  by (metis steps_def snd_conv)

lemma stepsI: "going R \<Longrightarrow> (\<And>h r h'. m h = (r, h') \<Longrightarrow> R h h') \<Longrightarrow> steps R m"
  by (metis steps_def prod.collapse)

lemma going_refl: "going R \<Longrightarrow> R h h"
  unfolding going_def by blast

lemma going_trans: "going R \<Longrightarrow> R h h1 \<Longrightarrow> R h1 h2 \<Longrightarrow> R h h2"
  unfolding going_def by blast

lemma steps_bind [step_intros]:
  assumes "steps R m" and "\<And>a. steps R (f a)"
  shows "steps R (s_bind m f)"
proof (rule stepsI)
  show g: "going R" using assms(1) by (simp add: steps_def)
  fix h r h'
  assume "s_bind m f h = (r, h')"
  then show "R h h'"
    by (cases rule: s_bind_cases) (use stepsD [OF assms(1)] stepsD [OF assms(2)] going_trans [OF g] in blast)+
qed

lemma steps_case [step_intros]:
  assumes "steps R m" and "\<And>e. steps R (f e)" and "\<And>a. steps R (g a)"
  shows "steps R (s_case m f g)"
proof (rule stepsI)
  show go: "going R" using assms(1) by (simp add: steps_def)
  fix h r h'
  assume "s_case m f g h = (r, h')"
  then show "R h h'"
    by (cases rule: s_case_cases)
      (use stepsD [OF assms(1)] stepsD [OF assms(2)] stepsD [OF assms(3)] going_trans [OF go] in blast)+
qed

lemma steps_basic [step_intros]:
  "going R \<Longrightarrow> steps R (s_ret a)" "going R \<Longrightarrow> steps R (s_fail e)" "going R \<Longrightarrow> steps R (s_look g)" "going R \<Longrightarrow> steps R (s_check c)"
  by (auto simp: steps_def going_refl session_simps s_check_cases split: option.splits)

lemma steps_wrap [step_intros]: "steps R m \<Longrightarrow> steps R (s_wrap p m)"
  unfolding s_wrap_def by (intro step_intros) (simp_all add: steps_def)

lemma steps_if [step_intros]: "steps R m \<Longrightarrow> steps R n \<Longrightarrow> steps R (if b then m else n)"
  by simp

subsection \<open>Steps that plan and apply nothing\<close>

definition adds_quietly :: "trace \<Rightarrow> trace \<Rightarrow> bool" where
  "adds_quietly before after \<longleftrightarrow> (\<exists>l. after = l @ before \<and> (\<forall>c \<in> fst ` set l. \<not> acts c))"

lemma adds_quietly_refl [simp]: "adds_quietly t t"
  by (simp add: adds_quietly_def)

lemma adds_quietly_trans: "adds_quietly s t \<Longrightarrow> adds_quietly t u \<Longrightarrow> adds_quietly s u"
  unfolding adds_quietly_def
proof (elim exE conjE)
  fix k l
  assume "t = k @ s" "u = l @ t" "\<forall>c \<in> fst ` set k. \<not> acts c" "\<forall>c \<in> fst ` set l. \<not> acts c"
  then show "\<exists>l. u = l @ s \<and> (\<forall>c \<in> fst ` set l. \<not> acts c)"
    by (intro exI [of _ "l @ k"]) auto
qed

text \<open>
  A calm step plans and applies nothing and prints nothing; a silent one prints nothing; an idle one leaves the
  bucket alone.
\<close>

definition silent :: "('w, 'x) machine \<Rightarrow> ('w, 'x) machine \<Rightarrow> bool" where
  "silent h h' \<longleftrightarrow> wd_Emitted (snd h') = wd_Emitted (snd h)"

definition calm :: "('w, 'x) machine \<Rightarrow> ('w, 'x) machine \<Rightarrow> bool" where
  "calm h h' \<longleftrightarrow> adds_quietly (fst h) (fst h') \<and> silent h h'"

definition idle :: "('w, 'x) machine \<Rightarrow> ('w, 'x) machine \<Rightarrow> bool" where
  "idle h h' \<longleftrightarrow> wd_Bucket (snd h') = wd_Bucket (snd h)"

text \<open>
  Filling in a result keeps what it says of the execution, and its artifacts do not become ready.
\<close>

definition same_outcome :: "terminal_result \<Rightarrow> terminal_result \<Rightarrow> bool" where
  "same_outcome t t' \<longleftrightarrow> tr_RunUID t' = tr_RunUID t \<and> tr_JobUID t' = tr_JobUID t \<and> tr_Operation t' = tr_Operation t
     \<and> tr_TerraformExitCode t' = tr_TerraformExitCode t \<and> tr_ExecutionOutcome t' = tr_ExecutionOutcome t
     \<and> tr_MutationClassification t' = tr_MutationClassification t
     \<and> tr_MutationMayHaveOccurred t' = tr_MutationMayHaveOccurred t \<and> tr_HasChanges t' = tr_HasChanges t
     \<and> (tr_ArtifactsReady t' \<longrightarrow> tr_ArtifactsReady t)"

definition reports :: "terminal_result \<times> ('w, 'x) machine \<Rightarrow> terminal_result \<times> ('w, 'x) machine \<Rightarrow> bool" where
  "reports th th' \<longleftrightarrow> calm (snd th) (snd th') \<and> same_outcome (fst th) (fst th')"

lemma same_outcome_refl [simp]: "same_outcome t t"
  by (simp add: same_outcome_def)

lemma same_outcome_trans: "same_outcome t u \<Longrightarrow> same_outcome u v \<Longrightarrow> same_outcome t v"
  by (simp add: same_outcome_def)

lemma going_relations [simp]: "going silent" "going calm" "going idle" "going reports"
proof -
  show "going silent" "going idle" by (simp_all add: going_def silent_def idle_def)
  show "going calm" unfolding going_def calm_def silent_def
    by (intro conjI allI impI) (auto intro: adds_quietly_trans)
  then show "going reports" unfolding going_def reports_def
    by (intro conjI allI impI) (blast intro: same_outcome_refl same_outcome_trans)+
qed

lemma steps_machine [step_intros]:
  "steps calm (in_files m)" "steps idle (in_files m)"
  "steps calm (put_artifact env st key content)"
  "steps calm (get_artifact env key digest)" "steps idle (get_artifact env key digest)"
  "steps calm (look_file env s)" "steps idle (look_file env s)"
  by (auto simp: steps_def in_files_def put_artifact_def get_artifact_def look_file_def session_simps Let_def
      calm_def silent_def idle_def split: prod.splits)

lemma tool_state: "tool env b c h = (a, h') \<Longrightarrow> silent h h' \<and> idle h h' \<and> fst h' = (c, a) # fst h"
  by (auto simp: tool_def logged_def run_process_def silent_def idle_def Let_def split: prod.splits)

lemma steps_tool [step_intros]: "\<not> acts c \<Longrightarrow> steps calm (tool env b c)" "steps silent (tool env b c)" "steps idle (tool env b c)"
  by (auto intro!: stepsI dest!: tool_state simp: calm_def adds_quietly_def)

lemma steps_on_machine [step_intros]:
  assumes "steps calm m"
  shows "steps reports (on_machine m)"
proof (rule stepsI)
  fix th r th'
  assume "on_machine m th = (r, th')"
  then show "reports th th'"
    using stepsD [OF assms, of "snd th"] by (cases "m (snd th)") (auto simp: on_machine_def reports_def case_prod_beta)
qed simp

lemma steps_fill [step_intros]: "(\<And>t. same_outcome t (g t)) \<Longrightarrow> steps reports (fill g)"
  by (rule stepsI) (auto simp: reports_def fill_def going_refl)

lemma command_kinds [simp]: "applies (dir, a # args) \<longleftrightarrow> a = ''apply''" "plans (dir, a # args) \<longleftrightarrow> a = ''plan''"
  by (simp_all add: applies_def plans_def)

lemma acts_simps [simp]: "acts (dir, a # args) \<longleftrightarrow> a = ''apply'' \<or> a = ''plan''"
  by (simp add: acts_def)

lemma calm_prepareArtifacts: "steps calm (prepareArtifacts env store r f)" "steps idle (prepareArtifacts env store r f)"
  unfolding prepareArtifacts_def by (auto intro!: step_intros)

lemma calm_prepare_inputs: "steps calm (prepare_inputs env st f r)"
  unfolding prepare_inputs_def Let_def by (auto intro!: step_intros split: prod.splits)

lemma calm_version: "steps calm (VerifyTerraformVersion decode (Some (tool env b)) expected dir)"
  unfolding VerifyTerraformVersion_def executor_run_def Let_def by (auto intro!: step_intros split: sum.splits)

lemma reports_upload: "steps reports (uploadPlanArtifacts env st pre r root result)"
  unfolding uploadPlanArtifacts_def upload_plan_file_def upload_report_def buildPlanReport_def upload_backend_def upload_sources_def
  by (auto intro!: step_intros simp: same_outcome_def split: prod.splits sum.splits)

lemma calm_discovery: "steps calm (uploadTargetDiscovery env store pre r evidence)" "steps calm (retainTargetDiscovery env ref digest)"
  unfolding uploadTargetDiscovery_def retainTargetDiscovery_def by (auto intro!: step_intros split: option.splits)

lemma silent_executor:
  "executor_Plan (Some (tool env b)) r h = (out, h') \<Longrightarrow> silent h h'"
  "executor_Apply (Some (tool env b)) r h = (out', h') \<Longrightarrow> silent h h'"
proof -
  have s: "steps silent (s_bind (prepare_workspace (Some (tool env b)) plan r) (\<lambda>_. executor_run (Some (tool env b)) dir args))"
    for plan dir args
    unfolding prepare_workspace_def executor_init_def selectWorkspace_def executor_run_def
    by (auto intro!: step_intros split: option.splits)
  show "executor_Plan (Some (tool env b)) r h = (out, h') \<Longrightarrow> silent h h'"
    "executor_Apply (Some (tool env b)) r h = (out', h') \<Longrightarrow> silent h h'"
    by (auto simp: executor_Plan_def executor_Apply_def dest: stepsD [OF s] split: prod.splits sum.splits)
qed

subsection \<open>The executor on a machine\<close>

text \<open>A step with a log does the same whatever the log already holds.\<close>

definition framed :: "(trace \<times> 's \<Rightarrow> 'a \<times> (trace \<times> 's)) \<Rightarrow> bool" where
  "framed m \<longleftrightarrow> (\<forall>t s. m (t, s) = (let (r, (l, s')) = m ([], s) in (r, (l @ t, s'))))"

lemma framedE: "framed m \<Longrightarrow> m ([], s) = (r, (l, u)) \<Longrightarrow> m (t, s) = (r, (l @ t, u))"
proof -
  assume "framed m" and m: "m ([], s) = (r, (l, u))"
  then have "m (t, s) = (let (r, (l, s')) = m ([], s) in (r, (l @ t, s')))" unfolding framed_def by blast
  then show "m (t, s) = (r, (l @ t, u))" unfolding m by simp
qed

lemma framedI:
  assumes "\<And>t s r l u. m ([], s) = (r, (l, u)) \<Longrightarrow> m (t, s) = (r, (l @ t, u))"
  shows "framed m"
  unfolding framed_def
proof (intro allI)
  fix t s
  obtain r l u where m: "m ([], s) = (r, (l, u))" by (metis prod_cases3)
  show "m (t, s) = (let (r, (l, s')) = m ([], s) in (r, (l @ t, s')))" unfolding assms [OF m] m by simp
qed

lemma framedD: "framed m \<Longrightarrow> m (t, s) = (r, (log, s')) \<Longrightarrow> \<exists>l. log = l @ t \<and> m ([], s) = (r, (l, s'))"
proof -
  assume f: "framed m" "m (t, s) = (r, (log, s'))"
  obtain q l u where m: "m ([], s) = (q, (l, u))" by (metis prod_cases3)
  with framedE [OF f(1) m, of t] f(2) show ?thesis by simp
qed

lemma framed_bind:
  assumes "framed m" and "\<And>a. framed (f a)"
  shows "framed (s_bind m f)"
proof (rule framedI)
  fix t s r l u
  assume run: "s_bind m f ([], s) = (r, (l, u))"
  then show "s_bind m f (t, s) = (r, (l @ t, u))"
  proof (cases rule: s_bind_cases)
    case (failed e)
    then show ?thesis using framedE [OF assms(1) failed(1), of t] by (simp add: s_bind_def)
  next
    case (went_on a h1)
    obtain l1 s1 where h1: "h1 = (l1, s1)" by fastforce
    with went_on(2) framedD [OF assms(2)] obtain k where k: "l = k @ l1" "f a ([], s1) = (r, (k, u))" by metis
    have "m (t, s) = (Inr a, (l1 @ t, s1))" using framedE [OF assms(1)] went_on(1) h1 by blast
    moreover have "f a (l1 @ t, s1) = (r, (k @ l1 @ t, u))" using framedE [OF assms(2) k(2)] by blast
    ultimately show ?thesis using k(1) by (simp add: s_bind_def)
  qed
qed

lemma framed_basic: "framed (s_ret a)" "framed (s_fail e)" "framed (logged run c)"
  by (auto intro!: framedI simp: session_simps logged_def split: prod.splits)

lemma framed_prepare: "framed (prepare_workspace (Some (logged run)) plan r)"
  unfolding prepare_workspace_def executor_init_def selectWorkspace_def executor_run_def
  by (auto intro!: framed_bind framed_basic split: option.splits)

lemma framed_executor: "framed (executor_Plan (Some (logged run)) r)" "framed (executor_Apply (Some (logged run)) r)"
proof -
  have f: "framed (s_bind (prepare_workspace (Some (logged run)) plan r) (\<lambda>_. executor_run (Some (logged run)) dir args))" for plan dir args
    by (rule framed_bind [OF framed_prepare]) (simp add: executor_run_def framed_basic)
  have g: "framed (\<lambda>h. case m h of (Inl e, h') \<Rightarrow> ((z, Some e), h') | (Inr result, h') \<Rightarrow> (k result, h'))" if "framed m"
    for m :: "(trace \<times> 'a, 'b) stateful" and z and k :: "'b \<Rightarrow> 'c \<times> gerr option"
  proof (rule framedI)
    fix t s q l u
    assume run: "(case m ([], s) of (Inl e, h') \<Rightarrow> ((z, Some e), h') | (Inr result, h') \<Rightarrow> (k result, h')) = (q, l, u)"
    obtain r l' u' where m: "m ([], s) = (r, (l', u'))" by (metis prod_cases3)
    show "(case m (t, s) of (Inl e, h') \<Rightarrow> ((z, Some e), h') | (Inr result, h') \<Rightarrow> (k result, h')) = (q, l @ t, u)"
      using run unfolding framedE [OF that m] m by (cases r) auto
  qed
  show "framed (executor_Plan (Some (logged run)) r)" "framed (executor_Apply (Some (logged run)) r)"
    unfolding executor_Plan_def executor_Apply_def by (rule g [OF f])+
qed

lemma applies_apply_args [simp]: "applies (dir, apply_args r)" "\<not> plans (dir, apply_args r)"
  by (simp_all add: apply_args_def appendLockTimeout_def appendParallelism_def split: option.splits)

lemma machine_apply:
  assumes "executor_Apply (Some (tool env b)) r (t, w) = ((result, err), (log, w'))"
  obtains (stopped) "adds_quietly t log" and "\<not> ar_Succeeded result" and "err \<noteq> None"
  | (ran) a prep where "log = ((rq_WorkingDir r, apply_args r), a) # prep" and "adds_quietly t prep"
      and "request_validate False r = None" and "ar_Succeeded result \<longleftrightarrow> exited_zero a" and "ar_Succeeded result \<longleftrightarrow> err = None"
proof -
  from framedD [OF framed_executor(2) assms [unfolded tool_def]] obtain l where l: "log = l @ t"
    and run: "executor_Apply (Some (logged (run_process env b))) r ([], w) = ((result, err), (l, w'))" by (elim exE conjE)
  from run show ?thesis
  proof (cases rule: apply_trace)
    case stopped
    have "adds_quietly t log" unfolding adds_quietly_def using l stopped(1) by blast
    then show ?thesis using that(1) stopped(2,3) by blast
  next
    case (ran a prep)
    have "log = ((rq_WorkingDir r, apply_args r), a) # (prep @ t)" by (simp add: l ran(1))
    moreover have "adds_quietly t (prep @ t)" unfolding adds_quietly_def using ran(3) by blast
    ultimately show ?thesis using that(2) ran(4-6) by blast
  qed
qed

lemma plan_result_cases:
  "plan_result_of r a = (result, err) \<Longrightarrow> pr_ExitCode result = cmd_ExitCode a \<and> pr_PlanPath result = rq_PlanPath r
     \<and> (err = None \<longleftrightarrow> cmd_ExitCode a \<in> {0, 2})
     \<and> pr_Outcome result = (if cmd_ExitCode a = 0 then PlanNoChange else if cmd_ExitCode a = 2 then PlanChanges else PlanFailed)
     \<and> (pr_HasChanges result \<longleftrightarrow> cmd_ExitCode a = 2)"
  by (auto simp: plan_result_of_def Let_def split: if_splits)

lemma machine_plan:
  assumes "executor_Plan (Some (tool env b)) r (t, w) = ((result, err), (log, w'))"
  obtains (failed) "adds_quietly t log" and "result = zero_plan_result" and "err \<noteq> None"
  | (lost) e prep where "log = ((rq_WorkingDir r, plan_args r), Inl e) # prep" and "adds_quietly t prep"
      and "result = zero_plan_result" and "err \<noteq> None"
  | (ran) a prep where "log = ((rq_WorkingDir r, plan_args r), Inr a) # prep" and "adds_quietly t prep"
      and "plan_result_of r a = (result, err)"
proof -
  from framedD [OF framed_executor(1) assms [unfolded tool_def]] obtain l where l: "log = l @ t"
    and run: "executor_Plan (Some (logged (run_process env b))) r ([], w) = ((result, err), (l, w'))" by (elim exE conjE)
  have q: "adds_quietly t (prep @ t)" if "\<forall>c \<in> fst ` set prep. \<not> acts c" for prep
    unfolding adds_quietly_def using that by blast
  from run show ?thesis
  proof (cases rule: plan_trace)
    case (failed e)
    then show ?thesis using that(1) q [OF failed(3)] l by simp
  next
    case (lost e prep)
    then show ?thesis using that(2) [OF _ q [OF lost(4)]] l by simp
  next
    case (ran a prep)
    then show ?thesis using that(3) [OF _ q [OF ran(4)]] l by simp
  qed
qed

subsection \<open>The branches of the program\<close>

lemma record_discovery_reports: "record_discovery env st pre r ev th = th' \<Longrightarrow> reports th th'"
  by (auto simp: record_discovery_def reports_def same_outcome_def Let_def dest!: stepsD [OF calm_discovery(1)]
      split: prod.splits sum.splits)

lemma plan_evidence_reports:
  assumes "plan_evidence env st f r result th = th'"
  shows "reports th th'"
proof -
  obtain up t1 h1 where up: "uploadPlanArtifacts env st (fl_ArtifactPrefix f) r (fl_SourceRoot f) result th = (up, (t1, h1))"
    by (metis prod_cases3)
  define t2 where "t2 = (case up of Inl e \<Rightarrow> t1\<lparr>tr_ArtifactsReady := False, tr_Error := err_text e\<rparr> | Inr _ \<Rightarrow> t1)"
  have "reports th (t1, h1)" using stepsD [OF reports_upload up] .
  moreover have "reports (t1, h1) (t2, h1)"
    by (auto simp: t2_def reports_def same_outcome_def going_refl split: sum.splits)
  ultimately have a: "reports th (t2, h1)" using going_trans [OF going_relations(4)] by blast
  show ?thesis
  proof (cases "pr_Outcome result = PlanNoChange \<and> tr_ArtifactsReady t2")
    case True
    let ?digest = "plan_digest_of env f r t2"
    have "reports (t2, h1) (t2\<lparr>tr_EffectivePlanInputDigest := ?digest\<rparr>, h1)"
      by (simp add: reports_def same_outcome_def going_refl)
    moreover have "reports (t2\<lparr>tr_EffectivePlanInputDigest := ?digest\<rparr>, h1) th'"
      by (rule record_discovery_reports) (use assms True in \<open>simp add: plan_evidence_def up t2_def [symmetric] Let_def\<close>)
    ultimately show ?thesis using a going_trans [OF going_relations(4)] by blast
  next
    case False
    then have "th' = (t2, h1)" using assms by (auto simp: plan_evidence_def up t2_def [symmetric] Let_def)
    then show ?thesis using a by simp
  qed
qed

lemma apply_discovery_reports:
  assumes "apply_discovery env st f r th = th'"
  shows "reports th th'"
proof (cases "rq_Destroy r \<and> fl_TargetDiscoveryRef f \<noteq> []")
  case True
  then show ?thesis using assms
    by (auto simp: apply_discovery_def reports_def same_outcome_def dest!: stepsD [OF calm_discovery(2)]
        split: prod.splits sum.splits)
next
  case False
  then show ?thesis using assms record_discovery_reports
    by (cases th) (simp only: apply_discovery_def if_False case_prod_conv, blast)
qed

text \<open>Persisting and printing: one result more, and nothing run.\<close>

lemma finish_run_emits:
  assumes "finish_run env st f t h = (t', h')"
  shows "fst h' = fst h \<and> wd_Emitted (snd h') = wd_Emitted (snd h) @ [t'] \<and> same_outcome t t'"
  using assms
  by (cases h) (auto simp: finish_run_def persistTerminalResult_def emit_def put_artifact_def same_outcome_def Let_def
      split: prod.splits sum.splits option.splits)

lemma refuse_run_emits:
  assumes "refuse_run env st f jobUID e h = (code, h')"
  shows "\<exists>t. fst h' = fst h \<and> wd_Emitted (snd h') = wd_Emitted (snd h) @ [t] \<and> same_outcome (failed_before env f jobUID e) t \<and> code = 2"
  using assms
  by (cases h) (auto simp: refuse_run_def persistTerminalResult_def emit_def put_artifact_def same_outcome_def Let_def
      split: prod.splits sum.splits option.splits)

text \<open>
  What each branch leaves: its log, and the one result it prints. The result is compared with the
  exit codes of the plan and apply commands of the log alone.
\<close>

definition applied :: "trace \<Rightarrow> bool" where
  "applied log \<longleftrightarrow> (\<exists>c \<in> fst ` set log. applies c)"

definition applied_ok :: "trace \<Rightarrow> bool" where
  "applied_ok log \<longleftrightarrow> (\<exists>(c, a) \<in> set log. applies c \<and> exited_zero a)"

definition exited :: "int \<Rightarrow> gerr + command_result \<Rightarrow> bool" where
  "exited k a \<longleftrightarrow> (case a of Inl e \<Rightarrow> False | Inr result \<Rightarrow> cmd_ExitCode result = k)"

definition planned :: "int \<Rightarrow> trace \<Rightarrow> bool" where
  "planned k log \<longleftrightarrow> (\<exists>(c, a) \<in> set log. plans c \<and> exited k a)"

definition tells :: "terminal_result \<Rightarrow> int \<Rightarrow> trace \<Rightarrow> bool" where
  "tells t code log \<longleftrightarrow>
     (applied log \<longrightarrow> tr_MutationClassification t \<in> {''SucceededPostMutation'', ''FailedPostMutationPossible''})
     \<and> (tr_ExecutionOutcome t = ''Succeeded'' \<longleftrightarrow> applied_ok log)
     \<and> (tr_MutationClassification t = ''SucceededPostMutation'' \<longleftrightarrow> applied_ok log)
     \<and> (applied log \<longrightarrow> applied_ok log \<or> tr_MutationMayHaveOccurred t)
     \<and> (tr_ExecutionOutcome t = ''NoChange'' \<longleftrightarrow> planned 0 log)
     \<and> (tr_ExecutionOutcome t = ''ChangesPresent'' \<longleftrightarrow> planned 2 log)
     \<and> (tr_HasChanges t \<longleftrightarrow> planned 2 log)
     \<and> (code = 0 \<longrightarrow> tr_ArtifactsReady t
          \<and> tr_ExecutionOutcome t \<in> (if tr_Operation t = ''Plan'' then {''NoChange'', ''ChangesPresent''} else {''Succeeded''}))"

lemma log_Cons:
  "applied ((c, a) # log) \<longleftrightarrow> applies c \<or> applied log"
  "applied_ok ((c, a) # log) \<longleftrightarrow> applies c \<and> exited_zero a \<or> applied_ok log"
  "planned k ((c, a) # log) \<longleftrightarrow> plans c \<and> exited k a \<or> planned k log"
  by (auto simp: applied_def applied_ok_def planned_def)

lemma log_Nil: "\<not> applied []" "\<not> applied_ok []" "\<not> planned k []"
  by (simp_all add: applied_def applied_ok_def planned_def)

lemma quiet_log:
  assumes "adds_quietly t log"
  shows "applied log = applied t" and "applied_ok log = applied_ok t" and "planned k log = planned k t"
proof -
  from assms obtain l where l: "log = l @ t" "\<forall>c \<in> fst ` set l. \<not> acts c" by (auto simp: adds_quietly_def)
  have "\<not> applies (fst e) \<and> \<not> plans (fst e)" if "e \<in> set l" for e using l(2) that unfolding acts_def by blast
  then show "applied log = applied t" "applied_ok log = applied_ok t" "planned k log = planned k t"
    by (auto simp: l(1) applied_def applied_ok_def planned_def)
qed

lemma calm_log:
  assumes "calm h h'"
  shows "applied (fst h') = applied (fst h)" and "applied_ok (fst h') = applied_ok (fst h)"
    and "planned k (fst h') = planned k (fst h)" and "wd_Emitted (snd h') = wd_Emitted (snd h)"
  using assms quiet_log [of "fst h" "fst h'"] by (simp_all add: calm_def silent_def)

text \<open>A log in which nothing was planned or applied so far.\<close>

definition untouched :: "trace \<Rightarrow> bool" where
  "untouched log \<longleftrightarrow> \<not> applied log \<and> \<not> applied_ok log \<and> (\<forall>k. \<not> planned k log)"

lemma calm_untouched: "calm h h' \<Longrightarrow> untouched (fst h) \<Longrightarrow> untouched (fst h')"
  by (simp add: untouched_def calm_log)

text \<open>What Plan and Apply leave in the log, beside what they return.\<close>

lemma planned_by_executor:
  assumes "executor_Plan (Some (tool env b)) r h = ((result, err), h')" and "untouched (fst h)"
  shows "\<not> applied (fst h') \<and> \<not> applied_ok (fst h')
     \<and> (pr_Outcome result = ''NoChange'' \<longleftrightarrow> planned 0 (fst h')) \<and> (pr_Outcome result = ''ChangesPresent'' \<longleftrightarrow> planned 2 (fst h'))
     \<and> (pr_HasChanges result \<longleftrightarrow> planned 2 (fst h')) \<and> pr_Outcome result \<noteq> ''Succeeded''
     \<and> (err = None \<longrightarrow> pr_Outcome result \<in> {''NoChange'', ''ChangesPresent''})"
proof -
  obtain t w log w' where h: "h = (t, w)" "h' = (log, w')" by (metis prod.collapse)
  have t: "\<not> applied t" "\<not> applied_ok t" "\<not> planned k t" for k using assms(2) by (simp_all add: h untouched_def)
  note plan_simps = zero_plan_result_def PlanNoChange_def PlanChanges_def PlanFailed_def log_Cons plan_plans exited_def
  from assms(1) [unfolded h] show ?thesis
  proof (cases rule: machine_plan)
    case failed
    with t quiet_log [OF failed(1)] show ?thesis by (simp add: h plan_simps)
  next
    case (lost e prep)
    with t quiet_log [OF lost(2)] show ?thesis by (simp add: h plan_simps)
  next
    case (ran a prep)
    with t quiet_log [OF ran(2)] plan_result_cases [OF ran(3)] show ?thesis by (auto simp: h plan_simps split: if_splits)
  qed
qed

lemma run_plan_tells:
  assumes "run_plan env st f jobUID r h = (code, h')" and "fl_Operation f = ''Plan''" and "untouched (fst h)"
  shows "\<exists>t. wd_Emitted (snd h') = wd_Emitted (snd h) @ [t] \<and> tr_Operation t = fl_Operation f
     \<and> \<not> applied (fst h') \<and> tr_MutationClassification t = ''NoMutation'' \<and> tells t code (fst h')"
proof -
  obtain result err h1 where p: "executor_Plan (Some (tool env (fl_TerraformBinary f))) r h = ((result, err), h1)"
    by (metis prod.collapse)
  define t0 where "t0 = plan_terminal env f jobUID result err"
  obtain t1 h2 where e: "(if err = None then plan_evidence env st f r result (t0, h1) else (t0, h1)) = (t1, h2)" by (metis prod.collapse)
  define t2 where "t2 = t1\<lparr>tr_EffectivePlanInputDigest := plan_digest_of env f r t1\<rparr>"
  define t2' where "t2' = (if pr_PlanPath result \<noteq> [] \<and> isl (stat_path env (wd_Files (snd h2)) (pr_PlanPath result))
      then t2\<lparr>tr_ArtifactsReady := False\<rparr> else t2)"
  obtain t3 h3 where fin: "finish_run env st f t2' h2 = (t3, h3)" by (metis prod.collapse)
  have out: "code = (if err \<noteq> None \<or> \<not> tr_ArtifactsReady t3 then 1 else 0)" "h' = h3"
    using assms(1) unfolding run_plan_def p Let_def case_prod_conv t0_def [symmetric] e t2_def [symmetric] t2'_def [symmetric] fin
    by simp_all
  note q = planned_by_executor [OF p assms(3)]
  have "silent h h1" using silent_executor(1) [OF p] .
  then have em: "wd_Emitted (snd h1) = wd_Emitted (snd h)" by (simp add: silent_def)
  have "reports (t0, h1) (t1, h2)" using e by (auto dest: plan_evidence_reports simp: reports_def going_refl split: if_splits)
  moreover have "same_outcome t1 t2'" by (simp add: t2'_def t2_def same_outcome_def)
  ultimately have c: "calm h1 h2" and s: "same_outcome t0 t2'" using same_outcome_trans by (auto simp: reports_def)
  from finish_run_emits [OF fin] s have f: "fst h3 = fst h2" "wd_Emitted (snd h3) = wd_Emitted (snd h2) @ [t3]" "same_outcome t0 t3"
    using same_outcome_trans by auto
  have t3: "tr_Operation t3 = fl_Operation f" "tr_ExecutionOutcome t3 = pr_Outcome result" "tr_HasChanges t3 = pr_HasChanges result"
    "tr_MutationClassification t3 = ''NoMutation''"
    using f(3) by (simp_all add: same_outcome_def t0_def plan_terminal_def)
  have log: "applied (fst h') = applied (fst h1)" "applied_ok (fst h') = applied_ok (fst h1)" "planned k (fst h') = planned k (fst h1)" for k
    using calm_log [OF c] f(1) out(2) by simp_all
  have "tells t3 code (fst h')" using q t3 assms(2) out(1) by (auto simp: tells_def log)
  moreover have "\<not> applied (fst h')" using q by (simp add: log)
  ultimately show ?thesis using t3 calm_log(4) [OF c] f(2) out(2) em by auto
qed

lemma run_apply_tells:
  assumes "run_apply env st f jobUID r h = (code, h')" and "fl_Operation f = ''Apply''" and "untouched (fst h)"
  shows "\<exists>t. wd_Emitted (snd h') = wd_Emitted (snd h) @ [t] \<and> tr_Operation t = fl_Operation f \<and> tells t code (fst h')"
    and "c \<in> fst ` set (fst h') \<Longrightarrow> applies c \<Longrightarrow> c = (rq_WorkingDir r, apply_args r)"
    and "\<exists>l. fst h' = l @ fst h"
proof -
  obtain result err h1 where p: "executor_Apply (Some (tool env (fl_TerraformBinary f))) r h = ((result, err), h1)"
    by (metis prod.collapse)
  define t0 where "t0 = apply_terminal env f jobUID result err"
  obtain t1 h2 where e: "(if ar_Succeeded result then apply_discovery env st f r (t0, h1) else (t0, h1)) = (t1, h2)" by (metis prod.collapse)
  define t2 where "t2 = t1\<lparr>tr_EffectivePlanInputDigest := apply_digest_of env f r\<rparr>"
  obtain t3 h3 where fin: "finish_run env st f t2 h2 = (t3, h3)" by (metis prod.collapse)
  have out: "code = (if err \<noteq> None \<or> \<not> tr_ArtifactsReady t3 then 1 else 0)" "h' = h3"
    using assms(1) unfolding run_apply_def p Let_def case_prod_conv t0_def [symmetric] e t2_def [symmetric] fin by simp_all
  obtain log w log1 w1 where h: "h = (log, w)" "h1 = (log1, w1)" by (metis prod.collapse)
  have na: "\<not> applied log" "\<not> applied_ok log" "\<not> planned k log" for k using assms(3) by (simp_all add: h untouched_def)
  have q: "(ar_Succeeded result \<longleftrightarrow> applied_ok log1) \<and> (ar_Succeeded result \<longleftrightarrow> err = None) \<and> (\<forall>k. \<not> planned k log1)
      \<and> (\<forall>c \<in> fst ` set log1. applies c \<longrightarrow> c = (rq_WorkingDir r, apply_args r)) \<and> (\<exists>l. log1 = l @ log)"
    using p [unfolded h]
  proof (cases rule: machine_apply)
    case stopped
    moreover have "\<exists>l. log1 = l @ log" using stopped(1) by (auto simp: adds_quietly_def)
    ultimately show ?thesis using quiet_log [OF stopped(1)] na by (auto simp: applied_def)
  next
    case (ran a prep)
    moreover have "\<exists>l. log1 = l @ log" using ran(1,2) by (auto simp: adds_quietly_def)
    ultimately show ?thesis using quiet_log [OF ran(2)] na by (auto simp: applied_def log_Cons)
  qed
  have "silent h h1" using silent_executor(2) [OF p] .
  then have em: "wd_Emitted w1 = wd_Emitted w" by (simp add: silent_def h)
  have "reports (t0, h1) (t1, h2)" using e by (auto dest: apply_discovery_reports simp: reports_def going_refl split: if_splits)
  moreover have "same_outcome t1 t2" by (simp add: t2_def same_outcome_def)
  ultimately have c2: "calm h1 h2" and s: "same_outcome t0 t2" using same_outcome_trans by (auto simp: reports_def)
  from finish_run_emits [OF fin] s have f: "fst h3 = fst h2" "wd_Emitted (snd h3) = wd_Emitted (snd h2) @ [t3]" "same_outcome t0 t3"
    using same_outcome_trans by auto
  have t3: "tr_Operation t3 = fl_Operation f" "tr_ExecutionOutcome t3 = (if err = None then ''Succeeded'' else ''Failed'')"
    "tr_MutationClassification t3 = (if err = None then ''SucceededPostMutation'' else ''FailedPostMutationPossible'')"
    "tr_MutationMayHaveOccurred t3 = (err \<noteq> None)" "\<not> tr_HasChanges t3"
    using f(3) by (simp_all add: same_outcome_def t0_def apply_terminal_def zero_terminal_def)
  have "applied_ok (fst h') = applied_ok log1" "planned k (fst h') = planned k log1" for k
    using calm_log [OF c2] f(1) out(2) by (simp_all add: h)
  then have "tells t3 code (fst h')" using q t3 assms(2) out(1) by (auto simp: tells_def)
  then show "\<exists>t. wd_Emitted (snd h') = wd_Emitted (snd h) @ [t] \<and> tr_Operation t = fl_Operation f \<and> tells t code (fst h')"
    using t3 calm_log(4) [OF c2] f(2) out(2) em h by auto
  show "c \<in> fst ` set (fst h') \<Longrightarrow> applies c \<Longrightarrow> c = (rq_WorkingDir r, apply_args r)"
    using c2 q f(1) out(2) by (auto simp: calm_def adds_quietly_def acts_def h)
  show "\<exists>l. fst h' = l @ fst h" using c2 q f(1) out(2) by (auto simp: calm_def adds_quietly_def h)
qed

subsection \<open>The whole program\<close>

lemma verified_request_calm: "steps calm (verified_request env st f)"
  unfolding verified_request_def Let_def
  by (intro step_intros calm_prepareArtifacts calm_prepare_inputs calm_version) simp

lemma s_wrap_Inr [simp]: "s_wrap p m h = (Inr a, h') \<longleftrightarrow> m h = (Inr a, h')"
  by (auto simp: s_wrap_def s_case_def session_simps split: prod.splits sum.splits)

lemma get_artifact_Inr: "get_artifact env key digest h = (Inr c, h') \<longleftrightarrow>
    h' = h \<and> GetVerified (ru_sha env) (ru_s3 env) (wd_Bucket (snd h)) (artifact_ref key digest) = Inr c"
  by (cases h) (auto simp: get_artifact_def session_simps)

lemma s_check_Inr: "s_check c h = (Inr u, h') \<longleftrightarrow> c = None \<and> h' = h"
  by (auto simp: s_check_cases split: option.splits)

text \<open>An artifact the command line names by key and digest is in the bucket.\<close>

definition artifact_holds :: "('w, 'x) runner_env \<Rightarrow> ('w, 'x) machine \<Rightarrow> string \<Rightarrow> string \<Rightarrow> bool" where
  "artifact_holds env h key digest \<longleftrightarrow> key = [] \<or> (digest \<noteq> [] \<and>
     (\<exists>c. GetVerified (ru_sha env) (ru_s3 env) (wd_Bucket (snd h)) (artifact_ref key digest) = Inr c))"

lemma idle_holds: "idle h h' \<Longrightarrow> artifact_holds env h' = artifact_holds env h"
  by (simp add: artifact_holds_def idle_def fun_eq_iff)

lemma in_files_idle: "in_files m h = (r, h') \<Longrightarrow> idle h h'"
  using stepsD [OF steps_machine(2)] by blast

lemma prepareArtifacts_verifies:
  assumes "prepareArtifacts env (Some st) r f h = (Inr u, h')"
  shows "artifact_holds env h (fl_SourceBundleRef f) (fl_SourceBundleDigest f) \<and> artifact_holds env h (fl_PlanRef f) (fl_PlanDigest f)
    \<and> artifact_holds env h (fl_BackendConfigRef f) (fl_BackendConfigDigest f)"
  using assms
  by (auto simp: prepareArtifacts_def s_bind_Inr s_check_Inr get_artifact_Inr session_simps artifact_holds_def idle_def
      dest!: in_files_idle split: if_splits)

text \<open>
  The version of the binary was asked for and found to be the one expected, surrounding blanks and a
  leading v aside, or none is expected.
\<close>

definition version_agreed :: "('w, 'x) runner_env \<Rightarrow> runner_flags \<Rightarrow> trace \<Rightarrow> bool" where
  "version_agreed env f log \<longleftrightarrow> fl_ExpectedVersion f = [] \<or>
     (\<exists>a v. ((fl_WorkingDir f, [''version'', ''-json'']), Inr a) \<in> set log \<and> cmd_ExitCode a = 0
        \<and> ru_decode_version env (cmd_Stdout a) = Inr v \<and> trim_prefix (trim_space v) ''v'' \<noteq> []
        \<and> trim_prefix (trim_space v) ''v'' = trim_prefix (trim_space (fl_ExpectedVersion f)) ''v'')"

lemma version_agreed_mono: "version_agreed env f log \<Longrightarrow> set log \<subseteq> set log' \<Longrightarrow> version_agreed env f log'"
  unfolding version_agreed_def by blast

lemma earlier_part: "later @ e # earlier = l @ log \<Longrightarrow> e \<notin> set log \<Longrightarrow> set log \<subseteq> set earlier"
  by (auto simp: append_eq_append_conv2 Cons_eq_append_conv)

lemma verified_request_Inr:
  assumes "verified_request env st f h = (Inr r, h')"
  shows "(\<exists>path. r = (flag_request f)\<lparr>rq_InputsPath := path\<rparr>)" and "(\<exists>profile inputs. bound_inputs env f = Inr (profile, inputs))"
    and "artifact_holds env h (fl_SourceBundleRef f) (fl_SourceBundleDigest f)" and "artifact_holds env h (fl_PlanRef f) (fl_PlanDigest f)"
    and "artifact_holds env h (fl_BackendConfigRef f) (fl_BackendConfigDigest f)"
    and "version_agreed env f (fst h')"
proof -
  from assms obtain u h1 h2 v h3 where a: "prepareArtifacts env (Some st) (flag_request f) f h = (Inr u, h1)"
    and i: "prepare_inputs env st f (flag_request f) h1 = (Inr r, h2)"
    and v: "VerifyTerraformVersion (ru_decode_version env) (Some (tool env (fl_TerraformBinary f))) (fl_ExpectedVersion f)
      (rq_WorkingDir (flag_request f)) h2 = (Inr v, h3)" and h': "h' = h3"
    by (auto simp: verified_request_def Let_def s_bind_Inr session_simps)
  show "\<exists>path. r = (flag_request f)\<lparr>rq_InputsPath := path\<rparr>" "\<exists>profile inputs. bound_inputs env f = Inr (profile, inputs)"
    using i by (auto simp: prepare_inputs_def s_bind_Inr session_simps Let_def)
  show "artifact_holds env h (fl_SourceBundleRef f) (fl_SourceBundleDigest f)" "artifact_holds env h (fl_PlanRef f) (fl_PlanDigest f)"
    "artifact_holds env h (fl_BackendConfigRef f) (fl_BackendConfigDigest f)"
    using prepareArtifacts_verifies [OF a] by simp_all
  show "version_agreed env f (fst h')"
    using v unfolding h' version_agreed_def
    by (cases "fl_ExpectedVersion f = []")
      (auto simp: VerifyTerraformVersion_def executor_run_def s_bind_Inr flag_request_def session_simps Let_def
        dest!: tool_state split: if_splits sum.splits)
qed

text \<open>How a run ends: refused before Terraform ran, or in one of its operations.\<close>

lemma runner_main_cases:
  assumes "runner_main env f h = (code, h')"
  obtains (refused) jobUID e h1 t where "calm h h1" and "fst h' = fst h1" and "wd_Emitted (snd h') = wd_Emitted (snd h1) @ [t]"
      and "same_outcome (failed_before env f jobUID e) t" and "code = 2"
  | (ran) jobUID st r h1 where "resolveJobUID env = Inr jobUID" and "verified_request env st f h = (Inr r, h1)" and "calm h h1"
      and "run_operation env st f jobUID r h1 = (code, h')"
proof (cases "resolveJobUID env")
  case (Inl e)
  then show ?thesis using assms that(1) [of h "failed_before env f [] e" "[]" e]
    by (cases h) (auto simp: runner_main_def emit_def going_refl)
next
  case job: (Inr jobUID)
  show ?thesis
  proof (cases "buildArtifactStore env (fl_ArtifactEndpoint f) (fl_ArtifactRegion f) (fl_ArtifactBucket f) (fl_ArtifactKMSKeyID f)")
    case (Inl e)
    then show ?thesis using assms job that(1) [of h "failed_before env f jobUID e" jobUID e]
      by (cases h) (auto simp: runner_main_def emit_def going_refl)
  next
    case store: (Inr st)
    obtain res h1 where v: "verified_request env st f h = (res, h1)" by (metis prod.collapse)
    have calm: "calm h h1" using stepsD [OF verified_request_calm v] .
    show ?thesis
    proof (cases res)
      case (Inl e)
      then have "refuse_run env st f jobUID e h1 = (code, h')" using assms job store v by (simp add: runner_main_def)
      from refuse_run_emits [OF this] show ?thesis using that(1) [OF calm] by blast
    next
      case (Inr r)
      then show ?thesis using that(2) [OF job] v calm assms job store by (simp add: runner_main_def)
    qed
  qed
qed

text \<open>
  C18. What the runner prints is what it did: from a fresh start it prints exactly one result. When an
  apply ran, the result is classified as after a mutation, and it says Succeeded, and the run is
  classified as succeeded, exactly when an apply exited with zero; otherwise a mutation is reported
  as possible. It says NoChange exactly when a plan exited with 0, and ChangesPresent, and that there are
  changes, exactly when a plan exited with 2. The program exits with zero only with ready artifacts and
  one of these good outcomes of its operation.
\<close>
theorem runner_reports_what_it_did:
  assumes "runner_main env f ([], w) = (code, (log, w'))"
  shows "\<exists>t. wd_Emitted w' = wd_Emitted w @ [t] \<and> tr_Operation t = fl_Operation f \<and> tells t code log"
  using assms
proof (cases rule: runner_main_cases)
  case (refused jobUID e h1 t)
  then have "untouched log" using calm_untouched [OF refused(1)] by (simp add: untouched_def log_Nil)
  then show ?thesis using refused calm_log(4) [OF refused(1)]
    by (auto simp: tells_def same_outcome_def failed_before_def untouched_def zero_terminal_def)
next
  case (ran jobUID st r h1)
  have fresh: "untouched (fst h1)" using calm_untouched [OF ran(3)] by (simp add: untouched_def log_Nil)
  have em: "wd_Emitted (snd h1) = wd_Emitted w" using calm_log(4) [OF ran(3)] by simp
  consider "fl_Operation f = ''Plan''" | "fl_Operation f = ''Apply''" | "fl_Operation f \<notin> {''Plan'', ''Apply''}" by blast
  then show ?thesis
  proof cases
    case 1
    then show ?thesis using run_plan_tells [of env st f jobUID r h1 code "(log, w')"] ran(4) fresh em by (auto simp: run_operation_def)
  next
    case 2
    then show ?thesis using run_apply_tells(1) [of env st f jobUID r h1 code "(log, w')"] ran(4) fresh em by (auto simp: run_operation_def)
  next
    case 3
    then have "(code, (log, w')) = (2, emit (zero_terminal\<lparr>tr_Operation := fl_Operation f, tr_ExecutionOutcome := ''Failed''\<rparr>) h1)"
      using ran(4) by (auto simp: run_operation_def)
    then show ?thesis using fresh em by (cases h1) (auto simp: emit_def tells_def zero_terminal_def untouched_def)
  qed
qed

text \<open>
  C17. The runner applies only what was verified: an apply command runs only in an Apply, on the saved
  plan file of the command line, when every artifact the command line names can be read from the
  bucket with its digest and the execution profile agrees with the credentials and the artifact store;
  and where a version of Terraform is expected, the binary was asked for its version before the apply,
  and named the expected one.
\<close>
theorem runner_applies_only_what_was_verified:
  assumes "runner_main env f ([], w) = (code, (log, w'))" and "log = later @ (c, a) # earlier" and "applies c"
  shows "fl_Operation f = ''Apply'' \<and> c = (fl_WorkingDir f, apply_args (flag_request f)) \<and> last (snd c) = fl_PlanPath f
     \<and> artifact_holds env ([], w) (fl_PlanRef f) (fl_PlanDigest f)
     \<and> artifact_holds env ([], w) (fl_SourceBundleRef f) (fl_SourceBundleDigest f)
     \<and> artifact_holds env ([], w) (fl_BackendConfigRef f) (fl_BackendConfigDigest f)
     \<and> (\<exists>profile inputs. bound_inputs env f = Inr (profile, inputs) \<and> profile_error env f profile = None)
     \<and> version_agreed env f earlier"
  using assms(1)
proof (cases rule: runner_main_cases)
  case (refused jobUID e h1 t)
  then have "\<not> applied log" using calm_log [OF refused(1)] by (simp add: log_Nil)
  then show ?thesis using assms(2,3) by (auto simp: applied_def)
next
  case (ran jobUID st r h1)
  have "applied log" using assms(2,3) by (auto simp: applied_def)
  have fresh: "untouched (fst h1)" using calm_untouched [OF ran(3)] by (simp add: untouched_def log_Nil)
  have op: "fl_Operation f = ''Apply''"
  proof (rule ccontr)
    assume "fl_Operation f \<noteq> ''Apply''"
    then have "\<not> applied log"
      using ran(4) run_plan_tells [of env st f jobUID r h1 code "(log, w')"] fresh
      by (cases h1) (auto simp: run_operation_def emit_def untouched_def split: if_splits)
    then show False using \<open>applied log\<close> by simp
  qed
  then have run: "run_apply env st f jobUID r h1 = (code, (log, w'))" using ran(4) by (simp add: run_operation_def)
  note v = verified_request_Inr [OF ran(2)]
  from v(1) obtain path where r: "r = (flag_request f)\<lparr>rq_InputsPath := path\<rparr>" ..
  have "c \<in> fst ` set log" using assms(2) by (auto simp: image_iff)
  then have "c = (rq_WorkingDir r, apply_args r)" using run_apply_tells(2) [OF run op fresh] assms(3) by simp
  then have c: "c = (fl_WorkingDir f, apply_args (flag_request f))" by (simp add: r apply_args_def flag_request_def)
  have "last (snd c) = fl_PlanPath f" by (simp add: c apply_args_def flag_request_def)
  moreover have "\<exists>profile inputs. bound_inputs env f = Inr (profile, inputs) \<and> profile_error env f profile = None"
    using v(2) by (fastforce simp: bound_inputs_def)
  moreover have "version_agreed env f earlier"
  proof -
    from run_apply_tells(3) [OF run op fresh] obtain l where "later @ (c, a) # earlier = l @ fst h1" using assms(2) by auto
    moreover have "(c, a) \<notin> set (fst h1)" using fresh assms(3) by (force simp: untouched_def applied_def)
    ultimately show ?thesis using version_agreed_mono [OF v(6)] earlier_part by metis
  qed
  ultimately show ?thesis using op c v(3-5) by blast
qed

subsection \<open>Files written once\<close>

definition writable :: "fsys \<Rightarrow> fpath \<Rightarrow> bool" where
  "writable fs q \<longleftrightarrow> q \<noteq> [] \<and> (fs_lookup fs q = None \<or> (\<exists>m c. fs_lookup fs q = Some (RegularE m c)))"

lemma resolve_written:
  "resolve True n fs acc cs = Inr q \<Longrightarrow> writable fs q \<Longrightarrow> resolve False n (fs_put q (RegularE m c) fs) acc cs = Inr q"
proof (induction True n fs acc cs rule: resolve.induct)
  case (2 n fs acc x cs)
  let ?fs = "fs_put q (RegularE m c) fs"
  have same: "fs_lookup ?fs (acc @ [x]) = (if q = acc @ [x] then Some (RegularE m c) else fs_lookup fs (acc @ [x]))"
    using 2(5) by (auto simp: fs_lookup_put writable_def)
  show ?case
  proof (cases "x = ''..''")
    case True
    then show ?thesis using 2(1) [OF True] 2(4,5) by (auto simp: writable_def)
  next
    case False
    show ?thesis
    proof (cases "fs_lookup fs (acc @ [x])")
      case None
      then show ?thesis using 2(4) False same by (auto split: if_splits)
    next
      case (Some e)
      show ?thesis
      proof (cases e)
        case (LinkE t)
        then have "q \<noteq> acc @ [x]" using Some 2(5) by (auto simp: writable_def)
        moreover have "n \<noteq> 0" using 2(4) False Some LinkE by (auto split: if_splits)
        ultimately show ?thesis using 2(3) [OF False Some LinkE] 2(4,5) False Some LinkE same by (auto simp: writable_def split: if_splits)
      next
        case DirE
        then have "q \<noteq> acc @ [x]" using Some 2(5) by (auto simp: writable_def)
        then show ?thesis using 2(2) [OF False Some DirE] 2(4,5) False Some DirE same by auto
      next
        case (RegularE m' c')
        then show ?thesis using 2(4) False Some same by (auto split: if_splits)
      next
        case SpecialE
        then show ?thesis using 2(4,5) False Some same by (auto simp: writable_def split: if_splits)
      qed
    qed
  qed
qed simp

lemma read_written:
  assumes "resolve True kernel_links fs [] (path_parts s) = Inr q" and "writable fs q"
  shows "os_read_file (fs_put q (RegularE m content) fs) s = Inr content"
  using resolve_written [OF assms, of m content] assms(2)
  by (simp add: os_read_file_def os_stat_def entry_at_def fs_lookup_put writable_def sum_bind_def)

text \<open>A path never resolves to a symbolic link.\<close>

lemma resolve_no_link:
  "resolve missing n fs acc cs = Inr q \<Longrightarrow> (\<And>w. prefix w acc \<Longrightarrow> fs_lookup fs w = Some DirE)
   \<Longrightarrow> fs_lookup fs q \<noteq> Some (LinkE t)"
proof (induction missing n fs acc cs rule: resolve.induct)
  case (1 missing n fs acc)
  then show ?case using 1(2) [of acc] by simp
next
  case (2 missing n fs acc x cs)
  show ?case
  proof (cases "x = ''..''")
    case True
    have "fs_lookup fs w = Some DirE" if "prefix w (butlast acc)" for w
      using 2(5) [of w] that prefixeq_butlast prefix_order.trans by blast
    then show ?thesis using 2(1) [OF True] 2(4) True by simp
  next
    case False
    show ?thesis
    proof (cases "fs_lookup fs (acc @ [x])")
      case None
      then show ?thesis using 2(4) False by (auto split: if_splits)
    next
      case (Some e)
      show ?thesis
      proof (cases e)
        case (LinkE t')
        have start: "fs_lookup fs w = Some DirE" if "prefix w (if is_abs_path t' then [] else acc)" for w
          using that 2(5) [of w] by (cases "is_abs_path t'") (simp_all add: fs_lookup_def)
        have "n \<noteq> 0" using 2(4) False Some LinkE by (auto split: if_splits)
        then show ?thesis using 2(3) [OF False Some LinkE _ _ start] 2(4) False Some LinkE by (simp split: if_splits)
      next
        case DirE
        have "fs_lookup fs w = Some DirE" if "prefix w (acc @ [x])" for w using that 2(5) Some DirE by auto
        then show ?thesis using 2(2) [OF False Some DirE] 2(4) False Some DirE by simp
      qed (use 2(4) False Some in \<open>auto split: if_splits\<close>)
    qed
  qed
qed

lemma write_reads_back:
  assumes "os_write_file umask s mode content fs = (Inr u, fs')" and "\<And>p. fs_lookup fs p \<noteq> Some SpecialE"
  shows "os_read_file fs' s = Inr content"
proof -
  from assms(1) obtain q where q: "resolve True kernel_links fs [] (path_parts s) = Inr q"
    by (auto simp: os_write_file_def split: sum.splits)
  show ?thesis
  proof (cases "fs_lookup fs q")
    case None
    then have "writable fs q" by (auto simp: writable_def fs_lookup_def)
    then show ?thesis using assms(1) q None read_written by (auto simp: os_write_file_def)
  next
    case (Some e)
    show ?thesis
    proof (cases e)
      case (RegularE m c)
      then have "writable fs q" using Some by (auto simp: writable_def fs_lookup_def split: if_splits)
      then show ?thesis using assms(1) q Some RegularE read_written by (auto simp: os_write_file_def)
    next
      case (LinkE t)
      then show ?thesis using resolve_no_link [OF q] Some by (auto simp: fs_lookup_def split: if_splits)
    qed (use assms Some q in \<open>auto simp: os_write_file_def\<close>)
  qed
qed

lemma mkdir_all_no_special:
  assumes "os_mkdir_all s fs = (r, fs')" and "\<And>p. fs_lookup fs p \<noteq> Some SpecialE"
  shows "fs_lookup fs' p \<noteq> Some SpecialE"
proof -
  have "becomes [] p (fs_lookup fs p) (fs_lookup fs' p)"
    using mkdir_up_confined [OF assms(1) [unfolded os_mkdir_all_def], of "[]"] by (simp add: confined_def)
  then show ?thesis using assms(2) [of p] by (auto simp: becomes_def)
qed

text \<open>
  A restored file is written once: writing a file that can be read changes nothing, whatever the
  content; and after a success the file reads as content of the same digest.
\<close>
theorem restored_files_are_written_once:
  assumes "writeImmutableFile env filePath content fs = (res, fs')" and "\<forall>p. fs_lookup fs p \<noteq> Some SpecialE"
  shows "(isl (read_path env fs filePath) \<or> fs' = fs)
     \<and> (isl res \<or> (\<exists>c. read_path env fs' filePath = Inr c \<and> bytes_digest (ru_sha env) c = bytes_digest (ru_sha env) content))"
proof (cases "read_path env fs filePath")
  case (Inr old)
  then show ?thesis using assms(1) by (auto simp: writeImmutableFile_def session_simps split: if_splits)
next
  case (Inl e)
  show ?thesis
  proof (cases "isl res")
    case False
    then obtain u where u: "res = Inr u" by (cases res) auto
    then have e: "e = not_exist" using assms(1) Inl by (auto simp: writeImmutableFile_def session_simps split: if_splits)
    with assms(1) Inl u obtain fs1 where "os_mkdir_all (at_path env (path_dir filePath)) fs = (Inr (), fs1)"
      and w: "filePath \<noteq> []" "os_write_file (ru_umask env) (at_path env filePath) 384 content fs1 = (Inr u, fs')"
      by (auto simp: writeImmutableFile_def s_bind_Inr session_simps split: if_splits)
    then have "fs_lookup fs1 p \<noteq> Some SpecialE" for p using mkdir_all_no_special assms(2) by blast
    from write_reads_back [OF w(2) this] w(1) Inl show ?thesis by (simp add: read_path_def)
  qed (use Inl in simp)
qed

subsection \<open>The sanitized discovery\<close>

text \<open>The entries a discovery may hold: the outputs themselves, and the entries of an output's value.\<close>

definition discovered :: "(string \<Rightarrow> gerr + gomap) \<Rightarrow> (string \<Rightarrow> gerr + string) \<Rightarrow> gomap \<Rightarrow> string \<times> string \<Rightarrow> bool" where
  "discovered d v entries e \<longleftrightarrow> fst e \<in> set allowed_discovery \<and>
     (e \<in> set entries \<or> (\<exists>o' raw nested. o' \<in> set entries \<and> v (snd o') = Inr raw \<and> d raw = Inr nested \<and> e \<in> set nested))"

lemma set_gset: "set (gset m k v) = insert (k, v) {e \<in> set m. fst e \<noteq> k}"
  by (auto simp only: gset_def set_sort set_simps set_filter)

lemma keep_allowed_ok:
  "(\<And>e. e \<in> set es \<Longrightarrow> fst e \<in> set allowed_discovery \<Longrightarrow> P e) \<Longrightarrow> (\<And>e. e \<in> set m \<Longrightarrow> P e) \<Longrightarrow> e \<in> set (fold keep_allowed es m) \<Longrightarrow> P e"
proof (induction es arbitrary: m)
  case (Cons a es)
  show ?case
  proof (rule Cons.IH)
    show "e \<in> set (fold keep_allowed es (keep_allowed a m))" using Cons.prems(3) by simp
    show "P e" if e: "e \<in> set (keep_allowed a m)" for e
    proof -
      have "e \<in> set m \<or> (e = a \<and> fst a \<in> set allowed_discovery)"
        using e by (simp add: keep_allowed_def set_gset split: if_splits) blast
      then show ?thesis using Cons.prems(1) [of a] Cons.prems(2) [of e] by (metis list.set_intros(1))
    qed
  qed (use Cons.prems(1) in simp)
qed simp

lemma take_output_ok:
  assumes "o' \<in> set entries" and "\<And>e. e \<in> set m \<Longrightarrow> discovered d v entries e" and "e \<in> set (take_output d v o' m)"
  shows "discovered d v entries e"
proof (cases "fst o' \<in> set allowed_discovery")
  case True
  then have "e = o' \<or> e \<in> set m" using assms(3) by (simp add: take_output_def set_gset) blast
  then show ?thesis using True assms(1) assms(2) [of e] by (auto simp: discovered_def)
next
  case False
  show ?thesis
  proof (cases "\<exists>raw nested. v (snd o') = Inr raw \<and> raw \<noteq> [] \<and> d raw = Inr nested")
    case True
    then obtain raw nested where n: "v (snd o') = Inr raw" "raw \<noteq> []" "d raw = Inr nested" by blast
    have "e \<in> set (fold keep_allowed nested m)" using assms(3) n False by (simp add: take_output_def)
    then show ?thesis
    proof (rule keep_allowed_ok [rotated 2])
      show "discovered d v entries e" if "e \<in> set nested" "fst e \<in> set allowed_discovery" for e
        unfolding discovered_def using that assms(1) n by blast
    qed (rule assms(2))
  next
    case none: False
    then have "take_output d v o' m = m" using False by (auto simp: take_output_def split: sum.splits)
    then show ?thesis using assms(2,3) by simp
  qed
qed

lemma take_outputs_ok:
  "set es \<subseteq> set entries \<Longrightarrow> (\<And>e. e \<in> set m \<Longrightarrow> discovered d v entries e)
   \<Longrightarrow> e \<in> set (fold (take_output d v) es m) \<Longrightarrow> discovered d v entries e"
proof (induction es arbitrary: m)
  case (Cons a es)
  show ?case
  proof (rule Cons.IH)
    show "e \<in> set (fold (take_output d v) es (take_output d v a m))" using Cons.prems(3) by simp
    show "discovered d v entries e" if "e \<in> set (take_output d v a m)" for e
      by (rule take_output_ok [OF _ Cons.prems(2) that]) (use Cons.prems(1) in auto)
  qed (use Cons.prems(1) in simp)
qed simp

text \<open>
  A published discovery holds only what it may: it is not empty, all its keys are on the list of
  discovery keys, and each entry is an output of Terraform or an entry of an output's value.
\<close>
theorem discovery_is_allowlisted:
  assumes "sanitizeTargetDiscovery d v content = Inr published"
  shows "\<exists>entries m. d content = Inr entries \<and> published = raw_object m \<and> m \<noteq> [] \<and> (\<forall>e \<in> set m. discovered d v entries e)"
proof -
  from assms obtain entries where e: "d content = Inr entries" "fold (take_output d v) entries [] \<noteq> []"
    "published = raw_object (fold (take_output d v) entries [])"
    by (auto simp: sanitizeTargetDiscovery_def Let_def split: sum.splits if_splits)
  have "discovered d v entries x" if "x \<in> set (fold (take_output d v) entries [])" for x
    by (rule take_outputs_ok [OF order.refl _ that]) simp
  with e show ?thesis by blast
qed

subsection \<open>The inputs as evidence\<close>

lemma gset_sorted: "sorted (map fst (gset m k v))"
  unfolding gset_def by (rule sorted_sort_key)

lemma gset_present:
  assumes "sorted (map fst m)" and "distinct (map fst m)" and "map_of m k = Some v"
  shows "gset m k v = m"
proof (rule map_sorted_distinct_set_unique [where f = fst])
  show "sorted (map fst (gset m k v))" by (rule gset_sorted)
  show "distinct (map fst (gset m k v))" using gset_distinct [OF assms(2)] .
  have kv: "(k, v) \<in> set m" using assms(3) by (rule map_of_SomeD)
  have "e = (k, v)" if "e \<in> set m" "fst e = k" for e
    using that eq_key_imp_eq_value [OF assms(2) kv, of "snd e"] by (metis prod.collapse)
  then show same: "set (gset m k v) = set m" unfolding set_gset using kv by blast
  show "inj_on fst (set (gset m k v) \<union> set m)" using assms(2) by (simp add: same distinct_map)
qed (use assms in simp_all)

lemma bind_present:
  "sorted (map fst m) \<Longrightarrow> distinct (map fst m) \<Longrightarrow> map_of kvs \<subseteq>\<^sub>m map_of m \<Longrightarrow> distinct (map fst kvs)
   \<Longrightarrow> foldl bind_input (Inr m) kvs = Inr m"
proof (induction kvs)
  case (Cons kv kvs)
  obtain k v where kv: "kv = (k, v)" by fastforce
  have "map_of (kv # kvs) k = Some v" by (simp add: kv)
  then have "map_of m k = Some v" using Cons.prems(3) by (metis domI map_le_def)
  then have "bind_input (Inr m) kv = Inr m" using gset_present Cons.prems(1,2) by (simp add: kv bind_input_step)
  moreover have "map_of kvs k = None" using Cons.prems(4) by (simp add: kv map_of_eq_None_iff)
  then have "map_of kvs \<subseteq>\<^sub>m map_of (kv # kvs)" by (auto simp: kv map_le_def)
  then have "map_of kvs \<subseteq>\<^sub>m map_of m" using Cons.prems(3) by (rule map_le_trans)
  ultimately show ?case using Cons.IH Cons.prems by simp
qed simp

lemma bind_input_fails: "bind_input (Inl e) kv = Inl e"
  by (simp add: bind_input_def)

lemma bind_sorted: "foldl bind_input (Inr m) (kv # kvs) = Inr m' \<Longrightarrow> sorted (map fst m')"
proof (induction kvs arbitrary: m kv)
  case Nil
  then show ?case by (auto simp: bind_input_def gset_sorted split: if_splits)
next
  case (Cons a kvs)
  from Cons.prems obtain m1 where "bind_input (Inr m) kv = Inr m1" by (cases "bind_input (Inr m) kv") (auto simp: bind_input_fails)
  then show ?case using Cons.IH [of m1 a] Cons.prems by simp
qed

text \<open>Binding inputs that are already bound changes nothing.\<close>

lemma bind_idempotent:
  assumes "BindModuleInputs m (Some p) role = Inr b" and "distinct (map fst m)"
  shows "BindModuleInputs b (Some p) role = Inr b"
proof -
  have f: "foldl bind_input (Inr m) (authority_inputs p role) = Inr b" and v: "ValidateExecutionProfile (Some p) = None"
    using assms(1) by (simp_all add: BindModuleInputs_Inr)
  have d: "distinct (map fst (authority_inputs p role))" by (simp add: authority_inputs_def)
  note spec = bind_inputs_spec [OF assms(2) d f]
  have "map_of (authority_inputs p role) \<subseteq>\<^sub>m map_of b" using spec by (auto simp: map_le_def)
  moreover have "sorted (map fst b)" using f bind_sorted by (simp only: authority_inputs_def)
  ultimately show ?thesis using bind_present spec d v by (simp add: BindModuleInputs_Inr)
qed

text \<open>
  The inputs the runner stores are the ones the controller looks for: the InfraStack controller
  binds the inputs of a run, the Job builder binds them again into the environment of the runner and
  the runner a third time, and what it stores has the digest by which the TerraformRun controller
  verifies the run.
\<close>
theorem stored_inputs_are_the_expected_ones:
  assumes "BindModuleInputs declared (Some profile) (fl_InfrastructureExecutionRoleARN f) = Inr (rs_Inputs (run_Spec run))"
    and "distinct (map fst declared)"
    and "BindModuleInputs (rs_Inputs (run_Spec run)) (Some profile) (fl_InfrastructureExecutionRoleARN f) = Inr values'"
    and "ru_decode_inputs env (ru_getenv env ''PCP_MODULE_INPUTS'') = Inr values'"
    and "bound_inputs env f = Inr (profile, inputs)"
  shows "artifact_digest (ru_sha env) (module_inputs inputs) = ref_Digest (moduleInputsRef (ru_sha env) run)"
proof -
  note bound = bind_idempotent [OF assms(1,2)]
  have "values' = rs_Inputs (run_Spec run)" using assms(3) bound by simp
  moreover have "inputs = values'" using assms(4,5) bound calculation by (auto simp: bound_inputs_def)
  ultimately show ?thesis by (simp add: artifact_digest_def moduleInputsRef_def module_inputs_def)
qed

subsection \<open>What the controller can make of a result\<close>

text \<open>
  The controller decodes the terminal result into its own struct, which has the same JSON names; the
  digest is the one of the object it read.
\<close>

definition received :: "terminal_result \<Rightarrow> string \<Rightarrow> runner_terminal_result" where
  "received t digest = \<lparr>trr_RunUID = tr_RunUID t, trr_JobUID = tr_JobUID t, trr_StartedAt = tr_StartedAt t,
     trr_FinishedAt = tr_FinishedAt t, trr_Operation = tr_Operation t, trr_TerraformExitCode = tr_TerraformExitCode t,
     trr_ExecutionOutcome = tr_ExecutionOutcome t, trr_ArtifactsReady = tr_ArtifactsReady t, trr_HasChanges = tr_HasChanges t,
     trr_Error = tr_Error t, trr_PlanRef = tr_PlanRef t, trr_PlanDigest = tr_PlanDigest t,
     trr_SourceBundleRef = tr_SourceBundleRef t, trr_SourceBundleDigest = tr_SourceBundleDigest t,
     trr_BackendConfigRef = tr_BackendConfigRef t, trr_BackendConfigDigest = tr_BackendConfigDigest t,
     trr_PlanReportRef = tr_PlanReportRef t, trr_PlanReportDigest = tr_PlanReportDigest t,
     trr_TerminalResultRef = tr_TerminalResultRef t, trr_TerminalResultDigest = digest,
     trr_EffectivePlanInputDigest = tr_EffectivePlanInputDigest t, trr_TargetDiscoveryRef = tr_TargetDiscoveryRef t,
     trr_TargetDiscoveryDigest = tr_TargetDiscoveryDigest t, trr_MutationClassification = tr_MutationClassification t,
     trr_MutationMayHaveOccurred = tr_MutationMayHaveOccurred t\<rparr>"

text \<open>
  C39. A Plan whose preparation fails (the init, the workspace or the process itself) is reported as
  exit code 0 with no outcome, and the controller refuses that report as one of another execution,
  whatever the run and its Job: the error it carries is never recorded.
\<close>
theorem failed_plan_preparation_is_refused:
  assumes "executor_Plan (Some (tool env (fl_TerraformBinary f))) r h = ((zero_plan_result, Some e), h1)"
    and "run_plan env st f jobUID r h = (code, h')"
  shows "code = 1 \<and> (\<exists>t. wd_Emitted (snd h') = wd_Emitted (snd h1) @ [t] \<and> tr_ExecutionOutcome t = [] \<and> tr_TerraformExitCode t = 0
     \<and> (\<forall>run j digest. validateTerminalIdentity run (received t digest) j = Some (Err ''terminal execution identity mismatch'')))"
proof -
  let ?t0 = "plan_terminal env f jobUID zero_plan_result (Some e)"
  let ?t1 = "?t0\<lparr>tr_EffectivePlanInputDigest := plan_digest_of env f r ?t0\<rparr>"
  obtain t h2 where fin: "finish_run env st f ?t1 h1 = (t, h2)" by (metis prod.collapse)
  have "code = 1" "h' = h2"
    using assms(2) unfolding run_plan_def assms(1) Let_def case_prod_conv by (simp_all add: zero_plan_result_def fin [unfolded zero_plan_result_def])
  moreover have "wd_Emitted (snd h2) = wd_Emitted (snd h1) @ [t]" "same_outcome ?t1 t" using finish_run_emits [OF fin] by simp_all
  moreover have "validateTerminalIdentity run (received t digest) j = Some (Err ''terminal execution identity mismatch'')"
    if "tr_ExecutionOutcome t = []" for run j digest
    using that by (simp add: validateTerminalIdentity_def received_def Let_def and_then_def first_error.simps)
  ultimately show ?thesis by (auto simp: same_outcome_def plan_terminal_def zero_plan_result_def)
qed

subsection \<open>Witnesses\<close>

text \<open>
  An Apply of a saved plan: the module and its lock file are in the working directory, the plan and
  the backend snapshot in the bucket, and every Terraform command exits with zero. The hash is the
  identity.
\<close>

definition sample_files :: fsys where
  "sample_files = [([''w''], DirE), ([''w'', ''kpcp-module.json''], RegularE 420 ''m''),
     ([''w'', ''.terraform.lock.hcl''], RegularE 420 ''l''), ([''tmp''], DirE)]"

definition sample_object :: "string \<Rightarrow> s3_put_input" where
  "sample_object content = put_input (\<lambda>s. s) [] [] content"

definition sample_bucket :: "string \<Rightarrow> s3_put_input option" where
  "sample_bucket = [''p'' \<mapsto> sample_object ''plan'', ''b'' \<mapsto> sample_object ''conf'']"

definition sample_world :: "(string \<Rightarrow> s3_put_input option, unit) world" where
  "sample_world = \<lparr>wd_Files = sample_files, wd_Remote = (), wd_Bucket = sample_bucket, wd_Emitted = []\<rparr>"

definition sample_getenv :: "string \<Rightarrow> string" where
  "sample_getenv k = (if k = ''AWS_ACCESS_KEY_ID'' \<or> k = ''AWS_SECRET_ACCESS_KEY'' then ''test''
     else if k = ''PCP_POD_NAME'' \<or> k = ''PCP_POD_NAMESPACE'' then ''n'' else [])"

definition sample_process :: "int \<Rightarrow> string \<Rightarrow> command \<Rightarrow> fsys \<times> unit \<Rightarrow> process_outcome \<times> (fsys \<times> unit)" where
  "sample_process init_code binary c s =
     (\<lparr>po_End = (if hd (snd c) = ''init'' then (if init_code = 0 then Finished else ExitError init_code) else Finished),
       po_Stdout = ''o'', po_Stderr = []\<rparr>, s)"

definition sample_contract :: module_contract where
  "sample_contract = \<lparr>mc_ID = ''aws-s3-lifecycle-v1'', mc_TerraformVersion = ''1.14.0'',
     mc_Inputs = [(''execution_role_arn'', False), (''region'', True), (''s3_endpoint'', True), (''sts_endpoint'', True)]\<rparr>"

definition sample_backend :: backend_config where
  "sample_backend = \<lparr>bc_Bucket = ''b'', bc_Key = ''k'', bc_Region = ''r'', bc_UseLockfile = True, bc_UsePathStyle = True,
     bc_Endpoints = [(''s3'', ''http://a:4566''), (''sts'', ''http://a:4566'')]\<rparr>"

definition sample_runner :: "int \<Rightarrow> (string \<Rightarrow> s3_put_input option, unit) runner_env" where
  "sample_runner init_code = \<lparr>ru_sha = (\<lambda>s. s), ru_s3 = map_bucket, ru_getenv = sample_getenv, ru_cwd = ''/'', ru_umask = (\<lambda>m. m),
     ru_started = 1, ru_finished = 2, ru_generated = 2, ru_time_text = (\<lambda>t. []), ru_cluster_config = None, ru_clientset = None,
     ru_get_pod = (\<lambda>n p. Inr [\<lparr>or_Kind = ''Job'', or_Name = ''j'', or_UID = ''u'', or_Controller = Some True\<rparr>]),
     ru_process = sample_process init_code, ru_pack = (\<lambda>es. Inl not_exist), ru_unpack = (\<lambda>c. Inl not_exist),
     ru_hcl = (\<lambda>c. Some (Some sample_backend)), ru_decode_inputs = (\<lambda>c. Inr []), ru_decode_profile = (\<lambda>c. Inr sample_profile),
     ru_decode_contract = (\<lambda>c. Inr sample_contract), ru_decode_version = (\<lambda>c. Inr ''1.14.0''),
     ru_decode_object = (\<lambda>c. Inr [(''region'', ''1'')]), ru_decode_value = (\<lambda>c. Inl not_exist),
     ru_decode_actions = (\<lambda>c. Inr []), ru_decode_plan = (\<lambda>c. Inl not_exist)\<rparr>"

definition sample_flags :: "string \<Rightarrow> runner_flags" where
  "sample_flags operation = default_flags\<lparr>fl_Operation := operation, fl_WorkingDir := ''/w'', fl_BackendConfig := ''/w/b'',
     fl_PlanPath := ''/w/p'', fl_ArtifactEndpoint := ''http://a:4566'', fl_ArtifactRegion := ''r'', fl_ArtifactBucket := ''b'',
     fl_ArtifactPrefix := ''x'', fl_PlanRef := ''p'', fl_PlanDigest := ''sha256:plan'', fl_BackendConfigRef := ''b'',
     fl_BackendConfigDigest := ''sha256:conf'', fl_RunUID := ''r'', fl_ExpectedVersion := ''1.14.0''\<rparr>"

lemma sample_apply_runs:
  "applies (''/w'', apply_args (flag_request (sample_flags ''Apply'')))
   \<and> (''/w'', apply_args (flag_request (sample_flags ''Apply'')))
     \<in> fst ` set (fst (snd (runner_main (sample_runner 0) (sample_flags ''Apply'') ([], sample_world))))"
  by code_simp

theorem runner_reports_what_it_did_witness:
  "\<exists>t. wd_Emitted (snd (snd (runner_main (sample_runner 0) (sample_flags ''Apply'') ([], sample_world)))) = [t]
     \<and> tr_Operation t = ''Apply'' \<and> tells t (fst (runner_main (sample_runner 0) (sample_flags ''Apply'') ([], sample_world)))
         (fst (snd (runner_main (sample_runner 0) (sample_flags ''Apply'') ([], sample_world))))"
proof -
  obtain code log w' where run: "runner_main (sample_runner 0) (sample_flags ''Apply'') ([], sample_world) = (code, (log, w'))"
    by (metis prod_cases3)
  show ?thesis unfolding run using runner_reports_what_it_did [OF run] by (simp add: sample_world_def sample_flags_def)
qed

theorem runner_applies_only_what_was_verified_witness:
  "artifact_holds (sample_runner 0) ([], sample_world) ''p'' ''sha256:plan''
     \<and> (\<exists>later a earlier. fst (snd (runner_main (sample_runner 0) (sample_flags ''Apply'') ([], sample_world)))
            = later @ ((''/w'', apply_args (flag_request (sample_flags ''Apply''))), a) # earlier
          \<and> version_agreed (sample_runner 0) (sample_flags ''Apply'') earlier)"
proof -
  obtain code log w' where run: "runner_main (sample_runner 0) (sample_flags ''Apply'') ([], sample_world) = (code, (log, w'))"
    by (metis prod_cases3)
  have "(''/w'', apply_args (flag_request (sample_flags ''Apply''))) \<in> fst ` set log" using sample_apply_runs by (simp add: run)
  then obtain a where "((''/w'', apply_args (flag_request (sample_flags ''Apply''))), a) \<in> set log" by force
  then obtain later earlier where at: "log = later @ ((''/w'', apply_args (flag_request (sample_flags ''Apply''))), a) # earlier"
    by (auto dest: split_list)
  note v = runner_applies_only_what_was_verified [OF run at sample_apply_runs [THEN conjunct1]]
  have "fl_PlanRef (sample_flags ''Apply'') = ''p''" "fl_PlanDigest (sample_flags ''Apply'') = ''sha256:plan''"
    by (simp_all add: sample_flags_def)
  with v have "artifact_holds (sample_runner 0) ([], sample_world) ''p'' ''sha256:plan''" by (elim conjE) simp
  moreover from v have "version_agreed (sample_runner 0) (sample_flags ''Apply'') earlier" by blast
  ultimately show ?thesis unfolding run fst_conv snd_conv using at by blast
qed

theorem restored_files_are_written_once_witness:
  "read_path (sample_runner 0) (snd (writeImmutableFile (sample_runner 0) ''/w/p'' ''plan'' sample_files)) ''/w/p'' = Inr ''plan''"
proof -
  have s: "\<forall>p. fs_lookup sample_files p \<noteq> Some SpecialE" by (simp add: fs_lookup_def sample_files_def)
  obtain res fs' where run: "writeImmutableFile (sample_runner 0) ''/w/p'' ''plan'' sample_files = (res, fs')" by fastforce
  have "\<not> isl (fst (writeImmutableFile (sample_runner 0) ''/w/p'' ''plan'' sample_files))" by code_simp
  with restored_files_are_written_once [OF run s] obtain c where
    c: "read_path (sample_runner 0) fs' ''/w/p'' = Inr c" by (auto simp: run)
  have "read_path (sample_runner 0) (snd (writeImmutableFile (sample_runner 0) ''/w/p'' ''plan'' sample_files)) ''/w/p'' = Inr ''plan''"
    by code_simp
  then show ?thesis using c by (simp add: run)
qed

theorem discovery_is_allowlisted_witness:
  "\<exists>m. sanitizeTargetDiscovery (\<lambda>c. Inr [(''other'', ''2''), (''region'', ''1'')]) (\<lambda>c. Inl not_exist) ''o'' = Inr (raw_object m)
     \<and> m \<noteq> []"
proof -
  let ?d = "\<lambda>c. Inr [(''other'', ''2''), (''region'', ''1'')]" and ?v = "\<lambda>c. Inl not_exist"
  have "sanitizeTargetDiscovery ?d ?v ''o'' = Inr (raw_object [(''region'', ''1'')])" by code_simp
  from discovery_is_allowlisted [OF this] this show ?thesis by metis
qed

definition sample_bound :: gomap where
  "sample_bound = [(''execution_role_arn'', []), (''region'', ''r''), (''s3_endpoint'', ''http://a:4566''), (''sts_endpoint'', ''http://a:4566'')]"

theorem stored_inputs_are_the_expected_ones_witness:
  "\<exists>run. rs_Inputs (run_Spec run) = sample_bound
     \<and> artifact_digest (\<lambda>s. s) (module_inputs sample_bound) = ref_Digest (moduleInputsRef (\<lambda>s. s) run)"
proof -
  let ?env = "(sample_runner 0)\<lparr>ru_decode_inputs := \<lambda>c. Inr sample_bound\<rparr>" and ?f = "sample_flags ''Apply''"
  have "BindModuleInputs [] (Some sample_profile) (fl_InfrastructureExecutionRoleARN ?f) = Inr sample_bound
    \<and> BindModuleInputs sample_bound (Some sample_profile) (fl_InfrastructureExecutionRoleARN ?f) = Inr sample_bound
    \<and> bound_inputs ?env ?f = Inr (sample_profile, sample_bound)
    \<and> ru_decode_inputs ?env (ru_getenv ?env ''PCP_MODULE_INPUTS'') = Inr sample_bound"
    by code_simp
  then have b: "BindModuleInputs [] (Some sample_profile) (fl_InfrastructureExecutionRoleARN ?f) = Inr sample_bound"
    "BindModuleInputs sample_bound (Some sample_profile) (fl_InfrastructureExecutionRoleARN ?f) = Inr sample_bound"
    "bound_inputs ?env ?f = Inr (sample_profile, sample_bound)"
    "ru_decode_inputs ?env (ru_getenv ?env ''PCP_MODULE_INPUTS'') = Inr sample_bound"
    by blast+
  obtain run :: terraform_run where run: "rs_Inputs (run_Spec run) = sample_bound"
  proof
    fix any :: terraform_run
    show "rs_Inputs (run_Spec (any\<lparr>run_Spec := (run_Spec any)\<lparr>rs_Inputs := sample_bound\<rparr>\<rparr>)) = sample_bound" by simp
  qed
  have "artifact_digest (ru_sha ?env) (module_inputs sample_bound) = ref_Digest (moduleInputsRef (ru_sha ?env) run)"
    by (rule stored_inputs_are_the_expected_ones [where declared = "[]"]) (use b run in simp_all)
  then show ?thesis using run by (auto simp: sample_runner_def)
qed

lemma sample_plan_fails:
  "fst (fst (executor_Plan (Some (tool (sample_runner 1) (fl_TerraformBinary (sample_flags ''Plan''))))
     (flag_request (sample_flags ''Plan'')) ([], sample_world))) = zero_plan_result"
  "snd (fst (executor_Plan (Some (tool (sample_runner 1) (fl_TerraformBinary (sample_flags ''Plan''))))
     (flag_request (sample_flags ''Plan'')) ([], sample_world))) \<noteq> None"
  by code_simp+

theorem failed_plan_preparation_is_refused_witness:
  "fst (run_plan (sample_runner 1) (''b'', []) (sample_flags ''Plan'') ''u'' (flag_request (sample_flags ''Plan'')) ([], sample_world)) = 1"
proof -
  obtain e h1 where e: "executor_Plan (Some (tool (sample_runner 1) (fl_TerraformBinary (sample_flags ''Plan''))))
      (flag_request (sample_flags ''Plan'')) ([], sample_world) = ((zero_plan_result, Some e), h1)"
    using sample_plan_fails by (metis option.exhaust prod.collapse)
  show ?thesis using failed_plan_preparation_is_refused [OF e prod.collapse [symmetric]] by blast
qed

end
