(* ===== verification/ReadModel.thy ===== *)
theory ReadModel
  imports ControllerBase PlanView
begin

section \<open>The read model of the console: internal/console/readmodel.go\<close>

text \<open>
  What the console shows of the cluster: one snapshot of the lists of objects, and the views made of it.
  A view is a record with the fields of its Go struct; a pointer that may be nil is an option. The
  code sorts with sort.Slice, which leaves the order of equal elements open; the stable sort taken here
  is one of its results (the runs of a namespace have different names, and the conditions of an object
  different types, so only approvals made at one instant are concerned). At the end of the method
  \<open>detail\<close> sets the latest run of a local summary that was copied before; it has no effect and is left out.
\<close>

subsection \<open>The views\<close>

record condition_view =
  cv_Type :: string
  cv_Status :: condition_status
  cv_Reason :: string
  cv_Message :: string
  cv_LastTransitionTime :: time

record target_view =
  tv_Provider :: string
  tv_AccountID :: string
  tv_Region :: string
  tv_ClusterName :: string
  tv_IncarnationID :: string

record run_brief =
  rb_Name :: string
  rb_Operation :: string
  rb_Outcome :: string
  rb_HasChanges :: bool
  rb_Reason :: string

record environment_summary =
  sum_Namespace :: string
  sum_Name :: string
  sum_UID :: string
  sum_Class :: string
  sum_Generation :: int
  sum_NodeCount :: int
  sum_Phase :: string
  sum_Ready :: bool
  sum_ReadyStatus :: condition_status
  sum_Infrastructure :: string
  sum_Runtime :: string
  sum_Target :: target_view
  sum_LatestTerraformRun :: "run_brief option"
  sum_LatestApproval :: string
  sum_LastTransitionTime :: "time option"
  sum_CreatedAt :: time
  sum_Deleting :: bool

record class_view =
  clv_Name :: string
  clv_UID :: string
  clv_Version :: string
  clv_UsageCount :: int
  clv_CreatedAt :: time
  clv_Deleting :: bool
  clv_Provider :: string
  clv_TargetCluster :: string
  clv_DefaultRegion :: string
  clv_AllowedRegions :: "string list"
  clv_CapacityBounds :: capacity_bounds
  clv_Ready :: bool
  clv_ReadyReason :: string

record infra_view =
  iv_Name :: string
  iv_DesiredState :: string
  iv_State :: string
  iv_Condition :: "condition_view option"
  iv_LatestPlanRun :: string
  iv_LastAppliedRun :: string
  iv_ConvergenceEvidence :: bool

record runtime_view =
  rv_Name :: string
  rv_State :: string
  rv_Condition :: "condition_view option"
  rv_InventoryItems :: int
  rv_InventoryLimitExceeded :: bool
  rv_MutationBlocked :: bool
  rv_CleanupEvidence :: bool

record approval_view =
  av_Namespace :: string
  av_Name :: string
  av_PlanRun :: string
  av_PlanRunUID :: string
  av_State :: string
  av_PlanDigest :: string
  av_CreatedAt :: time
  av_ApprovedAt :: "time option"

record terraform_run_view =
  trv_Namespace :: string
  trv_Name :: string
  trv_UID :: string
  trv_Operation :: string
  trv_PlanMode :: string
  trv_State :: string
  trv_Reason :: string
  trv_Message :: string
  trv_Outcome :: string
  trv_HasChanges :: bool
  trv_PlanDigest :: string
  trv_PlanRef :: string
  trv_PlanReportRef :: string
  trv_PlanReportDigest :: string
  trv_EffectivePlanInputDigest :: string
  trv_ExecutionContextDigest :: string
  trv_PlanExpiresAt :: "time option"
  trv_PlanCreatedAt :: "time option"
  trv_ArtifactsReady :: bool
  trv_EvidenceCaptured :: bool
  trv_TerminalStartedAt :: "time option"
  trv_TerminalFinishedAt :: "time option"
  trv_Approval :: "approval_view option"
  trv_CreatedAt :: time

record timeline_event =
  ev_At :: time
  ev_Kind :: string
  ev_Resource :: string
  ev_Title :: string
  ev_State :: string
  ev_Reason :: string
  ev_Message :: string

record evidence_view =
  evv_PlanDigest :: string
  evv_PlanReportRef :: string
  evv_PlanReportDigest :: string
  evv_TerminalResultRef :: string
  evv_TerminalResultDigest :: string
  evv_SourceBundleDigest :: string
  evv_TargetDiscoveryDigest :: string

record valkey_view =
  vv_Desired :: bool
  vv_Shards :: int
  vv_Replicas :: int
  vv_ReadyReplicas :: int
  vv_State :: string

record environment_detail =
  edt_Summary :: environment_summary
  edt_Conditions :: "condition_view list"
  edt_InfrastructureDetail :: "infra_view option"
  edt_RuntimeDetail :: "runtime_view option"
  edt_TerraformRuns :: "terraform_run_view list"
  edt_Approvals :: "approval_view list"
  edt_Valkey :: "valkey_view option"
  edt_Evidence :: evidence_view
  edt_Timeline :: "timeline_event list"
  edt_TimelineNote :: string

text \<open>The answer of the plan routes; the graph is the stored document of package planview.\<close>

record plan_view =
  pv_TerraformRun :: "terraform_run_view option"
  pv_Available :: bool
  pv_Message :: string
  pv_Graph :: "plan_document option"

record read_snapshot =
  sn_environments :: "platform_environment list"
  sn_classes :: "environment_class list"
  sn_stacks :: "infra_stack list"
  sn_runs :: "terraform_run list"
  sn_approvals :: "change_approval list"
  sn_resourceSets :: "resource_set list"
  sn_valkeys :: "valkey_cluster list"

subsection \<open>Conditions, owners and lookups\<close>

definition findReady :: "condition list \<Rightarrow> condition option" where
  "findReady conditions = findCondition conditions ''Ready''"

definition IsStatusConditionTrue :: "condition list \<Rightarrow> string \<Rightarrow> bool" where
  "IsStatusConditionTrue conditions conditionType \<longleftrightarrow>
     (case findCondition conditions conditionType of None \<Rightarrow> False | Some c \<Rightarrow> c_Status c = ConditionTrue)"

definition conditionState :: "condition \<Rightarrow> string" where
  "conditionState c =
     (if c_Status c = ConditionTrue then ''Ready''
      else if c_Status c = ConditionUnknown then ''Unknown''
      else if c_Reason c \<noteq> [] then c_Reason c
      else ''NotReady'')"

definition conditionView :: "condition \<Rightarrow> condition_view" where
  "conditionView c = \<lparr>cv_Type = c_Type c, cv_Status = c_Status c, cv_Reason = c_Reason c,
     cv_Message = c_Message c, cv_LastTransitionTime = c_LastTransitionTime c\<rparr>"

definition conditionViews :: "condition list \<Rightarrow> condition_view list" where
  "conditionViews conditions = sort_key cv_Type (map conditionView conditions)"

definition ready_state :: "string \<Rightarrow> condition list \<Rightarrow> string" where
  "ready_state none conditions =
     (case findReady conditions of None \<Rightarrow> none | Some c \<Rightarrow> conditionState c)"

definition targetFromIdentity :: "runtime_target_identity \<Rightarrow> target_view" where
  "targetFromIdentity i = \<lparr>tv_Provider = rti_Provider i, tv_AccountID = rti_AccountID i,
     tv_Region = rti_Region i, tv_ClusterName = rti_ClusterName i, tv_IncarnationID = rti_IncarnationID i\<rparr>"

definition zero_target_view :: target_view where
  "zero_target_view = \<lparr>tv_Provider = [], tv_AccountID = [], tv_Region = [], tv_ClusterName = [], tv_IncarnationID = []\<rparr>"

definition className :: "platform_environment \<Rightarrow> string" where
  "className environment = (case pes_ClassRef (pe_Spec environment) of None \<Rightarrow> [] | Some name \<Rightarrow> name)"

definition hasOwnerUID :: "object_meta \<Rightarrow> string \<Rightarrow> bool" where
  "hasOwnerUID object uid \<longleftrightarrow> uid \<noteq> [] \<and> list_ex (\<lambda>owner. or_UID owner = uid) (om_OwnerReferences object)"

definition findEnvironment ::
  "platform_environment list \<Rightarrow> string \<Rightarrow> string \<Rightarrow> platform_environment option" where
  "findEnvironment items namespace name =
     find (\<lambda>e. om_Namespace (pe_Meta e) = namespace \<and> om_Name (pe_Meta e) = name) items"

definition findClass :: "environment_class list \<Rightarrow> string \<Rightarrow> environment_class option" where
  "findClass items name = find (\<lambda>c. om_Name (ec_Meta c) = name) items"

definition stack_of :: "platform_environment \<Rightarrow> infra_stack \<Rightarrow> bool" where
  "stack_of environment item \<longleftrightarrow>
     om_Namespace (is_Meta item) = om_Namespace (pe_Meta environment)
     \<and> (pest_InfraStackRef (pe_Status environment) = Some (om_Name (is_Meta item))
        \<or> (pes_InfraStackRef (pe_Spec environment) \<noteq> []
           \<and> om_Name (is_Meta item) = pes_InfraStackRef (pe_Spec environment))
        \<or> hasOwnerUID (is_Meta item) (om_UID (pe_Meta environment)))"

definition findStack :: "infra_stack list \<Rightarrow> platform_environment \<Rightarrow> infra_stack option" where
  "findStack items environment = find (stack_of environment) items"

definition resource_set_of :: "platform_environment \<Rightarrow> resource_set \<Rightarrow> bool" where
  "resource_set_of environment item \<longleftrightarrow>
     om_Namespace (rset_Meta item) = om_Namespace (pe_Meta environment)
     \<and> (pest_ResourceSetRef (pe_Status environment) = Some (om_Name (rset_Meta item))
        \<or> hasOwnerUID (rset_Meta item) (om_UID (pe_Meta environment)))"

definition findResourceSet :: "resource_set list \<Rightarrow> platform_environment \<Rightarrow> resource_set option" where
  "findResourceSet items environment = find (resource_set_of environment) items"

subsection \<open>Approvals and runs\<close>

definition approvalView :: "change_approval \<Rightarrow> approval_view" where
  "approvalView approval =
     \<lparr>av_Namespace = om_Namespace (ca_Meta approval), av_Name = om_Name (ca_Meta approval),
      av_PlanRun = cas_PlanRunRef (ca_Spec approval), av_PlanRunUID = cas_PlanRunUID (ca_Spec approval),
      av_State = (if cast_ApprovedAt (ca_Status approval) \<noteq> None then ''Approved''
                  else ready_state ''Recorded'' (cast_Conditions (ca_Status approval))),
      av_PlanDigest = cas_PlanDigest (ca_Spec approval), av_CreatedAt = om_CreationTimestamp (ca_Meta approval),
      av_ApprovedAt = cast_ApprovedAt (ca_Status approval)\<rparr>"

definition approvalMatchesRun :: "change_approval \<Rightarrow> terraform_run \<Rightarrow> bool" where
  "approvalMatchesRun approval run \<longleftrightarrow> (let a = ca_Spec approval; s = run_Status run in
     cas_PlanRunUID a = om_UID (run_Meta run) \<and> cas_PlanRunRef a = om_Name (run_Meta run)
     \<and> cas_PlanDigest a = rst_PlanDigest s
     \<and> cas_ExecutionContextDigest a = rs_ExecutionContextDigest (run_Spec run)
     \<and> cas_EffectivePlanInputDigest a = rst_EffectivePlanInputDigest s
     \<and> cas_PlanReportRef a = rst_PlanReportRef s \<and> cas_PlanReportDigest a = rst_PlanReportDigest s)"

definition matchingApprovals :: "change_approval list \<Rightarrow> terraform_run \<Rightarrow> change_approval list" where
  "matchingApprovals approvals run =
     sort_key (\<lambda>a. om_CreationTimestamp (ca_Meta a))
       (filter (\<lambda>a. om_Namespace (ca_Meta a) = om_Namespace (run_Meta run) \<and> approvalMatchesRun a run) approvals)"

definition runView :: "terraform_run \<Rightarrow> change_approval list \<Rightarrow> terraform_run_view" where
  "runView run approvals = (let s = run_Status run; condition = findReady (rst_Conditions s) in
     \<lparr>trv_Namespace = om_Namespace (run_Meta run), trv_Name = om_Name (run_Meta run), trv_UID = om_UID (run_Meta run),
      trv_Operation = rs_Operation (run_Spec run), trv_PlanMode = rs_PlanMode (run_Spec run),
      trv_State = (case condition of None \<Rightarrow> ''Pending'' | Some c \<Rightarrow> conditionState c),
      trv_Reason = (case condition of None \<Rightarrow> [] | Some c \<Rightarrow> c_Reason c),
      trv_Message = (case condition of None \<Rightarrow> [] | Some c \<Rightarrow> c_Message c),
      trv_Outcome = rst_ExecutionOutcome s, trv_HasChanges = rst_HasChanges s, trv_PlanDigest = rst_PlanDigest s,
      trv_PlanRef = rst_PlanRef s, trv_PlanReportRef = rst_PlanReportRef s, trv_PlanReportDigest = rst_PlanReportDigest s,
      trv_EffectivePlanInputDigest = rst_EffectivePlanInputDigest s,
      trv_ExecutionContextDigest = rs_ExecutionContextDigest (run_Spec run),
      trv_PlanExpiresAt = rst_PlanExpiresAt s, trv_PlanCreatedAt = rst_PlanCreatedAt s,
      trv_ArtifactsReady = rst_ArtifactsReady s, trv_EvidenceCaptured = rst_EvidenceCaptured s,
      trv_TerminalStartedAt = rst_TerminalStartedAt s, trv_TerminalFinishedAt = rst_TerminalFinishedAt s,
      trv_Approval = (if approvals = [] then None else Some (approvalView (last approvals))),
      trv_CreatedAt = om_CreationTimestamp (run_Meta run)\<rparr>)"

definition briefRun :: "terraform_run \<Rightarrow> run_brief" where
  "briefRun run = \<lparr>rb_Name = om_Name (run_Meta run), rb_Operation = rs_Operation (run_Spec run),
     rb_Outcome = rst_ExecutionOutcome (run_Status run), rb_HasChanges = rst_HasChanges (run_Status run),
     rb_Reason = (case findReady (rst_Conditions (run_Status run)) of None \<Rightarrow> [] | Some c \<Rightarrow> c_Reason c)\<rparr>"

definition environment_run :: "platform_environment \<Rightarrow> infra_stack option \<Rightarrow> terraform_run \<Rightarrow> bool" where
  "environment_run environment stack run \<longleftrightarrow>
     om_Namespace (run_Meta run) = om_Namespace (pe_Meta environment)
     \<and> (case stack of None \<Rightarrow> False
        | Some st \<Rightarrow> rs_StackRef (run_Spec run) = om_Name (is_Meta st) \<or> hasOwnerUID (run_Meta run) (om_UID (is_Meta st)))"

definition environment_runs ::
  "platform_environment \<Rightarrow> infra_stack option \<Rightarrow> terraform_run list \<Rightarrow> terraform_run list" where
  "environment_runs environment stack runs =
     sort_key (\<lambda>r. (om_CreationTimestamp (run_Meta r), om_Name (run_Meta r)))
       (filter (environment_run environment stack) runs)"

subsection \<open>Classes and the summary of an environment\<close>

definition classView :: "environment_class \<Rightarrow> class_view" where
  "classView class = (let spec = ec_Spec class; status = ec_Status class; m = ec_Meta class;
       deleting = (om_DeletionTimestamp m \<noteq> None) in
     \<lparr>clv_Name = om_Name m, clv_UID = om_UID m, clv_Version = ecs_Version spec, clv_UsageCount = ecst_UsageCount status,
      clv_CreatedAt = om_CreationTimestamp m, clv_Deleting = deleting,
      clv_Provider = tr_Provider (ecs_Target spec), clv_TargetCluster = tr_ClusterName (ecs_Target spec),
      clv_DefaultRegion = tr_Region (ecs_Target spec), clv_AllowedRegions = ecs_AllowedRegions spec,
      clv_CapacityBounds = ecs_CapacityBounds spec,
      clv_Ready = (IsStatusConditionTrue (ecst_Conditions status) ''Ready''
                   \<and> ecst_ObservedGeneration status = om_Generation m \<and> \<not> deleting),
      clv_ReadyReason = (case findReady (ecst_Conditions status) of None \<Rightarrow> [] | Some c \<Rightarrow> c_Reason c)\<rparr>)"

definition shown_target :: "platform_environment \<Rightarrow> infra_stack option \<Rightarrow> target_view" where
  "shown_target environment stack =
     (case pest_TargetIdentity (pe_Status environment) of
        Some identity \<Rightarrow> targetFromIdentity identity
      | None \<Rightarrow> (case stack of
          None \<Rightarrow> zero_target_view
        | Some st \<Rightarrow> (case isst_DiscoveredRuntimeTargetIdentity (is_Status st) of
            Some identity \<Rightarrow> targetFromIdentity identity
          | None \<Rightarrow> targetFromIdentity (iss_RuntimeTargetIdentity (is_Spec st)))))"

definition shown_phase :: "platform_environment \<Rightarrow> string" where
  "shown_phase environment =
     (let ready = findReady (pest_Conditions (pe_Status environment));
          phase0 = (case ready of None \<Rightarrow> ''Reconciling'' | Some c \<Rightarrow> conditionState c);
          phase1 = (if om_DeletionTimestamp (pe_Meta environment) \<noteq> None then ''Deleting'' else phase0)
      in if ready = None \<and> pest_ObservedGeneration (pe_Status environment) < om_Generation (pe_Meta environment)
         then ''Pending'' else phase1)"

definition latest_approval :: "terraform_run list \<Rightarrow> approval_view list \<Rightarrow> string" where
  "latest_approval runs approvals =
     (let recorded = (if approvals = [] then [] else av_State (last approvals)) in
      if runs \<noteq> [] \<and> rs_Operation (run_Spec (last runs)) = ''Plan'' \<and> rst_HasChanges (run_Status (last runs))
         \<and> rst_ExecutionOutcome (run_Status (last runs)) = ''ChangesPresent'' \<and> recorded = []
      then ''Required'' else recorded)"

definition environmentSummary ::
  "platform_environment \<Rightarrow> environment_class option \<Rightarrow> infra_stack option \<Rightarrow> resource_set option
     \<Rightarrow> terraform_run list \<Rightarrow> approval_view list \<Rightarrow> environment_summary" where
  "environmentSummary environment class stack resourceSet runs approvals =
     (let m = pe_Meta environment; ready = findReady (pest_Conditions (pe_Status environment)) in
      \<lparr>sum_Namespace = om_Namespace m, sum_Name = om_Name m, sum_UID = om_UID m,
       sum_Class = (case class of None \<Rightarrow> [] | Some c \<Rightarrow> om_Name (ec_Meta c)),
       sum_Generation = om_Generation m, sum_NodeCount = cap_NodeCount (pes_Capacity (pe_Spec environment)),
       sum_Phase = shown_phase environment,
       sum_Ready = (case ready of None \<Rightarrow> False | Some c \<Rightarrow> c_Status c = ConditionTrue),
       sum_ReadyStatus = (case ready of None \<Rightarrow> ConditionUnknown | Some c \<Rightarrow> c_Status c),
       sum_Infrastructure = (case stack of None \<Rightarrow> ''NotCreated''
         | Some st \<Rightarrow> ready_state ''Pending'' (isst_Conditions (is_Status st))),
       sum_Runtime = (case resourceSet of None \<Rightarrow> ''NotCreated''
         | Some rset \<Rightarrow> ready_state ''Pending'' (rsst_Conditions (rset_Status rset))),
       sum_Target = shown_target environment stack,
       sum_LatestTerraformRun = (if runs = [] then None else Some (briefRun (last runs))),
       sum_LatestApproval = latest_approval runs approvals,
       sum_LastTransitionTime = map_option c_LastTransitionTime ready,
       sum_CreatedAt = om_CreationTimestamp m,
       sum_Deleting = (om_DeletionTimestamp m \<noteq> None)\<rparr>)"

subsection \<open>The timeline\<close>

text \<open>An event without a time is not shown.\<close>

definition event :: "time \<Rightarrow> string \<Rightarrow> string \<Rightarrow> string \<Rightarrow> string \<Rightarrow> string \<Rightarrow> string \<Rightarrow> timeline_event list" where
  "event at kind resource title state reason message =
     (if at = 0 then []
      else [\<lparr>ev_At = at, ev_Kind = kind, ev_Resource = resource, ev_Title = title, ev_State = state,
             ev_Reason = reason, ev_Message = message\<rparr>])"

definition status_text :: "condition_status \<Rightarrow> string" where
  "status_text s = (case s of ConditionTrue \<Rightarrow> ''True'' | ConditionFalse \<Rightarrow> ''False'' | ConditionUnknown \<Rightarrow> ''Unknown'')"

definition condition_events :: "string \<Rightarrow> string \<Rightarrow> condition list \<Rightarrow> timeline_event list" where
  "condition_events kind resource conditions =
     concat (map (\<lambda>c. event (c_LastTransitionTime c) kind resource (c_Type c) (status_text (c_Status c))
                        (c_Reason c) (c_Message c)) conditions)"

definition resource_name :: "object_meta \<Rightarrow> string" where
  "resource_name m = om_Namespace m @ ''/'' @ om_Name m"

definition run_events :: "terraform_run \<Rightarrow> timeline_event list" where
  "run_events run =
     (let resource = resource_name (run_Meta run); operation = rs_Operation (run_Spec run); s = run_Status run in
      event (om_CreationTimestamp (run_Meta run)) ''TerraformRun'' resource (operation @ '' run created'') ''Created'' [] []
      @ condition_events ''TerraformRun'' resource (rst_Conditions s)
      @ (case rst_TerminalStartedAt s of None \<Rightarrow> []
         | Some t \<Rightarrow> event t ''TerraformRun'' resource (operation @ '' execution started'') ''Running'' [] [])
      @ (case rst_TerminalFinishedAt s of None \<Rightarrow> []
         | Some t \<Rightarrow> event t ''TerraformRun'' resource (operation @ '' execution finished'') (rst_ExecutionOutcome s) [] []))"

definition approval_events :: "approval_view \<Rightarrow> timeline_event list" where
  "approval_events a =
     (let resource = av_Namespace a @ ''/'' @ av_Name a in
      event (av_CreatedAt a) ''ChangeApproval'' resource ''ChangeApproval created'' (av_State a) [] []
      @ (case av_ApprovedAt a of None \<Rightarrow> []
         | Some t \<Rightarrow> event t ''ChangeApproval'' resource ''Plan approval recorded'' ''Approved'' [] []))"

definition timeline_events ::
  "platform_environment \<Rightarrow> infra_stack option \<Rightarrow> resource_set option \<Rightarrow> terraform_run list
     \<Rightarrow> approval_view list \<Rightarrow> timeline_event list" where
  "timeline_events environment stack resourceSet runs approvals =
     event (om_CreationTimestamp (pe_Meta environment)) ''PlatformEnvironment'' (resource_name (pe_Meta environment))
       ''PlatformEnvironment created'' ''Created'' [] []
     @ condition_events ''PlatformEnvironment'' (resource_name (pe_Meta environment)) (pest_Conditions (pe_Status environment))
     @ (case stack of None \<Rightarrow> []
        | Some st \<Rightarrow> event (om_CreationTimestamp (is_Meta st)) ''InfraStack'' (resource_name (is_Meta st))
              ''InfraStack created'' ''Created'' [] []
            @ condition_events ''InfraStack'' (resource_name (is_Meta st)) (isst_Conditions (is_Status st)))
     @ concat (map run_events runs)
     @ concat (map approval_events approvals)
     @ (case resourceSet of None \<Rightarrow> []
        | Some rset \<Rightarrow> event (om_CreationTimestamp (rset_Meta rset)) ''ResourceSet'' (resource_name (rset_Meta rset))
              ''ResourceSet created'' ''Created'' [] []
            @ condition_events ''ResourceSet'' (resource_name (rset_Meta rset)) (rsst_Conditions (rset_Status rset)))"

definition buildTimeline ::
  "platform_environment \<Rightarrow> infra_stack option \<Rightarrow> resource_set option \<Rightarrow> terraform_run list
     \<Rightarrow> approval_view list \<Rightarrow> timeline_event list" where
  "buildTimeline environment stack resourceSet runs approvals =
     sort_key (\<lambda>e. (ev_At e, ev_Kind e, ev_Resource e)) (timeline_events environment stack resourceSet runs approvals)"

subsection \<open>The detail of an environment\<close>

definition infra_detail :: "infra_stack \<Rightarrow> infra_view" where
  "infra_detail st = (let status = is_Status st; condition = findReady (isst_Conditions status) in
     \<lparr>iv_Name = om_Name (is_Meta st), iv_DesiredState = iss_DesiredState (is_Spec st),
      iv_State = ready_state ''Unknown'' (isst_Conditions status), iv_Condition = map_option conditionView condition,
      iv_LatestPlanRun = (case isst_LatestPlanRunRef status of None \<Rightarrow> [] | Some name \<Rightarrow> name),
      iv_LastAppliedRun = (case isst_LastAppliedRunRef status of None \<Rightarrow> [] | Some name \<Rightarrow> name),
      iv_ConvergenceEvidence = (isst_ConvergenceEvidenceRef status \<noteq> [] \<and> isst_ConvergenceEvidenceDigest status \<noteq> [])\<rparr>)"

definition runtime_detail :: "resource_set \<Rightarrow> runtime_view" where
  "runtime_detail rset = (let status = rset_Status rset; condition = findReady (rsst_Conditions status) in
     \<lparr>rv_Name = om_Name (rset_Meta rset), rv_State = ready_state ''Unknown'' (rsst_Conditions status),
      rv_Condition = map_option conditionView condition, rv_InventoryItems = rsst_InventoryItems status,
      rv_InventoryLimitExceeded = rsst_InventoryLimitExceeded status, rv_MutationBlocked = rsst_MutationBlocked status,
      rv_CleanupEvidence = (rsst_CleanupEvidenceRef status \<noteq> [] \<and> rsst_CleanupEvidenceDigest status \<noteq> [])\<rparr>)"

definition valkey_detail :: "platform_environment \<Rightarrow> valkey_cluster list \<Rightarrow> valkey_view option" where
  "valkey_detail environment valkeys =
     (let intent = pes_Valkey (pe_Spec environment); m = pe_Meta environment;
          requested = \<lparr>vv_Desired = True, vv_Shards = vi_Shards intent, vv_Replicas = vi_Replicas intent,
                       vv_ReadyReplicas = 0, vv_State = ''Requested''\<rparr> in
      if \<not> vi_Enabled intent then None
      else (case find (\<lambda>v. om_Namespace (vc_Meta v) = om_Namespace m \<and> hasOwnerUID (vc_Meta v) (om_UID m)) valkeys of
          None \<Rightarrow> Some requested
        | Some v \<Rightarrow> Some (requested\<lparr>vv_ReadyReplicas := vcst_ReadyReplicas (vc_Status v),
            vv_State := (if IsStatusConditionTrue (vcst_Conditions (vc_Status v)) ''Ready'' then ''Ready'' else ''Pending'')\<rparr>)))"

definition zero_evidence_view :: evidence_view where
  "zero_evidence_view = \<lparr>evv_PlanDigest = [], evv_PlanReportRef = [], evv_PlanReportDigest = [], evv_TerminalResultRef = [],
     evv_TerminalResultDigest = [], evv_SourceBundleDigest = [], evv_TargetDiscoveryDigest = []\<rparr>"

definition shown_evidence :: "terraform_run \<Rightarrow> evidence_view" where
  "shown_evidence run = (let s = run_Status run in
     \<lparr>evv_PlanDigest = rst_PlanDigest s, evv_PlanReportRef = rst_PlanReportRef s, evv_PlanReportDigest = rst_PlanReportDigest s,
      evv_TerminalResultRef = rst_TerminalResultRef s, evv_TerminalResultDigest = rst_TerminalResultDigest s,
      evv_SourceBundleDigest = rst_SourceBundleDigest s, evv_TargetDiscoveryDigest = rst_TargetDiscoveryDigest s\<rparr>)"

definition timelineNote :: string where
  "timelineNote = ''Timeline entries are reconstructed from current Kubernetes conditions and immutable run/approval timestamps; the CRDs do not retain every historical condition transition.''"

definition detail :: "read_snapshot \<Rightarrow> platform_environment \<Rightarrow> environment_detail" where
  "detail data environment =
     (let class = findClass (sn_classes data) (className environment);
          stack = findStack (sn_stacks data) environment;
          resourceSet = findResourceSet (sn_resourceSets data) environment;
          runs = environment_runs environment stack (sn_runs data);
          related = (\<lambda>run. matchingApprovals (sn_approvals data) run);
          approvals = concat (map (\<lambda>run. map approvalView (related run)) runs);
          summary = environmentSummary environment class stack resourceSet runs approvals
      in \<lparr>edt_Summary = (case stack of None \<Rightarrow> summary
            | Some st \<Rightarrow> summary\<lparr>sum_Target := shown_target environment (Some st)\<rparr>),
          edt_Conditions = conditionViews (pest_Conditions (pe_Status environment)),
          edt_InfrastructureDetail = map_option infra_detail stack,
          edt_RuntimeDetail = map_option runtime_detail resourceSet,
          edt_TerraformRuns = map (\<lambda>run. runView run (related run)) runs,
          edt_Approvals = approvals,
          edt_Valkey = valkey_detail environment (sn_valkeys data),
          edt_Evidence = (if runs = [] then zero_evidence_view else shown_evidence (last runs)),
          edt_Timeline = buildTimeline environment stack resourceSet runs approvals,
          edt_TimelineNote = timelineNote\<rparr>)"

end
