(* ===== verification/Json.thy ===== *)
theory Json
  imports PlanView
begin

section \<open>Reading JSON as encoding/json does\<close>

text \<open>
  The reader of Go's encoding/json on byte strings: one value is taken from the front of the input, the rest
  is returned, \<open>None\<close> is an error. The value is a tree of \<^typ>\<open>go_any\<close>; an object keeps its fields in the order of
  the text with repetitions, a number is its text. Strings are unquoted: escapes, surrogate pairs and
  bytes that are no UTF-8 (replaced by U+FFFD) as in \<open>unquote\<close>; nesting beyond 10000 levels is an error.
  \<open>any_text\<close> is json.Marshal of such a tree. The texts of the errors of the package are not modelled.
\<close>

subsection \<open>UTF-8\<close>

text \<open>The number of continuation bytes behind a first byte that starts a valid sequence.\<close>

definition utf8_more :: "string \<Rightarrow> nat option" where
  "utf8_more s =
     (let cont = (\<lambda>i lo hi. i < length s \<and> in_range lo hi (s ! i)); any = (\<lambda>i. cont i 128 191); first = cont 0 in
      if s = [] then None
      else if first 0 127 then Some 0
      else if first 194 223 \<and> any 1 then Some 1
      else if (first 224 224 \<and> cont 1 160 191 \<or> first 237 237 \<and> cont 1 128 159
               \<or> (first 225 236 \<or> first 238 239) \<and> any 1) \<and> any 2 then Some 2
      else if (first 240 240 \<and> cont 1 144 191 \<or> first 244 244 \<and> cont 1 128 143
               \<or> first 241 243 \<and> any 1) \<and> any 2 \<and> any 3 then Some 3
      else None)"

definition utf8_encode :: "nat \<Rightarrow> string" where
  "utf8_encode n =
     (if n < 128 then [char_of n]
      else if n < 2048 then [char_of (192 + n div 64), char_of (128 + n mod 64)]
      else if n < 65536 then
        [char_of (224 + n div 4096), char_of (128 + n div 64 mod 64), char_of (128 + n mod 64)]
      else [char_of (240 + n div 262144), char_of (128 + n div 4096 mod 64),
            char_of (128 + n div 64 mod 64), char_of (128 + n mod 64)])"

definition replacement :: string where
  "replacement = [CHR 0xEF, CHR 0xBF, CHR 0xBD]"

subsection \<open>Strings\<close>

definition hex_value :: "char \<Rightarrow> nat" where
  "hex_value c = (let n = of_char c in
     if in_range 48 57 c then n - 48 else if in_range 97 102 c then n - 87 else n - 55)"

definition hex4 :: "string \<Rightarrow> nat option" where
  "hex4 s =
     (if length s < 4 \<or> \<not> list_all is_hex (take 4 s) then None
      else Some (foldl (\<lambda>v c. 16 * v + hex_value c) 0 (take 4 s)))"

definition plain_escape :: "char \<Rightarrow> char option" where
  "plain_escape e =
     (if e = CHR 0x22 \<or> e = CHR 0x5C \<or> e = CHR ''/'' then Some e
      else if e = CHR ''b'' then Some (CHR 0x08) else if e = CHR ''f'' then Some (CHR 0x0C)
      else if e = CHR ''n'' then Some (CHR 0x0A) else if e = CHR ''r'' then Some (CHR 0x0D)
      else if e = CHR ''t'' then Some (CHR 0x09) else None)"

text \<open>The low half of a surrogate pair, behind its high half.\<close>

definition low_surrogate :: "string \<Rightarrow> nat option" where
  "low_surrogate s =
     (case s of b # u # ds \<Rightarrow>
        if b = CHR 0x5C \<and> u = CHR ''u'' then
          (case hex4 ds of Some v \<Rightarrow> if 0xDC00 \<le> v \<and> v < 0xE000 then Some v else None | None \<Rightarrow> None)
        else None
      | _ \<Rightarrow> None)"

text \<open>What an escape stands for, and the input behind it; the backslash is already read.\<close>

definition read_escape :: "string \<Rightarrow> (string \<times> string) option" where
  "read_escape s =
     (case s of
        [] \<Rightarrow> None
      | e # es \<Rightarrow>
          if e \<noteq> CHR ''u'' then map_option (\<lambda>x. ([x], es)) (plain_escape e)
          else (case hex4 es of
              None \<Rightarrow> None
            | Some v \<Rightarrow>
                if 0xD800 \<le> v \<and> v < 0xDC00 then
                  (case low_surrogate (drop 4 es) of
                     Some w \<Rightarrow> Some (utf8_encode (0x10000 + (v - 0xD800) * 1024 + (w - 0xDC00)), drop 10 es)
                   | None \<Rightarrow> Some (replacement, drop 4 es))
                else if 0xDC00 \<le> v \<and> v < 0xE000 then Some (replacement, drop 4 es)
                else Some (utf8_encode v, drop 4 es)))"

lemma read_escape_shorter: "read_escape s = Some (t, r) \<Longrightarrow> length r < length s"
  by (auto simp: read_escape_def split: list.splits option.splits if_splits)

text \<open>\<open>read_chars k acc s\<close>: the string up to its closing quote; \<open>k\<close> bytes of a valid sequence are still to be copied.\<close>

function read_chars :: "nat \<Rightarrow> string \<Rightarrow> string \<Rightarrow> (string \<times> string) option" where
  "read_chars k acc [] = None"
| "read_chars (Suc k) acc (c # cs) = read_chars k (c # acc) cs"
| "read_chars 0 acc (c # cs) =
     (if c = CHR 0x22 then Some (rev acc, cs)
      else if (of_char c :: nat) < 32 then None
      else if c = CHR 0x5C then
        (case read_escape cs of
           None \<Rightarrow> None
         | Some (t, r) \<Rightarrow> read_chars 0 (rev t @ acc) r)
      else (case utf8_more (c # cs) of
          Some k \<Rightarrow> read_chars k (c # acc) cs
        | None \<Rightarrow> read_chars 0 (rev replacement @ acc) cs))"
  by pat_completeness auto

termination
  by (relation "measure (\<lambda>(k, acc, s). length s)") (auto dest: read_escape_shorter less_SucI)

subsection \<open>Numbers\<close>

definition read_digits :: "string \<Rightarrow> string \<times> string" where
  "read_digits s = (takeWhile is_digit s, dropWhile is_digit s)"

text \<open>A part of a number that needs a digit, behind what starts it.\<close>

definition read_some_digits :: "string \<Rightarrow> string \<Rightarrow> (string \<times> string) option" where
  "read_some_digits start s =
     (let (ds, rest) = read_digits s in if ds = [] then None else Some (start @ ds, rest))"

definition read_fraction :: "string \<Rightarrow> (string \<times> string) option" where
  "read_fraction s =
     (case s of c # cs \<Rightarrow> if c = CHR ''.'' then read_some_digits [c] cs else Some ([], s) | [] \<Rightarrow> Some ([], []))"

definition read_exponent :: "string \<Rightarrow> (string \<times> string) option" where
  "read_exponent s =
     (case s of
        c # cs \<Rightarrow>
          if c = CHR ''e'' \<or> c = CHR ''E'' then
            (case cs of d # ds \<Rightarrow>
               if d = CHR ''+'' \<or> d = CHR ''-'' then read_some_digits [c, d] ds else read_some_digits [c] cs
             | [] \<Rightarrow> None)
          else Some ([], s)
      | [] \<Rightarrow> Some ([], []))"

definition read_number :: "string \<Rightarrow> (string \<times> string) option" where
  "read_number s =
     (let (sign, s1) = (case s of c # cs \<Rightarrow> if c = CHR ''-'' then ([c], cs) else ([], s) | [] \<Rightarrow> ([], [])) in
      case s1 of
        [] \<Rightarrow> None
      | c # cs \<Rightarrow>
          if \<not> is_digit c then None
          else (let (whole, s2) = (if c = CHR ''0'' then ([c], cs) else read_digits s1) in
            case read_fraction s2 of
              None \<Rightarrow> None
            | Some (frac, s3) \<Rightarrow>
                (case read_exponent s3 of
                   None \<Rightarrow> None
                 | Some (ex, s4) \<Rightarrow> Some (sign @ whole @ frac @ ex, s4))))"

subsection \<open>Values\<close>

definition json_space :: "char \<Rightarrow> bool" where
  "json_space c \<longleftrightarrow> c = CHR '' '' \<or> c = CHR 0x09 \<or> c = CHR 0x0A \<or> c = CHR 0x0D"

definition skip_space :: "string \<Rightarrow> string" where
  "skip_space s = dropWhile json_space s"

definition read_literal :: "string \<Rightarrow> go_any \<Rightarrow> string \<Rightarrow> (go_any \<times> string) option" where
  "read_literal word v s = (if has_prefix s word then Some (v, drop (length word) s) else None)"

definition read_scalar :: "string \<Rightarrow> (go_any \<times> string) option" where
  "read_scalar s =
     (case s of
        [] \<Rightarrow> None
      | c # cs \<Rightarrow>
          if c = CHR 0x22 then map_option (\<lambda>(t, r). (AStr t, r)) (read_chars 0 [] cs)
          else if c = CHR ''t'' then read_literal ''true'' (ABool True) s
          else if c = CHR ''f'' then read_literal ''false'' (ABool False) s
          else if c = CHR ''n'' then read_literal ''null'' ANull s
          else map_option (\<lambda>(t, r). (AFloat t, r)) (read_number s))"

text \<open>
  A member name and its colon, in front of the value; \<open>json_value d n s\<close> reads a value with at most \<open>d\<close> levels,
  \<open>n\<close> bounds the steps and is never reached by \<open>json_read\<close> (\<open>json_read_enough\<close>).
\<close>

definition read_key :: "string \<Rightarrow> (string \<times> string) option" where
  "read_key s =
     (case skip_space s of
        [] \<Rightarrow> None
      | c # cs \<Rightarrow>
          if c \<noteq> CHR 0x22 then None
          else (case read_chars 0 [] cs of
              None \<Rightarrow> None
            | Some (key, r) \<Rightarrow> (case skip_space r of
                [] \<Rightarrow> None
              | b # bs \<Rightarrow> if b = CHR '':'' then Some (key, bs) else None)))"

fun json_value :: "nat \<Rightarrow> nat \<Rightarrow> string \<Rightarrow> (go_any \<times> string) option"
and json_elements :: "nat \<Rightarrow> nat \<Rightarrow> string \<Rightarrow> (go_any list \<times> string) option"
and json_members :: "nat \<Rightarrow> nat \<Rightarrow> string \<Rightarrow> ((string \<times> go_any) list \<times> string) option" where
  "json_value d 0 s = None"
| "json_value d (Suc n) s =
     (case skip_space s of
        [] \<Rightarrow> None
      | c # cs \<Rightarrow>
          if c = CHR ''['' then
            (if d = 0 then None
             else (case skip_space cs of
                 [] \<Rightarrow> None
               | b # bs \<Rightarrow>
                   if b = CHR '']'' then Some (AList [], bs)
                   else map_option (\<lambda>(vs, r). (AList vs, r)) (json_elements (d - 1) n cs)))
          else if c = CHR ''{'' then
            (if d = 0 then None
             else (case skip_space cs of
                 [] \<Rightarrow> None
               | b # bs \<Rightarrow>
                   if b = CHR ''}'' then Some (AMap [], bs)
                   else map_option (\<lambda>(es, r). (AMap es, r)) (json_members (d - 1) n cs)))
          else read_scalar (c # cs))"
| "json_elements d 0 s = None"
| "json_elements d (Suc n) s =
     (case json_value d n s of
        None \<Rightarrow> None
      | Some (v, r) \<Rightarrow>
          (case skip_space r of
             [] \<Rightarrow> None
           | b # bs \<Rightarrow>
               if b = CHR '']'' then Some ([v], bs)
               else if b = CHR '','' then map_option (\<lambda>(vs, q). (v # vs, q)) (json_elements d n bs)
               else None))"
| "json_members d 0 s = None"
| "json_members d (Suc n) s =
     (case read_key s of
        None \<Rightarrow> None
      | Some (key, t) \<Rightarrow>
          (case json_value d n t of
             None \<Rightarrow> None
           | Some (v, r) \<Rightarrow>
               (case skip_space r of
                  [] \<Rightarrow> None
                | b # bs \<Rightarrow>
                    if b = CHR ''}'' then Some ([(key, v)], bs)
                    else if b = CHR '','' then map_option (\<lambda>(es, q). ((key, v) # es, q)) (json_members d n bs)
                    else None)))"

definition maxNestingDepth :: nat where "maxNestingDepth = 10000"

definition json_read :: "string \<Rightarrow> (go_any \<times> string) option" where
  "json_read s = json_value maxNestingDepth (2 * length s + 2) s"

text \<open>json.Unmarshal wants the whole text to be one value.\<close>

definition json_whole :: "string \<Rightarrow> go_any option" where
  "json_whole s = (case json_read s of Some (v, r) \<Rightarrow> if skip_space r = [] then Some v else None | None \<Rightarrow> None)"

subsection \<open>The reader always ends before its bound\<close>

lemma skip_space_length: "length (skip_space s) \<le> length s"
  by (simp add: skip_space_def length_dropWhile_le)

lemma read_chars_shorter: "read_chars k acc s = Some (t, r) \<Longrightarrow> length r < length s"
proof (induction k acc s rule: read_chars.induct)
  case (3 acc c cs)
  show ?case
  proof (cases "c = CHR 0x22 \<or> (of_char c :: nat) < 32")
    case True
    then show ?thesis using "3.prems" by (auto split: if_splits)
  next
    case False
    then show ?thesis using 3 by (fastforce split: if_splits option.splits dest: read_escape_shorter)
  qed
qed (simp_all add: less_SucI)

lemma read_digits_length: "length (snd (read_digits s)) \<le> length s"
  by (simp add: read_digits_def length_dropWhile_le)

lemma read_some_digits_shorter: "read_some_digits a s = Some (t, r) \<Longrightarrow> length r \<le> length s"
  using read_digits_length [of s] by (auto simp: read_some_digits_def split: if_splits prod.splits)

lemma read_fraction_shorter: "read_fraction s = Some (t, r) \<Longrightarrow> length r \<le> length s"
  by (auto simp: read_fraction_def split: list.splits if_splits dest!: read_some_digits_shorter)

lemma read_exponent_shorter: "read_exponent s = Some (t, r) \<Longrightarrow> length r \<le> length s"
  by (auto simp: read_exponent_def split: list.splits if_splits dest!: read_some_digits_shorter)

lemma read_whole_shorter: "read_digits (c # cs) = (x, y) \<Longrightarrow> is_digit c \<Longrightarrow> length y \<le> length cs"
  using read_digits_length [of cs] by (auto simp: read_digits_def)

lemma read_number_shorter: "read_number s = Some (t, r) \<Longrightarrow> length r < length s"
  by (auto simp: read_number_def Let_def split: list.splits if_splits option.splits prod.splits
      dest!: read_fraction_shorter read_exponent_shorter dest: read_whole_shorter)

lemma read_literal_shorter: "read_literal w v s = Some (u, r) \<Longrightarrow> w \<noteq> [] \<Longrightarrow> s \<noteq> [] \<Longrightarrow> length r < length s"
  by (cases w) (auto simp: read_literal_def split: if_splits)

lemma read_scalar_shorter: "read_scalar s = Some (v, r) \<Longrightarrow> length r < length s"
  by (auto simp: read_scalar_def split: list.splits if_splits
      dest: read_chars_shorter read_number_shorter read_literal_shorter less_SucI)

lemma skip_space_Cons: "skip_space s = c # cs \<Longrightarrow> length cs < length s"
  using skip_space_length [of s] by simp

lemma read_key_shorter: "read_key s = Some (k, r) \<Longrightarrow> length r < length s"
  by (auto simp: read_key_def split: list.splits if_splits option.splits
      dest!: read_chars_shorter skip_space_Cons)

lemma value_shorter_step:
  assumes "\<And>d s vs r. json_elements d n s = Some (vs, r) \<Longrightarrow> length r < length s"
    and "\<And>d s es r. json_members d n s = Some (es, r) \<Longrightarrow> length r < length s"
    and "json_value d (Suc n) s = Some (v, r)"
  shows "length r < length s"
proof (cases "skip_space s")
  case (Cons c cs)
  note l = skip_space_Cons [OF Cons]
  show ?thesis
  proof (cases "c = CHR ''['' \<or> c = CHR ''{''")
    case True
    then obtain b bs where b: "skip_space cs = b # bs"
      using assms(3) Cons by (cases "skip_space cs") (auto split: if_splits)
    show ?thesis using True assms(3) Cons b l skip_space_Cons [OF b]
      by (auto split: if_splits dest!: assms(1,2))
  next
    case False
    then have "read_scalar (c # cs) = Some (v, r)" using assms(3) Cons by simp
    then show ?thesis using read_scalar_shorter [of "c # cs"] l skip_space_length [of s] Cons by fastforce
  qed
qed (use assms(3) in simp)

lemma elements_shorter_step:
  assumes "\<And>d s v r. json_value d n s = Some (v, r) \<Longrightarrow> length r < length s"
    and "\<And>d s vs r. json_elements d n s = Some (vs, r) \<Longrightarrow> length r < length s"
    and "json_elements d (Suc n) s = Some (vs, r)"
  shows "length r < length s"
proof -
  from assms(3) obtain v q b bs where q: "json_value d n s = Some (v, q)" and b: "skip_space q = b # bs"
    by (auto split: option.splits list.splits)
  show ?thesis using assms(3) q b assms(1) [OF q] skip_space_Cons [OF b]
    by (auto split: if_splits dest!: assms(2))
qed

lemma members_shorter_step:
  assumes "\<And>d s v r. json_value d n s = Some (v, r) \<Longrightarrow> length r < length s"
    and "\<And>d s es r. json_members d n s = Some (es, r) \<Longrightarrow> length r < length s"
    and "json_members d (Suc n) s = Some (es, r)"
  shows "length r < length s"
proof -
  from assms(3) obtain key t v q b bs where k: "read_key s = Some (key, t)"
    and q: "json_value d n t = Some (v, q)" and b: "skip_space q = b # bs"
    by (auto split: option.splits list.splits)
  show ?thesis using assms(3) k q b read_key_shorter [OF k] assms(1) [OF q] skip_space_Cons [OF b]
    by (auto split: if_splits dest!: assms(2))
qed

lemma json_shorter_all:
  "(\<forall>d s v r. json_value d n s = Some (v, r) \<longrightarrow> length r < length s)
   \<and> (\<forall>d s vs r. json_elements d n s = Some (vs, r) \<longrightarrow> length r < length s)
   \<and> (\<forall>d s es r. json_members d n s = Some (es, r) \<longrightarrow> length r < length s)"
proof (induction n)
  case (Suc n)
  have v: "json_value d n s = Some (v, r) \<Longrightarrow> length r < length s" for d s v r using Suc.IH by blast
  have e: "json_elements d n s = Some (vs, r) \<Longrightarrow> length r < length s" for d s vs r using Suc.IH by blast
  have m: "json_members d n s = Some (es, r) \<Longrightarrow> length r < length s" for d s es r using Suc.IH by blast
  have "length r < length s" if "json_value d (Suc n) s = Some (v, r)" for d s v r
    by (rule value_shorter_step [of n, OF _ _ that]) (rule e m, assumption)+
  moreover have "length r < length s" if "json_elements d (Suc n) s = Some (vs, r)" for d s vs r
    by (rule elements_shorter_step [of n, OF _ _ that]) (rule v e, assumption)+
  moreover have "length r < length s" if "json_members d (Suc n) s = Some (es, r)" for d s es r
    by (rule members_shorter_step [of n, OF _ _ that]) (rule v m, assumption)+
  ultimately show ?case by blast
qed simp

lemma json_shorter: "json_value d n s = Some (v, r) \<Longrightarrow> length r < length s"
  using json_shorter_all by blast

lemma value_enough_step:
  assumes "\<And>s k. 2 * length s + 1 < n \<Longrightarrow> 2 * length s + 1 < k \<Longrightarrow> json_elements (d - 1) n s = json_elements (d - 1) k s"
    and "\<And>s k. 2 * length s + 1 < n \<Longrightarrow> 2 * length s + 1 < k \<Longrightarrow> json_members (d - 1) n s = json_members (d - 1) k s"
    and "2 * length s \<le> n" and "2 * length s \<le> k"
  shows "json_value d (Suc n) s = json_value d (Suc k) s"
proof (cases "skip_space s")
  case (Cons c cs)
  have "length cs < length s" by (rule skip_space_Cons [OF Cons])
  then have "2 * length cs + 1 < n" "2 * length cs + 1 < k" using assms(3,4) by linarith+
  then have "json_elements (d - 1) n cs = json_elements (d - 1) k cs"
    "json_members (d - 1) n cs = json_members (d - 1) k cs" using assms(1,2) by blast+
  then show ?thesis using Cons by (simp cong: option.case_cong list.case_cong if_cong)
qed simp

lemma elements_enough_step:
  assumes "json_value d n s = json_value d k s"
    and "\<And>r. length r < length s \<Longrightarrow> json_elements d n r = json_elements d k r"
  shows "json_elements d (Suc n) s = json_elements d (Suc k) s"
proof (cases "json_value d k s")
  case (Some p)
  obtain v r where p: "p = (v, r)" by (metis prod.collapse)
  show ?thesis
  proof (cases "skip_space r")
    case (Cons b bs)
    have "length bs < length s" using skip_space_Cons [OF Cons] json_shorter Some p by fastforce
    then show ?thesis using assms Some p Cons by simp
  qed (simp add: assms(1) Some p)
qed (simp add: assms(1))

lemma members_enough_step:
  assumes "\<And>r. length r < length s \<Longrightarrow> json_value d n r = json_value d k r"
    and "\<And>r. length r < length s \<Longrightarrow> json_members d n r = json_members d k r"
  shows "json_members d (Suc n) s = json_members d (Suc k) s"
proof (cases "read_key s")
  case (Some q)
  obtain key t where q: "q = (key, t)" by (metis prod.collapse)
  have lt: "length t < length s" using read_key_shorter Some q by blast
  note same = assms(1) [OF lt]
  show ?thesis
  proof (cases "json_value d k t")
    case (Some p)
    obtain v r where p: "p = (v, r)" by (metis prod.collapse)
    show ?thesis
    proof (cases "skip_space r")
      case (Cons b bs)
      have "length bs < length s" using skip_space_Cons [OF Cons] json_shorter Some p lt by fastforce
      then show ?thesis using assms(2) same Some p Cons q \<open>read_key s = Some q\<close> by simp
    qed (simp add: same Some p q \<open>read_key s = Some q\<close>)
  qed (simp add: same q \<open>read_key s = Some q\<close>)
qed simp

lemma json_enough_all:
  "(\<forall>d s k. 2 * length s < n \<and> 2 * length s < k \<longrightarrow> json_value d n s = json_value d k s)
   \<and> (\<forall>d s k. 2 * length s + 1 < n \<and> 2 * length s + 1 < k \<longrightarrow> json_elements d n s = json_elements d k s)
   \<and> (\<forall>d s k. 2 * length s + 1 < n \<and> 2 * length s + 1 < k \<longrightarrow> json_members d n s = json_members d k s)"
proof (induction n)
  case (Suc n)
  have v: "json_value d n s = json_value d k s" if "2 * length s < n" "2 * length s < k" for d s k
    using Suc.IH that by blast
  have e: "json_elements d n s = json_elements d k s" if "2 * length s + 1 < n" "2 * length s + 1 < k" for d s k
    using Suc.IH that by blast
  have m: "json_members d n s = json_members d k s" if "2 * length s + 1 < n" "2 * length s + 1 < k" for d s k
    using Suc.IH that by blast
  have val: "json_value d (Suc n) s = json_value d k s" if b: "2 * length s < Suc n" "2 * length s < k" for d s k
  proof -
    obtain j where "k = Suc j" using b by (cases k) auto
    moreover have "json_value d (Suc n) s = json_value d (Suc j) s"
      by (rule value_enough_step) (use b \<open>k = Suc j\<close> in \<open>auto intro: e m\<close>)
    ultimately show ?thesis by simp
  qed
  have elements: "json_elements d (Suc n) s = json_elements d k s"
    if b: "2 * length s + 1 < Suc n" "2 * length s + 1 < k" for d s k
  proof -
    obtain j where "k = Suc j" using b by (cases k) auto
    moreover have "json_elements d (Suc n) s = json_elements d (Suc j) s"
      by (rule elements_enough_step) (use b \<open>k = Suc j\<close> in \<open>auto intro!: v e\<close>)
    ultimately show ?thesis by simp
  qed
  have members: "json_members d (Suc n) s = json_members d k s"
    if b: "2 * length s + 1 < Suc n" "2 * length s + 1 < k" for d s k
  proof -
    obtain j where "k = Suc j" using b by (cases k) auto
    moreover have "json_members d (Suc n) s = json_members d (Suc j) s"
      by (rule members_enough_step) (use b \<open>k = Suc j\<close> in \<open>auto intro!: v m\<close>)
    ultimately show ?thesis by simp
  qed
  show ?case using val elements members by blast
qed simp

lemma json_read_enough:
  assumes "2 * length s < n"
  shows "json_value maxNestingDepth n s = json_read s"
proof -
  have "json_value maxNestingDepth n s = json_value maxNestingDepth (2 * length s + 2) s"
    using json_enough_all [of n, THEN conjunct1] assms by (metis add_2_eq_Suc' less_SucI lessI)
  then show ?thesis by (simp only: json_read_def)
qed

lemma json_read_shorter: "json_read s = Some (v, r) \<Longrightarrow> length r < length s"
  unfolding json_read_def by (rule json_shorter)

declare json_value.simps [simp del] json_elements.simps [simp del] json_members.simps [simp del]

text \<open>A value read with fewer levels and steps is the value read.\<close>

lemma json_mono_all:
  "(\<forall>d e m s x. json_value d n s = Some x \<and> d \<le> e \<and> n \<le> m \<longrightarrow> json_value e m s = Some x)
   \<and> (\<forall>d e m s x. json_elements d n s = Some x \<and> d \<le> e \<and> n \<le> m \<longrightarrow> json_elements e m s = Some x)
   \<and> (\<forall>d e m s x. json_members d n s = Some x \<and> d \<le> e \<and> n \<le> m \<longrightarrow> json_members e m s = Some x)"
proof (induction n)
  case 0
  then show ?case by (simp add: json_value.simps json_elements.simps json_members.simps)
next
  case (Suc n)
  have v: "json_value e m s = Some x" if "json_value d n s = Some x" "d \<le> e" "n \<le> m" for d e m s x
    using Suc.IH that by blast
  have e: "json_elements e m s = Some x" if "json_elements d n s = Some x" "d \<le> e" "n \<le> m" for d e m s x
    using Suc.IH that by blast
  have g: "json_members e m s = Some x" if "json_members d n s = Some x" "d \<le> e" "n \<le> m" for d e m s x
    using Suc.IH that by blast
  have V: "json_value e (Suc m) s = Some x" if h: "json_value d (Suc n) s = Some x" and l: "d \<le> e" "n \<le> m" for d e m s x
  proof -
    from h obtain c cs where c: "skip_space s = c # cs" by (auto simp: json_value.simps split: list.splits)
    have "d - 1 \<le> e - 1" using l by simp
    then show ?thesis using h l c e [OF _ _ l(2), of "d - 1"] g [OF _ _ l(2), of "d - 1"]
      by (fastforce simp: json_value.simps split: if_splits list.splits)
  qed
  have E: "json_elements e (Suc m) s = Some x" if h: "json_elements d (Suc n) s = Some x" and l: "d \<le> e" "n \<le> m" for d e m s x
  proof -
    from h obtain a r where p: "json_value d n s = Some (a, r)" by (auto simp: json_elements.simps split: option.splits)
    from h p obtain b bs where b: "skip_space r = b # bs" by (auto simp: json_elements.simps split: list.splits)
    show ?thesis using h p b v [OF p l] e [OF _ l]
      by (fastforce simp: json_elements.simps split: if_splits)
  qed
  have G: "json_members e (Suc m) s = Some x" if h: "json_members d (Suc n) s = Some x" and l: "d \<le> e" "n \<le> m" for d e m s x
  proof -
    from h obtain key t where k: "read_key s = Some (key, t)" by (auto simp: json_members.simps split: option.splits)
    from h k obtain a r where p: "json_value d n t = Some (a, r)" by (auto simp: json_members.simps split: option.splits)
    from h k p obtain b bs where b: "skip_space r = b # bs" by (auto simp: json_members.simps split: list.splits)
    show ?thesis using h k p b v [OF p l] g [OF _ l]
      by (fastforce simp: json_members.simps split: if_splits)
  qed
  have "json_value e m s = Some x" if "json_value d (Suc n) s = Some x" "d \<le> e" "Suc n \<le> m" for d e m s x
    using that V [of d s x e "m - 1"] by (cases m) auto
  moreover have "json_elements e m s = Some x" if "json_elements d (Suc n) s = Some x" "d \<le> e" "Suc n \<le> m" for d e m s x
    using that E [of d s x e "m - 1"] by (cases m) auto
  moreover have "json_members e m s = Some x" if "json_members d (Suc n) s = Some x" "d \<le> e" "Suc n \<le> m" for d e m s x
    using that G [of d s x e "m - 1"] by (cases m) auto
  ultimately show ?case by blast
qed

lemma json_read_small:
  assumes "json_value d n s = Some x" and "d \<le> maxNestingDepth" and "n \<le> 2 * length s + 2"
  shows "json_read s = Some x"
  unfolding json_read_def using json_mono_all [of n] assms by blast

end
