(* ===== verification/Console.thy ===== *)
theory Console
  imports ReadModel Drafts Runs EnvClass Artifacts SourceBundle
begin

section \<open>The HTTP API of the console: internal/console/server.go\<close>

text \<open>
  The handlers of the console. A handler takes the path values and the body of a request and returns the
  writes it sent to the API server, in order, and the reply: a status with a value for writeJSON, or a
  status, a code and a message for writeError. What it reads is a field of the environment: the objects
  and lists of the cluster, the clock, the artifact store, the draft generator. The API server answers a
  create or an update with the object as it is stored. Decoders of YAML and of stored documents, the
  validation of names and the texts of encoding/json's errors are parameters. The request log is left out.
\<close>

record config_map =
  cm_Meta :: object_meta
  cm_Data :: gomap

text \<open>The bodies of classes.go and class\_templates.go, which the environment decodes.\<close>

record create_class_request =
  ccr_Name :: string
  ccr_Spec :: environment_class_spec

record class_template_request =
  ctr_Name :: string
  ctr_Title :: string
  ctr_Description :: string
  ctr_Spec :: environment_class_spec

datatype console_write =
    CreateEnvironment platform_environment
  | UpdateEnvironment platform_environment
  | DeleteEnvironment object_meta string
  | CreateApproval change_approval
  | CreateClass bool environment_class
  | DeleteClass object_meta string string
  | CreateTemplate config_map
  | DeleteTemplate object_meta string string

record console_env =
  co_now :: time
  co_sha :: hash
  co_names :: name_validation
  co_json_error :: "string \<Rightarrow> string"
  co_yaml :: "json \<Rightarrow> gerr + string"
  co_class_request :: "go_any \<Rightarrow> create_class_request option"
  co_template_request :: "go_any \<Rightarrow> class_template_request option"
  co_template_data :: "string \<Rightarrow> class_template_request option"
  co_class_yaml :: "environment_class \<Rightarrow> string"
  co_float :: "string \<Rightarrow> string option"
  co_provider :: string
  co_drafts :: "draft_request \<Rightarrow> http_request list \<times> (draft_error + draft_intent)"
  co_store :: "(string \<Rightarrow> gerr + ref \<times> string) option"
  co_plan_document :: "string \<Rightarrow> plan_document option"
  co_environments :: "gerr + platform_environment list"
  co_classes :: "gerr + environment_class list"
  co_stacks :: "gerr + infra_stack list"
  co_runs :: "gerr + terraform_run list"
  co_approvals :: "gerr + change_approval list"
  co_resourceSets :: "gerr + resource_set list"
  co_valkeys :: "gerr + valkey_cluster list"
  co_approvals_in :: "string \<Rightarrow> gerr + change_approval list"
  co_class :: "string \<Rightarrow> gerr + environment_class"
  co_environment :: "string \<Rightarrow> string \<Rightarrow> gerr + platform_environment"
  co_run :: "string \<Rightarrow> string \<Rightarrow> gerr + terraform_run"
  co_stack :: "string \<Rightarrow> string \<Rightarrow> gerr + infra_stack"
  co_namespace :: "string \<Rightarrow> gerr option"
  co_config :: "string \<Rightarrow> string \<Rightarrow> gerr + config_map"
  co_configs :: "string \<Rightarrow> gomap \<Rightarrow> gerr + config_map list"
  co_create_environment :: "platform_environment \<Rightarrow> gerr + platform_environment"
  co_update_environment :: "platform_environment \<Rightarrow> gerr + platform_environment"
  co_create_approval :: "change_approval \<Rightarrow> gerr + change_approval"
  co_create_class :: "bool \<Rightarrow> environment_class \<Rightarrow> gerr + environment_class"
  co_create_config :: "config_map \<Rightarrow> gerr + config_map"
  co_delete :: "console_write \<Rightarrow> gerr option"

subsection \<open>Replies\<close>

datatype 'b reply =
    Answer int 'b
  | Refusal int string string

type_synonym 'b handled = "console_write list \<times> 'b reply"

definition writeJSON :: "int \<Rightarrow> 'b \<Rightarrow> 'b handled" where
  "writeJSON status body = ([], Answer status body)"

definition writeError :: "int \<Rightarrow> string \<Rightarrow> string \<Rightarrow> 'b handled" where
  "writeError status code message = ([], Refusal status code message)"

text \<open>A write and what follows it: the handler of its error, or the rest.\<close>

definition after_write :: "console_write \<Rightarrow> gerr + 'a \<Rightarrow> (gerr \<Rightarrow> 'b handled) \<Rightarrow> ('a \<Rightarrow> 'b handled) \<Rightarrow> 'b handled" where
  "after_write w answer failed next =
     (let (ws, r) = (case answer of Inl e \<Rightarrow> failed e | Inr a \<Rightarrow> next a) in (w # ws, r))"

definition writeObjectError :: "gerr \<Rightarrow> string \<Rightarrow> 'b handled" where
  "writeObjectError e kind =
     (if is_not_found e then writeError 404 ''NotFound'' (kind @ '' was not found'')
      else writeError 503 ''KubernetesReadFailed'' (err_text e))"

text \<open>A read and what follows it.\<close>

definition with_object :: "string \<Rightarrow> gerr + 'a \<Rightarrow> ('a \<Rightarrow> 'b handled) \<Rightarrow> 'b handled" where
  "with_object kind object next = (case object of Inl e \<Rightarrow> writeObjectError e kind | Inr a \<Rightarrow> next a)"

definition with_list :: "gerr + 'a \<Rightarrow> ('a \<Rightarrow> 'b handled) \<Rightarrow> 'b handled" where
  "with_list items next =
     (case items of Inl e \<Rightarrow> writeError 503 ''KubernetesReadFailed'' (err_text e) | Inr a \<Rightarrow> next a)"

text \<open>The first check that fails refuses the request.\<close>

fun refuse_if :: "(bool \<times> int \<times> string \<times> string) list \<Rightarrow> 'b handled \<Rightarrow> 'b handled" where
  "refuse_if [] next = next"
| "refuse_if ((bad, status, code, message) # cs) next =
     (if bad then writeError status code message else refuse_if cs next)"

text \<open>
  decodeJSON: the body is cut at 64 KiB, one value with known fields is decoded, and nothing but space may follow.
\<close>

definition bodyLimit :: nat where "bodyLimit = 65536"

definition decodeJSON ::
  "console_env \<Rightarrow> (go_any \<Rightarrow> 'r option) \<Rightarrow> string \<Rightarrow> ('r \<Rightarrow> 'b handled) \<Rightarrow> 'b handled" where
  "decodeJSON env decode body next =
     (let invalid = writeError 400 ''InvalidJSON'' (co_json_error env body) in
      case json_read (take bodyLimit body) of
        None \<Rightarrow> invalid
      | Some (v, rest) \<Rightarrow>
          (case decode v of
             None \<Rightarrow> invalid
           | Some r \<Rightarrow>
               if bodyLimit < length body \<or> skip_space rest \<noteq> []
               then writeError 400 ''InvalidJSON'' ''request must contain exactly one JSON object''
               else next r))"

subsection \<open>Request bodies\<close>

record create_environment_request =
  cer_Name :: string
  cer_Namespace :: string
  cer_ClassRef :: string
  cer_Region :: string
  cer_NodeCount :: int
  cer_ValkeyEnabled :: bool
  cer_ValkeyShards :: int
  cer_ValkeyReplicas :: int

definition decode_create_environment :: "go_any \<Rightarrow> create_environment_request option" where
  "decode_create_environment v = decode_struct True
     [(''name'', text_field (\<lambda>t r. r\<lparr>cer_Name := t\<rparr>)), (''namespace'', text_field (\<lambda>t r. r\<lparr>cer_Namespace := t\<rparr>)),
      (''classRef'', text_field (\<lambda>t r. r\<lparr>cer_ClassRef := t\<rparr>)), (''region'', text_field (\<lambda>t r. r\<lparr>cer_Region := t\<rparr>)),
      (''nodeCount'', int32_field (\<lambda>i r. r\<lparr>cer_NodeCount := i\<rparr>)),
      (''valkeyEnabled'', bool_field (\<lambda>b r. r\<lparr>cer_ValkeyEnabled := b\<rparr>)),
      (''valkeyShards'', int32_field (\<lambda>i r. r\<lparr>cer_ValkeyShards := i\<rparr>)),
      (''valkeyReplicas'', int32_field (\<lambda>i r. r\<lparr>cer_ValkeyReplicas := i\<rparr>))] v
     \<lparr>cer_Name = [], cer_Namespace = [], cer_ClassRef = [], cer_Region = [], cer_NodeCount = 0,
      cer_ValkeyEnabled = False, cer_ValkeyShards = 0, cer_ValkeyReplicas = 0\<rparr>"

record update_environment_request =
  uer_UID :: string
  uer_Generation :: int
  uer_NodeCount :: int

definition decode_update_environment :: "go_any \<Rightarrow> update_environment_request option" where
  "decode_update_environment v = decode_struct True
     [(''uid'', text_field (\<lambda>t r. r\<lparr>uer_UID := t\<rparr>)), (''generation'', int64_field (\<lambda>i r. r\<lparr>uer_Generation := i\<rparr>)),
      (''nodeCount'', int32_field (\<lambda>i r. r\<lparr>uer_NodeCount := i\<rparr>))] v
     \<lparr>uer_UID = [], uer_Generation = 0, uer_NodeCount = 0\<rparr>"

text \<open>DeleteEnvironmentRequest has one field, the UID.\<close>

definition decode_delete_environment :: "go_any \<Rightarrow> string option" where
  "decode_delete_environment v = decode_struct True [(''uid'', text_field (\<lambda>t r. t))] v []"

record approval_request =
  ar_PlanRunUID :: string
  ar_PlanDigest :: string
  ar_ExecutionContextDigest :: string
  ar_EffectivePlanInputDigest :: string
  ar_PlanReportRef :: string
  ar_PlanReportDigest :: string

definition decode_approval :: "go_any \<Rightarrow> approval_request option" where
  "decode_approval v = decode_struct True
     [(''planRunUID'', text_field (\<lambda>t r. r\<lparr>ar_PlanRunUID := t\<rparr>)), (''planDigest'', text_field (\<lambda>t r. r\<lparr>ar_PlanDigest := t\<rparr>)),
      (''executionContextDigest'', text_field (\<lambda>t r. r\<lparr>ar_ExecutionContextDigest := t\<rparr>)),
      (''effectivePlanInputDigest'', text_field (\<lambda>t r. r\<lparr>ar_EffectivePlanInputDigest := t\<rparr>)),
      (''planReportRef'', text_field (\<lambda>t r. r\<lparr>ar_PlanReportRef := t\<rparr>)),
      (''planReportDigest'', text_field (\<lambda>t r. r\<lparr>ar_PlanReportDigest := t\<rparr>))] v
     \<lparr>ar_PlanRunUID = [], ar_PlanDigest = [], ar_ExecutionContextDigest = [], ar_EffectivePlanInputDigest = [],
      ar_PlanReportRef = [], ar_PlanReportDigest = []\<rparr>"

definition decode_draft_request :: "go_any \<Rightarrow> draft_request option" where
  "decode_draft_request v = decode_struct True
     [(''description'', text_field (\<lambda>t r. r\<lparr>dr_Description := t\<rparr>)), (''name'', text_field (\<lambda>t r. r\<lparr>dr_Name := t\<rparr>)),
      (''namespace'', text_field (\<lambda>t r. r\<lparr>dr_Namespace := t\<rparr>)), (''classRef'', text_field (\<lambda>t r. r\<lparr>dr_ClassRef := t\<rparr>)),
      (''region'', text_field (\<lambda>t r. r\<lparr>dr_Region := t\<rparr>)), (''nodeCount'', int32_field (\<lambda>i r. r\<lparr>dr_NodeCount := i\<rparr>))] v
     \<lparr>dr_Description = [], dr_Name = [], dr_Namespace = [], dr_ClassRef = [], dr_Region = [], dr_NodeCount = 0\<rparr>"

subsection \<open>Reading environments, runs and plans\<close>

text \<open>The lists are read one after the other; the first error ends the snapshot.\<close>

definition loadSnapshot :: "console_env \<Rightarrow> gerr + read_snapshot" where
  "loadSnapshot env =
     sum_bind (co_environments env) (\<lambda>environments. sum_bind (co_classes env) (\<lambda>classes.
     sum_bind (co_stacks env) (\<lambda>stacks. sum_bind (co_runs env) (\<lambda>runs. sum_bind (co_approvals env) (\<lambda>approvals.
     sum_bind (co_resourceSets env) (\<lambda>resourceSets. sum_bind (co_valkeys env) (\<lambda>valkeys.
       Inr \<lparr>sn_environments = environments, sn_classes = classes, sn_stacks = stacks, sn_runs = runs,
            sn_approvals = approvals, sn_resourceSets = resourceSets, sn_valkeys = valkeys\<rparr>)))))))"

definition listEnvironments :: "console_env \<Rightarrow> environment_summary list handled" where
  "listEnvironments env = with_list (loadSnapshot env) (\<lambda>data.
     writeJSON 200 (sort_key (\<lambda>s. (sum_Namespace s, sum_Name s))
       (map (\<lambda>e. edt_Summary (detail data e)) (sn_environments data))))"

definition getEnvironment :: "console_env \<Rightarrow> string \<Rightarrow> string \<Rightarrow> environment_detail handled" where
  "getEnvironment env namespace name = with_list (loadSnapshot env) (\<lambda>data.
     case findEnvironment (sn_environments data) namespace name of
       None \<Rightarrow> writeError 404 ''NotFound'' ''PlatformEnvironment was not found''
     | Some e \<Rightarrow> writeJSON 200 (detail data e))"

definition environmentDetail :: "console_env \<Rightarrow> string \<Rightarrow> string \<Rightarrow> (int \<times> gerr) + environment_detail" where
  "environmentDetail env namespace name =
     (case loadSnapshot env of
        Inl e \<Rightarrow> Inl (503, e)
      | Inr data \<Rightarrow>
          (case findEnvironment (sn_environments data) namespace name of
             None \<Rightarrow> Inl (404, Err ''PlatformEnvironment was not found'')
           | Some e \<Rightarrow> Inr (detail data e)))"

definition with_detail ::
  "console_env \<Rightarrow> string \<Rightarrow> string \<Rightarrow> (environment_detail \<Rightarrow> 'b handled) \<Rightarrow> 'b handled" where
  "with_detail env namespace name next =
     (case environmentDetail env namespace name of
        Inl (status, e) \<Rightarrow> writeError status ''ReadFailed'' (err_text e)
      | Inr d \<Rightarrow> next d)"

definition getTimeline :: "console_env \<Rightarrow> string \<Rightarrow> string \<Rightarrow> timeline_event list handled" where
  "getTimeline env namespace name = with_detail env namespace name (\<lambda>d. writeJSON 200 (edt_Timeline d))"

definition getTerraformRuns :: "console_env \<Rightarrow> string \<Rightarrow> string \<Rightarrow> terraform_run_view list handled" where
  "getTerraformRuns env namespace name = with_detail env namespace name (\<lambda>d. writeJSON 200 (edt_TerraformRuns d))"

definition with_run :: "console_env \<Rightarrow> string \<Rightarrow> string \<Rightarrow> (terraform_run \<Rightarrow> 'b handled) \<Rightarrow> 'b handled" where
  "with_run env namespace name next =
     (case co_run env namespace name of
        Inl e \<Rightarrow> if is_not_found e then writeError 404 ''NotFound'' ''TerraformRun was not found''
                 else writeError 503 ''KubernetesReadFailed'' (err_text e)
      | Inr run \<Rightarrow> next run)"

definition getTerraformRun :: "console_env \<Rightarrow> string \<Rightarrow> string \<Rightarrow> terraform_run_view handled" where
  "getTerraformRun env namespace name = with_run env namespace name (\<lambda>run.
     with_list (co_approvals_in env (om_Namespace (run_Meta run))) (\<lambda>approvals.
       writeJSON 200 (runView run (matchingApprovals approvals run))))"

definition no_plan :: "terraform_run_view option \<Rightarrow> string \<Rightarrow> plan_view" where
  "no_plan run message = \<lparr>pv_TerraformRun = run, pv_Available = False, pv_Message = message, pv_Graph = None\<rparr>"

definition getPlan :: "console_env \<Rightarrow> string \<Rightarrow> string \<Rightarrow> plan_view handled" where
  "getPlan env namespace name = with_run env namespace name (\<lambda>run.
     let s = run_Status run; summary = Some (runView run []) in
     if rs_Operation (run_Spec run) \<noteq> ''Plan'' \<or> rst_PlanDigest s = [] \<or> rst_PlanReportRef s = []
     then writeJSON 200 (no_plan summary ''Terraform plan visualization is not available for this run.'')
     else (case co_store env of
         None \<Rightarrow> writeJSON 200 (no_plan summary ''Artifact storage is not configured for the local console.'')
       | Some get \<Rightarrow>
           (case get (path_join [path_dir (rst_PlanReportRef s), ''plan-visualization.json'']) of
              Inl e \<Rightarrow> writeJSON 200 (no_plan summary ''This plan predates optional architecture evidence, or that evidence is unavailable.'')
            | Inr (r, content) \<Rightarrow>
                (case co_plan_document env content of
                   None \<Rightarrow> writeError 502 ''InvalidPlanEvidence'' ''Stored plan visualization is not valid JSON''
                 | Some graph \<Rightarrow>
                     if pd_RunUID graph \<noteq> om_UID (run_Meta run) \<or> pd_PlanDigest graph \<noteq> rst_PlanDigest s
                     then writeError 409 ''StalePlanEvidence'' ''Plan visualization does not match the current TerraformRun identity and digest''
                     else writeJSON 200 \<lparr>pv_TerraformRun = summary, pv_Available = True,
                       pv_Message = ''Derived from the immutable Terraform plan; informational only.'', pv_Graph = Some graph\<rparr>))))"

definition getArchitecture :: "console_env \<Rightarrow> string \<Rightarrow> string \<Rightarrow> plan_view handled" where
  "getArchitecture env namespace name = with_detail env namespace name (\<lambda>d.
     case edt_InfrastructureDetail d of
       None \<Rightarrow> writeJSON 200 (no_plan None ''No Terraform Plan is associated with this environment yet.'')
     | Some infra \<Rightarrow>
         if iv_LatestPlanRun infra = []
         then writeJSON 200 (no_plan None ''No Terraform Plan is associated with this environment yet.'')
         else getPlan env (sum_Namespace (edt_Summary d)) (iv_LatestPlanRun infra))"

subsection \<open>The validation of an environment\<close>

definition validateNodeCount :: "int \<Rightarrow> capacity_bounds \<Rightarrow> gerr option" where
  "validateNodeCount nodes bounds = first_error
     [(nodes < 0, ''nodeCount cannot be negative''),
      (cb_MinNodeCount bounds > 0 \<and> nodes < cb_MinNodeCount bounds,
       ''nodeCount '' @ show_int nodes @ '' is below the class minimum '' @ show_int (cb_MinNodeCount bounds)),
      (cb_MaxNodeCount bounds > 0 \<and> nodes > cb_MaxNodeCount bounds,
       ''nodeCount '' @ show_int nodes @ '' exceeds the class maximum '' @ show_int (cb_MaxNodeCount bounds))]"

definition request_name_error :: "name_validation \<Rightarrow> create_environment_request \<Rightarrow> gerr option" where
  "request_name_error nv request = first_error
     [(nv_Subdomain nv (cer_Name request) \<noteq> [],
       ''invalid environment name: '' @ join_with ''; '' (nv_Subdomain nv (cer_Name request))),
      (nv_Label nv (cer_Namespace request) \<noteq> [],
       ''invalid namespace: '' @ join_with ''; '' (nv_Label nv (cer_Namespace request))),
      (cer_ClassRef request = [], ''classRef is required''),
      (nv_Subdomain nv (cer_ClassRef request) \<noteq> [], ''classRef is not a valid EnvironmentClass name'')]"

definition request_region :: "create_environment_request \<Rightarrow> environment_class \<Rightarrow> string" where
  "request_region request class =
     (if cer_Region request = [] then tr_Region (ecs_Target (ec_Spec class)) else cer_Region request)"

definition request_class_error :: "create_environment_request \<Rightarrow> environment_class \<Rightarrow> gerr option" where
  "request_class_error request class =
     (let m = ec_Meta class; status = ec_Status class; spec = ec_Spec class; region = request_region request class in
      and_then (first_error
        [(om_Generation m > 0 \<and> ecst_ObservedGeneration status \<noteq> om_Generation m,
          ''EnvironmentClass has not reconciled its current generation''),
         (om_DeletionTimestamp m \<noteq> None, ''EnvironmentClass is being deleted''),
         (\<not> IsStatusConditionTrue (ecst_Conditions status) ''Ready'', ''EnvironmentClass is not Ready''),
         (tr_Provider (ecs_Target spec) = [] \<or> tr_ClusterName (ecs_Target spec) = [],
          ''EnvironmentClass target identity is incomplete''),
         (ecs_AllowedRegions spec \<noteq> [] \<and> \<not> contains_string (ecs_AllowedRegions spec) region,
          ''region '' @ quoted region @ '' is not allowed by EnvironmentClass'')])
      (and_then (validateNodeCount (cer_NodeCount request) (ecs_CapacityBounds spec))
        (first_error
          [(cer_ValkeyEnabled request \<and> cer_ValkeyShards request < 1, ''valkeyShards must be at least 1 when Valkey is enabled''),
           (cer_ValkeyShards request < 0 \<or> cer_ValkeyReplicas request < 0,
            ''Valkey shard and replica counts cannot be negative'')])))"

text \<open>The usage is counted in an int32.\<close>

definition class_environments :: "platform_environment list \<Rightarrow> string \<Rightarrow> int" where
  "class_environments items name =
     to_int32 (int (length (filter (\<lambda>e. pes_ClassRef (pe_Spec e) = Some name) items)))"

definition request_limit_error :: "platform_environment list \<Rightarrow> environment_class \<Rightarrow> gerr option" where
  "request_limit_error items class =
     (let limit = cb_MaxEnvironments (ecs_CapacityBounds (ec_Spec class)) in
      if limit > 0 \<and> class_environments items (om_Name (ec_Meta class)) \<ge> limit
      then Some (Err (''EnvironmentClass environment limit '' @ show_int limit @ '' has been reached'')) else None)"

definition requested_environment :: "create_environment_request \<Rightarrow> environment_class \<Rightarrow> platform_environment" where
  "requested_environment request class = zero_platform_environment\<lparr>
     pe_Meta := empty_meta\<lparr>om_Name := cer_Name request, om_Namespace := cer_Namespace request\<rparr>,
     pe_Spec := zero_platform_environment_spec\<lparr>pes_ClassRef := Some (cer_ClassRef request),
       pes_Region := request_region request class, pes_Capacity := \<lparr>cap_NodeCount = cer_NodeCount request\<rparr>,
       pes_Valkey := \<lparr>vi_Enabled = cer_ValkeyEnabled request, vi_Shards = cer_ValkeyShards request,
                      vi_Replicas = cer_ValkeyReplicas request\<rparr>,
       pes_DesiredState := DesiredStatePresent\<rparr>\<rparr>"

definition validateEnvironmentRequest ::
  "console_env \<Rightarrow> create_environment_request \<Rightarrow> gerr + platform_environment \<times> environment_class" where
  "validateEnvironmentRequest env request =
     checked (request_name_error (co_names env) request)
       (case co_class env (cer_ClassRef request) of
          Inl e \<Rightarrow> Inl (Wrap (''EnvironmentClass '' @ quoted (cer_ClassRef request) @ '' is unavailable'') e)
        | Inr class \<Rightarrow>
            checked (request_class_error request class)
              (case co_namespace env (cer_Namespace request) of
                 Some e \<Rightarrow> Inl (Wrap (''namespace '' @ quoted (cer_Namespace request) @ '' is unavailable'') e)
               | None \<Rightarrow>
                   (case co_environments env of
                      Inl e \<Rightarrow> Inl (Wrap ''list existing environments'' e)
                    | Inr items \<Rightarrow>
                        checked (request_limit_error items class)
                          (Inr (requested_environment request class, class)))))"

subsection \<open>Creating, updating and deleting an environment\<close>

text \<open>What the reply to a change says of the object.\<close>

record change_answer =
  an_Namespace :: string
  an_Name :: string
  an_UID :: "string option"
  an_Generation :: "int option"
  an_Message :: string

definition createEnvironment :: "console_env \<Rightarrow> string \<Rightarrow> change_answer handled" where
  "createEnvironment env body = decodeJSON env decode_create_environment body (\<lambda>request.
     case validateEnvironmentRequest env request of
       Inl e \<Rightarrow> writeError 422 ''InvalidDraft'' (err_text e)
     | Inr (environment, class) \<Rightarrow>
         after_write (CreateEnvironment environment) (co_create_environment env environment)
           (\<lambda>e. if is_already_exists e
                then writeError 409 ''AlreadyExists'' ''a PlatformEnvironment with this namespace/name already exists''
                else writeError 400 ''CreateRejected'' (err_text e))
           (\<lambda>stored. let m = pe_Meta stored in
              writeJSON 201 \<lparr>an_Namespace = om_Namespace m, an_Name = om_Name m, an_UID = Some (om_UID m),
                an_Generation = Some (om_Generation m),
                an_Message = ''PlatformEnvironment created; the existing control plane owns reconciliation.''\<rparr>))"

definition with_node_count :: "int \<Rightarrow> platform_environment \<Rightarrow> platform_environment" where
  "with_node_count nodes environment = environment\<lparr>pe_Spec := (pe_Spec environment)\<lparr>
     pes_Capacity := \<lparr>cap_NodeCount = nodes\<rparr>\<rparr>\<rparr>"

definition updateEnvironment :: "console_env \<Rightarrow> string \<Rightarrow> string \<Rightarrow> string \<Rightarrow> change_answer handled" where
  "updateEnvironment env namespace name body = decodeJSON env decode_update_environment body (\<lambda>request.
     with_object ''PlatformEnvironment'' (co_environment env namespace name) (\<lambda>environment.
     let m = pe_Meta environment in
     refuse_if
       [(uer_UID request = [] \<or> uer_UID request \<noteq> om_UID m \<or> uer_Generation request \<noteq> om_Generation m, 409,
         ''StaleEnvironment'', ''environment identity or generation changed; reload before updating''),
        (className environment = [], 409, ''UnsupportedMode'',
         ''only class-based environments can be updated through this console''),
        (pes_DesiredState (pe_Spec environment) = DesiredStateDestroy \<or> om_DeletionTimestamp m \<noteq> None, 409,
         ''EnvironmentDeleting'', ''deleting environments cannot be updated'')]
     (with_object ''EnvironmentClass'' (co_class env (className environment)) (\<lambda>class.
     case validateNodeCount (uer_NodeCount request) (ecs_CapacityBounds (ec_Spec class)) of
       Some e \<Rightarrow> writeError 422 ''InvalidCapacity'' (err_text e)
     | None \<Rightarrow> (let desired = with_node_count (uer_NodeCount request) environment in
         after_write (UpdateEnvironment desired) (co_update_environment env desired)
           (\<lambda>e. writeError 409 ''UpdateRejected'' (err_text e))
           (\<lambda>stored. let n = pe_Meta stored in
              writeJSON 200 \<lparr>an_Namespace = om_Namespace n, an_Name = om_Name n, an_UID = None,
                an_Generation = Some (om_Generation n),
                an_Message = ''desired capacity updated; the existing control plane will reconcile it.''\<rparr>))))))"

definition deleteEnvironment :: "console_env \<Rightarrow> string \<Rightarrow> string \<Rightarrow> string \<Rightarrow> change_answer handled" where
  "deleteEnvironment env namespace name body = decodeJSON env decode_delete_environment body (\<lambda>uid.
     with_object ''PlatformEnvironment'' (co_environment env namespace name) (\<lambda>environment.
     let m = pe_Meta environment; removal = DeleteEnvironment m uid in
     refuse_if
       [(uid = [] \<or> uid \<noteq> om_UID m, 409, ''StaleEnvironment'', ''environment identity changed; reload before deleting'')]
     (after_write removal (case co_delete env removal of Some e \<Rightarrow> Inl e | None \<Rightarrow> Inr ())
        (\<lambda>e. writeError 409 ''DeleteRejected'' (err_text e))
        (\<lambda>_. writeJSON 202 \<lparr>an_Namespace = om_Namespace m, an_Name = om_Name m, an_UID = None, an_Generation = None,
           an_Message = ''deletion requested; existing finalizers own runtime prune and Terraform destroy.''\<rparr>))))"

subsection \<open>The approval of a plan\<close>

definition approvalRequestMatches :: "approval_request \<Rightarrow> terraform_run \<Rightarrow> bool" where
  "approvalRequestMatches request run \<longleftrightarrow> (let s = run_Status run in
     ar_PlanRunUID request = om_UID (run_Meta run) \<and> ar_PlanDigest request = rst_PlanDigest s
     \<and> ar_ExecutionContextDigest request = rs_ExecutionContextDigest (run_Spec run)
     \<and> ar_EffectivePlanInputDigest request = rst_EffectivePlanInputDigest s
     \<and> ar_PlanReportRef request = rst_PlanReportRef s \<and> ar_PlanReportDigest request = rst_PlanReportDigest s)"

definition approvalName :: "hash \<Rightarrow> string \<Rightarrow> string \<Rightarrow> string" where
  "approvalName sha planName planUID = ''approve-'' @ take 24 (sha (planName @ [CHR 0x00] @ planUID))"

definition plan_approval_checks ::
  "time \<Rightarrow> approval_request \<Rightarrow> terraform_run \<Rightarrow> (bool \<times> int \<times> string \<times> string) list" where
  "plan_approval_checks now request run = (let spec = run_Spec run; s = run_Status run in
     [(rs_Operation spec \<noteq> ''Plan'' \<or> rst_ExecutionOutcome s \<noteq> ''ChangesPresent'' \<or> \<not> rst_HasChanges s
         \<or> \<not> rst_ArtifactsReady s \<or> \<not> rst_EvidenceCaptured s \<or> \<not> IsStatusConditionTrue (rst_Conditions s) ''Ready'', 409,
       ''PlanNotApprovable'', ''only a completed, successful Plan with changes and durable evidence can be approved''),
      (\<not> not_expired now (rst_PlanExpiresAt s), 409, ''PlanExpired'', ''the saved plan has expired and must be regenerated''),
      (om_UID (run_Meta run) = [] \<or> rst_PlanRef s = [] \<or> rst_PlanDigest s = [] \<or> rs_ExecutionContextDigest spec = []
         \<or> rst_EffectivePlanInputDigest s = [] \<or> rst_PlanReportRef s = [] \<or> rst_PlanReportDigest s = []
         \<or> rst_SourceBundleRef s = [] \<or> rst_SourceBundleDigest s = [] \<or> rst_TerminalResultRef s = []
         \<or> rst_TerminalResultDigest s = [] \<or> rs_RuntimeTargetIdentityDigest spec = []
         \<or> rs_InfrastructureExecutionIdentityDigest spec = [], 409,
       ''PlanEvidenceIncomplete'', ''the exact plan binding evidence is incomplete''),
      (\<not> approvalRequestMatches request run, 409, ''StalePlan'',
       ''submitted approval binding does not exactly match the current PlanRun'')])"

definition plan_stack_checks :: "terraform_run \<Rightarrow> infra_stack \<Rightarrow> (bool \<times> int \<times> string \<times> string) list" where
  "plan_stack_checks run stack = (let p = run_Spec run; spec = is_Spec stack; status = is_Status stack;
       conditions = isst_Conditions status in
     [(isst_LatestPlanRunRef status \<noteq> Some (om_Name (run_Meta run)) \<or> om_Generation (is_Meta stack) \<noteq> rs_InfraStackGeneration p,
       409, ''PlanNotCurrent'', ''the plan is not the latest plan for the current InfraStack generation''),
      (rs_InfrastructureExecutionRoleARN p \<noteq> iei_RoleARN (iss_InfrastructureExecutionIdentity spec)
         \<or> rs_RunnerServiceAccountName p \<noteq> iss_RunnerServiceAccountName spec
         \<or> rs_RunnerManagementRoleARN p \<noteq> iss_RunnerManagementRoleARN spec
         \<or> rs_RunnerServiceAccountIdentityDigest p \<noteq> iss_RunnerServiceAccountIdentityDigest spec,
       409, ''ExecutionIdentityMismatch'', ''the PlanRun execution identity does not match the current InfraStack''),
      (iss_MutationFence spec \<and> rs_PlanMode p \<noteq> ''Destroy'', 409, ''MutationFenced'',
       ''the InfraStack mutation fence blocks non-destroy approval''),
      (\<not> IsStatusConditionTrue conditions ''Ready''
         \<and> (case findCondition conditions ''Ready'' of None \<Rightarrow> True | Some c \<Rightarrow> c_Reason c \<noteq> ''WaitingApproval''),
       409, ''StackNotWaitingApproval'', ''the InfraStack is not waiting for approval of this plan'')])"

text \<open>
  The approvals that name the run, in the order of the list: the first that matches is the answer, one with
  the generated name that does not match is a conflict.
\<close>

fun existing_approval ::
  "terraform_run \<Rightarrow> string \<Rightarrow> change_approval list \<Rightarrow> approval_view handled \<Rightarrow> approval_view handled" where
  "existing_approval run name [] next = next"
| "existing_approval run name (a # as) next =
     (if cas_PlanRunUID (ca_Spec a) = om_UID (run_Meta run) \<and> cas_PlanRunRef (ca_Spec a) = om_Name (run_Meta run) then
        (if approvalMatchesRun a run then writeJSON 200 (approvalView a)
         else if om_Name (ca_Meta a) = name
         then writeError 409 ''ApprovalNameConflict'' ''the generated approval name has a different immutable binding''
         else existing_approval run name as next)
      else existing_approval run name as next)"

definition approval_for :: "string \<Rightarrow> terraform_run \<Rightarrow> change_approval" where
  "approval_for name run = zero_change_approval\<lparr>
     ca_Meta := empty_meta\<lparr>om_Name := name, om_Namespace := om_Namespace (run_Meta run),
       om_Labels := [(''platform.example.io/managed-by'', ''platform-api'')]\<rparr>,
     ca_Spec := \<lparr>cas_PlanRunRef = om_Name (run_Meta run), cas_PlanRunUID = om_UID (run_Meta run),
       cas_PlanDigest = rst_PlanDigest (run_Status run),
       cas_ExecutionContextDigest = rs_ExecutionContextDigest (run_Spec run),
       cas_EffectivePlanInputDigest = rst_EffectivePlanInputDigest (run_Status run),
       cas_PlanReportRef = rst_PlanReportRef (run_Status run), cas_PlanReportDigest = rst_PlanReportDigest (run_Status run)\<rparr>\<rparr>"

definition approvePlan :: "console_env \<Rightarrow> string \<Rightarrow> string \<Rightarrow> string \<Rightarrow> approval_view handled" where
  "approvePlan env namespace runName body = decodeJSON env decode_approval body (\<lambda>request.
     with_object ''TerraformRun'' (co_run env namespace runName) (\<lambda>run.
     refuse_if (plan_approval_checks (co_now env) request run)
     (with_object ''InfraStack'' (co_stack env (om_Namespace (run_Meta run)) (rs_StackRef (run_Spec run))) (\<lambda>stack.
     refuse_if (plan_stack_checks run stack)
     (with_list (co_approvals_in env (om_Namespace (run_Meta run))) (\<lambda>existing.
     let name = approvalName (co_sha env) (om_Name (run_Meta run)) (om_UID (run_Meta run));
         approval = approval_for name run in
     existing_approval run name existing
       (after_write (CreateApproval approval) (co_create_approval env approval)
          (\<lambda>e. if is_already_exists e
               then writeError 409 ''ApprovalNameConflict'' ''an approval object with the generated name already exists; no approval was changed''
               else writeError 400 ''ApprovalRejected'' (err_text e))
          (\<lambda>stored. writeJSON 201 (approvalView stored)))))))))"

subsection \<open>Drafts\<close>

record draft_response =
  dp_Provider :: string
  dp_Intent :: draft_intent
  dp_Valid :: bool
  dp_Errors :: "string list"
  dp_Warnings :: "string list"
  dp_WarningCodes :: "string list"
  dp_YAML :: string

definition environment_spec_json :: "platform_environment_spec \<Rightarrow> json" where
  "environment_spec_json s = jobj
     [(''classRef'', map_option local_ref_json (pes_ClassRef s)), (''infraStackRef'', Some (local_ref_json (pes_InfraStackRef s))),
      (''target'', Some (target_reference_json (pes_Target s))), (''region'', omit_str (pes_Region s)),
      (''capacity'', Some (capacity_spec_json (pes_Capacity s))),
      (''valkey'', Some (jobj [(''enabled'', omit_bool (vi_Enabled (pes_Valkey s))), (''shards'', omit_int (vi_Shards (pes_Valkey s))),
         (''replicas'', omit_int (vi_Replicas (pes_Valkey s)))])),
      (''desiredState'', omit_str (pes_DesiredState s))]"

definition environmentYAML :: "console_env \<Rightarrow> platform_environment \<Rightarrow> gerr + string" where
  "environmentYAML env environment = co_yaml env (JObj
     [(''apiVersion'', JStr ''platform.example.io/v1alpha1''), (''kind'', JStr ''PlatformEnvironment''),
      (''metadata'', JObj [(''name'', JStr (om_Name (pe_Meta environment))), (''namespace'', JStr (om_Namespace (pe_Meta environment)))]),
      (''spec'', environment_spec_json (pe_Spec environment))])"

text \<open>The defaults an intent takes from the request; \<open>request\<close> has its namespace already.\<close>

definition complete_intent :: "draft_request \<Rightarrow> draft_intent \<Rightarrow> draft_intent" where
  "complete_intent request intent =
     intent\<lparr>di_ClassRef := or_else (di_ClassRef intent) (dr_ClassRef request),
       di_Namespace := or_else (di_Namespace intent) (dr_Namespace request),
       di_Region := or_else (di_Region intent) (dr_Region request),
       di_Name := or_else (di_Name intent) (dr_Name request),
       di_NodeCount := (if di_NodeCount intent = 0 then dr_NodeCount request else di_NodeCount intent)\<rparr>"

definition with_one_shard :: "draft_intent \<Rightarrow> draft_intent" where
  "with_one_shard intent =
     (if di_ValkeyShards intent = 0 \<and> di_ValkeyEnabled intent then intent\<lparr>di_ValkeyShards := 1\<rparr> else intent)"

definition intent_request :: "draft_intent \<Rightarrow> create_environment_request" where
  "intent_request i = \<lparr>cer_Name = di_Name i, cer_Namespace = di_Namespace i, cer_ClassRef = di_ClassRef i,
     cer_Region = di_Region i, cer_NodeCount = di_NodeCount i, cer_ValkeyEnabled = di_ValkeyEnabled i,
     cer_ValkeyShards = di_ValkeyShards i, cer_ValkeyReplicas = di_ValkeyReplicas i\<rparr>"

definition draft_response_of :: "console_env \<Rightarrow> draft_intent \<Rightarrow> draft_response handled" where
  "draft_response_of env intent =
     (case validateEnvironmentRequest env (intent_request intent) of
        Inl e \<Rightarrow> writeJSON 200 \<lparr>dp_Provider = co_provider env, dp_Intent = intent, dp_Valid = False, dp_Errors = [err_text e],
                   dp_Warnings = [], dp_WarningCodes = [], dp_YAML = []\<rparr>
      | Inr (environment, class) \<Rightarrow>
          (case environmentYAML env environment of
             Inl e \<Rightarrow> writeError 500 ''DraftRenderFailed'' (err_text e)
           | Inr text \<Rightarrow> writeJSON 200 \<lparr>dp_Provider = co_provider env, dp_Intent = intent, dp_Valid = True, dp_Errors = [],
               dp_Warnings = [''AI output is advisory. Review the fields; creation requires a separate explicit action.''],
               dp_WarningCodes = [''AdvisoryOnly''], dp_YAML = text\<rparr>))"

definition generateDraft :: "console_env \<Rightarrow> string \<Rightarrow> draft_response handled" where
  "generateDraft env body = decodeJSON env decode_draft_request body (\<lambda>request0.
     if trim_space (dr_Description request0) = [] \<or> 4000 < length (dr_Description request0)
     then writeError 400 ''InvalidRequest'' ''description must contain between 1 and 4000 characters''
     else (let request = request0\<lparr>dr_Namespace := or_else (dr_Namespace request0) ''default''\<rparr> in
       with_object ''EnvironmentClass'' (co_class env (dr_ClassRef request)) (\<lambda>class.
       case snd (co_drafts env request) of
         Inl (ProviderError code diagnostic requestID) \<Rightarrow>
           writeError 502 code ''The AI provider could not generate a valid draft. Nothing was submitted.''
       | Inl (OtherError e) \<Rightarrow> writeError 502 ''DraftGenerationFailed'' (err_text e)
       | Inr intent0 \<Rightarrow> (let intent = complete_intent request intent0 in
           refuse_if
             [(dr_ClassRef request \<noteq> [] \<and> di_ClassRef intent \<noteq> dr_ClassRef request, 422, ''DraftRejected'',
               ''generated classRef differs from the explicitly selected EnvironmentClass''),
              (dr_Namespace request \<noteq> [] \<and> di_Namespace intent \<noteq> dr_Namespace request, 422, ''DraftRejected'',
               ''generated namespace differs from the explicitly selected namespace'')]
             (draft_response_of env (with_one_shard intent))))))"

subsection \<open>The store of the console\<close>

definition validateArtifactEndpoint :: "string \<Rightarrow> gerr option" where
  "validateArtifactEndpoint raw =
     (case url_parse raw of
        None \<Rightarrow> Some (Err ''artifact endpoint does not parse'')
      | Some u \<Rightarrow> (let host = to_lower (url_Hostname u) in
          if u_Scheme u \<noteq> ''http'' \<or> u_User u \<noteq> None \<or> \<not> (host = ''localhost'' \<or> host = ''127.0.0.1'' \<or> host = ''::1'')
          then Some (Err (''artifact endpoint must be a local HTTP endpoint; refusing '' @ quoted raw)) else None))"

text \<open>The bucket and the KMS key of the store, or no store at all.\<close>

definition NewArtifactStoreFromEnvironment :: "(string \<Rightarrow> string) \<Rightarrow> gerr + (string \<times> string) option" where
  "NewArtifactStoreFromEnvironment getenv =
     (let endpoint = getenv ''PCP_ARTIFACT_ENDPOINT''; bucket = getenv ''PCP_ARTIFACT_BUCKET'' in
      if endpoint = [] \<or> bucket = [] then Inr None
      else checked (validateArtifactEndpoint endpoint)
        (sum_bind (NewS3StoreWithKMS
             \<lparr>AWS_ACCESS_KEY_ID = getenv ''AWS_ACCESS_KEY_ID'', AWS_SECRET_ACCESS_KEY = getenv ''AWS_SECRET_ACCESS_KEY'',
              AWS_SESSION_TOKEN = getenv ''AWS_SESSION_TOKEN''\<rparr>
             endpoint (or_else (getenv ''PCP_ARTIFACT_REGION'') ''us-east-1'') bucket (getenv ''PCP_ARTIFACT_KMS_KEY_ID''))
          (\<lambda>st. Inr (Some st))))"

end
