(* ===== verification/UrlText.thy ===== *)
theory UrlText
  imports Url
begin

section \<open>Writing URLs and queries as package net/url does\<close>

text \<open>
  What the console needs beyond Url to rewrite the credentials of a Git URL: the user name and the password
  on their own, URL.String, and the query of a URL as Values. A URL is kept with the texts of its path and
  fragment, from which EscapedPath and EscapedFragment take them back when they are validly encoded.
\<close>

record url_parts =
  up_Scheme :: string
  up_Opaque :: string
  up_User :: "(string \<times> string option) option"
  up_Host :: string
  up_OmitHost :: bool
  up_PathText :: string
  up_ForceQuery :: bool
  up_RawQuery :: string
  up_FragmentText :: string

subsection \<open>Escaping\<close>

datatype encode_mode = EncodePath | EncodeUserPassword | EncodeHost | EncodeQuery | EncodeFragment

definition should_escape :: "encode_mode \<Rightarrow> char \<Rightarrow> bool" where
  "should_escape m c =
     (if is_letter c \<or> is_digit c \<or> c \<in> set ''-_.~'' then False
      else if m = EncodeHost \<and> c \<in> set (''!$&()*+,;=:[]<>'' @ [CHR 0x22, CHR 0x27]) then False
      else if c \<in> set ''$&+,/:;=?@'' then
        (case m of
           EncodePath \<Rightarrow> c = CHR ''?''
         | EncodeUserPassword \<Rightarrow> c \<in> set ''@/?:''
         | EncodeHost \<Rightarrow> True
         | EncodeQuery \<Rightarrow> True
         | EncodeFragment \<Rightarrow> False)
      else \<not> (m = EncodeFragment \<and> c \<in> set ''!()*''))"

definition upper_hex :: "nat \<Rightarrow> char" where
  "upper_hex n = (if n < 10 then char_of (48 + n) else char_of (55 + n))"

definition escape_char :: "encode_mode \<Rightarrow> char \<Rightarrow> string" where
  "escape_char m c =
     (if m = EncodeQuery \<and> c = CHR '' '' then ''+''
      else if should_escape m c then (let n = (of_char c :: nat) in [CHR ''%'', upper_hex (n div 16), upper_hex (n mod 16)])
      else [c])"

definition escape :: "encode_mode \<Rightarrow> string \<Rightarrow> string" where
  "escape m s = concat (map (escape_char m) s)"

definition valid_encoded :: "encode_mode \<Rightarrow> string \<Rightarrow> bool" where
  "valid_encoded m s \<longleftrightarrow>
     list_all (\<lambda>c. c \<in> set (''!$&()*+,;=:@[]%'' @ [CHR 0x27]) \<or> \<not> should_escape m c) s"

text \<open>EscapedPath and EscapedFragment of what was parsed from a text.\<close>

definition escaped_text :: "encode_mode \<Rightarrow> string \<Rightarrow> string" where
  "escaped_text m s =
     (if valid_encoded m s then s
      else (case unescape EscapeOther s of Some t \<Rightarrow> escape m t | None \<Rightarrow> []))"

subsection \<open>Parsing\<close>

definition parse_user :: "string \<Rightarrow> (string \<times> string option) option" where
  "parse_user userinfo =
     (if \<not> list_all userinfo_char userinfo then None
      else if CHR '':'' \<notin> set userinfo then map_option (\<lambda>u. (u, None)) (unescape EscapeOther userinfo)
      else (let (u, p) = cut_at (CHR '':'') userinfo in
        case (unescape EscapeOther u, unescape EscapeOther p) of
          (Some a, Some b) \<Rightarrow> Some (a, Some b)
        | _ \<Rightarrow> None))"

definition parse_authority_parts :: "string \<Rightarrow> ((string \<times> string option) option \<times> string) option" where
  "parse_authority_parts a =
     (case last_cut (CHR ''@'') a of
        None \<Rightarrow> map_option (\<lambda>h. (None, h)) (parse_host a)
      | Some (user, host) \<Rightarrow>
          (case (parse_host host, parse_user user) of
             (Some h, Some u) \<Rightarrow> Some (Some u, h)
           | _ \<Rightarrow> None))"

definition cut_query :: "string \<Rightarrow> string \<times> bool \<times> string" where
  "cut_query rest =
     (let (front, query) = cut_at (CHR ''?'') rest in
      (front, CHR ''?'' \<in> set rest \<and> query = [], query))"

definition with_path :: "url_parts \<Rightarrow> string \<Rightarrow> url_parts option" where
  "with_path u p = (if unescape EscapeOther p = None then None else Some (u\<lparr>up_PathText := p\<rparr>))"

definition parse_rest :: "string \<Rightarrow> string \<Rightarrow> url_parts option" where
  "parse_rest scheme rest0 =
     (let (rest, force, query) = cut_query rest0;
          base = \<lparr>up_Scheme = scheme, up_Opaque = [], up_User = None, up_Host = [], up_OmitHost = False,
                  up_PathText = [], up_ForceQuery = force, up_RawQuery = query, up_FragmentText = []\<rparr>
      in if \<not> has_prefix rest ''/'' \<and> scheme \<noteq> [] then Some (base\<lparr>up_Opaque := rest\<rparr>)
         else if \<not> has_prefix rest ''/'' \<and> CHR '':'' \<in> set (fst (cut_at (CHR ''/'') rest)) then None
         else if (scheme \<noteq> [] \<or> \<not> has_prefix rest ''///'') \<and> has_prefix rest ''//'' then
           (let a = drop 2 rest;
                authority = takeWhile (\<lambda>x. x \<noteq> CHR ''/'') a; path = dropWhile (\<lambda>x. x \<noteq> CHR ''/'') a
            in case parse_authority_parts authority of
                 None \<Rightarrow> None
               | Some (user, host) \<Rightarrow> with_path (base\<lparr>up_User := user, up_Host := host\<rparr>) path)
         else with_path (base\<lparr>up_OmitHost := (scheme \<noteq> [])\<rparr>) rest)"

definition url_parts_of :: "string \<Rightarrow> url_parts option" where
  "url_parts_of raw =
     (let (front, frag) = cut_at (CHR ''#'') raw in
      if has_control_byte front then None
      else (case (if front = ''*'' then Some ([], front) else get_scheme [] front) of
          None \<Rightarrow> None
        | Some (scheme, rest) \<Rightarrow>
            (case parse_rest (to_lower scheme) rest of
               None \<Rightarrow> None
             | Some u \<Rightarrow> if unescape EscapeOther frag = None then None else Some (u\<lparr>up_FragmentText := frag\<rparr>))))"

subsection \<open>URL.String\<close>

definition user_text :: "string \<times> string option \<Rightarrow> string" where
  "user_text u =
     (if fst u = [] \<and> (snd u = None \<or> snd u = Some []) then []
      else escape EncodeUserPassword (fst u)
        @ (case snd u of None \<Rightarrow> [] | Some p \<Rightarrow> '':'' @ escape EncodeUserPassword p))"

definition authority_text :: "url_parts \<Rightarrow> string" where
  "authority_text u =
     (if (up_Scheme u \<noteq> [] \<or> up_Host u \<noteq> [] \<or> up_User u \<noteq> None)
         \<and> \<not> (up_OmitHost u \<and> up_Host u = [] \<and> up_User u = None) then
        (if up_Host u \<noteq> [] \<or> up_PathText u \<noteq> [] \<or> up_User u \<noteq> None then ''//'' else [])
        @ (case up_User u of None \<Rightarrow> [] | Some a \<Rightarrow> user_text a @ ''@'')
        @ escape EncodeHost (up_Host u)
      else [])"

definition url_String :: "url_parts \<Rightarrow> string" where
  "url_String u =
     (let scheme = (if up_Scheme u \<noteq> [] then up_Scheme u @ '':'' else []);
          path = escaped_text EncodePath (up_PathText u);
          front = scheme @ authority_text u
            @ (if path \<noteq> [] \<and> hd path \<noteq> CHR ''/'' \<and> up_Host u \<noteq> [] then ''/'' else []);
          dot = (if front = [] \<and> CHR '':'' \<in> set (fst (cut_at (CHR ''/'') path)) then ''./'' else [])
      in (if up_Opaque u \<noteq> [] then scheme @ up_Opaque u else front @ dot @ path)
         @ (if up_ForceQuery u \<or> up_RawQuery u \<noteq> [] then ''?'' @ up_RawQuery u else [])
         @ (if up_FragmentText u \<noteq> [] then ''#'' @ escaped_text EncodeFragment (up_FragmentText u) else []))"

subsection \<open>Queries\<close>

text \<open>URL.Query drops what does not parse; Values are the entries in the order of the query, per key.\<close>

type_synonym query_values = "(string \<times> string) list"

definition query_unescape :: "string \<Rightarrow> string option" where
  "query_unescape s = unescape EscapeOther (map (\<lambda>c. if c = CHR ''+'' then CHR '' '' else c) s)"

definition query_entry :: "string \<Rightarrow> query_values" where
  "query_entry part =
     (if part = [] \<or> CHR '';'' \<in> set part then []
      else (let (k, v) = cut_at (CHR ''='') part in
        case (query_unescape k, query_unescape v) of (Some a, Some b) \<Rightarrow> [(a, b)] | _ \<Rightarrow> []))"

definition url_Query :: "string \<Rightarrow> query_values" where
  "url_Query raw = concat (map query_entry (split_on (CHR ''&'') raw))"

definition values_Set :: "query_values \<Rightarrow> string \<Rightarrow> string \<Rightarrow> query_values" where
  "values_Set q k v = (k, v) # filter (\<lambda>e. fst e \<noteq> k) q"

definition values_Encode :: "query_values \<Rightarrow> string" where
  "values_Encode q =
     join_with ''&'' (map (\<lambda>(k, v). escape EncodeQuery k @ ''='' @ escape EncodeQuery v) (sort_key fst q))"

end
