(* ===== verification/ConsoleClasses.thy ===== *)
theory ConsoleClasses
  imports Console UrlText
begin

section \<open>Environment classes in the console: classes.go and class\_templates.go\<close>

text \<open>
  Classes and their templates: what may be created, and what may be shown of what exists. The strings that
  look like credentials are redacted in the inputs, the URL of the source and the runtime objects of a class.
  A runtime object is decoded into a Go map, redacted and encoded again: the keys sorted, the last of
  repeated keys, the numbers as float64 prints them (the parameter \<open>co_float\<close>, \<open>None\<close> out of range). The order in
  which Go ranges over a map has no effect here: the diagnostics are sorted at the end. The times of a template are
  shown as instants, the header Location of a created class is left out.
\<close>

subsection \<open>Sensitive names\<close>

definition sensitive_fragments :: "string list" where
  "sensitive_fragments = [''password'', ''passwd'', ''token'', ''privatekey'', ''secretaccesskey'', ''accesskeyid'',
     ''authorization'', ''clientsecret'']"

definition sensitiveClassKey :: "string \<Rightarrow> bool" where
  "sensitiveClassKey raw =
     (let key = filter (\<lambda>c. c \<notin> set ''_-.'') (to_lower raw) in
      if has_suffix key ''ref'' \<or> has_suffix key ''refs'' \<or> key = ''serviceaccounttoken'' \<or> key = ''automountserviceaccounttoken''
      then False
      else list_ex (\<lambda>fragment. str_contains key fragment) sensitive_fragments)"

subsection \<open>Decoding into a Go map and encoding it again\<close>

text \<open>The entries of a map: each key once with its last value, in key order.\<close>

definition map_entries :: "(string \<times> 'a) list \<Rightarrow> (string \<times> 'a) list" where
  "map_entries es = sort_key fst (foldl (\<lambda>acc e. e # filter (\<lambda>x. fst x \<noteq> fst e) acc) [] es)"

fun go_value :: "(string \<Rightarrow> string option) \<Rightarrow> go_any \<Rightarrow> go_any option" where
  "go_value fl ANull = Some ANull"
| "go_value fl (ABool b) = Some (ABool b)"
| "go_value fl (AFloat t) = map_option AFloat (fl t)"
| "go_value fl (AStr t) = Some (AStr t)"
| "go_value fl (AList vs) =
     (let ws = map (go_value fl) vs in if None \<in> set ws then None else Some (AList (map the ws)))"
| "go_value fl (AMap es) =
     (let ws = map (\<lambda>e. (fst e, go_value fl (snd e))) es in
      if None \<in> snd ` set ws then None else Some (AMap (map_entries (map (\<lambda>e. (fst e, the (snd e))) ws))))"

text \<open>json.Unmarshal into a \<open>map[string]any\<close>: null is the nil map.\<close>

definition decode_go_map :: "(string \<Rightarrow> string option) \<Rightarrow> string \<Rightarrow> go_any option" where
  "decode_go_map fl raw =
     (case json_whole raw of
        None \<Rightarrow> None
      | Some v \<Rightarrow> (case v of AMap es \<Rightarrow> go_value fl v | ANull \<Rightarrow> Some ANull | _ \<Rightarrow> None))"

fun any_text :: "go_any \<Rightarrow> string" where
  "any_text ANull = ''null''"
| "any_text (ABool b) = (if b then ''true'' else ''false'')"
| "any_text (AFloat t) = t"
| "any_text (AStr t) = json_string t"
| "any_text (AList vs) = ''['' @ join_with '','' (map any_text vs) @ '']''"
| "any_text (AMap es) = ''{'' @ join_with '','' (map (\<lambda>e. json_string (fst e) @ '':'' @ any_text (snd e)) es) @ ''}''"

subsection \<open>Redaction\<close>

definition redacted_word :: string where "redacted_word = ''[redacted]''"

definition names_a_secret :: "(string \<times> go_any) list \<Rightarrow> bool" where
  "names_a_secret es \<longleftrightarrow> (case map_of es ''name'' of Some (AStr n) \<Rightarrow> sensitiveClassKey n | _ \<Rightarrow> False)"

text \<open>
  \<open>redactClassValue\<close> changes a map in place and reports whether it did: here the changed value and the report.
  The value next to a sensitive name, and every nonempty string under a sensitive key, are replaced.
\<close>

definition secret_entry :: "bool \<Rightarrow> string \<times> go_any \<Rightarrow> bool" where
  "secret_entry named e \<longleftrightarrow>
     (named \<and> fst e = ''value'') \<or>
     (sensitiveClassKey (fst e) \<and> (case snd e of AStr t \<Rightarrow> t \<noteq> [] | _ \<Rightarrow> False))"

fun redactClassValue :: "go_any \<Rightarrow> go_any" where
  "redactClassValue (AMap es) =
     AMap (map (\<lambda>e. (fst e, if secret_entry (names_a_secret es) e then AStr redacted_word else redactClassValue (snd e))) es)"
| "redactClassValue (AList vs) = AList (map redactClassValue vs)"
| "redactClassValue ANull = ANull"
| "redactClassValue (ABool b) = ABool b"
| "redactClassValue (AFloat t) = AFloat t"
| "redactClassValue (AStr t) = AStr t"

fun class_value_redacted :: "go_any \<Rightarrow> bool" where
  "class_value_redacted (AMap es) =
     list_ex (\<lambda>e. secret_entry (names_a_secret es) e \<or> class_value_redacted (snd e)) es"
| "class_value_redacted (AList vs) = list_ex class_value_redacted vs"
| "class_value_redacted ANull = False"
| "class_value_redacted (ABool b) = False"
| "class_value_redacted (AFloat t) = False"
| "class_value_redacted (AStr t) = False"

definition is_secret_object :: "runtime_object \<Rightarrow> go_any \<Rightarrow> bool" where
  "is_secret_object object v \<longleftrightarrow> ro_Resource object = ''secrets''
     \<or> (case v of AMap es \<Rightarrow> (case map_of es ''kind'' of Some (AStr k) \<Rightarrow> equal_fold k ''Secret'' | _ \<Rightarrow> False) | _ \<Rightarrow> False)"

definition secret_stub :: go_any where
  "secret_stub = AMap [(''kind'', AStr ''Secret''), (''redacted'', ABool True)]"

text \<open>The redacted object, and whether anything was redacted.\<close>

definition redact_object :: "(string \<Rightarrow> string option) \<Rightarrow> runtime_object \<Rightarrow> bool \<times> runtime_object" where
  "redact_object fl object =
     (case decode_go_map fl (ro_Object object) of
        None \<Rightarrow> (False, object)
      | Some v \<Rightarrow>
          if is_secret_object object v then (True, object\<lparr>ro_Object := any_text secret_stub\<rparr>)
          else (class_value_redacted v, object\<lparr>ro_Object := any_text (redactClassValue v)\<rparr>))"

definition redact_endpoint :: "string \<Rightarrow> bool \<times> string" where
  "redact_endpoint endpoint =
     (if ValidateEmulatorEndpoint endpoint \<noteq> None then (True, ''[redacted invalid endpoint]'') else (False, endpoint))"

definition redact_profile :: "execution_profile option \<Rightarrow> bool \<times> execution_profile option" where
  "redact_profile profile =
     (case profile of
        None \<Rightarrow> (False, None)
      | Some p \<Rightarrow> (let (a, s3) = redact_endpoint (ep_S3Endpoint p); (b, sts) = redact_endpoint (ep_STSEndpoint p)
                  in (a \<or> b, Some (p\<lparr>ep_S3Endpoint := s3, ep_STSEndpoint := sts\<rparr>))))"

definition secret_input :: "string \<times> string \<Rightarrow> bool" where
  "secret_input e \<longleftrightarrow> sensitiveClassKey (fst e) \<and> snd e \<noteq> []"

definition redact_inputs :: "gomap \<Rightarrow> bool \<times> gomap" where
  "redact_inputs m =
     (list_ex secret_input m, map (\<lambda>e. if secret_input e then (fst e, redacted_word) else e) m)"

definition redact_password :: "string \<Rightarrow> bool \<times> string" where
  "redact_password raw =
     (case url_parts_of raw of
        None \<Rightarrow> (False, raw)
      | Some u \<Rightarrow> (case up_User u of
            Some (name, Some p) \<Rightarrow> (True, url_String (u\<lparr>up_User := Some (name, Some redacted_word)\<rparr>))
          | _ \<Rightarrow> (False, raw)))"

text \<open>Setting every sensitive key leaves one entry of each; the query is rewritten when anything was redacted so far.\<close>

definition redact_query :: "bool \<Rightarrow> string \<Rightarrow> bool \<times> string" where
  "redact_query before raw =
     (case url_parts_of raw of
        None \<Rightarrow> (before, raw)
      | Some u \<Rightarrow>
          (let query = url_Query (up_RawQuery u);
               secret = filter sensitiveClassKey (remdups (map fst query));
               changed = foldl (\<lambda>q k. values_Set q k redacted_word) query secret;
               redacted = (before \<or> secret \<noteq> [])
           in (redacted, if redacted then url_String (u\<lparr>up_RawQuery := values_Encode changed\<rparr>) else raw)))"

definition redactClassSpec ::
  "(string \<Rightarrow> string option) \<Rightarrow> environment_class_spec \<Rightarrow> bool \<times> environment_class_spec" where
  "redactClassSpec fl spec =
     (let (a, profile) = redact_profile (ecs_ExecutionProfile spec);
          (b, inputs) = redact_inputs (ecs_Inputs spec);
          (c, url1) = redact_password (src_URL (ecs_Source spec));
          (d, url2) = redact_query (a \<or> b \<or> c) url1;
          objects = map (redact_object fl) (rtp_RuntimeObjects (ecs_RuntimeProfile spec))
      in (d \<or> list_ex fst objects,
          spec\<lparr>ecs_ExecutionProfile := profile, ecs_Inputs := inputs, ecs_Source := (ecs_Source spec)\<lparr>src_URL := url2\<rparr>,
            ecs_RuntimeProfile := (ecs_RuntimeProfile spec)\<lparr>rtp_RuntimeObjects := map snd objects\<rparr>\<rparr>))"

subsection \<open>The validation of a class\<close>

record class_diagnostic =
  cd_Code :: string
  cd_Field :: string
  cd_Message :: string

record class_validation =
  cval_Valid :: bool
  cval_Errors :: "string list"
  cval_Warnings :: "string list"
  cval_ErrorDetails :: "class_diagnostic list"
  cval_WarningDetails :: "class_diagnostic list"
  cval_YAML :: string

definition diagnostic :: "string \<Rightarrow> string \<Rightarrow> string \<Rightarrow> class_diagnostic" where
  "diagnostic code field message = \<lparr>cd_Code = code, cd_Field = field, cd_Message = message\<rparr>"

definition validation_reject :: "string \<Rightarrow> string \<Rightarrow> string \<Rightarrow> class_validation \<Rightarrow> class_validation" where
  "validation_reject code field message v =
     v\<lparr>cval_Errors := cval_Errors v @ [message], cval_ErrorDetails := cval_ErrorDetails v @ [diagnostic code field message]\<rparr>"

definition classObject :: "create_class_request \<Rightarrow> environment_class" where
  "classObject request = zero_environment_class\<lparr>
     ec_Meta := empty_meta\<lparr>om_Name := ccr_Name request, om_Labels := [(''platform.example.io/managed-by'', ''platform-api'')]\<rparr>,
     ec_Spec := ccr_Spec request\<rparr>"

definition pinnedRevision :: "string \<Rightarrow> bool" where
  "pinnedRevision s \<longleftrightarrow> 40 \<le> length s \<and> length s \<le> 64 \<and> list_all is_hex s"

definition source_path_invalid :: "string \<Rightarrow> bool" where
  "source_path_invalid p \<longleftrightarrow> p = [] \<or> CHR 0x5C \<in> set p \<or> is_abs_path p \<or> path_clean p = ''..'' \<or> has_prefix (path_clean p) ''../''"

text \<open>The diagnostics of a check, and of the checks \<open>require\<close> and IsDNS1123Subdomain.\<close>

definition report :: "bool \<Rightarrow> string \<Rightarrow> string \<Rightarrow> string \<Rightarrow> class_diagnostic list" where
  "report bad code field message = (if bad then [diagnostic code field message] else [])"

definition required :: "string \<Rightarrow> string \<Rightarrow> class_diagnostic list" where
  "required field v = report (trim_space v = []) ''Required'' field (field @ '' is required'')"

definition name_field :: "name_validation \<Rightarrow> string \<Rightarrow> string \<Rightarrow> class_diagnostic list" where
  "name_field nv field v =
     report (nv_Subdomain nv v \<noteq> []) ''KubernetesNameInvalid'' field (field @ '': '' @ join_with '', '' (nv_Subdomain nv v))"

fun region_diagnostics :: "string list \<Rightarrow> string list \<Rightarrow> class_diagnostic list" where
  "region_diagnostics seen [] = []"
| "region_diagnostics seen (r # rs) =
     report (trim_space r = [] \<or> r \<in> set seen) ''AllowedRegionsInvalid'' ''allowedRegions''
       ''allowedRegions must contain unique non-empty regions''
     @ region_diagnostics (r # seen) rs"

definition object_diagnostics :: "(string \<Rightarrow> string option) \<Rightarrow> nat \<times> runtime_object \<Rightarrow> class_diagnostic list" where
  "object_diagnostics fl io = (let object = snd io; field = ''runtimeObjects['' @ show_nat (fst io) @ '']'' in
     report (ro_Version object = [] \<or> ro_Resource object = [] \<or> ro_Object object = []) ''RuntimeObjectIncomplete'' field
       (field @ '' requires version, resource and object'')
     @ report (decode_go_map fl (ro_Object object) = None \<or> decode_go_map fl (ro_Object object) = Some ANull)
         ''RuntimeObjectInvalid'' (field @ ''.object'') (field @ ''.object must be a JSON object''))"

definition backend_diagnostics :: "name_validation \<Rightarrow> environment_class_spec \<Rightarrow> class_diagnostic list" where
  "backend_diagnostics nv spec = (let be = ecs_Backend spec; ex = ecs_Executor spec; rp = ecs_RunnerProfile spec;
       account = sar_ServiceAccountName (be_AuthRef be) in
     report (be_Type be \<noteq> ''s3'') ''BackendTypeUnsupported'' ''backend.type'' ''backend.type must be s3''
     @ name_field nv ''backend.configRef.name'' (be_ConfigRef be)
     @ name_field nv ''backend.authRef.serviceAccountName'' account
     @ name_field nv ''runnerProfile.serviceAccountName'' (rp_ServiceAccountName rp)
     @ report (account \<noteq> rp_ServiceAccountName rp) ''ServiceAccountMismatch'' ''backend.authRef.serviceAccountName''
         ''backend and runner service accounts must match''
     @ report (be_LockTimeout be \<le> 0) ''PositiveRequired'' ''backend.lockTimeout'' ''backend.lockTimeout must be positive''
     @ report (ex_ExecutionTimeout ex \<le> 0) ''PositiveRequired'' ''executor.executionTimeout''
         ''executor.executionTimeout must be positive'')"

definition runner_diagnostics :: "environment_class_spec \<Rightarrow> class_diagnostic list" where
  "runner_diagnostics spec = (let ex = ecs_Executor spec; rp = ecs_RunnerProfile spec in
     required ''executor.image'' (ex_Image ex)
     @ required ''executor.terraformVersion'' (ex_TerraformVersion ex)
     @ required ''executor.workDir'' (ex_WorkDir ex)
     @ required ''runnerProfile.image'' (rp_Image rp)
     @ required ''runnerProfile.imageDigest'' (rp_ImageDigest rp)
     @ required ''runnerProfile.terraformVersion'' (rp_TerraformVersion rp)
     @ report (ex_TerraformVersion ex \<noteq> rp_TerraformVersion rp \<or> ex_Image ex \<noteq> rp_Image rp) ''RunnerMismatch'' ''runnerProfile''
         ''executor and runner image / Terraform version must match''
     @ report (case ex_Parallelism ex of None \<Rightarrow> False | Some n \<Rightarrow> n < 1) ''PositiveRequired'' ''executor.parallelism''
         ''executor.parallelism must be positive'')"

definition target_diagnostics :: "environment_class_spec \<Rightarrow> class_diagnostic list" where
  "target_diagnostics spec = (let t = ecs_Target spec; regions = ecs_AllowedRegions spec in
     (case MaterializeTarget (target_expectation_of t) of
        Inl e \<Rightarrow> [diagnostic ''TargetInvalid'' ''target'' (err_text e)] | Inr _ \<Rightarrow> [])
     @ required ''target.region'' (tr_Region t)
     @ region_diagnostics [] regions
     @ report (regions \<noteq> [] \<and> tr_Region t \<notin> set regions) ''RegionNotAllowed'' ''target.region''
         ''target.region must be included in allowedRegions'')"

definition policy_diagnostics :: "environment_class_spec \<Rightarrow> class_diagnostic list" where
  "policy_diagnostics spec = (let b = ecs_CapacityBounds spec in
     report (cb_MinNodeCount b < 0 \<or> cb_MaxNodeCount b < 0 \<or> cb_MaxEnvironments b < 0 \<or> cb_MaxConcurrentPlans b < 0
           \<or> cb_MaxConcurrentApplies b < 0) ''CapacityNegative'' ''capacityBounds'' ''capacity limits cannot be negative''
     @ report (cb_MaxNodeCount b > 0 \<and> cb_MinNodeCount b > cb_MaxNodeCount b) ''CapacityInverted'' ''capacityBounds''
         ''minimum node count cannot exceed maximum''
     @ report (ecs_ApprovalPolicy spec \<noteq> ApprovalPolicyManual \<and> ecs_ApprovalPolicy spec \<noteq> ApprovalPolicyAutomatic)
         ''ApprovalPolicyInvalid'' ''approvalPolicy'' ''approvalPolicy must be Manual or Automatic'')"

definition class_diagnostics :: "console_env \<Rightarrow> create_class_request \<Rightarrow> class_diagnostic list" where
  "class_diagnostics env request = (let spec = ccr_Spec request; nv = co_names env; fl = co_float env in
     report (nv_Subdomain nv (ccr_Name request) \<noteq> []) ''KubernetesNameInvalid'' ''name''
       (''name: '' @ join_with '', '' (nv_Subdomain nv (ccr_Name request)))
     @ required ''version'' (ecs_Version spec)
     @ required ''source.url'' (src_URL (ecs_Source spec))
     @ report (\<not> pinnedRevision (src_Revision (ecs_Source spec))) ''SourceRevisionUnpinned'' ''source.revision''
         ''source.revision must be a pinned 40-64 character hexadecimal commit''
     @ report (source_path_invalid (src_Path (ecs_Source spec))) ''SourcePathInvalid'' ''source.path''
         ''source.path must be a relative path inside the repository''
     @ backend_diagnostics nv spec
     @ runner_diagnostics spec
     @ target_diagnostics spec
     @ policy_diagnostics spec
     @ concat (map (object_diagnostics fl) (enumerate 0 (rtp_RuntimeObjects (ecs_RuntimeProfile spec))))
     @ report (fst (redactClassSpec fl spec)) ''InlineCredentialsForbidden'' ''spec''
         ''Inline credentials and Secret resources are not accepted; use credential references'')"

definition backendWarning :: string where
  "backendWarning = ''Backend configuration must exist in each environment namespace. Ready confirms class admission and controller reconciliation; source access, runner images and infrastructure execution are checked later.''"

text \<open>An invalid execution profile ends the validation with its one diagnostic and no warning.\<close>

definition profile_diagnostic :: "environment_class_spec \<Rightarrow> class_diagnostic option" where
  "profile_diagnostic spec =
     (case ecs_ExecutionProfile spec of
        None \<Rightarrow> None
      | Some p \<Rightarrow> (case ValidateExecutionProfile (Some p) of
            Some e \<Rightarrow> Some (diagnostic ''ExecutionProfileInvalid'' ''executionProfile'' (err_text e))
          | None \<Rightarrow> if ep_CredentialsIdentity p \<noteq> []
              then Some (diagnostic ''ResolvedCredentialsForbidden'' ''executionProfile.credentialsIdentity''
                ''class cannot supply resolved credential identity'') else None))"

definition validateClassRequest :: "console_env \<Rightarrow> create_class_request \<Rightarrow> class_validation" where
  "validateClassRequest env request =
     (case profile_diagnostic (ccr_Spec request) of
        Some d \<Rightarrow> \<lparr>cval_Valid = False, cval_Errors = [cd_Message d], cval_Warnings = [], cval_ErrorDetails = [d],
                   cval_WarningDetails = [], cval_YAML = []\<rparr>
      | None \<Rightarrow> (let details = sort_key cd_Message (class_diagnostics env request); valid = (details = []) in
          \<lparr>cval_Valid = valid, cval_Errors = map cd_Message details, cval_Warnings = [backendWarning], cval_ErrorDetails = details,
           cval_WarningDetails = [diagnostic ''BackendPrerequisites'' ''backend.configRef'' backendWarning],
           cval_YAML = (if valid then co_class_yaml env (classObject request) else [])\<rparr>))"

subsection \<open>Reading classes\<close>

record class_detail =
  cld_View :: class_view
  cld_Spec :: environment_class_spec
  cld_Conditions :: "condition list"
  cld_SpecDigest :: string
  cld_Redacted :: bool
  cld_YAML :: string

definition classUsage :: "platform_environment list \<Rightarrow> string \<Rightarrow> int" where
  "classUsage items name = class_environments items name"

definition classDetail :: "console_env \<Rightarrow> environment_class \<Rightarrow> int \<Rightarrow> class_detail" where
  "classDetail env class usage =
     (let (redacted, spec) = redactClassSpec (co_float env) (ec_Spec class) in
      \<lparr>cld_View = (classView class)\<lparr>clv_UsageCount := usage\<rparr>, cld_Spec = spec,
       cld_Conditions = ecst_Conditions (ec_Status class), cld_SpecDigest = ecst_SpecDigest (ec_Status class),
       cld_Redacted = redacted,
       cld_YAML = co_class_yaml env (classObject \<lparr>ccr_Name = om_Name (ec_Meta class), ccr_Spec = spec\<rparr>)\<rparr>)"

definition listClasses :: "console_env \<Rightarrow> class_view list handled" where
  "listClasses env = with_list (co_classes env) (\<lambda>classes.
     with_object ''PlatformEnvironment'' (co_environments env) (\<lambda>environments.
       writeJSON 200 (sort_key clv_Name
         (map (\<lambda>c. (classView c)\<lparr>clv_UsageCount := classUsage environments (om_Name (ec_Meta c))\<rparr>) classes))))"

definition getClass :: "console_env \<Rightarrow> string \<Rightarrow> class_detail handled" where
  "getClass env name = with_object ''EnvironmentClass'' (co_class env name) (\<lambda>class.
     with_object ''PlatformEnvironment'' (co_environments env) (\<lambda>environments.
       writeJSON 200 (classDetail env class (classUsage environments (om_Name (ec_Meta class))))))"

subsection \<open>Creating and deleting classes\<close>

datatype class_answer =
    ClassShown class_detail
  | ClassRejected string "string list" "class_diagnostic list"
  | ClassDeleting string

definition writeClassMutationError :: "gerr \<Rightarrow> 'b handled" where
  "writeClassMutationError e =
     (case api_reason_of e of
        Some AlreadyExists \<Rightarrow> writeError 409 ''ClassAlreadyExists'' ''A class with this name already exists; choose a new name or version''
      | Some Conflict \<Rightarrow> writeError 409 ''StaleClass'' (err_text e)
      | Some Invalid \<Rightarrow> writeError 422 ''ClassRejected'' (err_text e)
      | Some BadRequest \<Rightarrow> writeError 422 ''ClassRejected'' (err_text e)
      | Some Forbidden \<Rightarrow> writeError 403 ''ClassForbidden'' (err_text e)
      | Some NotFound \<Rightarrow> writeError 404 ''NotFound'' ''EnvironmentClass was not found''
      | _ \<Rightarrow> writeError 503 ''KubernetesWriteFailed'' (err_text e))"

definition validateClass :: "console_env \<Rightarrow> string \<Rightarrow> class_validation handled" where
  "validateClass env body = decodeJSON env (co_class_request env) body (\<lambda>request.
     let result = validateClassRequest env request; class = classObject request in
     if \<not> cval_Valid result then writeJSON 200 result
     else after_write (CreateClass True class) (co_create_class env True class)
       (\<lambda>e. if api_reason_of e \<in> {Some Invalid, Some AlreadyExists, Some BadRequest}
            then writeJSON 200 (validation_reject ''AdmissionRejected'' [] (err_text e) (result\<lparr>cval_Valid := False\<rparr>))
            else writeClassMutationError e)
       (\<lambda>_. writeJSON 200 result))"

definition createClass :: "console_env \<Rightarrow> string \<Rightarrow> class_answer handled" where
  "createClass env body = decodeJSON env (co_class_request env) body (\<lambda>request.
     let result = validateClassRequest env request; class = classObject request in
     if \<not> cval_Valid result
     then writeJSON 422 (ClassRejected (join_with ''; '' (cval_Errors result)) (cval_Errors result) (cval_ErrorDetails result))
     else after_write (CreateClass False class) (co_create_class env False class) writeClassMutationError
       (\<lambda>stored. writeJSON 201 (ClassShown (classDetail env stored 0))))"

record delete_class_request =
  dcr_UID :: string
  dcr_ConfirmName :: string

definition decode_delete_class :: "go_any \<Rightarrow> delete_class_request option" where
  "decode_delete_class v = decode_struct True
     [(''uid'', text_field (\<lambda>t r. r\<lparr>dcr_UID := t\<rparr>)), (''confirmName'', text_field (\<lambda>t r. r\<lparr>dcr_ConfirmName := t\<rparr>))] v
     \<lparr>dcr_UID = [], dcr_ConfirmName = []\<rparr>"

definition unit_answer :: "gerr option \<Rightarrow> gerr + unit" where
  "unit_answer r = (case r of Some e \<Rightarrow> Inl e | None \<Rightarrow> Inr ())"

definition deleteClass :: "console_env \<Rightarrow> string \<Rightarrow> string \<Rightarrow> class_answer handled" where
  "deleteClass env name body = decodeJSON env decode_delete_class body (\<lambda>request.
     if dcr_UID request = [] \<or> dcr_ConfirmName request \<noteq> name
     then writeError 400 ''ClassConfirmationRequired'' ''UID and exact class name confirmation are required''
     else with_object ''EnvironmentClass'' (co_class env name) (\<lambda>class.
     if om_UID (ec_Meta class) \<noteq> dcr_UID request
     then writeError 409 ''StaleClass'' ''EnvironmentClass identity changed; refresh before deleting''
     else with_object ''PlatformEnvironment'' (co_environments env) (\<lambda>environments.
     if classUsage environments name > 0
     then writeError 409 ''ClassInUse'' (''EnvironmentClass is referenced by '' @ show_int (classUsage environments name) @ '' environments'')
     else (let removal = DeleteClass (ec_Meta class) (dcr_UID request) (om_ResourceVersion (ec_Meta class)) in
       after_write removal (unit_answer (co_delete env removal)) writeClassMutationError
         (\<lambda>_. writeJSON 202 (ClassDeleting name))))))"

subsection \<open>Templates of classes\<close>

record class_template =
  ct_Request :: class_template_request
  ct_UID :: string
  ct_CreatedAt :: time
  ct_Redacted :: bool

definition classTemplateNamespace :: string where "classTemplateNamespace = ''default''"

definition classTemplatePrefix :: string where "classTemplatePrefix = ''pcp-class-template-''"

definition classTemplateLabel :: string where "classTemplateLabel = ''platform.example.io/configuration-kind''"

definition template_labels :: gomap where
  "template_labels = [(classTemplateLabel, ''class-template''), (''platform.example.io/managed-by'', ''platform-api'')]"

definition isClassTemplate :: "config_map \<Rightarrow> bool" where
  "isClassTemplate config \<longleftrightarrow> (let m = cm_Meta config in
     om_Namespace m = classTemplateNamespace \<and> has_prefix (om_Name m) classTemplatePrefix
     \<and> glookup (om_Labels m) classTemplateLabel = ''class-template''
     \<and> glookup (om_Labels m) ''platform.example.io/managed-by'' = ''platform-api'')"

definition templateView :: "console_env \<Rightarrow> config_map \<Rightarrow> class_template option" where
  "templateView env config =
     (case co_template_data env (glookup (cm_Data config) ''template.json'') of
        None \<Rightarrow> None
      | Some v \<Rightarrow> (let (redacted, spec) = redactClassSpec (co_float env) (ctr_Spec v) in
          Some \<lparr>ct_Request = v\<lparr>ctr_Name := trim_prefix (om_Name (cm_Meta config)) classTemplatePrefix, ctr_Spec := spec\<rparr>,
                ct_UID = om_UID (cm_Meta config), ct_CreatedAt = om_CreationTimestamp (cm_Meta config), ct_Redacted = redacted\<rparr>))"

fun template_views :: "console_env \<Rightarrow> config_map list \<Rightarrow> string + class_template list" where
  "template_views env [] = Inr []"
| "template_views env (c # cs) =
     (if \<not> isClassTemplate c then template_views env cs
      else (case templateView env c of
          None \<Rightarrow> Inl (om_Name (cm_Meta c))
        | Some v \<Rightarrow> (case template_views env cs of Inl name \<Rightarrow> Inl name | Inr vs \<Rightarrow> Inr (v # vs))))"

definition listClassTemplates :: "console_env \<Rightarrow> class_template list handled" where
  "listClassTemplates env =
     with_object ''ClassTemplate'' (co_configs env classTemplateNamespace template_labels) (\<lambda>configs.
       case template_views env configs of
         Inl name \<Rightarrow> writeError 503 ''TemplateUnreadable'' (''A saved template contains invalid configuration: '' @ name)
       | Inr views \<Rightarrow> writeJSON 200 (sort_key (\<lambda>v. ctr_Name (ct_Request v)) views))"

text \<open>
  json.Marshal writes a RawExtension compact: no space outside strings, the characters of HTML and the line
  separators escaped. The objects of a valid class are JSON, so the encoding cannot fail.
\<close>

fun json_compact :: "bool \<Rightarrow> string \<Rightarrow> string" where
  "json_compact instr [] = []"
| "json_compact instr (c # cs) =
     (if \<not> instr then
        (if json_space c then json_compact False cs else c # json_compact (c = CHR 0x22) cs)
      else if c = CHR 0x5C then (case cs of [] \<Rightarrow> [c] | e # es \<Rightarrow> c # e # json_compact True es)
      else if c = CHR 0x22 then c # json_compact False cs
      else if has_prefix (c # cs) [CHR 0xE2, CHR 0x80] \<and> drop 1 cs \<noteq> [] \<and> cs ! 1 \<in> {CHR 0xA8, CHR 0xA9}
      then [CHR 0x5C] @ ''u202'' @ [if cs ! 1 = CHR 0xA8 then CHR ''8'' else CHR ''9''] @ json_compact True (drop 2 cs)
      else if c \<in> {CHR 0x3C, CHR 0x3E, CHR 0x26} then json_char c @ json_compact True cs
      else c # json_compact True cs)"

definition compact_objects :: "environment_class_spec \<Rightarrow> environment_class_spec" where
  "compact_objects spec = spec\<lparr>ecs_RuntimeProfile := (ecs_RuntimeProfile spec)\<lparr>rtp_RuntimeObjects :=
     map (\<lambda>o'. o'\<lparr>ro_Object := json_compact False (ro_Object o')\<rparr>) (rtp_RuntimeObjects (ecs_RuntimeProfile spec))\<rparr>\<rparr>"

definition class_template_json :: "class_template_request \<Rightarrow> json" where
  "class_template_json r = JObj [(''name'', JStr (ctr_Name r)), (''title'', JStr (ctr_Title r)),
     (''description'', JStr (ctr_Description r)), (''spec'', environment_class_spec_json (compact_objects (ctr_Spec r)))]"

definition trimmed_template :: "class_template_request \<Rightarrow> class_template_request" where
  "trimmed_template r = r\<lparr>ctr_Title := trim_space (ctr_Title r), ctr_Description := trim_space (ctr_Description r)\<rparr>"

definition template_problems :: "console_env \<Rightarrow> class_template_request \<Rightarrow> string list" where
  "template_problems env r =
     nv_Label (co_names env) (ctr_Name r)
     @ (if ctr_Title r = [] \<or> 120 < length (ctr_Title r) then [''title is required and must not exceed 120 bytes''] else [])
     @ (if 1000 < length (ctr_Description r) then [''description must not exceed 1000 bytes''] else [])
     @ cval_Errors (validateClassRequest env \<lparr>ccr_Name = ctr_Name r, ccr_Spec = ctr_Spec r\<rparr>)"

definition template_config :: "class_template_request \<Rightarrow> config_map" where
  "template_config r = \<lparr>cm_Meta = empty_meta\<lparr>om_Namespace := classTemplateNamespace,
       om_Name := classTemplatePrefix @ ctr_Name r, om_Labels := template_labels\<rparr>,
     cm_Data = [(''template.json'', json_text (class_template_json r))]\<rparr>"

definition createClassTemplate :: "console_env \<Rightarrow> string \<Rightarrow> class_template handled" where
  "createClassTemplate env body = decodeJSON env (co_template_request env) body (\<lambda>request0.
     let request = trimmed_template request0; problems = template_problems env request; config = template_config request in
     if problems \<noteq> [] then writeError 422 ''TemplateRejected'' (join_with ''; '' problems)
     else after_write (CreateTemplate config) (co_create_config env config)
       (\<lambda>e. if is_already_exists e
            then writeError 409 ''TemplateAlreadyExists'' ''A template with this name already exists; choose a new name''
            else writeObjectError e ''ClassTemplate'')
       (\<lambda>stored. case templateView env stored of
            None \<Rightarrow> writeError 500 ''TemplateUnreadable'' ''Template was saved but could not be read''
          | Some v \<Rightarrow> writeJSON 201 v))"

definition deleteClassTemplate :: "console_env \<Rightarrow> string \<Rightarrow> string \<Rightarrow> (string \<times> string) handled" where
  "deleteClassTemplate env name body = decodeJSON env decode_delete_class body (\<lambda>request.
     if nv_Label (co_names env) name \<noteq> [] \<or> dcr_UID request = [] \<or> dcr_ConfirmName request \<noteq> name
     then writeError 400 ''TemplateConfirmationRequired'' ''UID and exact template name confirmation are required''
     else with_object ''ClassTemplate'' (co_config env classTemplateNamespace (classTemplatePrefix @ name)) (\<lambda>config.
     refuse_if
       [(\<not> isClassTemplate config, 404, ''NotFound'', ''ClassTemplate was not found''),
        (om_UID (cm_Meta config) \<noteq> dcr_UID request, 409, ''StaleTemplate'', ''Template identity changed; refresh before deleting'')]
     (let removal = DeleteTemplate (cm_Meta config) (dcr_UID request) (om_ResourceVersion (cm_Meta config)) in
       after_write removal (unit_answer (co_delete env removal)) (\<lambda>e. writeObjectError e ''ClassTemplate'')
         (\<lambda>_. writeJSON 200 (name, ''Deleted'')))))"

end
