(* ===== verification/ConsoleRoutes.thy ===== *)
theory ConsoleRoutes
  imports ConsoleClasses
begin

section \<open>The routes of the console\<close>

text \<open>
  Handler: one request of the console, by the patterns registered with the ServeMux. A path is the list of
  its segments as the mux matched them, none empty; a GET pattern also matches HEAD. A request without a pattern is
  answered by the mux: 405 when the path has one for another method, 404 otherwise.
\<close>

datatype console_body =
    HealthBody string string bool
  | ClassesBody "class_view list"
  | ClassBody class_detail
  | ClassAnswerBody class_answer
  | ValidationBody class_validation
  | TemplatesBody "class_template list"
  | TemplateBody class_template
  | StateBody "string \<times> string"
  | EnvironmentsBody "environment_summary list"
  | EnvironmentBody environment_detail
  | ChangeBody change_answer
  | TimelineBody "timeline_event list"
  | RunsBody "terraform_run_view list"
  | RunBody terraform_run_view
  | PlanBody plan_view
  | ApprovalBody approval_view
  | DraftBody draft_response

record http_call =
  cq_Method :: string
  cq_Path :: "string list"
  cq_Body :: string

definition as_body :: "('b \<Rightarrow> console_body) \<Rightarrow> 'b handled \<Rightarrow> console_body handled" where
  "as_body f h = (fst h, case snd h of Answer status b \<Rightarrow> Answer status (f b) | Refusal s c m \<Rightarrow> Refusal s c m)"

definition health :: "console_env \<Rightarrow> console_body handled" where
  "health env = writeJSON 200 (HealthBody ''ok'' (co_provider env) (co_store env \<noteq> None))"

datatype route =
    Health | ListClasses | CreateClassR | ValidateClass | GetClass string | DeleteClassR string
  | ListTemplates | CreateTemplateR | DeleteTemplateR string
  | ListEnvironments | CreateEnvironmentR | GetEnvironment string string | UpdateEnvironmentR string string
  | DeleteEnvironmentR string string | Timeline string string | TerraformRuns string string | Architecture string string
  | GetRun string string | GetPlan string string | ApprovePlan string string | GenerateDraft

definition get_route :: "string list \<Rightarrow> route option" where
  "get_route path =
     (case path of
        [a, r] \<Rightarrow>
          if a \<noteq> ''api'' then None
          else if r = ''health'' then Some Health else if r = ''classes'' then Some ListClasses
          else if r = ''class-templates'' then Some ListTemplates
          else if r = ''environments'' then Some ListEnvironments else None
      | [a, r, n] \<Rightarrow> if a = ''api'' \<and> r = ''classes'' then Some (GetClass n) else None
      | [a, r, ns, n] \<Rightarrow>
          if a \<noteq> ''api'' then None
          else if r = ''environments'' then Some (GetEnvironment ns n)
          else if r = ''terraform-runs'' then Some (GetRun ns n) else None
      | [a, r, ns, n, s] \<Rightarrow>
          if a = ''api'' \<and> r = ''environments'' then
            (if s = ''timeline'' then Some (Timeline ns n) else if s = ''terraform-runs'' then Some (TerraformRuns ns n)
             else if s = ''architecture'' then Some (Architecture ns n) else None)
          else if a = ''api'' \<and> r = ''terraform-runs'' \<and> s = ''plan'' then Some (GetPlan ns n) else None
      | _ \<Rightarrow> None)"

definition post_route :: "string list \<Rightarrow> route option" where
  "post_route path =
     (case path of
        [a, r] \<Rightarrow>
          if a \<noteq> ''api'' then None
          else if r = ''classes'' then Some CreateClassR else if r = ''class-templates'' then Some CreateTemplateR
          else if r = ''environments'' then Some CreateEnvironmentR
          else if r = ''drafts'' then Some GenerateDraft else None
      | [a, r, n] \<Rightarrow> if a = ''api'' \<and> r = ''classes'' \<and> n = ''validate'' then Some ValidateClass else None
      | [a, r, ns, n, s] \<Rightarrow>
          if a = ''api'' \<and> r = ''terraform-runs'' \<and> s = ''approve'' then Some (ApprovePlan ns n) else None
      | _ \<Rightarrow> None)"

definition put_route :: "string list \<Rightarrow> route option" where
  "put_route path =
     (case path of
        [a, r, ns, n] \<Rightarrow> if a = ''api'' \<and> r = ''environments'' then Some (UpdateEnvironmentR ns n) else None
      | _ \<Rightarrow> None)"

definition delete_route :: "string list \<Rightarrow> route option" where
  "delete_route path =
     (case path of
        [a, r, n] \<Rightarrow>
          if a = ''api'' \<and> r = ''classes'' then Some (DeleteClassR n)
          else if a = ''api'' \<and> r = ''class-templates'' then Some (DeleteTemplateR n) else None
      | [a, r, ns, n] \<Rightarrow> if a = ''api'' \<and> r = ''environments'' then Some (DeleteEnvironmentR ns n) else None
      | _ \<Rightarrow> None)"

definition is_read :: "string \<Rightarrow> bool" where
  "is_read m \<longleftrightarrow> m = ''GET'' \<or> m = ''HEAD''"

definition route_of :: "http_call \<Rightarrow> route option" where
  "route_of call =
     (if is_read (cq_Method call) then get_route (cq_Path call)
      else if cq_Method call = ''POST'' then post_route (cq_Path call)
      else if cq_Method call = ''PUT'' then put_route (cq_Path call)
      else if cq_Method call = ''DELETE'' then delete_route (cq_Path call)
      else None)"

definition serve :: "console_env \<Rightarrow> route \<Rightarrow> string \<Rightarrow> console_body handled" where
  "serve env r body =
     (case r of
        Health \<Rightarrow> health env
      | ListClasses \<Rightarrow> as_body ClassesBody (listClasses env)
      | CreateClassR \<Rightarrow> as_body ClassAnswerBody (createClass env body)
      | ValidateClass \<Rightarrow> as_body ValidationBody (validateClass env body)
      | GetClass name \<Rightarrow> as_body ClassBody (getClass env name)
      | DeleteClassR name \<Rightarrow> as_body ClassAnswerBody (deleteClass env name body)
      | ListTemplates \<Rightarrow> as_body TemplatesBody (listClassTemplates env)
      | CreateTemplateR \<Rightarrow> as_body TemplateBody (createClassTemplate env body)
      | DeleteTemplateR name \<Rightarrow> as_body StateBody (deleteClassTemplate env name body)
      | ListEnvironments \<Rightarrow> as_body EnvironmentsBody (listEnvironments env)
      | CreateEnvironmentR \<Rightarrow> as_body ChangeBody (createEnvironment env body)
      | GetEnvironment namespace name \<Rightarrow> as_body EnvironmentBody (getEnvironment env namespace name)
      | UpdateEnvironmentR namespace name \<Rightarrow> as_body ChangeBody (updateEnvironment env namespace name body)
      | DeleteEnvironmentR namespace name \<Rightarrow> as_body ChangeBody (deleteEnvironment env namespace name body)
      | Timeline namespace name \<Rightarrow> as_body TimelineBody (getTimeline env namespace name)
      | TerraformRuns namespace name \<Rightarrow> as_body RunsBody (getTerraformRuns env namespace name)
      | Architecture namespace name \<Rightarrow> as_body PlanBody (getArchitecture env namespace name)
      | GetRun namespace name \<Rightarrow> as_body RunBody (getTerraformRun env namespace name)
      | GetPlan namespace name \<Rightarrow> as_body PlanBody (getPlan env namespace name)
      | ApprovePlan namespace name \<Rightarrow> as_body ApprovalBody (approvePlan env namespace name body)
      | GenerateDraft \<Rightarrow> as_body DraftBody (generateDraft env body))"

definition Handler :: "console_env \<Rightarrow> http_call \<Rightarrow> console_body handled" where
  "Handler env call =
     (case route_of call of
        Some r \<Rightarrow> serve env r (cq_Body call)
      | None \<Rightarrow>
          (if get_route (cq_Path call) \<noteq> None \<or> post_route (cq_Path call) \<noteq> None \<or> put_route (cq_Path call) \<noteq> None
              \<or> delete_route (cq_Path call) \<noteq> None
           then ([], Refusal 405 [] ''Method Not Allowed'') else ([], Refusal 404 [] ''404 page not found'')))"

end
