(* ===== verification/ConsoleSafety.thy ===== *)
theory ConsoleSafety
  imports ConsoleRoutes
begin

section \<open>What the console may write\<close>

text \<open>
  Every write the console sends, over all its routes, and the approval of a plan up to its admission by the
  InfraStack controller. The lemmas of \<open>console_log\<close> say which writes a handler built from the
  combinators of Console sends.
\<close>

named_theorems console_log \<open>the writes of a handler\<close>

definition decoded :: "(go_any \<Rightarrow> 'r option) \<Rightarrow> string \<Rightarrow> 'r \<Rightarrow> bool" where
  "decoded decode body r \<longleftrightarrow>
     (\<exists>v rest. json_read (take bodyLimit body) = Some (v, rest) \<and> decode v = Some r
        \<and> length body \<le> bodyLimit \<and> skip_space rest = [])"

lemma decoded_fun: "decoded d body r \<Longrightarrow> decoded d body q \<Longrightarrow> q = r"
  by (auto simp: decoded_def)

lemma decodeJSON_decoded: "decoded d body r \<Longrightarrow> decodeJSON env d body k = k r"
  by (auto simp: decoded_def decodeJSON_def Let_def)

lemma decodeJSON_cases:
  obtains (refused) s c m where "decodeJSON env d body k = writeError s c m"
  | (accepted) r where "decoded d body r" and "decodeJSON env d body k = k r"
proof (cases "json_read (take bodyLimit body)")
  case None
  then show thesis by (intro refused) (simp add: decodeJSON_def)
next
  case (Some p)
  obtain v rest where p: "p = (v, rest)" by (metis prod.collapse)
  show thesis
  proof (cases "d v")
    case None
    then show thesis using Some p by (intro refused) (simp add: decodeJSON_def)
  next
    case (Some r)
    show thesis
    proof (cases "bodyLimit < length body \<or> skip_space rest \<noteq> []")
      case True
      then show thesis using \<open>d v = Some r\<close> \<open>json_read (take bodyLimit body) = Some p\<close> p
        by (intro refused) (simp add: decodeJSON_def)
    next
      case False
      then have "decoded d body r"
        using \<open>d v = Some r\<close> \<open>json_read (take bodyLimit body) = Some p\<close> p by (auto simp: decoded_def)
      then show thesis by (intro accepted decodeJSON_decoded)
    qed
  qed
qed

lemma write_replies [console_log]:
  "fst (writeJSON s b) = []" "fst (writeError s c m) = []" "fst (writeObjectError e k) = []"
  "fst (writeClassMutationError e) = []"
  by (simp_all add: writeJSON_def writeError_def writeObjectError_def writeClassMutationError_def
      split: option.splits api_reason.splits)

lemma decodeJSON_log [console_log]:
  "w \<in> set (fst (decodeJSON env d body k)) \<longleftrightarrow> (\<exists>r. decoded d body r \<and> w \<in> set (fst (k r)))"
  by (rule decodeJSON_cases [of env d body k])
     (auto simp: write_replies decodeJSON_decoded [of d body] dest: decoded_fun)

lemma with_object_log [console_log]:
  "w \<in> set (fst (with_object kind object k)) \<longleftrightarrow> (\<exists>a. object = Inr a \<and> w \<in> set (fst (k a)))"
  by (simp add: with_object_def write_replies split: sum.splits)

lemma with_list_log [console_log]:
  "w \<in> set (fst (with_list items k)) \<longleftrightarrow> (\<exists>a. items = Inr a \<and> w \<in> set (fst (k a)))"
  by (simp add: with_list_def write_replies split: sum.splits)

lemma refuse_if_log [console_log]:
  "w \<in> set (fst (refuse_if cs h)) \<longleftrightarrow> (\<forall>c \<in> set cs. \<not> fst c) \<and> w \<in> set (fst h)"
  by (induction cs h rule: refuse_if.induct) (auto simp: write_replies)

lemma after_write_log [console_log]:
  "w \<in> set (fst (after_write v answer f k)) \<longleftrightarrow>
     w = v \<or> (\<exists>e. answer = Inl e \<and> w \<in> set (fst (f e))) \<or> (\<exists>a. answer = Inr a \<and> w \<in> set (fst (k a)))"
  by (auto simp: after_write_def split: sum.splits prod.splits)

lemma as_body_log [console_log]: "fst (as_body f h) = fst h"
  by (simp add: as_body_def)

definition names_run :: "terraform_run \<Rightarrow> change_approval \<Rightarrow> bool" where
  "names_run run a \<longleftrightarrow> cas_PlanRunUID (ca_Spec a) = om_UID (run_Meta run) \<and> cas_PlanRunRef (ca_Spec a) = om_Name (run_Meta run)"

lemma matches_names: "approvalMatchesRun a run \<Longrightarrow> names_run run a"
  by (simp add: approvalMatchesRun_def names_run_def Let_def)

lemma existing_approval_log [console_log]:
  "w \<in> set (fst (existing_approval run name as h)) \<longleftrightarrow>
     (\<forall>a \<in> set as. \<not> (names_run run a \<and> (approvalMatchesRun a run \<or> om_Name (ca_Meta a) = name)))
     \<and> w \<in> set (fst h)"
  by (induction run name as h rule: existing_approval.induct) (auto simp: write_replies names_run_def)

lemma case_log [console_log]:
  "w \<in> set (fst (case r of Inl e \<Rightarrow> f e | Inr a \<Rightarrow> k a)) \<longleftrightarrow>
     (\<exists>e. r = Inl e \<and> w \<in> set (fst (f e))) \<or> (\<exists>a. r = Inr a \<and> w \<in> set (fst (k a)))"
  "w \<in> set (fst (case x of None \<Rightarrow> h | Some b \<Rightarrow> g b)) \<longleftrightarrow>
     (x = None \<and> w \<in> set (fst h)) \<or> (\<exists>b. x = Some b \<and> w \<in> set (fst (g b)))"
  "w \<in> set (fst (case p of (c, d) \<Rightarrow> m c d)) \<longleftrightarrow> (\<exists>c d. p = (c, d) \<and> w \<in> set (fst (m c d)))"
  "w \<in> set (fst (if b then h1 else h2)) \<longleftrightarrow> (if b then w \<in> set (fst h1) else w \<in> set (fst h2))"
  by (simp_all split: sum.splits option.splits prod.splits)

subsection \<open>How many writes a request sends\<close>

definition at_most :: "nat \<Rightarrow> 'b handled \<Rightarrow> bool" where
  "at_most n h \<longleftrightarrow> length (fst h) \<le> n"

lemma at_most_replies:
  "at_most n (writeJSON s b)" "at_most n (writeError s c m)" "at_most n (writeObjectError e k)"
  "at_most n (writeClassMutationError e)"
  by (simp_all add: at_most_def write_replies)

lemma at_most_decodeJSON: "(\<And>r. at_most n (k r)) \<Longrightarrow> at_most n (decodeJSON env d body k)"
  by (rule decodeJSON_cases [of env d body k]) (simp_all add: at_most_replies)

lemma at_most_with_object: "(\<And>a. at_most n (k a)) \<Longrightarrow> at_most n (with_object kind object k)"
  by (simp add: with_object_def at_most_replies split: sum.splits)

lemma at_most_with_list: "(\<And>a. at_most n (k a)) \<Longrightarrow> at_most n (with_list items k)"
  by (simp add: with_list_def at_most_replies split: sum.splits)

lemma at_most_refuse_if: "at_most n h \<Longrightarrow> at_most n (refuse_if cs h)"
  by (induction cs h rule: refuse_if.induct) (auto simp: at_most_replies)

lemma at_most_existing: "at_most n h \<Longrightarrow> at_most n (existing_approval run name as h)"
  by (induction run name as h rule: existing_approval.induct) (auto simp: at_most_replies)

lemma at_most_after_write:
  "(\<And>e. at_most n (f e)) \<Longrightarrow> (\<And>a. at_most n (k a)) \<Longrightarrow> at_most (Suc n) (after_write v answer f k)"
  by (auto simp: after_write_def at_most_def split: sum.splits prod.splits) (metis fst_conv)+

lemma at_most_as_body: "at_most n h \<Longrightarrow> at_most n (as_body f h)"
  by (simp add: at_most_def as_body_def)

lemma at_most_if: "at_most n h \<Longrightarrow> at_most n g \<Longrightarrow> at_most n (if b then h else g)"
  by simp

lemma at_most_sum: "(\<And>e. at_most n (f e)) \<Longrightarrow> (\<And>a. at_most n (k a)) \<Longrightarrow> at_most n (case r of Inl e \<Rightarrow> f e | Inr a \<Rightarrow> k a)"
  by (simp split: sum.splits)

lemma at_most_option: "at_most n h \<Longrightarrow> (\<And>a. at_most n (k a)) \<Longrightarrow> at_most n (case r of None \<Rightarrow> h | Some a \<Rightarrow> k a)"
  by (simp split: option.splits)

lemma at_most_prod: "(\<And>a b. at_most n (k a b)) \<Longrightarrow> at_most n (case p of (a, b) \<Rightarrow> k a b)"
  by (simp split: prod.splits)

lemma at_most_draft_error:
  "(\<And>c d i. at_most n (f c d i)) \<Longrightarrow> (\<And>e. at_most n (g e)) \<Longrightarrow>
     at_most n (case r of ProviderError c d i \<Rightarrow> f c d i | OtherError e \<Rightarrow> g e)"
  by (simp split: draft_error.splits)

lemmas at_most_rules = at_most_replies at_most_decodeJSON at_most_with_object at_most_with_list at_most_refuse_if
  at_most_existing at_most_after_write at_most_as_body at_most_if at_most_sum at_most_option at_most_prod
  at_most_draft_error

lemma read_handlers_write_nothing:
  "at_most 0 (listEnvironments env)" "at_most 0 (getEnvironment env ns n)" "at_most 0 (getTimeline env ns n)"
  "at_most 0 (getTerraformRuns env ns n)" "at_most 0 (getTerraformRun env ns n)" "at_most 0 (getPlan env ns n)"
  "at_most 0 (listClasses env)" "at_most 0 (getClass env n)" "at_most 0 (listClassTemplates env)" "at_most 0 (health env)"
  unfolding listEnvironments_def getEnvironment_def getTimeline_def getTerraformRuns_def getTerraformRun_def
      getPlan_def listClasses_def getClass_def listClassTemplates_def health_def with_detail_def with_run_def Let_def
  by (intro at_most_rules)+

lemma getArchitecture_writes_nothing: "at_most 0 (getArchitecture env ns n)"
  unfolding getArchitecture_def with_detail_def Let_def by (intro at_most_rules read_handlers_write_nothing)

lemma generateDraft_writes_nothing: "at_most 0 (generateDraft env body)"
  unfolding generateDraft_def draft_response_of_def Let_def by (intro at_most_rules)

lemma write_handlers_write_once:
  "at_most 1 (createEnvironment env body)" "at_most 1 (updateEnvironment env ns n body)"
  "at_most 1 (deleteEnvironment env ns n body)" "at_most 1 (approvePlan env ns n body)"
  "at_most 1 (createClass env body)" "at_most 1 (validateClass env body)" "at_most 1 (deleteClass env n body)"
  "at_most 1 (createClassTemplate env body)" "at_most 1 (deleteClassTemplate env n body)"
  unfolding createEnvironment_def updateEnvironment_def deleteEnvironment_def approvePlan_def createClass_def
    validateClass_def deleteClass_def createClassTemplate_def deleteClassTemplate_def Let_def One_nat_def
  by (intro at_most_rules)+

subsection \<open>What stands behind a write\<close>

text \<open>
  A plan as it may be approved: a finished Plan with changes and its evidence, not expired, the latest one of the
  current generation of its stack, under the execution identity of the stack, past the fence.
\<close>

definition approvable :: "time \<Rightarrow> terraform_run \<Rightarrow> infra_stack \<Rightarrow> bool" where
  "approvable now run stack \<longleftrightarrow>
     (let p = run_Spec run; s = run_Status run; spec = is_Spec stack in
      rs_Operation p = ''Plan'' \<and> rst_ExecutionOutcome s = ''ChangesPresent'' \<and> rst_HasChanges s \<and> planEvidenceReady run
      \<and> not_expired now (rst_PlanExpiresAt s)
      \<and> om_UID (run_Meta run) \<noteq> [] \<and> rst_PlanDigest s \<noteq> [] \<and> rst_EffectivePlanInputDigest s \<noteq> []
      \<and> rs_RuntimeTargetIdentityDigest p \<noteq> [] \<and> rs_InfrastructureExecutionIdentityDigest p \<noteq> []
      \<and> isst_LatestPlanRunRef (is_Status stack) = Some (om_Name (run_Meta run))
      \<and> rs_InfraStackGeneration p = om_Generation (is_Meta stack)
      \<and> rs_InfrastructureExecutionRoleARN p = iei_RoleARN (iss_InfrastructureExecutionIdentity spec)
      \<and> rs_RunnerServiceAccountName p = iss_RunnerServiceAccountName spec
      \<and> rs_RunnerManagementRoleARN p = iss_RunnerManagementRoleARN spec
      \<and> rs_RunnerServiceAccountIdentityDigest p = iss_RunnerServiceAccountIdentityDigest spec
      \<and> \<not> (iss_MutationFence spec \<and> rs_PlanMode p \<noteq> ''Destroy''))"

lemma checked_plan_approvable:
  assumes "\<forall>c \<in> set (plan_approval_checks now request run). \<not> fst c"
    and "\<forall>c \<in> set (plan_stack_checks run stack). \<not> fst c"
  shows "approvable now run stack \<and> approvalRequestMatches request run"
  using assms by (simp add: plan_approval_checks_def plan_stack_checks_def approvable_def planEvidenceReady_def Let_def)

definition guarded :: "console_env \<Rightarrow> console_write \<Rightarrow> bool" where
  "guarded env w =
     (case w of
        CreateEnvironment e \<Rightarrow> (\<exists>request class. validateEnvironmentRequest env request = Inr (e, class))
      | UpdateEnvironment e \<Rightarrow>
          (\<exists>ns n old class nodes. co_environment env ns n = Inr old \<and> e = with_node_count nodes old
             \<and> om_UID (pe_Meta old) \<noteq> [] \<and> om_DeletionTimestamp (pe_Meta old) = None
             \<and> pes_DesiredState (pe_Spec old) \<noteq> DesiredStateDestroy
             \<and> co_class env (className old) = Inr class
             \<and> validateNodeCount nodes (ecs_CapacityBounds (ec_Spec class)) = None)
      | DeleteEnvironment m uid \<Rightarrow>
          (\<exists>ns n old. co_environment env ns n = Inr old \<and> m = pe_Meta old \<and> uid = om_UID m \<and> uid \<noteq> [])
      | CreateApproval a \<Rightarrow>
          (\<exists>ns n run stack existing. co_run env ns n = Inr run
             \<and> co_stack env (om_Namespace (run_Meta run)) (rs_StackRef (run_Spec run)) = Inr stack
             \<and> co_approvals_in env (om_Namespace (run_Meta run)) = Inr existing
             \<and> approvable (co_now env) run stack
             \<and> a = approval_for (approvalName (co_sha env) (om_Name (run_Meta run)) (om_UID (run_Meta run))) run
             \<and> (\<forall>x \<in> set existing. \<not> approvalMatchesRun x run))
      | CreateClass dry c \<Rightarrow> (\<exists>request. c = classObject request \<and> cval_Valid (validateClassRequest env request))
      | DeleteClass m uid rv \<Rightarrow>
          (\<exists>n c items. co_class env n = Inr c \<and> m = ec_Meta c \<and> uid = om_UID m \<and> uid \<noteq> [] \<and> rv = om_ResourceVersion m
             \<and> co_environments env = Inr items \<and> class_environments items n \<le> 0)
      | CreateTemplate c \<Rightarrow> (\<exists>request. c = template_config request \<and> template_problems env request = [])
      | DeleteTemplate m uid rv \<Rightarrow>
          (\<exists>n c. co_config env classTemplateNamespace (classTemplatePrefix @ n) = Inr c \<and> isClassTemplate c
             \<and> m = cm_Meta c \<and> uid = om_UID m \<and> uid \<noteq> [] \<and> rv = om_ResourceVersion m))"

lemma createEnvironment_guarded: "w \<in> set (fst (createEnvironment env body)) \<Longrightarrow> guarded env w"
  unfolding createEnvironment_def Let_def console_log by (clarsimp simp: guarded_def) blast

lemma updateEnvironment_guarded: "w \<in> set (fst (updateEnvironment env ns n body)) \<Longrightarrow> guarded env w"
  unfolding updateEnvironment_def Let_def console_log by (fastforce simp: guarded_def)

lemma deleteEnvironment_guarded: "w \<in> set (fst (deleteEnvironment env ns n body)) \<Longrightarrow> guarded env w"
  unfolding deleteEnvironment_def Let_def console_log by (fastforce simp: guarded_def)

lemma approvePlan_writes:
  assumes "w \<in> set (fst (approvePlan env ns n body))"
  obtains request run stack existing where "decoded decode_approval body request"
    and "co_run env ns n = Inr run"
    and "co_stack env (om_Namespace (run_Meta run)) (rs_StackRef (run_Spec run)) = Inr stack"
    and "co_approvals_in env (om_Namespace (run_Meta run)) = Inr existing"
    and "approvable (co_now env) run stack" and "approvalRequestMatches request run"
    and "\<forall>x \<in> set existing. \<not> approvalMatchesRun x run"
    and "w = CreateApproval (approval_for (approvalName (co_sha env) (om_Name (run_Meta run)) (om_UID (run_Meta run))) run)"
proof -
  from assms obtain request run stack existing where *: "decoded decode_approval body request" "co_run env ns n = Inr run"
    "\<forall>c \<in> set (plan_approval_checks (co_now env) request run). \<not> fst c"
    "co_stack env (om_Namespace (run_Meta run)) (rs_StackRef (run_Spec run)) = Inr stack"
    "\<forall>c \<in> set (plan_stack_checks run stack). \<not> fst c"
    "co_approvals_in env (om_Namespace (run_Meta run)) = Inr existing"
    "\<forall>a \<in> set existing. \<not> (names_run run a \<and> (approvalMatchesRun a run
        \<or> om_Name (ca_Meta a) = approvalName (co_sha env) (om_Name (run_Meta run)) (om_UID (run_Meta run))))"
    "w = CreateApproval (approval_for (approvalName (co_sha env) (om_Name (run_Meta run)) (om_UID (run_Meta run))) run)"
    unfolding approvePlan_def Let_def console_log by auto
  show ?thesis using that [OF *(1,2,4,6) _ _ _ *(8)] checked_plan_approvable [OF *(3,5)] *(7) matches_names by blast
qed

lemma approvePlan_guarded: "w \<in> set (fst (approvePlan env ns n body)) \<Longrightarrow> guarded env w"
  by (erule approvePlan_writes, simp add: guarded_def, blast)

lemma createClass_guarded: "w \<in> set (fst (createClass env body)) \<Longrightarrow> guarded env w"
  unfolding createClass_def Let_def console_log by (auto simp: guarded_def split: if_splits)

lemma validateClass_guarded: "w \<in> set (fst (validateClass env body)) \<Longrightarrow> guarded env w"
  unfolding validateClass_def Let_def console_log by (auto simp: guarded_def split: if_splits)

lemma deleteClass_guarded: "w \<in> set (fst (deleteClass env n body)) \<Longrightarrow> guarded env w"
  unfolding deleteClass_def Let_def console_log by (fastforce simp: guarded_def classUsage_def split: if_splits)

lemma createClassTemplate_guarded: "w \<in> set (fst (createClassTemplate env body)) \<Longrightarrow> guarded env w"
  unfolding createClassTemplate_def Let_def console_log by (auto simp: guarded_def split: if_splits)

lemma deleteClassTemplate_guarded: "w \<in> set (fst (deleteClassTemplate env n body)) \<Longrightarrow> guarded env w"
  unfolding deleteClassTemplate_def Let_def console_log by (fastforce simp: guarded_def split: if_splits)

lemmas handlers_guarded = createEnvironment_guarded updateEnvironment_guarded deleteEnvironment_guarded approvePlan_guarded
  createClass_guarded validateClass_guarded deleteClass_guarded createClassTemplate_guarded deleteClassTemplate_guarded

lemmas quiet_handlers = read_handlers_write_nothing getArchitecture_writes_nothing generateDraft_writes_nothing

lemma serve_reads: "get_route path = Some r \<Longrightarrow> at_most 0 (serve env r body)"
  by (auto simp: get_route_def serve_def split: list.splits if_splits
      intro!: at_most_as_body quiet_handlers)

lemma serve_once: "at_most 1 (serve env r body)"
proof -
  have q: "at_most 0 h \<Longrightarrow> at_most 1 h" for h :: "console_body handled" by (simp add: at_most_def)
  show ?thesis
    by (cases r) (auto simp only: serve_def route.case
        intro: at_most_as_body write_handlers_write_once q [OF at_most_as_body] quiet_handlers q)
qed

lemma serve_guarded: "w \<in> set (fst (serve env r body)) \<Longrightarrow> guarded env w"
proof -
  assume w: "w \<in> set (fst (serve env r body))"
  have none: "at_most 0 h \<Longrightarrow> w \<notin> set (fst h)" for h :: "'z handled" by (simp add: at_most_def)
  show ?thesis using w
    by (cases r) (simp_all add: serve_def as_body_log quiet_handlers [unfolded at_most_def le_zero_eq length_0_conv]
        handlers_guarded)
qed

subsection \<open>An instance\<close>

lemma decoded_small:
  assumes "length body \<le> 200" and "json_value 2 20 body = Some (v, [])" and "d v = Some r" and "9 \<le> length body"
  shows "decoded d body r"
proof -
  have "json_read body = Some (v, [])"
    by (rule json_read_small [OF assms(2)]) (use assms(4) in \<open>simp_all add: maxNestingDepth_def\<close>)
  moreover have "take bodyLimit body = body" using assms(1) by (simp add: bodyLimit_def)
  ultimately show ?thesis using assms by (auto simp: decoded_def skip_space_def bodyLimit_def)
qed

text \<open>A console over one class, one environment and one plan that waits for its approval; it answers every write.\<close>

definition console_stack :: infra_stack where
  "console_stack = sample_stack\<lparr>is_Status := (is_Status sample_stack)\<lparr>isst_LatestPlanRunRef := Some ''p'',
     isst_Conditions := [lifecycleCondition 1 0 ConditionFalse ''WaitingApproval'' []]\<rparr>\<rparr>"

definition console_plan :: terraform_run where
  "console_plan = Runs.sample_plan\<lparr>run_Status := (run_Status Runs.sample_plan)\<lparr>rst_HasChanges := True,
     rst_Conditions := [lifecycleCondition 1 0 ConditionTrue ''Planned'' []]\<rparr>\<rparr>"

definition console_class :: environment_class where
  "console_class = sample_class\<lparr>ec_Status := (ec_Status sample_class)\<lparr>
     ecst_Conditions := [lifecycleCondition 1 0 ConditionTrue ''ClassValidated'' []]\<rparr>\<rparr>"

definition sample_names :: name_validation where
  "sample_names = (let f = (\<lambda>s. if s = [] then [''must not be empty''] else []) in \<lparr>nv_Subdomain = f, nv_Label = f\<rparr>)"

definition refused :: "gerr + 'a" where
  "refused = Inl (ApiErr NotFound ''not found'')"

definition sample_console :: console_env where
  "sample_console = \<lparr>co_now = 7, co_sha = (\<lambda>s. s), co_names = sample_names, co_json_error = (\<lambda>_. ''invalid JSON''),
     co_yaml = (\<lambda>j. Inr (json_text j)), co_class_request = (\<lambda>_. None), co_template_request = (\<lambda>_. None),
     co_template_data = (\<lambda>_. None), co_class_yaml = (\<lambda>_. []), co_float = Some, co_provider = ''deterministic'',
     co_drafts = (\<lambda>r. ([], Inr (DeterministicDraftGenerator_Generate sample_names r))), co_store = None,
     co_plan_document = (\<lambda>_. None),
     co_environments = Inr [], co_classes = Inr [console_class], co_stacks = Inr [console_stack],
     co_runs = Inr [console_plan], co_approvals = Inr [], co_resourceSets = Inr [], co_valkeys = Inr [],
     co_approvals_in = (\<lambda>_. Inr []),
     co_class = (\<lambda>n. if n = ''c'' then Inr console_class else refused),
     co_environment = (\<lambda>ns n. if n = ''e'' then Inr sample_environment else refused),
     co_run = (\<lambda>ns n. if n = ''p'' then Inr console_plan else refused),
     co_stack = (\<lambda>ns n. if n = ''s'' then Inr console_stack else refused),
     co_namespace = (\<lambda>_. None), co_config = (\<lambda>_ _. refused), co_configs = (\<lambda>_ _. Inr []),
     co_create_environment = Inr, co_update_environment = Inr, co_create_approval = Inr,
     co_create_class = (\<lambda>_. Inr), co_create_config = Inr, co_delete = (\<lambda>_. None)\<rparr>"

definition sample_approval_body :: string where
  "sample_approval_body = json_text (JObj
     [(''planRunUID'', JStr ''pu''), (''planDigest'', JStr ''pd''), (''executionContextDigest'', JStr ''ctx''),
      (''effectivePlanInputDigest'', JStr ''eff''), (''planReportRef'', JStr ''rr''), (''planReportDigest'', JStr ''rd'')])"

lemma sample_approval_decoded:
  "decoded decode_approval sample_approval_body
     \<lparr>ar_PlanRunUID = ''pu'', ar_PlanDigest = ''pd'', ar_ExecutionContextDigest = ''ctx'', ar_EffectivePlanInputDigest = ''eff'',
      ar_PlanReportRef = ''rr'', ar_PlanReportDigest = ''rd''\<rparr>"
proof (rule decoded_small)
  show "length sample_approval_body \<le> 200" by code_simp
  show "json_value 2 20 sample_approval_body = Some (AMap [(''planRunUID'', AStr ''pu''), (''planDigest'', AStr ''pd''),
      (''executionContextDigest'', AStr ''ctx''), (''effectivePlanInputDigest'', AStr ''eff''), (''planReportRef'', AStr ''rr''),
      (''planReportDigest'', AStr ''rd'')], [])" by code_simp
qed code_simp+

definition sample_created_approval :: change_approval where
  "sample_created_approval = approval_for (approvalName (\<lambda>s. s) ''p'' ''pu'') console_plan"

lemma sample_approval_written:
  "fst (approvePlan sample_console ''n'' ''p'' sample_approval_body) = [CreateApproval sample_created_approval]"
  unfolding approvePlan_def decodeJSON_decoded [OF sample_approval_decoded] by code_simp

subsection \<open>Properties\<close>

lemma Handler_serves:
  "w \<in> set (fst (Handler env call)) \<Longrightarrow>
     \<exists>r. route_of call = Some r \<and> fst (Handler env call) = fst (serve env r (cq_Body call))"
  by (auto simp: Handler_def split: option.splits if_splits)

text \<open>
  C24. Reading never writes, and no request writes twice: whatever route a request takes, a GET or HEAD leaves the cluster
  as it is, and any other request sends at most one write. That write is guarded by what the cluster says: an environment is
  created as the validation built it; it changes only in the node count, within the bounds of its class; what is deleted is bound to the
  UID that was read; an approval is for a plan that may be approved and has none; a class or a template has passed its validation.
\<close>
theorem console_writes_are_guarded:
  assumes "w \<in> set (fst (Handler env call))"
  shows "\<not> is_read (cq_Method call) \<and> fst (Handler env call) = [w] \<and> guarded env w"
proof -
  from Handler_serves [OF assms] obtain r where r: "route_of call = Some r"
    "fst (Handler env call) = fst (serve env r (cq_Body call))" by blast
  have "\<not> is_read (cq_Method call)"
  proof
    assume "is_read (cq_Method call)"
    then have "get_route (cq_Path call) = Some r" using r(1) by (simp add: route_of_def)
    from serve_reads [OF this] show False using assms r(2) by (simp add: at_most_def)
  qed
  moreover have "fst (Handler env call) = [w]"
    using serve_once [of env r "cq_Body call"] assms r(2)
    by (cases "fst (serve env r (cq_Body call))") (auto simp: at_most_def)
  ultimately show ?thesis using serve_guarded assms r(2) by metis
qed

theorem console_writes_are_guarded_witness:
  "guarded sample_console (CreateApproval sample_created_approval)"
proof -
  let ?call = "\<lparr>cq_Method = ''POST'', cq_Path = [''api'', ''terraform-runs'', ''n'', ''p'', ''approve''],
    cq_Body = sample_approval_body\<rparr>"
  have "CreateApproval sample_created_approval \<in> set (fst (Handler sample_console ?call))"
    by (simp add: Handler_def route_of_def is_read_def post_route_def serve_def as_body_log sample_approval_written)
  from console_writes_are_guarded [OF this] show ?thesis by blast
qed

lemma approvalMatchesRun_matches: "approvalMatchesRun a run \<longleftrightarrow> approval_matches a run"
  by (auto simp: approvalMatchesRun_def approval_matches_def Let_def)

lemma approval_for_matches: "approval_matches (approval_for name run) run"
  by (simp add: approval_matches_def approval_for_def Let_def)

lemma approvable_admitted:
  assumes "approvable t run stack" and "approval_matches a run"
    and "om_Name (is_Meta stack) = rs_StackRef (run_Spec run)" and "om_Namespace (is_Meta stack) = om_Namespace (run_Meta run)"
    and "om_Namespace (ca_Meta a) = om_Namespace (run_Meta run)" and "om_UID (ca_Meta a) \<noteq> []"
  shows "validateApplyAdmission sha now stack run a = None \<longleftrightarrow>
     not_expired now (rst_PlanExpiresAt (run_Status run))
     \<and> (rs_PlanMode (run_Spec run) = ''Destroy''
        \<or> rs_ExecutionContextDigest (run_Spec run) = planContextDigest sha (is_Spec stack) (rs_ExecutionProfile (run_Spec run)))"
  using assms
  by (auto simp: approvable_def approval_matches_def validateApplyAdmission_def planEvidenceReady_def Let_def)

text \<open>
  C25. An approval given in the console is one the InfraStack controller acts on. When the console writes an approval for the
  run and stack it read, then at any later time the stored copy is found as the approval of the plan exactly while the plan
  has not expired, and it admits the Apply exactly while the plan has not expired and is a Destroy or has an execution
  context that is still that of the stack: the console has checked everything else.
\<close>
theorem approved_plan_is_admitted:
  assumes "CreateApproval a \<in> set (fst (approvePlan env ns n body))"
    and "co_run env ns n = Inr run" and "co_stack env (om_Namespace (run_Meta run)) (rs_StackRef (run_Spec run)) = Inr stack"
    and "om_Name (is_Meta stack) = rs_StackRef (run_Spec run)" and "om_Namespace (is_Meta stack) = om_Namespace (run_Meta run)"
    and "ca_Spec stored = ca_Spec a" and "om_Namespace (ca_Meta stored) = om_Namespace (ca_Meta a)" and "om_UID (ca_Meta stored) \<noteq> []"
  shows "validApprovalForPlan now (Inr [stored]) run
       = Inr (if not_expired now (rst_PlanExpiresAt (run_Status run)) then Some stored else None)
    \<and> (validateApplyAdmission sha now stack run stored = None \<longleftrightarrow>
        not_expired now (rst_PlanExpiresAt (run_Status run))
        \<and> (rs_PlanMode (run_Spec run) = ''Destroy''
           \<or> rs_ExecutionContextDigest (run_Spec run) = planContextDigest sha (is_Spec stack) (rs_ExecutionProfile (run_Spec run))))"
proof -
  from approvePlan_writes [OF assms(1)] obtain name where ok: "approvable (co_now env) run stack"
    and a: "a = approval_for name run" using assms(2,3) by (metis Inr_inject console_write.inject(4))
  have m: "approval_matches stored run"
    using approval_for_matches [of name run] assms(6) by (simp add: a approval_matches_def)
  have "om_Namespace (ca_Meta stored) = om_Namespace (run_Meta run)" using assms(7) by (simp add: a approval_for_def)
  from approvable_admitted [OF ok m assms(4,5) this assms(8)] m show ?thesis
    by (simp add: validApprovalForPlan_def)
qed

definition stored_approval :: change_approval where
  "stored_approval = sample_created_approval\<lparr>ca_Meta := (ca_Meta sample_created_approval)\<lparr>om_UID := ''au''\<rparr>\<rparr>"

theorem approved_plan_is_admitted_witness:
  "validateApplyAdmission (\<lambda>s. s) 50 console_stack console_plan stored_approval = None
     \<and> validApprovalForPlan 50 (Inr [stored_approval]) console_plan = Inr (Some stored_approval)"
proof -
  have "CreateApproval sample_created_approval \<in> set (fst (approvePlan sample_console ''n'' ''p'' sample_approval_body))"
    by (simp add: sample_approval_written)
  from approved_plan_is_admitted [OF this, of console_plan console_stack stored_approval 50 "\<lambda>s. s"]
  have "validApprovalForPlan 50 (Inr [stored_approval]) console_plan
      = Inr (if not_expired 50 (rst_PlanExpiresAt (run_Status console_plan)) then Some stored_approval else None)
    \<and> validateApplyAdmission (\<lambda>s. s) 50 console_stack console_plan stored_approval = None" by code_simp
  moreover have "not_expired 50 (rst_PlanExpiresAt (run_Status console_plan))" by code_simp
  ultimately show ?thesis by simp
qed

end
