(* ===== verification/DraftSafety.thy ===== *)
theory DraftSafety
  imports ConsoleSafety
begin

section \<open>What a draft may say, and where its request may go\<close>

text \<open>
  The model generators return an intent only through decodeDraftIntent, changed\_field and bounded\_draft; what
  the three promise together is \<open>faithful_draft\<close>. A draft is advice: it writes nothing, and one that is shown
  as valid is what a later request can create.
\<close>

subsection \<open>The intent of a model\<close>

definition int32 :: "int \<Rightarrow> bool" where
  "int32 i \<longleftrightarrow> - (2 ^ 31) \<le> i \<and> i < 2 ^ 31"

lemma json_int32_range: "json_int32 v = Some i \<Longrightarrow> int32 i"
  by (auto simp: json_int32_def int32_def split: go_any.splits option.splits if_splits)

lemma int32_pointer_range: "int32_pointer v = Some (Some i) \<Longrightarrow> int32 i"
  by (auto simp: int32_pointer_def json_int32_range split: if_splits)

text \<open>An intent as decodeDraftIntent accepts it.\<close>

definition accepted_intent :: "name_validation \<Rightarrow> draft_intent \<Rightarrow> bool" where
  "accepted_intent nv i \<longleftrightarrow>
     trim_space (di_Name i) \<noteq> [] \<and> nv_Subdomain nv (di_Name i) = []
     \<and> 1 \<le> di_NodeCount i \<and> int32 (di_NodeCount i)
     \<and> 0 \<le> di_ValkeyShards i \<and> int32 (di_ValkeyShards i) \<and> 0 \<le> di_ValkeyReplicas i \<and> int32 (di_ValkeyReplicas i)
     \<and> (if di_ValkeyEnabled i then 1 \<le> di_ValkeyShards i else di_ValkeyShards i = 0 \<and> di_ValkeyReplicas i = 0)"

lemma draft_values_accepted: "draft_values nv je c ms = Inr i \<Longrightarrow> accepted_intent nv i"
  by (auto simp: draft_values_def checked_def draft_value_checks_def accepted_intent_def
      split: option.splits if_splits dest: int32_pointer_range)

lemma decodeDraftIntent_accepted: "decodeDraftIntent nv je c = Inr i \<Longrightarrow> accepted_intent nv i"
  by (auto simp: decodeDraftIntent_def sum_bind_def checked_def dest: draft_values_accepted split: sum.splits option.splits)

text \<open>
  What a description says of a cache. It names one by one of five words; it refuses one by a refusing word
  in front of its name; it plainly asks for one by an asking word in front of it and no word that could
  negate it. The three are said without the lists of phrases of the code.
\<close>

definition mentions :: "string \<Rightarrow> string \<Rightarrow> bool" where
  "mentions description word \<longleftrightarrow> (\<exists>before after. to_lower description = before @ word @ after)"

definition caches :: "string list" where
  "caches = [''cache'', ''valkey'', ''redis'']"

definition names_cache :: "string \<Rightarrow> bool" where
  "names_cache description \<longleftrightarrow> (\<exists>w \<in> set ([''caching'', zh_cache] @ caches). mentions description w)"

definition refuses_cache :: "string \<Rightarrow> bool" where
  "refuses_cache description \<longleftrightarrow> (\<exists>x \<in> set caches.
     (\<exists>w \<in> {''no '', ''without '', ''disable '', ''do not enable '', ''don'' @ [CHR 0x27] @ ''t enable ''}. mentions description (w @ x))
     \<or> mentions description (x @ '' disabled''))"

definition negating :: "string list" where
  "negating = [''no '', ''not '', ''without'', ''disable'', ''don'' @ [CHR 0x27] @ ''t'', [CHR 0xE4, CHR 0xB8, CHR 0x8D],
     [CHR 0xE5, CHR 0x85, CHR 0xB3, CHR 0xE9, CHR 0x97, CHR 0xAD], [CHR 0xE6, CHR 0x97, CHR 0xA0, CHR 0xE9, CHR 0x9C, CHR 0x80]]"

definition plainly_asks_for_cache :: "string \<Rightarrow> bool" where
  "plainly_asks_for_cache description \<longleftrightarrow> (\<forall>w \<in> set negating. \<not> mentions description w)
     \<and> (\<exists>x \<in> set caches. (\<exists>w \<in> {''enable '', ''with '', ''add '', ''use ''}. mentions description (w @ x))
          \<or> mentions description (x @ '' enabled''))"

text \<open>The lists of the code agree with them.\<close>

lemma mentions_iff [code]: "mentions description w \<longleftrightarrow> str_contains (to_lower description) w"
  by (simp add: mentions_def str_contains_iff)

lemma mentions_part: "mentions description p \<Longrightarrow> str_contains p w \<Longrightarrow> mentions description w"
  unfolding mentions_def str_contains_iff by (metis append.assoc)

lemma says_iff: "says phrases description \<longleftrightarrow> (\<exists>p \<in> set phrases. mentions description p)"
  by (simp add: says_def mentions_iff list_ex_iff)

lemma phrases_for_name: "says phrases_for description \<Longrightarrow> names_cache description"
proof -
  have "list_all (\<lambda>p. list_ex (str_contains p) ([''caching'', zh_cache] @ caches)) phrases_for" by code_simp
  then show "says phrases_for description \<Longrightarrow> names_cache description"
    unfolding says_iff names_cache_def list_all_iff list_ex_iff using mentions_part by blast
qed

lemma phrases_against_negate: "says phrases_against description \<Longrightarrow> \<exists>w \<in> set negating. mentions description w"
proof -
  have "list_all (\<lambda>p. list_ex (str_contains p) negating) phrases_against" by code_simp
  then show "says phrases_against description \<Longrightarrow> \<exists>w \<in> set negating. mentions description w"
    unfolding says_iff list_all_iff list_ex_iff using mentions_part by blast
qed

lemma refusals_are_known: "refuses_cache description \<Longrightarrow> says phrases_against description"
proof -
  have "list_all (\<lambda>x. list_all (\<lambda>p. p \<in> set phrases_against) [''no '' @ x, ''without '' @ x, ''disable '' @ x, ''do not enable '' @ x,
      (''don'' @ [CHR 0x27] @ ''t enable '') @ x, x @ '' disabled'']) caches" by code_simp
  then show "refuses_cache description \<Longrightarrow> says phrases_against description"
    unfolding says_iff refuses_cache_def list_all_iff by auto
qed

lemma wishes_are_known: "plainly_asks_for_cache description \<Longrightarrow> says phrases_for description \<and> \<not> says phrases_against description"
proof -
  have "list_all (\<lambda>x. list_all (\<lambda>p. p \<in> set phrases_for) [''enable '' @ x, ''with '' @ x, ''add '' @ x, ''use '' @ x, x @ '' enabled'']) caches"
    by code_simp
  then have "plainly_asks_for_cache description \<Longrightarrow> says phrases_for description"
    unfolding says_iff plainly_asks_for_cache_def list_all_iff by auto
  then show "plainly_asks_for_cache description \<Longrightarrow> says phrases_for description \<and> \<not> says phrases_against description"
    using phrases_against_negate by (auto simp: plainly_asks_for_cache_def)
qed

text \<open>What a draft keeps of the request, and when it has a cache.\<close>

definition faithful_draft :: "name_validation \<Rightarrow> draft_request \<Rightarrow> draft_intent \<Rightarrow> bool" where
  "faithful_draft nv request i \<longleftrightarrow>
     di_ClassRef i = dr_ClassRef request \<and> di_Namespace i = defaultString (dr_Namespace request) ''default''
     \<and> (dr_Name request \<noteq> [] \<longrightarrow> di_Name i = dr_Name request)
     \<and> (dr_Region request \<noteq> [] \<longrightarrow> di_Region i = dr_Region request)
     \<and> (0 < dr_NodeCount request \<longrightarrow> di_NodeCount i = dr_NodeCount request)
     \<and> accepted_intent nv i
     \<and> (di_ValkeyEnabled i \<longrightarrow> names_cache (dr_Description request) \<and> \<not> refuses_cache (dr_Description request))
     \<and> (plainly_asks_for_cache (dr_Description request) \<longrightarrow> di_ValkeyEnabled i)
     \<and> (di_ValkeyEnabled i = (1 \<le> di_ValkeyReplicas i))"

text \<open>The decision about the cache as it falls for a description.\<close>

definition grants_cache :: "string \<Rightarrow> bool" where
  "grants_cache description \<longleftrightarrow> says phrases_for description \<and> \<not> says phrases_against description"

definition drafted :: "name_validation \<Rightarrow> draft_request \<Rightarrow> draft_intent \<Rightarrow> bool" where
  "drafted nv request i \<longleftrightarrow> faithful_draft nv request i \<and> di_ValkeyEnabled i = grants_cache (dr_Description request)"

lemma bounded_draft_faithful:
  assumes "accepted_intent nv raw" and "changed_field request raw = None"
  shows "drafted nv request (bounded_draft request raw)"
proof -
  have "(dr_Name request \<noteq> [] \<longrightarrow> di_Name raw = dr_Name request)"
    "(dr_Region request \<noteq> [] \<longrightarrow> di_Region raw = dr_Region request)"
    "(0 < dr_NodeCount request \<longrightarrow> di_NodeCount raw = dr_NodeCount request)"
    using assms(2) by (auto simp: changed_field_def split: if_splits)
  with assms(1) show ?thesis
    using phrases_for_name refusals_are_known wishes_are_known
    by (auto simp: drafted_def grants_cache_def faithful_draft_def bounded_draft_def applyExplicitValkeyIntent_def without_valkey_def
        accepted_intent_def Let_def int32_def)
qed

lemma deepseek_intent_faithful:
  "deepseek_intent nv je request rid body = Inr i \<Longrightarrow> drafted nv request i"
  by (auto simp: deepseek_intent_def split: if_splits option.splits sum.splits prod.splits
      intro: bounded_draft_faithful decodeDraftIntent_accepted)

lemma ollama_intent_faithful: "ollama_intent nv je request body = Inr i \<Longrightarrow> drafted nv request i"
  by (auto simp: ollama_intent_def sum_bind_def split: if_splits option.splits sum.splits
      intro: bounded_draft_faithful decodeDraftIntent_accepted)

lemma DeepSeek_intent:
  "snd (DeepSeekDraftGenerator_Generate client nv je g request) = Inr i \<Longrightarrow> drafted nv request i"
  by (auto simp: DeepSeekDraftGenerator_Generate_def Let_def
      split: if_splits option.splits sum.splits prod.splits intro: deepseek_intent_faithful)

lemma Ollama_intent:
  "snd (OllamaDraftGenerator_Generate client nv je g request) = Inr i \<Longrightarrow> drafted nv request i"
  by (auto simp: OllamaDraftGenerator_Generate_def Let_def
      split: if_splits option.splits sum.splits intro: ollama_intent_faithful)

subsection \<open>Where a request goes\<close>

text \<open>
  A request to a model either carries no credential and goes to a loopback address, or goes to the official
  origin of DeepSeek.
\<close>

definition local_endpoint :: "string \<Rightarrow> bool" where
  "local_endpoint url \<longleftrightarrow>
     (\<exists>endpoint u. url = trim_right (\<lambda>c. c = CHR ''/'') endpoint @ ''/api/chat'' \<and> url_parse_request endpoint = Some u
        \<and> u_Scheme u = ''http'' \<and> u_User u = None \<and> localHost (url_Hostname u) \<and> url_Port u \<noteq> [])"

definition may_go_to :: "string \<Rightarrow> http_request \<Rightarrow> bool" where
  "may_go_to key q \<longleftrightarrow>
     (if hq_Authorization q = [] then local_endpoint (hq_URL q)
      else hq_URL q = ''https://api.deepseek.com/chat/completions'' \<and> hq_Authorization q = ''Bearer '' @ key \<and> key \<noteq> [])"

lemma newOllama_local:
  "newOllamaDraftGenerator endpoint m = Inr g \<Longrightarrow> local_endpoint (og_endpoint g @ ''/api/chat'')"
  by (auto simp: newOllamaDraftGenerator_def local_endpoint_def Let_def split: option.splits if_splits)

lemma newDeepSeek_origin: "newDeepSeekDraftGenerator base m key = Inr g \<Longrightarrow> dg_baseURL g = defaultDeepSeekURL \<and> dg_apiKey g = trim_space key"
  by (auto simp: newDeepSeekDraftGenerator_def validateDeepSeekBaseURL_def sum_bind_def Let_def
      split: option.splits if_splits sum.splits)

lemma ollama_sends: "q \<in> set (fst (OllamaDraftGenerator_Generate client nv je g request)) \<Longrightarrow> q = ollama_request g request"
  by (auto simp: OllamaDraftGenerator_Generate_def Let_def split: if_splits)

lemma deepseek_sends:
  "q \<in> set (fst (DeepSeekDraftGenerator_Generate client nv je g request)) \<Longrightarrow> q = deepseek_request g request \<and> dg_apiKey g \<noteq> []"
  by (auto simp: DeepSeekDraftGenerator_Generate_def Let_def split: if_splits)

subsection \<open>An instance\<close>

text \<open>The value of a member that is a scalar is read without the bound on the depth, so it evaluates.\<close>

lemma json_read_scalar:
  assumes "skip_space s = c # cs" and "c \<noteq> CHR ''[''" and "c \<noteq> CHR ''{''"
  shows "json_read s = read_scalar (c # cs)"
  using assms by (simp add: json_read_def json_value.simps(2))

lemma next_value_scalar [code]:
  "next_value s =
     (case skip_space s of [] \<Rightarrow> None
      | c # cs \<Rightarrow> if c = CHR '':'' then
          (case skip_space cs of [] \<Rightarrow> None
           | b # bs \<Rightarrow> if b = CHR ''['' \<or> b = CHR ''{'' then json_read cs else read_scalar (b # bs))
        else None)"
  by (auto simp: next_value_def json_read_scalar json_read_def json_value.simps(2) split: list.splits)

definition sample_content :: string where
  "sample_content = json_text (JObj [(''name'', JStr ''web''), (''region'', JStr []), (''nodeCount'', JInt 2),
     (''valkeyEnabled'', JBool True), (''valkeyShards'', JInt 1), (''valkeyReplicas'', JInt 1)])"

definition sample_reply :: string where
  "sample_reply = json_text (JObj [(''message'', JObj [(''content'', JStr sample_content)]), (''done'', JBool True),
     (''done_reason'', JStr ''stop'')])"

definition sample_draft_request :: draft_request where
  "sample_draft_request = \<lparr>dr_Description = ''two nodes with Redis'', dr_Name = ''web'', dr_Namespace = [], dr_ClassRef = ''c'',
     dr_Region = [], dr_NodeCount = 2\<rparr>"

definition sample_members :: "(string \<times> go_any) list" where
  "sample_members = [(''name'', AStr ''web''), (''region'', AStr []), (''nodeCount'', AFloat ''2''),
     (''valkeyEnabled'', ABool True), (''valkeyShards'', AFloat ''1''), (''valkeyReplicas'', AFloat ''1'')]"

lemma sample_content_read: "json_read sample_content = Some (AMap sample_members, [])"
proof (rule json_read_small)
  show "json_value 1 20 sample_content = Some (AMap sample_members, [])" by code_simp
  have "30 \<le> length sample_content" by code_simp
  then show "20 \<le> 2 * length sample_content + 2" by simp
qed (simp add: maxNestingDepth_def)

lemma sample_content_decoded:
  "decodeDraftIntent sample_names je sample_content = Inr \<lparr>di_Name = ''web'', di_Namespace = [], di_ClassRef = [], di_Region = [],
     di_NodeCount = 2, di_ValkeyEnabled = True, di_ValkeyShards = 1, di_ValkeyReplicas = 1\<rparr>"
proof -
  have o: "read_object sample_content = Inr sample_members" by code_simp
  have k: "draft_keys_error sample_members = None" by code_simp
  have v: "draft_values sample_names je c sample_members = Inr \<lparr>di_Name = ''web'', di_Namespace = [], di_ClassRef = [],
     di_Region = [], di_NodeCount = 2, di_ValkeyEnabled = True, di_ValkeyShards = 1, di_ValkeyReplicas = 1\<rparr>" for c
    by code_simp
  show ?thesis by (simp add: decodeDraftIntent_def o k v sample_content_read)
qed

lemma sample_reply_read:
  "json_whole sample_reply = Some (AMap [(''message'', AMap [(''content'', AStr sample_content)]), (''done'', ABool True),
     (''done_reason'', AStr ''stop'')])"
proof -
  have "json_read sample_reply = Some (AMap [(''message'', AMap [(''content'', AStr sample_content)]), (''done'', ABool True),
     (''done_reason'', AStr ''stop'')], [])"
  proof (rule json_read_small)
    show "json_value 2 30 sample_reply = Some (AMap [(''message'', AMap [(''content'', AStr sample_content)]), (''done'', ABool True),
     (''done_reason'', AStr ''stop'')], [])" by code_simp
    have "30 \<le> length sample_reply" by code_simp
    then show "30 \<le> 2 * length sample_reply + 2" by simp
  qed (simp add: maxNestingDepth_def)
  then show ?thesis by (simp add: json_whole_def skip_space_def)
qed

definition sample_client :: http_client where
  "sample_client = \<lparr>hc_Do = (\<lambda>_. Inr \<lparr>ha_Status = 200, ha_RequestID = [], ha_Body = Some sample_reply\<rparr>),
     hc_ReadError = (\<lambda>_. \<lparr>nf_Cancelled = False, nf_TimedOut = False, nf_DNS = False, nf_TLS = False, nf_Text = []\<rparr>)\<rparr>"

definition sample_ollama :: draft_generator where
  "sample_ollama = Ollama \<lparr>og_endpoint = ''http://127.0.0.1:11434'', og_model = ''m''\<rparr>"

definition sample_draft :: draft_intent where
  "sample_draft = \<lparr>di_Name = ''web'', di_Namespace = ''default'', di_ClassRef = ''c'', di_Region = [],
     di_NodeCount = 2, di_ValkeyEnabled = True, di_ValkeyShards = 1, di_ValkeyReplicas = 1\<rparr>"

lemma sample_ollama_intent: "ollama_intent sample_names je sample_draft_request sample_reply = Inr sample_draft"
proof -
  have d: "decode_ollama sample_reply = Some \<lparr>oc_Content = sample_content, oc_ToolCalls = 0, oc_Done = True, oc_DoneReason = ''stop''\<rparr>"
    unfolding decode_ollama_def sample_reply_read by code_simp
  have t: "trim_space sample_content \<noteq> []" by code_simp
  have b: "changed_field sample_draft_request \<lparr>di_Name = ''web'', di_Namespace = [], di_ClassRef = [], di_Region = [],
     di_NodeCount = 2, di_ValkeyEnabled = True, di_ValkeyShards = 1, di_ValkeyReplicas = 1\<rparr> = None
    \<and> bounded_draft sample_draft_request \<lparr>di_Name = ''web'', di_Namespace = [], di_ClassRef = [], di_Region = [],
     di_NodeCount = 2, di_ValkeyEnabled = True, di_ValkeyShards = 1, di_ValkeyReplicas = 1\<rparr> = sample_draft" by code_simp
  show ?thesis by (simp add: ollama_intent_def d t b sample_content_decoded)
qed

lemma sample_draft_generated:
  "snd (draft_Generate sample_client sample_names je sample_ollama sample_draft_request) = Inr sample_draft"
proof -
  have "length sample_reply \<le> 400" by code_simp
  then have "\<not> maxOllamaResponse < length sample_reply" by (simp add: maxOllamaResponse_def)
  then show ?thesis
    by (simp add: draft_Generate_def sample_ollama_def OllamaDraftGenerator_Generate_def sample_client_def sample_ollama_intent Let_def)
qed

subsection \<open>Properties\<close>

lemma model_drafted:
  assumes "snd (draft_Generate client nv je g request) = Inr i" and "g \<noteq> Deterministic"
  shows "drafted nv request i"
proof (cases g)
  case (Ollama og)
  then have "snd (OllamaDraftGenerator_Generate client nv je og request) = Inr i"
    using assms(1) by (auto simp: draft_Generate_def split: prod.splits sum.splits)
  then show ?thesis by (rule Ollama_intent)
next
  case (DeepSeek dg)
  then show ?thesis using assms(1) by (simp add: draft_Generate_def DeepSeek_intent)
qed (use assms(2) in simp)



text \<open>
  The words of the code decide about the cache, not the sense. A refusal it does not know, such as \<open>Do not use Redis\<close>,
  counts as a wish, and the deterministic generator knows no refusal at all.
\<close>

lemma a_refusal_counts_as_a_wish:
  "di_ValkeyEnabled (applyExplicitValkeyIntent ''Do not use Redis'' i)"
  "di_ValkeyEnabled (DeterministicDraftGenerator_Generate sample_names \<lparr>dr_Description = ''one node without cache'', dr_Name = ''web'',
     dr_Namespace = [], dr_ClassRef = ''c'', dr_Region = [], dr_NodeCount = 1\<rparr>)"
proof -
  have "says phrases_for ''Do not use Redis''" "\<not> says phrases_against ''Do not use Redis''" by code_simp+
  then show "di_ValkeyEnabled (applyExplicitValkeyIntent ''Do not use Redis'' i)" by (simp add: applyExplicitValkeyIntent_def)
  show "di_ValkeyEnabled (DeterministicDraftGenerator_Generate sample_names \<lparr>dr_Description = ''one node without cache'', dr_Name = ''web'',
     dr_Namespace = [], dr_ClassRef = ''c'', dr_Region = [], dr_NodeCount = 1\<rparr>)" by code_simp
qed

text \<open>
  C28. A description or a credential never leaves for another place. However the console is configured, a generation
  sends at most one request; without a credential it goes to a loopback address over HTTP with an explicit port, and the
  API key goes to the official origin of DeepSeek only.
\<close>
theorem drafts_go_where_they_may:
  assumes "NewDraftGeneratorFromEnvironment getenv = Inr (provider, g)"
    and "q \<in> set (fst (draft_Generate client nv je g request))"
  shows "fst (draft_Generate client nv je g request) = [q] \<and> may_go_to (trim_space (getenv ''DEEPSEEK_API_KEY'')) q"
proof (cases g)
  case Deterministic
  then show ?thesis using assms(2) by (simp add: draft_Generate_def)
next
  case (Ollama og)
  then obtain endpoint m where "newOllamaDraftGenerator endpoint m = Inr og"
    using assms(1) by (auto simp: NewDraftGeneratorFromEnvironment_def Let_def sum_bind_def split: if_splits sum.splits)
  with newOllama_local have l: "local_endpoint (og_endpoint og @ ''/api/chat'')" by blast
  have q: "q \<in> set (fst (OllamaDraftGenerator_Generate client nv je og request))"
    using assms(2) Ollama by (auto simp: draft_Generate_def split: prod.splits)
  with ollama_sends have "q = ollama_request og request" by blast
  with l have "may_go_to key q" for key by (simp add: may_go_to_def ollama_request_def)
  moreover have "fst (draft_Generate client nv je g request) = [q]"
    using q Ollama by (auto simp: draft_Generate_def OllamaDraftGenerator_Generate_def Let_def split: prod.splits if_splits)
  ultimately show ?thesis by blast
next
  case (DeepSeek dg)
  then obtain base m where "newDeepSeekDraftGenerator base m (getenv ''DEEPSEEK_API_KEY'') = Inr dg"
    using assms(1) by (auto simp: NewDraftGeneratorFromEnvironment_def Let_def sum_bind_def split: if_splits sum.splits)
  with newDeepSeek_origin have o: "dg_baseURL dg = defaultDeepSeekURL" "dg_apiKey dg = trim_space (getenv ''DEEPSEEK_API_KEY'')"
    by blast+
  have q: "q \<in> set (fst (DeepSeekDraftGenerator_Generate client nv je dg request))"
    using assms(2) DeepSeek by (simp add: draft_Generate_def)
  from deepseek_sends [OF q] o have "may_go_to (trim_space (getenv ''DEEPSEEK_API_KEY'')) q"
    by (simp add: may_go_to_def deepseek_request_def defaultDeepSeekURL_def)
  moreover have "fst (draft_Generate client nv je g request) = [q]"
    using q DeepSeek by (auto simp: draft_Generate_def DeepSeekDraftGenerator_Generate_def Let_def split: if_splits)
  ultimately show ?thesis by blast
qed

definition sample_getenv :: "string \<Rightarrow> string" where
  "sample_getenv k = (if k = ''AI_PROVIDER'' then ''deepseek'' else if k = ''DEEPSEEK_API_KEY'' then ''key'' else [])"

theorem drafts_go_where_they_may_witness:
  "may_go_to ''key'' (deepseek_request \<lparr>dg_baseURL = ''https://api.deepseek.com'', dg_model = ''deepseek-flash'', dg_apiKey = ''key''\<rparr>
     sample_draft_request)"
proof -
  let ?g = "\<lparr>dg_baseURL = ''https://api.deepseek.com'', dg_model = ''deepseek-flash'', dg_apiKey = ''key''\<rparr>"
  have "NewDraftGeneratorFromEnvironment sample_getenv = Inr (''deepseek'', DeepSeek ?g)" by code_simp
  moreover have "deepseek_request ?g sample_draft_request
      \<in> set (fst (draft_Generate sample_client sample_names (\<lambda>_. []) (DeepSeek ?g) sample_draft_request))"
    by (simp add: draft_Generate_def DeepSeekDraftGenerator_Generate_def defaultDeepSeekURL_def Let_def)
  moreover have "trim_space (sample_getenv ''DEEPSEEK_API_KEY'') = ''key''" by code_simp
  ultimately show ?thesis using drafts_go_where_they_may by metis
qed

end
