(* ===== verification/ConsoleChecks.thy ===== *)
theory ConsoleChecks
  imports DraftSafety
begin

section \<open>What the console accepts\<close>

text \<open>
  What an environment that the console creates looks like, that a draft shown as valid is what can be created, and
  that the controllers admit what the console accepted.
\<close>

subsection \<open>Replies\<close>

named_theorems console_answer \<open>the answer of a handler\<close>

lemma answer_basic [console_answer]:
  "snd (writeJSON s b) = Answer s' b' \<longleftrightarrow> s = s' \<and> b = b'"
  "snd (writeError s c m) \<noteq> Answer s' b'"
  "snd (writeObjectError e k) \<noteq> Answer s' b'"
  by (auto simp: writeJSON_def writeError_def writeObjectError_def)

lemma decodeJSON_answer [console_answer]:
  "snd (decodeJSON env d body k) = Answer s b \<longleftrightarrow> (\<exists>r. decoded d body r \<and> snd (k r) = Answer s b)"
  by (rule decodeJSON_cases [of env d body k])
     (auto simp: answer_basic decodeJSON_decoded [of d body] dest: decoded_fun)

lemma with_object_answer [console_answer]:
  "snd (with_object kind object k) = Answer s b \<longleftrightarrow> (\<exists>a. object = Inr a \<and> snd (k a) = Answer s b)"
  by (simp add: with_object_def answer_basic split: sum.splits)

lemma refuse_if_answer [console_answer]:
  "snd (refuse_if cs h) = Answer s b \<longleftrightarrow> (\<forall>c \<in> set cs. \<not> fst c) \<and> snd h = Answer s b"
  by (induction cs h rule: refuse_if.induct) (auto simp: answer_basic)

lemma case_answer [console_answer]:
  "snd (if c then h1 else h2) = Answer s b \<longleftrightarrow> (if c then snd h1 = Answer s b else snd h2 = Answer s b)"
  "snd (case r of Inl e \<Rightarrow> f e | Inr a \<Rightarrow> k a) = Answer s b \<longleftrightarrow>
     (\<exists>e. r = Inl e \<and> snd (f e) = Answer s b) \<or> (\<exists>a. r = Inr a \<and> snd (k a) = Answer s b)"
  "snd (case p of (c, d) \<Rightarrow> m c d) = Answer s b \<longleftrightarrow> (\<exists>c d. p = (c, d) \<and> snd (m c d) = Answer s b)"
  "snd (case q of ProviderError c d i \<Rightarrow> m1 c d i | OtherError e \<Rightarrow> m2 e) = Answer s b \<longleftrightarrow>
     (\<exists>c d i. q = ProviderError c d i \<and> snd (m1 c d i) = Answer s b) \<or> (\<exists>e. q = OtherError e \<and> snd (m2 e) = Answer s b)"
  by (simp_all split: sum.splits prod.splits draft_error.splits)

subsection \<open>A draft and what it can create\<close>

lemma draft_response_answer:
  assumes "snd (draft_response_of env intent) = Answer status r"
  shows "dp_Intent r = intent \<and>
    (dp_Valid r = (\<exists>e c. validateEnvironmentRequest env (intent_request intent) = Inr (e, c) \<and> environmentYAML env e = Inr (dp_YAML r)))
    \<and> (\<not> dp_Valid r \<longrightarrow> (\<exists>e. validateEnvironmentRequest env (intent_request intent) = Inl e \<and> dp_Errors r = [err_text e]))"
  using assms unfolding draft_response_of_def console_answer by (auto simp: answer_basic)

lemma generateDraft_answer:
  assumes "snd (generateDraft env body) = Answer status r"
  shows "\<exists>intent. snd (draft_response_of env intent) = Answer status r"
  using assms unfolding generateDraft_def Let_def console_answer by (auto simp: answer_basic split: if_splits)

lemma createEnvironment_writes:
  assumes "decoded decode_create_environment body request"
  shows "fst (createEnvironment env body) =
    (case validateEnvironmentRequest env request of Inl e \<Rightarrow> [] | Inr (e, c) \<Rightarrow> [CreateEnvironment e])"
  unfolding createEnvironment_def decodeJSON_decoded [OF assms]
  by (auto simp: writeJSON_def writeError_def after_write_def Let_def split: sum.splits prod.splits)

lemma createEnvironment_refuses:
  assumes "decoded decode_create_environment body request" and "validateEnvironmentRequest env request = Inl e"
  shows "createEnvironment env body = ([], Refusal 422 ''InvalidDraft'' (err_text e))"
  unfolding createEnvironment_def decodeJSON_decoded [OF assms(1)] by (simp add: assms(2) writeError_def)

text \<open>
  C30. A draft is a faithful preview. Generating one writes nothing; when the answer calls it valid,
  a request to create the intent writes exactly the environment whose text was shown, and when it does not, the
  request is refused with the error that was shown, and nothing is written.
\<close>
theorem drafts_preview_creation:
  assumes "snd (generateDraft env body) = Answer status r"
    and "decoded decode_create_environment body2 (intent_request (dp_Intent r))"
  shows "fst (generateDraft env body) = [] \<and>
    (if dp_Valid r
     then \<exists>e. fst (createEnvironment env body2) = [CreateEnvironment e] \<and> environmentYAML env e = Inr (dp_YAML r)
     else createEnvironment env body2 = ([], Refusal 422 ''InvalidDraft'' (hd (dp_Errors r))))"
proof -
  from generateDraft_answer [OF assms(1)] obtain intent
    where "snd (draft_response_of env intent) = Answer status r" by blast
  from draft_response_answer [OF this]
  have i: "dp_Intent r = intent"
    and valid: "dp_Valid r = (\<exists>e c. validateEnvironmentRequest env (intent_request intent) = Inr (e, c)
        \<and> environmentYAML env e = Inr (dp_YAML r))"
    and invalid: "\<not> dp_Valid r \<Longrightarrow> \<exists>e. validateEnvironmentRequest env (intent_request intent) = Inl e \<and> dp_Errors r = [err_text e]"
    by blast+
  have "fst (generateDraft env body) = []" using generateDraft_writes_nothing by (simp add: at_most_def)
  moreover have "if dp_Valid r
     then \<exists>e. fst (createEnvironment env body2) = [CreateEnvironment e] \<and> environmentYAML env e = Inr (dp_YAML r)
     else createEnvironment env body2 = ([], Refusal 422 ''InvalidDraft'' (hd (dp_Errors r)))"
    using valid invalid createEnvironment_writes [OF assms(2)] createEnvironment_refuses [OF assms(2)] i by fastforce
  ultimately show ?thesis by blast
qed

subsection \<open>The environments of the console are well typed\<close>

text \<open>A property of the target that every field setter keeps holds after the decoding.\<close>

lemma decode_members_keeps:
  "decode_members strict table es q = Some q' \<Longrightarrow> P q \<Longrightarrow>
     (\<And>key f v q q'. (key, f) \<in> set table \<Longrightarrow> P q \<Longrightarrow> f v q = Some q' \<Longrightarrow> P q') \<Longrightarrow> P q'"
proof (induction strict table es q rule: decode_members.induct)
  case (2 strict table key v es r)
  show ?case
  proof (cases "setter_for table key")
    case None
    then show ?thesis using 2 by (simp split: if_splits)
  next
    case (Some f)
    then obtain k where k: "(k, f) \<in> set table"
      by (auto simp: setter_for_def find_Some_iff split: option.splits dest: map_of_SomeD) (metis nth_mem prod.collapse)
    then obtain q1 where "f v r = Some q1" "decode_members strict table es q1 = Some q'"
      using 2(3) Some by (auto split: option.splits)
    then show ?thesis using 2(2) [OF Some] 2(4,5) k by blast
  qed
qed simp

lemma decode_struct_keeps:
  assumes "decode_struct strict table v q = Some q'" and "P q"
    and "\<And>key f v q q'. (key, f) \<in> set table \<Longrightarrow> P q \<Longrightarrow> f v q = Some q' \<Longrightarrow> P q'"
  shows "P q'"
proof (cases v)
  case (AMap es)
  then have "decode_members strict table es q = Some q'" using assms(1) by (simp add: decode_struct_def)
  from this assms(2) show ?thesis by (rule decode_members_keeps) (rule assms(3))
qed (use assms(1,2) in \<open>simp_all add: decode_struct_def\<close>)

definition typed_request :: "create_environment_request \<Rightarrow> bool" where
  "typed_request r \<longleftrightarrow> int32 (cer_NodeCount r) \<and> int32 (cer_ValkeyShards r) \<and> int32 (cer_ValkeyReplicas r)"

text \<open>What the setters of the three kinds of fields do.\<close>

lemma field_setters:
  "text_field upd v q = Some q' \<Longrightarrow> q' = q \<or> (\<exists>t. q' = upd t q)"
  "bool_field upb v q = Some q' \<Longrightarrow> q' = q \<or> (\<exists>b. q' = upb b q)"
  "int64_field upi v q = Some q' \<Longrightarrow> q' = q \<or> (\<exists>i. q' = upi i q)"
  "int32_field upi v q = Some q' \<Longrightarrow> q' = q \<or> (\<exists>i. int32 i \<and> q' = upi i q)"
  by (auto simp: text_field_def bool_field_def int64_field_def int32_field_def split: go_any.splits if_splits)
     (metis json_int32_range)

lemma int32_zero: "int32 0"
  by (simp add: int32_def)

lemma decode_create_environment_typed: "decode_create_environment v = Some r \<Longrightarrow> typed_request r"
  unfolding decode_create_environment_def
  by (erule decode_struct_keeps) (auto simp: typed_request_def int32_zero dest!: field_setters)

lemma decode_update_environment_typed: "decode_update_environment v = Some r \<Longrightarrow> int32 (uer_NodeCount r)"
  unfolding decode_update_environment_def
  by (erule decode_struct_keeps) (auto simp: int32_zero dest!: field_setters)

definition typed_environment :: "name_validation \<Rightarrow> platform_environment \<Rightarrow> bool" where
  "typed_environment nv e \<longleftrightarrow>
     (let m = pe_Meta e; s = pe_Spec e; v = pes_Valkey s; n = cap_NodeCount (pes_Capacity s) in
      m = empty_meta\<lparr>om_Name := om_Name m, om_Namespace := om_Namespace m\<rparr>
      \<and> nv_Subdomain nv (om_Name m) = [] \<and> nv_Label nv (om_Namespace m) = []
      \<and> (\<exists>class. pes_ClassRef s = Some class \<and> class \<noteq> [] \<and> nv_Subdomain nv class = [])
      \<and> pes_InfraStackRef s = [] \<and> pes_Target s = zero_target_reference \<and> pes_DesiredState s = DesiredStatePresent
      \<and> 0 \<le> n \<and> int32 n
      \<and> 0 \<le> vi_Shards v \<and> int32 (vi_Shards v) \<and> 0 \<le> vi_Replicas v \<and> int32 (vi_Replicas v)
      \<and> (vi_Enabled v \<longrightarrow> 1 \<le> vi_Shards v)
      \<and> pe_Status e = pe_Status zero_platform_environment)"

lemma validateEnvironmentRequest_Inr:
  "validateEnvironmentRequest env request = Inr (e, class) \<Longrightarrow>
     request_name_error (co_names env) request = None \<and> co_class env (cer_ClassRef request) = Inr class
     \<and> request_class_error request class = None \<and> co_namespace env (cer_Namespace request) = None
     \<and> (\<exists>items. co_environments env = Inr items \<and> request_limit_error items class = None)
     \<and> e = requested_environment request class"
  by (auto simp: validateEnvironmentRequest_def checked_def split: option.splits sum.splits)

lemma validated_environment_typed:
  assumes "validateEnvironmentRequest env request = Inr (e, class)" and "typed_request request"
  shows "typed_environment (co_names env) e"
  using validateEnvironmentRequest_Inr [OF assms(1)] assms(2)
  by (auto simp: typed_environment_def typed_request_def requested_environment_def request_name_error_def request_class_error_def
      validateNodeCount_def Let_def zero_platform_environment_spec_def)

text \<open>A write that concerns an environment carries a well typed one, or changes the node count of the one that was read.\<close>

definition typed_write :: "console_env \<Rightarrow> console_write \<Rightarrow> bool" where
  "typed_write env w =
     (case w of
        CreateEnvironment e \<Rightarrow> typed_environment (co_names env) e
      | UpdateEnvironment e \<Rightarrow> (\<exists>ns n old nodes. co_environment env ns n = Inr old \<and> e = with_node_count nodes old
          \<and> 0 \<le> nodes \<and> int32 nodes)
      | _ \<Rightarrow> True)"

lemma createEnvironment_typed: "w \<in> set (fst (createEnvironment env body)) \<Longrightarrow> typed_write env w"
  unfolding createEnvironment_def Let_def console_log
  by (auto simp: typed_write_def decoded_def dest!: decode_create_environment_typed intro: validated_environment_typed)

lemma updateEnvironment_typed: "w \<in> set (fst (updateEnvironment env ns n body)) \<Longrightarrow> typed_write env w"
  unfolding updateEnvironment_def Let_def console_log
  by (clarsimp simp: typed_write_def decoded_def validateNodeCount_def dest!: decode_update_environment_typed) fastforce

lemma other_writes_typed:
  "w \<in> set (fst (deleteEnvironment env ns n body)) \<Longrightarrow> typed_write env w"
  "w \<in> set (fst (approvePlan env ns n body)) \<Longrightarrow> typed_write env w"
  "w \<in> set (fst (createClass env body)) \<Longrightarrow> typed_write env w"
  "w \<in> set (fst (validateClass env body)) \<Longrightarrow> typed_write env w"
  "w \<in> set (fst (deleteClass env n body)) \<Longrightarrow> typed_write env w"
  "w \<in> set (fst (createClassTemplate env body)) \<Longrightarrow> typed_write env w"
  "w \<in> set (fst (deleteClassTemplate env n body)) \<Longrightarrow> typed_write env w"
  unfolding deleteEnvironment_def approvePlan_def createClass_def validateClass_def deleteClass_def createClassTemplate_def
    deleteClassTemplate_def Let_def console_log
  by (auto simp: typed_write_def split: if_splits)

text \<open>
  C31. Every environment the console writes is well typed. A created one has only a name and a namespace in its
  metadata and no status, whatever the body held, names a class, has a node count, shards and replicas that are not negative and fit
  an int32, and at least one shard when it has a cache; an update changes the node count alone, to one that fits.
\<close>
theorem console_environments_are_well_typed:
  assumes "w \<in> set (fst (Handler env call))"
  shows "typed_write env w"
proof -
  from Handler_serves [OF assms] assms obtain r where "w \<in> set (fst (serve env r (cq_Body call)))" by auto
  then show ?thesis
    by (cases r) (simp_all add: serve_def as_body_log quiet_handlers [unfolded at_most_def le_zero_eq length_0_conv]
        createEnvironment_typed updateEnvironment_typed other_writes_typed)
qed

subsection \<open>An instance\<close>

definition sample_intent :: draft_intent where
  "sample_intent = \<lparr>di_Name = ''web'', di_Namespace = ''default'', di_ClassRef = ''c'', di_Region = ''r'',
     di_NodeCount = 2, di_ValkeyEnabled = False, di_ValkeyShards = 0, di_ValkeyReplicas = 0\<rparr>"

definition sample_new_environment :: platform_environment where
  "sample_new_environment = requested_environment (intent_request sample_intent) console_class"

definition sample_preview :: draft_response where
  "sample_preview = \<lparr>dp_Provider = ''deterministic'', dp_Intent = sample_intent, dp_Valid = True, dp_Errors = [],
     dp_Warnings = [''AI output is advisory. Review the fields; creation requires a separate explicit action.''],
     dp_WarningCodes = [''AdvisoryOnly''],
     dp_YAML = (case environmentYAML sample_console sample_new_environment of Inl _ \<Rightarrow> [] | Inr t \<Rightarrow> t)\<rparr>"

definition sample_draft_body :: string where
  "sample_draft_body = json_text (JObj [(''description'', JStr ''two nodes''), (''name'', JStr ''web''), (''classRef'', JStr ''c''),
     (''region'', JStr ''r''), (''nodeCount'', JInt 2)])"

definition sample_create_body :: string where
  "sample_create_body = json_text (JObj [(''name'', JStr ''web''), (''namespace'', JStr ''default''), (''classRef'', JStr ''c''),
     (''region'', JStr ''r''), (''nodeCount'', JInt 2)])"

lemma sample_draft_decoded:
  "decoded decode_draft_request sample_draft_body \<lparr>dr_Description = ''two nodes'', dr_Name = ''web'', dr_Namespace = [],
     dr_ClassRef = ''c'', dr_Region = ''r'', dr_NodeCount = 2\<rparr>"
proof (rule decoded_small)
  show "json_value 2 20 sample_draft_body = Some (AMap [(''description'', AStr ''two nodes''), (''name'', AStr ''web''),
     (''classRef'', AStr ''c''), (''region'', AStr ''r''), (''nodeCount'', AFloat ''2'')], [])" by code_simp
qed code_simp+

lemma sample_create_decoded: "decoded decode_create_environment sample_create_body (intent_request sample_intent)"
proof (rule decoded_small)
  show "json_value 2 20 sample_create_body = Some (AMap [(''name'', AStr ''web''), (''namespace'', AStr ''default''),
     (''classRef'', AStr ''c''), (''region'', AStr ''r''), (''nodeCount'', AFloat ''2'')], [])" by code_simp
qed code_simp+

lemma sample_previewed: "snd (generateDraft sample_console sample_draft_body) = Answer 200 sample_preview"
  unfolding generateDraft_def decodeJSON_decoded [OF sample_draft_decoded] by code_simp

theorem drafts_preview_creation_witness:
  "\<exists>e. fst (createEnvironment sample_console sample_create_body) = [CreateEnvironment e]
     \<and> environmentYAML sample_console e = Inr (dp_YAML sample_preview)"
proof -
  have i: "dp_Intent sample_preview = sample_intent" and v: "dp_Valid sample_preview" by (simp_all add: sample_preview_def)
  show ?thesis using drafts_preview_creation [OF sample_previewed, unfolded i, OF sample_create_decoded] v by simp
qed

theorem console_environments_are_well_typed_witness:
  "typed_write sample_console (CreateEnvironment sample_new_environment)"
proof -
  have "validateEnvironmentRequest sample_console (intent_request sample_intent) = Inr (sample_new_environment, console_class)"
    by code_simp
  then have "fst (createEnvironment sample_console sample_create_body) = [CreateEnvironment sample_new_environment]"
    by (simp add: createEnvironment_writes [OF sample_create_decoded])
  then have "CreateEnvironment sample_new_environment \<in> set (fst (Handler sample_console
      \<lparr>cq_Method = ''POST'', cq_Path = [''api'', ''environments''], cq_Body = sample_create_body\<rparr>))"
    by (simp add: Handler_def route_of_def is_read_def post_route_def serve_def as_body_log)
  then show ?thesis by (rule console_environments_are_well_typed)
qed

end
