(* ===== verification/ClassSafety.thy ===== *)
theory ClassSafety
  imports ConsoleChecks
begin

section \<open>Classes: what is shown, and what is admitted\<close>

text \<open>
  The redaction of a class as noninterference, over two classes that differ only in what must not be seen, and the
  agreement of the validations of the console with the admission of the controller.
\<close>

subsection \<open>What a credential is\<close>

text \<open>
  A name without its separators and in lower case names a credential when one of eight words is part of it, unless it
  ends in ref or refs, as the name of a reference does, or is the name of a service account token. The definitions
  of this section do not use the predicates of the redaction.
\<close>

definition bare :: "string \<Rightarrow> string" where
  "bare name = [c \<leftarrow> to_lower name. c \<noteq> CHR ''_'' \<and> c \<noteq> CHR ''-'' \<and> c \<noteq> CHR ''.'']"

definition credential_name :: "string \<Rightarrow> bool" where
  "credential_name name \<longleftrightarrow>
     (\<exists>w \<in> {''password'', ''passwd'', ''token'', ''privatekey'', ''secretaccesskey'', ''accesskeyid'', ''authorization'', ''clientsecret''}.
        \<exists>before after. bare name = before @ w @ after)
     \<and> (\<forall>stem. bare name \<noteq> stem @ ''ref'' \<and> bare name \<noteq> stem @ ''refs'')
     \<and> bare name \<notin> {''serviceaccounttoken'', ''automountserviceaccounttoken''}"

lemma sensitive_iff: "sensitiveClassKey name \<longleftrightarrow> credential_name name"
proof -
  have b: "filter (\<lambda>c. c \<notin> set ''_-.'') (to_lower name) = bare name" by (simp add: bare_def)
  have w: "list_ex (\<lambda>fragment. str_contains (bare name) fragment) sensitive_fragments \<longleftrightarrow>
     (\<exists>w \<in> {''password'', ''passwd'', ''token'', ''privatekey'', ''secretaccesskey'', ''accesskeyid'', ''authorization'', ''clientsecret''}.
        \<exists>before after. bare name = before @ w @ after)"
    by (simp only: list_ex_iff sensitive_fragments_def str_contains_iff list.set)
  show ?thesis
    unfolding sensitiveClassKey_def Let_def b credential_name_def w [symmetric] has_suffix_iff insert_iff by (simp only: if_bool_eq_conj) blast
qed

text \<open>An entry of a JSON object that holds a credential: a nonempty text under such a name, or the value beside one.\<close>

definition credential_entry :: "(string \<times> go_any) list \<Rightarrow> string \<times> go_any \<Rightarrow> bool" where
  "credential_entry es e \<longleftrightarrow>
     (fst e = ''value'' \<and> (\<exists>n. map_of es ''name'' = Some (AStr n) \<and> credential_name n))
     \<or> (credential_name (fst e) \<and> (\<exists>t. snd e = AStr t \<and> t \<noteq> []))"

lemma secret_entry_iff: "secret_entry (names_a_secret es) e \<longleftrightarrow> credential_entry es e"
  by (auto simp: secret_entry_def names_a_secret_def credential_entry_def sensitive_iff split: option.splits go_any.splits)

definition secret_manifest :: "runtime_object \<Rightarrow> go_any \<Rightarrow> bool" where
  "secret_manifest object v \<longleftrightarrow> ro_Resource object = ''secrets''
     \<or> (\<exists>es k. v = AMap es \<and> map_of es ''kind'' = Some (AStr k) \<and> to_lower k = ''secret'')"

lemma secret_manifest_iff: "is_secret_object object v \<longleftrightarrow> secret_manifest object v"
proof -
  have "to_lower ''Secret'' = ''secret''" by code_simp
  then show ?thesis
    by (auto simp: is_secret_object_def secret_manifest_def equal_fold_def split: go_any.splits option.splits)
qed

subsection \<open>Values that differ only in credentials\<close>

inductive alike :: "go_any \<Rightarrow> go_any \<Rightarrow> bool" where
  alike_same: "alike v v"
| alike_list: "list_all2 alike vs ws \<Longrightarrow> alike (AList vs) (AList ws)"
| alike_map: "list_all2 (\<lambda>a b. fst a = fst b \<and> (alike (snd a) (snd b) \<or> credential_entry as a \<and> credential_entry bs b)) as bs
    \<Longrightarrow> alike (AMap as) (AMap bs)"

lemma alike_text: "alike v w \<Longrightarrow> v = AStr t \<longleftrightarrow> w = AStr t"
  by (auto elim: alike.cases)

text \<open>Two maps that are alike agree on the texts under a name that is no credential.\<close>

lemma alike_same_text:
  assumes "list_all2 (\<lambda>a b. fst a = fst b \<and> (alike (snd a) (snd b) \<or> credential_entry cs a \<and> credential_entry ds b)) as bs"
    and "\<not> credential_name k" and "k \<noteq> ''value''"
  shows "map_of as k = Some (AStr t) \<longleftrightarrow> map_of bs k = Some (AStr t)"
  using assms(1)
proof (induction rule: list_all2_induct)
  case (Cons a as b bs)
  have "snd a = AStr t \<longleftrightarrow> snd b = AStr t" if "fst a = k"
    using Cons(1) that assms(2,3) alike_text by (auto simp: credential_entry_def)
  then show ?case using Cons by (cases a; cases b) auto
qed simp

lemma alike_same_entry:
  assumes "list_all2 (\<lambda>a b. fst a = fst b \<and> (alike (snd a) (snd b) \<or> credential_entry as a \<and> credential_entry bs b)) as bs"
    and "fst a = fst b" and "alike (snd a) (snd b)"
  shows "credential_entry as a = credential_entry bs b"
proof -
  have "\<not> credential_name ''name''" unfolding sensitive_iff [symmetric] by code_simp
  with alike_same_text [OF assms(1), of "''name''"] have "map_of as ''name'' = Some (AStr t) \<longleftrightarrow> map_of bs ''name'' = Some (AStr t)" for t
    by simp
  moreover have "snd a = AStr t \<longleftrightarrow> snd b = AStr t" for t using alike_text [OF assms(3)] .
  ultimately show ?thesis using assms(2) by (simp add: credential_entry_def)
qed

lemma alike_redacted:
  "alike v w \<Longrightarrow> redactClassValue v = redactClassValue w \<and> class_value_redacted v = class_value_redacted w"
proof (induction rule: alike.induct)
  case (alike_list vs ws)
  then have "map redactClassValue vs = map redactClassValue ws" "list_ex class_value_redacted vs = list_ex class_value_redacted ws"
    by (induction rule: list_all2_induct) auto
  then show ?case by simp
next
  case (alike_map as bs)
  let ?f = "\<lambda>es e. (fst e, if credential_entry es e then AStr redacted_word else redactClassValue (snd e))"
  let ?g = "\<lambda>es e. credential_entry es e \<or> class_value_redacted (snd e)"
  have l: "list_all2 (\<lambda>a b. fst a = fst b \<and> (alike (snd a) (snd b) \<or> credential_entry as a \<and> credential_entry bs b)) as bs"
    using alike_map by (rule list_all2_mono) blast
  have "list_all2 (\<lambda>a b. ?f as a = ?f bs b \<and> ?g as a = ?g bs b) as bs"
    using alike_map by (rule list_all2_mono) (use alike_same_entry [OF l] in auto)
  moreover have "map (?f cs) as = map (?f ds) bs \<and> list_ex (?g cs) as = list_ex (?g ds) bs"
    if "list_all2 (\<lambda>a b. ?f cs a = ?f ds b \<and> ?g cs a = ?g ds b) as bs" for cs ds
    using that by (induction rule: list_all2_induct) auto
  ultimately show ?case by (simp add: secret_entry_iff)
qed simp

definition alike_object :: "(string \<Rightarrow> string option) \<Rightarrow> runtime_object \<Rightarrow> runtime_object \<Rightarrow> bool" where
  "alike_object fl a b \<longleftrightarrow> a = b \<or>
     (b = a\<lparr>ro_Object := ro_Object b\<rparr> \<and>
      (\<exists>v w. decode_go_map fl (ro_Object a) = Some v \<and> decode_go_map fl (ro_Object b) = Some w
         \<and> (alike v w \<or> secret_manifest a v \<and> secret_manifest b w)))"

lemma alike_same_kind:
  assumes "alike v w" and "ro_Resource a = ro_Resource b"
  shows "secret_manifest a v = secret_manifest b w"
  using assms(1)
proof cases
  case (alike_map as bs)
  have "\<not> credential_name ''kind''" unfolding sensitive_iff [symmetric] by code_simp
  with alike_same_text [OF alike_map(3), of "''kind''"] show ?thesis using assms(2) alike_map by (simp add: secret_manifest_def)
qed (use assms(2) in \<open>simp_all add: secret_manifest_def\<close>)

lemma alike_object_redacted:
  assumes "alike_object fl a b"
  shows "redact_object fl a = redact_object fl b"
proof (cases "a = b")
  case False
  with assms obtain v w where b: "b = a\<lparr>ro_Object := ro_Object b\<rparr>"
    and d: "decode_go_map fl (ro_Object a) = Some v" "decode_go_map fl (ro_Object b) = Some w"
    and k: "alike v w \<or> secret_manifest a v \<and> secret_manifest b w" by (auto simp: alike_object_def)
  have r: "ro_Resource a = ro_Resource b" by (subst b) simp
  have o: "b\<lparr>ro_Object := t\<rparr> = a\<lparr>ro_Object := t\<rparr>" for t by (subst b) simp
  from k show ?thesis
  proof
    assume "alike v w"
    with alike_same_kind [OF this r] alike_redacted [OF this] d show ?thesis
      by (simp add: redact_object_def secret_manifest_iff o)
  next
    assume "secret_manifest a v \<and> secret_manifest b w"
    with d show ?thesis by (simp add: redact_object_def secret_manifest_iff o)
  qed
qed simp

subsection \<open>Specifications that differ only in credentials\<close>

text \<open>An endpoint may carry a credential beside its host and path, or when it is no URL at all.\<close>

definition endpoint_with_more :: "string \<Rightarrow> bool" where
  "endpoint_with_more endpoint \<longleftrightarrow>
     (case url_parse endpoint of None \<Rightarrow> True | Some u \<Rightarrow> u_User u \<noteq> None \<or> u_RawQuery u \<noteq> [] \<or> u_Fragment u \<noteq> [])"

definition alike_endpoint :: "string \<Rightarrow> string \<Rightarrow> bool" where
  "alike_endpoint a b \<longleftrightarrow> a = b \<or> (endpoint_with_more a \<and> endpoint_with_more b)"

definition alike_profile :: "execution_profile option \<Rightarrow> execution_profile option \<Rightarrow> bool" where
  "alike_profile a b \<longleftrightarrow> a = b \<or>
     (\<exists>p q. a = Some p \<and> b = Some q \<and> q = p\<lparr>ep_S3Endpoint := ep_S3Endpoint q, ep_STSEndpoint := ep_STSEndpoint q\<rparr>
        \<and> alike_endpoint (ep_S3Endpoint p) (ep_S3Endpoint q) \<and> alike_endpoint (ep_STSEndpoint p) (ep_STSEndpoint q))"

lemma alike_endpoint_redacted: "alike_endpoint a b \<Longrightarrow> redact_endpoint a = redact_endpoint b"
  by (auto simp: alike_endpoint_def redact_endpoint_def endpoint_with_more_def ValidateEmulatorEndpoint_def split: option.splits)

lemma alike_profile_redacted: "alike_profile a b \<Longrightarrow> redact_profile a = redact_profile b"
proof (cases "a = b")
  case False
  assume "alike_profile a b"
  with False obtain p q where p: "a = Some p" "b = Some q" "q = p\<lparr>ep_S3Endpoint := ep_S3Endpoint q, ep_STSEndpoint := ep_STSEndpoint q\<rparr>"
    and e: "redact_endpoint (ep_S3Endpoint p) = redact_endpoint (ep_S3Endpoint q)"
      "redact_endpoint (ep_STSEndpoint p) = redact_endpoint (ep_STSEndpoint q)"
    by (auto simp: alike_profile_def dest: alike_endpoint_redacted)
  have "p\<lparr>ep_S3Endpoint := x, ep_STSEndpoint := y\<rparr> = q\<lparr>ep_S3Endpoint := x, ep_STSEndpoint := y\<rparr>" for x y
    by (subst p(3)) simp
  then show ?thesis using p e by (auto simp: redact_profile_def split: prod.splits)
qed simp

definition alike_input :: "string \<times> string \<Rightarrow> string \<times> string \<Rightarrow> bool" where
  "alike_input a b \<longleftrightarrow> a = b \<or> (fst a = fst b \<and> credential_name (fst a) \<and> snd a \<noteq> [] \<and> snd b \<noteq> [])"

lemma alike_inputs_redacted: "list_all2 alike_input as bs \<Longrightarrow> redact_inputs as = redact_inputs bs"
  unfolding redact_inputs_def by (induction rule: list_all2_induct) (auto simp: alike_input_def secret_input_def sensitive_iff)

text \<open>Two entries of a query with the same key, and with the same value unless the key names a credential.\<close>

definition alike_entry :: "string \<times> string \<Rightarrow> string \<times> string \<Rightarrow> bool" where
  "alike_entry a b \<longleftrightarrow> fst a = fst b \<and> (snd a = snd b \<or> credential_name (fst a))"

lemma fold_values_Set:
  "distinct ks \<Longrightarrow> foldl (\<lambda>q k. values_Set q k w) q ks
     = map (\<lambda>k. (k, w)) (rev ks) @ filter (\<lambda>e. fst e \<notin> set ks) q"
proof (induction ks arbitrary: q rule: rev_induct)
  case (snoc k ks)
  then have "filter (\<lambda>e. fst e \<noteq> k) (map (\<lambda>k. (k, w)) (rev ks)) = map (\<lambda>k. (k, w)) (rev ks)"
    by (auto simp: filter_id_conv)
  with snoc show ?case by (simp add: values_Set_def conj_commute)
qed simp

lemma alike_query:
  assumes "list_all2 alike_entry p q"
  shows "map fst p = map fst q"
    and "filter (\<lambda>e. \<not> credential_name (fst e)) p = filter (\<lambda>e. \<not> credential_name (fst e)) q"
  using assms by (induction rule: list_all2_induct) (auto simp: alike_entry_def prod_eq_iff)

definition secret_keys :: "query_values \<Rightarrow> string list" where
  "secret_keys q = filter credential_name (remdups (map fst q))"

lemma kept_entries:
  "filter (\<lambda>e. fst e \<notin> set (secret_keys q)) q = filter (\<lambda>e. \<not> credential_name (fst e)) q"
  by (rule filter_cong) (auto simp: secret_keys_def)

lemma alike_query_set:
  assumes "list_all2 alike_entry p q"
  shows "foldl (\<lambda>q k. values_Set q k w) p (secret_keys p) = foldl (\<lambda>q k. values_Set q k w) q (secret_keys q)"
proof -
  have d: "distinct (secret_keys x)" for x by (simp add: secret_keys_def)
  have "secret_keys p = secret_keys q" using alike_query(1) [OF assms] by (simp add: secret_keys_def)
  then show ?thesis using alike_query(2) [OF assms] unfolding fold_values_Set [OF d] kept_entries by simp
qed

definition no_password :: "url_parts \<Rightarrow> bool" where
  "no_password u \<longleftrightarrow> (\<forall>name p. up_User u \<noteq> Some (name, Some p))"

definition alike_url :: "string \<Rightarrow> string \<Rightarrow> bool" where
  "alike_url a b \<longleftrightarrow> a = b \<or>
     (\<exists>u v. url_parts_of a = Some u \<and> url_parts_of b = Some v \<and>
        ((\<exists>name p q. up_User u = Some (name, Some p) \<and> v = u\<lparr>up_User := Some (name, Some q)\<rparr>)
         \<or> (no_password u \<and> v = u\<lparr>up_RawQuery := up_RawQuery v\<rparr>
            \<and> list_all2 alike_entry (url_Query (up_RawQuery u)) (url_Query (up_RawQuery v))
            \<and> secret_keys (url_Query (up_RawQuery u)) \<noteq> [])))"

lemma redact_password_none: "url_parts_of a = Some u \<Longrightarrow> no_password u \<Longrightarrow> redact_password a = (False, a)"
  by (auto simp: redact_password_def no_password_def split: option.splits prod.splits)

lemma redact_query_keys:
  "redact_query before raw =
     (case url_parts_of raw of
        None \<Rightarrow> (before, raw)
      | Some u \<Rightarrow>
          (let q = url_Query (up_RawQuery u); changed = foldl (\<lambda>q k. values_Set q k redacted_word) q (secret_keys q);
               redacted = (before \<or> secret_keys q \<noteq> [])
           in (redacted, if redacted then url_String (u\<lparr>up_RawQuery := values_Encode changed\<rparr>) else raw)))"
proof -
  have "sensitiveClassKey = credential_name" by (simp add: fun_eq_iff sensitive_iff)
  then show ?thesis by (auto simp: redact_query_def secret_keys_def Let_def split: option.split)
qed

text \<open>Both steps of the redaction of a URL.\<close>

definition redact_url :: "bool \<Rightarrow> string \<Rightarrow> bool \<times> bool \<times> string" where
  "redact_url before raw = (let (c, url1) = redact_password raw in (c, redact_query (before \<or> c) url1))"

lemma alike_url_redacted:
  assumes "alike_url a b"
  shows "redact_url before a = redact_url before b"
proof (cases "a = b")
  case False
  with assms obtain u v where uv: "url_parts_of a = Some u" "url_parts_of b = Some v"
    and cases: "(\<exists>name p q. up_User u = Some (name, Some p) \<and> v = u\<lparr>up_User := Some (name, Some q)\<rparr>)
         \<or> (no_password u \<and> v = u\<lparr>up_RawQuery := up_RawQuery v\<rparr>
            \<and> list_all2 alike_entry (url_Query (up_RawQuery u)) (url_Query (up_RawQuery v))
            \<and> secret_keys (url_Query (up_RawQuery u)) \<noteq> [])"
    by (auto simp: alike_url_def)
  from cases show ?thesis
  proof (elim disjE exE conjE)
    fix name p q assume *: "up_User u = Some (name, Some p)" "v = u\<lparr>up_User := Some (name, Some q)\<rparr>"
    then have "redact_password a = redact_password b" using uv by (simp add: redact_password_def)
    then show ?thesis by (simp add: redact_url_def)
  next
    assume *: "no_password u" "v = u\<lparr>up_RawQuery := up_RawQuery v\<rparr>"
      "list_all2 alike_entry (url_Query (up_RawQuery u)) (url_Query (up_RawQuery v))" "secret_keys (url_Query (up_RawQuery u)) \<noteq> []"
    have "no_password v" using *(1) by (subst *(2)) (simp add: no_password_def)
    with *(1) uv have p: "redact_password a = (False, a)" "redact_password b = (False, b)"
      by (simp_all add: redact_password_none)
    have k: "secret_keys (url_Query (up_RawQuery v)) \<noteq> []"
      using *(4) alike_query(1) [OF *(3)] by (simp add: secret_keys_def)
    have "u\<lparr>up_RawQuery := t\<rparr> = v\<lparr>up_RawQuery := t\<rparr>" for t by (subst *(2)) simp
    then have "redact_query before a = redact_query before b"
      using *(4) k uv alike_query_set [OF *(3)] by (simp add: redact_query_keys Let_def)
    then show ?thesis by (simp add: redact_url_def p)
  qed
qed simp

definition alike_spec :: "(string \<Rightarrow> string option) \<Rightarrow> environment_class_spec \<Rightarrow> environment_class_spec \<Rightarrow> bool" where
  "alike_spec fl a b \<longleftrightarrow>
     b = a\<lparr>ecs_ExecutionProfile := ecs_ExecutionProfile b, ecs_Inputs := ecs_Inputs b,
       ecs_Source := (ecs_Source a)\<lparr>src_URL := src_URL (ecs_Source b)\<rparr>,
       ecs_RuntimeProfile := (ecs_RuntimeProfile a)\<lparr>rtp_RuntimeObjects := rtp_RuntimeObjects (ecs_RuntimeProfile b)\<rparr>\<rparr>
     \<and> alike_profile (ecs_ExecutionProfile a) (ecs_ExecutionProfile b)
     \<and> list_all2 alike_input (ecs_Inputs a) (ecs_Inputs b)
     \<and> alike_url (src_URL (ecs_Source a)) (src_URL (ecs_Source b))
     \<and> list_all2 (alike_object fl) (rtp_RuntimeObjects (ecs_RuntimeProfile a)) (rtp_RuntimeObjects (ecs_RuntimeProfile b))"

lemma redactClassSpec_url:
  "redactClassSpec fl spec =
     (let (a, profile) = redact_profile (ecs_ExecutionProfile spec);
          (b, inputs) = redact_inputs (ecs_Inputs spec);
          (c, d, url) = redact_url (a \<or> b) (src_URL (ecs_Source spec));
          objects = map (redact_object fl) (rtp_RuntimeObjects (ecs_RuntimeProfile spec))
      in (d \<or> list_ex fst objects,
          spec\<lparr>ecs_ExecutionProfile := profile, ecs_Inputs := inputs, ecs_Source := (ecs_Source spec)\<lparr>src_URL := url\<rparr>,
            ecs_RuntimeProfile := (ecs_RuntimeProfile spec)\<lparr>rtp_RuntimeObjects := map snd objects\<rparr>\<rparr>))"
  by (simp add: redactClassSpec_def redact_url_def disj_assoc split: prod.splits)

lemma alike_spec_redacted:
  assumes "alike_spec fl a b"
  shows "redactClassSpec fl a = redactClassSpec fl b"
proof -
  have b: "b = a\<lparr>ecs_ExecutionProfile := ecs_ExecutionProfile b, ecs_Inputs := ecs_Inputs b,
       ecs_Source := (ecs_Source a)\<lparr>src_URL := src_URL (ecs_Source b)\<rparr>,
       ecs_RuntimeProfile := (ecs_RuntimeProfile a)\<lparr>rtp_RuntimeObjects := rtp_RuntimeObjects (ecs_RuntimeProfile b)\<rparr>\<rparr>"
    using assms by (simp add: alike_spec_def)
  have same: "a\<lparr>ecs_ExecutionProfile := p, ecs_Inputs := i, ecs_Source := (ecs_Source a)\<lparr>src_URL := u\<rparr>,
       ecs_RuntimeProfile := (ecs_RuntimeProfile a)\<lparr>rtp_RuntimeObjects := os\<rparr>\<rparr>
    = b\<lparr>ecs_ExecutionProfile := p, ecs_Inputs := i, ecs_Source := (ecs_Source b)\<lparr>src_URL := u\<rparr>,
       ecs_RuntimeProfile := (ecs_RuntimeProfile b)\<lparr>rtp_RuntimeObjects := os\<rparr>\<rparr>" for p i u os
    by (subst (1 2 3) b) simp
  have "map (redact_object fl) (rtp_RuntimeObjects (ecs_RuntimeProfile a))
      = map (redact_object fl) (rtp_RuntimeObjects (ecs_RuntimeProfile b))"
    using assms unfolding alike_spec_def by (auto simp: list_all2_conv_all_nth intro!: nth_equalityI alike_object_redacted)
  moreover have "redact_profile (ecs_ExecutionProfile a) = redact_profile (ecs_ExecutionProfile b)"
    "redact_inputs (ecs_Inputs a) = redact_inputs (ecs_Inputs b)"
    "redact_url x (src_URL (ecs_Source a)) = redact_url x (src_URL (ecs_Source b))" for x
    using assms by (simp_all add: alike_spec_def alike_profile_redacted alike_inputs_redacted alike_url_redacted)
  ultimately show ?thesis by (simp add: redactClassSpec_url same split: prod.splits)
qed

definition alike_class :: "(string \<Rightarrow> string option) \<Rightarrow> environment_class \<Rightarrow> environment_class \<Rightarrow> bool" where
  "alike_class fl a b \<longleftrightarrow> b = a\<lparr>ec_Spec := ec_Spec b\<rparr> \<and> alike_spec fl (ec_Spec a) (ec_Spec b)"

lemma alike_class_view:
  assumes "alike_class fl a b"
  shows "classView a = classView b"
proof -
  have "ec_Meta b = ec_Meta a" "ec_Status b = ec_Status a"
    using assms by (cases a, cases b, simp add: alike_class_def)+
  moreover have "ecs_Version (ec_Spec b) = ecs_Version (ec_Spec a)" "ecs_Target (ec_Spec b) = ecs_Target (ec_Spec a)"
    "ecs_AllowedRegions (ec_Spec b) = ecs_AllowedRegions (ec_Spec a)"
    "ecs_CapacityBounds (ec_Spec b) = ecs_CapacityBounds (ec_Spec a)"
    using assms by (cases "ec_Spec a", cases "ec_Spec b", simp add: alike_class_def alike_spec_def)+
  ultimately show ?thesis by (simp add: classView_def Let_def)
qed

lemma alike_class_detail:
  assumes "alike_class (co_float env) a b"
  shows "classDetail env a usage = classDetail env b usage"
proof -
  have "ec_Meta b = ec_Meta a" "ec_Status b = ec_Status a"
    using assms by (cases a, cases b, simp add: alike_class_def)+
  then show ?thesis using alike_class_view [OF assms] alike_spec_redacted [of "co_float env" "ec_Spec a" "ec_Spec b"] assms
    by (simp add: classDetail_def alike_class_def)
qed

subsection \<open>What the console accepts, the controller admits\<close>

lemma sort_key_Nil: "sort_key f xs = [] \<longleftrightarrow> xs = []"
  by (metis length_0_conv length_sort)

lemma valid_class:
  assumes "cval_Valid (validateClassRequest env request)"
  shows "profile_diagnostic (ccr_Spec request) = None" and "class_diagnostics env request = []"
  using assms by (auto simp: validateClassRequest_def sort_key_Nil Let_def split: option.splits)

lemma report_Nil [simp]: "report b c f m = [] \<longleftrightarrow> \<not> b"
  by (simp add: report_def)

lemma valid_class_accounts:
  assumes "cval_Valid (validateClassRequest env request)" and "nv_Subdomain (co_names env) [] \<noteq> []"
  shows "sar_ServiceAccountName (be_AuthRef (ecs_Backend (ccr_Spec request)))
      = rp_ServiceAccountName (ecs_RunnerProfile (ccr_Spec request))
    \<and> rp_ServiceAccountName (ecs_RunnerProfile (ccr_Spec request)) \<noteq> []"
  using valid_class(2) [OF assms(1)] assms(2)
  by (auto simp: class_diagnostics_def backend_diagnostics_def name_field_def Let_def)

lemma profile_admitted: "profile_diagnostic (ec_Spec c) = None \<Longrightarrow> class_profile_error c = None"
  by (auto simp: profile_diagnostic_def class_profile_error_def split: option.splits if_splits)

lemma accepted_request_checks:
  assumes "validateEnvironmentRequest env request = Inr (e, c)"
    and "cval_Valid (validateClassRequest env \<lparr>ccr_Name = name, ccr_Spec = ec_Spec c\<rparr>)"
    and "nv_Subdomain (co_names env) [] \<noteq> []"
    and "ecst_SpecDigest (ec_Status c) \<in> {[], environmentClassSpecDigest sha (Some c)}"
  shows "\<forall>x \<in> set (class_checks sha e c). \<not> fst x"
proof -
  note v = validateEnvironmentRequest_Inr [OF assms(1)]
  have r: "requested_region e c = request_region request c" and i: "pes_InfraStackRef (pe_Spec e) = []"
    and t: "pes_Target (pe_Spec e) = zero_target_reference" and n: "cap_NodeCount (pes_Capacity (pe_Spec e)) = cer_NodeCount request"
    using v by (auto simp: requested_region_def request_region_def requested_environment_def zero_platform_environment_spec_def Let_def)
  have k: "request_class_error request c = None" using v by blast
  have account: "runnerServiceAccountName (Some c) \<noteq> []"
    using valid_class_accounts [OF assms(2,3)] by (simp add: runnerServiceAccountName_def)
  show ?thesis
    using k valid_class_accounts [OF assms(2,3)] account assms(4)
    by (auto simp: class_checks_def request_class_error_def validateNodeCount_def r i t n Let_def zero_target_reference_def)
qed

text \<open>
  C26. The controller has nothing left to refuse but the target. An environment the console accepts, of a class whose
  specification passes the validation of the console and still has the digest the controller recorded, is admitted by the
  class controller's own check exactly when the target of the class can be materialized in the region of the environment.
\<close>
theorem console_environments_are_admitted:
  assumes "validateEnvironmentRequest env request = Inr (e, c)"
    and "cval_Valid (validateClassRequest env \<lparr>ccr_Name = name, ccr_Spec = ec_Spec c\<rparr>)"
    and "nv_Subdomain (co_names env) [] \<noteq> []"
    and "ecst_SpecDigest (ec_Status c) \<in> {[], environmentClassSpecDigest sha (Some c)}"
  shows "validateEnvironmentClass sha (Some e) (Some c) = None \<longleftrightarrow> (\<exists>spec. materializeTarget (classTarget e c) = Inr spec)"
proof -
  have "class_profile_error c = None" using valid_class(1) [OF assms(2)] by (simp add: profile_admitted)
  then show ?thesis using accepted_request_checks [OF assms] by (simp add: validateEnvironmentClass_None)
qed

text \<open>
  C29. A class is shown without the credentials that its names give away. Two classes that differ only in the nonempty values of
  inputs whose names name a credential, in the password of their Git URL or, where it has none, in the parameters
  of its query under such names, in endpoints with more than a host and a path, and, in their runtime objects, in nonempty texts under
  such names, in the values beside such a name, and in whole Secrets, give the same answer to a request for the class. What names a credential
  is said by \<open>credential_name\<close>; what the redaction leaves in place is shown by \<open>credentials_still_shown\<close>.
\<close>
theorem class_view_hides_named_credentials:
  assumes "co_class env name = Inr a" and "alike_class (co_float env) a b"
  shows "getClass (env\<lparr>co_class := (co_class env)(name := Inr b)\<rparr>) name = getClass env name"
proof -
  have m: "ec_Meta b = ec_Meta a" using assms(2) by (cases a, cases b, simp add: alike_class_def)
  have "classDetail (env\<lparr>co_class := f\<rparr>) b usage = classDetail env b usage" for f usage
    by (simp add: classDetail_def)
  then show ?thesis using assms(1) alike_class_detail [OF assms(2)] m by (simp add: getClass_def with_object_def split: sum.splits)
qed

text \<open>
  The redaction goes by the type and the place of a value. A number or a list under the name of a password is shown, and so is
  a Secret among the items of a List.
\<close>

lemma credentials_still_shown:
  "redactClassValue (AMap [(''password'', AFloat t)]) = AMap [(''password'', AFloat t)]"
  "redactClassValue (AMap [(''password'', AList [AStr s])]) = AMap [(''password'', AList [AStr s])]"
  "ro_Resource object \<noteq> ''secrets'' \<Longrightarrow> \<not> is_secret_object object (AMap [(''items'', AList [AMap [(''kind'', AStr ''Secret''), (''stringData'', AMap [(''key'', AStr s)])]]), (''kind'', AStr ''List'')])"
  "redactClassValue (AMap [(''items'', AList [AMap [(''kind'', AStr ''Secret''), (''stringData'', AMap [(''key'', AStr s)])]]), (''kind'', AStr ''List'')])
     = AMap [(''items'', AList [AMap [(''kind'', AStr ''Secret''), (''stringData'', AMap [(''key'', AStr s)])]]), (''kind'', AStr ''List'')]"
proof -
  have k: "\<not> sensitiveClassKey ''items''" "\<not> sensitiveClassKey ''kind''" "\<not> sensitiveClassKey ''stringData''" "\<not> sensitiveClassKey ''key''"
    by code_simp+
  show "redactClassValue (AMap [(''password'', AFloat t)]) = AMap [(''password'', AFloat t)]"
    "redactClassValue (AMap [(''password'', AList [AStr s])]) = AMap [(''password'', AList [AStr s])]"
    "redactClassValue (AMap [(''items'', AList [AMap [(''kind'', AStr ''Secret''), (''stringData'', AMap [(''key'', AStr s)])]]), (''kind'', AStr ''List'')])
     = AMap [(''items'', AList [AMap [(''kind'', AStr ''Secret''), (''stringData'', AMap [(''key'', AStr s)])]]), (''kind'', AStr ''List'')]"
    by (simp_all add: secret_entry_def names_a_secret_def k)
  have "\<not> equal_fold ''List'' ''Secret''" by code_simp
  then show "\<not> is_secret_object object (AMap [(''items'', AList [AMap [(''kind'', AStr ''Secret''), (''stringData'', AMap [(''key'', AStr s)])]]), (''kind'', AStr ''List'')])"
    if "ro_Resource object \<noteq> ''secrets''" using that by (simp add: is_secret_object_def)
qed

subsection \<open>Instances\<close>

definition catalog_spec :: environment_class_spec where
  "catalog_spec = (ec_Spec sample_class)\<lparr>
     ecs_Source := zero_source_spec\<lparr>src_URL := ''https://h/r.git'', src_Revision := replicate 40 (CHR ''a''), src_Path := ''infra''\<rparr>,
     ecs_Backend := zero_backend_spec\<lparr>be_Type := ''s3'', be_ConfigRef := ''b'', be_AuthRef := \<lparr>sar_ServiceAccountName = ''runner''\<rparr>,
       be_LockTimeout := 1\<rparr>,
     ecs_Executor := zero_executor_spec\<lparr>ex_Image := ''i'', ex_TerraformVersion := ''1.9'', ex_WorkDir := ''w'', ex_ExecutionTimeout := 1\<rparr>,
     ecs_RunnerProfile := (ecs_RunnerProfile (ec_Spec sample_class))\<lparr>rp_ServiceAccountName := ''runner'', rp_ImageDigest := ''d''\<rparr>,
     ecs_Target := (ecs_Target (ec_Spec sample_class))\<lparr>tr_Region := ''r''\<rparr>,
     ecs_ApprovalPolicy := ApprovalPolicyManual\<rparr>"

definition catalog_class :: environment_class where
  "catalog_class = console_class\<lparr>ec_Spec := catalog_spec\<rparr>"

definition catalog_console :: console_env where
  "catalog_console = sample_console\<lparr>co_class := (\<lambda>n. if n = ''c'' then Inr catalog_class else refused)\<rparr>"

lemma catalog_request:
  "validateEnvironmentRequest catalog_console (intent_request sample_intent)
     = Inr (requested_environment (intent_request sample_intent) catalog_class, catalog_class)"
  by code_simp

lemma catalog_valid: "class_diagnostics catalog_console \<lparr>ccr_Name = ''c'', ccr_Spec = catalog_spec\<rparr> = []"
  by code_simp

theorem console_environments_are_admitted_witness:
  "validateEnvironmentClass (\<lambda>s. s) (Some (requested_environment (intent_request sample_intent) catalog_class)) (Some catalog_class) = None"
proof -
  have "profile_diagnostic catalog_spec = None" by code_simp
  then have v: "cval_Valid (validateClassRequest catalog_console \<lparr>ccr_Name = ''c'', ccr_Spec = ec_Spec catalog_class\<rparr>)"
    by (simp add: validateClassRequest_def catalog_valid catalog_class_def)
  have n: "nv_Subdomain (co_names catalog_console) [] \<noteq> []" by code_simp
  have d: "ecst_SpecDigest (ec_Status catalog_class) \<in> {[], environmentClassSpecDigest (\<lambda>s. s) (Some catalog_class)}" by code_simp
  have "\<not> isl (materializeTarget (classTarget (requested_environment (intent_request sample_intent) catalog_class) catalog_class))"
    by code_simp
  then have "\<exists>spec. materializeTarget (classTarget (requested_environment (intent_request sample_intent) catalog_class) catalog_class)
      = Inr spec" by (metis isl_def sum.exhaust_sel)
  then show ?thesis using console_environments_are_admitted [OF catalog_request v n d] by blast
qed

definition secret_class :: "string \<Rightarrow> environment_class" where
  "secret_class s = catalog_class\<lparr>ec_Spec := catalog_spec\<lparr>ecs_Inputs := [(''db_password'', s)],
     ecs_Source := (ecs_Source catalog_spec)\<lparr>src_URL := ''https://git:'' @ s @ ''@h/r.git''\<rparr>\<rparr>\<rparr>"

lemma secret_classes_alike: "alike_class Some (secret_class ''one'') (secret_class ''two'')"
proof -
  have a: "url_parts_of (''https://git:'' @ ''one'' @ ''@h/r.git'') = Some \<lparr>up_Scheme = ''https'', up_Opaque = [],
    up_User = Some (''git'', Some ''one''), up_Host = ''h'', up_OmitHost = False, up_PathText = ''/r.git'', up_ForceQuery = False,
    up_RawQuery = [], up_FragmentText = []\<rparr>" by code_simp
  have b: "url_parts_of (''https://git:'' @ ''two'' @ ''@h/r.git'') = Some \<lparr>up_Scheme = ''https'', up_Opaque = [],
    up_User = Some (''git'', Some ''two''), up_Host = ''h'', up_OmitHost = False, up_PathText = ''/r.git'', up_ForceQuery = False,
    up_RawQuery = [], up_FragmentText = []\<rparr>" by code_simp
  have u: "alike_url (''https://git:'' @ ''one'' @ ''@h/r.git'') (''https://git:'' @ ''two'' @ ''@h/r.git'')"
    unfolding alike_url_def a b by simp
  have "credential_name ''db_password''" unfolding sensitive_iff [symmetric] by code_simp
  then have i: "alike_input (''db_password'', ''one'') (''db_password'', ''two'')" by (simp add: alike_input_def)
  have o: "list_all2 (alike_object Some) os os" for os
    by (simp add: list_all2_same alike_object_def)
  show ?thesis
    using u i o by (simp add: alike_class_def alike_spec_def secret_class_def alike_profile_def)
qed

theorem class_view_hides_named_credentials_witness:
  "getClass (sample_console\<lparr>co_class := (\<lambda>n. if n = ''c'' then Inr (secret_class ''two'') else refused)\<rparr>) ''c''
     = getClass (sample_console\<lparr>co_class := (\<lambda>n. if n = ''c'' then Inr (secret_class ''one'') else refused)\<rparr>) ''c''"
proof -
  let ?env = "sample_console\<lparr>co_class := (\<lambda>n. if n = ''c'' then Inr (secret_class ''one'') else refused)\<rparr>"
  have f: "co_float ?env = Some" by (simp add: sample_console_def)
  have "(co_class ?env)(''c'' := Inr (secret_class ''two'')) = (\<lambda>n. if n = ''c'' then Inr (secret_class ''two'') else refused)"
    by (auto simp: fun_eq_iff)
  with class_view_hides_named_credentials [of ?env "''c''" "secret_class ''one''" "secret_class ''two''"] secret_classes_alike f
  show ?thesis by simp
qed

end
