(* ===== verification/BootstrapBounds.thy ===== *)
theory BootstrapBounds
  imports RuntimeOrder
begin

section \<open>How long a bootstrap takes\<close>

text \<open>
  The price of a session, in requests to the target cluster: it is never exceeded, and paid exactly when the session
  succeeds. Prices add up along the loops of bootstrap.go, so a bootstrap ends after a number of requests known before
  it starts, whatever the cluster answers.
\<close>

definition costs :: "'a session \<Rightarrow> nat \<Rightarrow> bool" where
  "costs s n \<longleftrightarrow> (\<forall>h. length (snd (s h)) \<le> length h + n
     \<and> (\<not> isl (fst (s h)) \<longrightarrow> length (snd (s h)) = length h + n))"

lemma costs_ret: "costs (s_ret a) 0"
  by (simp add: costs_def session_simps)

lemma costs_fail: "costs (s_fail e) n"
  by (simp add: costs_def session_simps)

lemma costs_case:
  assumes "costs s n" and "\<And>a. costs (ok a) m"
  shows "costs (s_case s (\<lambda>e. s_fail (err e)) ok) (n + m)"
  unfolding costs_def
proof
  fix h
  obtain r h' where s: "s h = (r, h')" by fastforce
  have "length h' \<le> length h + n \<and> (\<not> isl r \<longrightarrow> length h' = length h + n)"
    using assms(1) s unfolding costs_def by (metis fst_conv snd_conv)
  moreover have "length (snd (ok a h')) \<le> length h' + m
      \<and> (\<not> isl (fst (ok a h')) \<longrightarrow> length (snd (ok a h')) = length h' + m)" for a
    using assms(2) [of a] unfolding costs_def by blast
  ultimately show "length (snd (s_case s (\<lambda>e. s_fail (err e)) ok h)) \<le> length h + (n + m)
      \<and> (\<not> isl (fst (s_case s (\<lambda>e. s_fail (err e)) ok h))
           \<longrightarrow> length (snd (s_case s (\<lambda>e. s_fail (err e)) ok h)) = length h + (n + m))"
    by (cases r) (auto simp: s_case_def s session_simps add.assoc [symmetric])
qed

lemma costs_bind: "costs s n \<Longrightarrow> (\<And>a. costs (f a) m) \<Longrightarrow> costs (s_bind s f) (n + m)"
  using costs_case [of s n f m "\<lambda>e. e"] by (simp add: s_bind_def s_case_def s_fail_def)

lemma costs_get: "costs (s_get c r ns name) (Suc 0)" and costs_apply: "costs (s_apply c r u fm) (Suc 0)"
  by (simp_all add: costs_def session_simps)

subsection \<open>The loops of bootstrap.go\<close>

lemma apply_item_costs: "costs (apply_item sha c fm target item) 1"
proof -
  have "costs (runtime_Apply (Some c) r u fm) 1" for r u
    by (simp add: runtime_Apply_def costs_fail costs_apply split: option.split)
  then have "costs (apply_item sha c fm target item) (1 + 0)"
    unfolding apply_item_def by (rule costs_case) (auto simp: costs_ret costs_fail split: sum.split)
  then show ?thesis by simp
qed

lemma apply_items_cost: "costs (apply_items sha c fm target items) (length items)"
proof (induction items)
  case (Cons item items)
  have "costs (s_bind (apply_items sha c fm target items) (\<lambda>entries. s_ret (entry # entries))) (length items + 0)" for entry
    by (rule costs_bind [OF Cons.IH costs_ret])
  from costs_bind [OF apply_item_costs this] show ?case by simp
qed (simp add: costs_ret)

definition readings :: "bootstrap_object list \<Rightarrow> nat" where
  "readings items = length (filter (\<lambda>i. bo_ReadinessPolicy i = ''RequireReady'') items)"

lemma readings_append [simp]: "readings (as @ bs) = readings as + readings bs"
  by (simp add: readings_def)

lemma check_item_costs: "costs (check_item c item) (readings [item])"
proof (cases "bo_ReadinessPolicy item = ''RequireReady''")
  case True
  have "costs (check_item c item) (Suc 0 + 0)"
    unfolding check_item_def Let_def True not_not refl not_True_eq_False simp_thms if_False
    by (rule costs_case [OF costs_get]) (auto simp: costs_ret costs_fail split: prod.split option.split)
  with True show ?thesis by (simp add: readings_def)
qed (simp add: check_item_def readings_def costs_ret)

lemma check_items_cost: "costs (check_items c items) (readings items)"
proof (induction items)
  case (Cons item items)
  from costs_bind [OF check_item_costs Cons.IH] show ?case using readings_append [of "[item]" items] by simp
qed (simp add: costs_ret readings_def)

lemma wave_price:
  "(a :: nat) + b = m \<Longrightarrow> c + d = n \<Longrightarrow> a + (c + (b + d + 0)) = m + n"
  by simp

lemma apply_waves_cost: "costs (apply_waves sha c fm target items) (length items + readings items)"
proof (induction sha c fm target items rule: apply_waves.induct)
  case (2 sha c fm target item items)
  let ?wave = "item # takeWhile (\<lambda>i. bo_Wave i = bo_Wave item) items"
  let ?rest = "dropWhile (\<lambda>i. bo_Wave i = bo_Wave item) items"
  have split: "item # items = ?wave @ ?rest" by simp
  have "costs (s_bind (apply_waves sha c fm target ?rest) (\<lambda>more. s_ret (entries @ more)))
      (length ?rest + readings ?rest + 0)" for entries
    by (rule costs_bind [OF 2 [OF refl refl] costs_ret])
  from costs_bind [OF apply_items_cost costs_bind [OF check_items_cost this]]
  have c: "costs (apply_waves sha c fm target (item # items))
      (length ?wave + (readings ?wave + (length ?rest + readings ?rest + 0)))"
    by (simp only: apply_waves.simps Let_def)
  have l: "length ?wave + length ?rest = length (item # items)"
    unfolding split length_append ..
  have r: "readings ?wave + readings ?rest = readings (item # items)"
    unfolding split readings_append ..
  show ?case using c unfolding wave_price [OF l r] .
qed (simp add: costs_ret readings_def)

lemma readings_sorted: "readings (sort_key f objects) = readings objects"
  unfolding readings_def by (simp add: filter_sort)

text \<open>
  C40. A bootstrap ends: it fails after at most, and succeeds after exactly, one request per object and one more per object
  that has to be ready, whatever the target cluster answers to each of them; and it is refused without any request
  when there is nothing to apply.
\<close>
theorem bootstrap_ends:
  "(if isl (fst (ApplyBootstrap sha c objects fm target h))
    then length (snd (ApplyBootstrap sha c objects fm target h)) \<le> length h + length objects + readings objects
    else objects \<noteq> []
      \<and> length (snd (ApplyBootstrap sha c objects fm target h)) = length h + length objects + readings objects)"
proof (cases "objects = []")
  case False
  from apply_waves_cost [of sha c fm target "sort_key bo_Wave objects"] False show ?thesis
    by (simp add: ApplyBootstrap_def orderBootstrapObjects_def costs_def readings_sorted add.assoc)
qed (simp add: ApplyBootstrap_def session_simps)

end
