(* ===== verification/EntryPoints.thy ===== *)
theory EntryPoints
  imports RunSlots TargetAdapters ConsoleRoutes
begin

section \<open>The entry points: cmd/controller and cmd/platform-api\<close>

text \<open>
  What the two programs decide before they start serving: the settings, the execution gate, closed until the leader
  has reconstructed it, the clients of the target clusters, and the address of the console. The
  environment variables, the files, the kubeconfig loader and the clients of client-go are parameters; the registration
  of schemes, controllers and probes with the manager is wiring.
\<close>

subsection \<open>Settings: cmd/controller/main.go\<close>

definition splitNonEmpty :: "string \<Rightarrow> string list" where
  "splitNonEmpty s = filter (\<lambda>t. t \<noteq> []) (map trim_space (split_on (CHR '','') s))"

definition positiveEnvInt :: "(string \<Rightarrow> string) \<Rightarrow> string \<Rightarrow> int \<Rightarrow> int" where
  "positiveEnvInt getenv name fallback =
     (case atoi (getenv name) of None \<Rightarrow> fallback | Some v \<Rightarrow> if v < 1 then fallback else v)"

definition envOrDefault :: "(string \<Rightarrow> string) \<Rightarrow> string \<Rightarrow> string \<Rightarrow> string" where
  "envOrDefault getenv name fallback = (let v = getenv name in if v \<noteq> [] then v else fallback)"

definition leaderElectionNamespace :: "(string \<Rightarrow> string) \<Rightarrow> string" where
  "leaderElectionNamespace getenv = envOrDefault getenv ''PCP_LEADER_ELECTION_NAMESPACE'' ''platform-system''"

text \<open>The gate of the process as main makes it, and the settings of the TerraformRun controller.\<close>

definition controller_gate :: "(string \<Rightarrow> string) \<Rightarrow> gate" where
  "controller_gate getenv = CloseAdmission (NewGate (positiveEnvInt getenv ''PCP_MAX_CONCURRENT_PLANS'' 8)
     (positiveEnvInt getenv ''PCP_MAX_CONCURRENT_APPLIES'' 4))"

definition controller_run_config :: "(string \<Rightarrow> string) \<Rightarrow> run_config" where
  "controller_run_config getenv =
     \<lparr>cfg_ExecutionEnabled = equal_fold (getenv ''PCP_ENABLE_TERRAFORM_EXECUTION'') ''true'', cfg_GitImage = [],
      cfg_ArtifactEndpoint = getenv ''PCP_ARTIFACT_ENDPOINT'', cfg_ArtifactRegion = getenv ''PCP_ARTIFACT_REGION'',
      cfg_ArtifactBucket = getenv ''PCP_ARTIFACT_BUCKET'', cfg_ArtifactKMSKeyID = getenv ''PCP_ARTIFACT_KMS_KEY_ID''\<rparr>"

text \<open>readiness.go: a standby is ready, a leader when its gate is.\<close>

definition leaderExecutionReady :: "bool \<Rightarrow> gate \<Rightarrow> gerr option" where
  "leaderExecutionReady elected g = (if elected then ReadyCheck g else None)"

subsection \<open>The clients of the target clusters\<close>

record target_entry =
  tgt_Identity :: runtime_target_identity
  tgt_Connection :: target_connection_profile

text \<open>
  \<open>ts_config path name\<close> loads the kubeconfig of a path, the default one for the empty path; \<open>ts_kube\<close> makes a
  typed client, which answers with the UID of the namespace kube-system; \<open>ts_dynamic\<close> makes a dynamic client.
\<close>

record ('k, 'c) target_setup =
  ts_getenv :: "string \<Rightarrow> string"
  ts_file :: "string \<Rightarrow> gerr + string"
  ts_decode :: "string \<Rightarrow> gerr + target_entry list"
  ts_config :: "string \<Rightarrow> string \<Rightarrow> gerr + 'k"
  ts_kube :: "'k \<Rightarrow> gerr + (gerr + string)"
  ts_dynamic :: "'k \<Rightarrow> gerr + 'c"

definition entry_error :: "(string \<Rightarrow> string) \<Rightarrow> target_entry \<Rightarrow> gerr option" where
  "entry_error getenv e = (let i = tgt_Identity e; p = tgt_Connection e in
     and_then (ValidateBinding i p) (first_error
       [(getenv ''PCP_KUBECONFIG'' = [] \<or> tcp_Endpoint p \<noteq> ''kubeconfig:'' @ tcp_KubeContext p,
         ''explicit target kubeconfig and matching context endpoint are required''),
        (rti_Provider i \<noteq> ProviderKubernetes \<or> tcp_AuthMode p \<noteq> AuthKubeconfigContext,
         ''configured targets require generic Kubernetes identity and auth'')]))"

definition entry_client :: "('k, 'c) target_setup \<Rightarrow> target_entry \<Rightarrow> gerr + 'c" where
  "entry_client ts e =
     checked (entry_error (ts_getenv ts) e)
       (sum_bind (ts_config ts (ts_getenv ts ''PCP_KUBECONFIG'') (tcp_KubeContext (tgt_Connection e))) (\<lambda>k.
        sum_bind (ts_kube ts k) (\<lambda>answer.
        sum_bind answer (\<lambda>uid.
          if uid \<noteq> rti_IncarnationID (tgt_Identity e)
          then Inl (Err ''configured target incarnation does not match kube-system UID'')
          else ts_dynamic ts k))))"

text \<open>The factory and the first client made.\<close>

definition or_first :: "'c option \<Rightarrow> 'c \<Rightarrow> 'c option" where
  "or_first first c = (case first of None \<Rightarrow> Some c | Some f \<Rightarrow> Some f)"

fun register_entries ::
  "hash \<Rightarrow> ('k, 'c) target_setup \<Rightarrow> target_entry list \<Rightarrow> 'c client_factory \<times> 'c option
     \<Rightarrow> gerr + 'c client_factory \<times> 'c option" where
  "register_entries sha ts [] fc = Inr fc"
| "register_entries sha ts (e # es) (f, first) =
     sum_bind (entry_client ts e) (\<lambda>c.
     sum_bind (Register sha f (tgt_Identity e) (tgt_Connection e) (Some c)) (\<lambda>f'.
       register_entries sha ts es (f', or_first first c)))"

definition kind_expectation :: "string \<Rightarrow> target_expectation" where
  "kind_expectation name =
     \<lparr>te_Provider = ProviderKind, te_AccountID = [], te_Region = [], te_ClusterARN = [], te_ClusterName = name,
      te_ClusterID = [], te_IncarnationID = [], te_ConnectionProfile = [], te_ExecutionRoleARN = [], te_RuntimeRoleARN = []\<rparr>"

fun register_contexts ::
  "hash \<Rightarrow> ('k, 'c) target_setup \<Rightarrow> string list \<Rightarrow> 'c client_factory \<times> 'c option
     \<Rightarrow> gerr + 'c client_factory \<times> 'c option" where
  "register_contexts sha ts [] fc = Inr fc"
| "register_contexts sha ts (name # names) (f, first) =
     sum_bind (ts_config ts (ts_getenv ts ''PCP_KUBECONFIG'') name) (\<lambda>k.
     sum_bind (ts_dynamic ts k) (\<lambda>c.
     sum_bind (MaterializeTarget (kind_expectation name)) (\<lambda>m.
     sum_bind (Register sha f (mt_RuntimeTargetIdentity m) (mt_TargetConnectionProfile m) (Some c)) (\<lambda>f'.
       register_contexts sha ts names (f', or_first first c)))))"

definition target_contexts :: "(string \<Rightarrow> string) \<Rightarrow> string list" where
  "target_contexts getenv = (let names = splitNonEmpty (getenv ''PCP_TARGET_CONTEXTS'') in
     if names = [] then splitNonEmpty (getenv ''PCP_TARGET_CONTEXT'') else names)"

text \<open>
  What buildTargetClient returns: the first client, the factory of the kubeconfig resolver and whether the EKS
  resolver and verifier are there; \<open>None\<close> when no target is configured.
\<close>

record 'c target_clients =
  tc_First :: "'c option"
  tc_Kubeconfig :: "'c client_factory option"
  tc_AWS :: bool

definition file_targets ::
  "hash \<Rightarrow> ('k, 'c) target_setup \<Rightarrow> gerr + ('c client_factory \<times> 'c option) option" where
  "file_targets sha ts =
     (let path = ts_getenv ts ''PCP_TARGETS_FILE'' in
      if path = [] then Inr None
      else sum_bind (ts_file ts path) (\<lambda>content. sum_bind (ts_decode ts content) (\<lambda>entries.
        sum_bind (register_entries sha ts entries (NewTargetClientFactory, None)) (\<lambda>r. Inr (Some r)))))"

definition buildTargetClient :: "hash \<Rightarrow> ('k, 'c) target_setup \<Rightarrow> gerr + 'c target_clients option" where
  "buildTargetClient sha ts =
     (let contexts = target_contexts (ts_getenv ts);
          aws = equal_fold (ts_getenv ts ''PCP_ENABLE_AWS_EKS'') ''true'' in
      sum_bind (file_targets sha ts) (\<lambda>from_file.
      sum_bind (if contexts = [] then Inr from_file
                else sum_bind (register_contexts sha ts contexts
                       (case from_file of None \<Rightarrow> (NewTargetClientFactory, None) | Some r \<Rightarrow> r)) (\<lambda>r. Inr (Some r)))
        (\<lambda>kubeconfig.
          if kubeconfig = None \<and> \<not> aws then Inr None
          else Inr (Some \<lparr>tc_First = (case kubeconfig of None \<Rightarrow> None | Some (f, first) \<Rightarrow> first),
                          tc_Kubeconfig = map_option fst kubeconfig, tc_AWS = aws\<rparr>))))"

text \<open>The ClientResolver the ResourceSet controller gets.\<close>

definition target_resolver ::
  "hash \<Rightarrow> ('c \<Rightarrow> gerr + string) \<Rightarrow> 'c resolver \<Rightarrow> 'c target_clients \<Rightarrow> 'c resolver" where
  "target_resolver sha uid eks tc =
     ProviderClientResolver_Client (map_option (Factory_Client sha uid) (tc_Kubeconfig tc)) (if tc_AWS tc then Some eks else None)"

subsection \<open>The address of the console: cmd/platform-api/main.go\<close>

text \<open>net.SplitHostPort: the host, or \<open>None\<close> for an address that does not split.\<close>

definition split_host :: "string \<Rightarrow> string option" where
  "split_host s =
     (case last_cut (CHR '':'') s of
        None \<Rightarrow> None
      | Some (front, port) \<Rightarrow>
          if has_prefix s ''['' then
            (let host = takeWhile (\<lambda>c. c \<noteq> CHR '']'') (tl s); behind = drop (length host + 2) s in
             if CHR '']'' \<notin> set s \<or> behind \<noteq> CHR '':'' # port \<or> CHR ''['' \<in> set (tl s) \<or> CHR '']'' \<in> set behind
             then None else Some host)
          else if CHR '':'' \<in> set front \<or> CHR ''['' \<in> set s \<or> CHR '']'' \<in> set s then None
          else Some front)"

definition platform_api_address :: "(string \<Rightarrow> string) \<Rightarrow> gerr + string" where
  "platform_api_address getenv =
     (let address = or_else (trim_space (getenv ''PCP_PLATFORM_API_ADDR'')) ''127.0.0.1:8090''
      in case split_host address of
           Some host \<Rightarrow>
             if equal_fold host ''localhost'' \<or> is_loopback (trim_both (\<lambda>c. c = CHR ''['' \<or> c = CHR '']'') host)
             then Inr address else Inl (Err ''platform API must bind to a loopback address'')
         | None \<Rightarrow> Inl (Err ''platform API must bind to a loopback address''))"

text \<open>
  What the console starts with: the provider and generator of drafts, the store and the address to listen on.
  NewServer refuses only a missing client or generator, and here both are there.
\<close>

record platform_api =
  pa_Provider :: string
  pa_Drafts :: draft_generator
  pa_Store :: "(string \<times> string) option"
  pa_Address :: string

definition platform_api_main :: "(string \<Rightarrow> string) \<Rightarrow> gerr + platform_api" where
  "platform_api_main getenv =
     sum_bind (NewDraftGeneratorFromEnvironment getenv) (\<lambda>(provider, generator).
     sum_bind (NewArtifactStoreFromEnvironment getenv) (\<lambda>store.
     sum_bind (platform_api_address getenv) (\<lambda>address.
       Inr \<lparr>pa_Provider = provider, pa_Drafts = generator, pa_Store = store, pa_Address = address\<rparr>)))"

subsection \<open>A controller that has not reconstructed its executions\<close>

text \<open>A gate that admits nothing and holds no slot: no operation of a reconcile changes it.\<close>

definition idle_gate :: "gate \<Rightarrow> bool" where
  "idle_gate g \<longleftrightarrow> activeItems g = Map.empty \<and> \<not> gateReady g"

lemma controller_gate_idle: "idle_gate (controller_gate getenv)"
  by (simp add: idle_gate_def controller_gate_def NewGate_def CloseAdmission_def)

lemma idle_release [simp]: "idle_gate g \<Longrightarrow> releaseExecutionSlot (Some g) run = Some g"
  by (simp add: idle_gate_def releaseExecutionSlot_def Release_def)

lemma idle_ensure [simp]: "idle_gate g \<Longrightarrow> ensureExecutionSlot (Some g) run b = (False, Some g)"
  by (simp add: idle_gate_def ensureExecutionSlot_def EnsureActive_def TryAcquire_def)

lemma start_job_idle: "idle_gate g \<Longrightarrow> snd (start_job env (Some g) run) = Some g"
  by (simp add: start_job_def create_job_def Let_def split: option.split sum.split prod.split)

lemma follow_job_idle: "idle_gate g \<Longrightarrow> snd (follow_job env (Some g) run name) = Some g"
  by (simp add: follow_job_def Let_def split: sum.split option.split)

lemma reconcile_idle: "idle_gate g \<Longrightarrow> snd (TerraformRun_Reconcile env (Some g)) = Some g"
  by (simp add: TerraformRun_Reconcile_def admit_run_def Let_def start_job_idle follow_job_idle
      split: sum.split option.split prod.split)

lemma reconciles_idle:
  "idle_gate g \<Longrightarrow> fold (\<lambda>env h. snd (TerraformRun_Reconcile env h)) envs (Some g) = Some g"
  by (induction envs) (simp_all add: reconcile_idle)

lemma idle_starts_no_job:
  assumes "idle_gate g"
  shows "CreateJobW j \<notin> set (fst (fst (TerraformRun_Reconcile env (Some g))))"
proof (cases "re_get_run env")
  case (Inl e)
  then show ?thesis by (simp add: reconcile_no_run)
next
  case (Inr run)
  have "\<not> may_start env (Some g) run" using assms by (simp add: may_start_def)
  with reconcile_cases [OF Inr, of "Some g"] show ?thesis using status_only_no_job by blast
qed

lemma positiveEnvInt_pos: "0 < fallback \<Longrightarrow> 0 < positiveEnvInt getenv name fallback"
  by (auto simp: positiveEnvInt_def split: option.split)

text \<open>
  C22. The controller starts closed: whatever the environment, and however many reconciles run before the executions have
  been reconstructed, the gate of the process stays as it was made, with positive limits, no reconcile creates a Job,
  and the elected leader is not ready while a standby is.
\<close>
theorem no_job_before_reconstruction:
  "fold (\<lambda>env g. snd (TerraformRun_Reconcile env g)) envs (Some (controller_gate getenv)) = Some (controller_gate getenv)
   \<and> CreateJobW j \<notin> set (fst (fst (TerraformRun_Reconcile env
        (fold (\<lambda>env g. snd (TerraformRun_Reconcile env g)) envs (Some (controller_gate getenv))))))
   \<and> 0 < maxPlans (controller_gate getenv) \<and> 0 < maxApplies (controller_gate getenv)
   \<and> leaderExecutionReady True (controller_gate getenv) \<noteq> None
   \<and> leaderExecutionReady False (controller_gate getenv) = None"
proof -
  have "\<not> Ready (controller_gate getenv)"
    by (simp add: controller_gate_def CloseAdmission_def NewGate_def Ready_def)
  moreover have "0 < maxPlans (controller_gate getenv)" "0 < maxApplies (controller_gate getenv)"
    by (simp_all add: controller_gate_def CloseAdmission_def NewGate_def positiveEnvInt_pos)
  ultimately show ?thesis
    using controller_gate_idle [of getenv]
    by (simp add: reconciles_idle idle_starts_no_job leaderExecutionReady_def ReadyCheck_def)
qed

subsection \<open>Where the clients of the targets come from\<close>

definition target_key :: "hash \<Rightarrow> runtime_target_identity \<Rightarrow> string" where
  "target_key sha i = Digest sha (target_identity_json i)"

text \<open>Every client of a factory is one \<open>S\<close> holds of, under the key of its identity.\<close>

definition factory_serves ::
  "hash \<Rightarrow> (runtime_target_identity \<Rightarrow> target_connection_profile \<Rightarrow> 'c \<Rightarrow> bool) \<Rightarrow> 'c client_factory \<Rightarrow> bool" where
  "factory_serves sha S f \<longleftrightarrow>
     (\<forall>d c p. cf_clients f d = Some c \<and> cf_profiles f d = Some p \<longrightarrow> (\<exists>i. target_key sha i = d \<and> S i p c))"

lemma empty_factory_serves: "factory_serves sha S NewTargetClientFactory"
  by (simp add: factory_serves_def NewTargetClientFactory_def)

lemma register_serves:
  "factory_serves sha S f \<Longrightarrow> Register sha f i p (Some c) = Inr f' \<Longrightarrow> S i p c \<Longrightarrow> factory_serves sha S f'"
  by (auto simp: Register_def factory_serves_def target_key_def Let_def split: if_splits)

lemma entries_serve:
  "register_entries sha ts es fc = Inr fc' \<Longrightarrow> factory_serves sha S (fst fc) \<Longrightarrow>
   (\<And>e c. e \<in> set es \<Longrightarrow> entry_client ts e = Inr c \<Longrightarrow> S (tgt_Identity e) (tgt_Connection e) c) \<Longrightarrow>
   factory_serves sha S (fst fc')"
proof (induction es arbitrary: fc)
  case (Cons e es)
  obtain f first where fc: "fc = (f, first)" by fastforce
  from Cons.prems(1) obtain c f1 where c: "entry_client ts e = Inr c"
    and r: "Register sha f (tgt_Identity e) (tgt_Connection e) (Some c) = Inr f1"
    and rest: "register_entries sha ts es (f1, or_first first c) = Inr fc'" by (auto simp: fc)
  have "factory_serves sha S (fst (f1, or_first first c))"
    using register_serves [OF _ r] Cons.prems(2,3) c by (simp add: fc)
  then show ?case using Cons.IH [OF rest] Cons.prems(3) by simp
qed simp

lemma contexts_serve:
  "register_contexts sha ts names fc = Inr fc' \<Longrightarrow> factory_serves sha S (fst fc) \<Longrightarrow>
   (\<And>name k c m. name \<in> set names \<Longrightarrow> ts_config ts (ts_getenv ts ''PCP_KUBECONFIG'') name = Inr k \<Longrightarrow>
      ts_dynamic ts k = Inr c \<Longrightarrow> MaterializeTarget (kind_expectation name) = Inr m \<Longrightarrow>
      S (mt_RuntimeTargetIdentity m) (mt_TargetConnectionProfile m) c) \<Longrightarrow>
   factory_serves sha S (fst fc')"
proof (induction names arbitrary: fc)
  case (Cons name names)
  obtain f first where fc: "fc = (f, first)" by fastforce
  from Cons.prems(1) obtain k c m f1 where c: "ts_config ts (ts_getenv ts ''PCP_KUBECONFIG'') name = Inr k"
      "ts_dynamic ts k = Inr c" "MaterializeTarget (kind_expectation name) = Inr m"
    and r: "Register sha f (mt_RuntimeTargetIdentity m) (mt_TargetConnectionProfile m) (Some c) = Inr f1"
    and rest: "register_contexts sha ts names (f1, or_first first c) = Inr fc'" by (auto simp: fc)
  have "factory_serves sha S (fst (f1, or_first first c))"
    using register_serves [OF _ r] Cons.prems(2) Cons.prems(3) [OF _ c] by (simp add: fc)
  with Cons.prems(3) show ?case by (intro Cons.IH [OF rest]) auto
qed simp

text \<open>
  A client of the targets file: made for the connection of an entry, from the explicit kubeconfig, and checked
  against the cluster; and a client of a configured context, which takes the identity kind.
\<close>

definition from_targets_file ::
  "('k, 'c) target_setup \<Rightarrow> runtime_target_identity \<Rightarrow> target_connection_profile \<Rightarrow> 'c \<Rightarrow> bool" where
  "from_targets_file ts i p c \<longleftrightarrow>
     (\<exists>content entries e k. ts_file ts (ts_getenv ts ''PCP_TARGETS_FILE'') = Inr content
        \<and> ts_decode ts content = Inr entries \<and> e \<in> set entries \<and> tgt_Identity e = i \<and> tgt_Connection e = p
        \<and> rti_Provider i = ProviderKubernetes \<and> ts_getenv ts ''PCP_KUBECONFIG'' \<noteq> []
        \<and> ts_config ts (ts_getenv ts ''PCP_KUBECONFIG'') (tcp_KubeContext p) = Inr k
        \<and> ts_kube ts k = Inr (Inr (rti_IncarnationID i)) \<and> ts_dynamic ts k = Inr c)"

definition from_context ::
  "('k, 'c) target_setup \<Rightarrow> runtime_target_identity \<Rightarrow> target_connection_profile \<Rightarrow> 'c \<Rightarrow> bool" where
  "from_context ts i p c \<longleftrightarrow>
     (\<exists>name k m. name \<in> set (target_contexts (ts_getenv ts))
        \<and> ts_config ts (ts_getenv ts ''PCP_KUBECONFIG'') name = Inr k \<and> ts_dynamic ts k = Inr c
        \<and> MaterializeTarget (kind_expectation name) = Inr m
        \<and> mt_RuntimeTargetIdentity m = i \<and> mt_TargetConnectionProfile m = p)"

abbreviation configured :: "('k, 'c) target_setup \<Rightarrow> runtime_target_identity \<Rightarrow> target_connection_profile \<Rightarrow> 'c \<Rightarrow> bool" where
  "configured ts i p c \<equiv> from_targets_file ts i p c \<or> from_context ts i p c"

lemma entry_client_source:
  "entry_client ts e = Inr c \<Longrightarrow> rti_Provider (tgt_Identity e) = ProviderKubernetes
     \<and> ts_getenv ts ''PCP_KUBECONFIG'' \<noteq> [] \<and> (\<exists>k.
       ts_config ts (ts_getenv ts ''PCP_KUBECONFIG'') (tcp_KubeContext (tgt_Connection e)) = Inr k
       \<and> ts_kube ts k = Inr (Inr (rti_IncarnationID (tgt_Identity e))) \<and> ts_dynamic ts k = Inr c)"
  by (auto simp: entry_client_def entry_error_def Let_def split: if_splits)

lemma file_targets_serve:
  assumes "file_targets sha ts = Inr (Some fc)"
  shows "factory_serves sha (configured ts) (fst fc)"
proof -
  from assms obtain content entries where d: "ts_file ts (ts_getenv ts ''PCP_TARGETS_FILE'') = Inr content"
      "ts_decode ts content = Inr entries"
    and r: "register_entries sha ts entries (NewTargetClientFactory, None) = Inr fc"
    by (auto simp: file_targets_def Let_def split: if_splits)
  show ?thesis
  proof (rule entries_serve [OF r])
    fix e c
    assume "e \<in> set entries" and "entry_client ts e = Inr c"
    then show "configured ts (tgt_Identity e) (tgt_Connection e) c"
      using d entry_client_source [of ts e c] by (auto simp: from_targets_file_def)
  qed (simp add: empty_factory_serves)
qed

lemma buildTargetClient_serves:
  assumes "buildTargetClient sha ts = Inr (Some tc)" and "tc_Kubeconfig tc = Some f"
  shows "factory_serves sha (configured ts) f"
proof -
  let ?names = "target_contexts (ts_getenv ts)"
  from assms obtain from_file where ff: "file_targets sha ts = Inr from_file"
    and made: "(?names = [] \<and> from_file \<noteq> None \<and> f = fst (the from_file)) \<or>
      (?names \<noteq> [] \<and> (\<exists>fc. register_contexts sha ts ?names
         (case from_file of None \<Rightarrow> (NewTargetClientFactory, None) | Some r \<Rightarrow> r) = Inr fc \<and> f = fst fc))"
    by (auto simp: buildTargetClient_def Let_def split: if_splits option.splits)
  have read: "from_file = Some r \<Longrightarrow> factory_serves sha (configured ts) (fst r)" for r
    using file_targets_serve ff by blast
  then have start: "factory_serves sha (configured ts)
      (fst (case from_file of None \<Rightarrow> (NewTargetClientFactory, None) | Some r \<Rightarrow> r))"
    by (simp add: empty_factory_serves split: option.split)
  from made show ?thesis
  proof (elim disjE conjE exE)
    fix fc
    assume "register_contexts sha ts ?names (case from_file of None \<Rightarrow> (NewTargetClientFactory, None) | Some r \<Rightarrow> r) = Inr fc"
      and "f = fst fc"
    then show ?thesis using contexts_serve [OF _ start] by (fastforce simp: from_context_def)
  qed (use read in auto)
qed

text \<open>
  C23. No target gets a client that was not configured for it. Whatever binding the ResourceSet controller asks with,
  outside EKS: the binding is valid, the client is of an entry of the targets file with this very connection, loaded
  from the explicit kubeconfig and checked against the UID of its cluster, or of a configured context, with an identity
  of the same digest; and a cluster with an incarnation still has it when asked.
\<close>
theorem only_configured_targets_have_clients:
  assumes "buildTargetClient sha ts = Inr (Some tc)" and "target_resolver sha uid eks tc i p = Inr c"
    and "tcp_AuthMode p \<noteq> AuthAWSEKS"
  shows "ValidateBinding i p = None \<and> (rti_Provider i = ProviderKubernetes \<longrightarrow> uid c = Inr (rti_IncarnationID i))
     \<and> (\<exists>i'. target_key sha i' = target_key sha i \<and> (from_targets_file ts i' p c \<or> from_context ts i' p c))"
proof -
  obtain f where f: "tc_Kubeconfig tc = Some f" and c: "Factory_Client sha uid f i p = Inr c"
    using assms(2,3) by (auto simp: target_resolver_def ProviderClientResolver_Client_def split: if_splits option.splits)
  have "ValidateBinding i p = None" and r: "registered_for sha uid f i p c"
    using factory_resolver.bound [OF c] by auto
  then show ?thesis
    using buildTargetClient_serves [OF assms(1) f]
    by (auto simp: registered_for_def factory_serves_def target_key_def)
qed

definition sample_setup :: "(nat, nat) target_setup" where
  "sample_setup = \<lparr>ts_getenv = (\<lambda>v. if v = ''PCP_TARGETS_FILE'' then ''targets'' else if v = ''PCP_KUBECONFIG'' then ''kc'' else []),
     ts_file = (\<lambda>_. Inr ''content''),
     ts_decode = (\<lambda>_. Inr [\<lparr>tgt_Identity = sample_identity, tgt_Connection = sample_connection\<rparr>]),
     ts_config = (\<lambda>_ _. Inr 3), ts_kube = (\<lambda>_. Inr (Inr ''u'')), ts_dynamic = (\<lambda>k. Inr (k + 4))\<rparr>"

theorem only_configured_targets_have_clients_witness:
  "\<exists>i'. target_key (\<lambda>s. s) i' = target_key (\<lambda>s. s) sample_identity
      \<and> (from_targets_file sample_setup i' sample_connection 7 \<or> from_context sample_setup i' sample_connection 7)"
proof -
  have m: "tcp_AuthMode sample_connection \<noteq> AuthAWSEKS" by code_simp
  have "\<not> isl (buildTargetClient (\<lambda>s. s) sample_setup)" by code_simp
  moreover have "\<not> isl (sum_bind (buildTargetClient (\<lambda>s. s) sample_setup) (\<lambda>r. case r of None \<Rightarrow> Inl (Err []) | Some tc \<Rightarrow>
      sum_bind (target_resolver (\<lambda>s. s) (\<lambda>_. Inr ''u'') (\<lambda>_ _. Inl (Err [])) tc sample_identity sample_connection)
        (\<lambda>c. if c = 7 then Inr () else Inl (Err []))))" by code_simp
  ultimately obtain tc where tc: "buildTargetClient (\<lambda>s. s) sample_setup = Inr (Some tc)"
    and c: "target_resolver (\<lambda>s. s) (\<lambda>_. Inr ''u'') (\<lambda>_ _. Inl (Err [])) tc sample_identity sample_connection = Inr 7"
    by (auto simp: sum_bind_def split: sum.splits option.splits if_splits)
  show ?thesis using only_configured_targets_have_clients [OF tc c m] by blast
qed

end
