(* ===== verification/Spec2Isabelle.thy ===== *)
theory Spec2Isabelle
  imports Jobs Artifacts TargetAdapters RunSlots StackSafety EnvSafety ResourceSafety PlanView SourceRound RunnerSafety
    ClassSafety BootstrapBounds EntryPoints
begin

text \<open>
  Verification of the Kubernetes platform control plane.

  The program. Users declare a PlatformEnvironment. Its controller admits it by an
  EnvironmentClass and the quota of its namespace, and keeps two children: an InfraStack (the
  infrastructure, built by Terraform) and a ResourceSet (the objects in the target cluster). The
  InfraStack controller plans with a TerraformRun, waits for a ChangeApproval, applies exactly the
  saved plan with a second TerraformRun, and trusts the target cluster it discovers only when an
  independent verifier confirms it. The TerraformRun controller takes a slot of the execution gate
  and turns a run into one Kubernetes Job, whose runner leaves its evidence in an immutable
  artifact store; an outcome counts only when that evidence verifies. The ResourceSet controller
  applies, observes and prunes the objects of the target cluster. Deletion runs the other way,
  each step behind a fence and with evidence that the previous one is complete.

  The theories, with the code they model.
  \<^item> Prelude, Url: errors, the log of writes of a reconciler, Go's strings, paths, JSON text and
    URLs, as far as the program uses them.
  \<^item> ApiTypes: api/v1alpha1/types.go as records and enumerations, with their JSON where a digest
    is taken of it.
  \<^item> Gate: internal/reliability/gate.go, each method a function on the gate; the mutex makes each
    method one step.
  \<^item> TerraformJob: internal/cloud/emulator.go and internal/terraform/identity.go, backend.go,
    module.go; Jobs: internal/terraform/job.go.
  \<^item> Artifacts: internal/artifacts/s3.go over the three calls of S3.
  \<^item> Target, TargetAdapters: internal/target, the identity of a target cluster, its discovery and
    the clients bound to it.
  \<^item> ControllerBase: conditions.go, execution_profile.go and the helpers the controllers share.
  \<^item> RunCtl: terraformrun_controller.go, one reconcile as a function from what it reads to the log
    of its writes, its result and the gate; RunSafety proves its safety; RunSlots models
    terraformrun_reconstruction.go and joins the controller with the gate.
  \<^item> Runs, StackCtl: infrastack_controller.go, the runs it builds and its reconcile; StackSafety
    proves its safety.
  \<^item> EnvClass: environmentclass.go and environmentclass_controller.go. EnvCtl:
    platformenvironment_controller.go; EnvSafety proves its safety.
  \<^item> Runtime: internal/runtime; RuntimeOrder: what a bootstrap sends, in order; BootstrapBounds:
    that it ends, and after how many requests. ResourceCtl:
    resourceset_controller.go; ResourceSafety proves its safety.
  \<^item> PlanView: internal/planview/plan.go, the secret-free view of a plan.
  \<^item> Executor: internal/terraform/executor.go, the Terraform commands of a Plan and an Apply.
    SourceBundle: internal/terraform/sourcebundle.go over a file system with symbolic links;
    SourceSafety: where a restore can write; SourceRound: what a bundle holds, and the round trip.
  \<^item> Runner: cmd/terraform-runner/main.go, the program inside a runner Job, over the files of its
    Pod, the bucket and the log of its commands; RunnerSafety: what it may run and what it reports.
  \<^item> Json, UrlText: the reader of encoding/json and the printer of net/url, which the console rests on.
    ReadModel, Drafts, Console, ConsoleClasses, ConsoleRoutes: internal/console, its readmodel.go, ai.go, server.go,
    classes.go and class\_templates.go; ConsoleSafety: what the console writes, and an approval up to
    its admission by the InfraStack controller; DraftSafety: what a draft may say and where its request
    may go; ConsoleChecks: what the console creates and previews; ClassSafety: what is shown of a class,
    and the agreement of the console with the admission by the class.
  \<^item> EntryPoints: what cmd/controller and cmd/platform-api decide before they serve: their settings, the
    closed execution gate, the clients of the target clusters, readiness and the address of the console.

  How a reconciler is modelled. Its reads are the fields of an environment record (what the API
  server, the store and the clock answer), its writes a list in order, its result a value or an
  error. After a write that succeeds the object in memory is what was sent, except where a field of
  the environment gives the server's answer; a write the API server refuses is an error of the
  environment. Histories of a run (RunSafety) interleave reconciles with stale reads, refused writes
  and crashes between any two writes. The target cluster is a function of the requests it has
  received, newest first, so that other writers and failures are covered.

  How the console is modelled. A handler is a function from the environment (what the cluster, the clock,
  the store and the generator answer), the path values and the body to the writes it sends, in order,
  and its reply. The API server answers a write with the object as it stores it.

  How the runner is modelled. Its steps are functions on a machine, the log of the commands run so
  far and the world they act on; a command is a process given by the environment, which may change
  the files and what lies outside. Invariants are relations between the machines before and after a
  step that every sequence of such steps keeps.

  Parameters. SHA-256, tar and zstd, the JSON, HCL and YAML decoders, S3, the AWS and Kubernetes clients and the
  Terraform binary are arguments of the definitions that use them; what is relied on is a hypothesis
  (s3_conforms, the laws of the locales) with a witness over a concrete instance.

  What the lemmas show. Gate: limits, counters and exclusion over every reachable gate. Runs and
  RunSafety: one Job per run, no Job without intent and approval, no success without the evidence that
  evidence_for spells out. StackSafety: no Apply without the approval of its Plan, convergence only with a
  verified target, finalizers only with evidence of removal. EnvSafety, ResourceSafety,
  RuntimeOrder: when a runtime is open, what may be sent to it and in which order, and what a
  deletion waits for. Artifacts, TargetAdapters, TerraformJob, Jobs: what the pieces these rest on
  promise. PlanView: what the console may show. SourceSafety, SourceRound: a restore stays inside its
  destination and gives back what was packed. RunnerSafety: nothing is applied that was not
  verified, the version of the binary included, and the terminal result agrees with the exit codes of what was run. ConsoleSafety: every write of the console is
  guarded by what the cluster says, and what it approves the controller admits. DraftSafety,
  ConsoleChecks, ClassSafety: the assistant keeps to the request and to its two origins, a preview is what is
  created, the console and the controllers agree, and a class is shown without the credentials its names give away;
  what counts as a secret, a credential or a wish for a cache is said there and in PlanView apart from the code. EntryPoints: nothing
  is started before the executions of the last leader are accounted for, and a client of a target is one that
  was configured.

  Bounds. Only the reader of JSON counts down a fuel, the length of its text, which json_read_enough shows to be
  enough; the loops of the code run over lists, apply_waves shortens its
  list in every step, and resolving a path follows at most as many links as the system allows (40 for
  a call of the kernel, 255 for EvalSymlinks).

  Strings are bytes. Folding of case and trimming of blanks act on ASCII; Go's also act on other letters and
  blanks of Unicode, which no property turns on.

  Not modelled. Generated deep copies, scheme registration, metrics, watches, signals and the registration
  of controllers and probes with the managers carry no logic of their own. The permissions of files and faults of the disk are left
  out, and so are the request log of the console and the hook of its tests that counts tokens.
\<close>

end
